(* ===== verification/Prelude.thy ===== *)
theory Prelude
  imports Main "HOL-Library.Word" "HOL-Library.Code_Target_Nat"
begin

text \<open>
  Shared vocabulary of the development.

  \<^item> A \<open>uint8_t\<close> or \<open>unsigned char\<close> is an 8-bit word (\<open>byte\<close>); a buffer \<open>(ptr, len)\<close> is a
    \<open>byte list\<close>, and a C string is the list of its bytes without the terminating NUL.
    Reading a C string at its end yields the NUL (\<open>cat\<close>); \<open>cstr\<close> cuts a buffer at its first
    NUL, which is what the C string functions see of it.
  \<^item> The return codes of \<open>wolfcert/errors.h\<close> are the datatype \<open>wc_rc\<close>; a function that returns
    a code and fills outputs returns \<open>wc_rc + 'a\<close>, with \<open>Inl\<close> for every code but
    \<open>WOLFCERT_OK\<close>.
  \<^item> \<open>WOLFCERT_XMALLOC\<close> can fail at each call. A function that allocates takes an oracle
    \<open>mem\<close>: \<open>mem i\<close> says whether the \<open>i\<close>-th allocation of that call succeeds.
  \<^item> \<open>size_t\<close> values are \<open>nat\<close>; where an arithmetic step of the source can wrap, the reduction
    modulo \<open>2 ^ 64\<close> is written out.
\<close>

section \<open>Bytes and C strings\<close>

type_synonym byte = "8 word"
type_synonym cstring = "byte list"
type_synonym mem = "nat \<Rightarrow> bool"

named_theorems wc_defs \<open>definitions unfolded to evaluate the model on concrete input\<close>
named_theorems wc_len \<open>length bounds that termination and safety proofs share\<close>

definition lit :: "string \<Rightarrow> byte list" where
  "lit s = map of_char s"

definition cat :: "byte list \<Rightarrow> nat \<Rightarrow> byte" where
  "cat s i = (if i < length s then s ! i else 0)"

definition cstr :: "byte list \<Rightarrow> cstring" where
  "cstr bs = takeWhile (\<lambda>b. b \<noteq> 0) bs"

abbreviation (input) b_NUL :: byte where "b_NUL \<equiv> 0"
abbreviation (input) b_HT :: byte where "b_HT \<equiv> 9"
abbreviation (input) b_LF :: byte where "b_LF \<equiv> 10"
abbreviation (input) b_CR :: byte where "b_CR \<equiv> 13"
abbreviation (input) b_SP :: byte where "b_SP \<equiv> 32"
abbreviation (input) b_hash :: byte where "b_hash \<equiv> 35"
abbreviation (input) b_percent :: byte where "b_percent \<equiv> 37"
abbreviation (input) b_amp :: byte where "b_amp \<equiv> 38"
abbreviation (input) b_comma :: byte where "b_comma \<equiv> 44"
abbreviation (input) b_minus :: byte where "b_minus \<equiv> 45"
abbreviation (input) b_plus :: byte where "b_plus \<equiv> 43"
abbreviation (input) b_dot :: byte where "b_dot \<equiv> 46"
abbreviation (input) b_slash :: byte where "b_slash \<equiv> 47"
abbreviation (input) b_0 :: byte where "b_0 \<equiv> 48"
abbreviation (input) b_9 :: byte where "b_9 \<equiv> 57"
abbreviation (input) b_colon :: byte where "b_colon \<equiv> 58"
abbreviation (input) b_semi :: byte where "b_semi \<equiv> 59"
abbreviation (input) b_eq :: byte where "b_eq \<equiv> 61"
abbreviation (input) b_quest :: byte where "b_quest \<equiv> 63"
abbreviation (input) b_A :: byte where "b_A \<equiv> 65"
abbreviation (input) b_F :: byte where "b_F \<equiv> 70"
abbreviation (input) b_Z :: byte where "b_Z \<equiv> 90"
abbreviation (input) b_lbrack :: byte where "b_lbrack \<equiv> 91"
abbreviation (input) b_rbrack :: byte where "b_rbrack \<equiv> 93"
abbreviation (input) b_a :: byte where "b_a \<equiv> 97"
abbreviation (input) b_f :: byte where "b_f \<equiv> 102"
abbreviation (input) b_z :: byte where "b_z \<equiv> 122"

definition is_dig :: "byte \<Rightarrow> bool" where
  "is_dig c \<longleftrightarrow> b_0 \<le> c \<and> c \<le> b_9"

definition dval :: "byte \<Rightarrow> nat" where
  "dval c = unat c - 48"

definition dchar :: "nat \<Rightarrow> byte" where
  "dchar d = of_nat (48 + d)"

declare lit_def [wc_defs] cat_def [wc_defs] cstr_def [wc_defs] is_dig_def [wc_defs] dval_def [wc_defs]

lemma cat_Nil [simp]: "cat [] i = 0"
  by (simp add: cat_def)

lemma cat_Cons_0 [simp]: "cat (c # s) 0 = c"
  by (simp add: cat_def)

lemma cat_Cons_Suc [simp]: "cat (c # s) (Suc i) = cat s i"
  by (simp add: cat_def)

lemma cat_append_left [simp]: "i < length s \<Longrightarrow> cat (s @ t) i = cat s i"
  by (simp add: cat_def nth_append)

lemma cat_append_right [simp]: "cat (s @ t) (length s + i) = cat t i"
  by (simp add: cat_def nth_append)

lemma cat_drop: "cat (drop n s) i = cat s (n + i)"
  by (cases "n \<le> length s") (auto simp: cat_def)

lemma lit_simps [simp]:
  "lit [] = []" "lit (c # s) = of_char c # lit s"
  by (simp_all add: lit_def)

lemma lit_append [simp]: "lit (s @ t) = lit s @ lit t"
  by (simp add: lit_def)

lemma length_lit [simp]: "length (lit s) = length s"
  by (simp add: lit_def)

lemma cstr_no_nul: "0 \<notin> set (cstr bs)"
  by (auto simp: cstr_def dest: set_takeWhileD)

lemma cstr_id: "0 \<notin> set s \<Longrightarrow> cstr s = s"
  unfolding cstr_def by (rule takeWhile_eq_all_conv [THEN iffD2]) auto

lemma length_cstr_le [simp, wc_len]: "length (cstr bs) \<le> length bs"
  by (simp add: cstr_def length_takeWhile_le)

lemma unat_byte_less [simp]: "unat (b :: byte) < 256"
  using unsigned_less [of b] by simp

lemma unat_of_nat_byte [simp]: "n < 256 \<Longrightarrow> unat (of_nat n :: byte) = n"
  by (simp add: unat_of_nat)

lemma is_dig_unat: "is_dig c \<longleftrightarrow> 48 \<le> unat c \<and> unat c \<le> 57"
  by (simp add: is_dig_def word_le_nat_alt)

lemma dval_less: "is_dig c \<Longrightarrow> dval c < 10"
  by (auto simp: is_dig_unat dval_def)

lemma unat_dchar: "d < 10 \<Longrightarrow> unat (dchar d) = 48 + d"
  by (simp only: dchar_def unat_of_nat) simp

lemma is_dig_dchar [simp]: "d < 10 \<Longrightarrow> is_dig (dchar d)"
  by (simp add: is_dig_unat unat_dchar)

lemma dval_dchar [simp]: "d < 10 \<Longrightarrow> dval (dchar d) = d"
  by (simp add: dval_def unat_dchar)

lemma dchar_dval: "is_dig c \<Longrightarrow> dchar (dval c) = c"
  by (rule word_unat_eq_iff [THEN iffD2])
    (auto simp: is_dig_unat dval_def unat_dchar)

lemma dval_eq_0: "is_dig c \<Longrightarrow> dval c = 0 \<longleftrightarrow> c = 48"
  by (auto simp: is_dig_unat dval_def word_unat_eq_iff)

lemma dchar_eq_0 [simp]: "d < 10 \<Longrightarrow> dchar d = 48 \<longleftrightarrow> d = 0"
  using unat_dchar [of d] by (auto simp: dchar_def)

section \<open>Arithmetic of \<open>size_t\<close>\<close>

definition size_add :: "nat \<Rightarrow> nat \<Rightarrow> nat" where
  "size_add a b = (a + b) mod 2 ^ 64"

definition size_sub :: "nat \<Rightarrow> nat \<Rightarrow> nat" where
  "size_sub a b = (a + 2 ^ 64 - b) mod 2 ^ 64"

lemma size_add_exact: "a + b < 2 ^ 64 \<Longrightarrow> size_add a b = a + b"
  by (simp add: size_add_def)

lemma size_sub_exact: "b \<le> a \<Longrightarrow> a < 2 ^ 64 \<Longrightarrow> size_sub a b = a - b"
proof -
  assume "b \<le> a" "a < 2 ^ 64"
  moreover from this have "a + 2 ^ 64 - b = (a - b) + 2 ^ 64" by simp
  ultimately show ?thesis by (simp only: size_sub_def mod_add_self2) simp
qed

section \<open>Return codes\<close>

datatype wc_rc =
    WOLFCERT_OK
  | WOLFCERT_ERR_GENERIC
  | WOLFCERT_ERR_BAD_ARG
  | WOLFCERT_ERR_MEMORY
  | WOLFCERT_ERR_IO
  | WOLFCERT_ERR_TLS
  | WOLFCERT_ERR_HTTP
  | WOLFCERT_ERR_PROTOCOL
  | WOLFCERT_ERR_AUTH
  | WOLFCERT_ERR_CRYPTO
  | WOLFCERT_ERR_PARSE
  | WOLFCERT_ERR_NOT_FOUND
  | WOLFCERT_ERR_UNSUPPORTED
  | WOLFCERT_ERR_PENDING
  | WOLFCERT_ERR_WANT_READ
  | WOLFCERT_ERR_WANT_WRITE
  | WOLFCERT_ERR_CONN_CLOSED

fun rc_code :: "wc_rc \<Rightarrow> int" where
  "rc_code WOLFCERT_OK = 0"
| "rc_code WOLFCERT_ERR_GENERIC = -1"
| "rc_code WOLFCERT_ERR_BAD_ARG = -2"
| "rc_code WOLFCERT_ERR_MEMORY = -3"
| "rc_code WOLFCERT_ERR_IO = -4"
| "rc_code WOLFCERT_ERR_TLS = -5"
| "rc_code WOLFCERT_ERR_HTTP = -6"
| "rc_code WOLFCERT_ERR_PROTOCOL = -7"
| "rc_code WOLFCERT_ERR_AUTH = -8"
| "rc_code WOLFCERT_ERR_CRYPTO = -9"
| "rc_code WOLFCERT_ERR_PARSE = -10"
| "rc_code WOLFCERT_ERR_NOT_FOUND = -11"
| "rc_code WOLFCERT_ERR_UNSUPPORTED = -12"
| "rc_code WOLFCERT_ERR_PENDING = -13"
| "rc_code WOLFCERT_ERR_WANT_READ = -14"
| "rc_code WOLFCERT_ERR_WANT_WRITE = -15"
| "rc_code WOLFCERT_ERR_CONN_CLOSED = -16"

type_synonym 'a wc_result = "wc_rc + 'a"

abbreviation (input) Ok :: "'a \<Rightarrow> 'a wc_result" where "Ok \<equiv> Inr"
abbreviation (input) Err :: "wc_rc \<Rightarrow> 'a wc_result" where "Err \<equiv> Inl"

lemma rc_code_inj: "rc_code a = rc_code b \<longleftrightarrow> a = b"
  by (cases a; cases b; simp)

section \<open>Lists\<close>

lemma takeWhile_append_stop:
  "(\<forall>x \<in> set xs. P x) \<Longrightarrow> \<not> P y \<Longrightarrow> takeWhile P (xs @ y # ys) = xs"
  by (induction xs) auto

lemma dropWhile_append_stop:
  "(\<forall>x \<in> set xs. P x) \<Longrightarrow> \<not> P y \<Longrightarrow> dropWhile P (xs @ y # ys) = y # ys"
  by (induction xs) auto

lemma length_dropWhile_le [simp, wc_len]: "length (dropWhile P xs) \<le> length xs"
  by (induction xs) auto

end
