(* ===== verification/Ip.thy ===== *)
theory Ip
  imports Prelude
begin

text \<open>
  Textual IP addresses and hexadecimal text: \<open>parse_octet\<close>, \<open>parse_ipv4\<close>, \<open>hex_digit\<close>,
  \<open>group_is_ipv4\<close>, \<open>parse_ipv6\<close>, \<open>wolfcert_parse_ip\<close>, \<open>wolfcert_hex_encode\<close> and
  \<open>wolfcert_is_printable_string\<close> of \<open>src/internal.c\<close>. A \<open>const char**\<close> cursor is the list of
  the bytes that are left.
\<close>

section \<open>IPv4\<close>

function octet_loop :: "cstring \<Rightarrow> nat \<Rightarrow> nat \<Rightarrow> nat \<times> nat" where
  "octet_loop s n v =
     (if n < 3 \<and> is_dig (cat s n) then octet_loop s (Suc n) (v * 10 + dval (cat s n)) else (n, v))"
  by pat_completeness auto
termination
  by (relation "measure (\<lambda>(s, n, v). 3 - n)") auto

declare octet_loop.simps [simp del]

definition parse_octet :: "cstring \<Rightarrow> (nat \<times> cstring) option" where
  "parse_octet s =
     (case octet_loop s 0 0 of (n, v) \<Rightarrow>
        if n = 0 \<or> v > 255 \<or> (n > 1 \<and> cat s 0 = b_0) then None else Some (v, drop n s))"

fun parse_ipv4_loop :: "nat \<Rightarrow> cstring \<Rightarrow> byte list \<Rightarrow> byte list wc_result" where
  "parse_ipv4_loop 0 s out = (if cat s 0 = b_NUL then Ok out else Err WOLFCERT_ERR_PARSE)"
| "parse_ipv4_loop (Suc k) s out =
     (if out \<noteq> [] \<and> cat s 0 \<noteq> b_dot then Err WOLFCERT_ERR_PARSE
      else case parse_octet (if out \<noteq> [] then drop 1 s else s) of
             None \<Rightarrow> Err WOLFCERT_ERR_PARSE
           | Some (v, s') \<Rightarrow> parse_ipv4_loop k s' (out @ [of_nat v]))"

definition parse_ipv4 :: "cstring \<Rightarrow> byte list wc_result" where
  "parse_ipv4 s = parse_ipv4_loop 4 s []"

text \<open>The canonical text of an octet and of an address.\<close>

definition octet_text :: "nat \<Rightarrow> cstring" where
  "octet_text v =
     (if v < 10 then [dchar v]
      else if v < 100 then [dchar (v div 10), dchar (v mod 10)]
      else [dchar (v div 100), dchar (v div 10 mod 10), dchar (v mod 10)])"

fun ipv4_text :: "byte list \<Rightarrow> cstring" where
  "ipv4_text [] = []"
| "ipv4_text [b] = octet_text (unat b)"
| "ipv4_text (b # bs) = octet_text (unat b) @ b_dot # ipv4_text bs"

lemma octet_loop_unroll:
  "octet_loop s 0 0 =
     (if \<not> is_dig (cat s 0) then (0, 0)
      else if \<not> is_dig (cat s 1) then (1, dval (cat s 0))
      else if \<not> is_dig (cat s 2) then (2, dval (cat s 0) * 10 + dval (cat s 1))
      else (3, (dval (cat s 0) * 10 + dval (cat s 1)) * 10 + dval (cat s 2)))"
  by (simp add: octet_loop.simps [of s 0] octet_loop.simps [of s "Suc 0"]
      octet_loop.simps [of s "Suc (Suc 0)"] octet_loop.simps [of s "Suc (Suc (Suc 0))"]
      numeral_2_eq_2 numeral_3_eq_3)

lemma is_dig_0 [simp]: "\<not> is_dig 0"
  by (simp add: is_dig_def)

lemma is_dig_cat_length: "is_dig (cat s i) \<Longrightarrow> i < length s"
  by (auto simp: cat_def split: if_splits)

lemma parse_octet_text:
  assumes "v < 256" and "\<not> is_dig (cat t 0)"
  shows "parse_octet (octet_text v @ t) = Some (v, t)"
proof -
  consider "v < 10" | "10 \<le> v" "v < 100" | "100 \<le> v" by linarith
  then show ?thesis
  proof cases
    case 1
    then show ?thesis using assms
      by (simp add: parse_octet_def octet_loop_unroll octet_text_def)
  next
    case 2
    then have "v div 10 < 10" "v div 10 \<noteq> 0" by auto
    with 2 show ?thesis using assms
      by (simp add: parse_octet_def octet_loop_unroll octet_text_def numeral_2_eq_2)
  next
    case 3
    then have "v div 100 < 10" "v div 100 \<noteq> 0" using assms(1) by auto
    moreover have "(v div 100 * 10 + v div 10 mod 10) * 10 + v mod 10 = v"
    proof -
      have "v div 100 = v div 10 div 10" by (simp add: div_mult2_eq [symmetric])
      then show ?thesis by (metis div_mult_mod_eq)
    qed
    ultimately show ?thesis using assms 3
      by (simp add: parse_octet_def octet_loop_unroll octet_text_def numeral_2_eq_2 numeral_3_eq_3)
  qed
qed

lemma digits3:
  fixes a b c :: nat
  assumes "b < 10" "c < 10"
  shows "((a * 10 + b) * 10 + c) div 100 = a" "((a * 10 + b) * 10 + c) div 10 mod 10 = b"
    "((a * 10 + b) * 10 + c) mod 10 = c"
proof -
  have q: "(q * 10 + d) div 10 = q" "(q * 10 + d) mod 10 = d" if "d < 10" for q d :: nat
    using that by simp_all
  have "((a * 10 + b) * 10 + c) div 100 = ((a * 10 + b) * 10 + c) div 10 div 10"
    by (simp only: div_mult2_eq [symmetric]) simp
  then show "((a * 10 + b) * 10 + c) div 100 = a" using assms by (simp only: q)
  show "((a * 10 + b) * 10 + c) div 10 mod 10 = b" "((a * 10 + b) * 10 + c) mod 10 = c"
    using assms by (simp_all only: q)
qed

lemma parse_octet_SomeD:
  assumes "parse_octet s = Some (v, t)"
  shows "v < 256 \<and> s = octet_text v @ t"
proof -
  have split: "s = cat s 0 # drop 1 s" if "is_dig (cat s 0)" for s
    using is_dig_cat_length [OF that] by (cases s) auto
  consider (a) "\<not> is_dig (cat s 0)" | (b) "is_dig (cat s 0)" "\<not> is_dig (cat s 1)"
    | (c) "is_dig (cat s 0)" "is_dig (cat s 1)" "\<not> is_dig (cat s 2)"
    | (d) "is_dig (cat s 0)" "is_dig (cat s 1)" "is_dig (cat s 2)" by blast
  then show ?thesis
  proof cases
    case a
    with assms show ?thesis by (simp add: parse_octet_def octet_loop_unroll)
  next
    case b
    then have "octet_text (dval (cat s 0)) = [cat s 0]" "dval (cat s 0) < 10"
      by (simp_all add: octet_text_def dchar_dval dval_less)
    with b assms split [of s] show ?thesis
      by (auto simp: parse_octet_def octet_loop_unroll split: if_splits)
  next
    case c
    define x y where "x = cat s 0" and "y = cat s 1"
    have "s = x # y # drop 2 s" using is_dig_cat_length [OF c(2)]
      by (cases s; cases "tl s") (auto simp: x_def y_def)
    moreover have "x \<noteq> 48" "v = dval x * 10 + dval y" "t = drop 2 s"
      using assms c by (auto simp: parse_octet_def octet_loop_unroll x_def y_def split: if_splits)
    moreover have "is_dig x" "is_dig y" using c by (simp_all add: x_def y_def)
    moreover from this have "dval x < 10" "dval y < 10" by (simp_all add: dval_less)
    moreover have "dval x \<noteq> 0" using \<open>x \<noteq> 48\<close> \<open>is_dig x\<close> by (simp add: dval_eq_0)
    ultimately show ?thesis
      by (auto simp: octet_text_def dchar_dval)
  next
    case d
    define x y z where "x = cat s 0" and "y = cat s 1" and "z = cat s 2"
    have "s = x # y # z # drop 3 s" using is_dig_cat_length [OF d(3)]
      by (cases s; cases "tl s"; cases "tl (tl s)") (auto simp: x_def y_def z_def numeral_2_eq_2 numeral_3_eq_3)
    moreover have "x \<noteq> 48" "v = (dval x * 10 + dval y) * 10 + dval z" "t = drop 3 s" "v < 256"
      using assms d by (auto simp: parse_octet_def octet_loop_unroll x_def y_def z_def split: if_splits)
    moreover have "is_dig x" "is_dig y" "is_dig z" using d by (simp_all add: x_def y_def z_def)
    moreover from this have "dval x < 10" "dval y < 10" "dval z < 10" by (simp_all add: dval_less)
    moreover have "dval x \<noteq> 0" using \<open>x \<noteq> 48\<close> \<open>is_dig x\<close> by (simp add: dval_eq_0)
    moreover have "v div 100 = dval x" "v div 10 mod 10 = dval y" "v mod 10 = dval z"
      using calculation digits3 [of "dval y" "dval z" "dval x"] by metis+
    ultimately show ?thesis
      by (auto simp: octet_text_def dchar_dval)
  qed
qed

lemma parse_octet_iff:
  assumes "\<not> is_dig (cat t 0)"
  shows "parse_octet s = Some (v, t) \<longleftrightarrow> v < 256 \<and> s = octet_text v @ t"
  using parse_octet_SomeD parse_octet_text assms by blast

lemma octet_text_ne [simp]: "octet_text v \<noteq> []"
  by (simp add: octet_text_def)

lemma octet_text_digits: "v < 1000 \<Longrightarrow> c \<in> set (octet_text v) \<Longrightarrow> is_dig c"
  by (auto simp: octet_text_def split: if_splits)

text \<open>What is left to read when some octets have been read already.\<close>

fun ipv4_rest :: "bool \<Rightarrow> byte list \<Rightarrow> cstring" where
  "ipv4_rest first [] = []"
| "ipv4_rest first (b # bs) = (if first then [] else [b_dot]) @ octet_text (unat b) @ ipv4_rest False bs"

lemma ipv4_text_Cons:
  "ipv4_text (b # bs) = octet_text (unat b) @ (if bs = [] then [] else b_dot # ipv4_text bs)"
  by (cases bs) auto

lemma ipv4_rest_text: "ipv4_rest True bs = ipv4_text bs"
proof -
  have "ipv4_rest False bs = (if bs = [] then [] else b_dot # ipv4_text bs)" for bs
    by (induction bs) (auto simp: ipv4_text_Cons)
  then show ?thesis by (cases bs) (auto simp: ipv4_text_Cons)
qed

lemma not_is_dig_dot [simp]: "\<not> is_dig 46"
  by (simp add: is_dig_def)

lemma not_dig_ipv4_rest: "\<not> is_dig (cat (ipv4_rest False bs) 0)"
  by (cases bs) auto

lemma parse_ipv4_loop_complete:
  "length bs = k \<Longrightarrow> parse_ipv4_loop k (ipv4_rest (out = []) bs) out = Ok (out @ bs)"
proof (induction bs arbitrary: k out)
  case (Cons b bs)
  then obtain j where k: "k = Suc j" "length bs = j" by auto
  have "parse_octet (octet_text (unat b) @ ipv4_rest False bs) = Some (unat b, ipv4_rest False bs)"
    by (rule parse_octet_text [OF _ not_dig_ipv4_rest]) simp
  with Cons.IH [OF k(2), of "out @ [b]"] show ?case
    by (cases "out = []") (auto simp: k(1))
qed simp

lemma parse_ipv4_loop_sound:
  "0 \<notin> set s \<Longrightarrow> parse_ipv4_loop k s out = Ok res \<Longrightarrow>
     \<exists>bs. length bs = k \<and> res = out @ bs \<and> s = ipv4_rest (out = []) bs"
proof (induction k arbitrary: s out)
  case 0
  then show ?case by (cases s) (auto split: if_splits)
next
  case (Suc k)
  define u where "u = (if out \<noteq> [] then drop 1 s else s)"
  have dot: "s = (if out = [] then [] else [b_dot]) @ u"
    using Suc.prems(2) by (cases s) (auto simp: u_def split: if_splits)
  obtain v t where po: "parse_octet u = Some (v, t)" and
    rec: "parse_ipv4_loop k t (out @ [of_nat v]) = Ok res"
    using Suc.prems(2) by (auto simp: u_def split: if_splits option.splits)
  from parse_octet_SomeD [OF po] have v: "v < 256" and u: "u = octet_text v @ t" by auto
  have "0 \<notin> set t" using Suc.prems(1) dot u by auto
  from Suc.IH [OF this rec] obtain bs where bs: "length bs = k" "res = out @ of_nat v # bs"
    "t = ipv4_rest False bs" by auto
  have "unat (of_nat v :: byte) = v" using v by (simp add: unat_of_nat)
  then show ?case using bs dot u by (intro exI [of _ "of_nat v # bs"]) auto
qed

lemma parse_ipv4_correct:
  assumes "0 \<notin> set s"
  shows "parse_ipv4 s = Ok bs \<longleftrightarrow> length bs = 4 \<and> s = ipv4_text bs"
  using parse_ipv4_loop_sound [OF assms, of 4 "[]" bs] parse_ipv4_loop_complete [of bs 4 "[]"]
  by (auto simp: parse_ipv4_def ipv4_rest_text)

section \<open>IPv6\<close>

definition hex_digit :: "byte \<Rightarrow> nat option" where
  "hex_digit c =
     (if b_0 \<le> c \<and> c \<le> b_9 then Some (unat c - 48)
      else if b_a \<le> c \<and> c \<le> b_f then Some (unat c - 97 + 10)
      else if b_A \<le> c \<and> c \<le> b_F then Some (unat c - 65 + 10)
      else None)"

fun group_is_ipv4 :: "cstring \<Rightarrow> bool" where
  "group_is_ipv4 [] = False"
| "group_is_ipv4 (c # s) =
     (if c = b_NUL \<or> c = b_colon then False else if c = b_dot then True else group_is_ipv4 s)"

fun hex_run :: "nat \<Rightarrow> nat \<Rightarrow> cstring \<Rightarrow> nat \<times> nat \<times> cstring" where
  "hex_run n val [] = (n, val, [])"
| "hex_run n val (c # s) =
     (case (if n < 4 then hex_digit c else None) of
        None \<Rightarrow> (n, val, c # s)
      | Some d \<Rightarrow> hex_run (Suc n) (val * 16 + d) s)"

lemma length_hex_run [wc_len]:
  "hex_run n val s = (m, w, t) \<Longrightarrow> n \<le> m \<and> length t + m = length s + n"
  by (induction n val s rule: hex_run.induct) (fastforce split: option.splits if_splits)+

text \<open>
  The main loop of \<open>parse_ipv6\<close>: the buffer, the number of bytes filled, the offset of \<open>::\<close> and
  the cursor. \<open>None\<close> is the return of \<open>WOLFCERT_ERR_PARSE\<close> out of the loop.
\<close>

function v6_loop :: "byte list \<Rightarrow> nat \<Rightarrow> nat option \<Rightarrow> cstring \<Rightarrow> (byte list \<times> nat \<times> nat option) option" where
  "v6_loop buf filled gap s =
     (if cat s 0 = b_NUL then Some (buf, filled, gap)
      else if group_is_ipv4 s then
        if filled > 12 then None
        else (case parse_ipv4 s of
                Inl e \<Rightarrow> None
              | Inr v \<Rightarrow> Some (take filled buf @ v @ drop (filled + 4) buf, filled + 4, gap))
      else (case hex_run 0 0 s of (n, val, s1) \<Rightarrow>
        if n = 0 \<or> filled > 14 then None
        else let buf1 = buf[filled := of_nat (val div 256), Suc filled := of_nat (val mod 256)];
                 filled1 = filled + 2
             in if cat s1 0 = b_NUL then Some (buf1, filled1, gap)
                else if cat s1 0 \<noteq> b_colon then None
                else let s2 = drop 1 s1
                     in if cat s2 0 = b_colon then
                          (if gap \<noteq> None then None else v6_loop buf1 filled1 (Some filled1) (drop 1 s2))
                        else if cat s2 0 = b_NUL then None
                        else v6_loop buf1 filled1 gap s2))"
  by pat_completeness auto
termination
  by (relation "measure (\<lambda>(buf, filled, gap, s). length s)")
    (auto dest!: length_hex_run [OF sym])

declare v6_loop.simps [simp del]

definition v6_slide :: "byte list \<Rightarrow> nat \<Rightarrow> nat \<Rightarrow> byte list" where
  "v6_slide buf filled gap =
     (let tail = filled - gap;
          buf1 = fold (\<lambda>d b. b[15 - d := b ! (filled - 1 - d)]) [0..<tail] buf
      in fold (\<lambda>d b. b[d := 0]) [gap..<16 - tail] buf1)"

definition parse_ipv6 :: "cstring \<Rightarrow> byte list wc_result" where
  "parse_ipv6 s =
     (if cat s 0 = b_colon \<and> cat s 1 \<noteq> b_colon then Err WOLFCERT_ERR_PARSE
      else case (if cat s 0 = b_colon then v6_loop (replicate 16 0) 0 (Some 0) (drop 2 s)
                 else v6_loop (replicate 16 0) 0 None s) of
        None \<Rightarrow> Err WOLFCERT_ERR_PARSE
      | Some (buf, filled, None) \<Rightarrow> if filled \<noteq> 16 then Err WOLFCERT_ERR_PARSE else Ok buf
      | Some (buf, filled, Some gap) \<Rightarrow>
          if filled \<ge> 16 then Err WOLFCERT_ERR_PARSE else Ok (v6_slide buf filled gap))"

definition wolfcert_parse_ip :: "cstring \<Rightarrow> byte list wc_result" where
  "wolfcert_parse_ip s =
     (case parse_ipv4 s of
        Inr v \<Rightarrow> Ok v
      | Inl e \<Rightarrow> (case parse_ipv6 s of Inr v \<Rightarrow> Ok v | Inl e' \<Rightarrow> Err WOLFCERT_ERR_PARSE))"

subsection \<open>The grammar of RFC 4291 text\<close>

definition hex_group :: "cstring \<Rightarrow> bool" where
  "hex_group g \<longleftrightarrow> 1 \<le> length g \<and> length g \<le> 4 \<and> list_all (\<lambda>c. hex_digit c \<noteq> None) g"

definition hex_val :: "nat \<Rightarrow> cstring \<Rightarrow> nat" where
  "hex_val v g = foldl (\<lambda>v c. v * 16 + the (hex_digit c)) v g"

definition group_bytes :: "cstring \<Rightarrow> byte list" where
  "group_bytes g = [of_nat (hex_val 0 g div 256), of_nat (hex_val 0 g mod 256)]"

fun side_text :: "cstring list \<Rightarrow> byte list option \<Rightarrow> cstring" where
  "side_text [] None = []"
| "side_text [] (Some v) = ipv4_text v"
| "side_text (g # gs) q = g @ (if gs = [] \<and> q = None then [] else b_colon # side_text gs q)"

definition side_bytes :: "cstring list \<Rightarrow> byte list option \<Rightarrow> byte list" where
  "side_bytes gs q = concat (map group_bytes gs) @ (case q of None \<Rightarrow> [] | Some v \<Rightarrow> v)"

definition side_ok :: "cstring list \<Rightarrow> byte list option \<Rightarrow> bool" where
  "side_ok gs q \<longleftrightarrow> list_all hex_group gs \<and> (\<forall>v. q = Some v \<longrightarrow> length v = 4)"

definition ipv6_text :: "cstring \<Rightarrow> byte list \<Rightarrow> bool" where
  "ipv6_text s bs \<longleftrightarrow>
     (\<exists>gs q. side_ok gs q \<and> s = side_text gs q \<and> bs = side_bytes gs q \<and> length bs = 16) \<or>
     (\<exists>ls gs q. side_ok ls None \<and> side_ok gs q \<and>
        s = side_text ls None @ [b_colon, b_colon] @ side_text gs q \<and>
        length (side_bytes ls None @ side_bytes gs q) < 16 \<and>
        bs = side_bytes ls None @
          replicate (16 - length (side_bytes ls None @ side_bytes gs q)) 0 @ side_bytes gs q)"

lemma hex_digit_special [simp]:
  "hex_digit 0 = None" "hex_digit 58 = None" "hex_digit 46 = None"
  by (simp_all add: hex_digit_def)

lemma hex_digit_dig: "is_dig c \<Longrightarrow> hex_digit c \<noteq> None"
  by (simp add: hex_digit_def is_dig_def)

lemma hex_run_complete:
  "list_all (\<lambda>c. hex_digit c \<noteq> None) g \<Longrightarrow> n + length g \<le> 4 \<Longrightarrow> hex_digit (cat t 0) = None \<Longrightarrow>
     hex_run n v (g @ t) = (n + length g, hex_val v g, t)"
  by (induction g arbitrary: n v) (cases t, auto simp: hex_val_def)

lemma hex_run_sound:
  "hex_run n v s = (m, w, t) \<Longrightarrow> n \<le> 4 \<Longrightarrow>
     \<exists>g. s = g @ t \<and> m = n + length g \<and> m \<le> 4 \<and> list_all (\<lambda>c. hex_digit c \<noteq> None) g \<and> w = hex_val v g"
proof (induction n v s rule: hex_run.induct)
  case (1 n v)
  then show ?case by (simp add: hex_val_def)
next
  case (2 n v c s)
  show ?case
  proof (cases "if n < 4 then hex_digit c else None")
    case None
    then show ?thesis using 2 by (auto simp: hex_val_def)
  next
    case (Some d)
    then have "n < 4" "Suc n \<le> 4" "hex_digit c = Some d" by (auto split: if_splits)
    moreover from 2(1) [OF Some _ this(2)] 2(2) Some obtain g where
      "s = g @ t" "m = Suc n + length g" "m \<le> 4" "list_all (\<lambda>c. hex_digit c \<noteq> None) g"
      "w = hex_val (v * 16 + d) g" by auto
    ultimately show ?thesis by (intro exI [of _ "c # g"]) (simp add: hex_val_def)
  qed
qed

lemma group_is_ipv4_hex:
  "list_all (\<lambda>c. hex_digit c \<noteq> None) g \<Longrightarrow> cat t 0 = 0 \<or> cat t 0 = b_colon \<Longrightarrow> \<not> group_is_ipv4 (g @ t)"
  by (induction g) (cases t, auto)

lemma group_is_ipv4_text:
  assumes "length v = 4"
  shows "group_is_ipv4 (ipv4_text v)"
proof -
  have dig: "group_is_ipv4 (g @ b_dot # t)" if "\<forall>c\<in>set g. is_dig c" for g t
    using that by (induction g) (auto simp: is_dig_def)
  obtain a b v' where v: "v = a # b # v'"
    using assms by (cases v; cases "tl v") auto
  show ?thesis unfolding v ipv4_text.simps
    by (rule dig) (auto intro!: octet_text_digits less_trans [OF unat_byte_less])
qed

lemma hex_group_ne: "hex_group g \<Longrightarrow> hex_digit (cat (g @ t) 0) \<noteq> None"
  by (cases g) (auto simp: hex_group_def)

lemma side_text_head:
  assumes "side_ok gs q" "gs \<noteq> [] \<or> q \<noteq> None"
  shows "cat (side_text gs q) 0 \<noteq> 0" "cat (side_text gs q) 0 \<noteq> b_colon"
proof -
  have "hex_digit (cat (side_text gs q) 0) \<noteq> None"
  proof (cases gs)
    case Nil
    then obtain v where v: "q = Some v" "length v = 4" using assms by (auto simp: side_ok_def)
    then obtain b bs where b: "v = b # bs" by (cases v) auto
    obtain c cs where c: "octet_text (unat b) = c # cs" by (cases "octet_text (unat b)") auto
    have "is_dig c"
      by (rule octet_text_digits [of "unat b"]) (auto simp: c intro: less_trans [OF unat_byte_less])
    then show ?thesis by (simp add: Nil v b ipv4_text_Cons c hex_digit_dig)
  next
    case (Cons g gs')
    then have "hex_group g" using assms by (simp add: side_ok_def)
    then show ?thesis unfolding Cons side_text.simps by (rule hex_group_ne)
  qed
  then show "cat (side_text gs q) 0 \<noteq> 0" "cat (side_text gs q) 0 \<noteq> b_colon" by (auto intro: notI)
qed

subsection \<open>The loop computes the grammar\<close>

definition v6_buf :: "byte list \<Rightarrow> byte list" where
  "v6_buf P = P @ replicate (16 - length P) 0"

lemma length_v6_buf [simp]: "length P \<le> 16 \<Longrightarrow> length (v6_buf P) = 16"
  by (simp add: v6_buf_def)

lemma v6_buf_put2:
  assumes "length P \<le> 14"
  shows "(v6_buf P)[length P := x, Suc (length P) := y] = v6_buf (P @ [x, y])"
proof -
  obtain k where k: "16 - length P = Suc (Suc k)" "16 - length (P @ [x, y]) = k"
    using assms by (intro that [of "14 - length P"]) auto
  show ?thesis unfolding v6_buf_def k by (simp add: list_update_append)
qed

lemma v6_buf_put4:
  assumes "length P \<le> 12" "length v = 4"
  shows "take (length P) (v6_buf P) @ v @ drop (length P + 4) (v6_buf P) = v6_buf (P @ v)"
  using assms by (simp add: v6_buf_def)

lemma side_bytes_Cons: "side_bytes (g # gs) q = group_bytes g @ side_bytes gs q"
  by (simp add: side_bytes_def)

lemma side_bytes_Nil [simp]: "side_bytes [] None = []" "side_bytes [] (Some v) = v"
  by (simp_all add: side_bytes_def)

lemma length_group_bytes [simp]: "length (group_bytes g) = 2"
  by (simp add: group_bytes_def)

text \<open>One hexadecimal group, followed by the end of the text or a colon.\<close>

lemma v6_loop_group:
  assumes g: "hex_group g" and P: "length P \<le> 14" and t: "cat t 0 = 0 \<or> cat t 0 = b_colon"
  shows "v6_loop (v6_buf P) (length P) gap (g @ t) =
     (let B = v6_buf (P @ group_bytes g); f = length (P @ group_bytes g)
      in if cat t 0 = 0 then Some (B, f, gap)
         else let s2 = drop 1 t
              in if cat s2 0 = b_colon then
                   (if gap \<noteq> None then None else v6_loop B f (Some f) (drop 1 s2))
                 else if cat s2 0 = 0 then None else v6_loop B f gap s2)"
proof -
  have "cat (g @ t) 0 \<noteq> 0" using hex_group_ne [OF g, of t] by (auto intro: notI)
  moreover have "\<not> group_is_ipv4 (g @ t)"
    using g t by (intro group_is_ipv4_hex) (auto simp: hex_group_def)
  moreover have "hex_run 0 0 (g @ t) = (length g, hex_val 0 g, t)"
    using hex_run_complete [of g 0 t 0] g t by (auto simp: hex_group_def)
  ultimately show ?thesis
    using g P t v6_buf_put2 [OF P]
    by (subst v6_loop.simps) (auto simp: Let_def group_bytes_def hex_group_def)
qed

lemma v6_loop_side:
  assumes "side_ok gs q" "length (P @ side_bytes gs q) \<le> 16"
  shows "v6_loop (v6_buf P) (length P) gap (side_text gs q) =
    Some (v6_buf (P @ side_bytes gs q), length (P @ side_bytes gs q), gap)"
  using assms
proof (induction gs arbitrary: P)
  case Nil
  show ?case
  proof (cases q)
    case None
    then show ?thesis by (subst v6_loop.simps) simp
  next
    case (Some v)
    then have v: "length v = 4" "length P \<le> 12" using Nil by (auto simp: side_ok_def)
    have "parse_ipv4 (ipv4_text v) = Ok v"
      using parse_ipv4_loop_complete [of v 4 "[]"] v by (simp add: parse_ipv4_def ipv4_rest_text)
    then show ?thesis
      using side_text_head [OF Nil(1)] Some v v6_buf_put4 [OF v(2) v(1)] group_is_ipv4_text [OF v(1)]
      by (subst v6_loop.simps) auto
  qed
next
  case (Cons g gs)
  have g: "hex_group g" "side_ok gs q" and P: "length P \<le> 14"
    using Cons.prems by (auto simp: side_ok_def side_bytes_Cons)
  have IH: "v6_loop (v6_buf (P @ group_bytes g)) (length (P @ group_bytes g)) gap (side_text gs q) =
    Some (v6_buf (P @ side_bytes (g # gs) q), length (P @ side_bytes (g # gs) q), gap)"
    using Cons.IH [OF g(2), of "P @ group_bytes g"] Cons.prems by (simp add: side_bytes_Cons)
  show ?case
  proof (cases "gs = [] \<and> q = None")
    case True
    then show ?thesis using v6_loop_group [OF g(1) P, of "[]" gap]
      by (simp add: side_bytes_Cons)
  next
    case False
    then show ?thesis
      using v6_loop_group [OF g(1) P, of "b_colon # side_text gs q" gap] IH
        side_text_head [OF g(2)] by (auto simp: Let_def)
  qed
qed

lemma v6_loop_gap:
  assumes "side_ok ls None" "ls \<noteq> []" "length (P @ side_bytes ls None) \<le> 16"
  shows "v6_loop (v6_buf P) (length P) None (side_text ls None @ b_colon # b_colon # t) =
    v6_loop (v6_buf (P @ side_bytes ls None)) (length (P @ side_bytes ls None))
      (Some (length (P @ side_bytes ls None))) t"
  using assms
proof (induction ls arbitrary: P)
  case (Cons g gs)
  have g: "hex_group g" "side_ok gs None" and P: "length P \<le> 14"
    using Cons.prems by (auto simp: side_ok_def side_bytes_Cons)
  show ?case
  proof (cases "gs = []")
    case True
    then show ?thesis using v6_loop_group [OF g(1) P, of "b_colon # b_colon # t" None]
      by (simp add: side_bytes_Cons)
  next
    case False
    have ne: "side_text gs None \<noteq> []" using side_text_head(1) [OF g(2)] False by (metis cat_Nil)
    have hd: "cat (side_text gs None @ u) 0 = cat (side_text gs None) 0" for u
      using ne by (cases "side_text gs None") auto
    show ?thesis
      using v6_loop_group [OF g(1) P, of "b_colon # side_text gs None @ b_colon # b_colon # t" None]
        Cons.IH [OF g(2) False, of "P @ group_bytes g"] Cons.prems(3) False
        side_text_head [OF g(2)] by (simp add: Let_def hd side_bytes_Cons)
  qed
qed simp

lemma v6_loop_group_inv:
  assumes res: "v6_loop (v6_buf P) (length P) gap s = Some r" and s: "0 \<notin> set s" "s \<noteq> []"
    and v4: "\<not> group_is_ipv4 s"
  obtains g t where "hex_group g" "s = g @ t" "length P \<le> 14" "cat t 0 = 0 \<or> cat t 0 = b_colon"
proof -
  obtain n val t where run: "hex_run 0 0 s = (n, val, t)" by (metis prod_cases3)
  have "cat s 0 \<noteq> 0" using s by (cases s) auto
  then have "n \<noteq> 0" "length P \<le> 14" "cat t 0 = 0 \<or> cat t 0 = b_colon"
    using res v4 run by (subst (asm) v6_loop.simps, auto simp: Let_def split: if_splits)+
  moreover from hex_run_sound [OF run] obtain g where "s = g @ t" "n = length g" "n \<le> 4"
    "list_all (\<lambda>c. hex_digit c \<noteq> None) g" by auto
  ultimately show ?thesis by (intro that [of g t]) (auto simp: hex_group_def Suc_le_eq)
qed

inductive v6_reads :: "byte list \<Rightarrow> nat option \<Rightarrow> cstring \<Rightarrow> byte list \<Rightarrow> nat option \<Rightarrow> bool" where
  plain: "side_ok gs q \<Longrightarrow> v6_reads P gap (side_text gs q) (side_bytes gs q) gap"
| gap: "side_ok ls None \<Longrightarrow> ls \<noteq> [] \<Longrightarrow> side_ok gs q \<Longrightarrow> k = length (P @ side_bytes ls None) \<Longrightarrow>
    v6_reads P None (side_text ls None @ b_colon # b_colon # side_text gs q)
      (side_bytes ls None @ side_bytes gs q) (Some k)"

inductive_cases v6_reads_SomeE: "v6_reads P (Some k) s Q gap'"

lemma v6_reads_Nil: "v6_reads P gap [] [] gap"
  using v6_reads.plain [of "[]" None] by (simp add: side_ok_def)

lemma v6_reads_last: "hex_group g \<Longrightarrow> v6_reads P gap g (group_bytes g) gap"
  using v6_reads.plain [of "[g]" None] by (simp add: side_ok_def side_bytes_Cons)

lemma v6_reads_ipv4: "length v = 4 \<Longrightarrow> v6_reads P gap (ipv4_text v) v gap"
  using v6_reads.plain [of "[]" "Some v"] by (simp add: side_ok_def)

lemma v6_reads_Cons:
  assumes g: "hex_group g" and s: "s \<noteq> []" and r: "v6_reads (P @ group_bytes g) gap s Q gap'"
  shows "v6_reads P gap (g @ b_colon # s) (group_bytes g @ Q) gap'"
  using r
proof cases
  case (plain gs q)
  then have "gs \<noteq> [] \<or> q \<noteq> None" using s by (cases gs; cases q) auto
  then show ?thesis using plain g v6_reads.plain [of "g # gs" q P gap]
    by (auto simp: side_ok_def side_bytes_Cons)
next
  case (gap ls gs q k)
  then show ?thesis using g v6_reads.gap [of "g # ls" gs q k P]
    by (auto simp: side_ok_def side_bytes_Cons)
qed

lemma v6_reads_gap:
  assumes g: "hex_group g" and r: "v6_reads R (Some (length (P @ group_bytes g))) s Q gap'"
  shows "v6_reads P None (g @ b_colon # b_colon # s) (group_bytes g @ Q) gap'"
  using r g v6_reads.gap [of "[g]" _ _ _ P]
  by (auto simp: side_ok_def side_bytes_Cons elim!: v6_reads_SomeE)

lemma v6_loop_Nil: "v6_loop buf filled gap [] = Some (buf, filled, gap)"
  by (subst v6_loop.simps) simp

lemma v6_loop_ipv4:
  assumes "cat s 0 \<noteq> 0" "group_is_ipv4 s"
  shows "v6_loop buf filled gap s =
    (if filled > 12 then None
     else case parse_ipv4 s of
            Inl e \<Rightarrow> None
          | Inr v \<Rightarrow> Some (take filled buf @ v @ drop (filled + 4) buf, filled + 4, gap))"
  by (subst v6_loop.simps) (simp add: assms)

lemma v6_loop_sound:
  assumes "v6_loop (v6_buf P) (length P) gap s = Some (buf, f, gap')" "0 \<notin> set s" "length P \<le> 16"
  shows "\<exists>Q. buf = v6_buf (P @ Q) \<and> f = length (P @ Q) \<and> f \<le> 16 \<and> v6_reads P gap s Q gap'"
  using assms
proof (induction "length s" arbitrary: P gap s rule: less_induct)
  case less
  show ?case
  proof (cases "s = []")
    case True
    then show ?thesis using less.prems
      by (intro exI [of _ "[]"]) (simp add: v6_loop_Nil v6_reads_Nil)
  next
    case False
    then have s0: "cat s 0 \<noteq> 0" using less.prems(2) by (cases s) auto
    show ?thesis
    proof (cases "group_is_ipv4 s")
      case True
      note eq = less.prems(1) [unfolded v6_loop_ipv4 [OF s0 True]]
      have P: "length P \<le> 12" using eq by (cases "length P > 12") auto
      obtain v where v: "parse_ipv4 s = Ok v" using eq P by (cases "parse_ipv4 s") simp_all
      then have v4: "length v = 4" "s = ipv4_text v"
        using parse_ipv4_correct [OF less.prems(2)] by auto
      have "Some (v6_buf (P @ v), length P + 4, gap) = Some (buf, f, gap')"
        using eq P unfolding v by (simp add: v6_buf_put4 [OF P v4(1)])
      then have "buf = v6_buf (P @ v)" "f = length (P @ v)" "gap' = gap" using v4(1) by simp_all
      then show ?thesis
        using P v4 by (intro exI [of _ v]) (simp add: v6_reads_ipv4)
    next
      case v4: False
      obtain g t where g: "hex_group g" "length P \<le> 14" "cat t 0 = 0 \<or> cat t 0 = b_colon"
        and st: "s = g @ t" using v6_loop_group_inv [OF less.prems(1,2) False v4] .
      let ?P = "P @ group_bytes g"
      note step = less.prems(1) [unfolded st v6_loop_group [OF g] Let_def]
      have t: "0 \<notin> set t" and lt: "length t < length s" "length ?P \<le> 16"
        using less.prems(2) g by (auto simp: st hex_group_def)
      show ?thesis
      proof (cases "t = []")
        case True
        then show ?thesis using step g
          by (intro exI [of _ "group_bytes g"]) (simp add: st v6_reads_last)
      next
        case False
        then obtain u where u: "t = b_colon # u" using g(3) t by (cases t) auto
        have IH: "v6_loop (v6_buf ?P) (length ?P) gap'' w = Some (buf, f, gap') \<Longrightarrow>
          0 \<notin> set w \<Longrightarrow> length w < length s \<Longrightarrow>
          \<exists>Q. buf = v6_buf (?P @ Q) \<and> f = length (?P @ Q) \<and> f \<le> 16 \<and> v6_reads ?P gap'' w Q gap'"
          for gap'' w using less.hyps [of w ?P gap''] lt by simp
        show ?thesis
        proof (cases "cat u 0 = b_colon")
          case True
          then obtain w where w: "u = b_colon # w" by (cases u) auto
          from step have "gap = None" "v6_loop (v6_buf ?P) (length ?P) (Some (length ?P)) w = Some (buf, f, gap')"
            by (auto simp: u w split: if_splits)
          moreover from IH [OF this(2)] t lt u w obtain Q where
            "buf = v6_buf (?P @ Q)" "f = length (?P @ Q)" "f \<le> 16"
            "v6_reads ?P (Some (length ?P)) w Q gap'" by auto
          moreover note v6_reads_gap [OF g(1) this(4)]
          ultimately show ?thesis by (auto simp: st u w)
        next
          case False
          with step have "u \<noteq> []" "v6_loop (v6_buf ?P) (length ?P) gap u = Some (buf, f, gap')"
            by (auto simp: u split: if_splits)
          moreover from IH [OF this(2)] t lt u obtain Q where
            "buf = v6_buf (?P @ Q)" "f = length (?P @ Q)" "f \<le> 16" "v6_reads ?P gap u Q gap'" by auto
          moreover note v6_reads_Cons [OF g(1) \<open>u \<noteq> []\<close> this(4)]
          ultimately show ?thesis by (auto simp: st u)
        qed
      qed
    qed
  qed
qed

subsection \<open>Expanding the gap in place\<close>

lemma length_fold_update [simp]:
  "length (fold (\<lambda>d b. b[f d := h d b]) ds buf) = length buf"
  by (induction ds arbitrary: buf) auto

lemma slide_down:
  assumes "length buf = 16" "filled \<le> 16" "t \<le> filled" "i < 16"
  shows "fold (\<lambda>d b. b[15 - d := b ! (filled - 1 - d)]) [0..<t] buf ! i =
    (if i < 16 - t then buf ! i else buf ! (filled + i - 16))"
  using assms(3,4)
proof (induction t arbitrary: i)
  case (Suc t)
  have *: "fold (\<lambda>d b. b[15 - d := b ! (filled - 1 - d)]) [0..<t] buf ! (filled - 1 - t) =
      buf ! (filled - 1 - t)"
    using Suc.IH [of "filled - 1 - t"] Suc.prems assms(2) by auto
  have "i = 15 - t \<Longrightarrow> filled + i - 16 = filled - 1 - t" using Suc.prems assms(2) by auto
  moreover have "i < 16 - Suc t \<longleftrightarrow> i < 16 - t \<and> i \<noteq> 15 - t" using Suc.prems assms(2) by auto
  ultimately show ?case
    using Suc.IH [of i] Suc.prems assms(1) * by (simp add: nth_list_update eq_commute [of "15 - t"])
qed simp

lemma zero_run:
  assumes "i < length buf"
  shows "fold (\<lambda>d b. b[d := 0]) [a..<c] buf ! i = (if a \<le> i \<and> i < c then 0 else buf ! i)"
proof (induction c)
  case (Suc c)
  then show ?case using assms by (cases "a \<le> c") (auto simp: nth_list_update less_Suc_eq)
qed simp

lemma v6_slide_eq:
  assumes "length (L @ R) < 16"
  shows "v6_slide (v6_buf (L @ R)) (length (L @ R)) (length L) =
    L @ replicate (16 - length (L @ R)) 0 @ R"
proof (intro nth_equalityI)
  fix i
  assume "i < length (v6_slide (v6_buf (L @ R)) (length (L @ R)) (length L))"
  then have i: "i < 16" using assms by (simp add: v6_slide_def Let_def v6_buf_def)
  have l: "length (v6_buf (L @ R)) = 16" using assms by simp
  let ?lhs = "v6_slide (v6_buf (L @ R)) (length (L @ R)) (length L) ! i"
  have lhs: "?lhs = (if length L \<le> i \<and> i < 16 - length R then 0
      else if i < 16 - length R then v6_buf (L @ R) ! i
      else v6_buf (L @ R) ! (length (L @ R) + i - 16))"
    using slide_down [OF l, of "length (L @ R)" "length R" i] assms i l
    by (simp add: v6_slide_def Let_def zero_run)
  consider (a) "i < length L" | (b) "length L \<le> i" "i < 16 - length R" | (c) "16 - length R \<le> i" by linarith
  then show "?lhs = (L @ replicate (16 - length (L @ R)) 0 @ R) ! i"
  proof cases
    case a
    then have "i < 16 - length R" using assms by simp
    with a show ?thesis unfolding lhs by (simp add: v6_buf_def nth_append)
  next
    case b
    then have "i - length L < 16 - length (L @ R)" using assms by simp
    with b show ?thesis unfolding lhs by (simp add: nth_append)
  next
    case c
    then have k: "length (L @ R) + i - 16 = length L + (i + length R - 16)" using assms by simp
    have "\<not> i < length L" "\<not> i - length L < 16 - length (L @ R)" "i + length R - 16 < length R"
      "i - length L - (16 - length (L @ R)) = i + length R - 16" using c i assms by auto
    moreover have "v6_buf (L @ R) ! (length L + j) = R ! j" if "j < length R" for j
      using that by (simp add: v6_buf_def nth_append)
    ultimately show ?thesis unfolding lhs k using c by (simp only: nth_append if_False) simp
  qed
qed (use assms in \<open>simp add: v6_slide_def Let_def v6_buf_def\<close>)

lemma v6_loop_start:
  "v6_loop (replicate 16 0) 0 gap s = v6_loop (v6_buf []) (length ([] :: byte list)) gap s"
  by (simp add: v6_buf_def)

lemma parse_ipv6_sound:
  assumes s: "0 \<notin> set s" and res: "parse_ipv6 s = Ok bs"
  shows "ipv6_text s bs"
proof (cases "cat s 0 = b_colon")
  case True
  with res have "cat s 1 = b_colon" by (auto simp: parse_ipv6_def split: if_splits)
  with True obtain t where t: "s = b_colon # b_colon # t" by (cases s; cases "tl s") auto
  obtain buf f gap where loop: "v6_loop (v6_buf []) (length ([] :: byte list)) (Some 0) t = Some (buf, f, gap)"
    using res by (auto simp: parse_ipv6_def t v6_loop_start split: option.splits)
  from v6_loop_sound [OF this] s t obtain Q where Q: "buf = v6_buf Q" "f = length Q" "f \<le> 16"
    "v6_reads [] (Some 0) t Q gap" by auto
  from Q(4) obtain gs q where *: "side_ok gs q" "t = side_text gs q" "Q = side_bytes gs q" "gap = Some 0"
    by (auto elim: v6_reads_SomeE)
  have "length Q < 16" "bs = v6_slide (v6_buf ([] @ Q)) (length ([] @ Q)) (length ([] :: byte list))"
    using res loop by (auto simp: parse_ipv6_def t v6_loop_start Q * split: if_splits)
  then have "bs = replicate (16 - length Q) 0 @ Q" using v6_slide_eq [of "[]" Q] by simp
  with * \<open>length Q < 16\<close> show ?thesis unfolding ipv6_text_def
    by (intro disjI2 exI [of _ "[]"] exI [of _ gs] exI [of _ q]) (simp add: t side_ok_def)
next
  case False
  obtain buf f gap where loop: "v6_loop (v6_buf []) (length ([] :: byte list)) None s = Some (buf, f, gap)"
    using res False by (auto simp: parse_ipv6_def v6_loop_start split: option.splits)
  from v6_loop_sound [OF this s] obtain Q where Q: "buf = v6_buf Q" "f = length Q" "f \<le> 16"
    "v6_reads [] None s Q gap" by auto
  from Q(4) show ?thesis
  proof cases
    case (plain gs q)
    have "length Q = 16" "bs = v6_buf Q"
      using res loop False by (auto simp: parse_ipv6_def v6_loop_start Q plain split: if_splits)
    then show ?thesis unfolding ipv6_text_def
      by (intro disjI1 exI [of _ gs] exI [of _ q]) (use plain in \<open>simp add: v6_buf_def\<close>)
  next
    case (gap ls gs q k)
    have "length Q < 16" "bs = v6_slide (v6_buf Q) (length Q) (length (side_bytes ls None))"
      using res loop False by (auto simp: parse_ipv6_def v6_loop_start Q gap split: if_splits)
    then show ?thesis unfolding ipv6_text_def
      using gap v6_slide_eq [of "side_bytes ls None" "side_bytes gs q"]
      by (intro disjI2 exI [of _ ls] exI [of _ gs] exI [of _ q]) simp
  qed
qed

lemma parse_ipv6_complete:
  assumes "ipv6_text s bs"
  shows "parse_ipv6 s = Ok bs"
  using assms unfolding ipv6_text_def
proof (elim disjE exE conjE)
  fix gs q
  assume *: "side_ok gs q" "s = side_text gs q" "bs = side_bytes gs q" "length bs = 16"
  then have "gs \<noteq> [] \<or> q \<noteq> None" by (cases gs; cases q) auto
  with * show ?thesis
    using v6_loop_side [OF *(1), of "[]" None] side_text_head [OF *(1)]
    by (simp add: parse_ipv6_def v6_loop_start) (simp add: v6_buf_def)
next
  fix ls gs q
  assume *: "side_ok ls None" "side_ok gs q"
    "s = side_text ls None @ [b_colon, b_colon] @ side_text gs q"
    "length (side_bytes ls None @ side_bytes gs q) < 16"
    "bs = side_bytes ls None @
      replicate (16 - length (side_bytes ls None @ side_bytes gs q)) 0 @ side_bytes gs q"
  note side = v6_loop_side [OF *(2), of "side_bytes ls None" "Some (length (side_bytes ls None))"]
  show ?thesis
  proof (cases "ls = []")
    case True
    then show ?thesis
      using * side v6_slide_eq [OF *(4)] by (simp add: parse_ipv6_def v6_loop_start numeral_2_eq_2)
  next
    case False
    have "side_text ls None \<noteq> []" using side_text_head(1) [OF *(1)] False by (metis cat_Nil)
    then have "cat s 0 = cat (side_text ls None) 0"
      by (cases "side_text ls None") (simp_all add: *(3))
    then show ?thesis
      using * side v6_slide_eq [OF *(4)] side_text_head [OF *(1)] False
        v6_loop_gap [OF *(1) False, of "[]" "side_text gs q"]
      by (simp add: parse_ipv6_def v6_loop_start)
  qed
qed

section \<open>The accepted addresses\<close>

lemma ipv4_text_not_ipv6:
  assumes "length v = 4"
  shows "\<not> ipv6_text (ipv4_text v) bs"
proof
  assume "ipv6_text (ipv4_text v) bs"
  then have "parse_ipv6 (ipv4_text v) = Ok bs" by (rule parse_ipv6_complete)
  moreover have "side_ok [] (Some v)" using assms by (simp add: side_ok_def)
  note v6_loop_side [OF this, of "[]" None] side_text_head [OF this]
  ultimately show False using assms by (simp add: parse_ipv6_def v6_loop_start)
qed

text \<open>
  C25. \<open>wolfcert_parse_ip\<close> accepts exactly the dotted-quad texts without redundant zeros and the
  RFC 4291 texts (at most eight groups of one to four hexadecimal digits, an optional dotted-quad
  tail, at most one \<open>::\<close>), and it stores the address the text denotes: four bytes for the first,
  for the second the groups in network order with zeros in place of \<open>::\<close>.
\<close>

theorem wolfcert_parse_ip_correct:
  assumes "0 \<notin> set s"
  shows "wolfcert_parse_ip s = Ok bs \<longleftrightarrow>
    (length bs = 4 \<and> s = ipv4_text bs) \<or> ipv6_text s bs"
proof (cases "parse_ipv4 s")
  case (Inl e)
  then have "wolfcert_parse_ip s = Ok bs \<longleftrightarrow> parse_ipv6 s = Ok bs"
    by (simp add: wolfcert_parse_ip_def split: sum.split)
  moreover have "\<not> (length bs = 4 \<and> s = ipv4_text bs)"
    using Inl parse_ipv4_correct [OF assms, of bs] by simp
  ultimately show ?thesis using parse_ipv6_sound [OF assms] parse_ipv6_complete by blast
next
  case (Inr v)
  then have v: "length v = 4" "s = ipv4_text v" using parse_ipv4_correct [OF assms] by auto
  have "wolfcert_parse_ip s = Ok bs \<longleftrightarrow> parse_ipv4 s = Ok bs"
    using Inr by (simp add: wolfcert_parse_ip_def)
  then show ?thesis
    using parse_ipv4_correct [OF assms, of bs] ipv4_text_not_ipv6 [OF v(1)] v(2) by blast
qed

theorem wolfcert_parse_ip_correct_witness:
  "wolfcert_parse_ip (lit ''1:a::10.2.3.4'') = Ok [0, 1, 0, 10, 0, 0, 0, 0, 0, 0, 0, 0, 10, 2, 3, 4] \<and>
   ipv6_text (lit ''1:a::10.2.3.4'') [0, 1, 0, 10, 0, 0, 0, 0, 0, 0, 0, 0, 10, 2, 3, 4]"
proof -
  have run: "wolfcert_parse_ip (lit ''1:a::10.2.3.4'') =
      Ok [0, 1, 0, 10, 0, 0, 0, 0, 0, 0, 0, 0, 10, 2, 3, 4]" by code_simp
  have "0 \<notin> set (lit ''1:a::10.2.3.4'')" by simp
  from wolfcert_parse_ip_correct [OF this] run show ?thesis by simp
qed

end
