(* ===== verification/Http_Chunked.thy ===== *)
theory Http_Chunked
  imports Ip
begin

text \<open>
  Chunked transfer coding of \<open>src/http.c\<close>: \<open>find_crlf\<close>, \<open>parse_chunk_size\<close>, the resumable scanner
  \<open>wolfcert_http_chunked_complete\<close>, \<open>check_trailers\<close>, and the decoder \<open>chunked_decode_into\<close> with
  its allocating wrapper \<open>wolfcert_http_chunked_decode\<close>. The decoder works on one flat memory, so
  that decoding in place (destination and source overlapping) is part of the model.
\<close>

section \<open>Lines\<close>

definition crlf_at :: "byte list \<Rightarrow> nat \<Rightarrow> bool" where
  "crlf_at raw i \<longleftrightarrow> raw ! i = b_CR \<and> raw ! (i + 1) = b_LF"

function find_crlf :: "byte list \<Rightarrow> nat \<Rightarrow> nat" where
  "find_crlf raw i = (if i + 1 < length raw \<and> \<not> crlf_at raw i then find_crlf raw (Suc i) else i)"
  by pat_completeness auto
termination
  by (relation "measure (\<lambda>(raw, i). length raw - i)") auto

declare find_crlf.simps [simp del]

text \<open>\<open>find_crlf\<close> returns 0 when a line end was found.\<close>

definition crlf_found :: "byte list \<Rightarrow> nat \<Rightarrow> bool" where
  "crlf_found raw i \<longleftrightarrow> i + 1 < length raw"

lemma find_crlf_step: "i + 1 < length raw \<Longrightarrow> \<not> crlf_at raw i \<Longrightarrow> find_crlf raw i = find_crlf raw (Suc i)"
  by (simp add: find_crlf.simps [of raw i])

lemma find_crlf_stop: "\<not> (i + 1 < length raw \<and> \<not> crlf_at raw i) \<Longrightarrow> find_crlf raw i = i"
  by (auto simp: find_crlf.simps [of raw i])

lemma find_crlf_ge: "i \<le> find_crlf raw i"
proof (induction raw i rule: find_crlf.induct)
  case (1 raw i)
  then show ?case
    by (cases "i + 1 < length raw \<and> \<not> crlf_at raw i") (auto simp: find_crlf_step find_crlf_stop)
qed

lemma find_crlf_hit: "crlf_found raw (find_crlf raw i) \<Longrightarrow> crlf_at raw (find_crlf raw i)"
proof (induction raw i rule: find_crlf.induct)
  case (1 raw i)
  then show ?case
    by (cases "i + 1 < length raw \<and> \<not> crlf_at raw i")
      (auto simp: find_crlf_step find_crlf_stop crlf_found_def)
qed

lemma find_crlf_skip: "i \<le> j \<Longrightarrow> j < find_crlf raw i \<Longrightarrow> j + 1 < length raw \<and> \<not> crlf_at raw j"
proof (induction raw i rule: find_crlf.induct)
  case (1 raw i)
  show ?case
  proof (cases "i + 1 < length raw \<and> \<not> crlf_at raw i")
    case True
    with 1 show ?thesis by (cases "i = j") (auto simp: find_crlf_step)
  next
    case False
    with 1 show ?thesis by (simp add: find_crlf_stop)
  qed
qed

lemma find_crlf_eqI:
  assumes "i \<le> k" "k + 1 < length raw \<Longrightarrow> crlf_at raw k"
    "\<And>j. i \<le> j \<Longrightarrow> j < k \<Longrightarrow> j + 1 < length raw \<and> \<not> crlf_at raw j"
  shows "find_crlf raw i = k"
proof (rule antisym)
  show "find_crlf raw i \<le> k"
    using find_crlf_skip [OF assms(1), of raw] assms(2) by (meson not_le)
  show "k \<le> find_crlf raw i"
    using assms(3) [OF find_crlf_ge, of raw] find_crlf_hit [of raw i] by (auto simp: crlf_found_def not_le [symmetric])
qed

text \<open>A search that ran off the end of the data resumes where it stopped.\<close>

lemma find_crlf_resume:
  "find_crlf (raw @ rest) (find_crlf raw i) = find_crlf (raw @ rest) i"
proof (rule find_crlf_eqI [symmetric])
  let ?m = "find_crlf raw i"
  show "i \<le> find_crlf (raw @ rest) ?m" using find_crlf_ge by (meson le_trans)
  show "crlf_at (raw @ rest) (find_crlf (raw @ rest) ?m)"
    if "find_crlf (raw @ rest) ?m + 1 < length (raw @ rest)"
    using find_crlf_hit that by (auto simp: crlf_found_def)
  fix j
  assume j: "i \<le> j" "j < find_crlf (raw @ rest) ?m"
  show "j + 1 < length (raw @ rest) \<and> \<not> crlf_at (raw @ rest) j"
  proof (cases "j < ?m")
    case True
    with find_crlf_skip [OF j(1) True] show ?thesis by (auto simp: crlf_at_def nth_append)
  next
    case False
    with j(2) show ?thesis by (intro find_crlf_skip [of ?m]) auto
  qed
qed

lemma find_crlf_append_found:
  assumes "crlf_found raw (find_crlf raw i)"
  shows "find_crlf (raw @ rest) i = find_crlf raw i"
proof -
  have "crlf_at (raw @ rest) (find_crlf raw i)"
    using assms find_crlf_hit [OF assms] by (auto simp: crlf_at_def crlf_found_def nth_append)
  then show ?thesis
    using find_crlf_resume [of raw rest i] by (simp add: find_crlf.simps [of "raw @ rest" "find_crlf raw i"])
qed

section \<open>The chunk size\<close>

definition is_ows :: "byte \<Rightarrow> bool" where
  "is_ows c \<longleftrightarrow> c = b_SP \<or> c = b_HT"

fun chunk_size_loop :: "byte list \<Rightarrow> nat \<Rightarrow> bool \<Rightarrow> nat option" where
  "chunk_size_loop [] v parsed = (if parsed then Some v else None)"
| "chunk_size_loop (c # cs) v parsed =
     (if c = b_semi then (if parsed then Some v else None)
      else if parsed \<and> is_ows c then
        (case dropWhile is_ows (c # cs) of
           [] \<Rightarrow> None
         | e # es \<Rightarrow> if e = b_semi then Some v else None)
      else case hex_digit c of
             None \<Rightarrow> None
           | Some d \<Rightarrow> if v > 0x0FFFFFFF then None else chunk_size_loop cs (v * 16 + d) True)"

definition parse_chunk_size :: "byte list \<Rightarrow> nat \<Rightarrow> nat \<Rightarrow> nat option" where
  "parse_chunk_size raw ri he = chunk_size_loop (take (he - ri) (drop ri raw)) 0 False"

lemma hex_digit_less: "hex_digit c = Some d \<Longrightarrow> d < 16"
  by (auto simp: hex_digit_def word_le_nat_alt split: if_splits)

lemma chunk_size_loop_bound:
  "chunk_size_loop cs v parsed = Some n \<Longrightarrow> v < 2 ^ 32 \<Longrightarrow> n < 2 ^ 32"
proof (induction cs v parsed rule: chunk_size_loop.induct)
  case (2 c cs v parsed)
  then show ?case
    by (auto split: if_splits option.splits list.splits dest!: hex_digit_less)
qed (auto split: if_splits)

lemma parse_chunk_size_bound: "parse_chunk_size raw ri he = Some n \<Longrightarrow> n < 2 ^ 32"
  unfolding parse_chunk_size_def by (erule chunk_size_loop_bound) simp

lemma parse_chunk_size_append:
  "he \<le> length raw \<Longrightarrow> parse_chunk_size (raw @ rest) ri he = parse_chunk_size raw ri he"
  by (cases "ri \<le> length raw") (auto simp: parse_chunk_size_def)

section \<open>The resumable scanner\<close>

record WolfCertChunkScan =
  cs_pos :: nat
  cs_crlf :: nat
  cs_chunk :: nat
  cs_max :: nat
  cs_total :: nat
  cs_in_trailers :: bool

definition chunk_scan_init :: "nat \<Rightarrow> WolfCertChunkScan" where
  "chunk_scan_init m =
     \<lparr>cs_pos = 0, cs_crlf = 0, cs_chunk = 0, cs_max = m, cs_total = 0, cs_in_trailers = False\<rparr>"

definition scan_line_end :: "byte list \<Rightarrow> WolfCertChunkScan \<Rightarrow> nat" where
  "scan_line_end raw st = find_crlf raw (if cs_crlf st < cs_pos st then cs_pos st else cs_crlf st)"

text \<open>
  One iteration of the scanner's loop: \<open>Inl\<close> is a return with its code (1 complete, 0 more bytes
  needed, -1 malformed), \<open>Inr\<close> goes on with the next iteration.
\<close>

definition chunk_scan_step ::
  "byte list \<Rightarrow> WolfCertChunkScan \<Rightarrow> (int \<times> WolfCertChunkScan) + WolfCertChunkScan" where
  "chunk_scan_step raw st =
     (let ri = cs_pos st; csz = cs_chunk st in
      if csz > 0 then
        (if length raw - ri < 2 \<or> csz > length raw - ri - 2 then Inl (0, st)
         else if raw ! (ri + csz) \<noteq> b_CR \<or> raw ! (ri + csz + 1) \<noteq> b_LF then Inl (-1, st)
         else Inr (st\<lparr>cs_pos := ri + csz + 2, cs_chunk := 0\<rparr>))
      else
        (let at = scan_line_end raw st; st1 = st\<lparr>cs_crlf := at\<rparr> in
         if \<not> crlf_found raw at then Inl (0, st1)
         else if cs_in_trailers st then
           (if at = ri then Inl (1, st1\<lparr>cs_pos := at + 2\<rparr>) else Inr (st1\<lparr>cs_pos := at + 2\<rparr>))
         else (case parse_chunk_size raw ri at of
                 None \<Rightarrow> Inl (-1, st1)
               | Some c \<Rightarrow>
                   if cs_max st \<noteq> 0 \<and> c > size_sub (cs_max st) (cs_total st)
                   then Inl (-1, st1\<lparr>cs_chunk := c\<rparr>)
                   else if c = 0 then
                     Inr (st1\<lparr>cs_chunk := 0, cs_in_trailers := True, cs_pos := at + 2\<rparr>)
                   else
                     Inr (st1\<lparr>cs_chunk := c, cs_total := size_add (cs_total st) c,
                              cs_pos := at + 2\<rparr>))))"

lemma scan_line_end_ge: "cs_pos st \<le> scan_line_end raw st"
  using find_crlf_ge [of "cs_pos st" raw] find_crlf_ge [of "cs_crlf st" raw]
  by (simp add: scan_line_end_def)

lemma scan_line_end_less [simp]: "cs_pos st < Suc (Suc (scan_line_end raw st))"
  using scan_line_end_ge [of st raw] by simp

lemma chunk_scan_step_pos: "chunk_scan_step raw st = Inr st' \<Longrightarrow> cs_pos st < cs_pos st'"
  by (auto simp: chunk_scan_step_def Let_def split: if_splits option.splits)

function wolfcert_http_chunked_complete ::
  "byte list \<Rightarrow> WolfCertChunkScan \<Rightarrow> int \<times> WolfCertChunkScan" where
  "wolfcert_http_chunked_complete raw st =
     (if cs_pos st < length raw then
        (case chunk_scan_step raw st of
           Inl r \<Rightarrow> r
         | Inr st' \<Rightarrow> wolfcert_http_chunked_complete raw st')
      else (0, st))"
  by pat_completeness auto
termination
  by (relation "measure (\<lambda>(raw, st). length raw - cs_pos st)")
    (auto dest!: chunk_scan_step_pos intro!: diff_less_mono2)

declare wolfcert_http_chunked_complete.simps [simp del]

lemma scan_line_end_append_found:
  "crlf_found raw (scan_line_end raw st) \<Longrightarrow> scan_line_end (raw @ rest) st = scan_line_end raw st"
  by (simp add: scan_line_end_def find_crlf_append_found)

lemma scan_line_end_resume:
  "scan_line_end (raw @ rest) (st\<lparr>cs_crlf := scan_line_end raw st\<rparr>) = scan_line_end (raw @ rest) st"
proof -
  have "\<not> scan_line_end raw st < cs_pos st" using scan_line_end_ge by (simp add: not_less)
  then show ?thesis
    by (simp add: scan_line_end_def [of "raw @ rest"]) (simp add: scan_line_end_def find_crlf_resume)
qed

lemma crlf_found_append: "crlf_found raw i \<Longrightarrow> crlf_found (raw @ rest) i"
  by (simp add: crlf_found_def)

lemma parse_chunk_size_append_found:
  "crlf_found raw he \<Longrightarrow> parse_chunk_size (raw @ rest) ri he = parse_chunk_size raw ri he"
  by (simp add: parse_chunk_size_append crlf_found_def)

text \<open>More data does not change an iteration that did not run out of data, and one that did is
  taken up again from the state it left.\<close>

lemma chunk_scan_step_append:
  assumes "\<forall>st'. chunk_scan_step raw st \<noteq> Inl (0, st')"
  shows "chunk_scan_step (raw @ rest) st = chunk_scan_step raw st"
proof (cases "cs_chunk st > 0")
  case True
  then have "\<not> (length raw - cs_pos st < 2 \<or> cs_chunk st > length raw - cs_pos st - 2)"
    using assms by (auto simp: chunk_scan_step_def Let_def split: if_splits)
  then have "Suc (cs_pos st + cs_chunk st) < length raw"
    "\<not> (length (raw @ rest) - cs_pos st < 2 \<or> cs_chunk st > length (raw @ rest) - cs_pos st - 2)"
    by auto
  then show ?thesis using True by (auto simp: chunk_scan_step_def Let_def nth_append)
next
  case False
  then have "crlf_found raw (scan_line_end raw st)"
    using assms by (auto simp: chunk_scan_step_def Let_def split: if_splits)
  then show ?thesis using False
    by (simp add: chunk_scan_step_def Let_def scan_line_end_append_found crlf_found_append
        parse_chunk_size_append_found)
qed

lemma chunk_scan_step_resume:
  assumes "chunk_scan_step raw st = Inl (0, st')"
  shows "cs_pos st' = cs_pos st \<and> chunk_scan_step (raw @ rest) st' = chunk_scan_step (raw @ rest) st"
proof (cases "cs_chunk st > 0")
  case True
  with assms have "st = st'" by (simp add: chunk_scan_step_def Let_def split: if_splits)
  then show ?thesis by simp
next
  case False
  with assms have "st' = st\<lparr>cs_crlf := scan_line_end raw st\<rparr>"
    by (auto simp: chunk_scan_step_def Let_def split: if_splits option.splits)
  then show ?thesis using False
    by (simp add: chunk_scan_step_def Let_def scan_line_end_resume split: option.split)
qed

lemma chunked_complete_append:
  "wolfcert_http_chunked_complete (raw @ rest) st =
     (case wolfcert_http_chunked_complete raw st of
        (r, st') \<Rightarrow> if r = 0 then wolfcert_http_chunked_complete (raw @ rest) st' else (r, st'))"
proof (induction raw st rule: wolfcert_http_chunked_complete.induct)
  case (1 raw st)
  note unroll = wolfcert_http_chunked_complete.simps
  show ?case
  proof (cases "cs_pos st < length raw")
    case False
    then show ?thesis by (simp add: unroll [of raw st])
  next
    case pos: True
    show ?thesis
    proof (cases "\<exists>st'. chunk_scan_step raw st = Inl (0, st')")
      case True
      then obtain st' where st': "chunk_scan_step raw st = Inl (0, st')" by blast
      from chunk_scan_step_resume [OF this, of rest] pos show ?thesis
        by (simp add: unroll [of raw st] st' unroll [of "raw @ rest" st] unroll [of "raw @ rest" st'])
    next
      case False
      then have "chunk_scan_step (raw @ rest) st = chunk_scan_step raw st"
        by (intro chunk_scan_step_append) blast
      then show ?thesis using 1 [OF pos] pos False
        by (auto simp: unroll [of raw st] unroll [of "raw @ rest" st] split: sum.split)
    qed
  qed
qed

section \<open>Trailers\<close>

function trailer_line :: "byte list \<Rightarrow> nat \<Rightarrow> nat \<Rightarrow> nat \<times> nat" where
  "trailer_line raw ri colon =
     (if ri + 1 < length raw \<and> \<not> crlf_at raw ri
      then trailer_line raw (Suc ri)
             (if colon = length raw \<and> raw ! ri = b_colon then ri else colon)
      else (ri, colon))"
  by pat_completeness auto
termination
  by (relation "measure (\<lambda>(raw, ri, colon). length raw - ri)") auto

declare trailer_line.simps [simp del]

lemma fst_trailer_line: "fst (trailer_line raw ri colon) = find_crlf raw ri"
proof (induction raw ri colon rule: trailer_line.induct)
  case (1 raw ri colon)
  then show ?case
    by (cases "ri + 1 < length raw \<and> \<not> crlf_at raw ri")
      (auto simp: trailer_line.simps [of raw ri] find_crlf_step find_crlf_stop)
qed

lemma trailer_line_ge: "(ri, colon) = trailer_line raw ls c \<Longrightarrow> ls \<le> ri"
  using fst_trailer_line [of raw ls c] find_crlf_ge [of ls raw] by (metis fst_conv)

function check_trailers_loop :: "byte list \<Rightarrow> nat \<Rightarrow> wc_rc" where
  "check_trailers_loop raw ls =
     (if ls < length raw then
        (case trailer_line raw ls (length raw) of (ri, colon) \<Rightarrow>
           if ri + 1 \<ge> length raw then WOLFCERT_ERR_PROTOCOL
           else if ri = ls then WOLFCERT_OK
           else if ls \<noteq> 0 \<and> (raw ! ls = b_SP \<or> raw ! ls = b_HT) then check_trailers_loop raw (ri + 2)
           else if colon = length raw \<or> colon = ls then WOLFCERT_ERR_PROTOCOL
           else check_trailers_loop raw (ri + 2))
      else WOLFCERT_ERR_PROTOCOL)"
  by pat_completeness auto
termination
  by (relation "measure (\<lambda>(raw, ls). length raw - ls)")
    (auto dest!: trailer_line_ge intro!: diff_less_mono2)

declare check_trailers_loop.simps [simp del]

definition check_trailers :: "byte list \<Rightarrow> wc_rc" where
  "check_trailers raw = check_trailers_loop raw 0"

section \<open>The decoder\<close>

definition memmove :: "byte list \<Rightarrow> nat \<Rightarrow> nat \<Rightarrow> nat \<Rightarrow> byte list" where
  "memmove M d s n = take d M @ take n (drop s M) @ drop (d + n) M"

text \<open>
  \<open>M\<close> is the memory, \<open>dst\<close> and \<open>src\<close> are the offsets of the two buffers in it, \<open>len\<close> the length of
  the source. The third result is \<open>*out_len\<close>, \<open>None\<close> when the call leaves it unset.
\<close>

function chunked_decode_loop ::
  "byte list \<Rightarrow> nat \<Rightarrow> nat \<Rightarrow> nat \<Rightarrow> nat \<Rightarrow> nat \<Rightarrow> wc_rc \<times> byte list \<times> nat option" where
  "chunked_decode_loop M dst src len p w =
     (let S = take len (drop src M); he = find_crlf S p in
      if \<not> crlf_found S he then (WOLFCERT_ERR_PROTOCOL, M, None)
      else (case parse_chunk_size S p he of
              None \<Rightarrow> (WOLFCERT_ERR_PROTOCOL, M, None)
            | Some clen \<Rightarrow>
                let p1 = he + 2 in
                if clen = 0 then (check_trailers (drop p1 S), M, Some w)
                else if p1 + 2 > len \<or> clen > len - p1 - 2 \<or>
                        S ! (p1 + clen) \<noteq> b_CR \<or> S ! (p1 + clen + 1) \<noteq> b_LF
                then (WOLFCERT_ERR_PROTOCOL, M, None)
                else chunked_decode_loop (memmove M (dst + w) (src + p1) clen) dst src len
                       (p1 + clen + 2) (w + clen)))"
  by pat_completeness auto
termination
proof (relation "measure (\<lambda>(M, dst, src, len, p, w). len - p)", goal_cases)
  case (2 M dst src len p w S he clen p1)
  then have "p \<le> he" "p1 = he + 2" "p1 + 2 \<le> len" using find_crlf_ge [of p S] by auto
  then show ?case by simp
qed simp

declare chunked_decode_loop.simps [simp del]

definition chunked_decode_into :: "byte list \<Rightarrow> nat \<Rightarrow> nat \<Rightarrow> nat \<Rightarrow> wc_rc \<times> byte list \<times> nat option" where
  "chunked_decode_into M dst src len = chunked_decode_loop M dst src len 0 0"

text \<open>
  The wrapper decodes into a fresh buffer of the input's length (\<open>mem 0\<close> tells whether its
  allocation succeeds); a null pointer is the empty result.
\<close>

definition wolfcert_http_chunked_decode :: "mem \<Rightarrow> byte list \<Rightarrow> nat \<Rightarrow> byte list wc_result" where
  "wolfcert_http_chunked_decode mem inp max_bytes =
     (if inp = [] then Err WOLFCERT_ERR_PROTOCOL
      else if \<not> mem 0 then Err WOLFCERT_ERR_MEMORY
      else case chunked_decode_into (inp @ replicate (length inp) 0) (length inp) 0 (length inp) of
             (rc, M, out_len) \<Rightarrow>
               let n = (case out_len of None \<Rightarrow> 0 | Some w \<Rightarrow> w) in
               if rc \<noteq> WOLFCERT_OK then Err rc
               else if n > max_bytes then Err WOLFCERT_ERR_PROTOCOL
               else Ok (take n (drop (length inp) M)))"

section \<open>The grammar of a chunked body\<close>

definition CRLF :: "byte list" where
  "CRLF = [b_CR, b_LF]"

lemma length_CRLF [simp]: "length CRLF = 2"
  by (simp add: CRLF_def)

text \<open>A line without a line end inside it.\<close>

definition one_line :: "byte list \<Rightarrow> bool" where
  "one_line l \<longleftrightarrow> find_crlf (l @ CRLF) 0 = length l"

text \<open>The grammar, for any notion \<open>P\<close> of a well-formed trailer section.\<close>

inductive chunked_msg :: "(byte list \<Rightarrow> bool) \<Rightarrow> byte list \<Rightarrow> byte list \<Rightarrow> bool" for P where
  last: "one_line l \<Longrightarrow> parse_chunk_size l 0 (length l) = Some 0 \<Longrightarrow>
    P t \<Longrightarrow> chunked_msg P (l @ CRLF @ t) []"
| chunk: "one_line l \<Longrightarrow> parse_chunk_size l 0 (length l) = Some (length d) \<Longrightarrow> d \<noteq> [] \<Longrightarrow>
    chunked_msg P t payload \<Longrightarrow> chunked_msg P (l @ CRLF @ d @ CRLF @ t) (d @ payload)"

text \<open>What the decoder takes: the trailer section passes \<open>check_trailers\<close>.\<close>

abbreviation chunked_body :: "byte list \<Rightarrow> byte list \<Rightarrow> bool" where
  "chunked_body \<equiv> chunked_msg (\<lambda>t. check_trailers t = WOLFCERT_OK)"

text \<open>What the scanner frames: lines up to and including the first empty one.\<close>

inductive trailer_section :: "byte list \<Rightarrow> bool" where
  blank: "trailer_section CRLF"
| line: "one_line l \<Longrightarrow> l \<noteq> [] \<Longrightarrow> trailer_section t \<Longrightarrow> trailer_section (l @ CRLF @ t)"

abbreviation chunked_frame :: "byte list \<Rightarrow> byte list \<Rightarrow> bool" where
  "chunked_frame \<equiv> chunked_msg trailer_section"

lemma find_crlf_drop: "p \<le> length S \<Longrightarrow> find_crlf S p = p + find_crlf (drop p S) 0"
proof (rule find_crlf_eqI)
  let ?k = "find_crlf (drop p S) 0"
  assume p: "p \<le> length S"
  show "crlf_at S (p + ?k)" if "p + ?k + 1 < length S"
    using find_crlf_hit [of "drop p S" 0] that p
    by (auto simp: crlf_found_def crlf_at_def add.assoc)
  fix j
  assume j: "p \<le> j" "j < p + ?k"
  then have "j - p < ?k" by auto
  from find_crlf_skip [OF _ this] j p show "j + 1 < length S \<and> \<not> crlf_at S j"
    by (auto simp: crlf_at_def)
qed simp

lemma one_line_find: "one_line l \<Longrightarrow> find_crlf (l @ CRLF @ t) 0 = length l"
  using find_crlf_append_found [of "l @ CRLF" 0 t] by (simp add: one_line_def crlf_found_def CRLF_def)

lemma found_split:
  assumes "crlf_found R (find_crlf R 0)"
  obtains l t where "R = l @ CRLF @ t" "one_line l" "find_crlf R 0 = length l"
proof -
  let ?k = "find_crlf R 0"
  have k: "?k + 1 < length R" "R ! ?k = b_CR" "R ! Suc ?k = b_LF"
    using find_crlf_hit [OF assms] assms by (auto simp: crlf_at_def crlf_found_def)
  then have "drop ?k R = CRLF @ drop (?k + 2) R"
    using Cons_nth_drop_Suc [of ?k R] Cons_nth_drop_Suc [of "Suc ?k" R] by (simp add: CRLF_def)
  then have R: "R = take ?k R @ CRLF @ drop (?k + 2) R" by (metis append_take_drop_id)
  have "find_crlf (take ?k R @ CRLF) 0 = ?k"
  proof (rule find_crlf_eqI)
    fix j
    assume "j < ?k"
    then have "\<not> crlf_at R j" using find_crlf_skip [of 0 j R] by simp
    moreover have "crlf_at (take ?k R @ CRLF) j = crlf_at R j"
      using \<open>j < ?k\<close> k by (cases "Suc j = ?k") (auto simp: crlf_at_def CRLF_def nth_append)
    ultimately show "j + 1 < length (take ?k R @ CRLF) \<and> \<not> crlf_at (take ?k R @ CRLF) j"
      using \<open>j < ?k\<close> k by (simp add: CRLF_def)
  qed (use k in \<open>auto simp: crlf_at_def CRLF_def nth_append\<close>)
  then have "one_line (take ?k R)" using k by (simp add: one_line_def)
  then show thesis using k by (intro that [OF R]) simp_all
qed

lemma parse_chunk_size_drop:
  "parse_chunk_size S p (p + k) = parse_chunk_size (drop p S) 0 k"
  by (simp add: parse_chunk_size_def)

lemma parse_chunk_size_line: "parse_chunk_size (l @ t) 0 (length l) = parse_chunk_size l 0 (length l)"
  by (simp add: parse_chunk_size_def)

subsection \<open>Moving bytes inside one memory\<close>

lemma length_memmove [simp]:
  "d + n \<le> length M \<Longrightarrow> s + n \<le> length M \<Longrightarrow> length (memmove M d s n) = length M"
  by (simp add: memmove_def)

lemma take_memmove: "k \<le> d \<Longrightarrow> d \<le> length M \<Longrightarrow> take k (memmove M d s n) = take k M"
  by (simp add: memmove_def min_def)

lemma drop_memmove:
  "d + n \<le> k \<Longrightarrow> d + n \<le> length M \<Longrightarrow> s + n \<le> length M \<Longrightarrow> drop k (memmove M d s n) = drop k M"
  by (simp add: memmove_def add.commute)

lemma memmove_read:
  "d + n \<le> length M \<Longrightarrow> s + n \<le> length M \<Longrightarrow> take n (drop d (memmove M d s n)) = take n (drop s M)"
  by (simp add: memmove_def)

text \<open>The bytes the decoder has not read yet survive the move of a chunk.\<close>

lemma memmove_unread:
  assumes "dst \<le> src \<or> src + len \<le> dst" "w \<le> p" "p + n \<le> q" "q \<le> len"
    "src + len \<le> length M" "dst + len \<le> length M"
  shows "drop q (take len (drop src (memmove M (dst + w) (src + p) n))) = drop q (take len (drop src M))"
  using assms(1)
proof
  assume "dst \<le> src"
  then have "drop (src + q) (memmove M (dst + w) (src + p) n) = drop (src + q) M"
    using assms by (intro drop_memmove) auto
  then show ?thesis by (simp add: drop_take add.commute)
next
  assume "src + len \<le> dst"
  then have "take (src + len) (memmove M (dst + w) (src + p) n) = take (src + len) M"
    using assms by (intro take_memmove) auto
  then show ?thesis by (metis drop_take add_diff_cancel_left')
qed

subsection \<open>The decoder implements the grammar\<close>

lemma decode_unfound:
  assumes "length (take len (drop src M)) = len" "p \<le> len"
    and "\<not> crlf_found (drop p (take len (drop src M))) (find_crlf (drop p (take len (drop src M))) 0)"
  shows "chunked_decode_loop M dst src len p w = (WOLFCERT_ERR_PROTOCOL, M, None)"
  using assms find_crlf_drop [of p "take len (drop src M)"]
  by (subst chunked_decode_loop.simps) (auto simp: Let_def crlf_found_def)

lemma decode_step:
  fixes M src len
  defines "S \<equiv> take len (drop src M)"
  assumes len: "length S = len" and p: "p \<le> len" and R: "drop p S = l @ CRLF @ t" and l: "one_line l"
  shows "chunked_decode_loop M dst src len p w =
    (case parse_chunk_size l 0 (length l) of
       None \<Rightarrow> (WOLFCERT_ERR_PROTOCOL, M, None)
     | Some n \<Rightarrow>
         if n = 0 then (check_trailers t, M, Some w)
         else if length t < n + 2 \<or> t ! n \<noteq> b_CR \<or> t ! (n + 1) \<noteq> b_LF then (WOLFCERT_ERR_PROTOCOL, M, None)
         else chunked_decode_loop (memmove M (dst + w) (src + (p + length l + 2)) n) dst src len
                (p + length l + 2 + n + 2) (w + n))"
proof -
  have "length (drop p S) = length (l @ CRLF @ t)" by (simp only: R)
  then have lens: "len = p + length l + 2 + length t" using len p by (simp add: CRLF_def)
  have he: "find_crlf S p = p + length l"
    using find_crlf_drop [of p S] p len one_line_find [OF l, of t] by (simp add: R)
  have found: "crlf_found S (p + length l)" using len lens by (simp add: crlf_found_def)
  have sz: "parse_chunk_size S p (p + length l) = parse_chunk_size l 0 (length l)"
    by (simp add: parse_chunk_size_drop R parse_chunk_size_line)
  have t: "drop (p + length l + 2) S = t"
    using arg_cong [OF R, of "drop (length l + 2)"] by (simp add: CRLF_def add.commute add.left_commute)
  have nth: "S ! (p + length l + 2 + i) = t ! i" for i
    using nth_drop [of "p + length l + 2" S i] lens len unfolding t by simp
  have lt: "(p + length l + 2 + 2 > len \<or> n > len - (p + length l + 2) - 2) = (length t < n + 2)" if "n > 0" for n
    using that lens by auto
  have *: "chunked_decode_loop M dst src len p w =
    (case parse_chunk_size l 0 (length l) of
       None \<Rightarrow> (WOLFCERT_ERR_PROTOCOL, M, None)
     | Some n \<Rightarrow>
         if n = 0 then (check_trailers t, M, Some w)
         else if (p + length l + 2 + 2 > len \<or> n > len - (p + length l + 2) - 2) \<or>
                 t ! n \<noteq> b_CR \<or> t ! (n + 1) \<noteq> b_LF then (WOLFCERT_ERR_PROTOCOL, M, None)
         else chunked_decode_loop (memmove M (dst + w) (src + (p + length l + 2)) n) dst src len
                (p + length l + 2 + n + 2) (w + n))"
    using found sz
    by (subst chunked_decode_loop.simps, simp only: S_def [symmetric] Let_def he)
      (simp only: t add.assoc [of "p + length l + 2"] nth not_True_eq_False if_False disj_assoc)
  show ?thesis
  proof (cases "parse_chunk_size l 0 (length l)")
    case (Some n)
    then show ?thesis
      by (cases "n = 0") (simp_all only: * lt option.case if_True if_False simp_thms neq0_conv)
  qed (simp add: *)
qed

lemma decode_complete:
  assumes "chunked_body R payload" "R = drop p (take len (drop src M))" "w \<le> p" "p \<le> len"
    "dst \<le> src \<or> src + len \<le> dst" "src + len \<le> length M" "dst + len \<le> length M"
  shows "chunked_decode_loop M dst src len p w =
    (WOLFCERT_OK, take (dst + w) M @ payload @ drop (dst + w + length payload) M, Some (w + length payload))"
  using assms
proof (induction arbitrary: M p w rule: chunked_msg.induct)
  case (last l t)
  then show ?case by (subst decode_step [OF _ _ last.prems(1) [symmetric]]) auto
next
  case (chunk l d t payload)
  let ?p1 = "p + length l + 2" and ?q = "p + length l + 2 + length d + 2"
  let ?M = "memmove M (dst + w) (src + ?p1) (length d)"
  have S: "length (take len (drop src M)) = len" using chunk.prems by simp
  have "length (drop p (take len (drop src M))) = length (l @ CRLF @ d @ CRLF @ t)"
    by (simp only: chunk.prems(1))
  then have lens: "len = ?q + length t" using S chunk.prems(3) by (simp add: CRLF_def)
  have dS: "drop ?p1 (take len (drop src M)) = d @ CRLF @ t"
    using arg_cong [OF chunk.prems(1), of "drop (length l + 2)"]
    by (simp add: CRLF_def add.commute add.left_commute)
  have tS: "drop ?q (take len (drop src M)) = t"
    using arg_cong [OF dS, of "drop (length d + 2)"] by (simp add: CRLF_def add.commute add.left_commute)
  have d: "take (length d) (drop (src + ?p1) M) = d"
    using arg_cong [OF dS, of "take (length d)"] lens by (simp add: drop_take min_def add.commute)
  have M: "?M = take (dst + w) M @ d @ drop (dst + w + length d) M"
    unfolding memmove_def d ..
  have "t = drop ?q (take len (drop src ?M))"
    using memmove_unread [OF chunk.prems(4) _ _ _ chunk.prems(5,6), of w ?p1 "length d" ?q] chunk.prems(2) lens tS
    by simp
  moreover have "length ?M = length M" using chunk.prems lens by (intro length_memmove) auto
  ultimately have "chunked_decode_loop ?M dst src len ?q (w + length d) =
    (WOLFCERT_OK, take (dst + (w + length d)) ?M @ payload @ drop (dst + (w + length d) + length payload) ?M,
      Some (w + length d + length payload))"
    using chunk.prems lens by (intro chunk.IH) auto
  moreover have "take (dst + (w + length d)) ?M = take (dst + w) M @ d"
    "drop (dst + (w + length d) + length payload) ?M = drop (dst + w + length (d @ payload)) M"
    using chunk.prems lens unfolding M by (simp_all add: min_def add.commute add.left_commute)
  moreover have "chunked_decode_loop M dst src len p w = chunked_decode_loop ?M dst src len ?q (w + length d)"
    using chunk.hyps by (subst decode_step [OF S chunk.prems(3) chunk.prems(1) [symmetric]])
      (auto simp: CRLF_def nth_append)
  ultimately show ?case by (simp add: add.assoc)
qed

lemma split_at_crlf:
  assumes "k + 2 \<le> length t" "t ! k = b_CR" "t ! (k + 1) = b_LF"
  shows "t = take k t @ CRLF @ drop (k + 2) t"
proof -
  have "drop k t = CRLF @ drop (k + 2) t"
    using assms Cons_nth_drop_Suc [of k t] Cons_nth_drop_Suc [of "Suc k" t] by (simp add: CRLF_def)
  then show ?thesis by (metis append_take_drop_id)
qed

lemma decode_sound:
  assumes "chunked_decode_loop M dst src len p w = (WOLFCERT_OK, M', n)" "w \<le> p" "p \<le> len"
    "dst \<le> src \<or> src + len \<le> dst" "src + len \<le> length M" "dst + len \<le> length M"
  shows "\<exists>payload. chunked_body (drop p (take len (drop src M))) payload"
  using assms
proof (induction "len - p" arbitrary: M p w rule: less_induct)
  case less
  let ?R = "drop p (take len (drop src M))"
  have S: "length (take len (drop src M)) = len" using less.prems by simp
  have "crlf_found ?R (find_crlf ?R 0)"
    using less.prems(1) decode_unfound [OF S less.prems(3)] by (cases "crlf_found ?R (find_crlf ?R 0)") auto
  then obtain l t where R: "?R = l @ CRLF @ t" and l: "one_line l" by (rule found_split)
  have lens: "len = p + length l + 2 + length t"
    using arg_cong [OF R, of length] S less.prems(3) by (simp add: CRLF_def)
  note step = less.prems(1) [unfolded decode_step [OF S less.prems(3) R l]]
  obtain k where k: "parse_chunk_size l 0 (length l) = Some k"
    using step by (cases "parse_chunk_size l 0 (length l)") auto
  show ?case
  proof (cases "k = 0")
    case True
    then have "check_trailers t = WOLFCERT_OK" using step k by simp
    then have "chunked_body (l @ CRLF @ t) []" using l k True by (intro chunked_msg.last) auto
    then show ?thesis using R by auto
  next
    case False
    let ?q = "p + length l + 2 + k + 2" and ?M = "memmove M (dst + w) (src + (p + length l + 2)) k"
    have ok: "\<not> (length t < k + 2 \<or> t ! k \<noteq> b_CR \<or> t ! (k + 1) \<noteq> b_LF)"
      and rec: "chunked_decode_loop ?M dst src len ?q (w + k) = (WOLFCERT_OK, M', n)"
      using step k False by (auto split: if_splits)
    have t: "t = take k t @ CRLF @ drop (k + 2) t" using ok by (intro split_at_crlf) auto
    have "drop ?q (take len (drop src M)) = drop (k + 2) t"
    proof -
      have "drop (p + length l + 2) (take len (drop src M)) = t"
        using arg_cong [OF R, of "drop (length l + 2)"]
        by (simp add: CRLF_def add.commute add.left_commute)
      then show ?thesis using drop_drop [of "k + 2" "p + length l + 2" "take len (drop src M)"]
        by (simp add: add.commute add.left_commute)
    qed
    moreover have "length ?M = length M" using less.prems lens ok by (intro length_memmove) auto
    then have "\<exists>payload. chunked_body (drop ?q (take len (drop src ?M))) payload"
      using less.prems lens ok rec by (intro less.hyps [of ?q]) auto
    moreover have "drop ?q (take len (drop src ?M)) = drop ?q (take len (drop src M))"
      using less.prems lens ok by (intro memmove_unread) auto
    ultimately obtain payload where "chunked_body (drop (k + 2) t) payload" by auto
    then have "chunked_body (l @ CRLF @ take k t @ CRLF @ drop (k + 2) t) (take k t @ payload)"
      using l k False ok by (intro chunked_msg.chunk) auto
    then show ?thesis using R t by auto
  qed
qed

lemma chunked_decode_into_iff:
  assumes "dst \<le> src \<or> src + len \<le> dst" "src + len \<le> length M" "dst + len \<le> length M"
  shows "chunked_decode_into M dst src len = (WOLFCERT_OK, M', n) \<longleftrightarrow>
    (\<exists>payload. chunked_body (take len (drop src M)) payload \<and> n = Some (length payload) \<and>
       M' = take dst M @ payload @ drop (dst + length payload) M)"
proof -
  have run: "chunked_decode_into M dst src len =
      (WOLFCERT_OK, take dst M @ payload @ drop (dst + length payload) M, Some (length payload))"
    if "chunked_body (take len (drop src M)) payload" for payload
    using decode_complete [OF that, of 0 len src M 0 dst] assms by (simp add: chunked_decode_into_def)
  show ?thesis
  proof
    assume ok: "chunked_decode_into M dst src len = (WOLFCERT_OK, M', n)"
    then obtain payload where "chunked_body (take len (drop src M)) payload"
      using decode_sound [of M dst src len 0 0 M' n] assms by (auto simp: chunked_decode_into_def)
    with run [OF this] ok show "\<exists>payload. chunked_body (take len (drop src M)) payload \<and>
        n = Some (length payload) \<and> M' = take dst M @ payload @ drop (dst + length payload) M"
      by auto
  qed (auto simp: run)
qed

lemma chunked_body_length: "chunked_body R payload \<Longrightarrow> length payload < length R"
  by (induction rule: chunked_msg.induct) (auto simp: CRLF_def)

lemma chunked_body_unique:
  assumes "chunked_body R a" "chunked_body R b"
  shows "a = b"
proof -
  have "chunked_decode_loop R 0 0 (length R) 0 0 = (WOLFCERT_OK, x @ drop (length x) R, Some (length x))"
    if "chunked_body R x" for x
    using decode_complete [OF that, of 0 "length R" 0 R 0 0] by simp
  from this [OF assms(1)] this [OF assms(2)] show ?thesis by auto
qed



section \<open>The scanner frames messages\<close>

definition scan_at :: "WolfCertChunkScan \<Rightarrow> nat \<Rightarrow> nat \<Rightarrow> bool \<Rightarrow> bool" where
  "scan_at st p T tr \<longleftrightarrow> cs_pos st = p \<and> cs_crlf st \<le> p \<and> cs_chunk st = 0 \<and> cs_total st = T \<and>
     cs_in_trailers st = tr"

lemma scan_line:
  assumes st: "scan_at st p T tr" and R: "drop p raw = l @ CRLF @ t" and l: "one_line l"
  shows "scan_line_end raw st = p + length l" "crlf_found raw (p + length l)" "p < length raw"
    "parse_chunk_size raw p (p + length l) = parse_chunk_size l 0 (length l)"
proof -
  have "length (drop p raw) = length l + 2 + length t" by (simp add: R CRLF_def)
  then show p: "p < length raw" "crlf_found raw (p + length l)" by (auto simp: crlf_found_def)
  have "(if cs_crlf st < cs_pos st then cs_pos st else cs_crlf st) = p"
    using st by (auto simp: scan_at_def)
  then show "scan_line_end raw st = p + length l"
    using find_crlf_drop [of p raw] p one_line_find [OF l, of t] by (simp add: scan_line_end_def R)
  show "parse_chunk_size raw p (p + length l) = parse_chunk_size l 0 (length l)"
    by (simp add: parse_chunk_size_drop R parse_chunk_size_line)
qed

lemma drop_after_line: "drop p raw = l @ CRLF @ t \<Longrightarrow> drop (p + length l + 2) raw = t"
  using drop_drop [of "length l + 2" p raw] by (simp add: CRLF_def add.commute add.left_commute)

lemma scan_trailers_step:
  assumes st: "scan_at st p T True" and R: "drop p raw = l @ CRLF @ t" and l: "one_line l"
  shows "wolfcert_http_chunked_complete raw st =
    (let st' = st\<lparr>cs_crlf := p + length l, cs_pos := p + length l + 2\<rparr>
     in if l = [] then (1, st') else wolfcert_http_chunked_complete raw st')"
  using scan_line [OF assms] st
  by (subst wolfcert_http_chunked_complete.simps) (auto simp: chunk_scan_step_def scan_at_def Let_def)

lemma scan_unfound:
  assumes st: "scan_at st p T tr" and "p \<le> length raw"
    and "\<not> crlf_found (drop p raw) (find_crlf (drop p raw) 0)"
  shows "fst (wolfcert_http_chunked_complete raw st) = 0"
proof -
  have "(if cs_crlf st < cs_pos st then cs_pos st else cs_crlf st) = p"
    using st by (auto simp: scan_at_def)
  then have "\<not> crlf_found raw (scan_line_end raw st)"
    using assms find_crlf_drop [of p raw] by (auto simp: scan_line_end_def crlf_found_def)
  then show ?thesis using st
    by (subst wolfcert_http_chunked_complete.simps) (auto simp: chunk_scan_step_def scan_at_def Let_def)
qed

lemma one_line_Nil: "one_line []"
  by (simp add: one_line_def CRLF_def find_crlf_stop crlf_at_def)

lemma scan_trailers_complete:
  assumes "trailer_section t" "drop p raw = t @ rest" "scan_at st p T True"
  shows "\<exists>st'. wolfcert_http_chunked_complete raw st = (1, st') \<and> cs_pos st' = p + length t \<and> cs_total st' = T"
  using assms
proof (induction arbitrary: p st)
  case blank
  then show ?case using scan_trailers_step [of st p T raw "[]" rest] one_line_Nil
    by (auto simp: scan_at_def CRLF_def)
next
  case (line l t)
  let ?st = "st\<lparr>cs_crlf := p + length l, cs_pos := p + length l + 2\<rparr>"
  have R: "drop p raw = l @ CRLF @ (t @ rest)" using line.prems by simp
  have "scan_at ?st (p + length l + 2) T True" using line.prems by (simp add: scan_at_def)
  from line.IH [OF drop_after_line [OF R] this] scan_trailers_step [OF line.prems(2) R line.hyps(1)] line.hyps(2)
  show ?case by (auto simp: Let_def CRLF_def)
qed

lemma scan_trailers_sound:
  assumes "wolfcert_http_chunked_complete raw st = (1, st')" "scan_at st p T True" "p \<le> length raw"
  shows "\<exists>t rest. drop p raw = t @ rest \<and> trailer_section t \<and> cs_pos st' = p + length t \<and> cs_total st' = T"
  using assms
proof (induction "length raw - p" arbitrary: p st rule: less_induct)
  case less
  have "crlf_found (drop p raw) (find_crlf (drop p raw) 0)"
    using scan_unfound [OF less.prems(2,3)] less.prems(1) by auto
  then obtain l u where R: "drop p raw = l @ CRLF @ u" and l: "one_line l" by (rule found_split)
  note step = scan_trailers_step [OF less.prems(2) R l]
  show ?case
  proof (cases "l = []")
    case True
    then show ?thesis using step less.prems R
      by (intro exI [of _ CRLF] exI [of _ u]) (auto simp: Let_def CRLF_def scan_at_def intro: trailer_section.blank [unfolded CRLF_def])
  next
    case False
    let ?st = "st\<lparr>cs_crlf := p + length l, cs_pos := p + length l + 2\<rparr>"
    have len: "p + length l + 2 \<le> length raw"
      using arg_cong [OF R, of length] less.prems(3) by (simp add: CRLF_def)
    then have lt: "length raw - (p + length l + 2) < length raw - p" by linarith
    have "wolfcert_http_chunked_complete raw ?st = (1, st')" using step False less.prems(1) by (simp add: Let_def)
    moreover have "scan_at ?st (p + length l + 2) T True" using less.prems(2) by (simp add: scan_at_def)
    ultimately obtain t rest where "drop (p + length l + 2) raw = t @ rest" "trailer_section t"
      "cs_pos st' = p + length l + 2 + length t" "cs_total st' = T"
      using less.hyps [OF lt] len by blast
    then show ?thesis using R l False drop_after_line [OF R]
      by (intro exI [of _ "l @ CRLF @ t"] exI [of _ rest]) (auto simp: CRLF_def intro: trailer_section.line [unfolded CRLF_def append.simps])
  qed
qed

lemma scan_size_step:
  assumes st: "scan_at st p T False" and R: "drop p raw = l @ CRLF @ t" and l: "one_line l"
  shows "wolfcert_http_chunked_complete raw st =
    (case parse_chunk_size l 0 (length l) of
       None \<Rightarrow> (-1, st\<lparr>cs_crlf := p + length l\<rparr>)
     | Some n \<Rightarrow>
         if cs_max st \<noteq> 0 \<and> n > size_sub (cs_max st) T then (-1, st\<lparr>cs_crlf := p + length l, cs_chunk := n\<rparr>)
         else if n = 0 then wolfcert_http_chunked_complete raw
           (st\<lparr>cs_crlf := p + length l, cs_chunk := 0, cs_in_trailers := True, cs_pos := p + length l + 2\<rparr>)
         else wolfcert_http_chunked_complete raw
           (st\<lparr>cs_crlf := p + length l, cs_chunk := n, cs_total := size_add T n, cs_pos := p + length l + 2\<rparr>))"
  using scan_line [OF assms] st
  by (subst wolfcert_http_chunked_complete.simps)
    (auto simp: chunk_scan_step_def scan_at_def Let_def split: option.split)

lemma scan_data_step:
  assumes "cs_pos st = p" "cs_chunk st = n" "n > 0" "p \<le> length raw"
  shows "wolfcert_http_chunked_complete raw st =
    (if length raw - p < n + 2 then (0, st)
     else if raw ! (p + n) \<noteq> b_CR \<or> raw ! (p + n + 1) \<noteq> b_LF then (-1, st)
     else wolfcert_http_chunked_complete raw (st\<lparr>cs_pos := p + n + 2, cs_chunk := 0\<rparr>))"
proof -
  have "(length raw - p < 2 \<or> n > length raw - p - 2) = (length raw - p < n + 2)"
    using assms by auto
  then show ?thesis using assms
    by (subst wolfcert_http_chunked_complete.simps) (auto simp: chunk_scan_step_def Let_def)
qed

text \<open>The decoded total stays exact while it is below the size of the address space.\<close>

lemma scan_frame_complete:
  assumes "chunked_frame W payload" "drop p raw = W @ rest" "scan_at st p T False"
    "cs_max st = 0 \<or> T + length payload \<le> cs_max st" "T \<le> p" "length raw < 2 ^ 64" "cs_max st < 2 ^ 64"
  shows "\<exists>st'. wolfcert_http_chunked_complete raw st = (1, st') \<and> cs_pos st' = p + length W \<and>
    cs_total st' = T + length payload"
  using assms
proof (induction arbitrary: p st T rule: chunked_msg.induct)
  case (last l t)
  have R: "drop p raw = l @ CRLF @ (t @ rest)" using last.prems(1) by simp
  let ?st = "st\<lparr>cs_crlf := p + length l, cs_chunk := 0, cs_in_trailers := True, cs_pos := p + length l + 2\<rparr>"
  have "scan_at ?st (p + length l + 2) T True" using last.prems(2) by (simp add: scan_at_def)
  from scan_trailers_complete [OF last.hyps(3) drop_after_line [OF R] this]
    scan_size_step [OF last.prems(2) R last.hyps(1)] last.hyps(2)
  show ?case by (auto simp: CRLF_def)
next
  case (chunk l d t payload)
  have R: "drop p raw = l @ CRLF @ (d @ CRLF @ t @ rest)" using chunk.prems(1) by simp
  let ?p = "p + length l + 2" and ?q = "p + length l + 2 + length d + 2"
  let ?st = "st\<lparr>cs_crlf := p + length l, cs_chunk := length d, cs_total := size_add T (length d), cs_pos := ?p\<rparr>"
  let ?st2 = "?st\<lparr>cs_pos := ?q, cs_chunk := 0\<rparr>"
  have D: "drop ?p raw = d @ CRLF @ t @ rest" by (rule drop_after_line [OF R])
  have len: "?q + length t + length rest = length raw" and p: "p \<le> length raw"
    using arg_cong [OF R, of length] by (auto simp: CRLF_def)
  have T: "size_add T (length d) = T + length d" using chunk.prems(4,5) len by (intro size_add_exact) linarith
  have fits: "\<not> (cs_max st \<noteq> 0 \<and> length d > size_sub (cs_max st) T)"
    using chunk.prems(3,6) by (auto simp: size_sub_exact)
  have "raw ! (?p + length d) = b_CR" "raw ! (?p + length d + 1) = b_LF"
    using nth_drop [of ?p raw "length d"] nth_drop [of ?p raw "length d + 1"] len
    unfolding D by (simp_all add: CRLF_def nth_append)
  then have "wolfcert_http_chunked_complete raw st = wolfcert_http_chunked_complete raw ?st2"
    using scan_size_step [OF chunk.prems(2) R chunk.hyps(1)] chunk.hyps(2,3) fits
      scan_data_step [of ?st ?p "length d" raw] len by auto
  moreover have "drop ?q raw = t @ rest" using drop_after_line [OF D] by (simp add: add.assoc)
  moreover have "scan_at ?st2 ?q (T + length d) False" using chunk.prems(2) T by (simp add: scan_at_def)
  ultimately show ?case
    using chunk.IH [of ?q ?st2 "T + length d"] chunk.prems T len by (auto simp: CRLF_def)
qed

lemma scan_frame_sound:
  assumes "wolfcert_http_chunked_complete raw st = (1, st')" "scan_at st p T False" "p \<le> length raw"
    "cs_max st = 0 \<or> T \<le> cs_max st" "T \<le> p" "length raw < 2 ^ 64" "cs_max st < 2 ^ 64"
  shows "\<exists>W rest payload. drop p raw = W @ rest \<and> chunked_frame W payload \<and> cs_pos st' = p + length W \<and>
    cs_total st' = T + length payload \<and> (cs_max st = 0 \<or> T + length payload \<le> cs_max st)"
  using assms
proof (induction "length raw - p" arbitrary: p st T rule: less_induct)
  case less
  have "crlf_found (drop p raw) (find_crlf (drop p raw) 0)"
    using scan_unfound [OF less.prems(2,3)] less.prems(1) by auto
  then obtain l u where R: "drop p raw = l @ CRLF @ u" and l: "one_line l" by (rule found_split)
  have len: "p + length l + 2 + length u = length raw"
    using arg_cong [OF R, of length] less.prems(3) by (simp add: CRLF_def)
  have u: "drop (p + length l + 2) raw = u" by (rule drop_after_line [OF R])
  note step = scan_size_step [OF less.prems(2) R l]
  obtain n where n: "parse_chunk_size l 0 (length l) = Some n"
    using step less.prems(1) by (cases "parse_chunk_size l 0 (length l)") auto
  have fits: "\<not> (cs_max st \<noteq> 0 \<and> n > size_sub (cs_max st) T)"
    using step n less.prems(1) by (auto split: if_splits)
  then have cap: "cs_max st = 0 \<or> T + n \<le> cs_max st"
    using less.prems(4,7) by (auto simp: size_sub_exact)
  show ?case
  proof (cases "n = 0")
    case True
    let ?st = "st\<lparr>cs_crlf := p + length l, cs_chunk := 0, cs_in_trailers := True, cs_pos := p + length l + 2\<rparr>"
    have "scan_at ?st (p + length l + 2) T True" using less.prems(2) by (simp add: scan_at_def)
    moreover have "wolfcert_http_chunked_complete raw ?st = (1, st')"
      using step n fits True less.prems(1) by auto
    ultimately obtain t rest where t: "u = t @ rest" "trailer_section t"
      "cs_pos st' = p + length l + 2 + length t" "cs_total st' = T"
      using scan_trailers_sound [of raw ?st st' "p + length l + 2" T] len u by auto
    then have "chunked_frame (l @ CRLF @ t) []" using l n True by (intro chunked_msg.last) auto
    then show ?thesis using t R less.prems(4)
      by (intro exI [of _ "l @ CRLF @ t"] exI [of _ rest] exI [of _ "[]"]) (auto simp: CRLF_def)
  next
    case False
    let ?p = "p + length l + 2" and ?q = "p + length l + 2 + n + 2"
    let ?st = "st\<lparr>cs_crlf := p + length l, cs_chunk := n, cs_total := size_add T n, cs_pos := ?p\<rparr>"
    let ?st2 = "?st\<lparr>cs_pos := ?q, cs_chunk := 0\<rparr>"
    have "wolfcert_http_chunked_complete raw ?st = (1, st')"
      using step n fits False less.prems(1) by auto
    then have d: "n + 2 \<le> length u" "raw ! (?p + n) = b_CR" "raw ! (?p + n + 1) = b_LF"
      and rec: "wolfcert_http_chunked_complete raw ?st2 = (1, st')"
      using scan_data_step [of ?st ?p n raw] False len by (auto split: if_splits)
    have "u ! n = b_CR" "u ! (n + 1) = b_LF"
      using d nth_drop [of ?p raw n] nth_drop [of ?p raw "n + 1"] len unfolding u by simp_all
    then have us: "u = take n u @ CRLF @ drop (n + 2) u" using d by (intro split_at_crlf) auto
    have T: "size_add T n = T + n" using less.prems(5,6) len d(1) by (intro size_add_exact) linarith
    have "scan_at ?st2 ?q (T + n) False" using less.prems(2) T by (simp add: scan_at_def)
    moreover have "length raw - ?q < length raw - p" "?q \<le> length raw" using len d(1) by linarith+
    ultimately obtain W rest payload where W: "drop ?q raw = W @ rest" "chunked_frame W payload"
      "cs_pos st' = ?q + length W" "cs_total st' = T + n + length payload"
      "cs_max st = 0 \<or> T + n + length payload \<le> cs_max st"
      using less.hyps [of ?q ?st2 "T + n"] rec cap less.prems(5-7) by auto
    have "drop (n + 2) u = W @ rest" using W(1) drop_drop [of "n + 2" ?p raw] unfolding u
      by (simp add: add.commute add.left_commute)
    with us have ur: "u = take n u @ CRLF @ W @ rest" by simp
    have "chunked_frame (l @ CRLF @ take n u @ CRLF @ W) (take n u @ payload)"
      using l n False d(1) W(2) by (intro chunked_msg.chunk) auto
    then show ?thesis
      using W R ur d(1)
      by (intro exI [of _ "l @ CRLF @ take n u @ CRLF @ W"] exI [of _ rest] exI [of _ "take n u @ payload"])
        (auto simp: CRLF_def)
  qed
qed

text \<open>
  C27. The scanner frames exactly one message: from a fresh state it returns 1 if and only if the
  received bytes start with a complete chunked message (chunks, last chunk, trailer lines, empty
  line) whose decoded size is within the cap, and then \<open>pos\<close> is the end of that message and
  \<open>total\<close> its decoded size. Bytes after the message (the next response on a kept-alive
  connection) are not counted.
\<close>

theorem chunked_complete_frames:
  assumes "length raw < 2 ^ 64" "m < 2 ^ 64"
  shows "(\<exists>st. wolfcert_http_chunked_complete raw (chunk_scan_init m) = (1, st) \<and>
            cs_pos st = n \<and> cs_total st = k) \<longleftrightarrow>
    (\<exists>payload. n \<le> length raw \<and> chunked_frame (take n raw) payload \<and> length payload = k \<and> (m = 0 \<or> k \<le> m))"
proof
  have init: "scan_at (chunk_scan_init m) 0 0 False" "cs_max (chunk_scan_init m) = m"
    by (simp_all add: scan_at_def chunk_scan_init_def)
  {
    assume "\<exists>st. wolfcert_http_chunked_complete raw (chunk_scan_init m) = (1, st) \<and>
      cs_pos st = n \<and> cs_total st = k"
    then show "\<exists>payload. n \<le> length raw \<and> chunked_frame (take n raw) payload \<and> length payload = k \<and>
        (m = 0 \<or> k \<le> m)"
      using scan_frame_sound [OF _ init(1)] assms init(2) by fastforce
  next
    assume "\<exists>payload. n \<le> length raw \<and> chunked_frame (take n raw) payload \<and> length payload = k \<and>
      (m = 0 \<or> k \<le> m)"
    then show "\<exists>st. wolfcert_http_chunked_complete raw (chunk_scan_init m) = (1, st) \<and>
        cs_pos st = n \<and> cs_total st = k"
      using scan_frame_complete [OF _ _ init(1), of "take n raw" _ raw "drop n raw"] assms init(2) by auto
  }
qed

theorem chunked_complete_frames_witness:
  "\<exists>payload. chunked_frame (take 16 (lit ''3'' @ CRLF @ lit ''abc'' @ CRLF @ lit ''0'' @ CRLF @
     lit ''x'' @ CRLF @ CRLF @ lit ''HTTP'')) payload \<and> length payload = 3"
proof -
  let ?raw = "lit ''3'' @ CRLF @ lit ''abc'' @ CRLF @ lit ''0'' @ CRLF @ lit ''x'' @ CRLF @ CRLF @ lit ''HTTP''"
  have "case wolfcert_http_chunked_complete ?raw (chunk_scan_init 3) of
      (r, st) \<Rightarrow> r = 1 \<and> cs_pos st = 16 \<and> cs_total st = 3" by code_simp
  then have "\<exists>st. wolfcert_http_chunked_complete ?raw (chunk_scan_init 3) = (1, st) \<and>
      cs_pos st = 16 \<and> cs_total st = 3" by (cases "wolfcert_http_chunked_complete ?raw (chunk_scan_init 3)") auto
  moreover have "length ?raw < 2 ^ 64" "(3 :: nat) < 2 ^ 64" by (simp_all add: CRLF_def)
  ultimately show ?thesis using chunked_complete_frames [of ?raw 3 16 3] by blast
qed

text \<open>
  C28. Scanning is independent of how the data arrives: after a scan that ran out of data, going on
  from the state it left gives, on the extended data, exactly the result (return code and state) of
  scanning the extended data from the original state; and a scan that ended (complete or
  malformed) is not changed by further data.
\<close>

theorem chunked_complete_resumable:
  "wolfcert_http_chunked_complete (raw @ rest) st =
     (case wolfcert_http_chunked_complete raw st of
        (r, st') \<Rightarrow> if r = 0 then wolfcert_http_chunked_complete (raw @ rest) st' else (r, st'))"
  by (rule chunked_complete_append)

end
