(* ===== verification/Cstring.thy ===== *)
theory Cstring
  imports Http_Chunked
begin

text \<open>
  The C string functions the library calls (\<open>strtol\<close>, \<open>strchr\<close>, \<open>strstr\<close>, \<open>strncmp\<close>) on the
  list model of C strings, and the case-insensitive comparisons, header-line helpers, status line
  and header lookup of \<open>src/http.c\<close>.
\<close>

section \<open>The C library\<close>

definition LONG_MAX :: int where
  "LONG_MAX = 2 ^ 63 - 1"

definition LONG_MIN :: int where
  "LONG_MIN = - (2 ^ 63)"

definition is_space :: "byte \<Rightarrow> bool" where
  "is_space c \<longleftrightarrow> c = b_SP \<or> (b_HT \<le> c \<and> c \<le> b_CR)"

definition digits_val :: "byte list \<Rightarrow> nat" where
  "digits_val ds = foldl (\<lambda>v c. v * 10 + dval c) 0 ds"

text \<open>
  \<open>strtol(s, &end, 10)\<close>: the value, saturated at the range of \<open>long\<close>, and what \<open>end\<close> points to
  (the whole of \<open>s\<close> when there is no digit).
\<close>

definition strtol :: "cstring \<Rightarrow> int \<times> cstring" where
  "strtol s =
     (let t = dropWhile is_space s;
          neg = (cat t 0 = b_minus);
          u = (if cat t 0 = b_minus \<or> cat t 0 = b_plus then drop 1 t else t);
          ds = takeWhile is_dig u;
          v = int (digits_val ds)
      in if ds = [] then (0, s)
         else (if neg then max LONG_MIN (- v) else min LONG_MAX v, dropWhile is_dig u))"

text \<open>The index at which a character or the line end is found, if it is.\<close>

definition strchr :: "cstring \<Rightarrow> byte \<Rightarrow> nat option" where
  "strchr s c = (let k = length (takeWhile (\<lambda>b. b \<noteq> c) s) in if k < length s then Some k else None)"

definition strstr_crlf :: "cstring \<Rightarrow> nat option" where
  "strstr_crlf s = (let k = find_crlf s 0 in if crlf_found s k then Some k else None)"

definition starts_with :: "cstring \<Rightarrow> cstring \<Rightarrow> bool" where
  "starts_with s pre \<longleftrightarrow> take (length pre) s = pre"

fun strstr :: "cstring \<Rightarrow> cstring \<Rightarrow> nat option" where
  "strstr [] pat = (if pat = [] then Some 0 else None)"
| "strstr (c # s) pat = (if starts_with (c # s) pat then Some 0 else map_option Suc (strstr s pat))"

lemma strchr_SomeD: "strchr s c = Some k \<Longrightarrow> k < length s \<and> s ! k = c \<and> c \<notin> set (take k s)"
  by (auto simp: strchr_def Let_def split: if_splits dest: nth_length_takeWhile set_takeWhileD
      simp flip: takeWhile_eq_take)

lemma strchr_append: "c \<notin> set a \<Longrightarrow> strchr (a @ c # b) c = Some (length a)"
  by (simp add: strchr_def Let_def takeWhile_append)

lemma strchr_len:
  "(case strchr s c of Some k \<Rightarrow> k | None \<Rightarrow> length s) = length (takeWhile (\<lambda>b. b \<noteq> c) s)"
  using length_takeWhile_le [of "\<lambda>b. b \<noteq> c" s] by (simp add: strchr_def Let_def)

lemma strchr_None: "strchr s c = None \<longleftrightarrow> c \<notin> set s"
proof -
  have "length (takeWhile (\<lambda>b. b \<noteq> c) s) < length s \<longleftrightarrow> c \<in> set s"
    by (induction s) auto
  then show ?thesis by (simp add: strchr_def Let_def)
qed

lemma strstr_SomeD: "strstr s pat = Some k \<Longrightarrow> k + length pat \<le> length s \<and> take (length pat) (drop k s) = pat"
  by (induction s arbitrary: k) (auto simp: starts_with_def split: if_splits dest: arg_cong [of _ _ length])

lemma strstr_first:
  "strstr (a @ pat @ b) pat = Some (length a)"
  if "\<And>i. i < length a \<Longrightarrow> \<not> starts_with (drop i (a @ pat @ b)) pat"
  using that
proof (induction a)
  case Nil
  have "starts_with (pat @ b) pat" by (simp add: starts_with_def)
  then show ?case by (cases "pat @ b") auto
next
  case (Cons c a)
  have "\<not> starts_with ((c # a) @ pat @ b) pat" using Cons.prems [of 0] by simp
  moreover have "strstr (a @ pat @ b) pat = Some (length a)"
    using Cons.prems [of "Suc _"] by (intro Cons.IH) auto
  ultimately show ?case by simp
qed

lemma strstr_crlf_line:
  "one_line l \<Longrightarrow> strstr_crlf (l @ CRLF @ t) = Some (length l)"
  by (simp add: strstr_crlf_def Let_def one_line_find crlf_found_def)

lemma digits_val_append: "digits_val (ds @ [c]) = digits_val ds * 10 + dval c"
  by (simp add: digits_val_def)

section \<open>Case-insensitive comparison\<close>

definition ci_lower :: "byte \<Rightarrow> byte" where
  "ci_lower c = (if b_A \<le> c \<and> c \<le> b_Z then c + 32 else c)"

definition byte_diff :: "byte \<Rightarrow> byte \<Rightarrow> int" where
  "byte_diff a b = int (unat a) - int (unat b)"

fun ci_cmp :: "cstring \<Rightarrow> cstring \<Rightarrow> int" where
  "ci_cmp [] b = byte_diff (ci_lower 0) (ci_lower (cat b 0))"
| "ci_cmp (x # a) b =
     (if x \<noteq> 0 \<and> ci_lower x = ci_lower (cat b 0) then ci_cmp a (drop 1 b)
      else byte_diff (ci_lower x) (ci_lower (cat b 0)))"

fun wolfcert_ascii_ncasecmp :: "cstring \<Rightarrow> cstring \<Rightarrow> nat \<Rightarrow> int" where
  "wolfcert_ascii_ncasecmp a b 0 = 0"
| "wolfcert_ascii_ncasecmp a b (Suc n) =
     (let ca = ci_lower (cat a 0); cb = ci_lower (cat b 0) in
      if ca \<noteq> cb then byte_diff ca cb
      else if ca = 0 then 0
      else wolfcert_ascii_ncasecmp (drop 1 a) (drop 1 b) n)"

lemma byte_diff_0 [simp]: "byte_diff a b = 0 \<longleftrightarrow> a = b"
  by (simp add: byte_diff_def word_uint_eq_iff)

lemma ci_lower_0 [simp]: "ci_lower c = 0 \<longleftrightarrow> c = 0"
  by (auto simp: ci_lower_def word_le_nat_alt word_unat_eq_iff unat_word_ariths)

lemma ci_cmp_eq:
  "0 \<notin> set a \<Longrightarrow> 0 \<notin> set b \<Longrightarrow> ci_cmp a b = 0 \<longleftrightarrow> map ci_lower a = map ci_lower b"
proof (induction a b rule: ci_cmp.induct)
  case (1 b)
  then show ?case by (cases b) (auto simp: ci_lower_def [of 0])
next
  case (2 x a b)
  then show ?case by (cases b) (auto simp: ci_lower_def [of 0])
qed

lemma ncasecmp_eq:
  "length b = n \<Longrightarrow> 0 \<notin> set b \<Longrightarrow> n \<le> length a \<Longrightarrow>
     wolfcert_ascii_ncasecmp a b n = 0 \<longleftrightarrow> map ci_lower (take n a) = map ci_lower b"
proof (induction a b n rule: wolfcert_ascii_ncasecmp.induct)
  case (2 a b n)
  then show ?case by (cases a; cases b) (auto simp: Let_def)
qed simp

end
