(* ===== verification/Internal.thy ===== *)
theory Internal
  imports Cstring
begin

text \<open>
  The shared helpers of \<open>src/internal.c\<close> and \<open>src/errors.c\<close>: the error record of a thread, error
  texts, the mapping of wolfSSL return codes, buffers in base64 and hexadecimal, PEM to DER. The
  wolfSSL functions and constants they use are parameters.
\<close>

section \<open>Error texts and the error record\<close>

definition wolfcert_strerror :: "int \<Rightarrow> string" where
  "wolfcert_strerror err =
     (if err = rc_code WOLFCERT_OK then ''ok''
      else if err = rc_code WOLFCERT_ERR_GENERIC then ''generic error''
      else if err = rc_code WOLFCERT_ERR_BAD_ARG then ''bad argument''
      else if err = rc_code WOLFCERT_ERR_MEMORY then ''out of memory''
      else if err = rc_code WOLFCERT_ERR_IO then ''I/O error''
      else if err = rc_code WOLFCERT_ERR_TLS then ''TLS error''
      else if err = rc_code WOLFCERT_ERR_HTTP then ''HTTP error''
      else if err = rc_code WOLFCERT_ERR_PROTOCOL then ''protocol error''
      else if err = rc_code WOLFCERT_ERR_AUTH then ''authentication error''
      else if err = rc_code WOLFCERT_ERR_CRYPTO then ''cryptographic error''
      else if err = rc_code WOLFCERT_ERR_PARSE then ''parse error''
      else if err = rc_code WOLFCERT_ERR_NOT_FOUND then ''not found''
      else if err = rc_code WOLFCERT_ERR_UNSUPPORTED then ''unsupported''
      else if err = rc_code WOLFCERT_ERR_PENDING then ''pending approval''
      else if err = rc_code WOLFCERT_ERR_WANT_READ then ''would block (want read)''
      else if err = rc_code WOLFCERT_ERR_WANT_WRITE then ''would block (want write)''
      else if err = rc_code WOLFCERT_ERR_CONN_CLOSED then ''connection closed by peer''
      else ''unknown error'')"

record WolfCertErrState =
  err_wolfcert_rc :: int
  err_wolfssl_rc :: int
  err_module :: cstring
  err_message :: cstring

definition wolfcert_clear_error :: WolfCertErrState where
  "wolfcert_clear_error = \<lparr>err_wolfcert_rc = 0, err_wolfssl_rc = 0, err_module = [], err_message = []\<rparr>"

text \<open>\<open>message\<close> is the formatted text; both texts are cut to their buffers (32 and 256 bytes).\<close>

definition wolfcert_set_error ::
  "int \<Rightarrow> int \<Rightarrow> cstring option \<Rightarrow> cstring \<Rightarrow> WolfCertErrState \<Rightarrow> int \<times> WolfCertErrState" where
  "wolfcert_set_error wolfcert_rc wolfssl_rc module message g_err =
     (wolfcert_rc,
      g_err\<lparr>err_wolfcert_rc := wolfcert_rc, err_wolfssl_rc := wolfssl_rc,
            err_module := (case module of None \<Rightarrow> [] | Some m \<Rightarrow> take 31 m),
            err_message := take 255 message\<rparr>)"

lemma wolfcert_strerror_inj:
  "wolfcert_strerror (rc_code a) = wolfcert_strerror (rc_code b) \<longleftrightarrow> a = b"
  by (cases a; cases b; simp add: wolfcert_strerror_def)

section \<open>wolfSSL return codes\<close>

record wc_codes =
  MEMORY_E :: int
  BAD_FUNC_ARG :: int
  BUFFER_E :: int
  ASN_PARSE_E :: int
  NOT_COMPILED_IN :: int
  ALGO_ID_E :: int

definition wolfcert_map_wc_err :: "wc_codes \<Rightarrow> int \<Rightarrow> wc_rc" where
  "wolfcert_map_wc_err wc rc =
     (if rc = 0 then WOLFCERT_OK
      else if rc = MEMORY_E wc then WOLFCERT_ERR_MEMORY
      else if rc = BAD_FUNC_ARG wc then WOLFCERT_ERR_BAD_ARG
      else if rc = BUFFER_E wc then WOLFCERT_ERR_MEMORY
      else if rc = ASN_PARSE_E wc then WOLFCERT_ERR_PARSE
      else if rc = NOT_COMPILED_IN wc \<or> rc = ALGO_ID_E wc then WOLFCERT_ERR_UNSUPPORTED
      else WOLFCERT_ERR_CRYPTO)"

lemma wolfcert_map_wc_err_OK [simp]: "wolfcert_map_wc_err wc rc = WOLFCERT_OK \<longleftrightarrow> rc = 0"
  by (simp add: wolfcert_map_wc_err_def)

definition wolfcert_rng_new :: "wc_codes \<Rightarrow> int \<Rightarrow> wc_rc" where
  "wolfcert_rng_new wc init_rc = (if init_rc = 0 then WOLFCERT_OK else wolfcert_map_wc_err wc init_rc)"

datatype WolfCertProtocol = WOLFCERT_PROTO_EST | WOLFCERT_PROTO_SCEP

definition wolfcert_cfg_require_proto :: "WolfCertProtocol \<Rightarrow> WolfCertProtocol \<Rightarrow> wc_rc" where
  "wolfcert_cfg_require_proto protocol want = (if protocol = want then WOLFCERT_OK else WOLFCERT_ERR_BAD_ARG)"

datatype ecc_curve = ECC_SECP256R1 | ECC_SECP384R1 | ECC_SECP521R1

definition wolfcert_ecc_curve_from_param :: "int \<Rightarrow> (ecc_curve \<times> int) wc_result" where
  "wolfcert_ecc_curve_from_param param =
     (if param = 256 then Ok (ECC_SECP256R1, 32)
      else if param = 384 then Ok (ECC_SECP384R1, 48)
      else if param = 521 then Ok (ECC_SECP521R1, 66)
      else Err WOLFCERT_ERR_UNSUPPORTED)"

section \<open>Buffers\<close>

definition wolfcert_is_printable_string :: "byte list \<Rightarrow> bool" where
  "wolfcert_is_printable_string s =
     list_all (\<lambda>c. \<not> ((c < b_A \<or> c > b_Z) \<and> (c < b_a \<or> c > b_z) \<and> (c < b_0 \<or> c > b_9) \<and>
        (c = 0 \<or> strchr (lit '' '' @ lit [CHR 0x27] @ lit ''()+,-./:=?'') c = None))) s"

definition wolfcert_buffer_is_der :: "byte list option \<Rightarrow> bool" where
  "wolfcert_buffer_is_der buf = (case buf of None \<Rightarrow> False | Some b \<Rightarrow> length b > 0 \<and> b ! 0 = 0x30)"

definition hex_chars :: "bool \<Rightarrow> byte list" where
  "hex_chars upper = (if upper then lit ''0123456789ABCDEF'' else lit ''0123456789abcdef'')"

definition wolfcert_hex_encode :: "byte list \<Rightarrow> bool \<Rightarrow> byte list" where
  "wolfcert_hex_encode inp upper =
     concat (map (\<lambda>b. [hex_chars upper ! (unat b div 16), hex_chars upper ! (unat b mod 16)]) inp)"

text \<open>
  The base64 codecs of wolfSSL: \<open>enc inp cap\<close> and \<open>dec inp cap\<close> give the return code and what was
  written into a buffer of \<open>cap\<close> bytes.
\<close>

type_synonym b64_fun = "byte list \<Rightarrow> nat \<Rightarrow> int \<times> byte list"

definition wolfcert_base64_encode :: "wc_codes \<Rightarrow> b64_fun \<Rightarrow> mem \<Rightarrow> byte list option \<Rightarrow> byte list wc_result" where
  "wolfcert_base64_encode wc enc mem inp =
     (case inp of
        None \<Rightarrow> Err WOLFCERT_ERR_BAD_ARG
      | Some b \<Rightarrow>
          let cap = ((length b + 2) div 3 * 4 + 4) mod 2 ^ 32 in
          if \<not> mem 0 then Err WOLFCERT_ERR_MEMORY
          else case enc b cap of (rc, out) \<Rightarrow> if rc \<noteq> 0 then Err (wolfcert_map_wc_err wc rc) else Ok out)"

definition wolfcert_base64_encode_mime :: "wc_codes \<Rightarrow> b64_fun \<Rightarrow> mem \<Rightarrow> byte list option \<Rightarrow> byte list wc_result" where
  "wolfcert_base64_encode_mime wc enc mem inp =
     (case inp of
        None \<Rightarrow> Err WOLFCERT_ERR_BAD_ARG
      | Some b \<Rightarrow>
          let cap = ((length b + 2) div 3 * 4 + (length b div 48 + 2) + 4) mod 2 ^ 32 in
          if \<not> mem 0 then Err WOLFCERT_ERR_MEMORY
          else case enc b cap of (rc, out) \<Rightarrow> if rc \<noteq> 0 then Err (wolfcert_map_wc_err wc rc) else Ok out)"

definition wolfcert_base64_decode :: "wc_codes \<Rightarrow> b64_fun \<Rightarrow> mem \<Rightarrow> byte list option \<Rightarrow> byte list wc_result" where
  "wolfcert_base64_decode wc dec mem inp =
     (case inp of
        None \<Rightarrow> Err WOLFCERT_ERR_BAD_ARG
      | Some b \<Rightarrow>
          let c0 = length b mod 2 ^ 32; cap = (if c0 < 4 then 4 else c0) in
          if \<not> mem 0 then Err WOLFCERT_ERR_MEMORY
          else case dec b cap of (rc, out) \<Rightarrow> if rc \<noteq> 0 then Err (wolfcert_map_wc_err wc rc) else Ok out)"

text \<open>\<open>wc_PemToDer\<close> for certificates: its return code and the DER buffer it may have produced.\<close>

definition wolfcert_pem_cert_to_der ::
  "wc_codes \<Rightarrow> (byte list \<Rightarrow> int \<times> byte list option) \<Rightarrow> mem \<Rightarrow> byte list \<Rightarrow> byte list wc_result" where
  "wolfcert_pem_cert_to_der wc pem_to_der mem pem =
     (if pem = [] then Err WOLFCERT_ERR_BAD_ARG
      else case pem_to_der pem of (rc, der) \<Rightarrow>
             (if rc \<noteq> 0 \<or> der = None
              then Err (if rc = MEMORY_E wc then WOLFCERT_ERR_MEMORY else WOLFCERT_ERR_PARSE)
              else if \<not> mem 0 then Err WOLFCERT_ERR_MEMORY
              else Ok (the der)))"

section \<open>Decimal text (the conversions \<open>%d\<close> and \<open>%zu\<close>)\<close>

function nat_text :: "nat \<Rightarrow> byte list" where
  "nat_text n = (if n < 10 then [dchar n] else nat_text (n div 10) @ [dchar (n mod 10)])"
  by pat_completeness auto
termination
  by (relation "measure id") auto

declare nat_text.simps [simp del]

lemma nat_text_digits: "nat_text n \<noteq> [] \<and> list_all is_dig (nat_text n) \<and> digits_val (nat_text n) = n"
proof (induction n rule: nat_text.induct)
  case (1 n)
  then show ?case
    by (cases "n < 10") (simp_all add: nat_text.simps [of n] digits_val_append, simp add: digits_val_def)
qed

section \<open>Hexadecimal text\<close>

fun hex_decode :: "byte list \<Rightarrow> byte list option" where
  "hex_decode [] = Some []"
| "hex_decode [c] = None"
| "hex_decode (a # b # cs) =
     (case (hex_digit a, hex_digit b, hex_decode cs) of
        (Some x, Some y, Some bs) \<Rightarrow> Some (of_nat (16 * x + y) # bs)
      | _ \<Rightarrow> None)"

lemma hex_digit_hex_chars:
  assumes "n < 16"
  shows "hex_digit (hex_chars upper ! n) = Some n"
proof -
  have "\<forall>n \<in> set [0..<16]. hex_digit (hex_chars True ! n) = Some n"
    "\<forall>n \<in> set [0..<16]. hex_digit (hex_chars False ! n) = Some n" by code_simp+
  then show ?thesis using assms by (cases upper) auto
qed

text \<open>
  Hexadecimal encoding, in either case, writes two digits per byte and is inverted by reading
  the digits back with \<open>hex_digit\<close>.
\<close>

lemma hex_encode_decode:
  "hex_decode (wolfcert_hex_encode bs upper) = Some bs \<and> length (wolfcert_hex_encode bs upper) = 2 * length bs"
proof (induction bs)
  case (Cons b bs)
  have "unat b div 16 < 16" using unat_byte_less [of b] by (simp add: div_less_iff_less_mult)
  moreover have "16 * (unat b div 16) + unat b mod 16 = unat b" by simp
  ultimately show ?case using Cons
    by (simp add: wolfcert_hex_encode_def hex_digit_hex_chars del: of_nat_add of_nat_mult)
qed (simp add: wolfcert_hex_encode_def)

end
