(* ===== verification/Der.thy ===== *)
theory Der
  imports Internal
begin

text \<open>
  DER elements, as \<open>src/scep/scep_msg.c\<close> and \<open>src/est/csr_attrs.c\<close> read and write them. Both files
  have a reader of their own; the locale \<open>tlv_reader\<close> states what their clients rely on, and both
  are instances of it. The writers of \<open>scep_msg.c\<close> fill a buffer of given capacity and return the
  number of bytes written: here the bytes, or \<open>None\<close> for a negative return.
\<close>

section \<open>Lengths\<close>

text \<open>\<open>b & 0x80\<close> is set for the values from 128 on, and \<open>b & 0x7F\<close> is the value modulo 128.\<close>

definition hi_bit :: "byte \<Rightarrow> bool" where
  "hi_bit b \<longleftrightarrow> unat b \<ge> 128"

definition low7 :: "byte \<Rightarrow> nat" where
  "low7 b = unat b mod 128"

definition be_val :: "byte list \<Rightarrow> nat" where
  "be_val bs = foldl (\<lambda>n b. n * 256 + unat b) 0 bs"

definition nat_byte :: "nat \<Rightarrow> byte" where
  "nat_byte n = word_of_nat n"

definition der_put_len :: "nat \<Rightarrow> nat \<Rightarrow> byte list option" where
  "der_put_len cap n =
     (if n < 0x80 then (if cap < 1 then None else Some [nat_byte n])
      else if n \<le> 0xFF then (if cap < 2 then None else Some [0x81, nat_byte n])
      else if n \<le> 0xFFFF then (if cap < 3 then None else Some [0x82, nat_byte (n div 2 ^ 8), nat_byte n])
      else if n \<le> 0xFFFFFF
      then (if cap < 4 then None else Some [0x83, nat_byte (n div 2 ^ 16), nat_byte (n div 2 ^ 8), nat_byte n])
      else if n div 2 ^ 32 \<noteq> 0 then None
      else if cap < 5 then None
      else Some [0x84, nat_byte (n div 2 ^ 24), nat_byte (n div 2 ^ 16), nat_byte (n div 2 ^ 8), nat_byte n])"

section \<open>Writers\<close>

text \<open>The body the writers share: a tag, the length, the content.\<close>

definition put_tlv :: "byte \<Rightarrow> byte list \<Rightarrow> nat \<Rightarrow> byte list option" where
  "put_tlv tag v cap =
     (if cap < 1 then None
      else case der_put_len (cap - 1) (length v) of
             None \<Rightarrow> None
           | Some ll \<Rightarrow> if 1 + length ll + length v > cap then None else Some (tag # ll @ v))"

definition enc_printable_n :: "byte list \<Rightarrow> nat \<Rightarrow> byte list wc_result" where
  "enc_printable_n v cap =
     (if \<not> wolfcert_is_printable_string v then Err WOLFCERT_ERR_BAD_ARG
      else case put_tlv 0x13 v cap of None \<Rightarrow> Err WOLFCERT_ERR_MEMORY | Some out \<Rightarrow> Ok out)"

definition enc_printable :: "cstring \<Rightarrow> nat \<Rightarrow> byte list wc_result" where
  "enc_printable s cap = enc_printable_n s cap"

definition enc_seq :: "byte list \<Rightarrow> nat \<Rightarrow> byte list option" where
  "enc_seq v cap = put_tlv 0x30 v cap"

definition enc_octet :: "byte list \<Rightarrow> nat \<Rightarrow> byte list option" where
  "enc_octet v cap = put_tlv 0x04 v cap"

fun wolfcert_scep_int_magnitude :: "byte list \<Rightarrow> byte list" where
  "wolfcert_scep_int_magnitude (a # b # v) =
     (if a = 0 then wolfcert_scep_int_magnitude (b # v) else a # b # v)"
| "wolfcert_scep_int_magnitude v = v"

definition int_pad :: "byte list \<Rightarrow> nat" where
  "int_pad v = (if hi_bit (v ! 0) then 1 else 0)"

definition enc_integer_content_len :: "byte list \<Rightarrow> nat" where
  "enc_integer_content_len v =
     (if v = [] then 0
      else let m = wolfcert_scep_int_magnitude v in length m + int_pad m)"

definition enc_integer :: "byte list \<Rightarrow> nat \<Rightarrow> byte list option" where
  "enc_integer v cap =
     (if v = [] \<or> cap < 1 then None
      else let m = wolfcert_scep_int_magnitude v; pad = int_pad m in
           case der_put_len (cap - 1) (length m + pad) of
             None \<Rightarrow> None
           | Some ll \<Rightarrow>
               if 1 + length ll + pad + length m > cap then None
               else Some (0x02 # ll @ replicate pad 0 @ m))"

definition enc_tlv_len :: "nat \<Rightarrow> nat" where
  "enc_tlv_len vl = (case der_put_len 8 vl of None \<Rightarrow> 0 | Some ll \<Rightarrow> 1 + length ll + vl)"

section \<open>Readers\<close>

text \<open>
  Both readers accept a definite length of up to four bytes that fits the data. The result of
  \<open>der_read_tlv\<close> is the size of the header, the tag and the length of the content; \<open>None\<close> is -1.
\<close>

definition der_read_tlv :: "byte list \<Rightarrow> (nat \<times> byte \<times> nat) option" where
  "der_read_tlv inp =
     (if length inp < 2 then None
      else
        (case (if \<not> hi_bit (inp ! 1) then Some (2, unat (inp ! 1))
               else let nb = low7 (inp ! 1) in
                    if nb = 0 \<or> nb > 4 \<or> length inp < 2 + nb then None
                    else Some (2 + nb, be_val (take nb (drop 2 inp)))) of
           None \<Rightarrow> None
         | Some (hdr, clen) \<Rightarrow>
             if clen > length inp - hdr then None else Some (hdr, inp ! 0, clen)))"

text \<open>\<open>der_take_tl\<close> returns tag, content length and header size.\<close>

definition der_take_tl :: "byte list \<Rightarrow> (byte \<times> nat \<times> nat) wc_result" where
  "der_take_tl p =
     (if length p < 2 then Err WOLFCERT_ERR_PARSE
      else
        (case (if \<not> hi_bit (p ! 1) then Some (unat (p ! 1), 2)
               else let n = low7 (p ! 1) in
                    if n = 0 \<or> n > 4 \<or> 2 + n > length p then None
                    else Some (be_val (take n (drop 2 p)), 2 + n)) of
           None \<Rightarrow> Err WOLFCERT_ERR_PARSE
         | Some (len, hdr) \<Rightarrow>
             if len > length p - hdr then Err WOLFCERT_ERR_PARSE else Ok (p ! 0, len, hdr)))"

section \<open>The encoding of lengths\<close>

text \<open>The definite form with as few bytes as possible (X.690, section 10.1), for lengths below \<open>2 ^ 32\<close>.\<close>

definition der_len :: "nat \<Rightarrow> byte list" where
  "der_len n = the (der_put_len 5 n)"

definition tlv :: "byte \<Rightarrow> byte list \<Rightarrow> byte list" where
  "tlv tag v = tag # der_len (length v) @ v"

lemma unat_nat_byte: "unat (nat_byte n) = n mod 256"
  by (simp add: nat_byte_def unat_of_nat)

lemma der_put_len_some: "n < 2 ^ 32 \<Longrightarrow> der_put_len 5 n = Some (der_len n)"
  by (simp add: der_len_def der_put_len_def)

lemma der_len_length: "n < 2 ^ 32 \<Longrightarrow> 1 \<le> length (der_len n) \<and> length (der_len n) \<le> 5"
  by (simp add: der_len_def der_put_len_def)

lemma der_put_len_eq:
  "der_put_len cap n = (if n < 2 ^ 32 \<and> length (der_len n) \<le> cap then Some (der_len n) else None)"
  by (auto simp: der_len_def der_put_len_def)

lemma put_tlv_eq:
  "put_tlv tag v cap = (if length v < 2 ^ 32 \<and> length (tlv tag v) \<le> cap then Some (tlv tag v) else None)"
  by (auto simp: put_tlv_def der_put_len_eq tlv_def)

lemma enc_tlv_len_eq: "vl < 2 ^ 32 \<Longrightarrow> enc_tlv_len vl = 1 + length (der_len vl) + vl"
  using der_len_length [of vl] by (simp add: enc_tlv_len_def der_put_len_eq)

lemma der_len_short: "n < 128 \<Longrightarrow> der_len n = [nat_byte n]"
  by (simp add: der_len_def der_put_len_def)

lemma der_len_long:
  assumes "128 \<le> n" "n < 2 ^ 32"
  obtains b bs where "der_len n = b # bs" "hi_bit b" "low7 b = length bs" "1 \<le> length bs" "length bs \<le> 4" "be_val bs = n"
proof -
  consider "n \<le> 0xFF" | "0xFF < n" "n \<le> 0xFFFF" | "0xFFFF < n" "n \<le> 0xFFFFFF" | "0xFFFFFF < n" using assms by linarith
  then show thesis
  proof cases
    case 1
    then show ?thesis using assms
      by (intro that [of "0x81" "[nat_byte n]"]) (simp_all add: der_len_def der_put_len_def hi_bit_def low7_def be_val_def unat_nat_byte)
  next
    case 2
    then have "n div 256 mod 256 * 256 + n mod 256 = n" by simp
    then show ?thesis using assms 2
      by (intro that [of "0x82" "[nat_byte (n div 2 ^ 8), nat_byte n]"])
        (simp_all add: der_len_def der_put_len_def hi_bit_def low7_def be_val_def unat_nat_byte)
  next
    case 3
    have "(n div 65536 mod 256 * 256 + n div 256 mod 256) * 256 + n mod 256 = n"
    proof -
      have "n div 65536 = n div 256 div 256" using div_mult2_eq [of n 256 256] by simp
      then have "n div 65536 mod 256 * 256 + n div 256 mod 256 = n div 256" using 3 by simp
      then show ?thesis using div_mult_mod_eq [of n 256] by (simp only:)
    qed
    then show ?thesis using assms 3
      by (intro that [of "0x83" "[nat_byte (n div 2 ^ 16), nat_byte (n div 2 ^ 8), nat_byte n]"])
        (simp_all add: der_len_def der_put_len_def hi_bit_def low7_def be_val_def unat_nat_byte)
  next
    case 4
    have "((n div 16777216 mod 256 * 256 + n div 65536 mod 256) * 256 + n div 256 mod 256) * 256 + n mod 256 = n"
    proof -
      have "n div 16777216 = n div 65536 div 256" using div_mult2_eq [of n 65536 256] by simp
      then have a: "n div 16777216 mod 256 * 256 + n div 65536 mod 256 = n div 65536" using assms(2) by simp
      have "n div 65536 = n div 256 div 256" using div_mult2_eq [of n 256 256] by simp
      then have "n div 65536 * 256 + n div 256 mod 256 = n div 256" by simp
      then show ?thesis using a div_mult_mod_eq [of n 256] by (simp only:)
    qed
    then show ?thesis using assms 4
      by (intro that [of "0x84" "[nat_byte (n div 2 ^ 24), nat_byte (n div 2 ^ 16), nat_byte (n div 2 ^ 8), nat_byte n]"])
        (simp_all add: der_len_def der_put_len_def hi_bit_def low7_def be_val_def unat_nat_byte)
  qed
qed

section \<open>What the readers promise\<close>

text \<open>
  An element reader returns tag, header size and content length of the element at the start of its
  input. It never claims bytes the input does not have, and it reads back every element written with
  the shortest length form, whatever follows it.
\<close>

locale tlv_reader =
  fixes read :: "byte list \<Rightarrow> (byte \<times> nat \<times> nat) option"
  assumes read_bounds: "read inp = Some (tag, hdr, n) \<Longrightarrow> 2 \<le> hdr \<and> hdr + n \<le> length inp \<and> inp ! 0 = tag"
    and read_tlv: "length v < 2 ^ 32 \<Longrightarrow> read (tlv tag v @ rest) = Some (tag, 1 + length (der_len (length v)), length v)"
begin

lemma read_Nil: "read [] = None"
  using read_bounds [of "[]"] by (cases "read []") fastforce+

text \<open>The elements of a concatenation of elements.\<close>

function elements :: "byte list \<Rightarrow> (byte \<times> byte list) list option" where
  "elements inp =
     (if inp = [] then Some []
      else case read inp of
             None \<Rightarrow> None
           | Some (tag, hdr, n) \<Rightarrow> map_option (Cons (tag, take n (drop hdr inp))) (elements (drop (hdr + n) inp)))"
  by pat_completeness auto
termination
  by (relation "measure length") (auto dest!: read_bounds)

declare elements.simps [simp del]

lemma tlv_content: "length v < 2 ^ 32 \<Longrightarrow> take (length v) (drop (1 + length (der_len (length v))) (tlv tag v @ rest)) = v"
  by (simp add: tlv_def)

lemma tlv_rest: "drop (1 + length (der_len (length v)) + length v) (tlv tag v @ rest) = rest"
  by (simp add: tlv_def)

lemma elements_concat:
  "list_all (\<lambda>(t, v). length v < 2 ^ 32) es \<Longrightarrow> elements (concat (map (\<lambda>(t, v). tlv t v) es)) = Some es"
proof (induction es)
  case Nil
  then show ?case by (simp add: elements.simps)
next
  case (Cons e es)
  obtain t v where e: "e = (t, v)" by force
  have v: "length v < 2 ^ 32" using Cons.prems e by simp
  define r where "r = concat (map (\<lambda>(t, v). tlv t v) es)"
  have "tlv t v @ r = t # (der_len (length v) @ v @ r)" by (simp add: tlv_def)
  then have "elements (tlv t v @ r) = map_option (Cons (t, v)) (elements r)"
    using read_tlv [OF v, of t r] tlv_content [OF v, of t r] tlv_rest [of v t r]
    by (subst elements.simps) (simp del: drop_append take_append)
  then have "elements (concat (map (\<lambda>(t, v). tlv t v) (e # es))) = map_option (Cons (t, v)) (elements r)"
    by (simp add: e r_def)
  moreover have "elements r = Some es" using Cons by (simp add: r_def)
  ultimately show ?case by (simp add: e)
qed

end

lemma der_read_tlv_bounds: "der_read_tlv inp = Some (hdr, tag, n) \<Longrightarrow> 2 \<le> hdr \<and> hdr + n \<le> length inp \<and> inp ! 0 = tag"
  by (auto simp: der_read_tlv_def Let_def split: if_splits)

lemma der_read_tlv_tlv:
  assumes v: "length v < 2 ^ 32"
  shows "der_read_tlv (tlv tag v @ rest) = Some (1 + length (der_len (length v)), tag, length v)"
proof (cases "length v < 128")
  case True
  then have "der_len (length v) = [nat_byte (length v)]" by (rule der_len_short)
  then show ?thesis using True by (simp add: der_read_tlv_def tlv_def hi_bit_def unat_nat_byte)
next
  case False
  then obtain b bs where b: "der_len (length v) = b # bs" "hi_bit b" "low7 b = length bs" "1 \<le> length bs" "length bs \<le> 4" "be_val bs = length v"
    using der_len_long [of "length v"] v by (metis not_less)
  have "bs \<noteq> []" using b(4) by auto
  then show ?thesis using b by (simp add: der_read_tlv_def tlv_def Let_def)
qed

lemma der_take_tl_read:
  "der_take_tl p = (case der_read_tlv p of None \<Rightarrow> Err WOLFCERT_ERR_PARSE | Some (hdr, tag, n) \<Rightarrow> Ok (tag, n, hdr))"
  by (auto simp: der_take_tl_def der_read_tlv_def Let_def)

text \<open>Both readers of the code in the form of the interface.\<close>

definition scep_read :: "byte list \<Rightarrow> (byte \<times> nat \<times> nat) option" where
  "scep_read inp = (case der_read_tlv inp of None \<Rightarrow> None | Some (hdr, tag, n) \<Rightarrow> Some (tag, hdr, n))"

definition est_read :: "byte list \<Rightarrow> (byte \<times> nat \<times> nat) option" where
  "est_read inp = (case der_take_tl inp of Inl rc \<Rightarrow> None | Inr (tag, n, hdr) \<Rightarrow> Some (tag, hdr, n))"

interpretation scep_tlv: tlv_reader scep_read
proof
  show "scep_read inp = Some (tag, hdr, n) \<Longrightarrow> 2 \<le> hdr \<and> hdr + n \<le> length inp \<and> inp ! 0 = tag" for inp tag hdr n
    using der_read_tlv_bounds [of inp hdr tag n] by (auto simp: scep_read_def split: option.splits)
  show "length v < 2 ^ 32 \<Longrightarrow> scep_read (tlv tag v @ rest) = Some (tag, 1 + length (der_len (length v)), length v)" for v tag rest
    by (simp add: scep_read_def der_read_tlv_tlv)
qed

interpretation est_tlv: tlv_reader est_read
proof
  show "est_read inp = Some (tag, hdr, n) \<Longrightarrow> 2 \<le> hdr \<and> hdr + n \<le> length inp \<and> inp ! 0 = tag" for inp tag hdr n
    using der_read_tlv_bounds [of inp hdr tag n] by (auto simp: est_read_def der_take_tl_read split: option.splits)
  show "length v < 2 ^ 32 \<Longrightarrow> est_read (tlv tag v @ rest) = Some (tag, 1 + length (der_len (length v)), length v)" for v tag rest
    by (simp add: est_read_def der_take_tl_read der_read_tlv_tlv)
qed

end
