(* ===== verification/Key_Algs.thy ===== *)
theory Key_Algs
  imports Internal
begin

text \<open>
  Keys: the dispatch table of \<open>src/key_algs.c\<close> with the operations of every algorithm, and key
  generation, import and export of \<open>src/keygen.c\<close>.

  wolfSSL is the parameter \<open>wolf_keys\<close>: its key objects are values of the type \<open>'k\<close>, which a call
  that changes an object returns anew, and its calls take and return the state \<open>'w\<close> of the world,
  from which allocations also draw their outcome. The compile-time options that select algorithms
  are the record \<open>key_build\<close>. Releasing plain memory is implicit in the values; the initialising
  and freeing of wolfSSL objects is explicit.
\<close>

section \<open>Data\<close>

abbreviation (input) WOLFCERT_KEY_RSA :: int where "WOLFCERT_KEY_RSA \<equiv> 1"
abbreviation (input) WOLFCERT_KEY_ECC :: int where "WOLFCERT_KEY_ECC \<equiv> 2"
abbreviation (input) WOLFCERT_KEY_ED25519 :: int where "WOLFCERT_KEY_ED25519 \<equiv> 3"
abbreviation (input) WOLFCERT_KEY_ED448 :: int where "WOLFCERT_KEY_ED448 \<equiv> 4"
abbreviation (input) WOLFCERT_KEY_MLDSA44 :: int where "WOLFCERT_KEY_MLDSA44 \<equiv> 5"
abbreviation (input) WOLFCERT_KEY_MLDSA65 :: int where "WOLFCERT_KEY_MLDSA65 \<equiv> 6"
abbreviation (input) WOLFCERT_KEY_MLDSA87 :: int where "WOLFCERT_KEY_MLDSA87 \<equiv> 7"

abbreviation (input) WOLFCERT_DEVID_SOFTWARE :: int where "WOLFCERT_DEVID_SOFTWARE \<equiv> -1"

record WolfCertKeyCfg =
  kc_type :: int
  kc_param :: int
  kc_dev_id :: int
  kc_key_label :: "cstring option"

record 'k WolfCertKey =
  k_type :: int
  k_dev_id :: int
  k_curve_id :: int
  k_rsa_bits :: int
  k_label :: "cstring option"
  k_impl :: "'k option"

record key_build =
  kb_rsa :: bool
  kb_ecc :: bool
  kb_ed25519 :: bool
  kb_ed448 :: bool
  kb_mldsa :: bool
  kb_mldsa44 :: bool
  kb_mldsa65 :: bool
  kb_mldsa87 :: bool

text \<open>wolfSSL's key structures and constants.\<close>

datatype wc_key_struct = RsaKey | EccKey | Ed25519Key | Ed448Key | MlDsaKey

datatype wc_keytype = RSA_TYPE | ECC_TYPE | ED25519_TYPE | ED448_TYPE | ML_DSA_44_TYPE | ML_DSA_65_TYPE | ML_DSA_87_TYPE

datatype ctc_sig = CTC_SHA256wRSA | CTC_SHA384wRSA | CTC_SHA512wRSA | CTC_SHA256wECDSA | CTC_SHA384wECDSA
  | CTC_SHA512wECDSA | CTC_ED25519 | CTC_ED448 | CTC_ML_DSA_44 | CTC_ML_DSA_65 | CTC_ML_DSA_87

datatype key_oid = RSAk | ECDSAk | ED25519k | ED448k | ML_DSA_44k | ML_DSA_65k | ML_DSA_87k

datatype pem_type = PRIVATEKEY_TYPE | ECC_PRIVATEKEY_TYPE | PKCS8_PRIVATEKEY_TYPE | PEM_ED25519_TYPE
  | PEM_ED448_TYPE | PEM_ML_DSA_44_TYPE | PEM_ML_DSA_65_TYPE | PEM_ML_DSA_87_TYPE

datatype mldsa_level = WC_ML_DSA_44 | WC_ML_DSA_65 | WC_ML_DSA_87

text \<open>
  The wolfSSL calls. One field stands for the function of the same role in every key structure:
  \<open>wk_Init RsaKey\<close> is \<open>wc_InitRsaKey_ex\<close>, \<open>wk_Init EccKey\<close> is \<open>wc_ecc_init_ex\<close>, and so on. A call that
  writes into a buffer takes its capacity and gives its return code and the bytes written.
\<close>

record ('k, 'w) wolf_keys =
  wk_codes :: wc_codes
  wk_MAX_ECC_BYTES :: nat
  wk_malloc :: "'w \<Rightarrow> bool \<times> 'w"
  wk_InitRng :: "int \<Rightarrow> 'w \<Rightarrow> int \<times> 'w"
  wk_FreeRng :: "'w \<Rightarrow> 'w"
  wk_Init :: "wc_key_struct \<Rightarrow> int \<Rightarrow> 'w \<Rightarrow> (int \<times> 'k) \<times> 'w"
  wk_Free :: "wc_key_struct \<Rightarrow> 'k \<Rightarrow> 'w \<Rightarrow> 'w"
  wk_MakeRsaKey :: "int \<Rightarrow> 'k \<Rightarrow> 'w \<Rightarrow> (int \<times> 'k) \<times> 'w"
  wk_ecc_make_key_ex :: "int \<Rightarrow> int \<Rightarrow> 'k \<Rightarrow> 'w \<Rightarrow> (int \<times> 'k) \<times> 'w"
  wk_make_key :: "wc_key_struct \<Rightarrow> 'k \<Rightarrow> 'w \<Rightarrow> (int \<times> 'k) \<times> 'w"
  wk_PrivateKeyDecode :: "wc_key_struct \<Rightarrow> byte list \<Rightarrow> 'k \<Rightarrow> 'w \<Rightarrow> (int \<times> 'k) \<times> 'w"
  wk_PublicKeyDecode :: "wc_key_struct \<Rightarrow> byte list \<Rightarrow> 'k \<Rightarrow> 'w \<Rightarrow> (int \<times> 'k) \<times> 'w"
  wk_PrivateKeyToDer :: "wc_key_struct \<Rightarrow> 'k \<Rightarrow> nat \<Rightarrow> int \<times> byte list"
  wk_RsaPublicKeyDerSize :: "'k \<Rightarrow> int"
  wk_RsaKeyToPublicDer :: "'k \<Rightarrow> nat \<Rightarrow> int \<times> byte list"
  wk_curve_id :: "ecc_curve \<Rightarrow> int"
  wk_ecc_get_curve_id :: "'k \<Rightarrow> int"
  wk_ecc_privatekey_only :: "'k \<Rightarrow> bool"
  wk_ecc_make_pub :: "'k \<Rightarrow> 'w \<Rightarrow> (int \<times> 'k) \<times> 'w"
  wk_ecc_import_x963 :: "byte list \<Rightarrow> 'k \<Rightarrow> 'w \<Rightarrow> (int \<times> 'k) \<times> 'w"
  wk_ecc_export_x963 :: "'k \<Rightarrow> nat \<Rightarrow> int \<times> byte list"
  wk_make_public :: "wc_key_struct \<Rightarrow> 'k \<Rightarrow> nat \<Rightarrow> int \<times> byte list"
  wk_SetParams :: "mldsa_level \<Rightarrow> 'k \<Rightarrow> int \<times> 'k"
  wk_ImportPubRaw :: "byte list \<Rightarrow> 'k \<Rightarrow> int \<times> 'k"
  wk_CheckKey :: "'k \<Rightarrow> int"
  wk_PemToDer :: "byte list \<Rightarrow> pem_type \<Rightarrow> int \<times> byte list option"
  wk_DerToPem :: "byte list \<Rightarrow> nat \<Rightarrow> pem_type \<Rightarrow> int \<times> byte list"

abbreviation map_err :: "('k, 'w) wolf_keys \<Rightarrow> int \<Rightarrow> wc_rc" where
  "map_err env rc \<equiv> wolfcert_map_wc_err (wk_codes env) rc"

text \<open>An operation on a key: the return code, the key afterwards and the world.\<close>

type_synonym ('k, 'w) key_op = "'w \<Rightarrow> (wc_rc \<times> 'k WolfCertKey) \<times> 'w"

record ('k, 'w) WolfCertKeyAlg =
  ka_type :: int
  ka_wc_keytype_enum :: wc_keytype
  ka_ctc_sig_default :: ctc_sig
  ka_key_oid :: key_oid
  ka_pem_type :: pem_type
  ka_der_cap_hint :: nat
  ka_alloc_init :: "'k WolfCertKey \<Rightarrow> ('k, 'w) key_op"
  ka_make :: "'k WolfCertKey \<Rightarrow> WolfCertKeyCfg \<Rightarrow> ('k, 'w) key_op"
  ka_priv_decode :: "'k WolfCertKey \<Rightarrow> byte list \<Rightarrow> ('k, 'w) key_op"
  ka_priv_to_der :: "'k WolfCertKey \<Rightarrow> nat \<Rightarrow> int \<times> byte list"
  ka_pub_check :: "'k WolfCertKey \<Rightarrow> byte list \<Rightarrow> ('k, 'w) key_op"
  ka_free :: "'k WolfCertKey \<Rightarrow> 'w \<Rightarrow> 'k WolfCertKey \<times> 'w"

section \<open>What the algorithms share\<close>

text \<open>
  Each operation below is one text the source repeats per algorithm; \<open>the (k_impl k)\<close> is the
  pointer \<open>k->impl\<close>, which \<open>alloc_init\<close> has set before any other operation runs.
\<close>

definition alloc_init_with :: "('k, 'w) wolf_keys \<Rightarrow> wc_key_struct \<Rightarrow> 'k WolfCertKey \<Rightarrow> ('k, 'w) key_op" where
  "alloc_init_with env st k w =
     (case wk_malloc env w of (got, w) \<Rightarrow>
        if \<not> got then ((WOLFCERT_ERR_MEMORY, k), w)
        else case wk_Init env st (k_dev_id k) w of ((rc, obj), w) \<Rightarrow>
               if rc \<noteq> 0 then ((map_err env rc, k), w)
               else ((WOLFCERT_OK, k\<lparr>k_impl := Some obj\<rparr>), w))"

definition make_result :: "('k, 'w) wolf_keys \<Rightarrow> 'k WolfCertKey \<Rightarrow> (int \<times> 'k) \<times> 'w \<Rightarrow> (wc_rc \<times> 'k WolfCertKey) \<times> 'w" where
  "make_result env k r =
     (case r of ((rc, obj), w) \<Rightarrow> ((map_err env rc, k\<lparr>k_impl := Some obj\<rparr>), w))"

definition decode_result :: "'k WolfCertKey \<Rightarrow> (int \<times> 'k) \<times> 'w \<Rightarrow> (wc_rc \<times> 'k WolfCertKey) \<times> 'w" where
  "decode_result k r =
     (case r of ((rc, obj), w) \<Rightarrow> ((if rc = 0 then WOLFCERT_OK else WOLFCERT_ERR_PARSE, k\<lparr>k_impl := Some obj\<rparr>), w))"

definition free_with :: "('k, 'w) wolf_keys \<Rightarrow> wc_key_struct \<Rightarrow> 'k WolfCertKey \<Rightarrow> 'w \<Rightarrow> 'k WolfCertKey \<times> 'w" where
  "free_with env st k w =
     (case k_impl k of
        None \<Rightarrow> (k, w)
      | Some obj \<Rightarrow> (k\<lparr>k_impl := None\<rparr>, wk_Free env st obj w))"

section \<open>RSA\<close>

definition rsa_alloc_init :: "('k, 'w) wolf_keys \<Rightarrow> 'k WolfCertKey \<Rightarrow> ('k, 'w) key_op" where
  "rsa_alloc_init env k w = alloc_init_with env RsaKey k w"

definition rsa_make :: "('k, 'w) wolf_keys \<Rightarrow> 'k WolfCertKey \<Rightarrow> WolfCertKeyCfg \<Rightarrow> ('k, 'w) key_op" where
  "rsa_make env k cfg w =
     (let bits = kc_param cfg in
      if bits \<noteq> 2048 \<and> bits \<noteq> 3072 \<and> bits \<noteq> 4096 then ((WOLFCERT_ERR_UNSUPPORTED, k), w)
      else make_result env (k\<lparr>k_rsa_bits := bits\<rparr>) (wk_MakeRsaKey env bits (the (k_impl k)) w))"

definition rsa_priv_decode :: "('k, 'w) wolf_keys \<Rightarrow> 'k WolfCertKey \<Rightarrow> byte list \<Rightarrow> ('k, 'w) key_op" where
  "rsa_priv_decode env k der w = decode_result k (wk_PrivateKeyDecode env RsaKey der (the (k_impl k)) w)"

definition rsa_priv_to_der :: "('k, 'w) wolf_keys \<Rightarrow> 'k WolfCertKey \<Rightarrow> nat \<Rightarrow> int \<times> byte list" where
  "rsa_priv_to_der env k cap = wk_PrivateKeyToDer env RsaKey (the (k_impl k)) cap"

text \<open>The comparison of the two re-encoded public keys.\<close>

definition rsa_pub_compare :: "('k, 'w) wolf_keys \<Rightarrow> 'k \<Rightarrow> 'k \<Rightarrow> 'w \<Rightarrow> wc_rc \<times> 'w" where
  "rsa_pub_compare env own cert_key w =
     (let mine = wk_RsaPublicKeyDerSize env own; theirs = wk_RsaPublicKeyDerSize env cert_key in
      if mine \<le> 0 \<or> theirs \<le> 0 then (WOLFCERT_ERR_CRYPTO, w)
      else if mine \<noteq> theirs then (WOLFCERT_ERR_PARSE, w)
      else case wk_malloc env w of (got, w) \<Rightarrow>
             if \<not> got then (WOLFCERT_ERR_MEMORY, w)
             else case (wk_RsaKeyToPublicDer env own (nat mine), wk_RsaKeyToPublicDer env cert_key (nat mine)) of
                    ((m, buf), (t, buf')) \<Rightarrow>
                      (if m \<le> 0 \<or> t \<le> 0 then WOLFCERT_ERR_CRYPTO
                       else if m \<noteq> t \<or> take (nat m) buf \<noteq> take (nat m) buf' then WOLFCERT_ERR_PARSE
                       else WOLFCERT_OK, w))"

definition rsa_pub_check :: "('k, 'w) wolf_keys \<Rightarrow> 'k WolfCertKey \<Rightarrow> byte list \<Rightarrow> ('k, 'w) key_op" where
  "rsa_pub_check env k pub w =
     (case wk_malloc env w of (got, w) \<Rightarrow>
        if \<not> got then ((WOLFCERT_ERR_MEMORY, k), w)
        else case wk_Init env RsaKey (k_dev_id k) w of ((rc, cert_key), w) \<Rightarrow>
               if rc \<noteq> 0 then ((map_err env rc, k), w)
               else case wk_PublicKeyDecode env RsaKey pub cert_key w of ((rc, cert_key), w) \<Rightarrow>
                      (case (if rc \<noteq> 0 then (WOLFCERT_ERR_PARSE, w)
                             else rsa_pub_compare env (the (k_impl k)) cert_key w) of (rc, w) \<Rightarrow>
                         ((rc, k), wk_Free env RsaKey cert_key w)))"

definition rsa_free :: "('k, 'w) wolf_keys \<Rightarrow> 'k WolfCertKey \<Rightarrow> 'w \<Rightarrow> 'k WolfCertKey \<times> 'w" where
  "rsa_free env k w = free_with env RsaKey k w"

section \<open>ECC\<close>

definition ecc_alloc_init :: "('k, 'w) wolf_keys \<Rightarrow> 'k WolfCertKey \<Rightarrow> ('k, 'w) key_op" where
  "ecc_alloc_init env k w = alloc_init_with env EccKey k w"

definition ecc_make :: "('k, 'w) wolf_keys \<Rightarrow> 'k WolfCertKey \<Rightarrow> WolfCertKeyCfg \<Rightarrow> ('k, 'w) key_op" where
  "ecc_make env k cfg w =
     (case wolfcert_ecc_curve_from_param (kc_param cfg) of
        Inl rc \<Rightarrow> ((rc, k), w)
      | Inr (curve, ksize) \<Rightarrow>
          make_result env (k\<lparr>k_curve_id := wk_curve_id env curve\<rparr>)
            (wk_ecc_make_key_ex env ksize (wk_curve_id env curve) (the (k_impl k)) w))"

definition ecc_priv_decode :: "('k, 'w) wolf_keys \<Rightarrow> 'k WolfCertKey \<Rightarrow> byte list \<Rightarrow> ('k, 'w) key_op" where
  "ecc_priv_decode env k der w =
     (case wk_PrivateKeyDecode env EccKey der (the (k_impl k)) w of ((rc, obj), w) \<Rightarrow>
        if rc \<noteq> 0 then ((WOLFCERT_ERR_PARSE, k\<lparr>k_impl := Some obj\<rparr>), w)
        else ((WOLFCERT_OK, k\<lparr>k_impl := Some obj, k_curve_id := wk_ecc_get_curve_id env obj\<rparr>), w))"

definition ecc_priv_to_der :: "('k, 'w) wolf_keys \<Rightarrow> 'k WolfCertKey \<Rightarrow> nat \<Rightarrow> int \<times> byte list" where
  "ecc_priv_to_der env k cap = wk_PrivateKeyToDer env EccKey (the (k_impl k)) cap"

definition ECC_X963_CAP :: "('k, 'w) wolf_keys \<Rightarrow> nat" where
  "ECC_X963_CAP env = 1 + 2 * wk_MAX_ECC_BYTES env"

definition ecc_pub_decode :: "('k, 'w) wolf_keys \<Rightarrow> byte list \<Rightarrow> 'k \<Rightarrow> 'w \<Rightarrow> (int \<times> 'k) \<times> 'w" where
  "ecc_pub_decode env pub cert_key w =
     (case wk_PublicKeyDecode env EccKey pub cert_key w of ((rc, cert_key), w) \<Rightarrow>
        if rc \<noteq> 0 then wk_ecc_import_x963 env pub cert_key w else ((rc, cert_key), w))"

definition ecc_pub_compare :: "('k, 'w) wolf_keys \<Rightarrow> 'k \<Rightarrow> 'k \<Rightarrow> wc_rc" where
  "ecc_pub_compare env own cert_key =
     (case (wk_ecc_export_x963 env own (ECC_X963_CAP env), wk_ecc_export_x963 env cert_key (ECC_X963_CAP env)) of
        ((rc, mine), (rc', theirs)) \<Rightarrow>
          if rc \<noteq> 0 \<or> rc' \<noteq> 0 then WOLFCERT_ERR_CRYPTO
          else if length mine \<noteq> length theirs \<or> mine \<noteq> theirs then WOLFCERT_ERR_PARSE
          else WOLFCERT_OK)"

definition ecc_pub_check :: "('k, 'w) wolf_keys \<Rightarrow> 'k WolfCertKey \<Rightarrow> byte list \<Rightarrow> ('k, 'w) key_op" where
  "ecc_pub_check env k pub w =
     (case wk_malloc env w of (got, w) \<Rightarrow>
        if \<not> got then ((WOLFCERT_ERR_MEMORY, k), w)
        else case wk_malloc env w of (got, w) \<Rightarrow>
        if \<not> got then ((WOLFCERT_ERR_MEMORY, k), w)
        else case wk_Init env EccKey (k_dev_id k) w of ((rc, cert_key), w) \<Rightarrow>
        if rc \<noteq> 0 then ((map_err env rc, k), w)
        else case (if wk_ecc_privatekey_only env (the (k_impl k))
                   then wk_ecc_make_pub env (the (k_impl k)) w
                   else ((0, the (k_impl k)), w)) of ((rc, own), w) \<Rightarrow>
        let k = k\<lparr>k_impl := Some own\<rparr> in
        if rc \<noteq> 0 then ((map_err env rc, k), wk_Free env EccKey cert_key w)
        else case ecc_pub_decode env pub cert_key w of ((rc, cert_key), w) \<Rightarrow>
        if rc \<noteq> 0 then ((WOLFCERT_ERR_PARSE, k), wk_Free env EccKey cert_key w)
        else ((ecc_pub_compare env own cert_key, k), wk_Free env EccKey cert_key w))"

definition ecc_free :: "('k, 'w) wolf_keys \<Rightarrow> 'k WolfCertKey \<Rightarrow> 'w \<Rightarrow> 'k WolfCertKey \<times> 'w" where
  "ecc_free env k w = free_with env EccKey k w"

section \<open>Ed25519 and Ed448\<close>

abbreviation (input) ED25519_PUB_KEY_SIZE :: nat where "ED25519_PUB_KEY_SIZE \<equiv> 32"
abbreviation (input) ED448_PUB_KEY_SIZE :: nat where "ED448_PUB_KEY_SIZE \<equiv> 57"

definition ed25519_alloc_init :: "('k, 'w) wolf_keys \<Rightarrow> 'k WolfCertKey \<Rightarrow> ('k, 'w) key_op" where
  "ed25519_alloc_init env k w = alloc_init_with env Ed25519Key k w"

definition ed25519_make :: "('k, 'w) wolf_keys \<Rightarrow> 'k WolfCertKey \<Rightarrow> WolfCertKeyCfg \<Rightarrow> ('k, 'w) key_op" where
  "ed25519_make env k cfg w = make_result env k (wk_make_key env Ed25519Key (the (k_impl k)) w)"

definition ed25519_priv_decode :: "('k, 'w) wolf_keys \<Rightarrow> 'k WolfCertKey \<Rightarrow> byte list \<Rightarrow> ('k, 'w) key_op" where
  "ed25519_priv_decode env k der w = decode_result k (wk_PrivateKeyDecode env Ed25519Key der (the (k_impl k)) w)"

definition ed25519_priv_to_der :: "('k, 'w) wolf_keys \<Rightarrow> 'k WolfCertKey \<Rightarrow> nat \<Rightarrow> int \<times> byte list" where
  "ed25519_priv_to_der env k cap = wk_PrivateKeyToDer env Ed25519Key (the (k_impl k)) cap"

definition edwards_pub_check ::
  "('k, 'w) wolf_keys \<Rightarrow> wc_key_struct \<Rightarrow> nat \<Rightarrow> 'k WolfCertKey \<Rightarrow> byte list \<Rightarrow> wc_rc" where
  "edwards_pub_check env st sz k pub =
     (if length pub \<noteq> sz then WOLFCERT_ERR_PARSE
      else case wk_make_public env st (the (k_impl k)) sz of (rc, mine) \<Rightarrow>
             if rc \<noteq> 0 then map_err env rc
             else if take sz mine \<noteq> pub then WOLFCERT_ERR_PARSE
             else WOLFCERT_OK)"

definition ed25519_pub_check :: "('k, 'w) wolf_keys \<Rightarrow> 'k WolfCertKey \<Rightarrow> byte list \<Rightarrow> ('k, 'w) key_op" where
  "ed25519_pub_check env k pub w = ((edwards_pub_check env Ed25519Key ED25519_PUB_KEY_SIZE k pub, k), w)"

definition ed25519_free :: "('k, 'w) wolf_keys \<Rightarrow> 'k WolfCertKey \<Rightarrow> 'w \<Rightarrow> 'k WolfCertKey \<times> 'w" where
  "ed25519_free env k w = free_with env Ed25519Key k w"

definition ed448_alloc_init :: "('k, 'w) wolf_keys \<Rightarrow> 'k WolfCertKey \<Rightarrow> ('k, 'w) key_op" where
  "ed448_alloc_init env k w = alloc_init_with env Ed448Key k w"

definition ed448_make :: "('k, 'w) wolf_keys \<Rightarrow> 'k WolfCertKey \<Rightarrow> WolfCertKeyCfg \<Rightarrow> ('k, 'w) key_op" where
  "ed448_make env k cfg w = make_result env k (wk_make_key env Ed448Key (the (k_impl k)) w)"

definition ed448_priv_decode :: "('k, 'w) wolf_keys \<Rightarrow> 'k WolfCertKey \<Rightarrow> byte list \<Rightarrow> ('k, 'w) key_op" where
  "ed448_priv_decode env k der w = decode_result k (wk_PrivateKeyDecode env Ed448Key der (the (k_impl k)) w)"

definition ed448_priv_to_der :: "('k, 'w) wolf_keys \<Rightarrow> 'k WolfCertKey \<Rightarrow> nat \<Rightarrow> int \<times> byte list" where
  "ed448_priv_to_der env k cap = wk_PrivateKeyToDer env Ed448Key (the (k_impl k)) cap"

definition ed448_pub_check :: "('k, 'w) wolf_keys \<Rightarrow> 'k WolfCertKey \<Rightarrow> byte list \<Rightarrow> ('k, 'w) key_op" where
  "ed448_pub_check env k pub w = ((edwards_pub_check env Ed448Key ED448_PUB_KEY_SIZE k pub, k), w)"

definition ed448_free :: "('k, 'w) wolf_keys \<Rightarrow> 'k WolfCertKey \<Rightarrow> 'w \<Rightarrow> 'k WolfCertKey \<times> 'w" where
  "ed448_free env k w = free_with env Ed448Key k w"

section \<open>ML-DSA\<close>

definition mldsa_level_for :: "key_build \<Rightarrow> int \<Rightarrow> mldsa_level option" where
  "mldsa_level_for b t =
     (if t = WOLFCERT_KEY_MLDSA44 \<and> kb_mldsa44 b then Some WC_ML_DSA_44
      else if t = WOLFCERT_KEY_MLDSA65 \<and> kb_mldsa65 b then Some WC_ML_DSA_65
      else if t = WOLFCERT_KEY_MLDSA87 \<and> kb_mldsa87 b then Some WC_ML_DSA_87
      else None)"

definition mldsa_alloc_init :: "key_build \<Rightarrow> ('k, 'w) wolf_keys \<Rightarrow> 'k WolfCertKey \<Rightarrow> ('k, 'w) key_op" where
  "mldsa_alloc_init b env k w =
     (case wk_malloc env w of (got, w) \<Rightarrow>
        if \<not> got then ((WOLFCERT_ERR_MEMORY, k), w)
        else case wk_Init env MlDsaKey (k_dev_id k) w of ((rc, dk), w) \<Rightarrow>
               if rc \<noteq> 0 then ((map_err env rc, k), w)
               else case mldsa_level_for b (k_type k) of
                      None \<Rightarrow> ((WOLFCERT_ERR_UNSUPPORTED, k), wk_Free env MlDsaKey dk w)
                    | Some lvl \<Rightarrow>
                        (case wk_SetParams env lvl dk of (rc, dk) \<Rightarrow>
                           if rc \<noteq> 0 then ((WOLFCERT_ERR_UNSUPPORTED, k), wk_Free env MlDsaKey dk w)
                           else ((WOLFCERT_OK, k\<lparr>k_impl := Some dk\<rparr>), w)))"

definition mldsa_make :: "('k, 'w) wolf_keys \<Rightarrow> 'k WolfCertKey \<Rightarrow> WolfCertKeyCfg \<Rightarrow> ('k, 'w) key_op" where
  "mldsa_make env k cfg w = make_result env k (wk_make_key env MlDsaKey (the (k_impl k)) w)"

definition mldsa_priv_decode :: "('k, 'w) wolf_keys \<Rightarrow> 'k WolfCertKey \<Rightarrow> byte list \<Rightarrow> ('k, 'w) key_op" where
  "mldsa_priv_decode env k der w = decode_result k (wk_PrivateKeyDecode env MlDsaKey der (the (k_impl k)) w)"

definition mldsa_priv_to_der :: "('k, 'w) wolf_keys \<Rightarrow> 'k WolfCertKey \<Rightarrow> nat \<Rightarrow> int \<times> byte list" where
  "mldsa_priv_to_der env k cap = wk_PrivateKeyToDer env MlDsaKey (the (k_impl k)) cap"

definition mldsa_pub_check :: "('k, 'w) wolf_keys \<Rightarrow> 'k WolfCertKey \<Rightarrow> byte list \<Rightarrow> ('k, 'w) key_op" where
  "mldsa_pub_check env k pub w =
     (case wk_ImportPubRaw env pub (the (k_impl k)) of (rc, dk) \<Rightarrow>
        let k = k\<lparr>k_impl := Some dk\<rparr> in
        if rc \<noteq> 0 then ((WOLFCERT_ERR_PARSE, k), w)
        else ((if wk_CheckKey env dk = 0 then WOLFCERT_OK else WOLFCERT_ERR_PARSE, k), w))"

definition mldsa_free :: "('k, 'w) wolf_keys \<Rightarrow> 'k WolfCertKey \<Rightarrow> 'w \<Rightarrow> 'k WolfCertKey \<times> 'w" where
  "mldsa_free env k w = free_with env MlDsaKey k w"

section \<open>The dispatch table\<close>

definition ALG_RSA :: "('k, 'w) wolf_keys \<Rightarrow> ('k, 'w) WolfCertKeyAlg" where
  "ALG_RSA env = \<lparr>ka_type = WOLFCERT_KEY_RSA, ka_wc_keytype_enum = RSA_TYPE, ka_ctc_sig_default = CTC_SHA256wRSA,
     ka_key_oid = RSAk, ka_pem_type = PRIVATEKEY_TYPE, ka_der_cap_hint = 4096, ka_alloc_init = rsa_alloc_init env,
     ka_make = rsa_make env, ka_priv_decode = rsa_priv_decode env, ka_priv_to_der = rsa_priv_to_der env,
     ka_pub_check = rsa_pub_check env, ka_free = rsa_free env\<rparr>"

definition ALG_ECC :: "('k, 'w) wolf_keys \<Rightarrow> ('k, 'w) WolfCertKeyAlg" where
  "ALG_ECC env = \<lparr>ka_type = WOLFCERT_KEY_ECC, ka_wc_keytype_enum = ECC_TYPE, ka_ctc_sig_default = CTC_SHA256wECDSA,
     ka_key_oid = ECDSAk, ka_pem_type = ECC_PRIVATEKEY_TYPE, ka_der_cap_hint = 512, ka_alloc_init = ecc_alloc_init env,
     ka_make = ecc_make env, ka_priv_decode = ecc_priv_decode env, ka_priv_to_der = ecc_priv_to_der env,
     ka_pub_check = ecc_pub_check env, ka_free = ecc_free env\<rparr>"

definition ALG_ED25519 :: "('k, 'w) wolf_keys \<Rightarrow> ('k, 'w) WolfCertKeyAlg" where
  "ALG_ED25519 env = \<lparr>ka_type = WOLFCERT_KEY_ED25519, ka_wc_keytype_enum = ED25519_TYPE, ka_ctc_sig_default = CTC_ED25519,
     ka_key_oid = ED25519k, ka_pem_type = PKCS8_PRIVATEKEY_TYPE, ka_der_cap_hint = 128, ka_alloc_init = ed25519_alloc_init env,
     ka_make = ed25519_make env, ka_priv_decode = ed25519_priv_decode env, ka_priv_to_der = ed25519_priv_to_der env,
     ka_pub_check = ed25519_pub_check env, ka_free = ed25519_free env\<rparr>"

definition ALG_ED448 :: "('k, 'w) wolf_keys \<Rightarrow> ('k, 'w) WolfCertKeyAlg" where
  "ALG_ED448 env = \<lparr>ka_type = WOLFCERT_KEY_ED448, ka_wc_keytype_enum = ED448_TYPE, ka_ctc_sig_default = CTC_ED448,
     ka_key_oid = ED448k, ka_pem_type = PKCS8_PRIVATEKEY_TYPE, ka_der_cap_hint = 192, ka_alloc_init = ed448_alloc_init env,
     ka_make = ed448_make env, ka_priv_decode = ed448_priv_decode env, ka_priv_to_der = ed448_priv_to_der env,
     ka_pub_check = ed448_pub_check env, ka_free = ed448_free env\<rparr>"

definition ALG_MLDSA44 :: "key_build \<Rightarrow> ('k, 'w) wolf_keys \<Rightarrow> ('k, 'w) WolfCertKeyAlg" where
  "ALG_MLDSA44 b env = \<lparr>ka_type = WOLFCERT_KEY_MLDSA44, ka_wc_keytype_enum = ML_DSA_44_TYPE, ka_ctc_sig_default = CTC_ML_DSA_44,
     ka_key_oid = ML_DSA_44k, ka_pem_type = PKCS8_PRIVATEKEY_TYPE, ka_der_cap_hint = 8192, ka_alloc_init = mldsa_alloc_init b env,
     ka_make = mldsa_make env, ka_priv_decode = mldsa_priv_decode env, ka_priv_to_der = mldsa_priv_to_der env,
     ka_pub_check = mldsa_pub_check env, ka_free = mldsa_free env\<rparr>"

definition ALG_MLDSA65 :: "key_build \<Rightarrow> ('k, 'w) wolf_keys \<Rightarrow> ('k, 'w) WolfCertKeyAlg" where
  "ALG_MLDSA65 b env = \<lparr>ka_type = WOLFCERT_KEY_MLDSA65, ka_wc_keytype_enum = ML_DSA_65_TYPE, ka_ctc_sig_default = CTC_ML_DSA_65,
     ka_key_oid = ML_DSA_65k, ka_pem_type = PKCS8_PRIVATEKEY_TYPE, ka_der_cap_hint = 12288, ka_alloc_init = mldsa_alloc_init b env,
     ka_make = mldsa_make env, ka_priv_decode = mldsa_priv_decode env, ka_priv_to_der = mldsa_priv_to_der env,
     ka_pub_check = mldsa_pub_check env, ka_free = mldsa_free env\<rparr>"

definition ALG_MLDSA87 :: "key_build \<Rightarrow> ('k, 'w) wolf_keys \<Rightarrow> ('k, 'w) WolfCertKeyAlg" where
  "ALG_MLDSA87 b env = \<lparr>ka_type = WOLFCERT_KEY_MLDSA87, ka_wc_keytype_enum = ML_DSA_87_TYPE, ka_ctc_sig_default = CTC_ML_DSA_87,
     ka_key_oid = ML_DSA_87k, ka_pem_type = PKCS8_PRIVATEKEY_TYPE, ka_der_cap_hint = 16384, ka_alloc_init = mldsa_alloc_init b env,
     ka_make = mldsa_make env, ka_priv_decode = mldsa_priv_decode env, ka_priv_to_der = mldsa_priv_to_der env,
     ka_pub_check = mldsa_pub_check env, ka_free = mldsa_free env\<rparr>"

definition ALL_ALGS :: "key_build \<Rightarrow> ('k, 'w) wolf_keys \<Rightarrow> ('k, 'w) WolfCertKeyAlg list" where
  "ALL_ALGS b env =
     (if kb_rsa b then [ALG_RSA env] else []) @ (if kb_ecc b then [ALG_ECC env] else []) @
     (if kb_ed25519 b then [ALG_ED25519 env] else []) @ (if kb_ed448 b then [ALG_ED448 env] else []) @
     (if kb_mldsa b
      then (if kb_mldsa44 b then [ALG_MLDSA44 b env] else []) @ (if kb_mldsa65 b then [ALG_MLDSA65 b env] else []) @
           (if kb_mldsa87 b then [ALG_MLDSA87 b env] else [])
      else [])"

definition wolfcert_key_alg :: "key_build \<Rightarrow> ('k, 'w) wolf_keys \<Rightarrow> int \<Rightarrow> ('k, 'w) WolfCertKeyAlg option" where
  "wolfcert_key_alg b env t = find (\<lambda>a. ka_type a = t) (ALL_ALGS b env)"

definition wolfcert_key_algs_all :: "key_build \<Rightarrow> ('k, 'w) wolf_keys \<Rightarrow> ('k, 'w) WolfCertKeyAlg list" where
  "wolfcert_key_algs_all b env = ALL_ALGS b env"

section \<open>Generation, import and export\<close>

definition alloc_shell :: "('k, 'w) wolf_keys \<Rightarrow> int \<Rightarrow> int \<Rightarrow> cstring option \<Rightarrow> 'w \<Rightarrow> 'k WolfCertKey option \<times> 'w" where
  "alloc_shell env t dev_id label w =
     (case wk_malloc env w of (got, w) \<Rightarrow>
        if \<not> got then (None, w)
        else let k = \<lparr>k_type = t, k_dev_id = dev_id, k_curve_id = 0, k_rsa_bits = 0, k_label = None, k_impl = None\<rparr> in
             case label of
               None \<Rightarrow> (Some k, w)
             | Some l \<Rightarrow>
                 (case wk_malloc env w of (got, w) \<Rightarrow>
                    if \<not> got then (None, w) else (Some (k\<lparr>k_label := Some l\<rparr>), w)))"

definition free_shell :: "key_build \<Rightarrow> ('k, 'w) wolf_keys \<Rightarrow> 'k WolfCertKey option \<Rightarrow> 'w \<Rightarrow> 'w" where
  "free_shell b env key w =
     (case key of
        None \<Rightarrow> w
      | Some k \<Rightarrow>
          (case wolfcert_key_alg b env (k_type k) of
             None \<Rightarrow> w
           | Some a \<Rightarrow> snd (ka_free a k w)))"

definition wolfcert_key_generate ::
  "key_build \<Rightarrow> ('k, 'w) wolf_keys \<Rightarrow> WolfCertKeyCfg \<Rightarrow> 'w \<Rightarrow> 'k WolfCertKey wc_result \<times> 'w" where
  "wolfcert_key_generate b env cfg w =
     (case wolfcert_key_alg b env (kc_type cfg) of
        None \<Rightarrow> (Err WOLFCERT_ERR_UNSUPPORTED, w)
      | Some alg \<Rightarrow>
          (case alloc_shell env (kc_type cfg) (kc_dev_id cfg) (kc_key_label cfg) w of
             (None, w) \<Rightarrow> (Err WOLFCERT_ERR_MEMORY, w)
           | (Some k, w) \<Rightarrow>
               (case wk_InitRng env (kc_dev_id cfg) w of (rc, w) \<Rightarrow>
                if rc \<noteq> 0 then (Err (map_err env rc), free_shell b env (Some k) w)
                else case ka_alloc_init alg k w of ((rc, k), w) \<Rightarrow>
                if rc \<noteq> WOLFCERT_OK then (Err rc, free_shell b env (Some k) (wk_FreeRng env w))
                else case ka_make alg k cfg w of ((rc, k), w) \<Rightarrow>
                let w = wk_FreeRng env w in
                if rc \<noteq> WOLFCERT_OK then (Err rc, free_shell b env (Some k) w)
                else (Ok k, w))))"

definition pem_try_types :: "key_build \<Rightarrow> pem_type list" where
  "pem_try_types b =
     [PRIVATEKEY_TYPE, ECC_PRIVATEKEY_TYPE] @ (if kb_ed25519 b then [PEM_ED25519_TYPE] else []) @
     (if kb_ed448 b then [PEM_ED448_TYPE] else []) @
     (if kb_mldsa b
      then (if kb_mldsa44 b then [PEM_ML_DSA_44_TYPE] else []) @ (if kb_mldsa65 b then [PEM_ML_DSA_65_TYPE] else []) @
           (if kb_mldsa87 b then [PEM_ML_DSA_87_TYPE] else [])
      else [])"

fun pem_try :: "('k, 'w) wolf_keys \<Rightarrow> byte list \<Rightarrow> pem_type list \<Rightarrow> byte list option" where
  "pem_try env data [] = None"
| "pem_try env data (t # ts) =
     (case wk_PemToDer env data t of
        (rc, der) \<Rightarrow> if rc = 0 \<and> der \<noteq> None then der else pem_try env data ts)"

fun decode_try :: "key_build \<Rightarrow> ('k, 'w) wolf_keys \<Rightarrow> byte list \<Rightarrow> ('k, 'w) WolfCertKeyAlg list \<Rightarrow>
    'w \<Rightarrow> 'k WolfCertKey wc_result \<times> 'w" where
  "decode_try b env der [] w = (Err WOLFCERT_ERR_PARSE, w)"
| "decode_try b env der (a # algs) w =
     (case alloc_shell env (ka_type a) WOLFCERT_DEVID_SOFTWARE None w of
        (None, w) \<Rightarrow> (Err WOLFCERT_ERR_MEMORY, w)
      | (Some k, w) \<Rightarrow>
          (case ka_alloc_init a k w of ((rc, k), w) \<Rightarrow>
             if rc \<noteq> WOLFCERT_OK then decode_try b env der algs (free_shell b env (Some k) w)
             else case ka_priv_decode a k der w of ((rc, k), w) \<Rightarrow>
                    if rc = WOLFCERT_OK then (Ok k, w)
                    else decode_try b env der algs (free_shell b env (Some k) w)))"

definition wolfcert_key_from_pem ::
  "key_build \<Rightarrow> ('k, 'w) wolf_keys \<Rightarrow> byte list \<Rightarrow> 'w \<Rightarrow> 'k WolfCertKey wc_result \<times> 'w" where
  "wolfcert_key_from_pem b env data w =
     (if data = [] then (Err WOLFCERT_ERR_BAD_ARG, w)
      else case (if wolfcert_buffer_is_der (Some data) then Some (take (length data mod 2 ^ 32) data)
                 else pem_try env data (pem_try_types b)) of
             None \<Rightarrow> (Err WOLFCERT_ERR_PARSE, w)
           | Some der \<Rightarrow> decode_try b env der (wolfcert_key_algs_all b env) w)"

text \<open>
  A writer that returns a length that is not positive gives the mapped code; 0 maps to
  \<open>WOLFCERT_OK\<close>, and the outputs keep the values the callers gave them, no data.
\<close>

definition wc_length_error :: "('k, 'w) wolf_keys \<Rightarrow> int \<Rightarrow> byte list wc_result" where
  "wc_length_error env n = (if map_err env n = WOLFCERT_OK then Ok [] else Err (map_err env n))"

definition key_export_der ::
  "key_build \<Rightarrow> ('k, 'w) wolf_keys \<Rightarrow> 'k WolfCertKey \<Rightarrow> 'w \<Rightarrow> byte list wc_result \<times> 'w" where
  "key_export_der b env key w =
     (case wolfcert_key_alg b env (k_type key) of
        None \<Rightarrow> (Err WOLFCERT_ERR_UNSUPPORTED, w)
      | Some alg \<Rightarrow>
          let bits = (if k_rsa_bits key \<noteq> 0 then nat (k_rsa_bits key) else 4096);
              der_cap = (if k_type key = WOLFCERT_KEY_RSA then bits + 2048 else ka_der_cap_hint alg)
          in case wk_malloc env w of (got, w) \<Rightarrow>
               if \<not> got then (Err WOLFCERT_ERR_MEMORY, w)
               else case ka_priv_to_der alg key der_cap of (der_len, der) \<Rightarrow>
                      (if der_len \<le> 0 then wc_length_error env der_len else Ok (take (nat der_len) der), w))"

definition wolfcert_key_to_der ::
  "key_build \<Rightarrow> ('k, 'w) wolf_keys \<Rightarrow> 'k WolfCertKey \<Rightarrow> 'w \<Rightarrow> byte list wc_result \<times> 'w" where
  "wolfcert_key_to_der b env key w = key_export_der b env key w"

definition wolfcert_key_to_pem ::
  "key_build \<Rightarrow> ('k, 'w) wolf_keys \<Rightarrow> 'k WolfCertKey \<Rightarrow> 'w \<Rightarrow> byte list wc_result \<times> 'w" where
  "wolfcert_key_to_pem b env key w =
     (case wolfcert_key_alg b env (k_type key) of
        None \<Rightarrow> (Err WOLFCERT_ERR_UNSUPPORTED, w)
      | Some alg \<Rightarrow>
          (case key_export_der b env key w of
             (Inl rc, w) \<Rightarrow> (Err rc, w)
           | (Inr der, w) \<Rightarrow>
               (case wk_malloc env w of (got, w) \<Rightarrow>
                  if \<not> got then (Err WOLFCERT_ERR_MEMORY, w)
                  else case wk_DerToPem env der (length der * 2 + 256) (ka_pem_type alg) of (pem_len, pem) \<Rightarrow>
                         (if pem_len \<le> 0 then wc_length_error env pem_len else Ok (take (nat pem_len) pem), w))))"

definition wolfcert_key_free :: "key_build \<Rightarrow> ('k, 'w) wolf_keys \<Rightarrow> 'k WolfCertKey option \<Rightarrow> 'w \<Rightarrow> 'w" where
  "wolfcert_key_free b env key w = free_shell b env key w"

definition wolfcert_key_type :: "'k WolfCertKey option \<Rightarrow> int" where
  "wolfcert_key_type k = (case k of None \<Rightarrow> 0 | Some k \<Rightarrow> k_type k)"

definition wolfcert_key_dev_id :: "'k WolfCertKey option \<Rightarrow> int" where
  "wolfcert_key_dev_id k = (case k of None \<Rightarrow> 0 | Some k \<Rightarrow> k_dev_id k)"

section \<open>Library objects in use\<close>

text \<open>The object a key holds, and an operation that accounts for it.\<close>

definition held :: "'k WolfCertKey \<Rightarrow> int" where
  "held k = (if k_impl k = None then 0 else 1)"

definition balanced :: "('w \<Rightarrow> int) \<Rightarrow> 'k WolfCertKey \<Rightarrow> 'w \<Rightarrow> 'k WolfCertKey \<Rightarrow> 'w \<Rightarrow> bool" where
  "balanced live k w k' w' \<longleftrightarrow> live w' - held k' = live w - held k \<and> k_type k' = k_type k"

lemma held_simps [simp]:
  "held (k\<lparr>k_impl := Some obj\<rparr>) = 1" "held (k\<lparr>k_impl := None\<rparr>) = 0" "k_impl k = None \<Longrightarrow> held k = 0"
  "k_impl k = Some obj \<Longrightarrow> held k = 1" "held (k\<lparr>k_curve_id := c\<rparr>) = held k" "held (k\<lparr>k_rsa_bits := n\<rparr>) = held k"
  by (simp_all add: held_def)

text \<open>
  What the code relies on: \<open>live\<close> counts the wolfSSL objects (generators and keys) in use. It grows
  with a successful initialisation, shrinks when an object is freed, and no other call changes it.
\<close>

locale counting_keys =
  fixes env :: "('k, 'w) wolf_keys" and live :: "'w \<Rightarrow> int"
  assumes malloc: "wk_malloc env w = (g, w') \<Longrightarrow> live w' = live w"
    and init_rng: "wk_InitRng env d w = (rc, w') \<Longrightarrow> live w' = live w + of_bool (rc = 0)"
    and free_rng: "live (wk_FreeRng env w) = live w - 1"
    and init: "wk_Init env st d w = ((rc, k), w') \<Longrightarrow> live w' = live w + of_bool (rc = 0)"
    and free: "live (wk_Free env st k w) = live w - 1"
    and make_rsa: "wk_MakeRsaKey env n k w = (r, w') \<Longrightarrow> live w' = live w"
    and make_ecc: "wk_ecc_make_key_ex env n c k w = (r, w') \<Longrightarrow> live w' = live w"
    and make_key: "wk_make_key env st k w = (r, w') \<Longrightarrow> live w' = live w"
    and private_decode: "wk_PrivateKeyDecode env st der k w = (r, w') \<Longrightarrow> live w' = live w"
    and public_decode: "wk_PublicKeyDecode env st der k w = (r, w') \<Longrightarrow> live w' = live w"
    and make_pub: "wk_ecc_make_pub env k w = (r, w') \<Longrightarrow> live w' = live w"
    and import_x963: "wk_ecc_import_x963 env der k w = (r, w') \<Longrightarrow> live w' = live w"

text \<open>The contract of an algorithm of the table.\<close>

locale key_alg =
  fixes alg :: "('k, 'w) WolfCertKeyAlg" and live :: "'w \<Rightarrow> int"
  assumes alloc_init: "ka_alloc_init alg k w = ((rc, k'), w') \<Longrightarrow> k_impl k = None \<Longrightarrow>
      balanced live k w k' w' \<and> (k_impl k' \<noteq> None \<longleftrightarrow> rc = WOLFCERT_OK)"
    and make: "ka_make alg k cfg w = ((rc, k'), w') \<Longrightarrow> k_impl k = Some obj \<Longrightarrow>
      balanced live k w k' w' \<and> k_impl k' \<noteq> None"
    and priv_decode: "ka_priv_decode alg k der w = ((rc, k'), w') \<Longrightarrow> k_impl k = Some obj \<Longrightarrow>
      balanced live k w k' w' \<and> k_impl k' \<noteq> None"
    and pub_check: "ka_pub_check alg k pub w = ((rc, k'), w') \<Longrightarrow> k_impl k = Some obj \<Longrightarrow>
      balanced live k w k' w' \<and> k_impl k' \<noteq> None"
    and free: "ka_free alg k w = (k', w') \<Longrightarrow> live w' = live w - held k \<and> k_impl k' = None"

lemmas op_splits = prod.splits if_splits option.splits sum.splits

lemma make_result_balanced:
  "make_result env k r = ((rc, k'), w') \<Longrightarrow> k_impl k = Some obj \<Longrightarrow> live (snd r) = live w \<Longrightarrow>
   balanced live k w k' w' \<and> k_impl k' \<noteq> None"
  by (auto simp: make_result_def balanced_def split: prod.splits)

lemma decode_result_balanced:
  "decode_result k r = ((rc, k'), w') \<Longrightarrow> k_impl k = Some obj \<Longrightarrow> live (snd r) = live w \<Longrightarrow>
   balanced live k w k' w' \<and> k_impl k' \<noteq> None"
  by (auto simp: decode_result_def balanced_def split: prod.splits)

lemma balanced_refl [simp]: "balanced live k w k w"
  by (simp add: balanced_def)

lemma balanced_rsa_bits: "balanced live (k\<lparr>k_rsa_bits := n\<rparr>) w k' w' = balanced live k w k' w'"
  by (simp add: balanced_def)

lemma balanced_curve_id: "balanced live (k\<lparr>k_curve_id := c\<rparr>) w k' w' = balanced live k w k' w'"
  by (simp add: balanced_def)

context counting_keys
begin

lemma snd_laws:
  "live (snd (wk_MakeRsaKey env n k w)) = live w" "live (snd (wk_ecc_make_key_ex env n c k w)) = live w"
  "live (snd (wk_make_key env st k w)) = live w" "live (snd (wk_PrivateKeyDecode env st der k w)) = live w"
  by (auto intro: make_rsa make_ecc make_key private_decode prod.collapse [symmetric])

lemma alloc_init_with:
  assumes "alloc_init_with env st k w = ((rc, k'), w')" "k_impl k = None"
  shows "balanced live k w k' w' \<and> (k_impl k' \<noteq> None \<longleftrightarrow> rc = WOLFCERT_OK)"
  using assms by (auto simp: alloc_init_with_def balanced_def dest!: malloc init split: op_splits)

lemma free_with: "free_with env st k w = (k', w') \<Longrightarrow> live w' = live w - held k \<and> k_impl k' = None"
  by (auto simp: free_with_def free split: option.splits)

lemma rsa_make:
  "rsa_make env k cfg w = ((rc, k'), w') \<Longrightarrow> k_impl k = Some obj \<Longrightarrow> balanced live k w k' w' \<and> k_impl k' \<noteq> None"
  using make_result_balanced [of env "k\<lparr>k_rsa_bits := kc_param cfg\<rparr>" _ rc k' w' obj live w]
  by (auto simp: rsa_make_def Let_def snd_laws balanced_rsa_bits balanced_def split: if_splits)

lemma rsa_pub_compare: "rsa_pub_compare env own ck w = (rc, w') \<Longrightarrow> live w' = live w"
  by (auto simp: rsa_pub_compare_def Let_def dest!: malloc split: op_splits)

lemma rsa_pub_check:
  "rsa_pub_check env k pub w = ((rc, k'), w') \<Longrightarrow> balanced live k w k' w' \<and> k_impl k' = k_impl k"
  by (auto simp: rsa_pub_check_def balanced_def free dest!: malloc init public_decode rsa_pub_compare split: op_splits)

lemma ecc_make:
  "ecc_make env k cfg w = ((rc, k'), w') \<Longrightarrow> k_impl k = Some obj \<Longrightarrow> balanced live k w k' w' \<and> k_impl k' \<noteq> None"
  by (auto simp: ecc_make_def snd_laws balanced_curve_id split: op_splits
      dest!: make_result_balanced [where w = w and live = live and obj = obj])

lemma ecc_priv_decode:
  "ecc_priv_decode env k der w = ((rc, k'), w') \<Longrightarrow> k_impl k = Some obj \<Longrightarrow> balanced live k w k' w' \<and> k_impl k' \<noteq> None"
  by (auto simp: ecc_priv_decode_def balanced_def dest!: private_decode split: op_splits)

lemma ecc_pub_decode: "ecc_pub_decode env pub ck w = (r, w') \<Longrightarrow> live w' = live w"
  by (auto simp: ecc_pub_decode_def dest!: public_decode import_x963 split: op_splits)

lemma ecc_pub_check:
  "ecc_pub_check env k pub w = ((rc, k'), w') \<Longrightarrow> k_impl k = Some obj \<Longrightarrow> balanced live k w k' w' \<and> k_impl k' \<noteq> None"
  unfolding ecc_pub_check_def Let_def
  by (auto simp: balanced_def free simp del: split_paired_All split: prod.splits if_split_asm
      dest!: malloc init make_pub ecc_pub_decode)

lemma mldsa_alloc_init:
  "mldsa_alloc_init b env k w = ((rc, k'), w') \<Longrightarrow> k_impl k = None \<Longrightarrow>
   balanced live k w k' w' \<and> (k_impl k' \<noteq> None \<longleftrightarrow> rc = WOLFCERT_OK)"
  by (auto simp: mldsa_alloc_init_def balanced_def free dest!: malloc init split: op_splits)

lemma mldsa_pub_check:
  "mldsa_pub_check env k pub w = ((rc, k'), w') \<Longrightarrow> k_impl k = Some obj \<Longrightarrow> balanced live k w k' w' \<and> k_impl k' \<noteq> None"
  by (auto simp: mldsa_pub_check_def balanced_def Let_def split: op_splits)

lemma edwards_make:
  "ed25519_make env k cfg w = ((rc, k'), w') \<Longrightarrow> k_impl k = Some obj \<Longrightarrow> balanced live k w k' w' \<and> k_impl k' \<noteq> None"
  "ed448_make env k cfg w = ((rc, k'), w') \<Longrightarrow> k_impl k = Some obj \<Longrightarrow> balanced live k w k' w' \<and> k_impl k' \<noteq> None"
  "mldsa_make env k cfg w = ((rc, k'), w') \<Longrightarrow> k_impl k = Some obj \<Longrightarrow> balanced live k w k' w' \<and> k_impl k' \<noteq> None"
  unfolding ed25519_make_def ed448_make_def mldsa_make_def
  by (erule make_result_balanced, assumption, simp add: snd_laws)+

lemma plain_decode:
  "decode_result k (wk_PrivateKeyDecode env st der obj w) = ((rc, k'), w') \<Longrightarrow> k_impl k = Some obj \<Longrightarrow>
   balanced live k w k' w' \<and> k_impl k' \<noteq> None"
  by (erule decode_result_balanced, assumption, simp add: snd_laws)

lemma ALG_RSA: "key_alg (ALG_RSA env) live"
  by unfold_locales
    (auto simp: ALG_RSA_def rsa_alloc_init_def rsa_priv_decode_def rsa_free_def
      dest: alloc_init_with rsa_make plain_decode rsa_pub_check free_with)

lemma ALG_ECC: "key_alg (ALG_ECC env) live"
  by unfold_locales
    (auto simp: ALG_ECC_def ecc_alloc_init_def ecc_free_def
      dest: alloc_init_with ecc_make ecc_priv_decode ecc_pub_check free_with)

lemma ALG_ED25519: "key_alg (ALG_ED25519 env) live"
  by unfold_locales
    (auto simp: ALG_ED25519_def ed25519_alloc_init_def ed25519_priv_decode_def ed25519_pub_check_def ed25519_free_def
      dest: alloc_init_with edwards_make plain_decode free_with)

lemma ALG_ED448: "key_alg (ALG_ED448 env) live"
  by unfold_locales
    (auto simp: ALG_ED448_def ed448_alloc_init_def ed448_priv_decode_def ed448_pub_check_def ed448_free_def
      dest: alloc_init_with edwards_make plain_decode free_with)

lemma ALG_MLDSA: "key_alg (ALG_MLDSA44 b env) live" "key_alg (ALG_MLDSA65 b env) live" "key_alg (ALG_MLDSA87 b env) live"
  by (unfold_locales;
      auto simp: ALG_MLDSA44_def ALG_MLDSA65_def ALG_MLDSA87_def mldsa_priv_decode_def mldsa_free_def
      dest: mldsa_alloc_init edwards_make plain_decode mldsa_pub_check free_with)+

end

sublocale counting_keys \<subseteq> rsa: key_alg "ALG_RSA env" live by (rule ALG_RSA)

sublocale counting_keys \<subseteq> ecc: key_alg "ALG_ECC env" live by (rule ALG_ECC)

sublocale counting_keys \<subseteq> ed25519: key_alg "ALG_ED25519 env" live by (rule ALG_ED25519)

sublocale counting_keys \<subseteq> ed448: key_alg "ALG_ED448 env" live by (rule ALG_ED448)

context counting_keys
begin

lemma all_algs: "a \<in> set (ALL_ALGS b env) \<Longrightarrow> key_alg a live"
  using ALG_RSA ALG_ECC ALG_ED25519 ALG_ED448 ALG_MLDSA by (auto simp: ALL_ALGS_def split: if_splits)

lemma find_alg: "wolfcert_key_alg b env t = Some a \<Longrightarrow> key_alg a live \<and> ka_type a = t"
  unfolding wolfcert_key_alg_def find_Some_iff using all_algs nth_mem by blast

lemma alg_of_type: "a \<in> set (ALL_ALGS b env) \<Longrightarrow> wolfcert_key_alg b env (ka_type a) \<noteq> None"
  unfolding wolfcert_key_alg_def by (auto simp: find_None_iff)

lemma free_shell:
  assumes "wolfcert_key_alg b env (k_type k) \<noteq> None"
  shows "live (free_shell b env (Some k) w) = live w - held k"
proof -
  obtain a where a: "wolfcert_key_alg b env (k_type k) = Some a" using assms by blast
  then have "key_alg a live" using find_alg by blast
  from key_alg.free [OF this, of k w "fst (ka_free a k w)" "snd (ka_free a k w)"] a show ?thesis
    by (simp add: free_shell_def)
qed

lemma alloc_shell:
  "alloc_shell env t d l w = (ko, w') \<Longrightarrow>
   live w' = live w \<and> (\<forall>k. ko = Some k \<longrightarrow> k_type k = t \<and> k_impl k = None \<and> k_dev_id k = d \<and> k_label k = l)"
  by (auto simp: alloc_shell_def Let_def dest!: malloc split: op_splits)

lemma key_generate:
  assumes "wolfcert_key_generate b env cfg w = (r, w')"
  shows "case r of Inl rc \<Rightarrow> rc \<noteq> WOLFCERT_OK \<and> live w' = live w
     | Inr k \<Rightarrow> live w' = live w + 1 \<and> k_impl k \<noteq> None \<and> k_type k = kc_type cfg"
proof (cases "wolfcert_key_alg b env (kc_type cfg)")
  case None
  then show ?thesis using assms by (auto simp: wolfcert_key_generate_def)
next
  case (Some alg)
  have alg: "key_alg alg live" using find_alg [OF Some] by blast
  obtain ko w1 where sh: "alloc_shell env (kc_type cfg) (kc_dev_id cfg) (kc_key_label cfg) w = (ko, w1)"
    by (rule prod.exhaust)
  obtain rc w2 where rng: "wk_InitRng env (kc_dev_id cfg) w1 = (rc, w2)" by (rule prod.exhaust)
  note l1 = alloc_shell [OF sh] and l2 = init_rng [OF rng]
  show ?thesis
  proof (cases ko)
    case None
    then show ?thesis using assms Some sh l1 by (auto simp: wolfcert_key_generate_def)
  next
    case ko: (Some k)
    then have k: "k_type k = kc_type cfg" "k_impl k = None" using l1 by auto
    obtain rc3 k3 w3 where ai: "ka_alloc_init alg k w2 = ((rc3, k3), w3)" by (metis surj_pair)
    obtain rc4 k4 w4 where mk: "ka_make alg k3 cfg w3 = ((rc4, k4), w4)" by (metis surj_pair)
    note b3 = key_alg.alloc_init [OF alg ai k(2)]
    have fs: "live (free_shell b env (Some k') v) = live v - held k'" if "k_type k' = kc_type cfg" for k' v
      using free_shell [of b k' v] that Some by simp
    have b4: "balanced live k3 w3 k4 w4 \<and> k_impl k4 \<noteq> None" if "rc3 = WOLFCERT_OK"
      using key_alg.make [OF alg mk] b3 that by auto
    show ?thesis
    proof (cases "rc = 0 \<and> rc3 = WOLFCERT_OK")
      case True
      then show ?thesis
        using assms Some sh rng ko ai mk l1 l2 k b3 b4 fs [of k4 "wk_FreeRng env w4"]
        by (auto simp: wolfcert_key_generate_def balanced_def free_rng held_def Let_def split: if_splits)
    next
      case False
      then show ?thesis
        using assms Some sh rng ko ai l1 l2 k b3 fs [of k w2] fs [of k3 "wk_FreeRng env w3"]
        by (auto simp: wolfcert_key_generate_def balanced_def free_rng Let_def split: if_splits)
    qed
  qed
qed

lemma decode_try:
  assumes "decode_try b env der algs w = (r, w')" "set algs \<subseteq> set (ALL_ALGS b env)"
  shows "case r of Inl rc \<Rightarrow> rc \<noteq> WOLFCERT_OK \<and> live w' = live w
     | Inr k \<Rightarrow> live w' = live w + 1 \<and> k_impl k \<noteq> None \<and> k_type k \<in> ka_type ` set algs"
  using assms
proof (induction algs arbitrary: w)
  case Nil
  then show ?case by auto
next
  case (Cons a algs)
  have a: "key_alg a live" "wolfcert_key_alg b env (ka_type a) \<noteq> None"
    using all_algs alg_of_type Cons.prems(2) by auto
  obtain ko w1 where sh: "alloc_shell env (ka_type a) (-1) None w = (ko, w1)" by (rule prod.exhaust)
  note l1 = alloc_shell [OF sh]
  show ?case
  proof (cases ko)
    case None
    then show ?thesis using Cons.prems sh l1 by auto
  next
    case ko: (Some k)
    then have k: "k_type k = ka_type a" "k_impl k = None" using l1 by auto
    obtain rc3 k3 w3 where ai: "ka_alloc_init a k w1 = ((rc3, k3), w3)" by (metis surj_pair)
    obtain rc4 k4 w4 where de: "ka_priv_decode a k3 der w3 = ((rc4, k4), w4)" by (metis surj_pair)
    note b3 = key_alg.alloc_init [OF a(1) ai k(2)]
    have fs: "live (free_shell b env (Some k') v) = live v - held k'" if "k_type k' = ka_type a" for k' v
      using free_shell [of b k' v] that a(2) by simp
    have b4: "balanced live k3 w3 k4 w4 \<and> k_impl k4 \<noteq> None" if "rc3 = WOLFCERT_OK"
      using key_alg.priv_decode [OF a(1) de] b3 that by auto
    show ?thesis
    proof (cases "rc3 = WOLFCERT_OK \<and> rc4 = WOLFCERT_OK")
      case True
      then show ?thesis using Cons.prems sh ko ai de l1 k b3 b4 by (auto simp: balanced_def held_def)
    next
      case False
      define v where "v = (if rc3 = WOLFCERT_OK then free_shell b env (Some k4) w4 else free_shell b env (Some k3) w3)"
      have "live v = live w" using False fs [of k4 w4] fs [of k3 w3] b3 b4 k l1 by (auto simp: v_def balanced_def)
      moreover have "decode_try b env der algs v = (r, w')" using Cons.prems False sh ko ai de by (auto simp: v_def)
      ultimately show ?thesis using Cons.IH [of v] Cons.prems(2) by (auto split: sum.splits)
    qed
  qed
qed

end

section \<open>Export and import\<close>

text \<open>The structure behind a key type.\<close>

definition struct_of :: "int \<Rightarrow> wc_key_struct" where
  "struct_of t = (if t = WOLFCERT_KEY_RSA then RsaKey else if t = WOLFCERT_KEY_ECC then EccKey
     else if t = WOLFCERT_KEY_ED25519 then Ed25519Key else if t = WOLFCERT_KEY_ED448 then Ed448Key else MlDsaKey)"

text \<open>
  What the code relies on: a private key exported in DER is rejected by the decoders of the other
  structures and decoded to the same key by its own, and a PEM text is not DER and yields, for every
  label it is tried with, the encoded data or an error, for the label \<open>PRIVATEKEY_TYPE\<close> the data;
  the writers return a length or a negative code, never 0.
\<close>

definition key_codecs_ok :: "('k, 'w) wolf_keys \<Rightarrow> bool" where
  "key_codecs_ok env \<longleftrightarrow>
     (\<forall>st obj cap. fst (wk_PrivateKeyToDer env st obj cap) \<noteq> 0) \<and> (\<forall>der cap t. fst (wk_DerToPem env der cap t) \<noteq> 0) \<and>
     (\<forall>st obj cap n der st' obj' w. wk_PrivateKeyToDer env st obj cap = (n, der) \<and> n > 0 \<longrightarrow>
        (let r = fst (wk_PrivateKeyDecode env st' (take (nat n) der) obj' w)
         in if st' = st then r = (0, obj) else fst r \<noteq> 0)) \<and>
     (\<forall>der cap t n pem t'. wk_DerToPem env der cap t = (n, pem) \<and> n > 0 \<longrightarrow>
        \<not> wolfcert_buffer_is_der (Some (take (nat n) pem)) \<and> take (nat n) pem \<noteq> [] \<and>
        (fst (wk_PemToDer env (take (nat n) pem) t') = 0 \<longrightarrow> snd (wk_PemToDer env (take (nat n) pem) t') = Some der) \<and>
        wk_PemToDer env (take (nat n) pem) PRIVATEKEY_TYPE = (0, Some der))"

lemma key_codecs_pem:
  assumes "key_codecs_ok env" "wk_DerToPem env der cap t = (n, pem)" "n > 0"
  shows "\<not> wolfcert_buffer_is_der (Some (take (nat n) pem)) \<and> take (nat n) pem \<noteq> [] \<and>
    wk_PemToDer env (take (nat n) pem) PRIVATEKEY_TYPE = (0, Some der)"
  using assms(1) [unfolded key_codecs_ok_def, THEN conjunct2, THEN conjunct2, THEN conjunct2, rule_format, OF conjI [OF assms(2,3)]]
  by blast

lemma table_struct:
  assumes "a \<in> set (ALL_ALGS b env)"
  shows "ka_priv_to_der a k cap = wk_PrivateKeyToDer env (struct_of (ka_type a)) (the (k_impl k)) cap"
    and "ka_priv_decode a k der w = ((rc, k'), w') \<Longrightarrow>
      \<exists>n obj. wk_PrivateKeyDecode env (struct_of (ka_type a)) der (the (k_impl k)) w = ((n, obj), w') \<and>
        (rc = WOLFCERT_OK \<longleftrightarrow> n = 0) \<and> k_impl k' = Some obj \<and> k_type k' = k_type k"
proof -
  note defs = ALG_RSA_def ALG_ECC_def ALG_ED25519_def ALG_ED448_def ALG_MLDSA44_def ALG_MLDSA65_def ALG_MLDSA87_def
  from assms show "ka_priv_to_der a k cap = wk_PrivateKeyToDer env (struct_of (ka_type a)) (the (k_impl k)) cap"
    by (auto simp: ALL_ALGS_def defs struct_of_def rsa_priv_to_der_def ecc_priv_to_der_def ed25519_priv_to_der_def
        ed448_priv_to_der_def mldsa_priv_to_der_def split: if_splits)
  assume "ka_priv_decode a k der w = ((rc, k'), w')"
  with assms show "\<exists>n obj. wk_PrivateKeyDecode env (struct_of (ka_type a)) der (the (k_impl k)) w = ((n, obj), w') \<and>
        (rc = WOLFCERT_OK \<longleftrightarrow> n = 0) \<and> k_impl k' = Some obj \<and> k_type k' = k_type k"
    by (auto simp: ALL_ALGS_def defs struct_of_def rsa_priv_decode_def ecc_priv_decode_def ed25519_priv_decode_def
        ed448_priv_decode_def mldsa_priv_decode_def decode_result_def split: if_splits prod.splits)
qed

lemma table_alloc_init:
  assumes "a \<in> set (ALL_ALGS b env)" "ka_alloc_init a k w = ((rc, k'), w')"
  shows "k_type k' = k_type k"
    and "ka_type a \<notin> {5, 6, 7} \<Longrightarrow> \<forall>w. fst (wk_malloc env w) \<Longrightarrow> \<forall>st d w. fst (fst (wk_Init env st d w)) = 0 \<Longrightarrow> rc = WOLFCERT_OK"
proof -
  note defs = ALG_RSA_def ALG_ECC_def ALG_ED25519_def ALG_ED448_def ALG_MLDSA44_def ALG_MLDSA65_def ALG_MLDSA87_def
    rsa_alloc_init_def ecc_alloc_init_def ed25519_alloc_init_def ed448_alloc_init_def
  have gen: "k_type k' = k_type k \<and> ((\<forall>w. fst (wk_malloc env w)) \<longrightarrow> (\<forall>st d w. fst (fst (wk_Init env st d w)) = 0) \<longrightarrow> rc = WOLFCERT_OK)"
    if "alloc_init_with env st k w = ((rc, k'), w')" for st
    using that unfolding alloc_init_with_def by (auto split: prod.splits if_splits) (metis fst_conv)+
  have ml: "k_type k' = k_type k" if "mldsa_alloc_init b env k w = ((rc, k'), w')"
    using that by (auto simp: mldsa_alloc_init_def split: op_splits)
  show "k_type k' = k_type k" using assms gen ml by (auto simp: ALL_ALGS_def defs split: if_splits)
  show "ka_type a \<notin> {5, 6, 7} \<Longrightarrow> \<forall>w. fst (wk_malloc env w) \<Longrightarrow> \<forall>st d w. fst (fst (wk_Init env st d w)) = 0 \<Longrightarrow> rc = WOLFCERT_OK"
    using assms gen by (auto simp: ALL_ALGS_def defs split: if_splits)
qed

lemma alloc_shell_shape:
  "alloc_shell env t d None w = (ko, w') \<Longrightarrow>
   (\<forall>k. ko = Some k \<longrightarrow> k_type k = t) \<and> ((\<forall>w. fst (wk_malloc env w)) \<longrightarrow> ko \<noteq> None)"
  by (auto simp: alloc_shell_def Let_def split: prod.splits if_splits) (metis fst_conv)

lemma decode_try_exported:
  assumes "key_codecs_ok env" "wk_PrivateKeyToDer env (struct_of t) obj cap = (n, der)" "n > 0" "t \<in> {1, 2, 3, 4}"
    and "set algs \<subseteq> set (ALL_ALGS b env)" "decode_try b env (take (nat n) der) algs w = (r, w')"
  shows "(\<forall>k. r = Ok k \<longrightarrow> k_type k = t \<and> k_impl k = Some obj) \<and>
    ((\<forall>w. fst (wk_malloc env w)) \<longrightarrow> (\<forall>st d w. fst (fst (wk_Init env st d w)) = 0) \<longrightarrow> t \<in> ka_type ` set algs \<longrightarrow>
       (\<exists>k. r = Ok k))"
  using assms(5,6)
proof (induction algs arbitrary: w)
  case Nil
  then show ?case by auto
next
  case (Cons a algs)
  have a: "a \<in> set (ALL_ALGS b env)" using Cons.prems(1) by simp
  obtain ko w1 where sh: "alloc_shell env (ka_type a) (-1) None w = (ko, w1)" by (rule prod.exhaust)
  show ?case
  proof (cases ko)
    case None
    then show ?thesis using Cons.prems(2) sh alloc_shell_shape [OF sh] by auto
  next
    case ko: (Some k)
    obtain rc3 k3 w3 where ai: "ka_alloc_init a k w1 = ((rc3, k3), w3)" by (metis surj_pair)
    obtain rc4 k4 w4 where de: "ka_priv_decode a k3 (take (nat n) der) w3 = ((rc4, k4), w4)" by (metis surj_pair)
    obtain m obj' where m: "wk_PrivateKeyDecode env (struct_of (ka_type a)) (take (nat n) der) (the (k_impl k3)) w3 = ((m, obj'), w4)"
      "rc4 = WOLFCERT_OK \<longleftrightarrow> m = 0" "k_impl k4 = Some obj'" "k_type k4 = k_type k3"
      using table_struct(2) [OF a de] by blast
    have ty: "k_type k3 = ka_type a" using table_alloc_init(1) [OF a ai] alloc_shell_shape [OF sh] ko by auto
    have law: "if struct_of (ka_type a) = struct_of t then m = 0 \<and> obj' = obj else m \<noteq> 0"
      using assms(1-3) m(1) unfolding key_codecs_ok_def Let_def by (metis fst_conv prod.inject)
    have st: "struct_of (ka_type a) = struct_of t \<longleftrightarrow> ka_type a = t" using assms(4) by (auto simp: struct_of_def)
    show ?thesis
    proof (cases "rc3 = WOLFCERT_OK \<and> rc4 = WOLFCERT_OK")
      case True
      then have "r = Ok k4" using Cons.prems(2) sh ko ai de by auto
      then show ?thesis using True m law st ty by (auto split: if_splits)
    next
      case False
      define v where "v = (if rc3 = WOLFCERT_OK then free_shell b env (Some k4) w4 else free_shell b env (Some k3) w3)"
      have "decode_try b env (take (nat n) der) algs v = (r, w')" using Cons.prems(2) False sh ko ai de by (auto simp: v_def)
      moreover have "ka_type a \<noteq> t" if "\<forall>w. fst (wk_malloc env w)" "\<forall>st d w. fst (fst (wk_Init env st d w)) = 0"
        using table_alloc_init(2) [OF a ai _ that] False m law st assms(4) by (auto split: if_splits)
      ultimately show ?thesis using Cons.IH [of v] Cons.prems(1) by auto
    qed
  qed
qed


text \<open>A small library: keys are numbers, and the world is the number of objects in use.\<close>

fun small_tag :: "wc_key_struct \<Rightarrow> byte" where
  "small_tag RsaKey = 1" | "small_tag EccKey = 2" | "small_tag Ed25519Key = 3" | "small_tag Ed448Key = 4" | "small_tag MlDsaKey = 5"

definition small_keys :: "(nat, int) wolf_keys" where
  "small_keys = \<lparr>wk_codes = \<lparr>MEMORY_E = -125, BAD_FUNC_ARG = -173, BUFFER_E = -132, ASN_PARSE_E = -140, NOT_COMPILED_IN = -174, ALGO_ID_E = -161\<rparr>,
     wk_MAX_ECC_BYTES = 66, wk_malloc = (\<lambda>w. (True, w)), wk_InitRng = (\<lambda>d w. (0, w + 1)), wk_FreeRng = (\<lambda>w. w - 1),
     wk_Init = (\<lambda>st d w. ((0, 0), w + 1)), wk_Free = (\<lambda>st k w. w - 1),
     wk_MakeRsaKey = (\<lambda>n k w. ((0, 7), w)), wk_ecc_make_key_ex = (\<lambda>n c k w. ((-1, k), w)), wk_make_key = (\<lambda>st k w. ((0, 9), w)),
     wk_PrivateKeyDecode = (\<lambda>st der k w. case der of [a, b, c] \<Rightarrow> if a = 0x30 \<and> b = small_tag st then ((0, unat c), w) else ((-1, k), w) | _ \<Rightarrow> ((-1, k), w)),
     wk_PublicKeyDecode = (\<lambda>st der k w. ((-1, k), w)),
     wk_PrivateKeyToDer = (\<lambda>st k cap. if k < 256 then (3, [0x30, small_tag st, of_nat k]) else (-1, [])),
     wk_RsaPublicKeyDerSize = (\<lambda>k. 1), wk_RsaKeyToPublicDer = (\<lambda>k cap. (1, [of_nat k])),
     wk_curve_id = (\<lambda>c. 7), wk_ecc_get_curve_id = (\<lambda>k. 7), wk_ecc_privatekey_only = (\<lambda>k. False),
     wk_ecc_make_pub = (\<lambda>k w. ((0, k), w)), wk_ecc_import_x963 = (\<lambda>der k w. ((-1, k), w)), wk_ecc_export_x963 = (\<lambda>k cap. (0, [of_nat k])),
     wk_make_public = (\<lambda>st k cap. (0, [of_nat k])), wk_SetParams = (\<lambda>l k. (0, k)), wk_ImportPubRaw = (\<lambda>d k. (0, k)), wk_CheckKey = (\<lambda>k. 0),
     wk_PemToDer = (\<lambda>d t. case d of a # der \<Rightarrow> if a = 0x2D then (0, Some der) else (-1, None) | [] \<Rightarrow> (-1, None)),
     wk_DerToPem = (\<lambda>der cap t. (int (length der) + 1, 0x2D # der))\<rparr>"

definition small_build :: key_build where
  "small_build = \<lparr>kb_rsa = True, kb_ecc = True, kb_ed25519 = True, kb_ed448 = False, kb_mldsa = True,
     kb_mldsa44 = True, kb_mldsa65 = False, kb_mldsa87 = True\<rparr>"

interpretation small: counting_keys small_keys "\<lambda>w. w"
  by unfold_locales (auto simp: small_keys_def split: list.splits if_splits)



lemma small_codecs: "key_codecs_ok small_keys"
proof -
  have "small_tag st = small_tag st' \<longleftrightarrow> st = st'" for st st'
    by (cases st; cases st'; simp)
  then show ?thesis
    unfolding key_codecs_ok_def
    by (auto simp: small_keys_def wolfcert_buffer_is_der_def Let_def split: if_splits)
qed


end
