(* ===== verification/Csr_Attrs.thy ===== *)
theory Csr_Attrs
  imports Der Key_Algs
begin

text \<open>
  The EST CSR attributes of \<open>src/est/csr_attrs.c\<close>: decoding a CsrAttrs structure and the hints it
  gives, encoding one, applying the hints to a key and certificate configuration, and dotted OIDs.

  \<open>SetLength\<close> belongs to wolfSSL; it is the parameter \<open>set_length\<close>, of which the code relies on
  \<open>set_length_ok\<close>: it writes the shortest DER form of a 32-bit length.
\<close>

section \<open>Data\<close>

datatype WolfCertCsrAttrKind = WOLFCERT_CSRATTR_BARE_OID | WOLFCERT_CSRATTR_ATTRIBUTE

record WolfCertCsrAttrItem =
  it_kind :: WolfCertCsrAttrKind
  it_oid :: "byte list"
  it_values :: "byte list"

record WolfCertCsrAttrs =
  ca_items :: "WolfCertCsrAttrItem list"
  ca_require_challenge_password :: bool
  ca_require_extension_request :: bool
  ca_preferred_hash :: int
  ca_preferred_key_type :: int
  ca_preferred_rsa_bits :: int
  ca_preferred_ecc_curve_bits :: int

definition OID_CHALLENGE_PASSWORD :: "byte list" where
  "OID_CHALLENGE_PASSWORD = [0x2A, 0x86, 0x48, 0x86, 0xF7, 0x0D, 0x01, 0x09, 0x07]"

definition OID_EXTENSION_REQUEST :: "byte list" where
  "OID_EXTENSION_REQUEST = [0x2A, 0x86, 0x48, 0x86, 0xF7, 0x0D, 0x01, 0x09, 0x0E]"

definition OID_SHA256_RSA :: "byte list" where
  "OID_SHA256_RSA = [0x2A, 0x86, 0x48, 0x86, 0xF7, 0x0D, 0x01, 0x01, 0x0B]"

definition OID_SHA384_RSA :: "byte list" where
  "OID_SHA384_RSA = [0x2A, 0x86, 0x48, 0x86, 0xF7, 0x0D, 0x01, 0x01, 0x0C]"

definition OID_SHA512_RSA :: "byte list" where
  "OID_SHA512_RSA = [0x2A, 0x86, 0x48, 0x86, 0xF7, 0x0D, 0x01, 0x01, 0x0D]"

definition OID_ECDSA_SHA256 :: "byte list" where
  "OID_ECDSA_SHA256 = [0x2A, 0x86, 0x48, 0xCE, 0x3D, 0x04, 0x03, 0x02]"

definition OID_ECDSA_SHA384 :: "byte list" where
  "OID_ECDSA_SHA384 = [0x2A, 0x86, 0x48, 0xCE, 0x3D, 0x04, 0x03, 0x03]"

definition OID_ECDSA_SHA512 :: "byte list" where
  "OID_ECDSA_SHA512 = [0x2A, 0x86, 0x48, 0xCE, 0x3D, 0x04, 0x03, 0x04]"

definition OID_RSA_ENCRYPTION :: "byte list" where
  "OID_RSA_ENCRYPTION = [0x2A, 0x86, 0x48, 0x86, 0xF7, 0x0D, 0x01, 0x01, 0x01]"

definition OID_EC_PUBLIC_KEY :: "byte list" where
  "OID_EC_PUBLIC_KEY = [0x2A, 0x86, 0x48, 0xCE, 0x3D, 0x02, 0x01]"

definition OID_SECP256R1 :: "byte list" where
  "OID_SECP256R1 = [0x2A, 0x86, 0x48, 0xCE, 0x3D, 0x03, 0x01, 0x07]"

definition OID_SECP384R1 :: "byte list" where
  "OID_SECP384R1 = [0x2B, 0x81, 0x04, 0x00, 0x22]"

definition OID_SECP521R1 :: "byte list" where
  "OID_SECP521R1 = [0x2B, 0x81, 0x04, 0x00, 0x23]"

definition OID_ED25519 :: "byte list" where
  "OID_ED25519 = [0x2B, 0x65, 0x70]"

definition OID_ED448 :: "byte list" where
  "OID_ED448 = [0x2B, 0x65, 0x71]"

definition OID_ML_DSA_44 :: "byte list" where
  "OID_ML_DSA_44 = [0x60, 0x86, 0x48, 0x01, 0x65, 0x03, 0x04, 0x03, 0x11]"

definition OID_ML_DSA_65 :: "byte list" where
  "OID_ML_DSA_65 = [0x60, 0x86, 0x48, 0x01, 0x65, 0x03, 0x04, 0x03, 0x12]"

definition OID_ML_DSA_87 :: "byte list" where
  "OID_ML_DSA_87 = [0x60, 0x86, 0x48, 0x01, 0x65, 0x03, 0x04, 0x03, 0x13]"

definition oid_eq :: "byte list \<Rightarrow> byte list \<Rightarrow> bool" where
  "oid_eq a b \<longleftrightarrow> length a = length b \<and> take (length a) b = a"

lemma oid_eq_iff [simp]: "oid_eq a b \<longleftrightarrow> a = b"
  by (auto simp: oid_eq_def)

section \<open>Hints\<close>

definition sigalg_hint :: "int \<Rightarrow> int \<Rightarrow> WolfCertCsrAttrs \<Rightarrow> WolfCertCsrAttrs" where
  "sigalg_hint hash kt out = out\<lparr>ca_preferred_hash := hash, ca_preferred_key_type := kt\<rparr>"

definition apply_sigalg :: "WolfCertCsrAttrs \<Rightarrow> byte list \<Rightarrow> WolfCertCsrAttrs" where
  "apply_sigalg out oid =
     (if oid_eq oid OID_SHA256_RSA then sigalg_hint 256 WOLFCERT_KEY_RSA out
      else if oid_eq oid OID_SHA384_RSA then sigalg_hint 384 WOLFCERT_KEY_RSA out
      else if oid_eq oid OID_SHA512_RSA then sigalg_hint 512 WOLFCERT_KEY_RSA out
      else if oid_eq oid OID_ECDSA_SHA256 then sigalg_hint 256 WOLFCERT_KEY_ECC out
      else if oid_eq oid OID_ECDSA_SHA384 then sigalg_hint 384 WOLFCERT_KEY_ECC out
      else if oid_eq oid OID_ECDSA_SHA512 then sigalg_hint 512 WOLFCERT_KEY_ECC out
      else if oid_eq oid OID_ED25519 then out\<lparr>ca_preferred_key_type := WOLFCERT_KEY_ED25519\<rparr>
      else if oid_eq oid OID_ED448 then out\<lparr>ca_preferred_key_type := WOLFCERT_KEY_ED448\<rparr>
      else if oid_eq oid OID_ML_DSA_44 then out\<lparr>ca_preferred_key_type := WOLFCERT_KEY_MLDSA44\<rparr>
      else if oid_eq oid OID_ML_DSA_65 then out\<lparr>ca_preferred_key_type := WOLFCERT_KEY_MLDSA65\<rparr>
      else if oid_eq oid OID_ML_DSA_87 then out\<lparr>ca_preferred_key_type := WOLFCERT_KEY_MLDSA87\<rparr>
      else out)"

definition apply_pubkey_values :: "WolfCertCsrAttrs \<Rightarrow> int \<Rightarrow> byte list \<Rightarrow> WolfCertCsrAttrs" where
  "apply_pubkey_values out0 key_type vals =
     (let out = out0\<lparr>ca_preferred_key_type := key_type\<rparr> in
      if key_type \<noteq> WOLFCERT_KEY_ECC \<or> vals = [] then out
      else case der_take_tl vals of
             Inl rc \<Rightarrow> out
           | Inr (tag, len, hdr) \<Rightarrow>
               let oid = take len (drop hdr vals) in
               if tag \<noteq> 0x06 then out
               else if oid_eq oid OID_SECP256R1 then out\<lparr>ca_preferred_ecc_curve_bits := 256\<rparr>
               else if oid_eq oid OID_SECP384R1 then out\<lparr>ca_preferred_ecc_curve_bits := 384\<rparr>
               else if oid_eq oid OID_SECP521R1 then out\<lparr>ca_preferred_ecc_curve_bits := 521\<rparr>
               else out)"

definition classify :: "WolfCertCsrAttrs \<Rightarrow> WolfCertCsrAttrItem \<Rightarrow> WolfCertCsrAttrs" where
  "classify out it =
     (if oid_eq (it_oid it) OID_CHALLENGE_PASSWORD then out\<lparr>ca_require_challenge_password := True\<rparr>
      else if oid_eq (it_oid it) OID_EXTENSION_REQUEST then out\<lparr>ca_require_extension_request := True\<rparr>
      else if oid_eq (it_oid it) OID_RSA_ENCRYPTION then apply_pubkey_values out WOLFCERT_KEY_RSA (it_values it)
      else if oid_eq (it_oid it) OID_EC_PUBLIC_KEY then apply_pubkey_values out WOLFCERT_KEY_ECC (it_values it)
      else apply_sigalg out (it_oid it))"

section \<open>Decoding\<close>

definition wolfcert_csr_attrs_free :: WolfCertCsrAttrs where
  "wolfcert_csr_attrs_free = \<lparr>ca_items = [], ca_require_challenge_password = False,
     ca_require_extension_request = False, ca_preferred_hash = 0, ca_preferred_key_type = 0,
     ca_preferred_rsa_bits = 0, ca_preferred_ecc_curve_bits = 0\<rparr>"

lemma der_take_tl_bounds [wc_len]:
  "der_take_tl p = Inr (tag, len, hdr) \<Longrightarrow> 2 \<le> hdr \<and> hdr + len \<le> length p"
  using der_read_tlv_bounds [of p hdr tag len] by (auto simp: der_take_tl_read split: option.splits)

text \<open>The first pass counts the elements of the outer SEQUENCE, the rest of which is \<open>scan\<close>.\<close>

function csr_attrs_count :: "byte list \<Rightarrow> nat \<Rightarrow> nat wc_result" where
  "csr_attrs_count scan n =
     (if scan \<noteq> [] then
        (case der_take_tl scan of
           Inl rc \<Rightarrow> Err rc
         | Inr (t, l, h) \<Rightarrow>
             if t \<noteq> 0x06 \<and> t \<noteq> 0x30 then Err WOLFCERT_ERR_PARSE
             else csr_attrs_count (drop (h + l) scan) (Suc n))
      else Ok n)"
  by pat_completeness auto
termination
  by (relation "measure (\<lambda>(scan, n). length scan)") (auto dest!: der_take_tl_bounds)

declare csr_attrs_count.simps [simp del]

definition attr_item :: "byte \<Rightarrow> byte list \<Rightarrow> WolfCertCsrAttrItem wc_result" where
  "attr_item t inner =
     (if t = 0x06 then Ok \<lparr>it_kind = WOLFCERT_CSRATTR_BARE_OID, it_oid = inner, it_values = []\<rparr>
      else
        (case der_take_tl inner of
           Inl rc \<Rightarrow> Err rc
         | Inr (ot, olen, ohdr) \<Rightarrow>
             if ot \<noteq> 0x06 then Err WOLFCERT_ERR_PARSE
             else if length inner - (ohdr + olen) = 0 then Err WOLFCERT_ERR_PARSE
             else
               (case der_take_tl (drop (ohdr + olen) inner) of
                  Inl rc \<Rightarrow> Err rc
                | Inr (st, slen, shdr) \<Rightarrow>
                    if st \<noteq> 0x31 \<or> slen = 0 then Err WOLFCERT_ERR_PARSE
                    else Ok \<lparr>it_kind = WOLFCERT_CSRATTR_ATTRIBUTE, it_oid = take olen (drop ohdr inner),
                             it_values = take slen (drop shdr (drop (ohdr + olen) inner))\<rparr>)))"

function csr_attrs_loop :: "byte list \<Rightarrow> WolfCertCsrAttrs \<Rightarrow> WolfCertCsrAttrs wc_result" where
  "csr_attrs_loop p out =
     (if p \<noteq> [] then
        (case der_take_tl p of
           Inl rc \<Rightarrow> Err rc
         | Inr (t, l, h) \<Rightarrow>
             (case attr_item t (take l (drop h p)) of
                Inl rc \<Rightarrow> Err rc
              | Inr it \<Rightarrow>
                  csr_attrs_loop (drop (h + l) p) (classify (out\<lparr>ca_items := ca_items out @ [it]\<rparr>) it)))
      else Ok out)"
  by pat_completeness auto
termination
  by (relation "measure (\<lambda>(p, out). length p)") (auto dest!: der_take_tl_bounds)

declare csr_attrs_loop.simps [simp del]

text \<open>The allocations are the copy of the input (0) and the item array (1), the latter if there are items.\<close>

definition wolfcert_est_parse_csr_attrs :: "mem \<Rightarrow> byte list \<Rightarrow> WolfCertCsrAttrs wc_result" where
  "wolfcert_est_parse_csr_attrs mem der =
     (if der = [] then Ok wolfcert_csr_attrs_free
      else if \<not> mem 0 then Err WOLFCERT_ERR_MEMORY
      else
        (case der_take_tl der of
           Inl rc \<Rightarrow> Err rc
         | Inr (tag, len, hdr) \<Rightarrow>
             if tag \<noteq> 0x30 then Err WOLFCERT_ERR_PARSE
             else if hdr + len > length der then Err WOLFCERT_ERR_PARSE
             else
               (case csr_attrs_count (take len (drop hdr der)) 0 of
                  Inl rc \<Rightarrow> Err rc
                | Inr n \<Rightarrow>
                    if n > 0 \<and> \<not> mem 1 then Err WOLFCERT_ERR_MEMORY
                    else csr_attrs_loop (take len (drop hdr der)) wolfcert_csr_attrs_free)))"

fun csr_attrs_find :: "WolfCertCsrAttrItem list \<Rightarrow> byte list \<Rightarrow> WolfCertCsrAttrItem option" where
  "csr_attrs_find [] oid = None"
| "csr_attrs_find (it # its) oid = (if it_oid it = oid then Some it else csr_attrs_find its oid)"

definition wolfcert_csr_attrs_find :: "WolfCertCsrAttrs \<Rightarrow> byte list \<Rightarrow> WolfCertCsrAttrItem option" where
  "wolfcert_csr_attrs_find a oid = csr_attrs_find (ca_items a) oid"

section \<open>Encoding\<close>

text \<open>The lengths are cast to \<open>word32\<close>.\<close>

abbreviation set_len32 :: "(nat \<Rightarrow> byte list) \<Rightarrow> nat \<Rightarrow> byte list" where
  "set_len32 set_length n \<equiv> set_length (n mod 2 ^ 32)"

definition item_tlv :: "(nat \<Rightarrow> byte list) \<Rightarrow> nat \<Rightarrow> nat" where
  "item_tlv set_length n = 1 + length (set_len32 set_length n) + n"

definition item_size :: "(nat \<Rightarrow> byte list) \<Rightarrow> WolfCertCsrAttrItem \<Rightarrow> nat" where
  "item_size set_length it =
     (if it_kind it = WOLFCERT_CSRATTR_BARE_OID then item_tlv set_length (length (it_oid it))
      else item_tlv set_length (item_tlv set_length (length (it_oid it)) + item_tlv set_length (length (it_values it))))"

definition write_item :: "(nat \<Rightarrow> byte list) \<Rightarrow> WolfCertCsrAttrItem \<Rightarrow> byte list" where
  "write_item set_length it =
     (let oid = 0x06 # set_len32 set_length (length (it_oid it)) @ it_oid it in
      if it_kind it = WOLFCERT_CSRATTR_BARE_OID then oid
      else let body = item_tlv set_length (length (it_oid it)) + item_tlv set_length (length (it_values it)) in
           0x30 # set_len32 set_length body @ oid @
           0x31 # set_len32 set_length (length (it_values it)) @ it_values it)"

definition wolfcert_csr_attrs_build :: "(nat \<Rightarrow> byte list) \<Rightarrow> mem \<Rightarrow> WolfCertCsrAttrItem list \<Rightarrow> byte list wc_result" where
  "wolfcert_csr_attrs_build set_length mem items =
     (if \<not> list_all (\<lambda>it. it_oid it \<noteq> [] \<and> (it_kind it = WOLFCERT_CSRATTR_ATTRIBUTE \<longrightarrow> it_values it \<noteq> [])) items
      then Err WOLFCERT_ERR_BAD_ARG
      else let body = sum_list (map (item_size set_length) items) in
           if \<not> mem 0 then Err WOLFCERT_ERR_MEMORY
           else Ok (0x30 # set_len32 set_length body @ concat (map (write_item set_length) items)))"

section \<open>Applying the hints\<close>

definition ecc_param_for_bits :: "int \<Rightarrow> int" where
  "ecc_param_for_bits bits = (if bits = 256 then 256 else if bits = 384 then 384 else if bits = 521 then 521 else 0)"

definition apply_key_hint :: "WolfCertCsrAttrs \<Rightarrow> WolfCertKeyCfg \<Rightarrow> WolfCertKeyCfg" where
  "apply_key_hint attrs k =
     (if kc_type k = 0 \<and> ca_preferred_key_type attrs \<noteq> 0 then
        let k1 = k\<lparr>kc_type := ca_preferred_key_type attrs\<rparr> in
        if kc_param k = 0 then
          (if ca_preferred_key_type attrs = WOLFCERT_KEY_RSA
           then k1\<lparr>kc_param := (if ca_preferred_rsa_bits attrs > 0 then ca_preferred_rsa_bits attrs else 2048)\<rparr>
           else if ca_preferred_key_type attrs = WOLFCERT_KEY_ECC
           then let p = ecc_param_for_bits (ca_preferred_ecc_curve_bits attrs)
                in k1\<lparr>kc_param := (if p \<noteq> 0 then p else 256)\<rparr>
           else k1)
        else k1
      else k)"

definition key_supported :: "key_build \<Rightarrow> int \<Rightarrow> bool" where
  "key_supported build t \<longleftrightarrow>
     \<not> (t = WOLFCERT_KEY_ED25519 \<and> \<not> kb_ed25519 build \<or> t = WOLFCERT_KEY_ED448 \<and> \<not> kb_ed448 build \<or>
        t \<in> {WOLFCERT_KEY_MLDSA44, WOLFCERT_KEY_MLDSA65, WOLFCERT_KEY_MLDSA87} \<and> \<not> kb_mldsa build)"

text \<open>\<open>meta\<close> is \<open>meta->preferred_hash\<close>; either pointer may be \<open>NULL\<close>.\<close>

definition wolfcert_csr_attrs_apply ::
  "key_build \<Rightarrow> WolfCertCsrAttrs \<Rightarrow> WolfCertKeyCfg option \<Rightarrow> int option \<Rightarrow> wc_rc \<times> WolfCertKeyCfg option \<times> int option" where
  "wolfcert_csr_attrs_apply build attrs key_cfg meta =
     (let k = map_option (apply_key_hint attrs) key_cfg;
          m = map_option (\<lambda>h. if h = 0 \<and> ca_preferred_hash attrs \<noteq> 0 then ca_preferred_hash attrs else h) meta
      in (case k of Some kc \<Rightarrow> if key_supported build (kc_type kc) then WOLFCERT_OK else WOLFCERT_ERR_UNSUPPORTED
          | None \<Rightarrow> WOLFCERT_OK, k, m))"

section \<open>Dotted OIDs\<close>

text \<open>
  \<open>snprintf\<close> at \<open>off\<close> into a buffer of \<open>cap\<close> bytes: the text so far is extended as far as it fits,
  and the offset grows by the full length of the addition.
\<close>

definition put_text :: "nat \<Rightarrow> nat \<times> cstring \<Rightarrow> cstring \<Rightarrow> nat \<times> cstring" where
  "put_text cap st add = (case st of (off, out) \<Rightarrow> (off + length add, take (cap - 1) (out @ add)))"

fun dotted_loop :: "nat \<Rightarrow> byte list \<Rightarrow> nat \<Rightarrow> nat \<times> cstring \<Rightarrow> nat \<times> cstring" where
  "dotted_loop cap [] n st = st"
| "dotted_loop cap (b # bs) n st =
     (if fst st + 16 < cap then
        let n' = (n * 128 + low7 b) mod 2 ^ 64 in
        if \<not> hi_bit b then dotted_loop cap bs 0 (put_text cap st (b_dot # nat_text n'))
        else dotted_loop cap bs n' st
      else st)"

definition wolfcert_oid_to_dotted :: "byte list \<Rightarrow> nat \<Rightarrow> nat \<times> cstring" where
  "wolfcert_oid_to_dotted oid cap =
     (if oid = [] then (0, [])
      else let b = unat (oid ! 0);
               first = (if b < 80 then b div 40 else 2);
               second = (if b < 80 then b mod 40 else b - 80)
           in dotted_loop cap (drop 1 oid) 0 (put_text cap (0, []) (nat_text first @ b_dot # nat_text second)))"

section \<open>Decoding what was encoded\<close>

definition set_length_ok :: "(nat \<Rightarrow> byte list) \<Rightarrow> bool" where
  "set_length_ok set_length \<longleftrightarrow> (\<forall>n<2 ^ 32. set_length n = der_len n)"

lemma der_take_tl_tlv:
  "length v < 2 ^ 32 \<Longrightarrow> der_take_tl (tlv tag v @ rest) = Ok (tag, length v, 1 + length (der_len (length v)))"
  by (simp add: der_take_tl_read der_read_tlv_tlv)

lemma tlv_parts:
  "take (length v) (drop (1 + length (der_len (length v))) (tlv tag v @ rest)) = v"
  "drop (1 + length (der_len (length v)) + length v) (tlv tag v @ rest) = rest"
  by (simp_all add: tlv_def)

lemma tlv_not_Nil: "tlv tag v @ rest \<noteq> []"
  by (simp add: tlv_def)

lemma tlv_length: "length (tlv tag v) = 1 + length (der_len (length v)) + length v"
  by (simp add: tlv_def)

text \<open>The element an item is encoded as.\<close>

definition item_elem :: "WolfCertCsrAttrItem \<Rightarrow> byte \<times> byte list" where
  "item_elem it =
     (if it_kind it = WOLFCERT_CSRATTR_BARE_OID then (0x06, it_oid it)
      else (0x30, tlv 0x06 (it_oid it) @ tlv 0x31 (it_values it)))"

definition item_wf :: "WolfCertCsrAttrItem \<Rightarrow> bool" where
  "item_wf it \<longleftrightarrow> it_oid it \<noteq> [] \<and> (it_values it = [] \<longleftrightarrow> it_kind it = WOLFCERT_CSRATTR_BARE_OID)"

lemma write_item_elem:
  assumes "set_length_ok set_length" "length (snd (item_elem it)) < 2 ^ 32"
  shows "write_item set_length it = tlv (fst (item_elem it)) (snd (item_elem it))"
    "item_size set_length it = length (tlv (fst (item_elem it)) (snd (item_elem it)))"
proof -
  have sl: "set_length n = der_len n" if "n < 2 ^ 32" for n using assms(1) that by (simp add: set_length_ok_def)
  have small: "it_kind it \<noteq> WOLFCERT_CSRATTR_BARE_OID \<Longrightarrow> length (it_oid it) < 2 ^ 32 \<and> length (it_values it) < 2 ^ 32"
    using assms(2) by (simp add: item_elem_def tlv_length)
  have bare: "it_kind it = WOLFCERT_CSRATTR_BARE_OID \<Longrightarrow> length (it_oid it) < 2 ^ 32"
    using assms(2) by (simp add: item_elem_def)
  have body: "it_kind it \<noteq> WOLFCERT_CSRATTR_BARE_OID \<Longrightarrow>
      item_tlv set_length (length (it_oid it)) + item_tlv set_length (length (it_values it)) = length (snd (item_elem it))"
    using small by (simp add: item_tlv_def sl item_elem_def tlv_length)
  show "write_item set_length it = tlv (fst (item_elem it)) (snd (item_elem it))"
  proof (cases "it_kind it = WOLFCERT_CSRATTR_BARE_OID")
    case True
    then show ?thesis using bare by (simp add: write_item_def Let_def item_elem_def tlv_def sl)
  next
    case False
    then show ?thesis using small body assms(2) by (simp add: write_item_def Let_def tlv_def sl) (simp add: item_elem_def tlv_def)
  qed
  show "item_size set_length it = length (tlv (fst (item_elem it)) (snd (item_elem it)))"
  proof (cases "it_kind it = WOLFCERT_CSRATTR_BARE_OID")
    case True
    then show ?thesis using bare by (simp add: item_size_def item_elem_def item_tlv_def tlv_length sl)
  next
    case False
    then have "item_size set_length it = item_tlv set_length (length (snd (item_elem it)))" using body by (simp add: item_size_def)
    then show ?thesis using assms(2) by (simp add: item_tlv_def tlv_length sl)
  qed
qed

lemma attr_item_elem:
  assumes "item_wf it" "length (snd (item_elem it)) < 2 ^ 32"
  shows "attr_item (fst (item_elem it)) (snd (item_elem it)) = Ok it"
proof (cases "it_kind it = WOLFCERT_CSRATTR_BARE_OID")
  case True
  then show ?thesis using assms(1) by (cases it) (simp add: attr_item_def item_elem_def item_wf_def)
next
  case False
  let ?o = "it_oid it" and ?v = "it_values it"
  have v: "?v \<noteq> []" "it_kind it = WOLFCERT_CSRATTR_ATTRIBUTE"
    using assms(1) False by (cases "it_kind it"; simp add: item_wf_def)+
  have len: "length ?o < 2 ^ 32" "length ?v < 2 ^ 32" using assms(2) False by (simp_all add: item_elem_def tlv_length)
  note t1 = der_take_tl_tlv [OF len(1), of "0x06" "tlv 0x31 ?v"]
  note t2 = der_take_tl_tlv [OF len(2), of "0x31" "[]"]
  have nz: "length (tlv 0x06 ?o @ tlv 0x31 ?v) - (1 + length (der_len (length ?o)) + length ?o) \<noteq> 0"
    by (simp add: tlv_length)
  have e: "item_elem it = (0x30, tlv 0x06 ?o @ tlv 0x31 ?v)" using False by (simp add: item_elem_def)
  show ?thesis
    unfolding attr_item_def e fst_conv snd_conv
    using t1 t2 nz v tlv_parts [of ?o "0x06" "tlv 0x31 ?v"] tlv_parts(1) [of ?v "0x31" "[]"]
    by (cases it) (simp del: take_append drop_append length_append)
qed

definition items_der :: "WolfCertCsrAttrItem list \<Rightarrow> byte list" where
  "items_der items = concat (map (\<lambda>it. tlv (fst (item_elem it)) (snd (item_elem it))) items)"

definition items_small :: "WolfCertCsrAttrItem list \<Rightarrow> bool" where
  "items_small items \<longleftrightarrow> list_all (\<lambda>it. length (snd (item_elem it)) < 2 ^ 32) items"

lemma items_der_Cons: "items_der (it # items) = tlv (fst (item_elem it)) (snd (item_elem it)) @ items_der items"
  by (simp add: items_der_def)

lemma count_items:
  "items_small items \<Longrightarrow> csr_attrs_count (items_der items) n = Ok (n + length items)"
proof (induction items arbitrary: n)
  case Nil
  then show ?case by (subst csr_attrs_count.simps) (simp add: items_der_def)
next
  case (Cons it items)
  have l: "length (snd (item_elem it)) < 2 ^ 32" using Cons.prems by (simp add: items_small_def)
  have t: "fst (item_elem it) = 0x06 \<or> fst (item_elem it) = 0x30" by (simp add: item_elem_def)
  have "csr_attrs_count (items_der (it # items)) n = csr_attrs_count (items_der items) (Suc n)"
    unfolding items_der_Cons
    using der_take_tl_tlv [OF l, of "fst (item_elem it)" "items_der items"] t tlv_not_Nil
      tlv_parts(2) [of "snd (item_elem it)" "fst (item_elem it)" "items_der items"]
    by (subst csr_attrs_count.simps) (auto simp del: drop_append append_is_Nil_conv)
  then show ?case using Cons by (simp add: items_small_def)
qed

lemma loop_items:
  "items_small items \<Longrightarrow> list_all item_wf items \<Longrightarrow>
   csr_attrs_loop (items_der items) out =
     Ok (foldl (\<lambda>o' it. classify (o'\<lparr>ca_items := ca_items o' @ [it]\<rparr>) it) out items)"
proof (induction items arbitrary: out)
  case Nil
  then show ?case by (subst csr_attrs_loop.simps) (simp add: items_der_def)
next
  case (Cons it items)
  have l: "length (snd (item_elem it)) < 2 ^ 32" using Cons.prems by (simp add: items_small_def)
  have a: "attr_item (fst (item_elem it)) (snd (item_elem it)) = Ok it" using attr_item_elem [OF _ l] Cons.prems by simp
  have "csr_attrs_loop (items_der (it # items)) out =
      csr_attrs_loop (items_der items) (classify (out\<lparr>ca_items := ca_items out @ [it]\<rparr>) it)"
    unfolding items_der_Cons
    using der_take_tl_tlv [OF l, of "fst (item_elem it)" "items_der items"] a tlv_not_Nil
      tlv_parts [of "snd (item_elem it)" "fst (item_elem it)" "items_der items"]
    by (subst csr_attrs_loop.simps) (auto simp del: drop_append take_append append_is_Nil_conv)
  then show ?case using Cons by (simp add: items_small_def)
qed

lemma apply_sigalg_items: "ca_items (apply_sigalg out oid) = ca_items out"
  unfolding apply_sigalg_def sigalg_hint_def by (simp split: if_split)

lemma apply_pubkey_items: "ca_items (apply_pubkey_values out kt vals) = ca_items out"
proof (cases "der_take_tl vals")
  case (Inl rc)
  then show ?thesis by (simp add: apply_pubkey_values_def Let_def)
next
  case (Inr r)
  obtain tag len hdr where "r = (tag, len, hdr)" by (rule prod_cases3)
  then show ?thesis using Inr by (simp add: apply_pubkey_values_def Let_def)
qed

lemma classify_items: "ca_items (classify out it) = ca_items out"
  by (simp add: classify_def apply_pubkey_items apply_sigalg_items)

lemma foldl_classify_items:
  "ca_items (foldl (\<lambda>o' it. classify (o'\<lparr>ca_items := ca_items o' @ [it]\<rparr>) it) out items) = ca_items out @ items"
  by (induction items arbitrary: out) (simp_all add: classify_items)

text \<open>
  C35. Encoding and decoding are inverse: for items with an OID, and values exactly for attributes,
  whose encoding is below 4 GiB, \<open>wolfcert_csr_attrs_build\<close> gives a structure that
  \<open>wolfcert_est_parse_csr_attrs\<close> decodes to the same items, in order, with the hints of each item
  applied in turn, whatever follows the structure.
\<close>

theorem csr_attrs_build_parse:
  assumes "set_length_ok set_length" "list_all item_wf items" "length (items_der items) < 2 ^ 32"
    and "wolfcert_csr_attrs_build set_length mem items = Ok der"
  shows "\<exists>a. wolfcert_est_parse_csr_attrs (\<lambda>k. True) (der @ trailing) = Ok a \<and> ca_items a = items \<and>
    a = foldl (\<lambda>o' it. classify (o'\<lparr>ca_items := ca_items o' @ [it]\<rparr>) it) wolfcert_csr_attrs_free items"
proof -
  have elem: "length (tlv (fst (item_elem it)) (snd (item_elem it))) \<le> length (items_der items)" if "it \<in> set items" for it
    using that unfolding items_der_def by (induction items) auto
  have sm: "items_small items"
    unfolding items_small_def list_all_iff
  proof
    fix it assume "it \<in> set items"
    then show "length (snd (item_elem it)) < 2 ^ 32" using elem [of it] assms(3) by (simp add: tlv_length)
  qed
  have w: "map (write_item set_length) items = map (\<lambda>it. tlv (fst (item_elem it)) (snd (item_elem it))) items"
    "map (item_size set_length) items = map length (map (\<lambda>it. tlv (fst (item_elem it)) (snd (item_elem it))) items)"
    using sm write_item_elem [OF assms(1)] by (simp_all add: items_small_def list_all_iff)
  have b: "sum_list (map (item_size set_length) items) = length (items_der items)"
    unfolding w(2) items_der_def by (simp add: length_concat)
  have "der = 0x30 # set_len32 set_length (length (items_der items)) @ items_der items"
    using assms(4) unfolding wolfcert_csr_attrs_build_def Let_def b w(1) items_der_def [symmetric] by (simp split: if_splits)
  then have der: "der = tlv 0x30 (items_der items)" using assms(1,3) by (simp add: tlv_def set_length_ok_def)
  have p: "wolfcert_est_parse_csr_attrs (\<lambda>k. True) (der @ trailing) = csr_attrs_loop (items_der items) wolfcert_csr_attrs_free"
    unfolding der wolfcert_est_parse_csr_attrs_def
    using der_take_tl_tlv [OF assms(3), of "0x30" trailing] tlv_parts(1) [of "items_der items" "0x30" trailing] count_items [OF sm, of 0]
      der_take_tl_bounds [OF der_take_tl_tlv [OF assms(3), of "0x30" trailing]] tlv_not_Nil [of "0x30" "items_der items" trailing]
    by (auto simp del: take_append drop_append append_is_Nil_conv length_append)
  then show ?thesis using loop_items [OF sm assms(2)] foldl_classify_items [of wolfcert_csr_attrs_free items]
    by (simp add: wolfcert_csr_attrs_free_def)
qed

definition sample_items :: "WolfCertCsrAttrItem list" where
  "sample_items = [\<lparr>it_kind = WOLFCERT_CSRATTR_BARE_OID, it_oid = OID_CHALLENGE_PASSWORD, it_values = []\<rparr>,
     \<lparr>it_kind = WOLFCERT_CSRATTR_ATTRIBUTE, it_oid = OID_EC_PUBLIC_KEY, it_values = tlv 0x06 OID_SECP384R1\<rparr>]"

theorem csr_attrs_build_parse_witness:
  "\<exists>der a. wolfcert_csr_attrs_build der_len (\<lambda>k. True) sample_items = Ok der \<and>
     wolfcert_est_parse_csr_attrs (\<lambda>k. True) (der @ [0]) = Ok a \<and> ca_items a = sample_items \<and>
     ca_preferred_ecc_curve_bits (foldl (\<lambda>o' it. classify (o'\<lparr>ca_items := ca_items o' @ [it]\<rparr>) it)
       wolfcert_csr_attrs_free sample_items) = 384"
proof -
  have s: "set_length_ok der_len" by (simp add: set_length_ok_def)
  have wf: "list_all item_wf sample_items" by code_simp
  have l: "length (items_der sample_items) < 2 ^ 32" by code_simp
  have "case wolfcert_csr_attrs_build der_len (\<lambda>k. True) sample_items of Inl rc \<Rightarrow> False | Inr der \<Rightarrow> True" by code_simp
  then obtain der where d: "wolfcert_csr_attrs_build der_len (\<lambda>k. True) sample_items = Ok der" by (auto split: sum.splits)
  have "ca_preferred_ecc_curve_bits (foldl (\<lambda>o' it. classify (o'\<lparr>ca_items := ca_items o' @ [it]\<rparr>) it)
       wolfcert_csr_attrs_free sample_items) = 384" by code_simp
  then show ?thesis using d csr_attrs_build_parse [OF s wf l d, of "[0]"] by blast
qed



section \<open>What a dotted OID denotes\<close>

text \<open>The encoding of an arc: base 128, most significant first, the top bit set on all but the last byte.\<close>

function arc_high :: "nat \<Rightarrow> byte list" where
  "arc_high n = (if n = 0 then [] else arc_high (n div 128) @ [nat_byte (128 + n mod 128)])"
  by pat_completeness auto
termination
  by (relation "measure id") auto

declare arc_high.simps [simp del]

definition arc_der :: "nat \<Rightarrow> byte list" where
  "arc_der n = arc_high (n div 128) @ [nat_byte (n mod 128)]"

definition oid_der :: "nat \<Rightarrow> nat \<Rightarrow> nat list \<Rightarrow> byte list" where
  "oid_der a b arcs = arc_der (40 * a + b) @ concat (map arc_der arcs)"

definition oid_text :: "nat \<Rightarrow> nat \<Rightarrow> nat list \<Rightarrow> cstring" where
  "oid_text a b arcs = nat_text a @ b_dot # nat_text b @ concat (map (\<lambda>n. b_dot # nat_text n) arcs)"

lemma arc_byte:
  "r < 128 \<Longrightarrow> hi_bit (nat_byte (128 + r)) \<and> low7 (nat_byte (128 + r)) = r"
  "r < 128 \<Longrightarrow> \<not> hi_bit (nat_byte r) \<and> low7 (nat_byte r) = r"
  by (simp_all add: hi_bit_def low7_def unat_nat_byte)

lemma dotted_arc_high:
  "fst st + 16 < cap \<Longrightarrow> n < 2 ^ 64 \<Longrightarrow> dotted_loop cap (arc_high n @ bs) 0 st = dotted_loop cap bs n st"
proof (induction n arbitrary: bs rule: arc_high.induct)
  case (1 n)
  show ?case
  proof (cases "n = 0")
    case True
    then show ?thesis by (simp add: arc_high.simps)
  next
    case False
    have "n div 128 < 2 ^ 64" using 1(3) by simp
    then show ?thesis
      using 1(1) [OF False 1(2)] 1(2,3) arc_byte(1) [of "n mod 128"] False
      by (simp add: arc_high.simps [of n] Let_def)
  qed
qed

lemma dotted_arc:
  assumes "fst st + 16 < cap" "n < 2 ^ 64"
  shows "dotted_loop cap (arc_der n @ bs) 0 st = dotted_loop cap bs 0 (put_text cap st (b_dot # nat_text n))"
proof -
  have "n div 128 < 2 ^ 64" using assms(2) by simp
  then show ?thesis
    using dotted_arc_high [OF assms(1), of "n div 128" "nat_byte (n mod 128) # bs"] assms arc_byte(2) [of "n mod 128"]
    by (simp add: arc_der_def Let_def)
qed

lemma put_text_fits: "length (out @ add) < cap \<Longrightarrow> put_text cap (length out, out) add = (length (out @ add), out @ add)"
  by (simp add: put_text_def)

lemma dotted_arcs:
  "length (out @ concat (map (\<lambda>n. b_dot # nat_text n) arcs)) + 16 < cap \<Longrightarrow> list_all (\<lambda>n. n < 2 ^ 64) arcs \<Longrightarrow>
   dotted_loop cap (concat (map arc_der arcs)) 0 (length out, out) =
     (length (out @ concat (map (\<lambda>n. b_dot # nat_text n) arcs)), out @ concat (map (\<lambda>n. b_dot # nat_text n) arcs))"
proof (induction arcs arbitrary: out)
  case Nil
  then show ?case by simp
next
  case (Cons n arcs)
  have "dotted_loop cap (concat (map arc_der (n # arcs))) 0 (length out, out) =
      dotted_loop cap (concat (map arc_der arcs)) 0 (length (out @ b_dot # nat_text n), out @ b_dot # nat_text n)"
    using Cons.prems dotted_arc [of "(length out, out)" cap n] put_text_fits [of out "b_dot # nat_text n" cap] by simp
  then show ?case using Cons.IH [of "out @ b_dot # nat_text n"] Cons.prems by simp
qed

text \<open>
  C37. The dotted form of an OID is right: where the first two arcs fit one byte and each further arc
  64 bits, \<open>wolfcert_oid_to_dotted\<close> writes the arcs in decimal with dots between, and returns the
  length of that text, given a buffer with room for it and sixteen bytes more.
\<close>

theorem oid_to_dotted_text:
  assumes "a \<le> 2" "a < 2 \<longrightarrow> b < 40" "40 * a + b < 128" "list_all (\<lambda>n. n < 2 ^ 64) arcs"
    and "length (oid_text a b arcs) + 16 < cap"
  shows "wolfcert_oid_to_dotted (oid_der a b arcs) cap = (length (oid_text a b arcs), oid_text a b arcs)"
proof -
  have e: "oid_der a b arcs = nat_byte (40 * a + b) # concat (map arc_der arcs)"
    using assms(3) by (simp add: oid_der_def arc_der_def arc_high.simps)
  have u: "unat (nat_byte (40 * a + b)) = 40 * a + b" using assms(3) by (simp add: unat_nat_byte)
  have ab: "(if 40 * a + b < 80 then (40 * a + b) div 40 else 2) = a"
    "(if 40 * a + b < 80 then (40 * a + b) mod 40 else 40 * a + b - 80) = b"
    using assms(1,2) by (cases "a = 2"; simp)+
  have "wolfcert_oid_to_dotted (oid_der a b arcs) cap =
      dotted_loop cap (concat (map arc_der arcs)) 0 (put_text cap (length ([] :: cstring), []) (nat_text a @ b_dot # nat_text b))"
    unfolding e wolfcert_oid_to_dotted_def Let_def nth_Cons_0 u ab by simp
  then show ?thesis
    using dotted_arcs [of "nat_text a @ b_dot # nat_text b" arcs cap] assms(4,5)
      put_text_fits [of "[]" "nat_text a @ b_dot # nat_text b" cap]
    by (simp add: oid_text_def)
qed

theorem oid_to_dotted_text_witness:
  "wolfcert_oid_to_dotted OID_RSA_ENCRYPTION 128 = (20, lit ''1.2.840.113549.1.1.1'')"
proof -
  have e: "oid_der 1 2 [840, 113549, 1, 1, 1] = OID_RSA_ENCRYPTION" by code_simp
  have t: "oid_text 1 2 [840, 113549, 1, 1, 1] = lit ''1.2.840.113549.1.1.1''" by code_simp
  have l: "length (lit ''1.2.840.113549.1.1.1'') = 20" by code_simp
  show ?thesis
    using oid_to_dotted_text [of 1 2 "[840, 113549, 1, 1, 1]" 128] unfolding e t l by simp
qed

text \<open>An OID whose first byte carries the top bit, such as 2.999, is not rendered as its arcs.\<close>

lemma oid_to_dotted_wide_first:
  "oid_der 2 999 [3] = [0x88, 0x37, 0x03]"
  "snd (wolfcert_oid_to_dotted (oid_der 2 999 [3]) 128) = lit ''2.56.55.3''"
  "oid_text 2 999 [3] = lit ''2.999.3''"
  by code_simp+

end
