(* ===== verification/Store.thy ===== *)
theory Store
  imports Key_Algs
begin

text \<open>
  The storage backends of \<open>src/store.c\<close>: files below a root directory, a list in memory, and the
  certificate and key helpers that go through the table of a backend.

  The POSIX calls are the parameter \<open>fs_env\<close>, functions of the state \<open>'w\<close> of the world. The memory
  backend keeps its entries in the order of the list and draws each allocation from the world. The
  loop that writes a file retries on \<open>EINTR\<close> and may not end, so \<open>posix_write\<close> has no result (\<open>None\<close>)
  where it runs forever.
\<close>

section \<open>The table of a backend\<close>

text \<open>\<open>so_write\<close> takes the data and the flag \<open>sensitive\<close>; \<open>'s\<close> is the state behind \<open>ctx\<close>.\<close>

record 's WolfCertStoreOps =
  so_read :: "cstring \<Rightarrow> 's \<Rightarrow> byte list wc_result \<times> 's"
  so_write :: "cstring \<Rightarrow> byte list \<Rightarrow> bool \<Rightarrow> 's \<Rightarrow> (wc_rc \<times> 's) option"
  so_remove :: "cstring \<Rightarrow> 's \<Rightarrow> wc_rc \<times> 's"

section \<open>Files\<close>

text \<open>
  Failing calls report \<open>errno\<close> where the code looks at it. \<open>fs_mkstemp\<close> returns the descriptor and the
  completed name; \<open>fs_write\<close> the return value and \<open>errno\<close>.
\<close>

record 'w fs_env =
  fs_malloc :: "'w \<Rightarrow> bool \<times> 'w"
  fs_fopen :: "cstring \<Rightarrow> 'w \<Rightarrow> (int + int) \<times> 'w"
  fs_fseek_end :: "int \<Rightarrow> 'w \<Rightarrow> int \<times> 'w"
  fs_ftell :: "int \<Rightarrow> 'w \<Rightarrow> int \<times> 'w"
  fs_rewind :: "int \<Rightarrow> 'w \<Rightarrow> 'w"
  fs_fread :: "int \<Rightarrow> nat \<Rightarrow> 'w \<Rightarrow> byte list \<times> 'w"
  fs_fclose :: "int \<Rightarrow> 'w \<Rightarrow> 'w"
  fs_mkstemp :: "cstring \<Rightarrow> 'w \<Rightarrow> (int \<times> cstring) \<times> 'w"
  fs_fchmod :: "int \<Rightarrow> nat \<Rightarrow> 'w \<Rightarrow> int \<times> 'w"
  fs_write :: "int \<Rightarrow> byte list \<Rightarrow> 'w \<Rightarrow> (int \<times> int) \<times> 'w"
  fs_fsync :: "int \<Rightarrow> 'w \<Rightarrow> int \<times> 'w"
  fs_close :: "int \<Rightarrow> 'w \<Rightarrow> int \<times> 'w"
  fs_rename :: "cstring \<Rightarrow> cstring \<Rightarrow> 'w \<Rightarrow> int \<times> 'w"
  fs_unlink :: "cstring \<Rightarrow> 'w \<Rightarrow> (int \<times> int) \<times> 'w"

abbreviation (input) ENOENT :: int where "ENOENT \<equiv> 2"
abbreviation (input) EINTR :: int where "EINTR \<equiv> 4"

definition posix_join :: "'w fs_env \<Rightarrow> cstring \<Rightarrow> cstring \<Rightarrow> 'w \<Rightarrow> cstring wc_result \<times> 'w" where
  "posix_join env root key w =
     (case fs_malloc env w of (got, w) \<Rightarrow>
        if \<not> got then (Err WOLFCERT_ERR_MEMORY, w) else (Ok (root @ b_slash # key), w))"

text \<open>The reading of an opened file, up to \<open>fclose\<close>.\<close>

definition posix_read_file :: "'w fs_env \<Rightarrow> int \<Rightarrow> 'w \<Rightarrow> byte list wc_result \<times> 'w" where
  "posix_read_file env f w =
     (case fs_fseek_end env f w of (r, w) \<Rightarrow>
        if r \<noteq> 0 then (Err WOLFCERT_ERR_IO, w)
        else case fs_ftell env f w of (len, w) \<Rightarrow>
        let w = fs_rewind env f w in
        if len < 0 then (Err WOLFCERT_ERR_IO, w)
        else case fs_malloc env w of (got, w) \<Rightarrow>
        if \<not> got then (Err WOLFCERT_ERR_MEMORY, w)
        else case fs_fread env f (nat len) w of (buf, w) \<Rightarrow>
        if length buf \<noteq> nat len then (Err WOLFCERT_ERR_IO, w) else (Ok buf, w))"

definition posix_read :: "'w fs_env \<Rightarrow> cstring \<Rightarrow> cstring \<Rightarrow> 'w \<Rightarrow> byte list wc_result \<times> 'w" where
  "posix_read env root key w =
     (case posix_join env root key w of
        (Inl rc, w) \<Rightarrow> (Err rc, w)
      | (Inr path, w) \<Rightarrow>
          (case fs_fopen env path w of
             (Inl errno, w) \<Rightarrow> (Err (if errno = ENOENT then WOLFCERT_ERR_NOT_FOUND else WOLFCERT_ERR_IO), w)
           | (Inr f, w) \<Rightarrow> (case posix_read_file env f w of (r, w) \<Rightarrow> (r, fs_fclose env f w))))"

partial_function (option) posix_write_loop :: "'w fs_env \<Rightarrow> int \<Rightarrow> byte list \<Rightarrow> 'w \<Rightarrow> (bool \<times> 'w) option" where
  "posix_write_loop env fd data w =
     (if data = [] then Some (True, w)
      else case fs_write env fd data w of ((n, errno), w) \<Rightarrow>
             if n < 0 then (if errno = EINTR then posix_write_loop env fd data w else Some (False, w))
             else posix_write_loop env fd (drop (nat n) data) w)"

definition posix_write_fail :: "'w fs_env \<Rightarrow> int \<Rightarrow> cstring \<Rightarrow> 'w \<Rightarrow> (wc_rc \<times> 'w) option" where
  "posix_write_fail env fd tmp w =
     (case fs_close env fd w of (r, w) \<Rightarrow>
        case fs_unlink env tmp w of (r, w) \<Rightarrow> Some (WOLFCERT_ERR_IO, w))"

definition posix_write_commit :: "'w fs_env \<Rightarrow> int \<Rightarrow> cstring \<Rightarrow> cstring \<Rightarrow> 'w \<Rightarrow> (wc_rc \<times> 'w) option" where
  "posix_write_commit env fd tmp path w =
     (case fs_fsync env fd w of (r, w) \<Rightarrow>
      if r \<noteq> 0 then posix_write_fail env fd tmp w
      else case fs_close env fd w of (r, w) \<Rightarrow>
      if r \<noteq> 0 then (case fs_unlink env tmp w of (r, w) \<Rightarrow> Some (WOLFCERT_ERR_IO, w))
      else case fs_rename env tmp path w of (r, w) \<Rightarrow>
      if r \<noteq> 0 then (case fs_unlink env tmp w of (r, w) \<Rightarrow> Some (WOLFCERT_ERR_IO, w))
      else Some (WOLFCERT_OK, w))"

text \<open>The modes are octal 0600 and 0644.\<close>

definition posix_write :: "'w fs_env \<Rightarrow> cstring \<Rightarrow> cstring \<Rightarrow> byte list \<Rightarrow> bool \<Rightarrow> 'w \<Rightarrow> (wc_rc \<times> 'w) option" where
  "posix_write env root key data sensitive w =
     (case posix_join env root key w of
        (Inl rc, w) \<Rightarrow> Some (rc, w)
      | (Inr path, w) \<Rightarrow>
          (case fs_malloc env w of (got, w) \<Rightarrow>
           if \<not> got then Some (WOLFCERT_ERR_MEMORY, w)
           else case fs_mkstemp env (path @ lit ''.XXXXXX'') w of ((fd, tmp), w) \<Rightarrow>
           if fd < 0 then Some (WOLFCERT_ERR_IO, w)
           else case fs_fchmod env fd (if sensitive then 0x180 else 0x1A4) w of (r, w) \<Rightarrow>
           if r \<noteq> 0 then posix_write_fail env fd tmp w
           else case posix_write_loop env fd data w of
             None \<Rightarrow> None
           | Some (False, w) \<Rightarrow> posix_write_fail env fd tmp w
           | Some (True, w) \<Rightarrow>
               posix_write_commit env fd tmp path w))"

definition posix_remove :: "'w fs_env \<Rightarrow> cstring \<Rightarrow> cstring \<Rightarrow> 'w \<Rightarrow> wc_rc \<times> 'w" where
  "posix_remove env root key w =
     (case posix_join env root key w of
        (Inl rc, w) \<Rightarrow> (rc, w)
      | (Inr path, w) \<Rightarrow>
          (case fs_unlink env path w of ((r, errno), w) \<Rightarrow>
             (if r \<noteq> 0 \<and> errno \<noteq> ENOENT then WOLFCERT_ERR_IO else WOLFCERT_OK, w)))"

text \<open>Three allocations: the table, the context, the copy of the root.\<close>

definition wolfcert_store_posix_open :: "'w fs_env \<Rightarrow> cstring option \<Rightarrow> 'w \<Rightarrow> 'w WolfCertStoreOps option \<times> 'w" where
  "wolfcert_store_posix_open env root_dir w =
     (case root_dir of
        None \<Rightarrow> (None, w)
      | Some root \<Rightarrow>
          (case fs_malloc env w of (got, w) \<Rightarrow>
           if \<not> got then (None, w)
           else case fs_malloc env w of (got, w) \<Rightarrow>
           if \<not> got then (None, w)
           else case fs_malloc env w of (got, w) \<Rightarrow>
           if \<not> got then (None, w)
           else (Some \<lparr>so_read = posix_read env root, so_write = posix_write env root, so_remove = posix_remove env root\<rparr>, w)))"

section \<open>Memory\<close>

record MemEntry =
  me_key :: cstring
  me_data :: "byte list"

text \<open>The context is the list \<open>head, next, \<dots>\<close>; it is kept beside the world the allocations draw from.\<close>

type_synonym 'w mem_state = "'w \<times> MemEntry list"

fun find_slot :: "MemEntry list \<Rightarrow> cstring \<Rightarrow> nat" where
  "find_slot [] key = 0"
| "find_slot (e # es) key = (if me_key e = key then 0 else Suc (find_slot es key))"

definition mem_read :: "('w \<Rightarrow> bool \<times> 'w) \<Rightarrow> cstring \<Rightarrow> 'w mem_state \<Rightarrow> byte list wc_result \<times> 'w mem_state" where
  "mem_read malloc key st =
     (case st of (w, es) \<Rightarrow>
        let p = find_slot es key in
        if p = length es then (Err WOLFCERT_ERR_NOT_FOUND, (w, es))
        else case malloc w of (got, w) \<Rightarrow>
               if \<not> got then (Err WOLFCERT_ERR_MEMORY, (w, es)) else (Ok (me_data (es ! p)), (w, es)))"

text \<open>
  A new value for a key replaces the old one, which is released before the new one is allocated; a new
  key goes to the front, with three allocations of which the last two are both made.
\<close>

definition mem_write ::
  "('w \<Rightarrow> bool \<times> 'w) \<Rightarrow> cstring \<Rightarrow> byte list \<Rightarrow> bool \<Rightarrow> 'w mem_state \<Rightarrow> (wc_rc \<times> 'w mem_state) option" where
  "mem_write malloc key data sensitive st =
     (case st of (w, es) \<Rightarrow>
        let p = find_slot es key in
        if p \<noteq> length es then
          (case malloc w of (got, w) \<Rightarrow>
             if \<not> got then Some (WOLFCERT_ERR_MEMORY, (w, es[p := (es ! p)\<lparr>me_data := []\<rparr>]))
             else Some (WOLFCERT_OK, (w, es[p := (es ! p)\<lparr>me_data := data\<rparr>])))
        else
          (case malloc w of (got, w) \<Rightarrow>
             if \<not> got then Some (WOLFCERT_ERR_MEMORY, (w, es))
             else case malloc w of (got_key, w) \<Rightarrow>
                    case malloc w of (got_data, w) \<Rightarrow>
                      if \<not> got_key \<or> \<not> got_data then Some (WOLFCERT_ERR_MEMORY, (w, es))
                      else Some (WOLFCERT_OK, (w, \<lparr>me_key = key, me_data = data\<rparr> # es))))"

definition mem_remove :: "cstring \<Rightarrow> 'w mem_state \<Rightarrow> wc_rc \<times> 'w mem_state" where
  "mem_remove key st =
     (case st of (w, es) \<Rightarrow>
        let p = find_slot es key in
        if p = length es then (WOLFCERT_OK, (w, es)) else (WOLFCERT_OK, (w, take p es @ drop (Suc p) es)))"

text \<open>Two allocations: the table and the context, an empty list.\<close>

definition wolfcert_store_memory_open ::
  "('w \<Rightarrow> bool \<times> 'w) \<Rightarrow> 'w \<Rightarrow> ('w mem_state WolfCertStoreOps \<times> MemEntry list) option \<times> 'w" where
  "wolfcert_store_memory_open malloc w =
     (case malloc w of (got, w) \<Rightarrow>
      if \<not> got then (None, w)
      else case malloc w of (got, w) \<Rightarrow>
      if \<not> got then (None, w)
      else (Some (\<lparr>so_read = mem_read malloc, so_write = mem_write malloc, so_remove = mem_remove\<rparr>, []), w))"

fun wolfcert_store_memory_close :: "MemEntry list \<Rightarrow> MemEntry list" where
  "wolfcert_store_memory_close [] = []"
| "wolfcert_store_memory_close (e # es) = wolfcert_store_memory_close es"

section \<open>Certificates and keys over a store\<close>

definition wolfcert_store_write_cert ::
  "'s WolfCertStoreOps option \<Rightarrow> cstring option \<Rightarrow> byte list \<Rightarrow> 's \<Rightarrow> (wc_rc \<times> 's) option" where
  "wolfcert_store_write_cert store key cert s =
     (case (store, key) of
        (Some so, Some k) \<Rightarrow> so_write so k cert False s
      | _ \<Rightarrow> Some (WOLFCERT_ERR_BAD_ARG, s))"

definition wolfcert_store_read_cert ::
  "'s WolfCertStoreOps option \<Rightarrow> cstring option \<Rightarrow> 's \<Rightarrow> byte list wc_result \<times> 's" where
  "wolfcert_store_read_cert store key s =
     (case (store, key) of
        (Some so, Some k) \<Rightarrow> so_read so k s
      | _ \<Rightarrow> (Err WOLFCERT_ERR_BAD_ARG, s))"

text \<open>The key library and the store have worlds of their own.\<close>

definition wolfcert_store_write_key ::
  "key_build \<Rightarrow> ('k, 'v) wolf_keys \<Rightarrow> 's WolfCertStoreOps option \<Rightarrow> cstring option \<Rightarrow> 'k WolfCertKey option \<Rightarrow>
   'v \<Rightarrow> 's \<Rightarrow> (wc_rc \<times> 'v \<times> 's) option" where
  "wolfcert_store_write_key b env store key_name key v s =
     (case (store, key_name, key) of
        (Some so, Some name, Some k) \<Rightarrow>
          (case wolfcert_key_to_pem b env k v of
             (Inl rc, v) \<Rightarrow> Some (rc, v, s)
           | (Inr pem, v) \<Rightarrow> map_option (\<lambda>(rc, s). (rc, v, s)) (so_write so name pem True s))
      | _ \<Rightarrow> Some (WOLFCERT_ERR_BAD_ARG, v, s))"

definition wolfcert_store_read_key ::
  "key_build \<Rightarrow> ('k, 'v) wolf_keys \<Rightarrow> 's WolfCertStoreOps option \<Rightarrow> cstring option \<Rightarrow>
   'v \<Rightarrow> 's \<Rightarrow> 'k WolfCertKey wc_result \<times> 'v \<times> 's" where
  "wolfcert_store_read_key b env store key_name v s =
     (case (store, key_name) of
        (Some so, Some name) \<Rightarrow>
          (case so_read so name s of
             (Inl rc, s) \<Rightarrow> (Err rc, v, s)
           | (Inr pem, s) \<Rightarrow> (case wolfcert_key_from_pem b env pem v of (r, v) \<Rightarrow> (r, v, s)))
      | _ \<Rightarrow> (Err WOLFCERT_ERR_BAD_ARG, v, s))"

section \<open>The contract of a store\<close>

text \<open>
  What a caller of the table may rely on. \<open>slot\<close> is the place a key names (two paths may name one
  file) and \<open>view\<close> what is stored there. A read returns what is stored and changes nothing; a
  successful write or removal changes its slot and no other; a failed one spares the other values.
\<close>

locale kv_store =
  fixes ops :: "'s WolfCertStoreOps" and invar :: "'s \<Rightarrow> bool"
    and slot :: "cstring \<Rightarrow> 'n" and view :: "'s \<Rightarrow> 'n \<Rightarrow> byte list option"
  assumes read_keeps: "so_read ops k s = (r, s') \<Longrightarrow> invar s \<Longrightarrow> view s' = view s \<and> invar s'"
    and read_ok: "so_read ops k s = (Ok d, s') \<Longrightarrow> invar s \<Longrightarrow> view s (slot k) = Some d"
    and read_missing: "so_read ops k s = (Err WOLFCERT_ERR_NOT_FOUND, s') \<Longrightarrow> invar s \<Longrightarrow> view s (slot k) = None"
    and write_ok: "so_write ops k d sens s = Some (WOLFCERT_OK, s') \<Longrightarrow> invar s \<Longrightarrow>
      view s' = (view s)(slot k \<mapsto> d) \<and> invar s'"
    and write_fail: "so_write ops k d sens s = Some (rc, s') \<Longrightarrow> rc \<noteq> WOLFCERT_OK \<Longrightarrow> invar s \<Longrightarrow>
      (\<forall>n v. n \<noteq> slot k \<longrightarrow> view s n = Some v \<longrightarrow> view s' n = Some v) \<and> invar s'"
    and remove_ok: "so_remove ops k s = (WOLFCERT_OK, s') \<Longrightarrow> invar s \<Longrightarrow>
      view s' = (view s)(slot k := None) \<and> invar s'"
    and remove_fail: "so_remove ops k s = (rc, s') \<Longrightarrow> rc \<noteq> WOLFCERT_OK \<Longrightarrow> invar s \<Longrightarrow> view s' = view s \<and> invar s'"

text \<open>A store whose failed writes leave the old value, too.\<close>

locale atomic_store = kv_store +
  assumes write_atomic: "so_write ops k d sens s = Some (rc, s') \<Longrightarrow> rc \<noteq> WOLFCERT_OK \<Longrightarrow> invar s \<Longrightarrow>
      view s (slot k) = Some v \<Longrightarrow> view s' (slot k) = Some v"

text \<open>Sequences of calls.\<close>

datatype store_call = Read_Call cstring | Write_Call cstring "byte list" bool | Remove_Call cstring

definition store_step :: "'s WolfCertStoreOps \<Rightarrow> store_call \<Rightarrow> 's \<Rightarrow> (wc_rc \<times> 's) option" where
  "store_step ops c s =
     (case c of
        Read_Call k \<Rightarrow> (case so_read ops k s of (r, s) \<Rightarrow> Some (case r of Inl rc \<Rightarrow> rc | Inr _ \<Rightarrow> WOLFCERT_OK, s))
      | Write_Call k d sens \<Rightarrow> so_write ops k d sens s
      | Remove_Call k \<Rightarrow> Some (so_remove ops k s))"

fun store_run :: "'s WolfCertStoreOps \<Rightarrow> store_call list \<Rightarrow> 's \<Rightarrow> 's option" where
  "store_run ops [] s = Some s"
| "store_run ops (c # cs) s = (case store_step ops c s of None \<Rightarrow> None | Some (rc, s) \<Rightarrow> store_run ops cs s)"

text \<open>The keys whose slots a call may change.\<close>

fun changed_key :: "store_call \<Rightarrow> cstring option" where
  "changed_key (Read_Call k) = None"
| "changed_key (Write_Call k d sens) = Some k"
| "changed_key (Remove_Call k) = Some k"

context kv_store
begin

lemma step_spares:
  assumes "store_step ops c s = Some (rc, s')" "invar s"
  shows "invar s'"
    and "view s n = Some d \<Longrightarrow> \<forall>k. changed_key c = Some k \<longrightarrow> slot k \<noteq> n \<Longrightarrow> view s' n = Some d"
proof -
  have "invar s' \<and> (view s n = Some d \<longrightarrow> (\<forall>k. changed_key c = Some k \<longrightarrow> slot k \<noteq> n) \<longrightarrow> view s' n = Some d)"
  proof (cases c)
    case (Read_Call k)
    then have "so_read ops k s = (fst (so_read ops k s), s')" using assms(1) by (auto simp: store_step_def split: prod.splits)
    then show ?thesis using read_keeps assms(2) by fastforce
  next
    case (Write_Call k d' sens)
    then have w: "so_write ops k d' sens s = Some (rc, s')" using assms by (simp add: store_step_def)
    show ?thesis
    proof (cases "rc = WOLFCERT_OK")
      case True
      then show ?thesis using write_ok w assms(2) Write_Call by simp
    next
      case False
      then show ?thesis using write_fail [OF w(1) False assms(2)] Write_Call by auto
    qed
  next
    case (Remove_Call k)
    then have w: "so_remove ops k s = (rc, s')" using assms by (simp add: store_step_def)
    then show ?thesis using remove_ok remove_fail assms(2) Remove_Call by (cases "rc = WOLFCERT_OK") auto
  qed
  then show "invar s'" "view s n = Some d \<Longrightarrow> \<forall>k. changed_key c = Some k \<longrightarrow> slot k \<noteq> n \<Longrightarrow> view s' n = Some d" by auto
qed

lemma run_spares:
  "store_run ops cs s = Some s' \<Longrightarrow> invar s \<Longrightarrow> view s n = Some d \<Longrightarrow>
   \<forall>c\<in>set cs. \<forall>k. changed_key c = Some k \<longrightarrow> slot k \<noteq> n \<Longrightarrow> invar s' \<and> view s' n = Some d"
proof (induction cs arbitrary: s)
  case Nil
  then show ?case by simp
next
  case (Cons c cs)
  then obtain rc s1 where s1: "store_step ops c s = Some (rc, s1)" "store_run ops cs s1 = Some s'"
    by (auto split: option.splits)
  then show ?case using Cons.IH [OF s1(2)] step_spares [OF s1(1)] Cons.prems by simp
qed

lemma read_your_write:
  assumes "invar s" "so_write ops k d sens s = Some (WOLFCERT_OK, s1)" "store_run ops cs s1 = Some s2"
    and "\<forall>c\<in>set cs. \<forall>k'. changed_key c = Some k' \<longrightarrow> slot k' \<noteq> slot k" "so_read ops k s2 = (r, s3)"
  shows "r = Ok d \<or> (\<exists>rc. r = Err rc \<and> rc \<noteq> WOLFCERT_ERR_NOT_FOUND)"
proof -
  have "invar s2 \<and> view s2 (slot k) = Some d"
    using run_spares [OF assms(3), of "slot k" d] assms(4) write_ok [OF assms(2,1)] by simp
  then show ?thesis using read_ok read_missing assms(5) by (cases r) auto
qed

lemma read_after_remove:
  assumes "invar s" "so_remove ops k s = (WOLFCERT_OK, s1)" "so_read ops k s1 = (r, s2)"
  shows "r \<noteq> Ok d"
proof
  assume "r = Ok d"
  then show False using remove_ok [OF assms(2,1)] read_ok [of k s1 d s2] assms(3) by simp
qed

end

section \<open>The memory store\<close>

definition mem_ops :: "('w \<Rightarrow> bool \<times> 'w) \<Rightarrow> 'w mem_state WolfCertStoreOps" where
  "mem_ops malloc = \<lparr>so_read = mem_read malloc, so_write = mem_write malloc, so_remove = mem_remove\<rparr>"

definition mem_view :: "'w mem_state \<Rightarrow> cstring \<Rightarrow> byte list option" where
  "mem_view st = map_of (map (\<lambda>e. (me_key e, me_data e)) (snd st))"

definition mem_invar :: "'w mem_state \<Rightarrow> bool" where
  "mem_invar st \<longleftrightarrow> distinct (map me_key (snd st))"

lemma find_slot_le: "find_slot es key \<le> length es"
  by (induction es) auto

lemma find_slot_missing: "find_slot es key = length es \<longleftrightarrow> key \<notin> me_key ` set es"
  by (induction es) auto

lemma find_slot_hit:
  "find_slot es key \<noteq> length es \<Longrightarrow>
   me_key (es ! find_slot es key) = key \<and> map_of (map (\<lambda>e. (me_key e, me_data e)) es) key = Some (me_data (es ! find_slot es key))"
  by (induction es) auto

lemma find_slot_update:
  "find_slot es key \<noteq> length es \<Longrightarrow>
   map_of (map (\<lambda>e. (me_key e, me_data e)) (es[find_slot es key := (es ! find_slot es key)\<lparr>me_data := d\<rparr>])) =
     (map_of (map (\<lambda>e. (me_key e, me_data e)) es))(key \<mapsto> d)"
  by (induction es) auto

lemma find_slot_update_keys:
  "map me_key (es[find_slot es key := (es ! find_slot es key)\<lparr>me_data := d\<rparr>]) = map me_key es"
  by (induction es) auto

lemma find_slot_delete:
  "distinct (map me_key es) \<Longrightarrow> take (find_slot es key) es @ drop (Suc (find_slot es key)) es = filter (\<lambda>e. me_key e \<noteq> key) es"
proof (induction es)
  case Nil
  then show ?case by simp
next
  case (Cons e es)
  then show ?case by (cases "me_key e = key") (auto intro!: filter_True [symmetric] simp: image_iff)
qed

lemma map_of_filter_keys:
  "map_of (map (\<lambda>e. (me_key e, me_data e)) (filter (\<lambda>e. me_key e \<noteq> key) es)) =
     (map_of (map (\<lambda>e. (me_key e, me_data e)) es))(key := None)"
  by (induction es) (auto simp: fun_eq_iff)

lemma filter_missing: "find_slot es key = length es \<Longrightarrow> filter (\<lambda>e. me_key e \<noteq> key) es = es"
  using find_slot_missing [of es key] by (auto intro: filter_True)

lemma mem_remove_eq: "mem_invar st \<Longrightarrow> mem_remove key st = (WOLFCERT_OK, (fst st, filter (\<lambda>e. me_key e \<noteq> key) (snd st)))"
  using find_slot_delete [of "snd st" key] filter_missing [of "snd st" key]
  by (auto simp: mem_remove_def mem_invar_def Let_def split: prod.splits)

interpretation mem_store: kv_store "mem_ops malloc" mem_invar "\<lambda>k. k" mem_view for malloc :: "'w \<Rightarrow> bool \<times> 'w"
proof (unfold_locales, goal_cases)
  case (1 k s r s')
  then show ?case
    by (auto simp: mem_ops_def mem_read_def mem_view_def mem_invar_def Let_def split: prod.splits if_splits)
next
  case (2 k s d s')
  then show ?case using find_slot_hit [of "snd s" k]
    by (auto simp: mem_ops_def mem_read_def mem_view_def Let_def split: prod.splits if_splits)
next
  case (3 k s s')
  then show ?case using find_slot_missing [of "snd s" k]
    by (auto simp: mem_ops_def mem_read_def mem_view_def Let_def map_of_eq_None_iff image_image split: prod.splits if_splits)
next
  case (4 k d sens s s')
  then show ?case using find_slot_update [of "snd s" k d] find_slot_update_keys [of "snd s" k d] find_slot_missing [of "snd s" k]
    by (auto simp: mem_ops_def mem_write_def mem_view_def mem_invar_def Let_def split: prod.splits if_splits)
next
  case (5 k d sens s rc s')
  then show ?case using find_slot_update [of "snd s" k "[]"] find_slot_update_keys [of "snd s" k "[]"]
    by (auto simp: mem_ops_def mem_write_def mem_view_def mem_invar_def Let_def split: prod.splits if_splits)
next
  case (6 k s s')
  then show ?case using mem_remove_eq [of s k] map_of_filter_keys [of k "snd s"]
    by (auto simp: mem_ops_def mem_view_def mem_invar_def distinct_map_filter)
next
  case (7 k s rc s')
  then show ?case by (auto simp: mem_ops_def mem_remove_def Let_def split: prod.splits if_splits)
qed

section \<open>The file store\<close>

text \<open>
  What the code relies on. \<open>res\<close> resolves a path to a file, \<open>files\<close> gives content and mode of the
  existing files, \<open>streams\<close> content and position of a file opened for reading, and \<open>opened\<close> the
  file behind a descriptor. \<open>mkstemp\<close> makes a new empty file that the stem of its template does not
  name, \<open>write\<close> appends what it accepts, \<open>rename\<close> replaces its target in one step, and a call that
  fails changes no file.
\<close>

locale posix_fs =
  fixes env :: "'w fs_env" and res :: "cstring \<Rightarrow> 'n"
    and files :: "'w \<Rightarrow> 'n \<Rightarrow> (byte list \<times> nat) option"
    and streams :: "'w \<Rightarrow> int \<Rightarrow> (byte list \<times> nat) option" and opened :: "'w \<Rightarrow> int \<Rightarrow> 'n option"
  assumes malloc: "fs_malloc env w = (got, w') \<Longrightarrow> files w' = files w \<and> streams w' = streams w"
    and fopen: "fs_fopen env p w = (r, w') \<Longrightarrow> files w' = files w \<and> (r = Inl ENOENT \<longrightarrow> files w (res p) = None) \<and>
      (\<forall>f. r = Inr f \<longrightarrow> (\<exists>d m. files w (res p) = Some (d, m) \<and> streams w' f = Some (d, 0)))"
    and fseek_end: "fs_fseek_end env f w = (ret, w') \<Longrightarrow> files w' = files w \<and>
      (\<forall>d i. ret = 0 \<longrightarrow> streams w f = Some (d, i) \<longrightarrow> streams w' f = Some (d, length d))"
    and ftell: "fs_ftell env f w = (ret, w') \<Longrightarrow> files w' = files w \<and> streams w' = streams w \<and>
      (\<forall>d i. ret \<ge> 0 \<longrightarrow> streams w f = Some (d, i) \<longrightarrow> ret = int i)"
    and rewind: "files (fs_rewind env f w) = files w"
      "streams w f = Some (d, i) \<Longrightarrow> streams (fs_rewind env f w) f = Some (d, 0)"
    and fread: "fs_fread env f n w = (b, w') \<Longrightarrow> files w' = files w \<and>
      (\<forall>d i. streams w f = Some (d, i) \<longrightarrow> (\<exists>m. b = take m (take n (drop i d))))"
    and fclose: "files (fs_fclose env f w) = files w"
    and mkstemp: "fs_mkstemp env (p @ lit ''.XXXXXX'') w = ((fd, tmp), w') \<Longrightarrow> (fd < 0 \<longrightarrow> files w' = files w) \<and>
      (fd \<ge> 0 \<longrightarrow> res tmp \<noteq> res p \<and> files w (res tmp) = None \<and> files w' = (files w)(res tmp \<mapsto> ([], 0x180)) \<and>
         opened w' fd = Some (res tmp))"
    and fchmod: "fs_fchmod env fd mode w = (ret, w') \<Longrightarrow> opened w' = opened w \<and> (ret \<noteq> 0 \<longrightarrow> files w' = files w) \<and>
      (\<forall>n d m. ret = 0 \<longrightarrow> opened w fd = Some n \<longrightarrow> files w n = Some (d, m) \<longrightarrow> files w' = (files w)(n \<mapsto> (d, mode)))"
    and write_law: "fs_write env fd data w = ((ret, errno), w') \<Longrightarrow> opened w' = opened w \<and> ret \<le> int (length data) \<and>
      (ret < 0 \<longrightarrow> files w' = files w) \<and>
      (\<forall>n d m. ret \<ge> 0 \<longrightarrow> opened w fd = Some n \<longrightarrow> files w n = Some (d, m) \<longrightarrow>
         files w' = (files w)(n \<mapsto> (d @ take (nat ret) data, m)))"
    and fsync: "fs_fsync env fd w = (ret, w') \<Longrightarrow> files w' = files w"
    and close: "fs_close env fd w = (ret, w') \<Longrightarrow> files w' = files w"
    and rename: "fs_rename env p q w = (ret, w') \<Longrightarrow> (ret \<noteq> 0 \<longrightarrow> files w' = files w) \<and>
      (ret = 0 \<longrightarrow> res p \<noteq> res q \<longrightarrow> files w' = (files w)(res q := files w (res p), res p := None))"
    and unlink: "fs_unlink env p w = ((ret, errno), w') \<Longrightarrow>
      (ret = 0 \<longrightarrow> files w' = (files w)(res p := None)) \<and> (ret \<noteq> 0 \<longrightarrow> files w' = files w) \<and>
      (ret \<noteq> 0 \<longrightarrow> errno = ENOENT \<longrightarrow> files w (res p) = None)"

definition posix_ops :: "'w fs_env \<Rightarrow> cstring \<Rightarrow> 'w WolfCertStoreOps" where
  "posix_ops env root = \<lparr>so_read = posix_read env root, so_write = posix_write env root, so_remove = posix_remove env root\<rparr>"

definition posix_slot :: "(cstring \<Rightarrow> 'n) \<Rightarrow> cstring \<Rightarrow> cstring \<Rightarrow> 'n" where
  "posix_slot res root key = res (root @ b_slash # key)"

definition posix_view :: "('w \<Rightarrow> 'n \<Rightarrow> (byte list \<times> nat) option) \<Rightarrow> 'w \<Rightarrow> 'n \<Rightarrow> byte list option" where
  "posix_view files w n = map_option fst (files w n)"

context posix_fs
begin

lemma join: "posix_join env root key w = (r, w') \<Longrightarrow> files w' = files w \<and> streams w' = streams w \<and>
    (\<forall>p. r = Ok p \<longrightarrow> p = root @ b_slash # key)"
  by (auto simp: posix_join_def dest!: malloc split: prod.splits if_splits)

lemma read_file:
  assumes "posix_read_file env f w = (r, w')" "streams w f = Some (d, i)"
  shows "files w' = files w \<and> (\<forall>b. r = Ok b \<longrightarrow> b = d) \<and> r \<noteq> Err WOLFCERT_ERR_NOT_FOUND"
proof -
  obtain r1 w1 where s1: "fs_fseek_end env f w = (r1, w1)" by (rule prod.exhaust)
  obtain len w2 where s2: "fs_ftell env f w1 = (len, w2)" by (rule prod.exhaust)
  obtain got w3 where s3: "fs_malloc env (fs_rewind env f w2) = (got, w3)" by (rule prod.exhaust)
  obtain b w4 where s4: "fs_fread env f (nat len) w3 = (b, w4)" by (rule prod.exhaust)
  note l = fseek_end [OF s1] ftell [OF s2] rewind(1) [of f w2] malloc [OF s3] fread [OF s4]
  have "b = d" if "r1 = 0" "len \<ge> 0" "length b = nat len"
  proof -
    have "streams w2 f = Some (d, length d)" "len = int (length d)" using l(1,2) assms(2) that by auto
    then have "\<exists>m. b = take m (take (nat len) d)" using l(4,5) rewind(2) by fastforce
    then show ?thesis using that(3) \<open>len = int (length d)\<close> by auto
  qed
  then show ?thesis using assms(1) s1 s2 s3 s4 l by (auto simp: posix_read_file_def Let_def split: if_splits)
qed

lemma read_spec:
  assumes "posix_read env root key w = (r, w')"
  shows "files w' = files w" "r = Ok d \<Longrightarrow> posix_view files w (posix_slot res root key) = Some d"
    "r = Err WOLFCERT_ERR_NOT_FOUND \<Longrightarrow> posix_view files w (posix_slot res root key) = None"
proof -
  obtain jr w1 where j: "posix_join env root key w = (jr, w1)" by (rule prod.exhaust)
  note lj = join [OF j]
  have "files w' = files w \<and> (r = Ok d \<longrightarrow> posix_view files w (posix_slot res root key) = Some d) \<and>
      (r = Err WOLFCERT_ERR_NOT_FOUND \<longrightarrow> posix_view files w (posix_slot res root key) = None)"
  proof (cases jr)
    case (Inl rc)
    then have "rc = WOLFCERT_ERR_MEMORY" using j by (auto simp: posix_join_def split: prod.splits if_splits)
    then show ?thesis using assms j lj Inl by (auto simp: posix_read_def)
  next
    case (Inr path)
    obtain fr w2 where f: "fs_fopen env path w1 = (fr, w2)" by (rule prod.exhaust)
    note lf = fopen [OF f]
    show ?thesis
    proof (cases fr)
      case (Inl e)
      then show ?thesis using assms j lj Inr f lf by (auto simp: posix_read_def posix_view_def posix_slot_def split: if_splits)
    next
      case fr: (Inr h)
      then obtain d' m where d': "files w1 (res path) = Some (d', m)" "streams w2 h = Some (d', 0)" using lf by blast
      obtain rr w3 where rf: "posix_read_file env h w2 = (rr, w3)" by (rule prod.exhaust)
      have "r = rr" "files w' = files w3" using assms j Inr f fr rf by (auto simp: posix_read_def fclose)
      then show ?thesis using read_file [OF rf d'(2)] lf lj Inr d' by (auto simp: posix_view_def posix_slot_def)
    qed
  qed
  then show "files w' = files w" "r = Ok d \<Longrightarrow> posix_view files w (posix_slot res root key) = Some d"
    "r = Err WOLFCERT_ERR_NOT_FOUND \<Longrightarrow> posix_view files w (posix_slot res root key) = None" by auto
qed

lemma write_loop:
  assumes "posix_write_loop env fd data w = Some (ok, w')" "opened w fd = Some n" "files w n = Some (d, m)"
  shows "\<exists>d'. files w' = (files w)(n \<mapsto> (d', m)) \<and> (ok \<longrightarrow> d' = d @ data)"
proof -
  let ?P = "\<lambda>env' fd data w r. env' = env \<longrightarrow> (\<forall>d. opened w fd = Some n \<longrightarrow> files w n = Some (d, m) \<longrightarrow>
      (\<exists>d'. files (snd r) = (files w)(n \<mapsto> (d', m)) \<and> (fst r \<longrightarrow> d' = d @ data)))"
  have "?P env fd data w (ok, w')"
  proof (rule posix_write_loop.raw_induct [where P = ?P, OF _ assms(1)], intro impI allI)
    fix rec env' fd data w r d
    assume IH: "\<And>env' fd data w r. rec env' fd data w = Some r \<Longrightarrow> ?P env' fd data w r"
      and run: "(if data = [] then Some (True, w) else case fs_write env' fd data w of ((n, errno), w) \<Rightarrow>
             if n < 0 then (if errno = EINTR then rec env' fd data w else Some (False, w))
             else rec env' fd (drop (nat n) data) w) = Some r"
      and st: "env' = env" "opened w fd = Some n" "files w n = Some (d, m)"
    obtain k e w1 where f: "fs_write env fd data w = ((k, e), w1)" by (metis surj_pair)
    note lw = write_law [OF f]
    consider (fin) "data = []" "r = (True, w)" | (intr) "k < 0" "rec env fd data w1 = Some r" | (bad) "k < 0" "r = (False, w1)"
      | (more) "k \<ge> 0" "rec env fd (drop (nat k) data) w1 = Some r"
      using run unfolding st(1) f prod.case by (cases "data = []"; cases "k < 0"; cases "e = EINTR") simp_all
    then show "\<exists>d'. files (snd r) = (files w)(n \<mapsto> (d', m)) \<and> (fst r \<longrightarrow> d' = d @ data)"
    proof cases
      case fin
      then show ?thesis using st by (auto simp: fun_upd_idem)
    next
      case intr
      then show ?thesis using IH [OF intr(2)] lw st by auto
    next
      case bad
      then show ?thesis using lw st by (auto simp: fun_upd_idem intro!: exI [of _ d])
    next
      case more
      have l: "files w1 = (files w)(n \<mapsto> (d @ take (nat k) data, m))" "opened w1 fd = Some n" using lw more st by auto
      with IH [OF more(2)] obtain d' where "files (snd r) = (files w1)(n \<mapsto> (d', m))"
        "fst r \<longrightarrow> d' = (d @ take (nat k) data) @ drop (nat k) data" by auto
      then show ?thesis using l(1) by auto
    qed
  qed
  then show ?thesis using assms(2,3) by simp
qed

text \<open>Either the write succeeds and replaces the slot, or every file that was there is as it was.\<close>

lemma write_fail:
  assumes "posix_write_fail env fd tmp w = Some (rc, w')" "files w = (files w0)(res tmp \<mapsto> x)" "files w0 (res tmp) = None"
  shows "rc = WOLFCERT_ERR_IO \<and> (\<forall>n v. files w0 n = Some v \<longrightarrow> files w' n = Some v)"
  using assms by (auto simp: posix_write_fail_def dest!: close unlink split: prod.splits if_splits)

lemma commit:
  assumes "posix_write_commit env fd tmp path w1 = Some (rc, w')" "files w1 = (files w)(res tmp \<mapsto> x)"
    and "files w (res tmp) = None" "res tmp \<noteq> res path"
  shows "if rc = WOLFCERT_OK then files w' = (files w)(res path \<mapsto> x) else \<forall>n v. files w n = Some v \<longrightarrow> files w' n = Some v"
proof -
  obtain r6 w6 where s6: "fs_fsync env fd w1 = (r6, w6)" by (rule prod.exhaust)
  obtain r7 w7 where s7: "fs_close env fd w6 = (r7, w7)" by (rule prod.exhaust)
  obtain r8 w8 where s8: "fs_rename env tmp path w7 = (r8, w8)" by (rule prod.exhaust)
  obtain r9 e9 w9 where s9: "fs_unlink env tmp w7 = ((r9, e9), w9)" by (metis surj_pair)
  obtain r10 e10 w10 where s10: "fs_unlink env tmp w8 = ((r10, e10), w10)" by (metis surj_pair)
  note l = fsync [OF s6] close [OF s7] rename [OF s8] unlink [OF s9] unlink [OF s10]
  consider (fail6) "posix_write_fail env fd tmp w6 = Some (rc, w')" | (fail7) "rc = WOLFCERT_ERR_IO" "w' = w9"
    | (fail8) "r8 \<noteq> 0" "rc = WOLFCERT_ERR_IO" "w' = w10" | (good) "r8 = 0" "rc = WOLFCERT_OK" "w' = w8"
  proof -
    have "posix_write_commit env fd tmp path w1 = (if r6 \<noteq> 0 then posix_write_fail env fd tmp w6
        else if r7 \<noteq> 0 then Some (WOLFCERT_ERR_IO, w9) else if r8 \<noteq> 0 then Some (WOLFCERT_ERR_IO, w10) else Some (WOLFCERT_OK, w8))"
      unfolding posix_write_commit_def by (simp add: s6 s7 s8 s9 s10)
    then show ?thesis using assms(1) that by (cases "r6 = 0"; cases "r7 = 0"; cases "r8 = 0") simp_all
  qed
  then show ?thesis
  proof cases
    case fail6
    then show ?thesis using write_fail [OF fail6 _ assms(3)] l(1) assms(2) by auto
  next
    case fail7
    then show ?thesis using l assms(2,3) by (cases "r9 = 0") auto
  next
    case fail8
    then show ?thesis using l assms(2,3) by (cases "r10 = 0") auto
  next
    case good
    then show ?thesis using l assms(2-4) by (auto simp: fun_eq_iff)
  qed
qed

lemma write_new:
  assumes "posix_write env root key data sens w = Some (rc, w')"
  obtains (early) "rc \<noteq> WOLFCERT_OK" "files w' = files w"
    | (failed) fd tmp u x where "posix_write_fail env fd tmp u = Some (rc, w')" "files u = (files w)(res tmp \<mapsto> x)" "files w (res tmp) = None"
    | (committed) fd tmp u where "posix_write_commit env fd tmp (root @ b_slash # key) u = Some (rc, w')"
        "files u = (files w)(res tmp \<mapsto> (data, if sens then 0x180 else 0x1A4))" "files w (res tmp) = None"
        "res tmp \<noteq> posix_slot res root key"
proof -
  define mode :: nat where "mode = (if sens then 0x180 else 0x1A4)"
  obtain jr w1 where j: "posix_join env root key w = (jr, w1)" by (rule prod.exhaust)
  note lj = join [OF j]
  have je: "jr = Inl e \<Longrightarrow> e = WOLFCERT_ERR_MEMORY" for e using j by (auto simp: posix_join_def split: prod.splits if_splits)
  define path where "path = root @ b_slash # key"
  obtain got w2 where a: "fs_malloc env w1 = (got, w2)" by (rule prod.exhaust)
  obtain fd tmp w3 where t: "fs_mkstemp env (path @ lit ''.XXXXXX'') w2 = ((fd, tmp), w3)" by (metis surj_pair)
  obtain r4 w4 where c: "fs_fchmod env fd mode w3 = (r4, w4)" by (rule prod.exhaust)
  note l = lj malloc [OF a] mkstemp [OF t] fchmod [OF c]
  show ?thesis
  proof (cases "(\<exists>e. jr = Inl e) \<or> \<not> got \<or> fd < 0")
    case True
    then show ?thesis using early assms j je a t l unfolding path_def
      by (cases jr) (auto simp: posix_write_def split: if_splits)
  next
    case False
    then have jr: "jr = Inr path" "got" "fd \<ge> 0" using lj by (cases jr; simp add: path_def)+
    have new: "files w (res tmp) = None" "files w3 = (files w)(res tmp \<mapsto> ([], 0x180))" "opened w3 fd = Some (res tmp)"
      "res tmp \<noteq> res path" using l jr by auto
    have p: "Some (rc, w') = (if r4 \<noteq> 0 then posix_write_fail env fd tmp w4 else case posix_write_loop env fd data w4 of None \<Rightarrow> None
        | Some (False, w) \<Rightarrow> posix_write_fail env fd tmp w | Some (True, w) \<Rightarrow> posix_write_commit env fd tmp path w)"
      using assms j a t c jr unfolding posix_write_def mode_def [symmetric] by simp
    show ?thesis
    proof (cases "r4 = 0")
      case False
      then show ?thesis using failed [of fd tmp w4] p l(4) new by auto
    next
      case r4: True
      then have f4: "files w4 = (files w)(res tmp \<mapsto> ([], mode))" "opened w4 fd = Some (res tmp)" using l(4) new by auto
      obtain ok w5 where lp: "posix_write_loop env fd data w4 = Some (ok, w5)"
        using p r4 by (cases "posix_write_loop env fd data w4") auto
      obtain d' where f5: "files w5 = (files w)(res tmp \<mapsto> (d', mode))" "ok \<longrightarrow> d' = data"
        using write_loop [OF lp f4(2)] f4(1) by auto
      show ?thesis
        using failed [of fd tmp w5] committed [of fd tmp w5] p r4 lp f5 new mode_def unfolding path_def posix_slot_def
        by (cases ok) simp_all
    qed
  qed
qed

lemma write_spec:
  assumes "posix_write env root key data sens w = Some (rc, w')"
  shows "if rc = WOLFCERT_OK
    then files w' = (files w)(posix_slot res root key \<mapsto> (data, if sens then 0x180 else 0x1A4))
    else \<forall>n v. files w n = Some v \<longrightarrow> files w' n = Some v"
  using assms
proof (cases rule: write_new)
  case early
  then show ?thesis by simp
next
  case (failed fd tmp u x)
  then show ?thesis using write_fail [OF failed] by auto
next
  case (committed fd tmp u)
  then show ?thesis using commit [OF committed(1,2,3)] committed(4) by (simp add: posix_slot_def)
qed

lemma remove_spec:
  assumes "posix_remove env root key w = (rc, w')"
  shows "files w' = (if rc = WOLFCERT_OK then (files w)(posix_slot res root key := None) else files w)"
proof -
  obtain jr w1 where j: "posix_join env root key w = (jr, w1)" by (rule prod.exhaust)
  have e: "jr = Inl e \<Longrightarrow> e = WOLFCERT_ERR_MEMORY" for e using j by (auto simp: posix_join_def split: prod.splits if_splits)
  show ?thesis using assms j join [OF j] e
    by (auto simp: posix_remove_def posix_slot_def fun_upd_idem dest!: unlink split: sum.splits prod.splits if_splits)
qed

lemma posix_atomic: "atomic_store (posix_ops env root) (\<lambda>_. True) (posix_slot res root) (posix_view files)"
proof (unfold_locales, goal_cases)
  case (1 k s r s')
  then show ?case using read_spec(1) by (auto simp: posix_ops_def posix_view_def fun_eq_iff)
next
  case (2 k s d s')
  then show ?case using read_spec(2) by (auto simp: posix_ops_def)
next
  case (3 k s s')
  then show ?case using read_spec(3) by (auto simp: posix_ops_def)
next
  case (4 k d sens s s')
  then show ?case using write_spec [of root k d sens s WOLFCERT_OK s'] by (auto simp: posix_ops_def posix_view_def fun_eq_iff)
next
  case (5 k d sens s rc s')
  then show ?case using write_spec [of root k d sens s rc s'] by (auto simp: posix_ops_def posix_view_def)
next
  case (6 k s s')
  then show ?case using remove_spec [of root k s WOLFCERT_OK s'] by (auto simp: posix_ops_def posix_view_def fun_eq_iff)
next
  case (7 k s rc s')
  then show ?case using remove_spec [of root k s rc s'] by (auto simp: posix_ops_def posix_view_def fun_eq_iff)
next
  case (8 k d sens s rc s' v)
  then show ?case using write_spec [of root k d sens s rc s'] by (auto simp: posix_ops_def posix_view_def)
qed

end

sublocale posix_fs \<subseteq> posix_store: atomic_store "posix_ops env root" "\<lambda>_. True" "posix_slot res root" "posix_view files" for root
  by (rule posix_atomic)

text \<open>A system on which a write that makes no progress, or is interrupted, cannot repeat forever.\<close>

locale patient_fs =
  fixes env :: "'w fs_env" and patience :: "'w \<Rightarrow> nat"
  assumes write_progress: "fs_write env fd data w = ((ret, errno), w') \<Longrightarrow> data \<noteq> [] \<Longrightarrow>
    ret > 0 \<or> ret < 0 \<and> errno \<noteq> EINTR \<or> patience w' < patience w"
begin

lemma loop_returns: "posix_write_loop env fd data w \<noteq> None"
proof (induction "(length data, patience w)" arbitrary: data w rule: wf_induct_rule [OF wf_lex_prod [OF wf_less_than wf_less_than]])
  case 1
  obtain k e w1 where f: "fs_write env fd data w = ((k, e), w1)" by (metis surj_pair)
  show ?case
  proof (cases "data = []")
    case True
    then show ?thesis by (simp add: posix_write_loop.simps)
  next
    case False
    note p = write_progress [OF f False]
    consider (bad) "k < 0" "e \<noteq> EINTR" | (intr) "k < 0" "e = EINTR" | (more) "k \<ge> 0" by linarith
    then show ?thesis
    proof cases
      case bad
      then show ?thesis using f False by (simp add: posix_write_loop.simps)
    next
      case intr
      then have "posix_write_loop env fd data w1 \<noteq> None" using 1 [of data w1] p by simp
      then show ?thesis using intr f False by (simp add: posix_write_loop.simps [of env fd data w])
    next
      case more
      then have "posix_write_loop env fd (drop (nat k) data) w1 \<noteq> None"
        using 1 [of "drop (nat k) data" w1] p False by (cases "k = 0") auto
      then show ?thesis using more f False by (simp add: posix_write_loop.simps [of env fd data w])
    qed
  qed
qed

lemma write_returns: "posix_write env root key data sens w \<noteq> None"
proof -
  have fail: "posix_write_fail env fd tmp u \<noteq> None" for fd tmp u by (simp add: posix_write_fail_def split: prod.split)
  then have "posix_write_commit env fd tmp path u \<noteq> None" for fd tmp path u
    by (simp add: posix_write_commit_def split: prod.split)
  then show ?thesis
    unfolding posix_write_def using loop_returns fail
    by (simp add: case_prod_beta del: not_None_eq split: sum.split option.split bool.split)
qed

end

section \<open>A concrete file system\<close>

text \<open>
  Names are paths, one stream and one descriptor are in use at a time, a write accepts at most two
  bytes, and \<open>mkstemp\<close> tries one name.
\<close>

record small_world =
  sw_files :: "cstring \<Rightarrow> (byte list \<times> nat) option"
  sw_stream :: "byte list \<times> nat"
  sw_fd :: cstring

definition small_fs :: "small_world fs_env" where
  "small_fs = \<lparr>fs_malloc = (\<lambda>w. (True, w)),
     fs_fopen = (\<lambda>p w. case sw_files w p of None \<Rightarrow> (Inl ENOENT, w) | Some (d, m) \<Rightarrow> (Inr 3, w\<lparr>sw_stream := (d, 0)\<rparr>)),
     fs_fseek_end = (\<lambda>f w. (0, w\<lparr>sw_stream := (fst (sw_stream w), length (fst (sw_stream w)))\<rparr>)),
     fs_ftell = (\<lambda>f w. (int (snd (sw_stream w)), w)),
     fs_rewind = (\<lambda>f w. w\<lparr>sw_stream := (fst (sw_stream w), 0)\<rparr>),
     fs_fread = (\<lambda>f n w. (take n (drop (snd (sw_stream w)) (fst (sw_stream w))), w)),
     fs_fclose = (\<lambda>f w. w),
     fs_mkstemp = (\<lambda>t w. let tmp = take (length t - 6) t @ lit ''aaaaaa'' in
        if sw_files w tmp \<noteq> None then ((-1, t), w)
        else ((4, tmp), w\<lparr>sw_files := (sw_files w)(tmp \<mapsto> ([], 0x180)), sw_fd := tmp\<rparr>)),
     fs_fchmod = (\<lambda>f m w. case sw_files w (sw_fd w) of None \<Rightarrow> (-1, w)
        | Some (d, m') \<Rightarrow> (0, w\<lparr>sw_files := (sw_files w)(sw_fd w \<mapsto> (d, m))\<rparr>)),
     fs_write = (\<lambda>f d w. case sw_files w (sw_fd w) of None \<Rightarrow> ((-1, 5), w)
        | Some (d', m) \<Rightarrow> ((int (min 2 (length d)), 0), w\<lparr>sw_files := (sw_files w)(sw_fd w \<mapsto> (d' @ take (min 2 (length d)) d, m))\<rparr>)),
     fs_fsync = (\<lambda>f w. (0, w)), fs_close = (\<lambda>f w. (0, w)),
     fs_rename = (\<lambda>p q w. if sw_files w p = None then (-1, w)
        else (0, w\<lparr>sw_files := (sw_files w)(q := sw_files w p, p := None)\<rparr>)),
     fs_unlink = (\<lambda>p w. if sw_files w p = None then ((-1, ENOENT), w) else ((0, 0), w\<lparr>sw_files := (sw_files w)(p := None)\<rparr>))\<rparr>"

interpretation small_files: posix_fs small_fs "\<lambda>p. p" sw_files "\<lambda>w f. Some (sw_stream w)" "\<lambda>w fd. Some (sw_fd w)"
proof (unfold_locales, goal_cases)
  case (9 p w fd tmp w')
  have "length (take (length (p @ lit ''.XXXXXX'') - 6) (p @ lit ''.XXXXXX'') @ lit ''aaaaaa'') \<noteq> length p" by simp
  then have "take (length (p @ lit ''.XXXXXX'') - 6) (p @ lit ''.XXXXXX'') @ lit ''aaaaaa'' \<noteq> p" by metis
  then show ?case using 9 by (auto simp: small_fs_def Let_def simp del: not_None_eq not_Some_eq split: if_splits)
next
  case (7 f n w b w')
  then show ?case by (auto simp: small_fs_def intro!: exI [of _ n])
qed (auto simp: small_fs_def split: option.splits if_splits prod.splits)

interpretation small_files_end: patient_fs small_fs "\<lambda>w. 0"
  by unfold_locales (auto simp: small_fs_def split: option.splits prod.splits)

section \<open>Properties\<close>

text \<open>
  C21. The memory store keeps what was written: after a successful write, whatever calls on other keys
  follow, and whatever allocations fail meanwhile, reading the key gives the value or reports an error
  other than \<open>NOT_FOUND\<close>; and after a removal reading never gives a value.
\<close>

theorem mem_store_history:
  assumes "mem_invar s" "mem_write malloc k d sens s = Some (WOLFCERT_OK, s1)" "store_run (mem_ops malloc) cs s1 = Some s2"
    and "\<forall>c\<in>set cs. changed_key c \<noteq> Some k" "mem_read malloc k s2 = (r, s3)" "mem_remove k s2 = (rc, s4)"
  shows "(r = Ok d \<or> r = Err WOLFCERT_ERR_MEMORY) \<and> rc = WOLFCERT_OK \<and> fst (mem_read malloc k s4) = Err WOLFCERT_ERR_NOT_FOUND"
proof -
  have ops: "so_write (mem_ops malloc) k d sens s = Some (WOLFCERT_OK, s1)" "so_read (mem_ops malloc) k s2 = (r, s3)"
    using assms(2,5) by (simp_all add: mem_ops_def)
  have "\<forall>c\<in>set cs. \<forall>k'. changed_key c = Some k' \<longrightarrow> k' \<noteq> k" using assms(4) by auto
  note y = mem_store.read_your_write [OF assms(1) ops(1) assms(3) this ops(2)]
  have m: "r = Ok x \<or> r = Err WOLFCERT_ERR_MEMORY \<or> r = Err WOLFCERT_ERR_NOT_FOUND" if "r = Ok x \<or> (\<nexists>x. r = Ok x)" for x
    using that assms(5) by (auto simp: mem_read_def Let_def split: prod.splits if_splits)
  have inv: "mem_invar s2"
    using mem_store.run_spares [OF assms(3), of k d] mem_store.write_ok [OF ops(1) assms(1)] assms(4) by auto
  have "find_slot (snd s4) k = length (snd s4)" "rc = WOLFCERT_OK"
    using assms(6) mem_remove_eq [OF inv, of k] find_slot_missing [of "filter (\<lambda>e. me_key e \<noteq> k) (snd s2)" k] by auto
  then show ?thesis using y m by (cases r) (auto simp: mem_read_def Let_def split: prod.splits)
qed

theorem mem_store_history_witness:
  "\<exists>s3. mem_read (\<lambda>w :: nat. (True, w)) (lit ''a'') (0, [\<lparr>me_key = lit ''b'', me_data = [7]\<rparr>, \<lparr>me_key = lit ''a'', me_data = [1, 2]\<rparr>]) =
     (Ok [1, 2], s3)"
proof -
  let ?m = "\<lambda>w :: nat. (True, w)" and ?s2 = "(0 :: nat, [\<lparr>me_key = lit ''b'', me_data = [7]\<rparr>, \<lparr>me_key = lit ''a'', me_data = [1, 2]\<rparr>])"
  have i: "mem_invar (0 :: nat, [])" by (simp add: mem_invar_def)
  have w: "mem_write ?m (lit ''a'') [1, 2] False (0, []) = Some (WOLFCERT_OK, (0, [\<lparr>me_key = lit ''a'', me_data = [1, 2]\<rparr>]))"
    by (simp add: mem_write_def)
  have c: "store_run (mem_ops ?m) [Write_Call (lit ''b'') [7] True] (0, [\<lparr>me_key = lit ''a'', me_data = [1, 2]\<rparr>]) = Some ?s2"
    by (simp add: store_step_def mem_ops_def mem_write_def Let_def lit_def)
  have o: "\<forall>c\<in>set [Write_Call (lit ''b'') [7] True]. changed_key c \<noteq> Some (lit ''a'')" by (simp add: lit_def)
  obtain r s3 where r: "mem_read ?m (lit ''a'') ?s2 = (r, s3)" by (rule prod.exhaust)
  obtain rc s4 where rm: "mem_remove (lit ''a'') ?s2 = (rc, s4)" by (rule prod.exhaust)
  have "r \<noteq> Err WOLFCERT_ERR_MEMORY" using r by (auto simp: mem_read_def Let_def split: if_splits)
  then show ?thesis using mem_store_history [OF i w c o r rm] r by auto
qed

text \<open>
  C20. Writing a file is atomic: \<open>posix_write\<close> either succeeds, and then the file of the key holds the
  data with mode 0600 or 0644 and no other file has changed, not even by a leftover temporary file; or
  it fails, and then every file that existed is unchanged, the old value of the key included.
\<close>

theorem posix_write_atomic:
  assumes "posix_fs env res files streams opened" "posix_write env root key data sens w = Some (rc, w')"
  shows "if rc = WOLFCERT_OK
    then files w' = (files w)(posix_slot res root key \<mapsto> (data, if sens then 0x180 else 0x1A4))
    else \<forall>n v. files w n = Some v \<longrightarrow> files w' n = Some v"
  by (rule posix_fs.write_spec [OF assms])

definition small_start :: small_world where
  "small_start = \<lparr>sw_files = [lit ''/k'' \<mapsto> ([9], 0x1A4)], sw_stream = ([], 0), sw_fd = []\<rparr>"

theorem posix_write_atomic_witness:
  "\<exists>w'. posix_write small_fs [] (lit ''k'') [1, 2, 3] True small_start = Some (WOLFCERT_OK, w') \<and>
     sw_files w' (lit ''/k'') = Some ([1, 2, 3], 0x180)"
proof -
  have "posix_write small_fs [] (lit ''k'') [1, 2, 3] True small_start \<noteq> None" by (rule small_files_end.write_returns)
  then obtain rc w' where p: "posix_write small_fs [] (lit ''k'') [1, 2, 3] True small_start = Some (rc, w')" by auto
  have "map_option fst (posix_write small_fs [] (lit ''k'') [1, 2, 3] True small_start) = Some WOLFCERT_OK"
    by (simp add: posix_write_def posix_join_def small_fs_def small_start_def Let_def posix_write_loop.simps
        posix_write_commit_def lit_def)
  then show ?thesis using posix_write_atomic [OF small_files.posix_fs_axioms p] p by (simp add: posix_slot_def lit_def)
qed

text \<open>
  C38. A file write returns: on a system where interrupted or empty writes do not repeat forever, the
  retry loop of \<open>posix_write\<close> ends and the call gives a return code.
\<close>

theorem posix_write_returns:
  assumes "patient_fs env patience"
  shows "\<exists>rc w'. posix_write env root key data sens w = Some (rc, w')"
  using patient_fs.write_returns [OF assms, of root key data sens w] by auto

theorem posix_write_returns_witness:
  "\<exists>rc w'. posix_write small_fs (lit ''/var'') (lit ''key.pem'') [5, 6] False small_start = Some (rc, w')"
  by (rule posix_write_returns [OF small_files_end.patient_fs_axioms])

text \<open>
  The memory store is not atomic: when the allocation for a new value fails, the old value is already
  gone, and the key reads as empty.
\<close>

lemma mem_write_loses_value:
  assumes "malloc w = (False, w)" "malloc w' = (True, w')"
  shows "mem_write malloc k d sens (w, [\<lparr>me_key = k, me_data = old\<rparr>]) =
      Some (WOLFCERT_ERR_MEMORY, (w, [\<lparr>me_key = k, me_data = []\<rparr>]))"
    and "mem_read malloc k (w', [\<lparr>me_key = k, me_data = []\<rparr>]) = (Ok [], (w', [\<lparr>me_key = k, me_data = []\<rparr>]))"
  using assms by (simp_all add: mem_write_def mem_read_def)

end
