(* ===== verification/Http_Header.thy ===== *)
theory Http_Header
  imports Cstring
begin

text \<open>
  Status line and header fields of \<open>src/http.c\<close>: \<open>wolfcert_http_hdr_is\<close>,
  \<open>wolfcert_http_hdr_split\<close>, \<open>find_header\<close>, \<open>parse_status_line\<close>, \<open>status_is_interim\<close> and
  \<open>response_has_no_body\<close>. A header line is the list of its bytes without the line end.
\<close>

definition wolfcert_http_hdr_is :: "byte list \<Rightarrow> cstring \<Rightarrow> bool" where
  "wolfcert_http_hdr_is line name \<longleftrightarrow>
     (let n = length name in length line > n \<and> line ! n = b_colon \<and> wolfcert_ascii_ncasecmp line name n = 0)"

text \<open>The return code and the value; no value stands for the null pointer.\<close>

definition wolfcert_http_hdr_split :: "byte list \<Rightarrow> int \<times> byte list option" where
  "wolfcert_http_hdr_split line =
     (case strchr line b_colon of
        None \<Rightarrow> (0, None)
      | Some k \<Rightarrow>
          if k > 0 \<and> (line ! (k - 1) = b_SP \<or> line ! (k - 1) = b_HT) then (-1, None)
          else (0, Some (dropWhile is_ows (drop (Suc k) line))))"

text \<open>\<open>alloc\<close> tells whether the copy of the value can be allocated.\<close>

function find_header :: "bool \<Rightarrow> cstring \<Rightarrow> cstring \<Rightarrow> cstring option" where
  "find_header alloc p name =
     (if cat p 0 = b_NUL then None
      else case strstr_crlf p of
             None \<Rightarrow> None
           | Some k \<Rightarrow>
               let line = take k p in
               if wolfcert_http_hdr_is line name \<and> fst (wolfcert_http_hdr_split line) = 0 then
                 (if alloc
                  then Some (case snd (wolfcert_http_hdr_split line) of None \<Rightarrow> [] | Some v \<Rightarrow> v)
                  else None)
               else find_header alloc (drop (k + 2) p) name)"
  by pat_completeness auto
termination
  by (relation "measure (\<lambda>(alloc, p, name). length p)") (auto simp: cat_def split: if_splits)

declare find_header.simps [simp del]

definition parse_status_line :: "cstring \<Rightarrow> int wc_result" where
  "parse_status_line line =
     (if \<not> starts_with line (lit ''HTTP/'') then Err WOLFCERT_ERR_PROTOCOL
      else case strchr line b_SP of
             None \<Rightarrow> Err WOLFCERT_ERR_PROTOCOL
           | Some k \<Rightarrow>
               let v = fst (strtol (drop (Suc k) line)) in
               if v < 100 \<or> v > 999 then Err WOLFCERT_ERR_PROTOCOL else Ok v)"

definition status_is_interim :: "int \<Rightarrow> bool" where
  "status_is_interim status \<longleftrightarrow> status \<ge> 100 \<and> status < 200 \<and> status \<noteq> 101"

definition response_has_no_body :: "int \<Rightarrow> bool \<Rightarrow> bool" where
  "response_has_no_body status head_request \<longleftrightarrow> head_request \<or> status = 204 \<or> status = 304"

section \<open>Header lookup\<close>

definition header_block :: "byte list list \<Rightarrow> byte list" where
  "header_block ls = concat (map (\<lambda>l. l @ CRLF) ls)"

text \<open>A field line \<open>name: value\<close> is named \<open>name\<close>, whatever the case.\<close>

definition field_name_is :: "cstring \<Rightarrow> byte list \<Rightarrow> bool" where
  "field_name_is name l \<longleftrightarrow>
     (\<exists>n v. l = n @ b_colon # v \<and> length n = length name \<and> map ci_lower n = map ci_lower name)"

definition field_value :: "cstring \<Rightarrow> byte list \<Rightarrow> byte list" where
  "field_value name l = dropWhile is_ows (drop (Suc (length name)) l)"

definition token_name :: "cstring \<Rightarrow> bool" where
  "token_name name \<longleftrightarrow> name \<noteq> [] \<and> list_all (\<lambda>c. c \<noteq> 0 \<and> c \<noteq> b_colon \<and> c \<noteq> b_SP \<and> c \<noteq> b_HT) name"

lemma hdr_is_iff:
  assumes "token_name name"
  shows "wolfcert_http_hdr_is l name \<longleftrightarrow> field_name_is name l"
proof
  assume h: "wolfcert_http_hdr_is l name"
  let ?n = "length name"
  have n: "?n < length l" "l ! ?n = b_colon" "wolfcert_ascii_ncasecmp l name ?n = 0"
    using h by (auto simp: wolfcert_http_hdr_is_def Let_def)
  have "map ci_lower (take ?n l) = map ci_lower name"
    using n assms by (subst ncasecmp_eq [symmetric]) (auto simp: token_name_def list_all_iff)
  moreover have "l = take ?n l @ b_colon # drop (Suc ?n) l"
    using n(1,2) by (metis id_take_nth_drop)
  ultimately show "field_name_is name l" unfolding field_name_is_def
    using n(1) by (intro exI [of _ "take ?n l"] exI [of _ "drop (Suc ?n) l"]) simp
next
  assume "field_name_is name l"
  then obtain n v where "l = n @ b_colon # v" "length n = length name" "map ci_lower n = map ci_lower name"
    by (auto simp: field_name_is_def)
  then show "wolfcert_http_hdr_is l name"
    using ncasecmp_eq [of name "length name" l] assms
    by (auto simp: wolfcert_http_hdr_is_def token_name_def list_all_iff nth_append)
qed

lemma ci_lower_keeps:
  assumes "ci_lower c = ci_lower d" and "d \<notin> {b_colon, b_SP, b_HT}"
  shows "c \<noteq> b_colon \<and> c \<noteq> b_SP \<and> c \<noteq> b_HT"
proof -
  have "ci_lower d = e \<Longrightarrow> e \<in> {b_colon, b_SP, b_HT} \<Longrightarrow> d = e" for e
    by (auto simp: ci_lower_def word_le_nat_alt word_unat_eq_iff unat_word_ariths split: if_splits)
  moreover have "ci_lower e = e" if "e \<in> {b_colon, b_SP, b_HT}" for e :: byte
    using that by (auto simp: ci_lower_def)
  ultimately show ?thesis using assms by (metis insertCI)
qed

lemma hdr_split_field:
  assumes "token_name name" "field_name_is name l"
  shows "wolfcert_http_hdr_split l = (0, Some (field_value name l))"
proof -
  obtain n v where l: "l = n @ b_colon # v" "length n = length name" "map ci_lower n = map ci_lower name"
    using assms(2) by (auto simp: field_name_is_def)
  have c: "c \<noteq> b_colon \<and> c \<noteq> b_SP \<and> c \<noteq> b_HT" if "c \<in> set n" for c
  proof -
    obtain i where i: "i < length n" "n ! i = c" using \<open>c \<in> set n\<close> by (auto simp: in_set_conv_nth)
    then have "ci_lower c = ci_lower (name ! i)" using l(2,3) by (metis nth_map)
    moreover have "name ! i \<in> set name" using i l(2) by simp
    ultimately show ?thesis using assms(1) by (intro ci_lower_keeps) (auto simp: token_name_def list_all_iff)
  qed
  then have "strchr l b_colon = Some (length n)" unfolding l(1) by (intro strchr_append) auto
  moreover have "l ! (length n - 1) \<in> set n" using assms(1) l(1,2)
    by (cases "n = []") (auto simp: token_name_def nth_append)
  ultimately show ?thesis using c l by (auto simp: wolfcert_http_hdr_split_def field_value_def)
qed

lemma find_header_Nil: "find_header alloc [] name = None"
  by (subst find_header.simps) simp

lemma find_header_Cons:
  assumes "one_line l" "0 \<notin> set l" "token_name name"
  shows "find_header alloc (l @ CRLF @ t) name =
    (if field_name_is name l then (if alloc then Some (field_value name l) else None)
     else find_header alloc t name)"
proof -
  have "cat (l @ CRLF @ t) 0 \<noteq> 0" using assms(2) by (cases l) (auto simp: CRLF_def)
  then show ?thesis
    using strstr_crlf_line [OF assms(1), of t] hdr_split_field [OF assms(3), of l]
    by (subst find_header.simps) (simp add: Let_def hdr_is_iff [OF assms(3)])
qed

lemma find_header_block:
  assumes "list_all one_line ls" "0 \<notin> set (header_block ls)" "token_name name"
  shows "find_header alloc (header_block ls) name =
    (if alloc then map_option (field_value name) (List.find (field_name_is name) ls) else None)"
  using assms(1,2)
  by (induction ls) (auto simp: header_block_def find_header_Nil find_header_Cons [OF _ _ assms(3)])



lemma parse_status_line_range: "parse_status_line line = Ok v \<Longrightarrow> 100 \<le> v \<and> v \<le> 999"
  by (auto simp: parse_status_line_def Let_def split: if_splits option.splits)

end
