(* ===== verification/Http_Url.thy ===== *)
theory Http_Url
  imports Cstring
begin

text \<open>
  URLs and the Basic credentials of \<open>src/http.c\<close>: \<open>wolfcert_http_url_parse\<close>,
  \<open>host_is_ip_literal\<close> and \<open>basic_auth_header\<close>. The allocations of the parser are, in order, the
  scheme (0), the host (1) and the path (2).
\<close>

abbreviation (input) WOLFCERT_HTTP_MAX_HOST_LEN :: nat where "WOLFCERT_HTTP_MAX_HOST_LEN \<equiv> 256"
abbreviation (input) WOLFCERT_HTTP_MAX_PATH_LEN :: nat where "WOLFCERT_HTTP_MAX_PATH_LEN \<equiv> 8192"

record WolfCertUrl =
  url_scheme :: cstring
  url_host :: cstring
  url_port :: int
  url_path :: cstring
  url_tls :: bool

text \<open>Scheme, security and default port, and where the host starts.\<close>

definition url_take_scheme :: "mem \<Rightarrow> cstring \<Rightarrow> (cstring \<times> bool \<times> int \<times> cstring) wc_result" where
  "url_take_scheme mem url =
     (case strstr url (lit ''://'') of
        None \<Rightarrow> if \<not> mem 0 then Err WOLFCERT_ERR_MEMORY else Ok (lit ''https'', True, 443, url)
      | Some k \<Rightarrow>
          if k > 16 then Err WOLFCERT_ERR_PARSE
          else if \<not> mem 0 then Err WOLFCERT_ERR_MEMORY
          else if ci_cmp (take k url) (lit ''https'') = 0 then Ok (take k url, True, 443, drop (k + 3) url)
          else if ci_cmp (take k url) (lit ''http'') = 0 then Ok (take k url, False, 80, drop (k + 3) url)
          else Err WOLFCERT_ERR_UNSUPPORTED)"

definition host_char :: "byte \<Rightarrow> bool" where
  "host_char c \<longleftrightarrow> c \<noteq> b_NUL \<and> c \<noteq> b_colon \<and> c \<noteq> b_slash \<and> c \<noteq> b_quest \<and> c \<noteq> b_hash"

definition url_take_host :: "mem \<Rightarrow> cstring \<Rightarrow> (cstring \<times> cstring) wc_result" where
  "url_take_host mem s =
     (if cat s 0 = b_lbrack then
        (case strchr s b_rbrack of
           None \<Rightarrow> Err WOLFCERT_ERR_PARSE
         | Some c \<Rightarrow>
             if c - 1 > WOLFCERT_HTTP_MAX_HOST_LEN then Err WOLFCERT_ERR_PARSE
             else if \<not> mem 1 then Err WOLFCERT_ERR_MEMORY
             else Ok (take (c - 1) (drop 1 s), drop (Suc c) s))
      else
        (let h = takeWhile host_char s in
         if length h > WOLFCERT_HTTP_MAX_HOST_LEN then Err WOLFCERT_ERR_PARSE
         else if \<not> mem 1 then Err WOLFCERT_ERR_MEMORY
         else Ok (h, dropWhile host_char s)))"

definition url_take_port :: "int \<Rightarrow> cstring \<Rightarrow> (int \<times> cstring) wc_result" where
  "url_take_port port s =
     (if cat s 0 = b_colon then
        (case strtol (drop 1 s) of (p, end) \<Rightarrow>
           if p \<le> 0 \<or> p > 65535 then Err WOLFCERT_ERR_PARSE else Ok (p, end))
      else Ok (port, s))"

definition url_take_path :: "mem \<Rightarrow> cstring \<Rightarrow> cstring wc_result" where
  "url_take_path mem s =
     (let tlen = (case strchr s b_hash of Some k \<Rightarrow> k | None \<Rightarrow> length s);
          plen = (if cat s 0 = b_slash then tlen else tlen + 1)
      in if plen > WOLFCERT_HTTP_MAX_PATH_LEN then Err WOLFCERT_ERR_PARSE
         else if \<not> mem 2 then Err WOLFCERT_ERR_MEMORY
         else Ok (if cat s 0 = b_slash then take tlen s else b_slash # take tlen s))"

definition wolfcert_http_url_parse :: "mem \<Rightarrow> cstring option \<Rightarrow> WolfCertUrl wc_result" where
  "wolfcert_http_url_parse mem u =
     (case u of
        None \<Rightarrow> Err WOLFCERT_ERR_BAD_ARG
      | Some url \<Rightarrow>
          (case url_take_scheme mem url of
             Inl e \<Rightarrow> Err e
           | Inr (scheme, tls, port, s1) \<Rightarrow>
               (case url_take_host mem s1 of
                  Inl e \<Rightarrow> Err e
                | Inr (host, s2) \<Rightarrow>
                    (case url_take_port port s2 of
                       Inl e \<Rightarrow> Err e
                     | Inr (port', s3) \<Rightarrow>
                         (case url_take_path mem s3 of
                            Inl e \<Rightarrow> Err e
                          | Inr path \<Rightarrow>
                              Ok \<lparr>url_scheme = scheme, url_host = host, url_port = port',
                                  url_path = path, url_tls = tls\<rparr>)))))"

definition host_is_ip_literal :: "cstring \<Rightarrow> bool" where
  "host_is_ip_literal host = (case wolfcert_parse_ip host of Inl e \<Rightarrow> False | Inr ip \<Rightarrow> length ip = 16)"

text \<open>
  \<open>Base64_Encode_NoNl\<close> belongs to wolfSSL: \<open>b64 raw cap\<close> is its return code and the encoded
  bytes. The allocations are the plain (0) and the encoded (1) credentials.
\<close>

definition basic_auth_header ::
  "(byte list \<Rightarrow> nat \<Rightarrow> int \<times> byte list) \<Rightarrow> mem \<Rightarrow> cstring option \<Rightarrow> cstring option \<Rightarrow> nat \<Rightarrow> byte list wc_result" where
  "basic_auth_header b64 mem user pass out_cap =
     (case user of
        None \<Rightarrow> Ok []
      | Some u \<Rightarrow>
          let raw = u @ b_colon # (case pass of None \<Rightarrow> [] | Some p \<Rightarrow> p);
              enc_cap = ((length raw + 2) div 3 * 4 + 4) mod 2 ^ 32
          in if \<not> mem 0 then Err WOLFCERT_ERR_MEMORY
             else if \<not> mem 1 then Err WOLFCERT_ERR_MEMORY
             else (case b64 raw enc_cap of (rc, enc) \<Rightarrow>
               if rc \<noteq> 0 then Err WOLFCERT_ERR_CRYPTO
               else let out = lit ''Authorization: Basic '' @ cstr enc @ CRLF in
                    if length out \<ge> out_cap then Err WOLFCERT_ERR_MEMORY else Ok out))"

section \<open>What the parser accepts\<close>

lemma url_take_scheme_ok:
  "url_take_scheme mem url = Ok (scheme, tls, port, s) \<Longrightarrow>
     (scheme = lit ''https'' \<or> ci_cmp scheme (lit (if tls then ''https'' else ''http'')) = 0) \<and>
     port = (if tls then 443 else 80)"
  by (auto simp: url_take_scheme_def split: option.splits if_splits)

lemma url_take_host_ok:
  "url_take_host mem s = Ok (host, t) \<Longrightarrow> length host \<le> WOLFCERT_HTTP_MAX_HOST_LEN"
  by (auto simp: url_take_host_def Let_def split: option.splits if_splits)

lemma url_take_port_ok:
  "url_take_port port s = Ok (p, t) \<Longrightarrow> 0 < port \<Longrightarrow> port \<le> 65535 \<Longrightarrow> 0 < p \<and> p \<le> 65535"
  by (auto simp: url_take_port_def split: if_splits prod.splits)

lemma url_take_path_ok:
  assumes "url_take_path mem s = Ok path"
  shows "cat path 0 = b_slash \<and> length path \<le> WOLFCERT_HTTP_MAX_PATH_LEN \<and> b_hash \<notin> set path"
proof -
  let ?t = "takeWhile (\<lambda>b. b \<noteq> b_hash) s"
  have t: "take (length ?t) s = ?t" by (simp add: takeWhile_eq_take [symmetric])
  have "b_hash \<notin> set ?t" by (auto dest: set_takeWhileD)
  moreover have "cat s 0 = b_slash \<Longrightarrow> cat ?t 0 = b_slash" by (cases s) auto
  ultimately show ?thesis using assms
    by (auto simp: url_take_path_def Let_def strchr_len t split: if_splits)
qed

text \<open>
  C30. An accepted URL is safe to use: the port is a TCP port, the host fits its bound, the request
  target is an absolute path within its bound and carries no fragment, and TLS is off only for the
  explicit scheme \<open>http\<close> (any case), so a URL without a scheme is never contacted in clear.
\<close>

theorem url_parse_safe:
  assumes "wolfcert_http_url_parse mem (Some url) = Ok u"
  shows "0 < url_port u \<and> url_port u \<le> 65535 \<and> length (url_host u) \<le> WOLFCERT_HTTP_MAX_HOST_LEN \<and>
    cat (url_path u) 0 = b_slash \<and> length (url_path u) \<le> WOLFCERT_HTTP_MAX_PATH_LEN \<and>
    b_hash \<notin> set (url_path u) \<and>
    (\<not> url_tls u \<longrightarrow> ci_cmp (url_scheme u) (lit ''http'') = 0 \<and> starts_with url (url_scheme u @ lit ''://''))"
proof -
  obtain scheme tls port s1 host s2 port' s3 path where
    *: "url_take_scheme mem url = Ok (scheme, tls, port, s1)" "url_take_host mem s1 = Ok (host, s2)"
    "url_take_port port s2 = Ok (port', s3)" "url_take_path mem s3 = Ok path"
    "u = \<lparr>url_scheme = scheme, url_host = host, url_port = port', url_path = path, url_tls = tls\<rparr>"
    using assms by (auto simp: wolfcert_http_url_parse_def split: sum.splits)
  have "\<not> tls \<longrightarrow> ci_cmp scheme (lit ''http'') = 0 \<and> starts_with url (scheme @ lit ''://'')"
  proof
    assume "\<not> tls"
    then obtain k where k: "strstr url (lit ''://'') = Some k" "scheme = take k url" "ci_cmp scheme (lit ''http'') = 0"
      using *(1) by (auto simp: url_take_scheme_def split: option.splits if_splits)
    have "k + 3 \<le> length url" "take 3 (drop k url) = lit ''://''" using strstr_SomeD [OF k(1)] by (auto simp: numeral_3_eq_3)
    then have "take (k + 3) url = scheme @ lit ''://''" by (simp add: take_add k(2))
    then show "ci_cmp scheme (lit ''http'') = 0 \<and> starts_with url (scheme @ lit ''://'')"
      using k \<open>k + 3 \<le> length url\<close> by (simp add: starts_with_def min_def numeral_3_eq_3)
  qed
  then show ?thesis
    using *(5) url_take_scheme_ok [OF *(1)] url_take_host_ok [OF *(2)] url_take_port_ok [OF *(3)]
      url_take_path_ok [OF *(4)] by (auto split: if_splits)
qed

theorem url_parse_safe_witness:
  "\<exists>u. wolfcert_http_url_parse (\<lambda>i. True) (Some (lit ''HTTP://h:8080?q#f'')) = Ok u \<and> url_port u \<le> 65535 \<and>
     ci_cmp (url_scheme u) (lit ''http'') = 0"
proof -
  let ?u = "\<lparr>url_scheme = lit ''HTTP'', url_host = lit ''h'', url_port = 8080, url_path = lit ''/?q'', url_tls = False\<rparr>"
  have "wolfcert_http_url_parse (\<lambda>i. True) (Some (lit ''HTTP://h:8080?q#f'')) = Ok ?u" by code_simp
  from this url_parse_safe [OF this] show ?thesis by (intro exI [of _ ?u]) simp
qed

section \<open>Writing a URL and reading it back\<close>

definition url_text :: "cstring \<Rightarrow> cstring \<Rightarrow> byte list \<Rightarrow> cstring \<Rightarrow> cstring" where
  "url_text scheme host port path =
     scheme @ lit ''://'' @ (if b_colon \<in> set host then b_lbrack # host @ [b_rbrack] else host) @
       b_colon # port @ path"

lemma no_space_digit: "is_dig c \<Longrightarrow> \<not> is_space c"
  by (auto simp: is_dig_unat is_space_def word_le_nat_alt)

lemma strtol_digits:
  assumes "list_all is_dig ds" "ds \<noteq> []" "\<not> is_dig (cat t 0)" "int (digits_val ds) \<le> LONG_MAX"
  shows "strtol (ds @ t) = (int (digits_val ds), t)"
proof -
  obtain d ds' where d: "ds = d # ds'" using assms(2) by (cases ds) auto
  have "dropWhile is_space (ds @ t) = ds @ t" using assms(1) no_space_digit by (simp add: d)
  moreover have "d \<noteq> b_minus" "d \<noteq> b_plus" using assms(1) by (auto simp: d is_dig_def)
  moreover have "takeWhile is_dig (ds @ t) = ds" "dropWhile is_dig (ds @ t) = t"
    using assms(1,3) by (cases t; simp add: takeWhile_append dropWhile_append list_all_iff)+
  ultimately show ?thesis using assms(2,4) by (simp add: strtol_def Let_def d)
qed

text \<open>
  C31. Parsing inverts writing: for a scheme \<open>http\<close> or \<open>https\<close>, a host (an IPv6 literal being
  written in brackets), a decimal port between 1 and 65535 and an absolute path without fragment,
  the parser returns exactly these parts.
\<close>

theorem url_parse_text:
  assumes scheme: "scheme = lit ''http'' \<or> scheme = lit ''https''"
    and host: "length host \<le> WOLFCERT_HTTP_MAX_HOST_LEN" "0 \<notin> set host"
      "b_colon \<in> set host \<Longrightarrow> b_rbrack \<notin> set host"
      "b_colon \<notin> set host \<Longrightarrow> list_all host_char host \<and> cat host 0 \<noteq> b_lbrack"
    and port: "list_all is_dig ds" "ds \<noteq> []" "0 < digits_val ds" "digits_val ds \<le> 65535"
    and path: "cat path 0 = b_slash" "b_hash \<notin> set path" "length path \<le> WOLFCERT_HTTP_MAX_PATH_LEN"
  shows "wolfcert_http_url_parse (\<lambda>i. True) (Some (url_text scheme host ds path)) =
    Ok \<lparr>url_scheme = scheme, url_host = host, url_port = int (digits_val ds), url_path = path,
       url_tls = (scheme = lit ''https'')\<rparr>"
proof -
  let ?auth = "(if b_colon \<in> set host then b_lbrack # host @ [b_rbrack] else host) @ b_colon # ds @ path"
  have "url_take_scheme (\<lambda>i. True) (url_text scheme host ds path) =
      Ok (scheme, scheme = lit ''https'', if scheme = lit ''https'' then 443 else 80, ?auth)"
    using scheme
    by (elim disjE) (simp_all add: url_take_scheme_def url_text_def starts_with_def ci_lower_def)
  moreover have "url_take_host (\<lambda>i. True) ?auth = Ok (host, b_colon # ds @ path)"
  proof (cases "b_colon \<in> set host")
    case True
    have "strchr ((b_lbrack # host) @ b_rbrack # b_colon # ds @ path) b_rbrack = Some (Suc (length host))"
      using strchr_append [of b_rbrack "b_lbrack # host"] host(3) [OF True] by simp
    then show ?thesis using True host by (simp add: url_take_host_def)
  next
    case False
    then have "takeWhile host_char (host @ b_colon # ds @ path) = host"
      "dropWhile host_char (host @ b_colon # ds @ path) = b_colon # ds @ path"
      using host(4) by (simp_all add: takeWhile_append dropWhile_append list_all_iff host_char_def)
    moreover have "cat (host @ b_colon # ds @ path) 0 \<noteq> b_lbrack" using host(4) False by (cases host) auto
    ultimately show ?thesis using False host(1) by (simp add: url_take_host_def)
  qed
  moreover have "url_take_port p (b_colon # ds @ path) = Ok (int (digits_val ds), path)" for p
    using strtol_digits [OF port(1,2), of path] port path(1)
    by (simp add: url_take_port_def LONG_MAX_def is_dig_def)
  moreover have "url_take_path (\<lambda>i. True) path = Ok path"
    using path strchr_None [of path b_hash] by (simp add: url_take_path_def)
  ultimately show ?thesis by (simp add: wolfcert_http_url_parse_def)
qed

theorem url_parse_text_witness:
  "wolfcert_http_url_parse (\<lambda>i. True) (Some (lit ''https://[::1]:8443/.well-known/est'')) =
     Ok \<lparr>url_scheme = lit ''https'', url_host = lit ''::1'', url_port = 8443,
        url_path = lit ''/.well-known/est'', url_tls = True\<rparr>"
  using url_parse_text [of "lit ''https''" "lit ''::1''" "lit ''8443''" "lit ''/.well-known/est''"]
  by (simp add: url_text_def digits_val_def dval_def is_dig_def)

end
