(* ===== verification/Http_Date.thy ===== *)
theory Http_Date
  imports Cstring "HOL-Library.Monad_Syntax"
begin

text \<open>
  \<open>Retry-After\<close> and HTTP dates of \<open>src/http.c\<close>: \<open>only_ows\<close>, \<open>take_digits\<close>, \<open>take_month\<close>,
  \<open>take_time_of_day\<close>, \<open>date_to_unix_time\<close>, \<open>http_date_to_unix_time\<close> and \<open>parse_retry_after\<close>. The
  clock \<open>wc_Time\<close> is the parameter \<open>now\<close>. A cursor that is advanced is returned as the rest of
  the string; a return of -1 out of a sub-parser is \<open>None\<close>.
\<close>

abbreviation (input) WOLFCERT_HTTP_MAX_RETRY_AFTER :: int where "WOLFCERT_HTTP_MAX_RETRY_AFTER \<equiv> 86400"
abbreviation (input) WOLFCERT_HTTP_CLOCK_FLOOR :: int where "WOLFCERT_HTTP_CLOCK_FLOOR \<equiv> 1767225600"

definition only_ows :: "cstring \<Rightarrow> bool" where
  "only_ows p \<longleftrightarrow> cat (dropWhile is_ows p) 0 = b_NUL"

fun take_digits_loop :: "nat \<Rightarrow> nat \<Rightarrow> int \<Rightarrow> cstring \<Rightarrow> nat \<times> int \<times> cstring" where
  "take_digits_loop 0 n v p = (n, v, p)"
| "take_digits_loop (Suc k) n v p =
     (if is_dig (cat p 0) then take_digits_loop k (Suc n) (v * 10 + int (dval (cat p 0))) (drop 1 p)
      else (n, v, p))"

definition take_digits :: "cstring \<Rightarrow> nat \<Rightarrow> nat \<Rightarrow> (int \<times> cstring) option" where
  "take_digits p mn mx =
     (case take_digits_loop mx 0 0 p of (n, v, p') \<Rightarrow> if n < mn then None else Some (v, p'))"

definition months :: "cstring list" where
  "months = map lit [''Jan'', ''Feb'', ''Mar'', ''Apr'', ''May'', ''Jun'',
     ''Jul'', ''Aug'', ''Sep'', ''Oct'', ''Nov'', ''Dec'']"

fun take_month_loop :: "cstring list \<Rightarrow> int \<Rightarrow> cstring \<Rightarrow> (int \<times> cstring) option" where
  "take_month_loop [] i p = None"
| "take_month_loop (m # ms) i p = (if starts_with p m then Some (i + 1, drop 3 p) else take_month_loop ms (i + 1) p)"

definition take_month :: "cstring \<Rightarrow> (int \<times> cstring) option" where
  "take_month p = take_month_loop months 0 p"

definition expect_char :: "byte \<Rightarrow> cstring \<Rightarrow> cstring option" where
  "expect_char c p = (if cat p 0 = c then Some (drop 1 p) else None)"

definition take_time_of_day :: "cstring \<Rightarrow> (int \<times> cstring) option" where
  "take_time_of_day p =
     do {
       (h, p) \<leftarrow> take_digits p 2 2;
       p \<leftarrow> expect_char b_colon p;
       (m, p) \<leftarrow> take_digits p 2 2;
       p \<leftarrow> expect_char b_colon p;
       (sec, p) \<leftarrow> take_digits p 2 2;
       if h > 23 \<or> m > 59 \<or> sec > 60 then None else Some (h * 3600 + m * 60 + sec, p)
     }"

text \<open>Division of C truncates toward zero.\<close>

definition cdiv :: "int \<Rightarrow> int \<Rightarrow> int" where
  "cdiv a b = (if a \<ge> 0 then a div b else - ((- a) div b))"

definition date_to_unix_time :: "int \<Rightarrow> int \<Rightarrow> int \<Rightarrow> int \<Rightarrow> int" where
  "date_to_unix_time year mon day tod =
     (let y = year - (if mon \<le> 2 then 1 else 0);
          era = cdiv (if y \<ge> 0 then y else y - 399) 400;
          yoe = y - era * 400;
          doy = cdiv (153 * (mon + (if mon > 2 then -3 else 9)) + 2) 5 + day - 1
      in (era * 146097 + yoe * 365 + cdiv yoe 4 - cdiv yoe 100 + doy - 719468) * 86400 + tod)"

section \<open>The calendar\<close>

definition leap :: "int \<Rightarrow> bool" where
  "leap y \<longleftrightarrow> (y mod 4 = 0 \<and> y mod 100 \<noteq> 0) \<or> y mod 400 = 0"

definition month_len :: "int \<Rightarrow> int \<Rightarrow> int" where
  "month_len y m = (if m = 2 then (if leap y then 29 else 28) else if m \<in> {4, 6, 9, 11} then 30 else 31)"

definition next_date :: "int \<times> int \<times> int \<Rightarrow> int \<times> int \<times> int" where
  "next_date = (\<lambda>(y, m, d).
     if d < month_len y m then (y, m, d + 1) else if m < 12 then (y, m + 1, 1) else (y + 1, 1, 1))"

text \<open>The days before the first of March of a year, counted from year 0.\<close>

definition march_days :: "int \<Rightarrow> int" where
  "march_days y = 365 * y + y div 4 - y div 100 + y div 400"

lemma cdiv_era: "cdiv (if y \<ge> 0 then y else y - 399) 400 = y div 400"
proof (cases "y \<ge> 0")
  case False
  have "(399 - y) div 400 = - (y div 400)"
  proof -
    have m: "0 \<le> y mod 400" "y mod 400 < 400" by simp_all
    have "399 - y = (399 - y mod 400) + (- (y div 400)) * 400"
      using minus_div_mult_eq_mod [of y 400] by simp
    then have "(399 - y) div 400 = - (y div 400) + (399 - y mod 400) div 400"
      by (simp only: div_mult_self1)
    moreover have "(399 - y mod 400) div 400 = 0" using m by (intro div_pos_pos_trivial) auto
    ultimately show ?thesis by simp
  qed
  then show ?thesis using False by (simp add: cdiv_def)
qed (simp add: cdiv_def)

lemma era_days:
  "y div 400 * 146097 + y mod 400 * 365 + y mod 400 div 4 - y mod 400 div 100 = march_days y"
proof -
  define q r where "q = y div 400" and "r = y mod 400"
  have y: "y = r + q * 400" by (simp add: q_def r_def)
  have "y div 4 = 100 * q + r div 4"
    using div_mult_self1 [of 4 r "100 * q"] by (simp add: y)
  moreover have "y div 100 = 4 * q + r div 100"
    using div_mult_self1 [of 100 r "4 * q"] by (simp add: y)
  ultimately have "march_days y = 365 * y + (100 * q + r div 4) - (4 * q + r div 100) + q"
    by (simp add: march_days_def q_def)
  then have "march_days y = q * 146097 + r * 365 + r div 4 - r div 100" using y by simp
  then show ?thesis by (simp add: q_def r_def)
qed

lemma date_to_unix_time_march:
  "date_to_unix_time y m d t =
    (march_days (if m \<le> 2 then y - 1 else y) + cdiv (153 * (m + (if m > 2 then -3 else 9)) + 2) 5 + d - 1 - 719468)
      * 86400 + t"
proof -
  define z where "z = (if m \<le> 2 then y - 1 else y)"
  have z: "z = y - (if m \<le> 2 then 1 else 0)" by (simp add: z_def)
  have r: "z - z div 400 * 400 = z mod 400" "0 \<le> z mod 400" by (simp_all add: minus_div_mult_eq_mod)
  have "date_to_unix_time y m d t =
      (z div 400 * 146097 + z mod 400 * 365 + z mod 400 div 4 - z mod 400 div 100 +
        (cdiv (153 * (m + (if m > 2 then -3 else 9)) + 2) 5 + d - 1) - 719468) * 86400 + t"
    using r(2) by (simp only: date_to_unix_time_def Let_def cdiv_era r flip: z) (simp add: cdiv_def)
  then show ?thesis by (simp only: era_days z_def) (simp add: algebra_simps)
qed

lemma date_to_unix_time_alt:
  assumes "1 \<le> m" "m \<le> 12"
  shows "date_to_unix_time y m d t =
    (march_days (if m \<le> 2 then y - 1 else y) + (153 * (if m > 2 then m - 3 else m + 9) + 2) div 5 + d - 1 - 719468)
      * 86400 + t"
  using assms by (simp add: date_to_unix_time_march cdiv_def)

lemma march_days_century: "march_days y < march_days (y + 100)"
proof -
  have "(y + 100) div 100 = y div 100 + 1" by simp
  moreover have "y div 4 \<le> (y + 100) div 4" "y div 400 \<le> (y + 100) div 400" by (simp_all add: zdiv_mono1)
  ultimately show ?thesis by (simp add: march_days_def)
qed

lemma date_to_unix_time_century: "date_to_unix_time y m d t < date_to_unix_time (y + 100) m d t"
  using march_days_century [of y] march_days_century [of "y - 1"]
  by (simp add: date_to_unix_time_march add.commute diff_add_eq)

lemma div_pred:
  assumes "(n :: int) > 0"
  shows "y div n = (y - 1) div n + (if y mod n = 0 then 1 else 0)"
proof -
  have "y - 1 = (y mod n - 1) + y div n * n" by simp
  then have "(y - 1) div n = y div n + (y mod n - 1) div n"
    using assms by (simp only: div_mult_self1)
  moreover have "(y mod n - 1) div n = (if y mod n = 0 then -1 else 0)"
  proof (cases "y mod n = 0")
    case True
    then show ?thesis using assms by (simp add: div_eq_minus1)
  next
    case False
    then have "0 \<le> y mod n - 1" "y mod n - 1 < n"
      using assms pos_mod_sign [of n y] pos_mod_bound [of n y] by linarith+
    then show ?thesis using False by (simp add: div_pos_pos_trivial)
  qed
  ultimately show ?thesis by simp
qed

lemma march_days_step: "march_days y = march_days (y - 1) + 365 + (if leap y then 1 else 0)"
proof -
  have "y mod 400 = 0 \<Longrightarrow> y mod 100 = 0" "y mod 100 = 0 \<Longrightarrow> y mod 4 = 0" by presburger+
  then show ?thesis
    by (cases "y mod 400 = 0"; cases "y mod 100 = 0"; cases "y mod 4 = 0")
      (simp_all add: march_days_def leap_def div_pred [of 4 y] div_pred [of 100 y] div_pred [of 400 y])
qed

lemma month_cases:
  assumes "1 \<le> m" "(m :: int) \<le> 12"
  obtains "m = 1" | "m = 2" | "m = 3" | "m = 4" | "m = 5" | "m = 6" | "m = 7" | "m = 8" | "m = 9"
    | "m = 10" | "m = 11" | "m = 12"
proof -
  have "m = 1 \<or> m = 2 \<or> m = 3 \<or> m = 4 \<or> m = 5 \<or> m = 6 \<or> m = 7 \<or> m = 8 \<or> m = 9 \<or>
      m = 10 \<or> m = 11 \<or> m = 12"
    using assms by arith
  then show thesis using that by blast
qed

text \<open>
  C32. The day arithmetic is the Gregorian calendar: the epoch is 1970-01-01, and the times of
  consecutive calendar days are 86400 seconds apart, in every month of every year.
\<close>

theorem date_to_unix_time_calendar:
  "date_to_unix_time 1970 1 1 0 = 0 \<and>
   (1 \<le> m \<and> m \<le> 12 \<and> 1 \<le> d \<and> d \<le> month_len y m \<longrightarrow>
     (case next_date (y, m, d) of (y', m', d') \<Rightarrow>
        date_to_unix_time y' m' d' t = date_to_unix_time y m d t + 86400))"
proof (intro conjI impI)
  show "date_to_unix_time 1970 1 1 0 = 0" by code_simp
  assume *: "1 \<le> m \<and> m \<le> 12 \<and> 1 \<le> d \<and> d \<le> month_len y m"
  then have "1 \<le> m" "m \<le> 12" by simp_all
  then show "case next_date (y, m, d) of (y', m', d') \<Rightarrow>
      date_to_unix_time y' m' d' t = date_to_unix_time y m d t + 86400"
    by (cases rule: month_cases)
      (use * march_days_step [of y] in \<open>auto simp: next_date_def month_len_def date_to_unix_time_alt split: if_splits\<close>)
qed

theorem date_to_unix_time_calendar_witness:
  "date_to_unix_time 2028 3 1 5 = date_to_unix_time 2028 2 29 5 + 86400"
  using date_to_unix_time_calendar [of 2 29 2028 5] by (simp add: next_date_def month_len_def leap_def)

section \<open>HTTP dates\<close>

text \<open>The loop that turns a two-digit year into the most recent year within 50 years ahead.\<close>

function two_digit_year :: "int \<Rightarrow> int \<Rightarrow> int \<Rightarrow> int \<Rightarrow> int \<Rightarrow> int" where
  "two_digit_year year mon day tod now =
     (if date_to_unix_time (year + 50) mon day tod \<le> now
      then two_digit_year (year + 100) mon day tod now else year)"
  by pat_completeness auto
termination
proof (relation "measure (\<lambda>(year, mon, day, tod, now). nat (now + 1 - date_to_unix_time (year + 50) mon day tod))",
    goal_cases)
  case (2 year mon day tod now)
  then show ?case using date_to_unix_time_century [of "year + 50" mon day tod] by (simp add: add.commute add.left_commute)
qed simp

declare two_digit_year.simps [simp del]

definition mdays :: "int list" where
  "mdays = [31, 29, 31, 30, 31, 30, 31, 31, 30, 31, 30, 31]"

definition is_alpha :: "byte \<Rightarrow> bool" where
  "is_alpha c \<longleftrightarrow> (b_A \<le> c \<and> c \<le> b_Z) \<or> (b_a \<le> c \<and> c \<le> b_z)"

text \<open>The fields after \<open>weekday, \<close>: IMF-fixdate or the RFC 850 form with its two-digit year.\<close>

definition date_fields_comma :: "cstring \<Rightarrow> (int \<times> int \<times> int \<times> int \<times> bool) option" where
  "date_fields_comma p =
     do {
       (day, p) \<leftarrow> take_digits p 2 2;
       (mon, year, two_digit, p) \<leftarrow>
         (if cat p 0 = b_SP then
            do { (mon, p) \<leftarrow> take_month (drop 1 p);
                 p \<leftarrow> expect_char b_SP p;
                 (year, p) \<leftarrow> take_digits p 4 4;
                 Some (mon, year, False, p) }
          else if cat p 0 = b_minus then
            do { (mon, p) \<leftarrow> take_month (drop 1 p);
                 p \<leftarrow> expect_char b_minus p;
                 (year, p) \<leftarrow> take_digits p 2 2;
                 Some (mon, year, True, p) }
          else None);
       p \<leftarrow> expect_char b_SP p;
       (tod, p) \<leftarrow> take_time_of_day p;
       if starts_with p (lit '' GMT'') \<and> only_ows (drop 4 p) then Some (year, mon, day, tod, two_digit) else None
     }"

text \<open>The fields of the \<open>asctime\<close> form.\<close>

definition date_fields_asctime :: "cstring \<Rightarrow> (int \<times> int \<times> int \<times> int \<times> bool) option" where
  "date_fields_asctime p =
     do {
       (mon, p) \<leftarrow> take_month p;
       p \<leftarrow> expect_char b_SP p;
       let p = (if cat p 0 = b_SP then drop 1 p else p);
       (day, p) \<leftarrow> take_digits p 1 2;
       p \<leftarrow> expect_char b_SP p;
       (tod, p) \<leftarrow> take_time_of_day p;
       p \<leftarrow> expect_char b_SP p;
       (year, p) \<leftarrow> take_digits p 4 4;
       if only_ows p then Some (year, mon, day, tod, False) else None
     }"

definition http_date_to_unix_time :: "cstring \<Rightarrow> int \<Rightarrow> int" where
  "http_date_to_unix_time s now =
     (let p = dropWhile is_alpha s in
      case (if cat p 0 = b_comma \<and> cat p 1 = b_SP then date_fields_comma (drop 2 p)
            else if cat p 0 = b_SP then date_fields_asctime (drop 1 p)
            else None) of
        None \<Rightarrow> -1
      | Some (year0, mon, day, tod, two_digit) \<Rightarrow>
          let year = (if two_digit then two_digit_year (year0 + 1900) mon day tod now else year0) in
          if day < 1 \<or> day > mdays ! nat (mon - 1) \<or>
             (mon = 2 \<and> day = 29 \<and> \<not> ((year mod 4 = 0 \<and> year mod 100 \<noteq> 0) \<or> year mod 400 = 0))
          then -1
          else date_to_unix_time year mon day tod)"

section \<open>Retry-After\<close>

fun delay_loop :: "int \<Rightarrow> cstring \<Rightarrow> int \<times> cstring" where
  "delay_loop delay [] = (delay, [])"
| "delay_loop delay (c # v) =
     (if is_dig c
      then delay_loop (if delay \<le> WOLFCERT_HTTP_MAX_RETRY_AFTER then delay * 10 + int (dval c) else delay) v
      else (delay, c # v))"

definition parse_retry_after :: "int \<Rightarrow> cstring \<Rightarrow> int" where
  "parse_retry_after now v =
     (let delay =
        (if is_dig (cat v 0) then
           (case delay_loop 0 v of (delay, v') \<Rightarrow> if only_ows v' then delay else 0)
         else
           (let when = (if now \<ge> WOLFCERT_HTTP_CLOCK_FLOOR then http_date_to_unix_time v now else -1)
            in if when \<ge> 0 then when - now else 0))
      in if delay \<le> 0 then 0
         else if delay > WOLFCERT_HTTP_MAX_RETRY_AFTER then WOLFCERT_HTTP_MAX_RETRY_AFTER else delay)"

lemma delay_loop_value:
  assumes "list_all is_dig ds" "\<not> is_dig (cat w 0)"
    and "d = V \<or> (d > WOLFCERT_HTTP_MAX_RETRY_AFTER \<and> V > WOLFCERT_HTTP_MAX_RETRY_AFTER)"
  shows "\<exists>d'. delay_loop d (ds @ w) = (d', w) \<and>
    (let V' = foldl (\<lambda>v c. v * 10 + int (dval c)) V ds
     in d' = V' \<or> (d' > WOLFCERT_HTTP_MAX_RETRY_AFTER \<and> V' > WOLFCERT_HTTP_MAX_RETRY_AFTER))"
  using assms(1,3)
proof (induction ds arbitrary: d V)
  case Nil
  then show ?case using assms(2) by (cases w) auto
next
  case (Cons c ds)
  let ?d = "if d \<le> WOLFCERT_HTTP_MAX_RETRY_AFTER then d * 10 + int (dval c) else d"
  let ?V = "V * 10 + int (dval c)"
  have "?d = ?V \<or> (?d > WOLFCERT_HTTP_MAX_RETRY_AFTER \<and> ?V > WOLFCERT_HTTP_MAX_RETRY_AFTER)"
    using Cons.prems(2) by auto
  with Cons.IH [of ?d ?V] Cons.prems(1) show ?case by simp
qed

lemma int_digits_val: "foldl (\<lambda>v c. v * 10 + int (dval c)) (int V) ds = int (foldl (\<lambda>v c. v * 10 + dval c) V ds)"
proof (induction ds arbitrary: V)
  case (Cons c ds)
  then show ?case using Cons.IH [of "V * 10 + dval c"] by (simp add: add.commute)
qed simp

lemma only_ows_all: "list_all is_ows w \<Longrightarrow> only_ows w"
  by (simp add: only_ows_def list_all_iff dropWhile_eq_Nil_conv [THEN iffD2])

text \<open>
  C33. A wait is never negative and never over a day, whatever the server sends and whatever the
  clock says; and a decimal \<open>Retry-After\<close> of any length is taken as its value, capped at a day.
\<close>

theorem parse_retry_after_clamped:
  "0 \<le> parse_retry_after now v \<and> parse_retry_after now v \<le> WOLFCERT_HTTP_MAX_RETRY_AFTER \<and>
   (list_all is_dig ds \<and> ds \<noteq> [] \<and> list_all is_ows w \<longrightarrow>
     parse_retry_after now (ds @ w) = min WOLFCERT_HTTP_MAX_RETRY_AFTER (int (digits_val ds)))"
proof (intro conjI impI)
  show "0 \<le> parse_retry_after now v" by (simp add: parse_retry_after_def Let_def)
  show "parse_retry_after now v \<le> WOLFCERT_HTTP_MAX_RETRY_AFTER" by (simp add: parse_retry_after_def Let_def)
  assume *: "list_all is_dig ds \<and> ds \<noteq> [] \<and> list_all is_ows w"
  then have w: "\<not> is_dig (cat w 0)" by (cases w) (auto simp: is_ows_def is_dig_def)
  obtain d where d: "delay_loop 0 (ds @ w) = (d, w)"
    "d = int (digits_val ds) \<or> (d > WOLFCERT_HTTP_MAX_RETRY_AFTER \<and> int (digits_val ds) > WOLFCERT_HTTP_MAX_RETRY_AFTER)"
    using delay_loop_value [OF _ w, of ds 0 0] * int_digits_val [of 0 ds]
    by (auto simp: Let_def digits_val_def)
  have "is_dig (cat (ds @ w) 0)" using * by (cases ds) auto
  then show "parse_retry_after now (ds @ w) = min WOLFCERT_HTTP_MAX_RETRY_AFTER (int (digits_val ds))"
    using d only_ows_all [of w] * by (auto simp: parse_retry_after_def)
qed

theorem parse_retry_after_clamped_witness:
  "parse_retry_after 0 (lit ''120 '') = 120 \<and> parse_retry_after 0 (lit ''99999999999999999999'') = 86400"
  using parse_retry_after_clamped [of 0 "[]" "lit ''120''" "lit '' ''"]
    parse_retry_after_clamped [of 0 "[]" "lit ''99999999999999999999''" "[]"]
  by (simp add: digits_val_def dval_def is_dig_def is_ows_def)

section \<open>Writing a date and reading it back\<close>

definition dig2 :: "nat \<Rightarrow> byte list" where
  "dig2 n = [dchar (n div 10), dchar (n mod 10)]"

definition imf_fixdate :: "cstring \<Rightarrow> nat \<Rightarrow> nat \<Rightarrow> nat \<Rightarrow> nat \<Rightarrow> nat \<Rightarrow> nat \<Rightarrow> cstring" where
  "imf_fixdate wday year mon day h m sec =
     wday @ lit '', '' @ dig2 day @ lit '' '' @ months ! (mon - 1) @ lit '' '' @
     dig2 (year div 100) @ dig2 (year mod 100) @ lit '' '' @
     dig2 h @ lit '':'' @ dig2 m @ lit '':'' @ dig2 sec @ lit '' GMT''"

lemma take_digits_loop_all:
  "list_all is_dig ds \<Longrightarrow> length ds = k \<Longrightarrow>
     take_digits_loop k n v (ds @ t) = (n + k, foldl (\<lambda>v c. v * 10 + int (dval c)) v ds, t)"
  by (induction ds arbitrary: k n v) auto

lemma take_digits_exact:
  "list_all is_dig ds \<Longrightarrow> length ds = k \<Longrightarrow> take_digits (ds @ t) k k = Some (int (digits_val ds), t)"
  using int_digits_val [of 0 ds] by (simp add: take_digits_def take_digits_loop_all digits_val_def)

lemma dig2_simps [simp]:
  "length (dig2 n) = 2" "n < 100 \<Longrightarrow> list_all is_dig (dig2 n)" "n < 100 \<Longrightarrow> digits_val (dig2 n) = n"
  by (simp_all add: dig2_def digits_val_def)

lemma take_digits_2: "n < 100 \<Longrightarrow> take_digits (dig2 n @ t) 2 2 = Some (int n, t)"
  by (simp add: take_digits_exact)

lemma digits_val_dig4: "a < 100 \<Longrightarrow> b < 100 \<Longrightarrow> digits_val (dig2 a @ dig2 b) = a * 100 + b"
proof -
  assume "a < 100" "b < 100"
  then have "a div 10 * 10 + a mod 10 = a" "b div 10 * 10 + b mod 10 = b" by simp_all
  then show ?thesis using \<open>a < 100\<close> \<open>b < 100\<close>
    by (simp add: dig2_def digits_val_def)
qed

lemma take_digits_4:
  "a < 100 \<Longrightarrow> b < 100 \<Longrightarrow> take_digits (dig2 a @ dig2 b @ t) 4 4 = Some (int (a * 100 + b), t)"
  using take_digits_exact [of "dig2 a @ dig2 b" 4 t] by (simp add: digits_val_dig4)

lemma take_month_months:
  assumes "1 \<le> m" "m \<le> 12"
  shows "take_month (months ! (m - 1) @ t) = Some (int m, t)"
proof -
  have "1 \<le> int m" "int m \<le> 12" using assms by simp_all
  then have "m = 1 \<or> m = 2 \<or> m = 3 \<or> m = 4 \<or> m = 5 \<or> m = 6 \<or> m = 7 \<or> m = 8 \<or> m = 9 \<or>
      m = 10 \<or> m = 11 \<or> m = 12"
    by (cases rule: month_cases) simp_all
  then show ?thesis by (elim disjE) (simp_all add: take_month_def months_def starts_with_def)
qed

lemma expect_char_Cons [simp]: "expect_char c (c # t) = Some t"
  by (simp add: expect_char_def)

lemma take_time_of_day_text:
  assumes "h < 24" "m < 60" "sec \<le> 60"
  shows "take_time_of_day (dig2 h @ b_colon # dig2 m @ b_colon # dig2 sec @ t) =
    Some (int h * 3600 + int m * 60 + int sec, t)"
  using assms by (simp add: take_time_of_day_def take_digits_2)

text \<open>
  C34. Dates round-trip: the IMF-fixdate text of any valid date and time of day (leap second
  included) with years 0 to 9999 is read back as its Unix time.
\<close>

theorem http_date_imf_fixdate:
  assumes "list_all is_alpha wday" "year < 10000" "1 \<le> mon" "mon \<le> 12" "1 \<le> day"
    "int day \<le> month_len (int year) (int mon)" "h < 24" "m < 60" "sec \<le> 60"
  shows "http_date_to_unix_time (imf_fixdate wday year mon day h m sec) now =
    date_to_unix_time (int year) (int mon) (int day) (int h * 3600 + int m * 60 + int sec)"
proof -
  let ?tail = "dig2 day @ lit '' '' @ months ! (mon - 1) @ lit '' '' @ dig2 (year div 100) @ dig2 (year mod 100) @
     lit '' '' @ dig2 h @ lit '':'' @ dig2 m @ lit '':'' @ dig2 sec @ lit '' GMT''"
  have skip: "dropWhile is_alpha (imf_fixdate wday year mon day h m sec) = lit '', '' @ ?tail"
  proof -
    have "\<not> is_alpha 44" by (simp add: is_alpha_def)
    moreover have "c \<in> set wday \<Longrightarrow> is_alpha c" for c using assms(1) by (simp add: list_all_iff)
    ultimately show ?thesis unfolding imf_fixdate_def by (simp add: dropWhile_append2)
  qed
  have day: "day < 100" using assms(6) by (simp add: month_len_def split: if_splits)
  have y: "year div 100 < 100" "year mod 100 < 100" "int (year div 100 * 100 + year mod 100) = int year"
    using assms(2) by auto
  have "date_fields_comma ?tail =
      Some (int year, int mon, int day, int h * 3600 + int m * 60 + int sec, False)"
    using day y assms
    by (simp add: date_fields_comma_def take_digits_2 take_digits_4 take_month_months [unfolded One_nat_def] take_time_of_day_text
        starts_with_def only_ows_def del: of_nat_add of_nat_mult)
  moreover have "\<not> (int day < 1 \<or> int day > mdays ! nat (int mon - 1) \<or> (int mon = 2 \<and> int day = 29 \<and>
      \<not> ((int year mod 4 = 0 \<and> int year mod 100 \<noteq> 0) \<or> int year mod 400 = 0)))"
  proof -
    have "1 \<le> int mon" "int mon \<le> 12" using assms by simp_all
    then show ?thesis
      by (cases rule: month_cases) (use assms(5,6) in \<open>auto simp: mdays_def month_len_def leap_def split: if_splits\<close>)
  qed
  ultimately show ?thesis
    unfolding http_date_to_unix_time_def skip Let_def by (simp del: de_Morgan_disj de_Morgan_conj)
qed

theorem http_date_imf_fixdate_witness:
  "http_date_to_unix_time (lit ''Sun, 06 Nov 1994 08:49:37 GMT'') 0 = 784111777"
proof -
  have "imf_fixdate (lit ''Sun'') 1994 11 6 8 49 37 = lit ''Sun, 06 Nov 1994 08:49:37 GMT''"
    "list_all is_alpha (lit ''Sun'')" "int 6 \<le> month_len (int 1994) (int 11)"
    "date_to_unix_time (int 1994) (int 11) (int 6) (int 8 * 3600 + int 49 * 60 + int 37) = 784111777" by code_simp+
  with http_date_imf_fixdate [of "lit ''Sun''" 1994 11 6 8 49 37 0] show ?thesis by simp
qed

end
