(* ===== verification/Http_Session.thy ===== *)
theory Http_Session
  imports Internal Http_Header Http_Url Http_Date
begin

text \<open>
  The HTTP client session of \<open>src/http.c\<close>: the request state machine \<open>sm_run\<close> with all its states,
  the transmit and receive loops, the request head, header inspection, and the session calls.

  Everything outside the repository is a parameter. The environment record \<open>http_env\<close> holds, as
  functions that take and return the state \<open>'w\<close> of the world, the transport callbacks, the wolfSSL
  calls on the connection, the clock and the allocator: every call of the code draws a fresh
  allocation oracle \<open>mem\<close>, so any pattern of failing allocations is covered. A read returns the
  bytes received (a positive return) or a return code that is not positive.

  Limits of the model: the doubling of the buffer capacity is on unbounded naturals (capacities that
  reach half the address space cannot be allocated), request bodies are below 2 GiB (\<open>nb_write\<close>
  casts the length given to wolfSSL to \<open>int\<close>), pointers the callers must pass are not \<open>NULL\<close>, and the
  early reservation under \<open>WOLFSSL_STATIC_MEMORY\<close> in \<open>sm_read_head\<close> is not compiled in.
\<close>

section \<open>State\<close>

abbreviation (input) WOLFCERT_HTTP_HEADER_BUDGET :: nat where "WOLFCERT_HTTP_HEADER_BUDGET \<equiv> 8192"
abbreviation (input) WOLFCERT_HTTP_READ_CHUNK :: nat where "WOLFCERT_HTTP_READ_CHUNK \<equiv> 2048"
abbreviation (input) WOLFCERT_HTTP_MAX_INTERIM :: nat where "WOLFCERT_HTTP_MAX_INTERIM \<equiv> 8"
abbreviation (input) WOLFCERT_HTTP_DEFAULT_MAX_BODY :: nat where "WOLFCERT_HTTP_DEFAULT_MAX_BODY \<equiv> 65536"
abbreviation (input) WOLFCERT_HTTP_AUTH_BUF_SZ :: nat where "WOLFCERT_HTTP_AUTH_BUF_SZ \<equiv> 512"

datatype SmState = SM_IDLE | SM_HANDSHAKE | SM_WRITE_HEAD | SM_WRITE_BODY | SM_READ_HEAD
  | SM_READ_BODY_CL | SM_READ_BODY_EOF | SM_READ_BODY_CHUNKED | SM_DONE

datatype io_read = Received "byte list" | Read_Ret int

text \<open>What \<open>wolfSSL_get_error\<close> tells the library.\<close>

datatype ssl_error = SSL_WANT_READ | SSL_WANT_WRITE | SSL_ZERO_RETURN | SSL_MEMORY | SSL_OTHER

record 'w http_env =
  e_alloc :: "'w \<Rightarrow> mem \<times> 'w"
  e_read :: "nat \<Rightarrow> int \<Rightarrow> 'w \<Rightarrow> io_read \<times> 'w"
  e_write :: "byte list \<Rightarrow> int \<Rightarrow> 'w \<Rightarrow> int \<times> 'w"
  e_ssl_connect :: "int \<Rightarrow> 'w \<Rightarrow> bool \<times> 'w"
  e_ssl_read :: "nat \<Rightarrow> int \<Rightarrow> 'w \<Rightarrow> io_read \<times> 'w"
  e_ssl_write :: "byte list \<Rightarrow> int \<Rightarrow> 'w \<Rightarrow> int \<times> 'w"
  e_ssl_get_error :: "'w \<Rightarrow> ssl_error"
  e_time :: "'w \<Rightarrow> int"
  e_b64 :: b64_fun

record WolfCertHttpResponse =
  rs_status_code :: int
  rs_content_type :: "cstring option"
  rs_body :: "byte list"
  rs_retry_after_sec :: int

record WolfCertHttpRequest =
  rq_method :: "cstring option"
  rq_url :: "cstring option"
  rq_content_type :: "cstring option"
  rq_content_transfer_encoding :: "cstring option"
  rq_accept :: "cstring option"
  rq_basic_user :: "cstring option"
  rq_basic_pass :: "cstring option"
  rq_body :: "byte list"

text \<open>
  The session. \<open>hs_ssl\<close> is \<open>conn.ssl != NULL\<close>; \<open>hs_head\<close> is \<open>sm_head\<close> with its length;
  \<open>hs_rx\<close> is the filled part \<open>sm_rx[0 .. sm_rx_len)\<close> of the receive buffer and \<open>hs_rx_cap\<close> its
  capacity; \<open>hs_resp\<close> is the address of the caller's response object, held while a request is in
  flight, and \<open>hs_out\<close> the content of that object.
\<close>

record WolfCertHttpSession =
  hs_ssl :: bool
  hs_connected :: bool
  hs_io_timeout_ms :: int
  hs_base :: WolfCertUrl
  hs_max_body :: nat
  hs_closed :: bool
  hs_keep_alive :: bool
  hs_head_request :: bool
  hs_state :: SmState
  hs_head :: "byte list option"
  hs_tx_off :: nat
  hs_body :: "byte list"
  hs_rx :: "byte list"
  hs_rx_cap :: nat
  hs_hdr_end :: nat
  hs_hdr_scan :: nat
  hs_scan :: WolfCertChunkScan
  hs_content_length :: int
  hs_content_type :: "cstring option"
  hs_status :: int
  hs_retry_after_sec :: int
  hs_interim :: nat
  hs_resp :: "nat option"
  hs_out :: WolfCertHttpResponse

definition rx_max :: "nat \<Rightarrow> nat" where
  "rx_max max_body = size_add max_body WOLFCERT_HTTP_HEADER_BUDGET"

definition empty_response :: WolfCertHttpResponse where
  "empty_response = \<lparr>rs_status_code = 0, rs_content_type = None, rs_body = [], rs_retry_after_sec = 0\<rparr>"

definition sm_drop_head :: "WolfCertHttpSession \<Rightarrow> WolfCertHttpSession" where
  "sm_drop_head s = s\<lparr>hs_head := None\<rparr>"

definition sm_reset :: "WolfCertHttpSession \<Rightarrow> WolfCertHttpSession" where
  "sm_reset s =
     (sm_drop_head s)\<lparr>hs_body := [], hs_tx_off := 0, hs_rx := [], hs_rx_cap := 0, hs_hdr_end := 0,
        hs_hdr_scan := 0, hs_content_length := -1, hs_content_type := None, hs_status := 0,
        hs_resp := None, hs_retry_after_sec := 0, hs_head_request := False, hs_interim := 0,
        hs_scan := chunk_scan_init 0\<rparr>"

definition sm_fail :: "WolfCertHttpSession \<Rightarrow> wc_rc \<Rightarrow> wc_rc \<times> WolfCertHttpSession" where
  "sm_fail s rc = (rc, sm_reset (s\<lparr>hs_closed := True\<rparr>))"

definition wolfcert_http_session_set_close :: "WolfCertHttpSession \<Rightarrow> WolfCertHttpSession" where
  "wolfcert_http_session_set_close s = s\<lparr>hs_keep_alive := False\<rparr>"

section \<open>The I/O callbacks given to wolfSSL\<close>

datatype cbio = CBIO_Bytes nat | CBIO_ERR_GENERAL | CBIO_ERR_WANT_READ | CBIO_ERR_WANT_WRITE | CBIO_ERR_CONN_CLOSE

definition wolfcert_cbio_recv :: "'w http_env \<Rightarrow> int \<Rightarrow> int \<Rightarrow> 'w \<Rightarrow> (cbio \<times> byte list) \<times> 'w" where
  "wolfcert_cbio_recv env io_timeout sz w =
     (if sz \<le> 0 then ((CBIO_ERR_GENERAL, []), w)
      else case e_read env (nat sz) io_timeout w of
             (Received d, w') \<Rightarrow>
               if length d > nat sz then ((CBIO_ERR_GENERAL, []), w')
               else if d \<noteq> [] then ((CBIO_Bytes (length d), d), w')
               else ((CBIO_ERR_CONN_CLOSE, []), w')
           | (Read_Ret r, w') \<Rightarrow>
               if r = 0 then ((CBIO_ERR_CONN_CLOSE, []), w')
               else if r = rc_code WOLFCERT_ERR_WANT_READ \<or> r = rc_code WOLFCERT_ERR_WANT_WRITE
               then ((CBIO_ERR_WANT_READ, []), w')
               else if r = rc_code WOLFCERT_ERR_CONN_CLOSED then ((CBIO_ERR_CONN_CLOSE, []), w')
               else ((CBIO_ERR_GENERAL, []), w'))"

definition wolfcert_cbio_send :: "'w http_env \<Rightarrow> int \<Rightarrow> byte list \<Rightarrow> 'w \<Rightarrow> cbio \<times> 'w" where
  "wolfcert_cbio_send env io_timeout buf w =
     (if buf = [] then (CBIO_ERR_GENERAL, w)
      else case e_write env buf io_timeout w of (r, w') \<Rightarrow>
             (if r > int (length buf) then (CBIO_ERR_GENERAL, w')
              else if r > 0 then (CBIO_Bytes (nat r), w')
              else if r = rc_code WOLFCERT_ERR_WANT_READ \<or> r = rc_code WOLFCERT_ERR_WANT_WRITE
              then (CBIO_ERR_WANT_WRITE, w')
              else if r = rc_code WOLFCERT_ERR_CONN_CLOSED then (CBIO_ERR_CONN_CLOSE, w')
              else (CBIO_ERR_GENERAL, w')))"

section \<open>Writing and reading\<close>

definition ssl_want :: "ssl_error \<Rightarrow> wc_rc option" where
  "ssl_want e = (case e of SSL_WANT_READ \<Rightarrow> Some WOLFCERT_ERR_WANT_READ
     | SSL_WANT_WRITE \<Rightarrow> Some WOLFCERT_ERR_WANT_WRITE | _ \<Rightarrow> None)"

definition ret_want :: "int \<Rightarrow> wc_rc option" where
  "ret_want r = (if r = rc_code WOLFCERT_ERR_WANT_READ then Some WOLFCERT_ERR_WANT_READ
     else if r = rc_code WOLFCERT_ERR_WANT_WRITE then Some WOLFCERT_ERR_WANT_WRITE else None)"

text \<open>One pass of the loop of \<open>nb_write\<close>: a return with its code, or the bytes taken.\<close>

definition nb_write_step ::
  "'w http_env \<Rightarrow> bool \<Rightarrow> int \<Rightarrow> byte list \<Rightarrow> nat \<Rightarrow> 'w \<Rightarrow> (wc_rc + nat) \<times> 'w" where
  "nb_write_step env ssl io_timeout buf off w =
     (if ssl then
        (case e_ssl_write env (drop off buf) io_timeout w of (r, w') \<Rightarrow>
           if r > 0 then (Inr (nat r), w')
           else case ssl_want (e_ssl_get_error env w') of
                  Some rc \<Rightarrow> (Inl rc, w')
                | None \<Rightarrow> (Inl WOLFCERT_ERR_IO, w'))
      else
        (case e_write env (drop off buf) io_timeout w of (r, w') \<Rightarrow>
           if r > 0 \<and> nat r > length buf - off then (Inl WOLFCERT_ERR_IO, w')
           else if r > 0 then (Inr (nat r), w')
           else case ret_want r of
                  Some rc \<Rightarrow> (Inl rc, w')
                | None \<Rightarrow> (Inl WOLFCERT_ERR_IO, w')))"

lemma nb_write_step_pos: "nb_write_step env ssl t buf off w = (Inr n, w') \<Longrightarrow> n > 0"
  by (auto simp: nb_write_step_def split: if_splits prod.splits option.splits)

function nb_write ::
  "'w http_env \<Rightarrow> bool \<Rightarrow> int \<Rightarrow> byte list \<Rightarrow> nat \<Rightarrow> 'w \<Rightarrow> wc_rc \<times> nat \<times> 'w" where
  "nb_write env ssl io_timeout buf off w =
     (if off < length buf then
        (case nb_write_step env ssl io_timeout buf off w of
           (Inl rc, w') \<Rightarrow> (rc, off, w')
         | (Inr n, w') \<Rightarrow> nb_write env ssl io_timeout buf (off + n) w')
      else (WOLFCERT_OK, off, w))"
  by pat_completeness auto
termination
  by (relation "measure (\<lambda>(env, ssl, t, buf, off, w). length buf - off)")
    (auto dest!: nb_write_step_pos [OF sym])

declare nb_write.simps [simp del]

function grow_cap :: "nat \<Rightarrow> nat \<Rightarrow> nat" where
  "grow_cap nc want = (if 0 < nc \<and> nc < want then grow_cap (nc * 2) want else nc)"
  by pat_completeness auto
termination
  by (relation "measure (\<lambda>(nc, want). want - nc)") auto

declare grow_cap.simps [simp del]

lemma grow_cap_ge: "0 < nc \<Longrightarrow> want \<le> grow_cap nc want"
proof (induction nc want rule: grow_cap.induct)
  case (1 nc want)
  then show ?case by (cases "nc < want") (simp_all add: grow_cap.simps [of nc want])
qed

lemma grow_cap_mono: "nc \<le> grow_cap nc want"
proof (induction nc want rule: grow_cap.induct)
  case (1 nc want)
  then show ?case by (cases "0 < nc \<and> nc < want") (auto simp: grow_cap.simps [of nc want])
qed

definition nb_rx_reserve ::
  "'w http_env \<Rightarrow> nat \<Rightarrow> WolfCertHttpSession \<Rightarrow> 'w \<Rightarrow> wc_rc \<times> WolfCertHttpSession \<times> 'w" where
  "nb_rx_reserve env need s w =
     (let want = size_add (length (hs_rx s)) need; mx = rx_max (hs_max_body s) in
      if want \<le> hs_rx_cap s then (WOLFCERT_OK, s, w)
      else if want > mx then (WOLFCERT_ERR_PROTOCOL, s, w)
      else let nc0 = grow_cap (if hs_rx_cap s \<noteq> 0 then hs_rx_cap s else 1024) want;
               nc = (if nc0 > mx then mx else nc0)
           in case e_alloc env w of (mem, w') \<Rightarrow>
                if \<not> mem 0 then (WOLFCERT_ERR_MEMORY, s, w')
                else (WOLFCERT_OK, s\<lparr>hs_rx_cap := nc\<rparr>, w'))"

text \<open>
  \<open>nb_read_some\<close> returns the code, \<open>*ended\<close>, the session and the world. When the buffer is full to
  the limit it probes for one byte into a local variable.
\<close>

definition read_result :: "bool \<Rightarrow> ssl_error \<Rightarrow> bool \<Rightarrow> nat \<Rightarrow> io_read \<Rightarrow> wc_rc \<times> bool \<times> byte list" where
  "read_result ssl e probing room res =
     (if ssl then
        (case res of
           Received d \<Rightarrow>
             if d \<noteq> [] then (if probing then (WOLFCERT_ERR_PROTOCOL, False, []) else (WOLFCERT_OK, False, d))
             else (WOLFCERT_OK, True, [])
         | Read_Ret r \<Rightarrow>
             if r = 0 then (WOLFCERT_OK, True, [])
             else (case e of
                     SSL_WANT_READ \<Rightarrow> (WOLFCERT_ERR_WANT_READ, False, [])
                   | SSL_WANT_WRITE \<Rightarrow> (WOLFCERT_ERR_WANT_WRITE, False, [])
                   | SSL_ZERO_RETURN \<Rightarrow> (WOLFCERT_OK, True, [])
                   | _ \<Rightarrow> (WOLFCERT_ERR_IO, False, [])))
      else
        (case res of
           Received d \<Rightarrow>
             if d \<noteq> [] then
               (if length d > room then (WOLFCERT_ERR_IO, False, [])
                else if probing then (WOLFCERT_ERR_PROTOCOL, False, [])
                else (WOLFCERT_OK, False, d))
             else (WOLFCERT_OK, True, [])
         | Read_Ret r \<Rightarrow>
             if r = 0 \<or> r = rc_code WOLFCERT_ERR_CONN_CLOSED then (WOLFCERT_OK, True, [])
             else case ret_want r of
                    Some rc \<Rightarrow> (rc, False, [])
                  | None \<Rightarrow> (WOLFCERT_ERR_IO, False, [])))"

definition nb_read_into ::
  "'w http_env \<Rightarrow> bool \<Rightarrow> nat \<Rightarrow> WolfCertHttpSession \<Rightarrow> 'w \<Rightarrow> wc_rc \<times> bool \<times> WolfCertHttpSession \<times> 'w" where
  "nb_read_into env probing room s w =
     (case (if hs_ssl s then e_ssl_read env room (hs_io_timeout_ms s) w
            else e_read env room (hs_io_timeout_ms s) w) of (res, w') \<Rightarrow>
        (case read_result (hs_ssl s) (e_ssl_get_error env w') probing room res of (rc, ended, d) \<Rightarrow>
           (rc, ended, s\<lparr>hs_rx := hs_rx s @ d\<rparr>, w')))"

definition nb_read_some ::
  "'w http_env \<Rightarrow> nat \<Rightarrow> WolfCertHttpSession \<Rightarrow> 'w \<Rightarrow> wc_rc \<times> bool \<times> WolfCertHttpSession \<times> 'w" where
  "nb_read_some env limit s w =
     (if length (hs_rx s) > limit then (WOLFCERT_ERR_PROTOCOL, False, s, w)
      else let room = limit - length (hs_rx s) in
           if room = 0 then nb_read_into env True 1 s w
           else let room' = (if room > WOLFCERT_HTTP_READ_CHUNK then WOLFCERT_HTTP_READ_CHUNK else room)
                in case nb_rx_reserve env room' s w of (rc, s', w') \<Rightarrow>
                     if rc \<noteq> WOLFCERT_OK then (rc, False, s', w')
                     else nb_read_into env False room' s' w')"

section \<open>The request head\<close>

definition opt_line :: "string \<Rightarrow> cstring option \<Rightarrow> byte list" where
  "opt_line name v = (case v of None \<Rightarrow> [] | Some x \<Rightarrow> lit name @ x @ CRLF)"

definition opt_len :: "cstring option \<Rightarrow> nat" where
  "opt_len v = (case v of None \<Rightarrow> 0 | Some x \<Rightarrow> length x)"

definition port_frag :: "WolfCertUrl \<Rightarrow> byte list" where
  "port_frag u =
     (if (url_tls u \<and> url_port u \<noteq> 443) \<or> (\<not> url_tls u \<and> url_port u \<noteq> 80)
      then b_colon # nat_text (nat (url_port u)) else [])"

definition head_text :: "bool \<Rightarrow> WolfCertHttpRequest \<Rightarrow> WolfCertUrl \<Rightarrow> byte list \<Rightarrow> byte list" where
  "head_text keep_alive req u auth =
     (case rq_method req of None \<Rightarrow> [] | Some m \<Rightarrow> m) @ lit '' '' @ url_path u @ lit '' HTTP/1.1'' @ CRLF @
     lit ''Host: '' @ (if host_is_ip_literal (url_host u) then lit ''['' else []) @ url_host u @
       (if host_is_ip_literal (url_host u) then lit '']'' else []) @ port_frag u @ CRLF @
     lit ''User-Agent: wolfCert/0.1.0'' @ CRLF @
     lit ''Connection: '' @ (if keep_alive then lit ''keep-alive'' else lit ''close'') @ CRLF @
     opt_line ''Accept: '' (rq_accept req) @
     opt_line ''Content-Type: '' (rq_content_type req) @
     opt_line ''Content-Transfer-Encoding: '' (rq_content_transfer_encoding req) @
     lit ''Content-Length: '' @ nat_text (length (rq_body req)) @ CRLF @ auth @ CRLF"

text \<open>The allocations are those of \<open>basic_auth_header\<close> (0, 1) and the head (2).\<close>

definition build_head ::
  "b64_fun \<Rightarrow> mem \<Rightarrow> WolfCertHttpSession \<Rightarrow> WolfCertHttpRequest \<Rightarrow> WolfCertUrl \<Rightarrow> WolfCertHttpSession wc_result" where
  "build_head b64 mem s req u =
     (case basic_auth_header b64 mem (rq_basic_user req) (rq_basic_pass req) WOLFCERT_HTTP_AUTH_BUF_SZ of
        Inl rc \<Rightarrow> Err rc
      | Inr auth \<Rightarrow>
          let head_cap = 1024 + opt_len (rq_content_type req) + opt_len (rq_content_transfer_encoding req) +
                opt_len (rq_accept req) + length (url_host u) + length (url_path u) + length auth;
              head = head_text (hs_keep_alive s) req u auth
          in if \<not> mem 2 then Err WOLFCERT_ERR_MEMORY
             else if length head \<ge> head_cap then Err WOLFCERT_ERR_MEMORY
             else Ok (s\<lparr>hs_head := Some head, hs_tx_off := 0\<rparr>))"

section \<open>The response head\<close>

text \<open>
  The allocations are the header copy (0) and the values of Transfer-Encoding (1), Content-Length
  (2), Content-Type (3) and Retry-After (4).
\<close>

definition hdr_chunked :: "bool \<Rightarrow> cstring \<Rightarrow> bool" where
  "hdr_chunked alloc hdrs =
     (case find_header alloc hdrs (lit ''Transfer-Encoding'') of
        None \<Rightarrow> False | Some te \<Rightarrow> ci_cmp te (lit ''chunked'') = 0)"

definition hdr_content_length :: "bool \<Rightarrow> cstring \<Rightarrow> int" where
  "hdr_content_length alloc hdrs =
     (case find_header alloc hdrs (lit ''Content-Length'') of None \<Rightarrow> -1 | Some v \<Rightarrow> fst (strtol v))"

definition hdr_retry_after :: "bool \<Rightarrow> int \<Rightarrow> cstring \<Rightarrow> int" where
  "hdr_retry_after alloc now hdrs =
     (case find_header alloc hdrs (lit ''Retry-After'') of None \<Rightarrow> 0 | Some v \<Rightarrow> parse_retry_after now v)"

definition body_state :: "bool \<Rightarrow> int \<Rightarrow> SmState" where
  "body_state chunked cl =
     (if chunked then SM_READ_BODY_CHUNKED else if cl \<ge> 0 then SM_READ_BODY_CL else SM_READ_BODY_EOF)"

definition inspect_headers ::
  "mem \<Rightarrow> int \<Rightarrow> WolfCertHttpSession \<Rightarrow> wc_rc \<times> WolfCertHttpSession" where
  "inspect_headers mem now s =
     (if \<not> mem 0 then (WOLFCERT_ERR_MEMORY, s)
      else let hdrs = cstr (take (hs_hdr_end s) (hs_rx s)) in
        case parse_status_line hdrs of
          Inl rc \<Rightarrow> (rc, s)
        | Inr status \<Rightarrow>
            if status = 101 then (WOLFCERT_ERR_PROTOCOL, s\<lparr>hs_status := status\<rparr>)
            else if status_is_interim status then (WOLFCERT_OK, s\<lparr>hs_status := status\<rparr>)
            else
              let nobody = response_has_no_body status (hs_head_request s);
                  chunked = (\<not> nobody \<and> hdr_chunked (mem 1) hdrs);
                  cl = (if nobody then 0 else hdr_content_length (mem 2) hdrs)
              in if \<not> nobody \<and> cl \<ge> 0 \<and> nat cl > hs_max_body s
                 then (WOLFCERT_ERR_PROTOCOL, s\<lparr>hs_status := status, hs_content_length := cl\<rparr>)
                 else (WOLFCERT_OK,
                       s\<lparr>hs_status := status, hs_content_length := cl,
                         hs_scan := (if chunked then chunk_scan_init (hs_max_body s) else hs_scan s),
                         hs_state := body_state chunked cl,
                         hs_content_type := find_header (mem 3) hdrs (lit ''Content-Type''),
                         hs_retry_after_sec := hdr_retry_after (mem 4) now hdrs\<rparr>))"

definition sm_take_body :: "WolfCertHttpSession \<Rightarrow> nat \<Rightarrow> byte list \<times> WolfCertHttpSession" where
  "sm_take_body s body_len =
     (if body_len = 0 then ([], s)
      else (take body_len (memmove (hs_rx s) 0 (hs_hdr_end s) body_len), s\<lparr>hs_rx := [], hs_rx_cap := 0\<rparr>))"

definition sm_publish :: "WolfCertHttpSession \<Rightarrow> byte list \<Rightarrow> WolfCertHttpSession" where
  "sm_publish s body =
     s\<lparr>hs_out := \<lparr>rs_status_code = hs_status s, rs_content_type = hs_content_type s, rs_body = body,
                  rs_retry_after_sec = hs_retry_after_sec s\<rparr>,
       hs_content_type := None, hs_state := SM_DONE\<rparr>"

section \<open>The steps of the state machine\<close>

type_synonym 'w sm_step_fun = "'w http_env \<Rightarrow> WolfCertHttpSession \<Rightarrow> 'w \<Rightarrow> wc_rc \<times> WolfCertHttpSession \<times> 'w"

definition sm_handshake :: "'w sm_step_fun" where
  "sm_handshake env s w =
     (case e_ssl_connect env (hs_io_timeout_ms s) w of (ok, w') \<Rightarrow>
        if ok then (WOLFCERT_OK, s\<lparr>hs_state := SM_WRITE_HEAD\<rparr>, w')
        else (case e_ssl_get_error env w' of
                SSL_WANT_READ \<Rightarrow> (WOLFCERT_ERR_WANT_READ, s, w')
              | SSL_WANT_WRITE \<Rightarrow> (WOLFCERT_ERR_WANT_WRITE, s, w')
              | SSL_MEMORY \<Rightarrow> (WOLFCERT_ERR_MEMORY, s, w')
              | _ \<Rightarrow> (WOLFCERT_ERR_TLS, s, w')))"

definition sm_write_head :: "'w sm_step_fun" where
  "sm_write_head env s w =
     (let head = (case hs_head s of None \<Rightarrow> [] | Some h \<Rightarrow> h) in
      case nb_write env (hs_ssl s) (hs_io_timeout_ms s) head (hs_tx_off s) w of (rc, off, w') \<Rightarrow>
        (let s1 = s\<lparr>hs_tx_off := off\<rparr> in
         if rc = WOLFCERT_OK
         then (rc, (sm_drop_head s1)\<lparr>hs_tx_off := 0,
                 hs_state := (if length (hs_body s) > 0 then SM_WRITE_BODY else SM_READ_HEAD)\<rparr>, w')
         else (rc, s1, w')))"

definition sm_write_body :: "'w sm_step_fun" where
  "sm_write_body env s w =
     (case nb_write env (hs_ssl s) (hs_io_timeout_ms s) (hs_body s) (hs_tx_off s) w of (rc, off, w') \<Rightarrow>
        (let s1 = s\<lparr>hs_tx_off := off\<rparr> in
         if rc = WOLFCERT_OK then (rc, s1\<lparr>hs_state := SM_READ_HEAD\<rparr>, w') else (rc, s1, w')))"

definition end_at :: "byte list \<Rightarrow> nat \<Rightarrow> bool" where
  "end_at rx i \<longleftrightarrow> rx ! i = b_CR \<and> rx ! (i + 1) = b_LF \<and> rx ! (i + 2) = b_CR \<and> rx ! (i + 3) = b_LF"

function find_hdr_end :: "byte list \<Rightarrow> nat \<Rightarrow> nat" where
  "find_hdr_end rx i = (if i + 3 < length rx \<and> \<not> end_at rx i then find_hdr_end rx (Suc i) else i)"
  by pat_completeness auto
termination
  by (relation "measure (\<lambda>(rx, i). length rx - i)") auto

declare find_hdr_end.simps [simp del]

definition sm_read_head :: "'w sm_step_fun" where
  "sm_read_head env s w =
     (let i = find_hdr_end (hs_rx s) (hs_hdr_scan s) in
      if i + 3 \<ge> length (hs_rx s) then
        (if length (hs_rx s) \<ge> WOLFCERT_HTTP_HEADER_BUDGET then (WOLFCERT_ERR_PROTOCOL, s, w)
         else case nb_read_some env WOLFCERT_HTTP_HEADER_BUDGET (s\<lparr>hs_hdr_scan := i\<rparr>) w of
                (rc, ended, s', w') \<Rightarrow>
                  (if rc = WOLFCERT_OK \<and> ended then WOLFCERT_ERR_IO else rc, s', w'))
      else
        (case e_alloc env w of (mem, w1) \<Rightarrow>
           (case inspect_headers mem (e_time env w1) (s\<lparr>hs_hdr_end := i + 4\<rparr>) of (rc, s1) \<Rightarrow>
              if rc \<noteq> WOLFCERT_OK then (rc, s1, w1)
              else if \<not> status_is_interim (hs_status s1) then (WOLFCERT_OK, s1, w1)
              else let s2 = s1\<lparr>hs_interim := Suc (hs_interim s1)\<rparr> in
                   if hs_interim s2 > WOLFCERT_HTTP_MAX_INTERIM then (WOLFCERT_ERR_PROTOCOL, s2, w1)
                   else (WOLFCERT_OK,
                         s2\<lparr>hs_rx := drop (hs_hdr_end s2) (hs_rx s2), hs_hdr_end := 0, hs_hdr_scan := 0\<rparr>, w1))))"

definition cl_grow ::
  "'w http_env \<Rightarrow> nat \<Rightarrow> WolfCertHttpSession \<Rightarrow> 'w \<Rightarrow> bool \<times> WolfCertHttpSession \<times> 'w" where
  "cl_grow env fin s w =
     (if hs_rx_cap s < fin
      then (case e_alloc env w of (mem, w1) \<Rightarrow>
              if mem 0 then (True, s\<lparr>hs_rx_cap := fin\<rparr>, w1) else (False, s, w1))
      else (True, s, w))"

definition sm_read_body_cl :: "'w sm_step_fun" where
  "sm_read_body_cl env s w =
     (let body_len = nat (hs_content_length s); fin = size_add (hs_hdr_end s) body_len in
      if length (hs_rx s) < fin then
        (case cl_grow env fin s w of (grown, s1, w1) \<Rightarrow>
           if \<not> grown then (WOLFCERT_ERR_MEMORY, s1, w1)
           else (case nb_read_some env fin s1 w1 of (rc, ended, s', w') \<Rightarrow>
                   (if rc = WOLFCERT_OK \<and> ended then WOLFCERT_ERR_IO else rc, s', w')))
      else
        (let s1 = (if length (hs_rx s) > fin then s\<lparr>hs_closed := True\<rparr> else s) in
         case sm_take_body s1 body_len of (body, s2) \<Rightarrow> (WOLFCERT_OK, sm_publish s2 body, w)))"

definition sm_read_body_chunked :: "'w sm_step_fun" where
  "sm_read_body_chunked env s w =
     (case wolfcert_http_chunked_complete (drop (hs_hdr_end s) (hs_rx s)) (hs_scan s) of (framed, scan) \<Rightarrow>
        (let s1 = s\<lparr>hs_scan := scan\<rparr> in
         if framed < 0 then (WOLFCERT_ERR_PROTOCOL, s1, w)
         else if framed = 0 then
           (case nb_read_some env (rx_max (hs_max_body s)) s1 w of (rc, ended, s', w') \<Rightarrow>
              (if rc = WOLFCERT_OK \<and> ended then WOLFCERT_ERR_IO else rc, s', w'))
         else
           (let fin = size_add (hs_hdr_end s) (cs_pos scan) in
            case chunked_decode_into (hs_rx s1) 0 (hs_hdr_end s) (cs_pos scan) of (rc, M, out_len) \<Rightarrow>
              (let body_len = (case out_len of None \<Rightarrow> 0 | Some n \<Rightarrow> n);
                   s2 = s1\<lparr>hs_rx := M\<rparr> in
               if rc \<noteq> WOLFCERT_OK then (rc, s2, w)
               else let s3 = (if length (hs_rx s2) > fin then s2\<lparr>hs_closed := True\<rparr> else s2)\<lparr>hs_hdr_end := 0\<rparr>
                    in case sm_take_body s3 body_len of (body, s4) \<Rightarrow> (WOLFCERT_OK, sm_publish s4 body, w)))))"

definition sm_read_body_eof :: "'w sm_step_fun" where
  "sm_read_body_eof env s w =
     (case nb_read_some env (size_add (hs_hdr_end s) (hs_max_body s)) s w of (rc, ended, s1, w') \<Rightarrow>
        if rc \<noteq> WOLFCERT_OK \<or> \<not> ended then (rc, s1, w')
        else (let body_len = length (hs_rx s1) - hs_hdr_end s1 in
              case sm_take_body s1 body_len of (body, s2) \<Rightarrow>
                (WOLFCERT_OK, (sm_publish s2 body)\<lparr>hs_closed := True\<rparr>, w')))"

definition sm_done :: "'w sm_step_fun" where
  "sm_done env s w =
     (WOLFCERT_OK, (sm_drop_head s)\<lparr>hs_rx := [], hs_rx_cap := 0, hs_hdr_end := 0, hs_hdr_scan := 0,
        hs_resp := None, hs_state := SM_IDLE\<rparr>, w)"

definition sm_step :: "'w sm_step_fun" where
  "sm_step env s w =
     (case hs_state s of
        SM_HANDSHAKE \<Rightarrow> sm_handshake env s w
      | SM_WRITE_HEAD \<Rightarrow> sm_write_head env s w
      | SM_WRITE_BODY \<Rightarrow> sm_write_body env s w
      | SM_READ_HEAD \<Rightarrow> sm_read_head env s w
      | SM_READ_BODY_CL \<Rightarrow> sm_read_body_cl env s w
      | SM_READ_BODY_EOF \<Rightarrow> sm_read_body_eof env s w
      | SM_READ_BODY_CHUNKED \<Rightarrow> sm_read_body_chunked env s w
      | SM_DONE \<Rightarrow> sm_done env s w
      | SM_IDLE \<Rightarrow> (WOLFCERT_ERR_GENERIC, s, w))"

section \<open>The loop ends\<close>

lemma ret_want_cases: "ret_want r = Some rc \<Longrightarrow> rc = WOLFCERT_ERR_WANT_READ \<or> rc = WOLFCERT_ERR_WANT_WRITE"
  by (auto simp: ret_want_def split: if_splits)

lemma read_result_data:
  "read_result ssl e probing room res = (rc, ended, d) \<Longrightarrow>
     (d \<noteq> [] \<longleftrightarrow> rc = WOLFCERT_OK \<and> \<not> ended) \<and> (probing \<longrightarrow> d = [])"
  by (cases res; cases ssl; cases e)
    (auto simp: read_result_def split: if_splits option.splits dest!: ret_want_cases)

lemma nb_read_into_res:
  assumes "nb_read_into env probing room s w = (rc, ended, s', w')"
  obtains d where "s' = s\<lparr>hs_rx := hs_rx s @ d\<rparr>" "d \<noteq> [] \<longleftrightarrow> rc = WOLFCERT_OK \<and> \<not> ended" "probing \<longrightarrow> d = []"
proof -
  obtain res w1 where io: "(if hs_ssl s then e_ssl_read env room (hs_io_timeout_ms s) w
      else e_read env room (hs_io_timeout_ms s) w) = (res, w1)" by fastforce
  obtain rc1 ended1 d where r: "read_result (hs_ssl s) (e_ssl_get_error env w1) probing room res = (rc1, ended1, d)"
    by (rule prod_cases3)
  have "s' = s\<lparr>hs_rx := hs_rx s @ d\<rparr>" "rc1 = rc" "ended1 = ended"
    using assms unfolding nb_read_into_def io by (simp_all add: r)
  then show thesis using read_result_data [OF r] that by blast
qed

lemma nb_rx_reserve_res:
  assumes "nb_rx_reserve env need s w = (rc, s', w')"
  obtains cap where "s' = s\<lparr>hs_rx_cap := cap\<rparr>"
    "rc = WOLFCERT_OK \<Longrightarrow> size_add (length (hs_rx s)) need \<le> cap"
    "cap = hs_rx_cap s \<or> (hs_rx_cap s \<le> cap \<or> cap = rx_max (hs_max_body s)) \<and> cap \<le> rx_max (hs_max_body s)"
proof -
  define want where "want = size_add (length (hs_rx s)) need"
  define nc where "nc = grow_cap (if hs_rx_cap s \<noteq> 0 then hs_rx_cap s else 1024) want"
  have nc: "want \<le> nc" "hs_rx_cap s \<le> nc"
    unfolding nc_def using grow_cap_ge [of "if hs_rx_cap s \<noteq> 0 then hs_rx_cap s else 1024" want]
      grow_cap_mono [of "if hs_rx_cap s \<noteq> 0 then hs_rx_cap s else 1024" want] by (auto split: if_splits)
  obtain mem w1 where al: "e_alloc env w = (mem, w1)" by (cases "e_alloc env w")
  have res: "(if want \<le> hs_rx_cap s then (WOLFCERT_OK, s, w)
      else if want > rx_max (hs_max_body s) then (WOLFCERT_ERR_PROTOCOL, s, w)
      else if \<not> mem 0 then (WOLFCERT_ERR_MEMORY, s, w1)
      else (WOLFCERT_OK, s\<lparr>hs_rx_cap := (if nc > rx_max (hs_max_body s) then rx_max (hs_max_body s) else nc)\<rparr>, w1)) = (rc, s', w')"
    using assms unfolding nb_rx_reserve_def Let_def want_def nc_def al by (simp only: prod.case)
  consider "want \<le> hs_rx_cap s" | "\<not> want \<le> hs_rx_cap s" "want > rx_max (hs_max_body s) \<or> \<not> mem 0"
    | "\<not> want \<le> hs_rx_cap s" "\<not> want > rx_max (hs_max_body s)" "mem 0" by blast
  then consider "s' = s" "rc = WOLFCERT_OK \<Longrightarrow> want \<le> hs_rx_cap s"
    | "s' = s\<lparr>hs_rx_cap := (if nc > rx_max (hs_max_body s) then rx_max (hs_max_body s) else nc)\<rparr>" "want \<le> rx_max (hs_max_body s)"
  proof cases
    case 1
    then show ?thesis using res that(1) by simp
  next
    case 2
    then have "s' = s" "rc \<noteq> WOLFCERT_OK" using res by (auto split: if_splits)
    then show ?thesis using that(1) by blast
  next
    case 3
    then have "s' = s\<lparr>hs_rx_cap := (if nc > rx_max (hs_max_body s) then rx_max (hs_max_body s) else nc)\<rparr>" "want \<le> rx_max (hs_max_body s)"
      using res by auto
    then show ?thesis by (rule that(2))
  qed
  then show thesis
  proof cases
    case 1
    then show ?thesis using that [of "hs_rx_cap s"] by (simp add: want_def)
  next
    case 2
    then show ?thesis using that [of "(if nc > rx_max (hs_max_body s) then rx_max (hs_max_body s) else nc)"] nc by (auto simp: want_def)
  qed
qed

lemma nb_read_some_res:
  assumes "nb_read_some env limit s w = (rc, ended, s', w')"
  obtains cap d where "s' = s\<lparr>hs_rx_cap := cap, hs_rx := hs_rx s @ d\<rparr>"
    "d \<noteq> [] \<longleftrightarrow> rc = WOLFCERT_OK \<and> \<not> ended" "d \<noteq> [] \<longrightarrow> length (hs_rx s) < limit"
proof -
  consider (over) "length (hs_rx s) > limit" | (full) "length (hs_rx s) = limit"
    | (room) "length (hs_rx s) < limit" by linarith
  then show thesis
  proof cases
    case over
    then show ?thesis using assms that [of "[]" "hs_rx_cap s"] by (simp add: nb_read_some_def)
  next
    case full
    then have "nb_read_into env True 1 s w = (rc, ended, s', w')" using assms by (simp add: nb_read_some_def)
    then obtain d where "s' = s\<lparr>hs_rx := hs_rx s @ d\<rparr>" "d \<noteq> [] \<longleftrightarrow> rc = WOLFCERT_OK \<and> \<not> ended" "d = []"
      by (rule nb_read_into_res) auto
    then show ?thesis using that [of d "hs_rx_cap s"] by simp
  next
    case room
    define n where "n = (if limit - length (hs_rx s) > WOLFCERT_HTTP_READ_CHUNK then WOLFCERT_HTTP_READ_CHUNK
      else limit - length (hs_rx s))"
    obtain rc1 s1 w1 where r: "nb_rx_reserve env n s w = (rc1, s1, w1)" by (rule prod_cases3)
    obtain cap where cap: "s1 = s\<lparr>hs_rx_cap := cap\<rparr>" using nb_rx_reserve_res [OF r] by metis
    show ?thesis
    proof (cases "rc1 = WOLFCERT_OK")
      case False
      then have "rc = rc1 \<and> \<not> ended \<and> s' = s1" using assms room r
        by (simp add: nb_read_some_def Let_def n_def [symmetric])
      then show ?thesis using that [of "[]" cap] cap False by simp
    next
      case True
      then have "nb_read_into env False n s1 w1 = (rc, ended, s', w')" using assms room r
        by (simp add: nb_read_some_def Let_def n_def [symmetric])
      then obtain d where "s' = s1\<lparr>hs_rx := hs_rx s1 @ d\<rparr>" "d \<noteq> [] \<longleftrightarrow> rc = WOLFCERT_OK \<and> \<not> ended"
        by (rule nb_read_into_res)
      then show ?thesis using that [of d cap] cap room by simp
    qed
  qed
qed

text \<open>What a successful inspection of the header block leaves in the session.\<close>

lemma inspect_headers_ok:
  assumes "inspect_headers mem now s = (WOLFCERT_OK, s1)"
  obtains (interim) st where "status_is_interim st" "s1 = s\<lparr>hs_status := st\<rparr>"
      "parse_status_line (cstr (take (hs_hdr_end s) (hs_rx s))) = Ok st"
  | (final) st cl scan bst ct ra where "\<not> status_is_interim st"
      "parse_status_line (cstr (take (hs_hdr_end s) (hs_rx s))) = Ok st"
      "s1 = s\<lparr>hs_status := st, hs_content_length := cl, hs_scan := scan, hs_state := bst,
        hs_content_type := ct, hs_retry_after_sec := ra\<rparr>"
      "bst \<in> {SM_READ_BODY_CL, SM_READ_BODY_EOF, SM_READ_BODY_CHUNKED}"
      "bst = SM_READ_BODY_CL \<longrightarrow> 0 \<le> cl \<and> nat cl \<le> hs_max_body s"
      "bst = SM_READ_BODY_CHUNKED \<longrightarrow> scan = chunk_scan_init (hs_max_body s)"
      "bst = SM_READ_BODY_EOF \<longrightarrow> cl < 0"
proof -
  define hdrs where "hdrs = cstr (take (hs_hdr_end s) (hs_rx s))"
  have m: "mem 0" using assms by (cases "mem 0") (auto simp: inspect_headers_def)
  obtain st where st: "parse_status_line hdrs = Ok st" using assms m
    by (cases "parse_status_line hdrs")
      (auto simp: inspect_headers_def hdrs_def [symmetric] parse_status_line_def Let_def split: if_splits option.splits)
  define nobody where "nobody = response_has_no_body st (hs_head_request s)"
  define chunked where "chunked = (\<not> nobody \<and> hdr_chunked (mem 1) hdrs)"
  define cl where "cl = (if nobody then 0 else hdr_content_length (mem 2) hdrs)"
  have eq: "(if st = 101 then (WOLFCERT_ERR_PROTOCOL, s\<lparr>hs_status := st\<rparr>)
     else if status_is_interim st then (WOLFCERT_OK, s\<lparr>hs_status := st\<rparr>)
     else if \<not> nobody \<and> cl \<ge> 0 \<and> nat cl > hs_max_body s
     then (WOLFCERT_ERR_PROTOCOL, s\<lparr>hs_status := st, hs_content_length := cl\<rparr>)
     else (WOLFCERT_OK, s\<lparr>hs_status := st, hs_content_length := cl,
            hs_scan := (if chunked then chunk_scan_init (hs_max_body s) else hs_scan s),
            hs_state := body_state chunked cl,
            hs_content_type := find_header (mem 3) hdrs (lit ''Content-Type''),
            hs_retry_after_sec := hdr_retry_after (mem 4) now hdrs\<rparr>)) = (WOLFCERT_OK, s1)"
    using assms m st
    by (simp only: inspect_headers_def Let_def hdrs_def [symmetric] sum.case nobody_def chunked_def cl_def
        not_True_eq_False if_False)
  show thesis
  proof (cases "status_is_interim st")
    case True
    then have "st \<noteq> 101" by (auto simp: status_is_interim_def)
    then have "s1 = s\<lparr>hs_status := st\<rparr>" using eq True by simp
    then show ?thesis using True st hdrs_def by (intro interim [of st]) simp_all
  next
    case False
    have ok: "st \<noteq> 101" "\<not> (\<not> nobody \<and> cl \<ge> 0 \<and> nat cl > hs_max_body s)"
      using eq False by (cases "st = 101"; cases "\<not> nobody \<and> cl \<ge> 0 \<and> nat cl > hs_max_body s"; simp)+
    have "nobody \<Longrightarrow> cl = 0" by (simp add: cl_def)
    then have cap: "0 \<le> cl \<Longrightarrow> nat cl \<le> hs_max_body s" using ok(2) by auto
    show ?thesis
    proof (rule final [OF False])
      show "parse_status_line (cstr (take (hs_hdr_end s) (hs_rx s))) = Ok st" using st by (simp add: hdrs_def)
      show "s1 = s\<lparr>hs_status := st, hs_content_length := cl,
            hs_scan := (if chunked then chunk_scan_init (hs_max_body s) else hs_scan s),
            hs_state := body_state chunked cl,
            hs_content_type := find_header (mem 3) hdrs (lit ''Content-Type''),
            hs_retry_after_sec := hdr_retry_after (mem 4) now hdrs\<rparr>"
        using eq False ok by (simp only: if_False) simp
    qed (use cap in \<open>auto simp: body_state_def split: if_splits\<close>)
  qed
qed

fun sm_rank :: "SmState \<Rightarrow> nat" where
  "sm_rank SM_HANDSHAKE = 7"
| "sm_rank SM_WRITE_HEAD = 6"
| "sm_rank SM_WRITE_BODY = 5"
| "sm_rank SM_READ_HEAD = 4"
| "sm_rank SM_READ_BODY_CL = 3"
| "sm_rank SM_READ_BODY_EOF = 3"
| "sm_rank SM_READ_BODY_CHUNKED = 3"
| "sm_rank SM_DONE = 2"
| "sm_rank SM_IDLE = 1"

text \<open>The number of bytes a reading state may hold.\<close>

definition sm_limit :: "WolfCertHttpSession \<Rightarrow> nat" where
  "sm_limit s =
     (case hs_state s of
        SM_READ_HEAD \<Rightarrow> WOLFCERT_HTTP_HEADER_BUDGET
      | SM_READ_BODY_CL \<Rightarrow> size_add (hs_hdr_end s) (nat (hs_content_length s))
      | SM_READ_BODY_EOF \<Rightarrow> size_add (hs_hdr_end s) (hs_max_body s)
      | SM_READ_BODY_CHUNKED \<Rightarrow> rx_max (hs_max_body s)
      | _ \<Rightarrow> 0)"

definition sm_less :: "(WolfCertHttpSession \<times> WolfCertHttpSession) set" where
  "sm_less = measures [\<lambda>s. sm_rank (hs_state s), \<lambda>s. Suc WOLFCERT_HTTP_MAX_INTERIM - hs_interim s,
     \<lambda>s. sm_limit s - length (hs_rx s)]"

lemma wf_sm_less: "wf sm_less"
  by (simp add: sm_less_def)

lemma sm_less_rank: "sm_rank (hs_state s') < sm_rank (hs_state s) \<Longrightarrow> (s', s) \<in> sm_less"
  by (simp add: sm_less_def measures_def inv_image_def)

lemma sm_less_read:
  assumes "s' = s\<lparr>hs_rx_cap := cap, hs_rx := hs_rx s @ d\<rparr>" "d \<noteq> []" "length (hs_rx s) < sm_limit s"
  shows "(s', s) \<in> sm_less"
proof -
  have "sm_limit s' = sm_limit s" unfolding assms(1) by (simp add: sm_limit_def split: SmState.split)
  moreover have "sm_limit s - (length (hs_rx s) + length d) < sm_limit s - length (hs_rx s)"
    using assms by (intro diff_less_mono2) simp_all
  ultimately show ?thesis using assms(1) by (simp add: sm_less_def measures_def inv_image_def)
qed

text \<open>A pass that reads: it fails, waits, or adds at least one byte below the limit.\<close>

lemma read_pass:
  assumes "(case nb_read_some env limit s w of (rc, ended, s', w') \<Rightarrow>
      (if rc = WOLFCERT_OK \<and> ended then WOLFCERT_ERR_IO else rc, s', w')) = (WOLFCERT_OK, s1, w1)"
  obtains cap d where "s1 = s\<lparr>hs_rx_cap := cap, hs_rx := hs_rx s @ d\<rparr>" "d \<noteq> []" "length (hs_rx s) < limit"
    "nb_read_some env limit s w = (WOLFCERT_OK, False, s1, w1)"
proof -
  obtain rc ended s' w' where r: "nb_read_some env limit s w = (rc, ended, s', w')" by (rule prod_cases4)
  have "rc = WOLFCERT_OK" "\<not> ended" "s' = s1" "w' = w1" using assms r by (auto split: if_splits)
  then show thesis using nb_read_some_res [OF r] that r by metis
qed

lemma cl_grow_res:
  assumes "cl_grow env fin s w = (g, s1, w1)"
  obtains c where "s1 = s\<lparr>hs_rx_cap := c\<rparr>" "hs_rx_cap s \<le> c" "g \<longrightarrow> fin \<le> c" "c = hs_rx_cap s \<or> c = fin"
proof (cases "hs_rx_cap s < fin \<and> fst (e_alloc env w) 0")
  case True
  then have "s1 = s\<lparr>hs_rx_cap := fin\<rparr>" using assms by (simp add: cl_grow_def case_prod_unfold)
  then show thesis using True by (intro that [of fin]) auto
next
  case False
  then have "s1 = s" "g \<longrightarrow> fin \<le> hs_rx_cap s"
    using assms by (auto simp: cl_grow_def case_prod_unfold split: if_splits)
  then show thesis by (intro that [of "hs_rx_cap s"]) auto
qed

lemma sm_step_less:
  assumes step: "sm_step env s w = (WOLFCERT_OK, s', w')"
  shows "(s', s) \<in> sm_less"
proof (cases "hs_state s")
  case SM_IDLE
  then show ?thesis using step by (simp add: sm_step_def)
next
  case SM_HANDSHAKE
  then have "hs_state s' = SM_WRITE_HEAD" using step
    by (auto simp: sm_step_def sm_handshake_def split: prod.splits if_splits ssl_error.splits)
  then show ?thesis using SM_HANDSHAKE by (intro sm_less_rank) simp
next
  case SM_WRITE_HEAD
  then have "hs_state s' \<in> {SM_WRITE_BODY, SM_READ_HEAD}" using step
    by (auto simp: sm_step_def sm_write_head_def Let_def split: prod.splits if_splits)
  then show ?thesis using SM_WRITE_HEAD by (intro sm_less_rank) auto
next
  case SM_WRITE_BODY
  then have "hs_state s' = SM_READ_HEAD" using step
    by (auto simp: sm_step_def sm_write_body_def Let_def split: prod.splits if_splits)
  then show ?thesis using SM_WRITE_BODY by (intro sm_less_rank) simp
next
  case SM_READ_HEAD
  define i where "i = find_hdr_end (hs_rx s) (hs_hdr_scan s)"
  note def = step [unfolded sm_step_def SM_READ_HEAD SmState.case sm_read_head_def Let_def, folded i_def]
  show ?thesis
  proof (cases "i + 3 \<ge> length (hs_rx s)")
    case True
    then have lt: "length (hs_rx s) < WOLFCERT_HTTP_HEADER_BUDGET"
      using def by (cases "length (hs_rx s) < WOLFCERT_HTTP_HEADER_BUDGET") auto
    then have "(case nb_read_some env WOLFCERT_HTTP_HEADER_BUDGET (s\<lparr>hs_hdr_scan := i\<rparr>) w of
        (rc, ended, s', w') \<Rightarrow> (if rc = WOLFCERT_OK \<and> ended then WOLFCERT_ERR_IO else rc, s', w')) = (WOLFCERT_OK, s', w')"
      using def True by simp
    then obtain cap d where
      "s' = (s\<lparr>hs_hdr_scan := i\<rparr>)\<lparr>hs_rx_cap := cap, hs_rx := hs_rx (s\<lparr>hs_hdr_scan := i\<rparr>) @ d\<rparr>" "d \<noteq> []"
      by (rule read_pass)
    then show ?thesis using sm_less_read [of s' "s\<lparr>hs_hdr_scan := i\<rparr>" d cap] lt SM_READ_HEAD
      by (simp add: sm_limit_def sm_less_def measures_def inv_image_def)
  next
    case False
    obtain mem w1 where al: "e_alloc env w = (mem, w1)" by (cases "e_alloc env w")
    obtain rc s1 where ins: "inspect_headers mem (e_time env w1) (s\<lparr>hs_hdr_end := i + 4\<rparr>) = (rc, s1)"
      by (cases "inspect_headers mem (e_time env w1) (s\<lparr>hs_hdr_end := i + 4\<rparr>)")
    have rc: "rc = WOLFCERT_OK" using def False al ins by (cases "rc = WOLFCERT_OK") auto
    from ins [unfolded rc] show ?thesis
    proof (cases rule: inspect_headers_ok)
      case (interim st)
      then have "hs_interim s < WOLFCERT_HTTP_MAX_INTERIM"
        "s' = s\<lparr>hs_hdr_end := 0, hs_status := st, hs_interim := Suc (hs_interim s),
          hs_rx := drop (i + 4) (hs_rx s), hs_hdr_scan := 0\<rparr>"
        using def False al ins rc by (auto split: if_splits)
      moreover from this(1) have "8 - hs_interim s < 9 - hs_interim s" by linarith
      ultimately show ?thesis by (simp add: sm_less_def measures_def inv_image_def)
    next
      case (final st cl scan bst ct ra)
      then have "s' = s1" using def False al ins rc by simp
      then show ?thesis using final SM_READ_HEAD by (intro sm_less_rank) auto
    qed
  qed
next
  case SM_READ_BODY_CL
  define fin where "fin = size_add (hs_hdr_end s) (nat (hs_content_length s))"
  note def = step [unfolded sm_step_def SM_READ_BODY_CL SmState.case sm_read_body_cl_def Let_def, folded fin_def]
  show ?thesis
  proof (cases "length (hs_rx s) < fin")
    case True
    obtain grown s1 w1 where g: "cl_grow env fin s w = (grown, s1, w1)" by (rule prod_cases3)
    obtain c where s1: "s1 = s\<lparr>hs_rx_cap := c\<rparr>" by (rule cl_grow_res [OF g])
    have "(case nb_read_some env fin s1 w1 of
        (rc, ended, s', w') \<Rightarrow> (if rc = WOLFCERT_OK \<and> ended then WOLFCERT_ERR_IO else rc, s', w')) = (WOLFCERT_OK, s', w')"
      using def True g by (cases grown) simp_all
    then obtain cap d where "s' = s1\<lparr>hs_rx_cap := cap, hs_rx := hs_rx s1 @ d\<rparr>" "d \<noteq> []" by (rule read_pass)
    then show ?thesis using sm_less_read [of s' s d cap] True SM_READ_BODY_CL
      by (simp add: s1 sm_limit_def fin_def)
  next
    case False
    then have "hs_state s' = SM_DONE" using def by (auto simp: sm_publish_def split: prod.splits)
    then show ?thesis using SM_READ_BODY_CL by (intro sm_less_rank) simp
  qed
next
  case SM_READ_BODY_EOF
  obtain rc ended s1 w1 where
    r: "nb_read_some env (size_add (hs_hdr_end s) (hs_max_body s)) s w = (rc, ended, s1, w1)"
    by (rule prod_cases4)
  note def = step [unfolded sm_step_def SM_READ_BODY_EOF SmState.case sm_read_body_eof_def r prod.case Let_def]
  show ?thesis
  proof (cases ended)
    case True
    then have "hs_state s' = SM_DONE" using def by (auto simp: sm_publish_def split: prod.splits if_splits)
    then show ?thesis using SM_READ_BODY_EOF by (intro sm_less_rank) simp
  next
    case False
    then have "rc = WOLFCERT_OK" "s' = s1" using def by simp_all
    with False nb_read_some_res [OF r] obtain cap d where
      "s' = s\<lparr>hs_rx_cap := cap, hs_rx := hs_rx s @ d\<rparr>" "d \<noteq> []"
      "length (hs_rx s) < size_add (hs_hdr_end s) (hs_max_body s)" by metis
    then show ?thesis using SM_READ_BODY_EOF by (intro sm_less_read) (simp_all add: sm_limit_def)
  qed
next
  case SM_READ_BODY_CHUNKED
  obtain framed scan where
    f: "wolfcert_http_chunked_complete (drop (hs_hdr_end s) (hs_rx s)) (hs_scan s) = (framed, scan)" by force
  note def = step [unfolded sm_step_def SM_READ_BODY_CHUNKED SmState.case sm_read_body_chunked_def f prod.case Let_def]
  consider "framed < 0" | "framed = 0" | "framed > 0" by linarith
  then show ?thesis
  proof cases
    case 1
    then show ?thesis using def by simp
  next
    case 2
    then have "(case nb_read_some env (rx_max (hs_max_body s)) (s\<lparr>hs_scan := scan\<rparr>) w of
        (rc, ended, s', w') \<Rightarrow> (if rc = WOLFCERT_OK \<and> ended then WOLFCERT_ERR_IO else rc, s', w')) = (WOLFCERT_OK, s', w')"
      using def by simp
    then obtain cap d where
      "s' = (s\<lparr>hs_scan := scan\<rparr>)\<lparr>hs_rx_cap := cap, hs_rx := hs_rx (s\<lparr>hs_scan := scan\<rparr>) @ d\<rparr>" "d \<noteq> []"
      "length (hs_rx (s\<lparr>hs_scan := scan\<rparr>)) < rx_max (hs_max_body s)" by (rule read_pass)
    then show ?thesis using sm_less_read [of s' "s\<lparr>hs_scan := scan\<rparr>" d cap] SM_READ_BODY_CHUNKED
      by (simp add: sm_limit_def sm_less_def measures_def inv_image_def)
  next
    case 3
    obtain rc M out_len where c:
      "chunked_decode_into (hs_rx (s\<lparr>hs_scan := scan\<rparr>)) 0 (hs_hdr_end s) (cs_pos scan) = (rc, M, out_len)"
      by (rule prod_cases3)
    note def' = def [unfolded c prod.case]
    have "rc = WOLFCERT_OK" using def' 3 by (cases "rc = WOLFCERT_OK") simp_all
    then have "hs_state s' = SM_DONE" using def' 3 by (simp add: case_prod_unfold sm_publish_def) auto
    then show ?thesis using SM_READ_BODY_CHUNKED by (intro sm_less_rank) simp
  qed
next
  case SM_DONE
  then have "hs_state s' = SM_IDLE" using step by (auto simp: sm_step_def sm_done_def)
  then show ?thesis using SM_DONE by (intro sm_less_rank) simp
qed

text \<open>
  The loop of \<open>sm_run\<close>. It ends for every behaviour of the environment, since each pass either
  leaves the loop or makes progress in \<open>sm_less\<close>.
\<close>

function sm_loop :: "'w http_env \<Rightarrow> WolfCertHttpSession \<Rightarrow> 'w \<Rightarrow> wc_rc \<times> WolfCertHttpSession \<times> 'w" where
  "sm_loop env s w =
     (case sm_step env s w of (rc, s', w') \<Rightarrow>
        if rc = WOLFCERT_OK \<and> hs_state s' \<noteq> SM_IDLE then sm_loop env s' w' else (rc, s', w'))"
  by pat_completeness auto
termination
  by (relation "inv_image sm_less (\<lambda>(env, s, w). s)") (auto simp: wf_sm_less intro: sm_step_less [OF sym])

declare sm_loop.simps [simp del]

definition sm_run :: "'w http_env \<Rightarrow> WolfCertHttpSession \<Rightarrow> 'w \<Rightarrow> wc_rc \<times> WolfCertHttpSession \<times> 'w" where
  "sm_run env s w =
     (case sm_loop env s w of (rc, s', w') \<Rightarrow>
        if rc = WOLFCERT_ERR_WANT_READ \<or> rc = WOLFCERT_ERR_WANT_WRITE then (rc, s', w')
        else if rc \<noteq> WOLFCERT_OK then (case sm_fail s' rc of (rc', s'') \<Rightarrow> (rc', s'', w'))
        else (WOLFCERT_OK, s', w'))"

section \<open>Session calls\<close>

text \<open>\<open>resp\<close> is the address of the caller's response object.\<close>

definition sm_begin ::
  "'w http_env \<Rightarrow> WolfCertHttpSession \<Rightarrow> WolfCertHttpRequest \<Rightarrow> nat \<Rightarrow> 'w \<Rightarrow> wc_rc \<times> WolfCertHttpSession \<times> 'w" where
  "sm_begin env s0 req resp w =
     (let s = s0\<lparr>hs_out := empty_response\<rparr> in
      case e_alloc env w of (mem, w1) \<Rightarrow>
        (case wolfcert_http_url_parse mem (rq_url req) of
           Inl rc \<Rightarrow> (rc, s, w1)
         | Inr u \<Rightarrow>
             if url_tls u \<noteq> url_tls (hs_base s) \<or> url_port u \<noteq> url_port (hs_base s) \<or>
                ci_cmp (url_host u) (url_host (hs_base s)) \<noteq> 0
             then (WOLFCERT_ERR_BAD_ARG, s, w1)
             else (case e_alloc env w1 of (mem2, w2) \<Rightarrow>
                     (case build_head (e_b64 env) mem2 s req u of
                        Inl rc \<Rightarrow> (rc, s, w2)
                      | Inr s1 \<Rightarrow>
                          (WOLFCERT_OK,
                           s1\<lparr>hs_resp := Some resp, hs_body := rq_body req,
                              hs_head_request := (rq_method req = Some (lit ''HEAD'')),
                              hs_interim := 0,
                              hs_state := (if hs_state s1 \<noteq> SM_HANDSHAKE then SM_WRITE_HEAD else SM_HANDSHAKE)\<rparr>,
                           w2)))))"

definition http_session_call ::
  "'w http_env \<Rightarrow> WolfCertHttpSession \<Rightarrow> WolfCertHttpRequest \<Rightarrow> nat \<Rightarrow> bool \<Rightarrow> 'w \<Rightarrow>
     wc_rc \<times> WolfCertHttpSession \<times> 'w" where
  "http_session_call env s req resp nb w =
     (if rq_url req = None \<or> rq_method req = None then (WOLFCERT_ERR_BAD_ARG, s, w)
      else if hs_closed s then (WOLFCERT_ERR_CONN_CLOSED, s, w)
      else if hs_resp s \<noteq> None \<and> (\<not> nb \<or> hs_resp s \<noteq> Some resp) then (WOLFCERT_ERR_BAD_ARG, s, w)
      else let s1 = s\<lparr>hs_io_timeout_ms := (if nb then 0 else -1)\<rparr> in
        case (if hs_resp s1 = None then sm_begin env s1 req resp w else (WOLFCERT_OK, s1, w)) of
          (rc, s2, w2) \<Rightarrow>
            if rc \<noteq> WOLFCERT_OK then (rc, s2, w2)
            else (case sm_run env s2 w2 of (rc3, s3, w3) \<Rightarrow>
                    if \<not> nb \<and> (rc3 = WOLFCERT_ERR_WANT_READ \<or> rc3 = WOLFCERT_ERR_WANT_WRITE)
                    then (case sm_fail s3 WOLFCERT_ERR_IO of (rc4, s4) \<Rightarrow> (rc4, s4, w3))
                    else (rc3, s3, w3)))"

definition wolfcert_http_session_request where
  "wolfcert_http_session_request env s req resp w = http_session_call env s req resp False w"

definition wolfcert_http_session_request_nb where
  "wolfcert_http_session_request_nb env s req resp w = http_session_call env s req resp True w"

section \<open>Opening and closing a session\<close>

text \<open>
  A transport: each of the four callbacks may be \<open>NULL\<close>. \<open>connect\<close> gets host, port and timeout and
  returns a code, which may be any integer.
\<close>

record 'w WolfCertTransport =
  t_connect :: "(cstring \<Rightarrow> int \<Rightarrow> int \<Rightarrow> 'w \<Rightarrow> int \<times> 'w) option"
  t_read :: "(nat \<Rightarrow> int \<Rightarrow> 'w \<Rightarrow> io_read \<times> 'w) option"
  t_write :: "(byte list \<Rightarrow> int \<Rightarrow> 'w \<Rightarrow> int \<times> 'w) option"
  t_disconnect :: "('w \<Rightarrow> 'w) option"
  t_ctx :: "nat option"

definition transport_cbs :: "'w WolfCertTransport \<Rightarrow> nat" where
  "transport_cbs t =
     of_bool (t_connect t \<noteq> None) + of_bool (t_read t \<noteq> None) +
     of_bool (t_write t \<noteq> None) + of_bool (t_disconnect t \<noteq> None)"

text \<open>
  \<open>builtin\<close> is the built-in transport, \<open>None\<close> in a build without it. The result is the code as an
  integer, since a negative code of the callback is passed on unchanged, and the transport of a
  connection that is open.
\<close>

definition dial ::
  "'w WolfCertTransport option \<Rightarrow> 'w WolfCertTransport \<Rightarrow> cstring \<Rightarrow> int \<Rightarrow> int \<Rightarrow> 'w \<Rightarrow>
     (int + 'w WolfCertTransport) \<times> 'w" where
  "dial builtin transport host port timeout_ms w =
     (let cbs = transport_cbs transport;
          choice = (if cbs = 4 then Some transport
                    else if cbs \<noteq> 0 \<or> t_ctx transport \<noteq> None then None
                    else builtin)
      in case choice of
           None \<Rightarrow> (Inl (rc_code WOLFCERT_ERR_BAD_ARG), w)
         | Some t \<Rightarrow>
             (case t_connect t of
                None \<Rightarrow> (Inl (rc_code WOLFCERT_ERR_BAD_ARG), w)
              | Some connect \<Rightarrow>
                  (case connect host port timeout_ms w of (rc, w') \<Rightarrow>
                     if rc = 0 then (Inr t, w')
                     else (Inl (if rc < 0 then rc else rc_code WOLFCERT_ERR_IO), w'))))"

definition conn_close :: "'w WolfCertTransport \<Rightarrow> bool \<Rightarrow> 'w \<Rightarrow> 'w" where
  "conn_close t connected w =
     (if connected then (case t_disconnect t of None \<Rightarrow> w | Some d \<Rightarrow> d w) else w)"

record TlsDials =
  td_trust_anchors :: "byte list option"
  td_verify_server :: bool
  td_client_cert :: "byte list option"
  td_client_key :: "byte list option"
  td_allow_post_handshake_auth :: bool

datatype filetype = WOLFSSL_FILETYPE_ASN1 | WOLFSSL_FILETYPE_PEM

definition buf_filetype :: "byte list \<Rightarrow> filetype" where
  "buf_filetype buf = (if wolfcert_buffer_is_der (Some buf) then WOLFSSL_FILETYPE_ASN1 else WOLFSSL_FILETYPE_PEM)"

text \<open>
  What wolfSSL does and how it was built: creation of the context and of the connection, the loaders
  of trust anchors, certificate and key, the compiled-in features, and the shutdown of a connection.
\<close>

record 'w tls_lib =
  tl_ctx_new :: bool
  tl_no_tls12 :: bool
  tl_has_pha :: bool
  tl_has_sni :: bool
  tl_load_verify :: "byte list \<Rightarrow> filetype \<Rightarrow> bool"
  tl_use_cert :: "byte list \<Rightarrow> filetype \<Rightarrow> bool"
  tl_use_key :: "byte list \<Rightarrow> filetype \<Rightarrow> bool"
  tl_ssl_new :: bool
  tl_shutdown :: "'w \<Rightarrow> 'w"

datatype name_check = No_Name_Check | Check_Ip cstring | Check_Domain cstring

text \<open>How the connection is set up: the arguments of the wolfSSL calls made on it.\<close>

record tls_setup =
  ts_min_tls13 :: bool
  ts_pha :: bool
  ts_anchors :: "byte list option"
  ts_verify_peer :: bool
  ts_identity :: "(byte list \<times> byte list) option"
  ts_sni :: "(cstring \<times> nat) option"
  ts_name_check :: name_check

definition load_anchors :: "'w tls_lib \<Rightarrow> TlsDials \<Rightarrow> byte list option wc_result" where
  "load_anchors lib dials =
     (case td_trust_anchors dials of
        None \<Rightarrow> Ok None
      | Some ta \<Rightarrow> if length ta = 0 then Ok None
                    else if tl_load_verify lib ta (buf_filetype ta) then Ok (Some ta)
                    else Err WOLFCERT_ERR_TLS)"

definition load_identity :: "'w tls_lib \<Rightarrow> TlsDials \<Rightarrow> (byte list \<times> byte list) option wc_result" where
  "load_identity lib dials =
     (case (td_client_cert dials, td_client_key dials) of
        (Some c, Some k) \<Rightarrow>
          if \<not> tl_use_cert lib c (buf_filetype c) then Err WOLFCERT_ERR_TLS
          else if \<not> tl_use_key lib k (buf_filetype k) then Err WOLFCERT_ERR_TLS
          else Ok (Some (c, k))
      | _ \<Rightarrow> Ok None)"

definition peer_name_check :: "bool \<Rightarrow> cstring option \<Rightarrow> name_check" where
  "peer_name_check verify_server sni_host =
     (case sni_host of
        None \<Rightarrow> No_Name_Check
      | Some h \<Rightarrow>
          if verify_server
          then (case wolfcert_parse_ip h of Inr ip \<Rightarrow> Check_Ip h | Inl e \<Rightarrow> Check_Domain h)
          else No_Name_Check)"

definition setup_tls_ex :: "'w tls_lib \<Rightarrow> TlsDials \<Rightarrow> cstring option \<Rightarrow> tls_setup wc_result" where
  "setup_tls_ex lib dials sni_host =
     (if \<not> tl_ctx_new lib then Err WOLFCERT_ERR_TLS
      else if td_allow_post_handshake_auth dials \<and> \<not> tl_has_pha lib then Err WOLFCERT_ERR_UNSUPPORTED
      else
        (case load_anchors lib dials of
           Inl rc \<Rightarrow> Err rc
         | Inr anchors \<Rightarrow>
             (case load_identity lib dials of
                Inl rc \<Rightarrow> Err rc
              | Inr identity \<Rightarrow>
                  if \<not> tl_ssl_new lib then Err WOLFCERT_ERR_TLS
                  else Ok \<lparr>ts_min_tls13 = tl_no_tls12 lib, ts_pha = td_allow_post_handshake_auth dials,
                           ts_anchors = anchors, ts_verify_peer = td_verify_server dials,
                           ts_identity = identity,
                           ts_sni = (if tl_has_sni lib then map_option (\<lambda>h. (h, length h mod 2 ^ 16)) sni_host
                                     else None),
                           ts_name_check = peer_name_check (td_verify_server dials) sni_host\<rparr>)))"

record 'w WolfCertHttpSessionCfg =
  hc_base_url :: "cstring option"
  hc_dials :: TlsDials
  hc_timeout_ms :: int
  hc_max_response_bytes :: nat
  hc_transport :: "'w WolfCertTransport"

text \<open>An open session, with the transport and the TLS set-up of its connection.\<close>

record 'w open_session =
  os_session :: WolfCertHttpSession
  os_transport :: "'w WolfCertTransport"
  os_tls :: "tls_setup option"

definition new_session :: "nat \<Rightarrow> WolfCertUrl \<Rightarrow> WolfCertHttpSession" where
  "new_session max_body u =
     \<lparr>hs_ssl = False, hs_connected = False, hs_io_timeout_ms = 0, hs_base = u, hs_max_body = max_body,
      hs_closed = False, hs_keep_alive = True, hs_head_request = False, hs_state = SM_IDLE,
      hs_head = None, hs_tx_off = 0, hs_body = [], hs_rx = [], hs_rx_cap = 0, hs_hdr_end = 0,
      hs_hdr_scan = 0, hs_scan = chunk_scan_init 0, hs_content_length = 0, hs_content_type = None,
      hs_status = 0, hs_retry_after_sec = 0, hs_interim = 0, hs_resp = None, hs_out = empty_response\<rparr>"

definition wolfcert_http_session_close :: "'w tls_lib \<Rightarrow> 'w open_session \<Rightarrow> 'w \<Rightarrow> 'w" where
  "wolfcert_http_session_close lib os w =
     (let w1 = (if hs_ssl (os_session os) then tl_shutdown lib w else w)
      in conn_close (os_transport os) (hs_connected (os_session os)) w1)"

text \<open>The allocation of the session is allocation 0 of a first draw; the URL has a draw of its own.\<close>

definition wolfcert_http_session_open ::
  "'w http_env \<Rightarrow> 'w tls_lib \<Rightarrow> 'w WolfCertTransport option \<Rightarrow> 'w WolfCertHttpSessionCfg \<Rightarrow> 'w \<Rightarrow>
     (int + 'w open_session) \<times> 'w" where
  "wolfcert_http_session_open env lib builtin cfg w =
     (if hc_base_url cfg = None then (Inl (rc_code WOLFCERT_ERR_BAD_ARG), w)
      else case e_alloc env w of (mem, w1) \<Rightarrow>
        if \<not> mem 0 then (Inl (rc_code WOLFCERT_ERR_MEMORY), w1)
        else case e_alloc env w1 of (mem2, w2) \<Rightarrow>
          (case wolfcert_http_url_parse mem2 (hc_base_url cfg) of
             Inl rc \<Rightarrow> (Inl (rc_code rc), w2)
           | Inr u \<Rightarrow>
               let max_body = (if hc_max_response_bytes cfg \<noteq> 0 then hc_max_response_bytes cfg
                               else WOLFCERT_HTTP_DEFAULT_MAX_BODY) in
               (case dial builtin (hc_transport cfg) (url_host u) (url_port u) (hc_timeout_ms cfg) w2 of
                  (Inl rc, w3) \<Rightarrow> (Inl rc, w3)
                | (Inr t, w3) \<Rightarrow>
                    let s = (new_session max_body u)\<lparr>hs_connected := True\<rparr>;
                        plain = \<lparr>os_session = s, os_transport = t, os_tls = None\<rparr> in
                    if \<not> url_tls u then (Inr plain, w3)
                    else (case setup_tls_ex lib (hc_dials cfg) (Some (url_host u)) of
                            Inl rc \<Rightarrow> (Inl (rc_code rc), wolfcert_http_session_close lib plain w3)
                          | Inr setup \<Rightarrow>
                              (Inr (plain\<lparr>os_session := s\<lparr>hs_ssl := True, hs_state := SM_HANDSHAKE\<rparr>,
                                          os_tls := Some setup\<rparr>), w3)))))"

text \<open>
  The session reads and writes through the transport it was opened with, so the one-shot call runs
  on the environment with the callbacks of that transport.
\<close>

definition with_transport :: "'w WolfCertTransport \<Rightarrow> 'w http_env \<Rightarrow> 'w http_env" where
  "with_transport t env =
     env\<lparr>e_read := (case t_read t of None \<Rightarrow> e_read env | Some f \<Rightarrow> f),
         e_write := (case t_write t of None \<Rightarrow> e_write env | Some f \<Rightarrow> f)\<rparr>"

record 'w one_shot_cfg =
  oc_dials :: TlsDials
  oc_timeout_ms :: int
  oc_max_response_bytes :: nat
  oc_transport :: "'w WolfCertTransport"

definition wolfcert_http_request ::
  "'w http_env \<Rightarrow> 'w tls_lib \<Rightarrow> 'w WolfCertTransport option \<Rightarrow> WolfCertHttpRequest \<Rightarrow> 'w one_shot_cfg \<Rightarrow>
     nat \<Rightarrow> 'w \<Rightarrow> (int \<times> WolfCertHttpResponse option) \<times> 'w" where
  "wolfcert_http_request env lib builtin req oc resp w =
     (if rq_url req = None \<or> rq_method req = None then ((rc_code WOLFCERT_ERR_BAD_ARG, None), w)
      else
        (case wolfcert_http_session_open env lib builtin
                \<lparr>hc_base_url = rq_url req,
                 hc_dials = (oc_dials oc)\<lparr>td_allow_post_handshake_auth := False\<rparr>,
                 hc_timeout_ms = oc_timeout_ms oc, hc_max_response_bytes = oc_max_response_bytes oc,
                 hc_transport = oc_transport oc\<rparr> w of
           (Inl rc, w1) \<Rightarrow> ((rc, Some empty_response), w1)
         | (Inr os, w1) \<Rightarrow>
             (case http_session_call (with_transport (os_transport os) env)
                     (wolfcert_http_session_set_close (os_session os)) req resp False w1 of
                (rc, s2, w2) \<Rightarrow>
                  ((rc_code rc, Some (hs_out s2)),
                   wolfcert_http_session_close lib (os\<lparr>os_session := s2\<rparr>) w2))))"

definition wolfcert_http_response_free :: "WolfCertHttpResponse \<Rightarrow> WolfCertHttpResponse" where
  "wolfcert_http_response_free r = r\<lparr>rs_content_type := None, rs_body := []\<rparr>"

end
