(* ===== verification/Http_Transcript.thy ===== *)
theory Http_Transcript
  imports Http_Session
begin

text \<open>
  The request state machine as a labelled transition relation. \<open>sm_trans\<close> abstracts one pass of the
  loop of \<open>sm_run\<close>: the bytes it hands to the peer, the bytes it takes from the peer, its return
  code and the new session. \<open>sm_step_trans\<close> shows that every pass of the model of the code is such
  a transition, for every transport and every TLS library that keeps the contract \<open>ssl_ok\<close>.
\<close>

section \<open>The environment\<close>

definition rc_want :: "wc_rc \<Rightarrow> bool" where
  "rc_want rc \<longleftrightarrow> rc = WOLFCERT_ERR_WANT_READ \<or> rc = WOLFCERT_ERR_WANT_WRITE"

lemma rc_want_simps [simp]:
  "rc_want WOLFCERT_ERR_WANT_READ" "rc_want WOLFCERT_ERR_WANT_WRITE" "\<not> rc_want WOLFCERT_OK"
  "\<not> rc_want WOLFCERT_ERR_IO" "\<not> rc_want WOLFCERT_ERR_PROTOCOL" "\<not> rc_want WOLFCERT_ERR_MEMORY"
  "\<not> rc_want WOLFCERT_ERR_TLS" "\<not> rc_want WOLFCERT_ERR_GENERIC" "\<not> rc_want WOLFCERT_ERR_CONN_CLOSED"
  "\<not> rc_want WOLFCERT_ERR_BAD_ARG"
  by (simp_all add: rc_want_def)

lemma rc_want_not_ok: "rc_want rc \<Longrightarrow> rc \<noteq> WOLFCERT_OK"
  by auto

text \<open>
  The documented contract of \<open>wolfSSL_read\<close> and \<open>wolfSSL_write\<close>: they move at most as many bytes
  as they are asked to.
\<close>

definition ssl_ok :: "'w http_env \<Rightarrow> bool" where
  "ssl_ok env \<longleftrightarrow>
     (\<forall>n t w d w'. e_ssl_read env n t w = (Received d, w') \<longrightarrow> length d \<le> n) \<and>
     (\<forall>b t w r w'. e_ssl_write env b t w = (r, w') \<longrightarrow> r \<le> int (length b))"

text \<open>
  \<open>snt\<close> and \<open>rcv\<close> observe in the state of the world the bytes the peer was given and the bytes taken
  from it: a read adds what it returns, a write what it accepts, and nothing else adds anything.
\<close>

definition transcript :: "'w http_env \<Rightarrow> ('w \<Rightarrow> byte list) \<Rightarrow> ('w \<Rightarrow> byte list) \<Rightarrow> bool" where
  "transcript env snt rcv \<longleftrightarrow>
     (\<forall>w m w'. e_alloc env w = (m, w') \<longrightarrow> snt w' = snt w \<and> rcv w' = rcv w) \<and>
     (\<forall>t w ok w'. e_ssl_connect env t w = (ok, w') \<longrightarrow> snt w' = snt w \<and> rcv w' = rcv w) \<and>
     (\<forall>n t w d w'. e_read env n t w = (Received d, w') \<or> e_ssl_read env n t w = (Received d, w') \<longrightarrow>
        snt w' = snt w \<and> rcv w' = rcv w @ d) \<and>
     (\<forall>n t w r w'. e_read env n t w = (Read_Ret r, w') \<or> e_ssl_read env n t w = (Read_Ret r, w') \<longrightarrow>
        snt w' = snt w \<and> rcv w' = rcv w) \<and>
     (\<forall>b t w r w'. e_write env b t w = (r, w') \<or> e_ssl_write env b t w = (r, w') \<longrightarrow>
        snt w' = snt w @ take (nat r) b \<and> rcv w' = rcv w)"

definition moved :: "'w http_env \<Rightarrow> 'w \<Rightarrow> byte list \<Rightarrow> byte list \<Rightarrow> 'w \<Rightarrow> bool" where
  "moved env w sd rd w' \<longleftrightarrow>
     (\<forall>snt rcv. transcript env snt rcv \<longrightarrow> snt w' = snt w @ sd \<and> rcv w' = rcv w @ rd)"

definition allocs :: "'w http_env \<Rightarrow> bool" where
  "allocs env \<longleftrightarrow> (\<forall>w m w'. e_alloc env w = (m, w') \<longrightarrow> m = (\<lambda>k. True))"

lemma moved_refl [simp]: "moved env w [] [] w"
  by (simp add: moved_def)

lemma moved_trans: "moved env w a b w1 \<Longrightarrow> moved env w1 c d w2 \<Longrightarrow> moved env w (a @ c) (b @ d) w2"
  unfolding moved_def by (metis append_assoc)

lemma moved_alloc: "e_alloc env w = (m, w') \<Longrightarrow> moved env w [] [] w'"
  unfolding moved_def transcript_def by simp

lemma moved_connect: "e_ssl_connect env t w = (ok, w') \<Longrightarrow> moved env w [] [] w'"
  unfolding moved_def transcript_def by simp

lemma moved_read:
  "e_read env n t w = (res, w') \<Longrightarrow> moved env w [] (case res of Received d \<Rightarrow> d | Read_Ret r \<Rightarrow> []) w'"
  unfolding moved_def transcript_def by (cases res) simp_all

lemma moved_ssl_read:
  "e_ssl_read env n t w = (res, w') \<Longrightarrow> moved env w [] (case res of Received d \<Rightarrow> d | Read_Ret r \<Rightarrow> []) w'"
  unfolding moved_def transcript_def by (cases res) simp_all

lemma moved_write: "e_write env b t w = (r, w') \<Longrightarrow> moved env w (take (nat r) b) [] w'"
  unfolding moved_def transcript_def by simp

lemma moved_ssl_write: "e_ssl_write env b t w = (r, w') \<Longrightarrow> moved env w (take (nat r) b) [] w'"
  unfolding moved_def transcript_def by simp

section \<open>Writing\<close>

lemma nb_write_step_moved:
  assumes "ssl_ok env" "nb_write_step env ssl t buf off w = (res, w')" "off < length buf"
  shows "case res of
      Inr n \<Rightarrow> off + n \<le> length buf \<and> moved env w (take n (drop off buf)) [] w'
    | Inl rc \<Rightarrow> rc \<noteq> WOLFCERT_OK \<and> (\<exists>sd. moved env w sd [] w' \<and> (rc_want rc \<longrightarrow> sd = []))"
proof (cases ssl)
  case True
  obtain r w1 where e: "e_ssl_write env (drop off buf) t w = (r, w1)" by fastforce
  have le: "r \<le> int (length (drop off buf))" using assms(1) e unfolding ssl_ok_def by blast
  note m = moved_ssl_write [OF e]
  show ?thesis
  proof (cases "r > 0")
    case r: True
    then have "res = Inr (nat r)" "w' = w1" using assms(2) True e by (simp_all add: nb_write_step_def)
    then show ?thesis using m le assms(3) r by simp
  next
    case False
    then have "w' = w1" "\<exists>rc. res = Inl rc \<and> rc \<noteq> WOLFCERT_OK" using assms(2) True e
      by (auto simp: nb_write_step_def ssl_want_def split: option.splits ssl_error.splits)
    then show ?thesis using m False by auto
  qed
next
  case False
  obtain r w1 where e: "e_write env (drop off buf) t w = (r, w1)" by fastforce
  note m = moved_write [OF e]
  consider "r > 0 \<and> nat r > length buf - off" | "r > 0 \<and> nat r \<le> length buf - off" | "r \<le> 0" by linarith
  then show ?thesis
  proof cases
    case 1
    then have "res = Inl WOLFCERT_ERR_IO" "w' = w1" using assms(2) False e by (simp_all add: nb_write_step_def)
    then show ?thesis using m by auto
  next
    case 2
    then have "res = Inr (nat r)" "w' = w1" using assms(2) False e by (simp_all add: nb_write_step_def)
    then show ?thesis using m 2 assms(3) by auto
  next
    case 3
    then have "w' = w1" "\<exists>rc. res = Inl rc \<and> rc \<noteq> WOLFCERT_OK" using assms(2) False e
      by (auto simp: nb_write_step_def ret_want_def split: option.splits if_splits)
    then show ?thesis using m 3 by auto
  qed
qed

text \<open>
  Whatever pieces the transport accepts, \<open>nb_write\<close> hands over the buffer from \<open>off\<close> on, in order
  and without a gap, up to the new offset.
\<close>

lemma nb_write_moved:
  assumes "ssl_ok env" "nb_write env ssl t buf off w = (rc, off', w')" "off \<le> length buf"
  shows "off \<le> off' \<and> off' \<le> length buf \<and>
    (rc = WOLFCERT_OK \<longrightarrow> off' = length buf) \<and>
    (rc = WOLFCERT_OK \<or> rc_want rc \<longrightarrow> moved env w (take (off' - off) (drop off buf)) [] w') \<and>
    (\<exists>sd. moved env w sd [] w')"
  using assms
proof (induction env ssl t buf off w rule: nb_write.induct)
  case (1 env ssl t buf off w)
  show ?case
  proof (cases "off < length buf")
    case False
    have nb: "nb_write env ssl t buf off w = (WOLFCERT_OK, off, w)"
      using False by (simp add: nb_write.simps [of env ssl t buf off])
    have "rc = WOLFCERT_OK" "off' = off" "w' = w" "off = length buf" using 1(3,4) False by (simp_all add: nb)
    then show ?thesis by (auto intro: exI [of _ "[]"])
  next
    case lt: True
    obtain res w1 where st: "nb_write_step env ssl t buf off w = (res, w1)" by fastforce
    note m = nb_write_step_moved [OF 1(2) st lt]
    show ?thesis
    proof (cases res)
      case (Inl e)
      then have "rc = e" "off' = off" "w' = w1" using 1(3) lt st by (simp_all add: nb_write.simps [of env ssl t buf off])
      then show ?thesis using m Inl 1(4) by auto
    next
      case (Inr n)
      have rec: "nb_write env ssl t buf (off + n) w1 = (rc, off', w')"
        using 1(3) lt st Inr by (simp add: nb_write.simps [of env ssl t buf off])
      have n: "off + n \<le> length buf" "moved env w (take n (drop off buf)) [] w1" using m Inr by simp_all
      note IH = 1(1) [OF lt st [symmetric] Inr 1(2) rec n(1)]
      have "take (off' - off) (drop off buf) = take n (drop off buf) @ take (off' - (off + n)) (drop (off + n) buf)"
        if "off + n \<le> off'"
        using that take_add [of n "off' - (off + n)" "drop off buf"] by (simp add: add.commute)
      then show ?thesis using IH n moved_trans [OF n(2)] by fastforce
    qed
  qed
qed

section \<open>Reading\<close>

lemma read_result_want: "read_result ssl e probing room res = (rc, ended, d) \<Longrightarrow> rc_want rc \<Longrightarrow> \<exists>r. res = Read_Ret r"
  by (cases res) (auto simp: read_result_def split: if_splits)

lemma read_result_received:
  "read_result ssl e probing room res = (rc, ended, d) \<Longrightarrow> rc = WOLFCERT_OK \<Longrightarrow>
     d = (case res of Received x \<Rightarrow> x | Read_Ret r \<Rightarrow> [])"
  by (cases res; cases e) (auto simp: read_result_def split: if_splits option.splits)

lemma read_result_room:
  "read_result ssl e probing room res = (rc, ended, d) \<Longrightarrow>
     (ssl \<longrightarrow> (\<forall>x. res = Received x \<longrightarrow> length x \<le> room)) \<Longrightarrow> length d \<le> room"
  by (cases res; cases e) (auto simp: read_result_def split: if_splits option.splits)

definition settled :: "wc_rc \<Rightarrow> bool" where
  "settled rc \<longleftrightarrow> rc = WOLFCERT_OK \<or> rc_want rc"

lemma nb_read_into_moved:
  assumes "ssl_ok env" "nb_read_into env probing room s w = (rc, ended, s', w')"
  obtains d rd where "s' = s\<lparr>hs_rx := hs_rx s @ d\<rparr>" "length d \<le> room" "probing \<longrightarrow> d = []"
    "d \<noteq> [] \<longleftrightarrow> rc = WOLFCERT_OK \<and> \<not> ended" "moved env w [] rd w'" "settled rc \<longrightarrow> rd = d"
proof -
  obtain res w1 where io: "(if hs_ssl s then e_ssl_read env room (hs_io_timeout_ms s) w
      else e_read env room (hs_io_timeout_ms s) w) = (res, w1)" by fastforce
  obtain rc1 ended1 d where r: "read_result (hs_ssl s) (e_ssl_get_error env w1) probing room res = (rc1, ended1, d)"
    by (rule prod_cases3)
  have eq: "s' = s\<lparr>hs_rx := hs_rx s @ d\<rparr>" "rc1 = rc" "ended1 = ended" "w' = w1"
    using assms(2) unfolding nb_read_into_def io by (simp_all add: r)
  let ?rd = "case res of Received x \<Rightarrow> x | Read_Ret r \<Rightarrow> []"
  have m: "moved env w [] ?rd w'" using io moved_read moved_ssl_read eq(4) by (metis (full_types))
  have len: "length d \<le> room"
  proof (rule read_result_room [OF r], intro impI allI)
    fix x assume "hs_ssl s" "res = Received x"
    then show "length x \<le> room" using io assms(1) unfolding ssl_ok_def by simp blast
  qed
  have d: "(d \<noteq> [] \<longleftrightarrow> rc = WOLFCERT_OK \<and> \<not> ended) \<and> (probing \<longrightarrow> d = [])"
    using read_result_data [OF r] eq by simp
  have "?rd = d" if "settled rc"
  proof (cases "rc = WOLFCERT_OK")
    case True
    then show ?thesis using read_result_received [OF r] eq by simp
  next
    case False
    then have "rc_want rc" using that by (simp add: settled_def)
    then show ?thesis using read_result_want [OF r] eq d False by auto
  qed
  then show thesis using that [of d ?rd] eq(1) len d m by blast
qed

text \<open>
  Reading stays inside the allocated buffer, the buffer inside \<open>max_body\<close> plus the header budget,
  and the filled part inside the limit given to the call.
\<close>

lemma nb_read_some_moved:
  assumes ok: "ssl_ok env" and r: "nb_read_some env limit s w = (rc, ended, s', w')"
    and cap: "length (hs_rx s) \<le> hs_rx_cap s" "hs_rx_cap s \<le> hs_max_body s + WOLFCERT_HTTP_HEADER_BUDGET"
    and mx: "hs_max_body s + WOLFCERT_HTTP_HEADER_BUDGET < 2 ^ 64"
    and lim: "limit \<le> hs_max_body s + WOLFCERT_HTTP_HEADER_BUDGET"
  obtains c d rd where "s' = s\<lparr>hs_rx_cap := c, hs_rx := hs_rx s @ d\<rparr>"
    "length (hs_rx s) + length d \<le> c" "c \<le> hs_max_body s + WOLFCERT_HTTP_HEADER_BUDGET"
    "d \<noteq> [] \<longleftrightarrow> rc = WOLFCERT_OK \<and> \<not> ended" "settled rc \<longrightarrow> length (hs_rx s) + length d \<le> limit"
    "moved env w [] rd w'" "settled rc \<longrightarrow> rd = d"
proof -
  consider (over) "length (hs_rx s) > limit" | (full) "length (hs_rx s) = limit"
    | (room) "length (hs_rx s) < limit" by linarith
  then show thesis
  proof cases
    case over
    then have "s' = s" "rc = WOLFCERT_ERR_PROTOCOL" "w' = w" using r by (simp_all add: nb_read_some_def)
    then show ?thesis using cap by (intro that [of "[]" "hs_rx_cap s" "[]"]) (simp_all add: settled_def)
  next
    case full
    then have "nb_read_into env True 1 s w = (rc, ended, s', w')" using r by (simp add: nb_read_some_def)
    then obtain d rd where d: "s' = s\<lparr>hs_rx := hs_rx s @ d\<rparr>" "d = []"
      "d \<noteq> [] \<longleftrightarrow> rc = WOLFCERT_OK \<and> \<not> ended" "moved env w [] rd w'" "settled rc \<longrightarrow> rd = d"
      by (rule nb_read_into_moved [OF ok]) auto
    show ?thesis by (rule that [of d "hs_rx_cap s" rd]) (use d cap full in simp_all)
  next
    case room
    define n where "n = (if limit - length (hs_rx s) > WOLFCERT_HTTP_READ_CHUNK then WOLFCERT_HTTP_READ_CHUNK
      else limit - length (hs_rx s))"
    have n: "length (hs_rx s) + n \<le> limit" using room by (auto simp: n_def)
    have ex: "size_add (length (hs_rx s)) n = length (hs_rx s) + n" "rx_max (hs_max_body s) = hs_max_body s + WOLFCERT_HTTP_HEADER_BUDGET"
      using n lim mx by (simp_all add: size_add_exact rx_max_def)
    obtain rc1 s1 w1 where rs: "nb_rx_reserve env n s w = (rc1, s1, w1)" by (rule prod_cases3)
    have m1: "moved env w [] [] w1"
    proof -
      obtain mem w2 where al: "e_alloc env w = (mem, w2)" by (cases "e_alloc env w")
      then have "w1 = w \<or> w1 = w2" using rs by (auto simp: nb_rx_reserve_def Let_def split: if_splits)
      then show ?thesis using moved_alloc [OF al] by auto
    qed
    obtain c where c: "s1 = s\<lparr>hs_rx_cap := c\<rparr>" "rc1 = WOLFCERT_OK \<Longrightarrow> length (hs_rx s) + n \<le> c"
      "hs_rx_cap s \<le> c" "c \<le> hs_max_body s + WOLFCERT_HTTP_HEADER_BUDGET"
      using nb_rx_reserve_res [OF rs] cap(2) ex by (metis order_refl)
    show ?thesis
    proof (cases "rc1 = WOLFCERT_OK")
      case False
      then have "rc = rc1" "\<not> ended" "s' = s1" "w' = w1" using r room rs
        by (simp_all add: nb_read_some_def Let_def n_def [symmetric])
      moreover have "\<not> settled rc1" using rs False
        by (auto simp: nb_rx_reserve_def Let_def settled_def split: if_splits prod.splits)
      ultimately show ?thesis by (intro that [of "[]" c "[]"]) (use c cap m1 False in \<open>simp_all\<close>)
    next
      case True
      then have "nb_read_into env False n s1 w1 = (rc, ended, s', w')" using r room rs
        by (simp add: nb_read_some_def Let_def n_def [symmetric])
      then obtain d rd where d: "s' = s1\<lparr>hs_rx := hs_rx s1 @ d\<rparr>" "length d \<le> n"
        "d \<noteq> [] \<longleftrightarrow> rc = WOLFCERT_OK \<and> \<not> ended" "moved env w1 [] rd w'" "settled rc \<longrightarrow> rd = d"
        by (rule nb_read_into_moved [OF ok])
      have "moved env w [] rd w'" using moved_trans [OF m1 d(4)] by simp
      then show ?thesis by (intro that [of d c rd]) (use d c n True in simp_all)
    qed
  qed
qed

section \<open>The transition relation\<close>

text \<open>
  The flag \<open>al\<close> says that no allocation fails; it bears only on the inspection of a header block, where a field whose copy
  cannot be allocated counts as absent.
\<close>

abbreviation hdr_found :: "WolfCertHttpSession \<Rightarrow> nat" where
  "hdr_found s \<equiv> find_hdr_end (hs_rx s) (hs_hdr_scan s)"

abbreviation chunk_scan :: "WolfCertHttpSession \<Rightarrow> int \<times> WolfCertChunkScan" where
  "chunk_scan s \<equiv> wolfcert_http_chunked_complete (drop (hs_hdr_end s) (hs_rx s)) (hs_scan s)"

definition fills :: "wc_rc \<Rightarrow> WolfCertHttpSession \<Rightarrow> nat \<Rightarrow> byte list \<Rightarrow> nat \<Rightarrow> bool" where
  "fills rc s limit d c \<longleftrightarrow>
     (rc = WOLFCERT_OK \<and> d \<noteq> [] \<or> rc_want rc \<and> d = []) \<and> length (hs_rx s) + length d \<le> limit \<and>
     length (hs_rx s) + length d \<le> c \<and> c \<le> hs_max_body s + WOLFCERT_HTTP_HEADER_BUDGET"

definition session_kept :: "WolfCertHttpSession \<Rightarrow> WolfCertHttpSession \<Rightarrow> bool" where
  "session_kept s s' \<longleftrightarrow> hs_max_body s' = hs_max_body s \<and> hs_ssl s' = hs_ssl s \<and>
     hs_connected s' = hs_connected s \<and> hs_base s' = hs_base s \<and> hs_keep_alive s' = hs_keep_alive s"

inductive sm_trans ::
  "bool \<Rightarrow> WolfCertHttpSession \<Rightarrow> byte list \<Rightarrow> byte list \<Rightarrow> wc_rc \<Rightarrow> WolfCertHttpSession \<Rightarrow> bool" for al where
  handshake: "hs_state s = SM_HANDSHAKE \<Longrightarrow> sm_trans al s [] [] WOLFCERT_OK (s\<lparr>hs_state := SM_WRITE_HEAD\<rparr>)"
| handshake_wait: "hs_state s = SM_HANDSHAKE \<Longrightarrow> rc_want rc \<Longrightarrow> sm_trans al s [] [] rc s"
| head_part: "hs_state s = SM_WRITE_HEAD \<Longrightarrow> hs_head s = Some h \<Longrightarrow> hs_tx_off s \<le> off \<Longrightarrow> off \<le> length h \<Longrightarrow>
    sd = take (off - hs_tx_off s) (drop (hs_tx_off s) h) \<Longrightarrow> rc_want rc \<Longrightarrow>
    sm_trans al s sd [] rc (s\<lparr>hs_tx_off := off\<rparr>)"
| head_sent: "hs_state s = SM_WRITE_HEAD \<Longrightarrow> hs_head s = Some h \<Longrightarrow>
    sm_trans al s (drop (hs_tx_off s) h) [] WOLFCERT_OK
      (s\<lparr>hs_head := None, hs_tx_off := 0, hs_state := (if hs_body s \<noteq> [] then SM_WRITE_BODY else SM_READ_HEAD)\<rparr>)"
| body_part: "hs_state s = SM_WRITE_BODY \<Longrightarrow> hs_tx_off s \<le> off \<Longrightarrow> off \<le> length (hs_body s) \<Longrightarrow>
    sd = take (off - hs_tx_off s) (drop (hs_tx_off s) (hs_body s)) \<Longrightarrow> rc_want rc \<Longrightarrow>
    sm_trans al s sd [] rc (s\<lparr>hs_tx_off := off\<rparr>)"
| body_sent: "hs_state s = SM_WRITE_BODY \<Longrightarrow> sd = drop (hs_tx_off s) (hs_body s) \<Longrightarrow>
    sm_trans al s sd [] WOLFCERT_OK (s\<lparr>hs_tx_off := length (hs_body s), hs_state := SM_READ_HEAD\<rparr>)"
| fill_head: "hs_state s = SM_READ_HEAD \<Longrightarrow> hdr_found s + 3 \<ge> length (hs_rx s) \<Longrightarrow>
    fills rc s WOLFCERT_HTTP_HEADER_BUDGET d c \<Longrightarrow>
    sm_trans al s [] d rc (s\<lparr>hs_hdr_scan := hdr_found s, hs_rx_cap := c, hs_rx := hs_rx s @ d\<rparr>)"
| interim: "hs_state s = SM_READ_HEAD \<Longrightarrow> i = hdr_found s \<Longrightarrow> i + 3 < length (hs_rx s) \<Longrightarrow>
    parse_status_line (cstr (take (i + 4) (hs_rx s))) = Ok st \<Longrightarrow> status_is_interim st \<Longrightarrow>
    hs_interim s < WOLFCERT_HTTP_MAX_INTERIM \<Longrightarrow>
    sm_trans al s [] [] WOLFCERT_OK
      (s\<lparr>hs_status := st, hs_interim := Suc (hs_interim s), hs_rx := drop (i + 4) (hs_rx s),
         hs_hdr_end := 0, hs_hdr_scan := 0\<rparr>)"
| final: "hs_state s = SM_READ_HEAD \<Longrightarrow> i = hdr_found s \<Longrightarrow> i + 3 < length (hs_rx s) \<Longrightarrow>
    inspect_headers mem now (s\<lparr>hs_hdr_end := i + 4\<rparr>) = (WOLFCERT_OK, s') \<Longrightarrow>
    \<not> status_is_interim (hs_status s') \<Longrightarrow> (al \<Longrightarrow> mem = (\<lambda>k. True)) \<Longrightarrow>
    sm_trans al s [] [] WOLFCERT_OK s'"
| fill_cl: "hs_state s = SM_READ_BODY_CL \<Longrightarrow>
    fills rc s (hs_hdr_end s + nat (hs_content_length s)) d c \<Longrightarrow>
    sm_trans al s [] d rc (s\<lparr>hs_rx_cap := c, hs_rx := hs_rx s @ d\<rparr>)"
| fill_eof: "hs_state s = SM_READ_BODY_EOF \<Longrightarrow> fills rc s (hs_hdr_end s + hs_max_body s) d c \<Longrightarrow>
    sm_trans al s [] d rc (s\<lparr>hs_rx_cap := c, hs_rx := hs_rx s @ d\<rparr>)"
| fill_chunked: "hs_state s = SM_READ_BODY_CHUNKED \<Longrightarrow> chunk_scan s = (0, scan) \<Longrightarrow>
    fills rc s (hs_max_body s + WOLFCERT_HTTP_HEADER_BUDGET) d c \<Longrightarrow>
    sm_trans al s [] d rc (s\<lparr>hs_scan := scan, hs_rx_cap := c, hs_rx := hs_rx s @ d\<rparr>)"
| done_cl: "hs_state s = SM_READ_BODY_CL \<Longrightarrow>
    body = take (nat (hs_content_length s)) (drop (hs_hdr_end s) (hs_rx s)) \<Longrightarrow>
    hs_hdr_end s + length body \<le> length (hs_rx s) \<Longrightarrow> length body = nat (hs_content_length s) \<Longrightarrow>
    cl \<longleftrightarrow> hs_closed s \<or> hs_hdr_end s + length body < length (hs_rx s) \<Longrightarrow>
    length rx \<le> c \<Longrightarrow> c \<le> hs_rx_cap s \<Longrightarrow>
    sm_trans al s [] [] WOLFCERT_OK (sm_publish (s\<lparr>hs_closed := cl, hs_rx := rx, hs_rx_cap := c\<rparr>) body)"
| done_chunked: "hs_state s = SM_READ_BODY_CHUNKED \<Longrightarrow> chunk_scan s = (1, scan) \<Longrightarrow>
    hs_hdr_end s + cs_pos scan \<le> length (hs_rx s) \<Longrightarrow>
    chunked_body (take (cs_pos scan) (drop (hs_hdr_end s) (hs_rx s))) body \<Longrightarrow>
    cl \<longleftrightarrow> hs_closed s \<or> hs_hdr_end s + cs_pos scan < length (hs_rx s) \<Longrightarrow>
    length rx \<le> c \<Longrightarrow> c \<le> hs_rx_cap s \<Longrightarrow>
    sm_trans al s [] [] WOLFCERT_OK
      (sm_publish (s\<lparr>hs_scan := scan, hs_closed := cl, hs_hdr_end := 0, hs_rx := rx, hs_rx_cap := c\<rparr>) body)"
| done_eof: "hs_state s = SM_READ_BODY_EOF \<Longrightarrow> body = drop (hs_hdr_end s) (hs_rx s) \<Longrightarrow>
    length body \<le> hs_max_body s \<Longrightarrow> length rx \<le> c \<Longrightarrow> c \<le> hs_max_body s + WOLFCERT_HTTP_HEADER_BUDGET \<Longrightarrow>
    sm_trans al s [] [] WOLFCERT_OK
      ((sm_publish (s\<lparr>hs_rx := rx, hs_rx_cap := c\<rparr>) body)\<lparr>hs_closed := True\<rparr>)"
| finish: "hs_state s = SM_DONE \<Longrightarrow>
    sm_trans al s [] [] WOLFCERT_OK
      (s\<lparr>hs_head := None, hs_rx := [], hs_rx_cap := 0, hs_hdr_end := 0, hs_hdr_scan := 0, hs_resp := None,
         hs_state := SM_IDLE\<rparr>)"
| fail: "\<not> settled rc \<Longrightarrow> session_kept s s' \<Longrightarrow> sm_trans al s sd rd rc s'"

section \<open>The session invariant\<close>

text \<open>
  The scanner has seen a prefix of the body: going on from its state is the same as scanning the
  body from the start, whatever arrives later.
\<close>

definition scan_ok :: "WolfCertHttpSession \<Rightarrow> bool" where
  "scan_ok s \<longleftrightarrow>
     (\<forall>rest. wolfcert_http_chunked_complete (drop (hs_hdr_end s) (hs_rx s) @ rest) (hs_scan s) =
             wolfcert_http_chunked_complete (drop (hs_hdr_end s) (hs_rx s) @ rest) (chunk_scan_init (hs_max_body s)))"

definition no_end_before :: "byte list \<Rightarrow> nat \<Rightarrow> bool" where
  "no_end_before rx i \<longleftrightarrow> (\<forall>j<i. j + 3 < length rx \<and> \<not> end_at rx j)"

definition in_flight_ok :: "WolfCertHttpSession \<Rightarrow> bool" where
  "in_flight_ok s =
     (case hs_state s of
        SM_IDLE \<Rightarrow> False
      | SM_HANDSHAKE \<Rightarrow> hs_rx s = [] \<and> hs_hdr_scan s = 0 \<and> hs_interim s = 0 \<and> hs_head s \<noteq> None \<and> hs_tx_off s = 0
      | SM_WRITE_HEAD \<Rightarrow> hs_rx s = [] \<and> hs_hdr_scan s = 0 \<and> hs_interim s = 0 \<and> hs_head s \<noteq> None \<and>
          hs_tx_off s \<le> length (the (hs_head s))
      | SM_WRITE_BODY \<Rightarrow> hs_rx s = [] \<and> hs_hdr_scan s = 0 \<and> hs_interim s = 0 \<and> hs_tx_off s \<le> length (hs_body s)
      | SM_READ_HEAD \<Rightarrow> length (hs_rx s) \<le> WOLFCERT_HTTP_HEADER_BUDGET \<and>
          no_end_before (hs_rx s) (hs_hdr_scan s)
      | SM_READ_BODY_CL \<Rightarrow> hs_hdr_end s \<le> length (hs_rx s) \<and> hs_hdr_end s \<le> WOLFCERT_HTTP_HEADER_BUDGET \<and>
          0 \<le> hs_content_length s \<and> nat (hs_content_length s) \<le> hs_max_body s
      | SM_READ_BODY_EOF \<Rightarrow> hs_hdr_end s \<le> length (hs_rx s) \<and> hs_hdr_end s \<le> WOLFCERT_HTTP_HEADER_BUDGET
      | SM_READ_BODY_CHUNKED \<Rightarrow> hs_hdr_end s \<le> length (hs_rx s) \<and> hs_hdr_end s \<le> WOLFCERT_HTTP_HEADER_BUDGET \<and> scan_ok s
      | SM_DONE \<Rightarrow> length (rs_body (hs_out s)) \<le> hs_max_body s)"

definition sess_inv :: "WolfCertHttpSession \<Rightarrow> bool" where
  "sess_inv s \<longleftrightarrow>
     0 < hs_max_body s \<and> hs_max_body s + WOLFCERT_HTTP_HEADER_BUDGET < 2 ^ 64 \<and>
     length (hs_rx s) \<le> hs_rx_cap s \<and> hs_rx_cap s \<le> hs_max_body s + WOLFCERT_HTTP_HEADER_BUDGET \<and>
     hs_interim s \<le> WOLFCERT_HTTP_MAX_INTERIM \<and>
     (if hs_resp s = None
      then hs_rx s = [] \<and> hs_hdr_scan s = 0 \<and> (hs_closed s \<or> hs_state s \<in> {SM_IDLE, SM_HANDSHAKE})
      else in_flight_ok s)"

lemma sess_invD:
  assumes "sess_inv s"
  shows "0 < hs_max_body s" "hs_max_body s + WOLFCERT_HTTP_HEADER_BUDGET < 2 ^ 64"
    "length (hs_rx s) \<le> hs_rx_cap s" "hs_rx_cap s \<le> hs_max_body s + WOLFCERT_HTTP_HEADER_BUDGET"
    "hs_interim s \<le> WOLFCERT_HTTP_MAX_INTERIM"
    "hs_resp s \<noteq> None \<Longrightarrow> in_flight_ok s"
  using assms by (auto simp: sess_inv_def split: if_splits)

lemma find_hdr_end_ge: "i \<le> find_hdr_end rx i"
proof (induction rx i rule: find_hdr_end.induct)
  case (1 rx i)
  then show ?case by (cases "i + 3 < length rx \<and> \<not> end_at rx i") (auto simp: find_hdr_end.simps [of rx i])
qed

lemma find_hdr_end_step: "i + 3 < length rx \<Longrightarrow> \<not> end_at rx i \<Longrightarrow> find_hdr_end rx i = find_hdr_end rx (Suc i)"
  by (subst find_hdr_end.simps) simp

lemma find_hdr_end_stop: "\<not> (i + 3 < length rx \<and> \<not> end_at rx i) \<Longrightarrow> find_hdr_end rx i = i"
  by (subst find_hdr_end.simps) auto

lemma find_hdr_end_skip: "i \<le> j \<Longrightarrow> j < find_hdr_end rx i \<Longrightarrow> j + 3 < length rx \<and> \<not> end_at rx j"
proof (induction rx i rule: find_hdr_end.induct)
  case (1 rx i)
  show ?case
  proof (cases "i + 3 < length rx \<and> \<not> end_at rx i")
    case True
    then have "find_hdr_end rx i = find_hdr_end rx (Suc i)" by (simp add: find_hdr_end_step)
    then show ?thesis using 1 True by (cases "i = j") auto
  next
    case False
    then have "find_hdr_end rx i = i" by (rule find_hdr_end_stop)
    then show ?thesis using 1(2,3) by simp
  qed
qed

lemma find_hdr_end_hit: "find_hdr_end rx i + 3 < length rx \<Longrightarrow> end_at rx (find_hdr_end rx i)"
proof (induction rx i rule: find_hdr_end.induct)
  case (1 rx i)
  show ?case
  proof (cases "i + 3 < length rx \<and> \<not> end_at rx i")
    case True
    then have "find_hdr_end rx i = find_hdr_end rx (Suc i)" by (subst find_hdr_end.simps) simp
    then show ?thesis using 1 True by simp
  next
    case False
    then have "find_hdr_end rx i = i" by (subst find_hdr_end.simps) auto
    then show ?thesis using 1(2) False by simp
  qed
qed

lemma end_at_append: "j + 3 < length rx \<Longrightarrow> end_at (rx @ d) j = end_at rx j"
  by (simp add: end_at_def nth_append)

lemma no_end_before_found: "no_end_before rx i \<Longrightarrow> no_end_before rx (find_hdr_end rx i)"
  unfolding no_end_before_def using find_hdr_end_skip [of i _ rx] by (meson not_less)

lemma no_end_before_append: "no_end_before rx i \<Longrightarrow> no_end_before (rx @ d) i"
  unfolding no_end_before_def by (auto simp: end_at_append)

lemma no_end_before_0 [simp]: "no_end_before rx 0"
  by (simp add: no_end_before_def)

section \<open>Every pass is a transition\<close>

lemma chunked_complete_code: "fst (wolfcert_http_chunked_complete raw st) \<in> {-1, 0, 1}"
proof (induction raw st rule: wolfcert_http_chunked_complete.induct)
  case (1 raw st)
  show ?case
  proof (cases "chunk_scan_step raw st")
    case (Inl a)
    then have "fst a \<in> {-1, 0, 1}" by (auto simp: chunk_scan_step_def Let_def split: if_splits option.splits)
    then show ?thesis using Inl by (subst wolfcert_http_chunked_complete.simps) (auto split: if_splits)
  next
    case (Inr st')
    then show ?thesis using 1 by (subst wolfcert_http_chunked_complete.simps) (auto split: if_splits)
  qed
qed

lemma check_trailers_code: "check_trailers_loop raw ls \<in> {WOLFCERT_OK, WOLFCERT_ERR_PROTOCOL}"
proof (induction raw ls rule: check_trailers_loop.induct)
  case (1 raw ls)
  obtain ri colon where t: "trailer_line raw ls (length raw) = (ri, colon)" by force
  show ?case
    using 1 [OF _ t [symmetric]] t by (subst check_trailers_loop.simps) (simp split: if_split)
qed

lemma chunked_decode_loop_code:
  "fst (chunked_decode_loop M dst src len p w) \<in> {WOLFCERT_OK, WOLFCERT_ERR_PROTOCOL}"
proof (induction M dst src len p w rule: chunked_decode_loop.induct)
  case (1 M dst src len p w)
  let ?S = "take len (drop src M)"
  show ?case
  proof (cases "crlf_found ?S (find_crlf ?S p)")
    case False
    then show ?thesis by (subst chunked_decode_loop.simps) (simp add: Let_def)
  next
    case True
    show ?thesis
    proof (cases "parse_chunk_size ?S p (find_crlf ?S p)")
      case None
      then show ?thesis using True by (subst chunked_decode_loop.simps) (simp add: Let_def)
    next
      case (Some clen)
      then show ?thesis using 1 [OF refl refl _ Some refl] True check_trailers_code
        by (subst chunked_decode_loop.simps) (simp add: Let_def check_trailers_def split: if_split)
    qed
  qed
qed

lemma chunked_decode_into_code:
  "chunked_decode_into M dst src len = (rc, M', n) \<Longrightarrow> rc \<noteq> WOLFCERT_OK \<Longrightarrow> \<not> rc_want rc"
  using chunked_decode_loop_code [of M dst src len 0 0] by (auto simp: chunked_decode_into_def)

lemma scan_ok_scan:
  "scan_ok s \<Longrightarrow> chunk_scan s = wolfcert_http_chunked_complete (drop (hs_hdr_end s) (hs_rx s)) (chunk_scan_init (hs_max_body s))"
  unfolding scan_ok_def by (metis append_Nil2)

lemma scan_ok_frame:
  assumes "scan_ok s" "chunk_scan s = (1, scan)" "sess_inv s"
  shows "\<exists>payload. cs_pos scan \<le> length (drop (hs_hdr_end s) (hs_rx s)) \<and>
    chunked_frame (take (cs_pos scan) (drop (hs_hdr_end s) (hs_rx s))) payload \<and>
    cs_total scan = length payload \<and> length payload \<le> hs_max_body s"
proof -
  let ?raw = "drop (hs_hdr_end s) (hs_rx s)"
  have "scan_at (chunk_scan_init (hs_max_body s)) 0 0 False" by (simp add: scan_at_def chunk_scan_init_def)
  moreover have "length ?raw < 2 ^ 64" using sess_invD(2,3,4) [OF assms(3)] by simp
  ultimately obtain W rest payload where "drop 0 ?raw = W @ rest" "chunked_frame W payload" "cs_pos scan = 0 + length W"
    "cs_total scan = 0 + length payload"
    "cs_max (chunk_scan_init (hs_max_body s)) = 0 \<or> 0 + length payload \<le> cs_max (chunk_scan_init (hs_max_body s))"
    using scan_frame_sound [of ?raw "chunk_scan_init (hs_max_body s)" scan 0 0] assms(2) [unfolded scan_ok_scan [OF assms(1)]]
      sess_invD(2) [OF assms(3)] by (auto simp: chunk_scan_init_def)
  then show ?thesis using sess_invD(1) [OF assms(3)]
    by (intro exI [of _ payload]) (auto simp: chunk_scan_init_def)
qed

lemma step_handshake:
  assumes "hs_state s = SM_HANDSHAKE" "sm_step env s w = (rc, s', w')"
  shows "sm_trans al s [] [] rc s' \<and> moved env w [] [] w'"
proof -
  obtain ok w1 where c: "e_ssl_connect env (hs_io_timeout_ms s) w = (ok, w1)" by fastforce
  note m = moved_connect [OF c]
  have w: "w' = w1" and res: "rc = WOLFCERT_OK \<and> s' = s\<lparr>hs_state := SM_WRITE_HEAD\<rparr> \<or> rc_want rc \<and> s' = s \<or>
      \<not> settled rc \<and> s' = s"
    using assms c by (auto simp: sm_step_def sm_handshake_def settled_def split: if_splits ssl_error.splits)
  from res show ?thesis using m w assms(1) sm_trans.handshake [of s al] sm_trans.handshake_wait [of s rc al]
      sm_trans.fail [of rc s s al "[]" "[]"]
    by (auto simp: session_kept_def)
qed

lemma session_kept_refl [simp]: "session_kept s s"
  by (simp add: session_kept_def)

definition pass :: "'w http_env \<Rightarrow> WolfCertHttpSession \<Rightarrow> 'w \<Rightarrow> wc_rc \<Rightarrow> WolfCertHttpSession \<Rightarrow> 'w \<Rightarrow> bool" where
  "pass env s w rc s' w' \<longleftrightarrow> (\<exists>sd rd. sm_trans (allocs env) s sd rd rc s' \<and> moved env w sd rd w')"

lemma passI: "sm_trans (allocs env) s sd rd rc s' \<Longrightarrow> moved env w sd rd w' \<Longrightarrow> pass env s w rc s' w'"
  by (auto simp: pass_def)

lemma pass_fail: "\<not> settled rc \<Longrightarrow> session_kept s s' \<Longrightarrow> moved env w sd rd w' \<Longrightarrow> pass env s w rc s' w'"
  by (rule passI [OF sm_trans.fail])

lemma pass_write_head:
  assumes ok: "ssl_ok env" and inv: "in_flight_ok s" and st: "hs_state s = SM_WRITE_HEAD"
    and step: "sm_step env s w = (rc, s', w')"
  shows "pass env s w rc s' w'"
proof -
  obtain h where h: "hs_head s = Some h" "hs_tx_off s \<le> length h" using inv st by (auto simp: in_flight_ok_def)
  obtain rc1 off w1 where nw: "nb_write env (hs_ssl s) (hs_io_timeout_ms s) h (hs_tx_off s) w = (rc1, off, w1)"
    by (rule prod_cases3)
  note m = nb_write_moved [OF ok nw h(2)]
  have eq: "rc1 = rc" "w1 = w'" and s': "s' = (if rc = WOLFCERT_OK
      then s\<lparr>hs_head := None, hs_tx_off := 0, hs_state := (if hs_body s \<noteq> [] then SM_WRITE_BODY else SM_READ_HEAD)\<rparr>
      else s\<lparr>hs_tx_off := off\<rparr>)"
    using step st h nw by (auto simp: sm_step_def sm_write_head_def sm_drop_head_def Let_def split: if_splits)
  consider "rc = WOLFCERT_OK" | "rc_want rc" | "\<not> settled rc" by (auto simp: settled_def)
  then show ?thesis
  proof cases
    case 1
    then have "moved env w (drop (hs_tx_off s) h) [] w'" using m eq by auto
    then show ?thesis using sm_trans.head_sent [OF st h(1), of "allocs env"] s' 1 by (intro passI) simp_all
  next
    case 2
    then have "moved env w (take (off - hs_tx_off s) (drop (hs_tx_off s) h)) [] w'" using m eq by auto
    moreover have "sm_trans (allocs env) s (take (off - hs_tx_off s) (drop (hs_tx_off s) h)) [] rc (s\<lparr>hs_tx_off := off\<rparr>)"
      using m 2 by (intro sm_trans.head_part [OF st h(1)]) simp_all
    ultimately show ?thesis using s' rc_want_not_ok [OF 2] by (intro passI) simp_all
  next
    case 3
    obtain sd where "moved env w sd [] w'" using m eq by blast
    then show ?thesis using s' 3 by (intro pass_fail [OF 3]) (auto simp: settled_def session_kept_def)
  qed
qed

lemma pass_write_body:
  assumes ok: "ssl_ok env" and inv: "in_flight_ok s" and st: "hs_state s = SM_WRITE_BODY"
    and step: "sm_step env s w = (rc, s', w')"
  shows "pass env s w rc s' w'"
proof -
  let ?b = "hs_body s"
  have off: "hs_tx_off s \<le> length ?b" using inv st by (simp add: in_flight_ok_def)
  obtain rc1 off w1 where nw: "nb_write env (hs_ssl s) (hs_io_timeout_ms s) ?b (hs_tx_off s) w = (rc1, off, w1)"
    by (rule prod_cases3)
  note m = nb_write_moved [OF ok nw off]
  have eq: "rc1 = rc" "w1 = w'" and s': "s' = (if rc = WOLFCERT_OK
      then s\<lparr>hs_tx_off := off, hs_state := SM_READ_HEAD\<rparr> else s\<lparr>hs_tx_off := off\<rparr>)"
    using step st nw by (auto simp: sm_step_def sm_write_body_def Let_def split: if_splits)
  consider "rc = WOLFCERT_OK" | "rc_want rc" | "\<not> settled rc" by (auto simp: settled_def)
  then show ?thesis
  proof cases
    case 1
    then have "moved env w (drop (hs_tx_off s) ?b) [] w'" "off = length ?b" using m eq by auto
    then show ?thesis using sm_trans.body_sent [OF st refl, of "allocs env"] s' 1 by (intro passI) simp_all
  next
    case 2
    then have "moved env w (take (off - hs_tx_off s) (drop (hs_tx_off s) ?b)) [] w'" using m eq by auto
    moreover have "sm_trans (allocs env) s (take (off - hs_tx_off s) (drop (hs_tx_off s) ?b)) [] rc (s\<lparr>hs_tx_off := off\<rparr>)"
      using m 2 by (intro sm_trans.body_part [OF st]) simp_all
    ultimately show ?thesis using s' rc_want_not_ok [OF 2] by (intro passI) simp_all
  next
    case 3
    obtain sd where "moved env w sd [] w'" using m eq by blast
    then show ?thesis using s' 3 by (intro pass_fail [OF 3]) (auto simp: settled_def session_kept_def)
  qed
qed

text \<open>A pass that only reads, for any state and limit.\<close>

lemma read_some_pass:
  assumes ok: "ssl_ok env" and inv: "sess_inv s" and lim: "limit \<le> hs_max_body s + WOLFCERT_HTTP_HEADER_BUDGET"
    and t: "hs_rx t = hs_rx s" "length (hs_rx s) \<le> hs_rx_cap t" "hs_rx_cap t \<le> hs_max_body s + WOLFCERT_HTTP_HEADER_BUDGET"
      "session_kept s t"
    and r: "nb_read_some env limit t w = (rc, ended, s', w')"
    and rc': "rc' = (if rc = WOLFCERT_OK \<and> ended then WOLFCERT_ERR_IO else rc)"
    and fill: "\<And>d c. fills rc' s limit d c \<Longrightarrow> s' = t\<lparr>hs_rx_cap := c, hs_rx := hs_rx s @ d\<rparr> \<Longrightarrow>
      sm_trans (allocs env) s [] d rc' s'"
  shows "pass env s w rc' s' w'"
proof -
  have mb: "hs_max_body t = hs_max_body s" using t(4) by (simp add: session_kept_def)
  obtain c d rd where d: "s' = t\<lparr>hs_rx_cap := c, hs_rx := hs_rx t @ d\<rparr>"
    "length (hs_rx t) + length d \<le> c" "c \<le> hs_max_body t + WOLFCERT_HTTP_HEADER_BUDGET"
    "d \<noteq> [] \<longleftrightarrow> rc = WOLFCERT_OK \<and> \<not> ended" "settled rc \<longrightarrow> length (hs_rx t) + length d \<le> limit"
    "moved env w [] rd w'" "settled rc \<longrightarrow> rd = d"
    by (rule nb_read_some_moved [OF ok r]) (use t lim sess_invD(2) [OF inv] mb in simp_all)
  show ?thesis
  proof (cases "settled rc'")
    case True
    then have rc: "rc' = rc" "settled rc" "d = [] \<longleftrightarrow> rc \<noteq> WOLFCERT_OK" using rc' d(4)
      by (auto simp: settled_def split: if_splits)
    have "fills rc' s limit d c" using rc d t(1) mb by (auto simp: fills_def settled_def)
    then show ?thesis using fill [of d c] d t(1) rc by (intro passI [of env s "[]" d]) simp_all
  next
    case False
    have "session_kept s s'" using t(4) d(1) by (simp add: session_kept_def)
    then show ?thesis by (rule pass_fail [OF False _ d(6)])
  qed
qed

lemma pass_read_head:
  assumes ok: "ssl_ok env" and inv: "sess_inv s" and st: "hs_state s = SM_READ_HEAD"
    and step: "sm_step env s w = (rc, s', w')"
  shows "pass env s w rc s' w'"
proof -
  let ?i = "hdr_found s"
  note def = step [unfolded sm_step_def st SmState.case sm_read_head_def Let_def]
  show ?thesis
  proof (cases "?i + 3 \<ge> length (hs_rx s)")
    case more: True
    show ?thesis
    proof (cases "length (hs_rx s) \<ge> WOLFCERT_HTTP_HEADER_BUDGET")
      case True
      then have "rc = WOLFCERT_ERR_PROTOCOL" "s' = s" "w' = w" using def more by simp_all
      then show ?thesis using pass_fail [of rc s s' env w "[]" "[]" w'] by (simp add: settled_def)
    next
      case False
      obtain rc1 ended s1 w1 where
        r: "nb_read_some env WOLFCERT_HTTP_HEADER_BUDGET (s\<lparr>hs_hdr_scan := ?i\<rparr>) w = (rc1, ended, s1, w1)"
        by (rule prod_cases4)
      have eq: "rc = (if rc1 = WOLFCERT_OK \<and> ended then WOLFCERT_ERR_IO else rc1)" "s' = s1" "w' = w1"
        using def more False r by simp_all
      have "pass env s w rc s1 w1"
      proof (rule read_some_pass [OF ok inv _ _ _ _ _ r eq(1)])
        fix d c assume "fills rc s WOLFCERT_HTTP_HEADER_BUDGET d c"
          "s1 = (s\<lparr>hs_hdr_scan := ?i\<rparr>)\<lparr>hs_rx_cap := c, hs_rx := hs_rx s @ d\<rparr>"
        then show "sm_trans (allocs env) s [] d rc s1" using sm_trans.fill_head [OF st more] by simp
      qed (use sess_invD [OF inv] in \<open>simp_all add: session_kept_def\<close>)
      then show ?thesis using eq by simp
    qed
  next
    case False
    obtain mem w1 where al: "e_alloc env w = (mem, w1)" by (cases "e_alloc env w")
    note m = moved_alloc [OF al]
    obtain rc1 s1 where ins: "inspect_headers mem (e_time env w1) (s\<lparr>hs_hdr_end := ?i + 4\<rparr>) = (rc1, s1)"
      by (cases "inspect_headers mem (e_time env w1) (s\<lparr>hs_hdr_end := ?i + 4\<rparr>)")
    have w: "w' = w1" using def False al ins by (auto split: if_splits)
    show ?thesis
    proof (cases "rc1 = WOLFCERT_OK")
      case True
      from ins [unfolded True] show ?thesis
      proof (cases rule: inspect_headers_ok)
        case (interim x)
        show ?thesis
        proof (cases "hs_interim s < WOLFCERT_HTTP_MAX_INTERIM")
          case lt: True
          then have "rc = WOLFCERT_OK" "s' = s\<lparr>hs_status := x, hs_interim := Suc (hs_interim s),
              hs_rx := drop (?i + 4) (hs_rx s), hs_hdr_end := 0, hs_hdr_scan := 0\<rparr>"
            using def False al ins True interim by simp_all
          moreover have "sm_trans (allocs env) s [] [] WOLFCERT_OK (s\<lparr>hs_status := x, hs_interim := Suc (hs_interim s),
              hs_rx := drop (?i + 4) (hs_rx s), hs_hdr_end := 0, hs_hdr_scan := 0\<rparr>)"
            using interim lt False by (intro sm_trans.interim [OF st refl]) simp_all
          ultimately show ?thesis using m w by (intro passI [of env s "[]" "[]"]) simp_all
        next
          case ge: False
          then have "rc = WOLFCERT_ERR_PROTOCOL" "session_kept s s'"
            using def False al ins True interim by (auto simp: session_kept_def)
          then show ?thesis using m w by (intro pass_fail [of rc s s' env w "[]" "[]"]) (simp_all add: settled_def)
        qed
      next
        case (final x cl scan bst ct ra)
        then have "rc = WOLFCERT_OK" "s' = s1" using def False al ins True by simp_all
        moreover have "sm_trans (allocs env) s [] [] WOLFCERT_OK s1"
        proof (rule sm_trans.final [OF st refl])
          show "?i + 3 < length (hs_rx s)" using False by simp
          show "inspect_headers mem (e_time env w1) (s\<lparr>hs_hdr_end := ?i + 4\<rparr>) = (WOLFCERT_OK, s1)" using ins True by simp
          show "\<not> status_is_interim (hs_status s1)" using final by simp
          show "allocs env \<Longrightarrow> mem = (\<lambda>k. True)" using al unfolding allocs_def by blast
        qed
        ultimately show ?thesis using m w by (intro passI [of env s "[]" "[]"]) simp_all
      qed
    next
      case bad: False
      have "session_kept s s1" "\<not> settled rc1" using ins bad
        by (auto simp: inspect_headers_def Let_def session_kept_def settled_def parse_status_line_def
            split: if_splits sum.splits option.splits)
      moreover have "rc = rc1" "s' = s1" using def False al ins bad by simp_all
      ultimately show ?thesis using m w by (intro pass_fail [of rc s s' env w "[]" "[]"]) simp_all
    qed
  qed
qed

text \<open>Where the body was taken from does not matter once it has been published.\<close>

lemma take_body_cases:
  assumes "sm_take_body s n = (body, s2)" "hs_hdr_end s + n \<le> length (hs_rx s)" "length (hs_rx s) \<le> hs_rx_cap s"
  obtains rx c where "s2 = s\<lparr>hs_rx := rx, hs_rx_cap := c\<rparr>" "length rx \<le> c" "c \<le> hs_rx_cap s"
    "body = take n (drop (hs_hdr_end s) (hs_rx s))"
proof (cases "n = 0")
  case True
  then show thesis using assms by (intro that [of "hs_rx_cap s" "hs_rx s"]) (simp_all add: sm_take_body_def)
next
  case False
  then have "s2 = s\<lparr>hs_rx := [], hs_rx_cap := 0\<rparr>" "body = take n (memmove (hs_rx s) 0 (hs_hdr_end s) n)"
    using assms(1) by (simp_all add: sm_take_body_def)
  moreover have "take n (memmove (hs_rx s) 0 (hs_hdr_end s) n) = take n (drop (hs_hdr_end s) (hs_rx s))"
    using memmove_read [of 0 n "hs_rx s" "hs_hdr_end s"] assms(2) by simp
  ultimately show thesis by (intro that [of 0 "[]"]) simp_all
qed

lemma pass_read_body_cl:
  assumes ok: "ssl_ok env" and inv: "sess_inv s" "in_flight_ok s" and st: "hs_state s = SM_READ_BODY_CL"
    and step: "sm_step env s w = (rc, s', w')"
  shows "pass env s w rc s' w'"
proof -
  let ?n = "nat (hs_content_length s)"
  let ?fin = "hs_hdr_end s + ?n"
  have I: "hs_hdr_end s \<le> length (hs_rx s)" "?fin \<le> hs_max_body s + WOLFCERT_HTTP_HEADER_BUDGET"
    using inv(2) st by (auto simp: in_flight_ok_def)
  have ex: "size_add (hs_hdr_end s) ?n = ?fin" using I(2) sess_invD(2) [OF inv(1)] by (intro size_add_exact) simp
  note def = step [unfolded sm_step_def st SmState.case sm_read_body_cl_def Let_def ex]
  show ?thesis
  proof (cases "length (hs_rx s) < ?fin")
    case True
    obtain grown s1 w1 where g: "cl_grow env ?fin s w = (grown, s1, w1)" by (rule prod_cases3)
    obtain c where s1: "s1 = s\<lparr>hs_rx_cap := c\<rparr>" "hs_rx_cap s \<le> c" "c = hs_rx_cap s \<or> c = ?fin"
      by (rule cl_grow_res [OF g])
    have m: "moved env w [] [] w1"
    proof -
      obtain mem w2 where al: "e_alloc env w = (mem, w2)" by (cases "e_alloc env w")
      have "w1 = w \<or> w1 = w2" using g al by (auto simp: cl_grow_def split: if_splits)
      then show ?thesis using moved_alloc [OF al] by auto
    qed
    have kept: "session_kept s s1" by (simp add: s1 session_kept_def)
    show ?thesis
    proof (cases grown)
      case False
      then have "rc = WOLFCERT_ERR_MEMORY" "s' = s1" "w' = w1" using def True g by simp_all
      then show ?thesis using m kept by (intro pass_fail [of rc s s' env w "[]" "[]"]) (simp_all add: settled_def)
    next
      case gr: True
      obtain rc1 ended s2 w2 where r: "nb_read_some env ?fin s1 w1 = (rc1, ended, s2, w2)" by (rule prod_cases4)
      have eq: "rc = (if rc1 = WOLFCERT_OK \<and> ended then WOLFCERT_ERR_IO else rc1)" "s' = s2" "w' = w2"
        using def True g gr r by simp_all
      have "pass env s w1 rc s2 w2"
      proof (rule read_some_pass [OF ok inv(1) I(2) _ _ _ kept r eq(1)])
        fix d k assume "fills rc s ?fin d k" "s2 = s1\<lparr>hs_rx_cap := k, hs_rx := hs_rx s @ d\<rparr>"
        then show "sm_trans (allocs env) s [] d rc s2" using sm_trans.fill_cl [OF st] s1 by simp
      qed (use s1 I sess_invD [OF inv(1)] in auto)
      then obtain sd rd where "sm_trans (allocs env) s sd rd rc s2" "moved env w1 sd rd w2" by (auto simp: pass_def)
      then show ?thesis using eq moved_trans [OF m] by (intro passI) (simp_all, metis append_Nil)
    qed
  next
    case False
    define s1 where "s1 = (if length (hs_rx s) > ?fin then s\<lparr>hs_closed := True\<rparr> else s)"
    obtain body s2 where tk: "sm_take_body s1 ?n = (body, s2)" by (cases "sm_take_body s1 ?n")
    have same: "hs_rx s1 = hs_rx s" "hs_hdr_end s1 = hs_hdr_end s" "hs_rx_cap s1 = hs_rx_cap s"
      "s1 = s\<lparr>hs_closed := hs_closed s \<or> ?fin < length (hs_rx s)\<rparr>"
      by (simp_all add: s1_def)
    have res: "rc = WOLFCERT_OK" "s' = sm_publish s2 body" "w' = w" using def False tk by (simp_all add: s1_def)
    have pre: "hs_hdr_end s1 + ?n \<le> length (hs_rx s1)" "length (hs_rx s1) \<le> hs_rx_cap s1"
      using False same(1-3) sess_invD(3) [OF inv(1)] by simp_all
    obtain rx c where t: "s2 = s1\<lparr>hs_rx := rx, hs_rx_cap := c\<rparr>" "length rx \<le> c" "c \<le> hs_rx_cap s1"
      "body = take ?n (drop (hs_hdr_end s1) (hs_rx s1))"
      by (rule take_body_cases [OF tk pre])
    have "sm_trans (allocs env) s [] [] WOLFCERT_OK
        (sm_publish (s\<lparr>hs_closed := hs_closed s \<or> ?fin < length (hs_rx s), hs_rx := rx, hs_rx_cap := c\<rparr>) body)"
      by (rule sm_trans.done_cl [OF st, where body = body]) (use t(2-4) same(1-3) False in \<open>simp_all\<close>)
    then show ?thesis using res t(1) same(4) by (intro passI [of env s "[]" "[]"]) simp_all
  qed
qed

lemma pass_read_body_eof:
  assumes ok: "ssl_ok env" and inv: "sess_inv s" "in_flight_ok s" and st: "hs_state s = SM_READ_BODY_EOF"
    and step: "sm_step env s w = (rc, s', w')"
  shows "pass env s w rc s' w'"
proof -
  let ?lim = "hs_hdr_end s + hs_max_body s"
  have I: "hs_hdr_end s \<le> length (hs_rx s)" "?lim \<le> hs_max_body s + WOLFCERT_HTTP_HEADER_BUDGET"
    using inv(2) st by (auto simp: in_flight_ok_def)
  have ex: "size_add (hs_hdr_end s) (hs_max_body s) = ?lim" using I(2) sess_invD(2) [OF inv(1)] by (intro size_add_exact) simp
  obtain rc1 ended s1 w1 where r: "nb_read_some env ?lim s w = (rc1, ended, s1, w1)" by (rule prod_cases4)
  note def = step [unfolded sm_step_def st SmState.case sm_read_body_eof_def Let_def ex r prod.case]
  show ?thesis
  proof (cases "rc1 = WOLFCERT_OK \<and> ended")
    case False
    then have eq: "rc = rc1" "s' = s1" "w' = w1" using def by auto
    have "pass env s w rc s1 w1"
    proof (rule read_some_pass [OF ok inv(1) I(2) refl _ _ session_kept_refl r])
      fix d k assume "fills rc s ?lim d k" "s1 = s\<lparr>hs_rx_cap := k, hs_rx := hs_rx s @ d\<rparr>"
      then show "sm_trans (allocs env) s [] d rc s1" using sm_trans.fill_eof [OF st] by simp
    qed (use eq False sess_invD [OF inv(1)] in auto)
    then show ?thesis using eq by simp
  next
    case True
    obtain c d rd where d: "s1 = s\<lparr>hs_rx_cap := c, hs_rx := hs_rx s @ d\<rparr>"
      "length (hs_rx s) + length d \<le> c" "c \<le> hs_max_body s + WOLFCERT_HTTP_HEADER_BUDGET"
      "d \<noteq> [] \<longleftrightarrow> rc1 = WOLFCERT_OK \<and> \<not> ended" "settled rc1 \<longrightarrow> length (hs_rx s) + length d \<le> ?lim"
      "moved env w [] rd w1" "settled rc1 \<longrightarrow> rd = d"
      by (rule nb_read_some_moved [OF ok r]) (use I sess_invD [OF inv(1)] in simp_all)
    have nil: "d = []" "rd = []" "length (hs_rx s) \<le> ?lim" using d True by (auto simp: settled_def)
    define n where "n = length (hs_rx s) - hs_hdr_end s"
    have s1: "s1 = s\<lparr>hs_rx_cap := c\<rparr>" using d(1) nil by simp
    obtain body s2 where tk: "sm_take_body s1 n = (body, s2)" by (cases "sm_take_body s1 n")
    have res: "rc = WOLFCERT_OK" "s' = (sm_publish s2 body)\<lparr>hs_closed := True\<rparr>" "w' = w1"
      using def True tk s1 by (simp_all add: n_def)
    have pre: "hs_hdr_end s1 + n \<le> length (hs_rx s1)" "length (hs_rx s1) \<le> hs_rx_cap s1"
      using I(1) d(2) nil(1) by (simp_all add: s1 n_def)
    obtain rx k where t: "s2 = s1\<lparr>hs_rx := rx, hs_rx_cap := k\<rparr>" "length rx \<le> k" "k \<le> hs_rx_cap s1"
      "body = take n (drop (hs_hdr_end s1) (hs_rx s1))"
      by (rule take_body_cases [OF tk pre])
    have "sm_trans (allocs env) s [] [] WOLFCERT_OK ((sm_publish (s\<lparr>hs_rx := rx, hs_rx_cap := k\<rparr>) body)\<lparr>hs_closed := True\<rparr>)"
      by (rule sm_trans.done_eof [OF st, where body = body]) (use t(2-4) d(3) nil(3) I(1) in \<open>simp_all add: n_def s1\<close>)
    then show ?thesis using res t(1) s1 d(6) nil by (intro passI [of env s "[]" "[]"]) simp_all
  qed
qed

lemma pass_read_body_chunked:
  assumes ok: "ssl_ok env" and inv: "sess_inv s" "in_flight_ok s" and st: "hs_state s = SM_READ_BODY_CHUNKED"
    and step: "sm_step env s w = (rc, s', w')"
  shows "pass env s w rc s' w'"
proof -
  have I: "hs_hdr_end s \<le> length (hs_rx s)" "scan_ok s" "hs_hdr_end s \<le> WOLFCERT_HTTP_HEADER_BUDGET"
    using inv(2) st by (auto simp: in_flight_ok_def)
  have mx: "rx_max (hs_max_body s) = hs_max_body s + WOLFCERT_HTTP_HEADER_BUDGET"
    using sess_invD(2) [OF inv(1)] by (simp add: rx_max_def size_add_exact)
  obtain framed scan where f: "chunk_scan s = (framed, scan)" by force
  note def = step [unfolded sm_step_def st SmState.case sm_read_body_chunked_def f prod.case Let_def mx]
  have "framed \<in> {-1, 0, 1}" using chunked_complete_code [of "drop (hs_hdr_end s) (hs_rx s)" "hs_scan s"] f by simp
  then consider "framed = -1" | "framed = 0" | "framed = 1" by auto
  then show ?thesis
  proof cases
    case 1
    then have "rc = WOLFCERT_ERR_PROTOCOL" "session_kept s s'" "w' = w" using def by (auto simp: session_kept_def)
    then show ?thesis by (intro pass_fail [of rc s s' env w "[]" "[]"]) (simp_all add: settled_def)
  next
    case 2
    obtain rc1 ended s1 w1 where r: "nb_read_some env (hs_max_body s + WOLFCERT_HTTP_HEADER_BUDGET) (s\<lparr>hs_scan := scan\<rparr>) w = (rc1, ended, s1, w1)"
      by (rule prod_cases4)
    have eq: "rc = (if rc1 = WOLFCERT_OK \<and> ended then WOLFCERT_ERR_IO else rc1)" "s' = s1" "w' = w1"
      using def 2 r by simp_all
    have "pass env s w rc s1 w1"
    proof (rule read_some_pass [OF ok inv(1) order_refl _ _ _ _ r eq(1)])
      fix d k assume "fills rc s (hs_max_body s + WOLFCERT_HTTP_HEADER_BUDGET) d k"
        "s1 = (s\<lparr>hs_scan := scan\<rparr>)\<lparr>hs_rx_cap := k, hs_rx := hs_rx s @ d\<rparr>"
      then show "sm_trans (allocs env) s [] d rc s1" using sm_trans.fill_chunked [OF st f [unfolded 2]] by simp
    qed (use sess_invD [OF inv(1)] in \<open>auto simp: session_kept_def\<close>)
    then show ?thesis using eq by simp
  next
    case 3
    let ?src = "hs_hdr_end s" and ?len = "cs_pos scan"
    have len: "?src + ?len \<le> length (hs_rx s)" using scan_ok_frame [OF I(2) f [unfolded 3] inv(1)] I(1) by auto
    have ex: "size_add ?src ?len = ?src + ?len" using len sess_invD [OF inv(1)] by (intro size_add_exact) simp
    obtain rc1 M out_len where c: "chunked_decode_into (hs_rx s) 0 ?src ?len = (rc1, M, out_len)" by (rule prod_cases3)
    show ?thesis
    proof (cases "rc1 = WOLFCERT_OK")
      case False
      then have "rc = rc1" "session_kept s s'" "w' = w" using def 3 c by (auto simp: session_kept_def)
      moreover have "\<not> settled rc1" using chunked_decode_into_code [OF c] False by (auto simp: settled_def)
      ultimately show ?thesis by (intro pass_fail [of rc s s' env w "[]" "[]"]) simp_all
    next
      case True
      obtain body where b: "chunked_body (take ?len (drop ?src (hs_rx s))) body" "out_len = Some (length body)"
        "M = body @ drop (length body) (hs_rx s)"
        using chunked_decode_into_iff [of 0 ?src ?len "hs_rx s" M out_len] c True len by auto
      have lb: "length body \<le> length (hs_rx s)" using chunked_body_length [OF b(1)] len by simp
      define s3 where "s3 = s\<lparr>hs_scan := scan, hs_rx := M, hs_closed := hs_closed s \<or> ?src + ?len < length (hs_rx s), hs_hdr_end := 0\<rparr>"
      obtain bd s4 where tk: "sm_take_body s3 (length body) = (bd, s4)" by (cases "sm_take_body s3 (length body)")
      have M: "length M = length (hs_rx s)" using b(3) lb by simp
      have res: "rc = WOLFCERT_OK" "s' = sm_publish s4 bd" "w' = w"
        using def 3 c True b(2) tk M ex by (auto simp: s3_def split: if_splits)
      have pre: "hs_hdr_end s3 + length body \<le> length (hs_rx s3)" "length (hs_rx s3) \<le> hs_rx_cap s3"
        using lb M sess_invD(3) [OF inv(1)] by (simp_all add: s3_def)
      obtain rx k where t: "s4 = s3\<lparr>hs_rx := rx, hs_rx_cap := k\<rparr>" "length rx \<le> k" "k \<le> hs_rx_cap s3"
        "bd = take (length body) (drop (hs_hdr_end s3) (hs_rx s3))"
        by (rule take_body_cases [OF tk pre])
      have bd: "bd = body" using t(4) b(3) by (simp add: s3_def)
      have "sm_trans (allocs env) s [] [] WOLFCERT_OK (sm_publish (s\<lparr>hs_scan := scan,
          hs_closed := hs_closed s \<or> ?src + ?len < length (hs_rx s), hs_hdr_end := 0, hs_rx := rx, hs_rx_cap := k\<rparr>) body)"
        by (rule sm_trans.done_chunked [OF st f [unfolded 3] len b(1) refl t(2)]) (use t(3) in \<open>simp add: s3_def\<close>)
      then show ?thesis using res t(1) bd by (intro passI [of env s "[]" "[]"]) (simp_all add: s3_def)
    qed
  qed
qed

lemma sm_step_trans:
  assumes ok: "ssl_ok env" and inv: "sess_inv s" "hs_resp s \<noteq> None" and step: "sm_step env s w = (rc, s', w')"
  shows "\<exists>sd rd. sm_trans (allocs env) s sd rd rc s' \<and> moved env w sd rd w'"
proof -
  have fl: "in_flight_ok s" using sess_invD(6) [OF inv] .
  have "pass env s w rc s' w'"
  proof (cases "hs_state s")
    case SM_IDLE
    then show ?thesis using fl by (simp add: in_flight_ok_def)
  next
    case SM_HANDSHAKE
    then show ?thesis using step_handshake [OF SM_HANDSHAKE step, of "allocs env"]
      by (intro passI [of env s "[]" "[]"]) simp_all
  next
    case SM_WRITE_HEAD
    then show ?thesis by (rule pass_write_head [OF ok fl _ step])
  next
    case SM_WRITE_BODY
    then show ?thesis by (rule pass_write_body [OF ok fl _ step])
  next
    case SM_READ_HEAD
    then show ?thesis by (rule pass_read_head [OF ok inv(1) _ step])
  next
    case SM_READ_BODY_CL
    then show ?thesis by (rule pass_read_body_cl [OF ok inv(1) fl _ step])
  next
    case SM_READ_BODY_EOF
    then show ?thesis by (rule pass_read_body_eof [OF ok inv(1) fl _ step])
  next
    case SM_READ_BODY_CHUNKED
    then show ?thesis by (rule pass_read_body_chunked [OF ok inv(1) fl _ step])
  next
    case SM_DONE
    then have "rc = WOLFCERT_OK" "w' = w" "s' = s\<lparr>hs_head := None, hs_rx := [], hs_rx_cap := 0, hs_hdr_end := 0,
        hs_hdr_scan := 0, hs_resp := None, hs_state := SM_IDLE\<rparr>"
      using step by (simp_all add: sm_step_def sm_done_def sm_drop_head_def)
    then show ?thesis using sm_trans.finish [OF SM_DONE] by (intro passI [of env s "[]" "[]"]) simp_all
  qed
  then show ?thesis by (simp add: pass_def)
qed

section \<open>Transitions keep the invariant\<close>

lemma scan_ok_next:
  assumes "scan_ok s" "chunk_scan s = (0, scan)"
  shows "scan_ok (s\<lparr>hs_scan := scan, hs_rx_cap := c, hs_rx := hs_rx s @ d\<rparr>) \<or> \<not> hs_hdr_end s \<le> length (hs_rx s)"
proof (cases "hs_hdr_end s \<le> length (hs_rx s)")
  case True
  let ?raw = "drop (hs_hdr_end s) (hs_rx s)"
  have "wolfcert_http_chunked_complete (?raw @ rest) scan = wolfcert_http_chunked_complete (?raw @ rest) (hs_scan s)" for rest
    using chunked_complete_append [of ?raw rest "hs_scan s"] assms(2) by simp
  moreover have "wolfcert_http_chunked_complete (?raw @ rest) (hs_scan s) =
      wolfcert_http_chunked_complete (?raw @ rest) (chunk_scan_init (hs_max_body s))" for rest
    using assms(1) unfolding scan_ok_def by blast
  ultimately have "wolfcert_http_chunked_complete (?raw @ rest) scan =
      wolfcert_http_chunked_complete (?raw @ rest) (chunk_scan_init (hs_max_body s))" for rest by simp
  then show ?thesis using True by (simp add: scan_ok_def)
qed simp

lemma one_line_unique:
  assumes "one_line l" "one_line l'" "l @ CRLF @ t = l' @ CRLF @ t'"
  shows "l = l'" "t = t'"
proof -
  have "length l = length l'" using one_line_find [OF assms(1), of t] one_line_find [OF assms(2), of t'] assms(3) by simp
  then show "l = l'" "t = t'" using assms(3) by simp_all
qed

lemma chunked_msg_payload: "chunked_msg P W a \<Longrightarrow> chunked_msg Q W b \<Longrightarrow> a = b"
proof (induction arbitrary: b rule: chunked_msg.induct)
  case (last l t)
  from last(4) show ?case
  proof (cases rule: chunked_msg.cases)
    case (chunk l' d t' payload)
    then show ?thesis using one_line_unique(1) [OF last(1) chunk(3,1)] last(2) by auto
  qed simp
next
  case (chunk l d t payload)
  from chunk.prems show ?case
  proof (cases rule: chunked_msg.cases)
    case (last l' t')
    then show ?thesis using one_line_unique(1) [OF chunk(1) last(3,1)] chunk(2,3) by auto
  next
    case C: (chunk l' d' t' payload')
    have l: "l = l'" "d @ CRLF @ t = d' @ CRLF @ t'" using one_line_unique [OF chunk(1) C(3,1)] by auto
    then have "length d = length d'" using chunk(2) C(4) by simp
    then have "d = d'" "t = t'" using l(2) by simp_all
    then show ?thesis using chunk.IH [of payload'] C by simp
  qed
qed

lemma scanned_length:
  assumes "scan_ok s" "chunk_scan s = (1, scan)" "sess_inv s"
    "chunked_body (take (cs_pos scan) (drop (hs_hdr_end s) (hs_rx s))) body"
  shows "length body \<le> hs_max_body s"
proof -
  let ?raw = "drop (hs_hdr_end s) (hs_rx s)" and ?init = "chunk_scan_init (hs_max_body s)"
  let ?W = "take (cs_pos scan) ?raw"
  obtain p where p: "cs_pos scan \<le> length ?raw" "chunked_frame ?W p" "cs_total scan = length p" "length p \<le> hs_max_body s"
    using scan_ok_frame [OF assms(1,2,3)] by blast
  have "p = body" using p(2) assms(4) by (rule chunked_msg_payload)
  then show ?thesis using p(4) by simp
qed

text \<open>What the invariant says in a state with a request in flight, and how to establish it there.\<close>

lemma sess_inv_flight:
  assumes "sess_inv s" "hs_resp s \<noteq> None" "session_kept s s'" "hs_resp s' = hs_resp s"
    "length (hs_rx s') \<le> hs_rx_cap s'" "hs_rx_cap s' \<le> hs_max_body s + WOLFCERT_HTTP_HEADER_BUDGET"
    "hs_interim s' \<le> WOLFCERT_HTTP_MAX_INTERIM" "in_flight_ok s'"
  shows "sess_inv s' \<and> session_kept s s' \<and> (hs_resp s' = None \<longrightarrow>
    hs_state s' = SM_IDLE \<and> length (rs_body (hs_out s')) \<le> hs_max_body s')"
  using assms by (auto simp: sess_inv_def session_kept_def)

lemma sm_trans_inv:
  assumes "sm_trans al s sd rd rc s'" "sess_inv s" "hs_resp s \<noteq> None" "settled rc"
  shows "sess_inv s' \<and> session_kept s s' \<and> (hs_resp s' = None \<longrightarrow>
    hs_state s' = SM_IDLE \<and> length (rs_body (hs_out s')) \<le> hs_max_body s')"
  using assms(1)
proof (cases rule: sm_trans.cases)
  case (final i mem now)
  have len: "i + 4 \<le> length (hs_rx s)" "i + 4 \<le> WOLFCERT_HTTP_HEADER_BUDGET"
    using final sess_invD(6) [OF assms(2,3)] by (auto simp: in_flight_ok_def)
  from final(7) show ?thesis
  proof (cases rule: inspect_headers_ok)
    case (interim st)
    then show ?thesis using final by simp
  next
    case (final st cl scan bst ct ra)
    show ?thesis
      by (rule sess_inv_flight [OF assms(2,3)])
        (use final len sess_invD [OF assms(2)] in \<open>auto simp: in_flight_ok_def session_kept_def scan_ok_def\<close>)
  qed
next
  case (fill_head c)
  have "no_end_before (hs_rx s @ rd) (hdr_found s)"
    using sess_invD(6) [OF assms(2,3)] fill_head
    by (intro no_end_before_append no_end_before_found) (simp add: in_flight_ok_def)
  then show ?thesis using fill_head sess_invD [OF assms(2)]
    by (intro sess_inv_flight [OF assms(2,3)]) (simp_all add: in_flight_ok_def session_kept_def fills_def)
next
  case (fill_chunked scan c)
  have I: "hs_hdr_end s \<le> length (hs_rx s)" "hs_hdr_end s \<le> WOLFCERT_HTTP_HEADER_BUDGET" "scan_ok s"
    using sess_invD(6) [OF assms(2,3)] fill_chunked by (simp_all add: in_flight_ok_def)
  have "scan_ok s'" using scan_ok_next [OF I(3) fill_chunked(4), of rd c] I(1) fill_chunked by simp
  then show ?thesis using fill_chunked sess_invD [OF assms(2)] I
    by (intro sess_inv_flight [OF assms(2,3)]) (simp_all add: in_flight_ok_def session_kept_def fills_def)
next
  case (done_chunked scan body cl rx c)
  have "scan_ok s" using sess_invD(6) [OF assms(2,3)] done_chunked(5) by (simp add: in_flight_ok_def)
  then have "length body \<le> hs_max_body s" using scanned_length [OF _ done_chunked(6) assms(2) done_chunked(8)] by simp
  then show ?thesis using done_chunked sess_invD [OF assms(2)]
    by (intro sess_inv_flight [OF assms(2,3)]) (simp_all add: in_flight_ok_def session_kept_def sm_publish_def)
next
  case handshake
  then show ?thesis using sess_invD [OF assms(2)] sess_invD(6) [OF assms(2,3)]
    by (intro sess_inv_flight [OF assms(2,3)]) (simp_all add: in_flight_ok_def session_kept_def)
next
  case handshake_wait
  then show ?thesis using assms(2,3) by simp
next
  case (head_part h off)
  then show ?thesis using sess_invD [OF assms(2)] sess_invD(6) [OF assms(2,3)]
    by (intro sess_inv_flight [OF assms(2,3)]) (simp_all add: in_flight_ok_def session_kept_def)
next
  case (head_sent h)
  then show ?thesis using sess_invD [OF assms(2)] sess_invD(6) [OF assms(2,3)]
    by (intro sess_inv_flight [OF assms(2,3)]) (simp_all add: in_flight_ok_def session_kept_def)
next
  case (body_part off)
  then show ?thesis using sess_invD [OF assms(2)] sess_invD(6) [OF assms(2,3)]
    by (intro sess_inv_flight [OF assms(2,3)]) (simp_all add: in_flight_ok_def session_kept_def)
next
  case body_sent
  then show ?thesis using sess_invD [OF assms(2)] sess_invD(6) [OF assms(2,3)]
    by (intro sess_inv_flight [OF assms(2,3)]) (simp_all add: in_flight_ok_def session_kept_def)
next
  case (interim i st)
  then show ?thesis using sess_invD [OF assms(2)] sess_invD(6) [OF assms(2,3)]
    by (intro sess_inv_flight [OF assms(2,3)]) (auto simp: in_flight_ok_def session_kept_def)
next
  case (fill_cl c)
  then show ?thesis using sess_invD [OF assms(2)] sess_invD(6) [OF assms(2,3)]
    by (intro sess_inv_flight [OF assms(2,3)]) (simp_all add: in_flight_ok_def session_kept_def fills_def)
next
  case (fill_eof c)
  then show ?thesis using sess_invD [OF assms(2)] sess_invD(6) [OF assms(2,3)]
    by (intro sess_inv_flight [OF assms(2,3)]) (simp_all add: in_flight_ok_def session_kept_def fills_def)
next
  case (done_cl body cl rx c)
  then show ?thesis using sess_invD [OF assms(2)] sess_invD(6) [OF assms(2,3)]
    by (intro sess_inv_flight [OF assms(2,3)]) (simp_all add: in_flight_ok_def session_kept_def sm_publish_def)
next
  case (done_eof body rx c)
  then show ?thesis using sess_invD [OF assms(2)] sess_invD(6) [OF assms(2,3)]
    by (intro sess_inv_flight [OF assms(2,3)]) (simp_all add: in_flight_ok_def session_kept_def sm_publish_def)
next
  case finish
  then show ?thesis using sess_invD [OF assms(2)] sess_invD(6) [OF assms(2,3)]
    by (simp add: sess_inv_def in_flight_ok_def session_kept_def)
next
  case fail
  then show ?thesis using assms(4) by simp
qed

end
