(* ===== verification/Cms.thy ===== *)
theory Cms
  imports Key_Algs Der
begin

text \<open>
  Certificates and CMS (PKCS#7) as the library sees them, and the certs-only helpers of
  \<open>src/pkcs7_util.c\<close>.

  wolfSSL's certificate parser and PKCS#7 functions are the parameter \<open>wolf_cms\<close>. A call that
  configures a PKCS7 object and then encodes it takes the fields the code has set as arguments;
  objects and random number generators are counted by the world, so that leaks are visible. A
  writing call takes the capacity of its buffer and gives its return value with the bytes written.
\<close>

section \<open>The library\<close>

text \<open>
  The fields of a decoded certificate or request that the code reads. A pointer that may be \<open>NULL\<close> is
  an option. \<open>dc_keyUsage\<close> is \<open>extKeyUsage\<close> where \<open>extKeyUsageSet\<close>.
\<close>

record DecodedCert =
  dc_subjectRaw :: "byte list option"
  dc_issuerRaw :: "byte list option"
  dc_subjectCN :: "byte list option"
  dc_subjectHash :: "byte list"
  dc_issuerHash :: "byte list"
  dc_publicKey :: "byte list"
  dc_keyOID :: "key_oid option"
  dc_isCA :: bool
  dc_keyUsage :: "nat option"
  dc_serial :: "byte list"

text \<open>A signed attribute, and what verifying a SignedData leaves in the PKCS7 object.\<close>

record PKCS7Attrib =
  at_oid :: "byte list"
  at_value :: "byte list"

record signed_data =
  sd_content :: "byte list"
  sd_verifyCert :: "byte list"
  sd_cert :: "byte list list"
  sd_decodedAttrib :: "PKCS7Attrib list"

datatype hash_oid = SHA1h | SHA256h | SHA384h | SHA512h

datatype enc_oid = DES3b | AES128CBCb | AES256CBCb

record 'w wolf_cms =
  cm_codes :: wc_codes
  cm_MAX_PKCS7_CERTS :: nat
  cm_malloc :: "'w \<Rightarrow> bool \<times> 'w"
  cm_New :: "'w \<Rightarrow> bool \<times> 'w"
  cm_Free :: "'w \<Rightarrow> 'w"
  cm_InitRng :: "'w \<Rightarrow> int \<times> 'w"
  cm_FreeRng :: "'w \<Rightarrow> 'w"
  cm_ParseCert :: "byte list \<Rightarrow> 'w \<Rightarrow> (int \<times> DecodedCert) \<times> 'w"
  cm_ParseCertReq :: "byte list \<Rightarrow> 'w \<Rightarrow> (int \<times> DecodedCert) \<times> 'w"
  cm_Sha256Hash :: "byte list \<Rightarrow> int \<times> byte list"
  cm_DerToPem :: "byte list \<Rightarrow> nat \<Rightarrow> int \<times> byte list"
  cm_VerifySignedData :: "bool \<Rightarrow> byte list \<Rightarrow> 'w \<Rightarrow> (int \<times> signed_data) \<times> 'w"
  cm_AddCertificate :: "byte list \<Rightarrow> byte list list \<Rightarrow> 'w \<Rightarrow> (int \<times> byte list list) \<times> 'w"
  cm_SetSignerIdentifierType :: "'w \<Rightarrow> int \<times> 'w"
  cm_EncodeCertsOnly :: "byte list list \<Rightarrow> nat \<Rightarrow> 'w \<Rightarrow> (int \<times> byte list) \<times> 'w"
  cm_InitWithCert :: "byte list \<Rightarrow> 'w \<Rightarrow> (int \<times> key_oid option) \<times> 'w"
  cm_EncodeEnvelopedData :: "byte list \<Rightarrow> byte list \<Rightarrow> enc_oid \<Rightarrow> nat \<Rightarrow> 'w \<Rightarrow> (int \<times> byte list) \<times> 'w"
  cm_DecodeEnvelopedData :: "byte list \<Rightarrow> byte list \<Rightarrow> byte list \<Rightarrow> nat \<Rightarrow> 'w \<Rightarrow> (int \<times> byte list) \<times> 'w"
  cm_SetDetached :: "'w \<Rightarrow> int \<times> 'w"
  cm_EncodeSignedData :: "byte list \<Rightarrow> byte list \<Rightarrow> hash_oid \<Rightarrow> byte list option \<Rightarrow> PKCS7Attrib list \<Rightarrow> nat \<Rightarrow>
    'w \<Rightarrow> (int \<times> byte list) \<times> 'w"

abbreviation cms_err :: "'w wolf_cms \<Rightarrow> int \<Rightarrow> wc_rc" where
  "cms_err env rc \<equiv> wolfcert_map_wc_err (cm_codes env) rc"

text \<open>
  The result of an encoder: a return value that is not positive gives the mapped code, and 0, which
  maps to \<open>WOLFCERT_OK\<close>, no data.
\<close>

definition encoded :: "'w wolf_cms \<Rightarrow> int \<times> byte list \<Rightarrow> byte list wc_result" where
  "encoded env r =
     (case r of (n, buf) \<Rightarrow>
        if n \<le> 0 then (if cms_err env n = WOLFCERT_OK then Ok [] else Err (cms_err env n))
        else Ok (take (nat n) buf))"

section \<open>Extracting certificates\<close>

text \<open>The growing buffer: its content and capacity. The doubling starts from a capacity that is not 0.\<close>

function acc_capacity :: "nat \<Rightarrow> nat \<Rightarrow> nat" where
  "acc_capacity nc need = (if nc = 0 then 0 else if nc < need then acc_capacity (nc * 2) need else nc)"
  by pat_completeness auto
termination
  by (relation "measure (\<lambda>(nc, need). need - nc)") auto

declare acc_capacity.simps [simp del]

definition acc_append ::
  "'w wolf_cms \<Rightarrow> byte list \<times> nat \<Rightarrow> byte list \<Rightarrow> 'w \<Rightarrow> (byte list \<times> nat) wc_result \<times> 'w" where
  "acc_append env acc data w =
     (case acc of (buf, cap) \<Rightarrow>
        if length buf + length data > cap then
          (case cm_malloc env w of (got, w) \<Rightarrow>
             if \<not> got then (Err WOLFCERT_ERR_MEMORY, w)
             else (Ok (buf @ data, acc_capacity (if cap \<noteq> 0 then cap else 2048) (length buf + length data)), w))
        else (Ok (buf @ data, cap), w))"

definition append_cert ::
  "'w wolf_cms \<Rightarrow> bool \<Rightarrow> byte list \<times> nat \<Rightarrow> byte list \<Rightarrow> 'w \<Rightarrow> (byte list \<times> nat) wc_result \<times> 'w" where
  "append_cert env as_pem acc der w =
     (if \<not> as_pem then acc_append env acc der w
      else case cm_malloc env w of (got, w) \<Rightarrow>
             if \<not> got then (Err WOLFCERT_ERR_MEMORY, w)
             else case cm_DerToPem env der (length der * 2 + 256) of (n, pem) \<Rightarrow>
                    if n \<le> 0 then (Err WOLFCERT_ERR_CRYPTO, w)
                    else acc_append env acc (take (nat n) pem) w)"

fun append_certs ::
  "'w wolf_cms \<Rightarrow> bool \<Rightarrow> byte list list \<Rightarrow> byte list \<times> nat \<Rightarrow> 'w \<Rightarrow> (byte list \<times> nat) wc_result \<times> 'w" where
  "append_certs env as_pem [] acc w = (Ok acc, w)"
| "append_certs env as_pem (c # cs) acc w =
     (if c = [] then append_certs env as_pem cs acc w
      else case append_cert env as_pem acc c w of
             (Inl rc, w) \<Rightarrow> (Err rc, w)
           | (Inr acc, w) \<Rightarrow> append_certs env as_pem cs acc w)"

definition pkcs7_certs_extract :: "'w wolf_cms \<Rightarrow> bool \<Rightarrow> byte list \<Rightarrow> 'w \<Rightarrow> byte list wc_result \<times> 'w" where
  "pkcs7_certs_extract env as_pem p7_der w =
     (if p7_der = [] then (Err WOLFCERT_ERR_BAD_ARG, w)
      else case cm_New env w of (got, w) \<Rightarrow>
      if \<not> got then (Err WOLFCERT_ERR_MEMORY, w)
      else case cm_VerifySignedData env True p7_der w of ((rc, sd), w) \<Rightarrow>
      if rc \<noteq> 0 then (Err (cms_err env rc), cm_Free env w)
      else case append_certs env as_pem (take (cm_MAX_PKCS7_CERTS env) (sd_cert sd)) ([], 0) w of
             (Inl rc, w) \<Rightarrow> (Err rc, cm_Free env w)
           | (Inr (buf, cap), w) \<Rightarrow>
               (if buf = [] then Err WOLFCERT_ERR_NOT_FOUND else Ok buf, cm_Free env w))"

definition wolfcert_pkcs7_certs_to_pem :: "'w wolf_cms \<Rightarrow> byte list \<Rightarrow> 'w \<Rightarrow> byte list wc_result \<times> 'w" where
  "wolfcert_pkcs7_certs_to_pem env p7_der w = pkcs7_certs_extract env True p7_der w"

definition wolfcert_pkcs7_certs_to_der :: "'w wolf_cms \<Rightarrow> byte list \<Rightarrow> 'w \<Rightarrow> byte list wc_result \<times> 'w" where
  "wolfcert_pkcs7_certs_to_der env p7_der w = pkcs7_certs_extract env False p7_der w"

section \<open>Building a certs-only message\<close>

fun validate_certs :: "byte list list \<Rightarrow> wc_rc" where
  "validate_certs [] = WOLFCERT_OK"
| "validate_certs (c # cs) =
     (if length c < 2 then WOLFCERT_ERR_BAD_ARG
      else if c ! 0 \<noteq> 0x30 then WOLFCERT_ERR_PARSE
      else validate_certs cs)"

text \<open>The loop from the last certificate to the first; the argument is the reversed list.\<close>

fun add_certificates :: "'w wolf_cms \<Rightarrow> byte list list \<Rightarrow> byte list list \<Rightarrow> 'w \<Rightarrow> (int \<times> byte list list) \<times> 'w" where
  "add_certificates env [] p7 w = ((0, p7), w)"
| "add_certificates env (c # cs) p7 w =
     (case cm_AddCertificate env c p7 w of ((rc, p7), w) \<Rightarrow>
        if rc \<noteq> 0 then ((rc, p7), w) else add_certificates env cs p7 w)"

definition wolfcert_pkcs7_build_certs_only :: "'w wolf_cms \<Rightarrow> byte list list \<Rightarrow> 'w \<Rightarrow> byte list wc_result \<times> 'w" where
  "wolfcert_pkcs7_build_certs_only env certs w =
     (if certs = [] then (Err WOLFCERT_ERR_BAD_ARG, w)
      else if validate_certs certs \<noteq> WOLFCERT_OK then (Err (validate_certs certs), w)
      else case cm_New env w of (got, w) \<Rightarrow>
      if \<not> got then (Err WOLFCERT_ERR_MEMORY, w)
      else case add_certificates env (rev certs) [] w of ((rc, p7), w) \<Rightarrow>
      case (if rc = 0 then cm_SetSignerIdentifierType env w else (rc, w)) of (rc, w) \<Rightarrow>
      if rc \<noteq> 0 then (Err (cms_err env rc), cm_Free env w)
      else let cap = (sum_list (map length certs) + 512) mod 2 ^ 32 in
      case cm_malloc env w of (got, w) \<Rightarrow>
      if \<not> got then (Err WOLFCERT_ERR_MEMORY, cm_Free env w)
      else case cm_EncodeCertsOnly env p7 cap w of (r, w) \<Rightarrow> (encoded env r, cm_Free env w))"

section \<open>The objects of the library\<close>

text \<open>
  \<open>live\<close> counts the PKCS7 objects and the random number generators that exist. Allocating one adds it,
  freeing one removes it, every other call leaves the count as it is.
\<close>

locale counting_cms =
  fixes env :: "'w wolf_cms" and live :: "'w \<Rightarrow> int"
  assumes malloc: "cm_malloc env w = (g, w') \<Longrightarrow> live w' = live w"
    and new: "cm_New env w = (g, w') \<Longrightarrow> live w' = live w + of_bool g"
    and free: "live (cm_Free env w) = live w - 1"
    and init_rng: "cm_InitRng env w = (rc, w') \<Longrightarrow> live w' = live w + of_bool (rc = 0)"
    and free_rng: "live (cm_FreeRng env w) = live w - 1"
    and parse_cert: "cm_ParseCert env der w = (r, w') \<Longrightarrow> live w' = live w"
    and parse_req: "cm_ParseCertReq env der w = (r, w') \<Longrightarrow> live w' = live w"
    and verify: "cm_VerifySignedData env b der w = (r1, w') \<Longrightarrow> live w' = live w"
    and add_cert: "cm_AddCertificate env c cs w = (r2, w') \<Longrightarrow> live w' = live w"
    and set_sid: "cm_SetSignerIdentifierType env w = (rc, w') \<Longrightarrow> live w' = live w"
    and encode_certs: "cm_EncodeCertsOnly env cs cap w = (r3, w') \<Longrightarrow> live w' = live w"
    and init_cert: "cm_InitWithCert env c w = (r4, w') \<Longrightarrow> live w' = live w"
    and envelop: "cm_EncodeEnvelopedData env c x e cap w = (r3, w') \<Longrightarrow> live w' = live w"
    and deenvelop: "cm_DecodeEnvelopedData env c x y cap w = (r3, w') \<Longrightarrow> live w' = live w"
    and set_detached: "cm_SetDetached env w = (rc, w') \<Longrightarrow> live w' = live w"
    and encode_signed: "cm_EncodeSignedData env c x h z atts cap w = (r3, w') \<Longrightarrow> live w' = live w"
begin

lemmas live_laws = malloc new init_rng parse_cert parse_req verify add_cert set_sid encode_certs init_cert
  envelop deenvelop set_detached encode_signed

lemma append_cert: "append_cert env p acc c w = (r, w') \<Longrightarrow> live w' = live w"
  by (auto simp: append_cert_def acc_append_def dest!: live_laws split: prod.splits if_splits)

lemma append_certs: "append_certs env p cs acc w = (r, w') \<Longrightarrow> live w' = live w"
  by (induction cs arbitrary: acc w) (auto dest!: append_cert split: prod.splits if_splits sum.splits)

lemma certs_extract: "pkcs7_certs_extract env p der w = (r, w') \<Longrightarrow> live w' = live w"
  by (auto simp: pkcs7_certs_extract_def free dest!: live_laws append_certs split: prod.splits if_splits sum.splits)

lemma certs_to_pem: "wolfcert_pkcs7_certs_to_pem env der w = (r, w') \<Longrightarrow> live w' = live w"
  and certs_to_der: "wolfcert_pkcs7_certs_to_der env der w = (r, w') \<Longrightarrow> live w' = live w"
  by (auto simp: wolfcert_pkcs7_certs_to_pem_def wolfcert_pkcs7_certs_to_der_def dest: certs_extract)

lemma add_certificates: "add_certificates env cs p7 w = (r, w') \<Longrightarrow> live w' = live w"
  by (induction cs arbitrary: p7 w) (auto dest!: live_laws split: prod.splits if_splits)

lemma build_certs_only: "wolfcert_pkcs7_build_certs_only env cs w = (r, w') \<Longrightarrow> live w' = live w"
  by (auto simp: wolfcert_pkcs7_build_certs_only_def Let_def free dest!: live_laws add_certificates split: prod.splits if_splits)

end

section \<open>Certificates, packed and unpacked\<close>

text \<open>
  What the code relies on for certs-only messages: \<open>wc_PKCS7_AddCertificate\<close> prepends, and verifying an
  encoded list gives its certificates in order.
\<close>

definition certs_codec_ok :: "'w wolf_cms \<Rightarrow> bool" where
  "certs_codec_ok env \<longleftrightarrow>
     (\<forall>c cs w rc cs' w'. cm_AddCertificate env c cs w = ((rc, cs'), w') \<longrightarrow> rc = 0 \<longrightarrow> cs' = c # cs) \<and>
     (\<forall>cs cap w n buf w'. cm_EncodeCertsOnly env cs cap w = ((n, buf), w') \<longrightarrow>
        n \<noteq> 0 \<and> int (length buf) \<ge> n \<and>
        (n > 0 \<longrightarrow> (\<forall>v. \<exists>sd v'. cm_VerifySignedData env True (take (nat n) buf) v = ((0, sd), v') \<and> sd_cert sd = cs)))"

lemma add_certificates_order:
  assumes "add_certificates env cs p7 w = ((0, p7'), w')" "certs_codec_ok env"
  shows "p7' = rev cs @ p7"
  using assms(1)
proof (induction cs arbitrary: p7 w)
  case Nil
  then show ?case by simp
next
  case (Cons c cs)
  obtain rc q u where a: "cm_AddCertificate env c p7 w = ((rc, q), u)" by (metis surj_pair)
  have z: "rc = 0" "add_certificates env cs q u = ((0, p7'), w')" using Cons.prems a by (simp_all split: if_splits)
  moreover have "q = c # p7" using assms(2) a z(1) unfolding certs_codec_ok_def by blast
  ultimately show ?case using Cons.IH [of q u] by simp
qed

lemma build_certs_only_ok:
  assumes "wolfcert_pkcs7_build_certs_only env certs w = (Ok p7, w1)" "certs_codec_ok env"
  shows "validate_certs certs = WOLFCERT_OK \<and> p7 \<noteq> [] \<and>
    (\<forall>v. \<exists>sd v'. cm_VerifySignedData env True p7 v = ((0, sd), v') \<and> sd_cert sd = certs)"
proof -
  obtain q u u' rc where a: "add_certificates env (rev certs) [] u = ((rc, q), u')" "rc = 0" and v: "validate_certs certs = WOLFCERT_OK"
    and e: "\<exists>cap v n buf v'. cm_EncodeCertsOnly env q cap v = ((n, buf), v') \<and> encoded env (n, buf) = Ok p7"
    using assms(1) unfolding wolfcert_pkcs7_build_certs_only_def Let_def
    by (auto split: prod.splits if_splits) blast
  from e obtain cap v n buf v' where e: "cm_EncodeCertsOnly env q cap v = ((n, buf), v')" "encoded env (n, buf) = Ok p7" by blast
  have n: "n \<noteq> 0" "int (length buf) \<ge> n" using assms(2) e(1) unfolding certs_codec_ok_def by blast+
  then have p: "n > 0" "p7 = take (nat n) buf" using e(2) by (auto simp: encoded_def wolfcert_map_wc_err_def split: if_splits)
  then have "p7 \<noteq> []" using n by (cases buf) auto
  moreover have "q = certs" using add_certificates_order [OF _ assms(2), of "rev certs" "[]" u q u'] a by simp
  moreover have "\<forall>v. \<exists>sd v'. cm_VerifySignedData env True p7 v = ((0, sd), v') \<and> sd_cert sd = q"
    using assms(2) e(1) p unfolding certs_codec_ok_def by blast
  ultimately show ?thesis using v by simp
qed

lemma append_certs_der:
  assumes "\<forall>w. fst (cm_malloc env w)"
  shows "\<exists>cap' w'. append_certs env False cs (buf, cap) w = (Ok (buf @ concat cs, cap'), w')"
proof (induction cs arbitrary: buf cap w)
  case Nil
  then show ?case by simp
next
  case (Cons c cs)
  obtain g w0 where m: "cm_malloc env w = (g, w0)" by (rule prod.exhaust)
  then have g using assms by (metis fst_conv)
  with m obtain cap1 w1 where "acc_append env (buf, cap) c w = (Ok (buf @ c, cap1), w1)"
    by (cases "length buf + length c > cap") (simp_all add: acc_append_def)
  then show ?case using Cons.IH [of "buf @ c" cap1 w1] Cons.IH [of buf cap w] by (auto simp: append_cert_def)
qed

text \<open>
  C40. A certs-only message keeps its certificates and their order: what \<open>wolfcert_pkcs7_build_certs_only\<close>
  packs, \<open>wolfcert_pkcs7_certs_to_der\<close> unpacks as the concatenation of the same certificates, as long as
  there are no more than the library keeps.
\<close>

theorem certs_only_roundtrip:
  assumes "wolfcert_pkcs7_build_certs_only env certs w = (Ok p7, w1)" "certs_codec_ok env"
    and "length certs \<le> cm_MAX_PKCS7_CERTS env" "\<forall>w. fst (cm_malloc env w)" "\<forall>w. fst (cm_New env w)"
  shows "fst (wolfcert_pkcs7_certs_to_der env p7 w2) = Ok (concat certs)"
proof -
  note b = build_certs_only_ok [OF assms(1,2)]
  obtain g w3 where n: "cm_New env w2 = (g, w3)" by (rule prod.exhaust)
  then have g using assms(5) by (metis fst_conv)
  obtain sd w4 where v: "cm_VerifySignedData env True p7 w3 = ((0, sd), w4)" "sd_cert sd = certs" using b by blast
  obtain cap w5 where a: "append_certs env False certs ([], 0) w4 = (Ok (concat certs, cap), w5)"
    using append_certs_der [OF assms(4), of certs "[]" 0 w4] by auto
  have "certs \<noteq> []" using assms(1) by (auto simp: wolfcert_pkcs7_build_certs_only_def)
  then have "concat certs \<noteq> []" using b by (cases certs) (auto split: if_splits)
  then show ?thesis using n \<open>g\<close> v a b assms(3)
    by (simp add: wolfcert_pkcs7_certs_to_der_def pkcs7_certs_extract_def)
qed

section \<open>A small library\<close>

text \<open>
  A concrete library that satisfies the laws: messages are packed with a terminated encoding of byte
  strings, and a certificate is seven bytes. \<open>small_cms\<close> counts the live objects in the world.
\<close>

fun pack :: "byte list \<Rightarrow> byte list" where
  "pack [] = [0]"
| "pack (b # bs) = 1 # b # pack bs"

fun unpack :: "byte list \<Rightarrow> byte list \<times> byte list" where
  "unpack (t # b # r) = (if t = 1 then (b # fst (unpack r), snd (unpack r)) else ([], b # r))"
| "unpack _ = ([], [])"

lemma unpack_code [code]:
  "unpack bs = (case bs of t # b # r \<Rightarrow> if t = 1 then (case unpack r of (x, y) \<Rightarrow> (b # x, y)) else ([], b # r) | _ \<Rightarrow> ([], []))"
  by (cases bs rule: unpack.cases) (auto split: prod.splits)

lemma unpack_pack [simp]: "unpack (pack x @ r) = (x, r)"
  by (induction x) (cases r; simp)+

fun packs :: "byte list list \<Rightarrow> byte list" where
  "packs [] = []"
| "packs (x # xs) = pack x @ packs xs"

lemma unpack_length: "length (snd (unpack (b # bs))) \<le> length bs"
proof (induction "b # bs" arbitrary: b bs rule: unpack.induct)
  case (1 t b r)
  then show ?case by (cases r) auto
qed auto

function unpacks :: "byte list \<Rightarrow> byte list list" where
  "unpacks [] = []"
| "unpacks (b # bs) = fst (unpack (b # bs)) # unpacks (snd (unpack (b # bs)))"
  by pat_completeness auto
termination
  by (relation "measure length") (use unpack_length in \<open>auto simp: less_Suc_eq_le\<close>)

lemma unpacks_code [code]:
  "unpacks bs = (case bs of [] \<Rightarrow> [] | _ # _ \<Rightarrow> (case unpack bs of (x, y) \<Rightarrow> x # unpacks y))"
  by (cases bs) (auto split: prod.splits)

lemma unpacks_packs [simp]: "unpacks (packs xs) = xs"
proof (induction xs)
  case (Cons x xs)
  obtain b bs where "pack x @ packs xs = b # bs" by (cases x) auto
  then show ?case using Cons unpack_pack [of x "packs xs"] by (metis packs.simps(2) unpacks.simps(2) fst_conv snd_conv)
qed simp

fun attrib_pairs :: "byte list list \<Rightarrow> PKCS7Attrib list" where
  "attrib_pairs (a # v # r) = \<lparr>at_oid = a, at_value = v\<rparr> # attrib_pairs r"
| "attrib_pairs _ = []"

lemma attrib_pairs [simp]: "attrib_pairs (concat (map (\<lambda>a. [at_oid a, at_value a]) as)) = as"
  by (induction as) auto

definition small_decoded :: "byte list \<Rightarrow> DecodedCert" where
  "small_decoded d = \<lparr>dc_subjectRaw = Some [d ! 3], dc_issuerRaw = Some [d ! 4], dc_subjectCN = None, dc_subjectHash = [d ! 3],
     dc_issuerHash = [d ! 4], dc_publicKey = [d ! 5], dc_keyOID = Some RSAk, dc_isCA = (d ! 2 = 1),
     dc_keyUsage = (if d ! 6 = 0 then None else Some (unat (d ! 6))), dc_serial = [1]\<rparr>"

definition plain_cms :: "'w wolf_cms" where
  "plain_cms = \<lparr>cm_codes = \<lparr>MEMORY_E = -125, BAD_FUNC_ARG = -173, BUFFER_E = -132, ASN_PARSE_E = -140, NOT_COMPILED_IN = -174, ALGO_ID_E = -145\<rparr>,
     cm_MAX_PKCS7_CERTS = 4, cm_malloc = (\<lambda>w. (True, w)), cm_New = (\<lambda>w. (True, w)), cm_Free = (\<lambda>w. w),
     cm_InitRng = (\<lambda>w. (0, w)), cm_FreeRng = (\<lambda>w. w),
     cm_ParseCert = (\<lambda>d w. ((if length d = 7 then 0 else -140, small_decoded d), w)),
     cm_ParseCertReq = (\<lambda>d w. ((if length d = 7 then 0 else -140, small_decoded d), w)),
     cm_Sha256Hash = (\<lambda>b. (0, b)), cm_DerToPem = (\<lambda>d cap. (int (length d), d)),
     cm_VerifySignedData = (\<lambda>b d w.
       ((0, if take 1 d = [2] then \<lparr>sd_content = [], sd_verifyCert = [], sd_cert = unpacks (drop 1 d), sd_decodedAttrib = []\<rparr>
            else let xs = unpacks (drop 1 d) in
                 \<lparr>sd_content = xs ! 1, sd_verifyCert = xs ! 0, sd_cert = [xs ! 0], sd_decodedAttrib = attrib_pairs (drop 2 xs)\<rparr>), w)),
     cm_AddCertificate = (\<lambda>c cs w. ((0, c # cs), w)), cm_SetSignerIdentifierType = (\<lambda>w. (0, w)),
     cm_EncodeCertsOnly = (\<lambda>cs cap w. let m = 2 # packs cs in ((int (length m), m), w)),
     cm_InitWithCert = (\<lambda>c w. ((0, Some RSAk), w)),
     cm_EncodeEnvelopedData = (\<lambda>c x e cap w. ((int (length x), x), w)),
     cm_DecodeEnvelopedData = (\<lambda>c k x cap w. ((int (length x), x), w)), cm_SetDetached = (\<lambda>w. (0, w)),
     cm_EncodeSignedData = (\<lambda>cert key h content atts cap w.
       let m = 1 # packs (cert # (case content of None \<Rightarrow> [] | Some c \<Rightarrow> c) # concat (map (\<lambda>a. [at_oid a, at_value a]) atts)) in
       ((int (length m), m), w))\<rparr>"

definition small_cms :: "int wolf_cms" where
  "small_cms = plain_cms\<lparr>cm_New := (\<lambda>w. (True, w + 1)), cm_Free := (\<lambda>w. w - 1),
     cm_InitRng := (\<lambda>w. (0, w + 1)), cm_FreeRng := (\<lambda>w. w - 1)\<rparr>"

interpretation small_cms: counting_cms small_cms id
  by unfold_locales (auto simp: small_cms_def plain_cms_def Let_def)

lemma small_certs_codec: "certs_codec_ok small_cms"
  unfolding certs_codec_ok_def by (auto simp: small_cms_def plain_cms_def Let_def)

lemma small_cms_allocates: "\<forall>w. fst (cm_malloc small_cms w)" "\<forall>w. fst (cm_New small_cms w)"
  by (simp_all add: small_cms_def plain_cms_def)

theorem certs_only_roundtrip_witness:
  "fst (wolfcert_pkcs7_certs_to_der small_cms
     (projr (fst (wolfcert_pkcs7_build_certs_only small_cms [[0x30, 0], [0x30, 1, 9]] 0))) 0) = Ok [0x30, 0, 0x30, 1, 9]"
proof -
  have "wolfcert_pkcs7_build_certs_only small_cms [[0x30, 0], [0x30, 1, 9]] 0 = (Ok (2 # packs [[0x30, 0], [0x30, 1, 9]]), 0)"
    by (simp add: wolfcert_pkcs7_build_certs_only_def small_cms_def plain_cms_def encoded_def)
  then show ?thesis
    using certs_only_roundtrip [OF _ small_certs_codec _ small_cms_allocates, of _ 0] by (simp add: small_cms_def plain_cms_def)
qed

end
