(* ===== verification/Client_Cfg.thy ===== *)
theory Client_Cfg
  imports Http_Transcript Cms
begin

text \<open>
  What the enrolment clients share: the server configuration of \<open>wolfcert/types.h\<close> and the
  environment a client runs in, that is the HTTP session's environment, wolfSSL's TLS, base64 and
  CMS functions and the built-in transport of the build.
\<close>

text \<open>A value outside the enumeration is possible in C, and is refused.\<close>

datatype WolfCertEncoding = WOLFCERT_ENCODING_PEM | WOLFCERT_ENCODING_DER | Other_Encoding int

datatype WolfCertScepTxidMode = WOLFCERT_SCEP_TXID_RANDOM | WOLFCERT_SCEP_TXID_PUBKEY_HASH

datatype WolfCertScepContentCipher =
  WOLFCERT_SCEP_CIPHER_AUTO | WOLFCERT_SCEP_CIPHER_AES128 | WOLFCERT_SCEP_CIPHER_AES256 | WOLFCERT_SCEP_CIPHER_DES3
  | Other_Cipher int

datatype WolfCertScepSigningHash =
  WOLFCERT_SCEP_HASH_AUTO | WOLFCERT_SCEP_HASH_SHA256 | WOLFCERT_SCEP_HASH_SHA384 | WOLFCERT_SCEP_HASH_SHA512
  | Other_Hash int

datatype WolfCertScepRenewalMsgType = WOLFCERT_SCEP_RENEWAL_MSG_RENEWAL_REQ | WOLFCERT_SCEP_RENEWAL_MSG_PKCS_REQ

record WolfCertEstServerOpts =
  eo_username :: "cstring option"
  eo_password :: "cstring option"
  eo_allow_post_handshake_auth :: bool
  eo_auto_csrattrs :: bool

record WolfCertScepServerOpts =
  so_ca_id :: "cstring option"
  so_txid_mode :: WolfCertScepTxidMode
  so_content_cipher :: WolfCertScepContentCipher
  so_renewal_msg_type :: WolfCertScepRenewalMsgType
  so_signing_hash :: WolfCertScepSigningHash

text \<open>The union of the protocol options: the protocol says which of the two is read.\<close>

record 'w WolfCertServerCfg =
  sv_protocol :: WolfCertProtocol
  sv_server_url :: "cstring option"
  sv_trust_anchors :: "byte list option"
  sv_verify_server :: bool
  sv_timeout_ms :: int
  sv_client_cert :: "byte list option"
  sv_client_key :: "byte list option"
  sv_max_response_bytes :: nat
  sv_est :: WolfCertEstServerOpts
  sv_scep :: WolfCertScepServerOpts
  sv_transport :: "'w WolfCertTransport"

record 'w client_env =
  ce_http :: "'w http_env"
  ce_tls :: "'w tls_lib"
  ce_builtin :: "'w WolfCertTransport option"
  ce_cms :: "'w wolf_cms"
  ce_b64_mime :: b64_fun
  ce_b64_dec :: b64_fun

abbreviation ce_alloc :: "'w client_env \<Rightarrow> 'w \<Rightarrow> mem \<times> 'w" where
  "ce_alloc env \<equiv> e_alloc (ce_http env)"

abbreviation ce_codes :: "'w client_env \<Rightarrow> wc_codes" where
  "ce_codes env \<equiv> cm_codes (ce_cms env)"

definition zero_request :: WolfCertHttpRequest where
  "zero_request = \<lparr>rq_method = None, rq_url = None, rq_content_type = None, rq_content_transfer_encoding = None,
     rq_accept = None, rq_basic_user = None, rq_basic_pass = None, rq_body = []\<rparr>"

text \<open>The environment in which an open session reads and writes.\<close>

abbreviation ce_session :: "'w client_env \<Rightarrow> 'w open_session \<Rightarrow> 'w http_env" where
  "ce_session env os \<equiv> with_transport (os_transport os) (ce_http env)"

lemma map_wc_err_want [simp]: "\<not> rc_want (wolfcert_map_wc_err wc rc)"
  by (simp add: wolfcert_map_wc_err_def rc_want_def)

lemma ssl_ok_session [simp]: "ssl_ok (ce_session env os) = ssl_ok (ce_http env)"
  by (simp add: ssl_ok_def with_transport_def)

text \<open>Errors of the certificate reader are final.\<close>

lemma certs_extract_want: "pkcs7_certs_extract env p der w = (Inl rc, w') \<Longrightarrow> \<not> rc_want rc \<and> rc \<noteq> WOLFCERT_OK"
proof -
  have a: "acc_append env acc d v = (Inl e, v') \<Longrightarrow> e = WOLFCERT_ERR_MEMORY" for acc d v e v'
    by (auto simp: acc_append_def split: prod.splits if_splits)
  have b: "append_cert env p acc d v = (Inl e, v') \<Longrightarrow> e = WOLFCERT_ERR_MEMORY \<or> e = WOLFCERT_ERR_CRYPTO" for acc d v e v'
    by (auto simp: append_cert_def dest: a split: prod.splits if_splits)
  have c: "append_certs env p ds acc v = (Inl e, v') \<Longrightarrow> e = WOLFCERT_ERR_MEMORY \<or> e = WOLFCERT_ERR_CRYPTO" for ds acc v e v'
    by (induction ds arbitrary: acc v) (auto dest!: b split: prod.splits if_splits sum.splits)
  show "pkcs7_certs_extract env p der w = (Inl rc, w') \<Longrightarrow> \<not> rc_want rc \<and> rc \<noteq> WOLFCERT_OK"
    by (auto simp: pkcs7_certs_extract_def rc_want_def dest!: c split: prod.splits if_splits sum.splits)
      (auto simp: wolfcert_map_wc_err_def split: if_splits)
qed

lemma certs_extract_some: "pkcs7_certs_extract env p der w = (Inr out, w') \<Longrightarrow> out \<noteq> []"
  by (auto simp: pkcs7_certs_extract_def split: prod.splits if_splits sum.splits)

end
