(* ===== verification/Http_Exchange.thy ===== *)
theory Http_Exchange
  imports Http_Transcript
begin

text \<open>
  What an HTTP exchange does, for any way the transport splits the data and any number of calls a
  non-blocking caller needs: the bytes the peer is given are the request, the response handed to the
  caller is the one on the wire, the buffers keep their bounds, and a session that failed or lost
  its framing is never used again.
\<close>

section \<open>Messages on the wire\<close>

text \<open>A header block: its first empty line is its end.\<close>

definition complete_head :: "byte list \<Rightarrow> bool" where
  "complete_head b \<longleftrightarrow> 4 \<le> length b \<and> end_at b (length b - 4) \<and> no_end_before b (length b - 4)"

definition interim_block :: "byte list \<Rightarrow> bool" where
  "interim_block b \<longleftrightarrow> complete_head b \<and>
     (\<exists>st. parse_status_line (cstr b) = Ok st \<and> status_is_interim st)"

text \<open>How the end of the body is found (RFC 9112, section 6.3), and the length where it is given.\<close>

definition body_framing :: "bool \<Rightarrow> int \<Rightarrow> cstring \<Rightarrow> SmState \<times> int" where
  "body_framing hr st hdrs =
     (if response_has_no_body st hr then (SM_READ_BODY_CL, 0)
      else let cl = hdr_content_length True hdrs in (body_state (hdr_chunked True hdrs) cl, cl))"

definition http_message :: "bool \<Rightarrow> byte list \<Rightarrow> int \<Rightarrow> byte list \<Rightarrow> byte list \<Rightarrow> bool" where
  "http_message hr h st wire body \<longleftrightarrow>
     complete_head h \<and> parse_status_line (cstr h) = Ok st \<and> \<not> status_is_interim st \<and>
     (case body_framing hr st (cstr h) of (bst, cl) \<Rightarrow>
        if bst = SM_READ_BODY_CHUNKED then chunked_body wire body
        else wire = body \<and> (bst = SM_READ_BODY_CL \<longrightarrow> int (length body) = cl))"

text \<open>
  A finished exchange: at most eight interim blocks, the response, and possibly bytes after it. The
  session stays open only when nothing follows the response and the response delimits itself.
\<close>

definition exchanged :: "byte list \<Rightarrow> byte list \<Rightarrow> bool \<Rightarrow> WolfCertHttpSession \<Rightarrow> byte list \<Rightarrow> byte list \<Rightarrow> bool" where
  "exchanged hb bd hr s sent rcvd \<longleftrightarrow>
     sent = hb @ bd \<and>
     (\<exists>bs h wire rest. rcvd = concat bs @ h @ wire @ rest \<and> list_all interim_block bs \<and>
        length bs \<le> WOLFCERT_HTTP_MAX_INTERIM \<and>
        http_message hr h (rs_status_code (hs_out s)) wire (rs_body (hs_out s)) \<and>
        rs_content_type (hs_out s) = find_header True (cstr h) (lit ''Content-Type'') \<and>
        (\<not> hs_closed s \<longrightarrow> rest = [] \<and>
           fst (body_framing hr (rs_status_code (hs_out s)) (cstr h)) \<noteq> SM_READ_BODY_EOF))"

definition trace_inv :: "byte list \<Rightarrow> byte list \<Rightarrow> bool \<Rightarrow> WolfCertHttpSession \<Rightarrow> byte list \<Rightarrow> byte list \<Rightarrow> bool" where
  "trace_inv hb bd hr s sent rcvd \<longleftrightarrow>
     hs_head_request s = hr \<and> hs_body s = bd \<and>
     (if hs_state s \<in> {SM_HANDSHAKE, SM_WRITE_HEAD}
      then hs_head s = Some hb \<and> sent = take (hs_tx_off s) hb \<and> rcvd = []
      else if hs_state s = SM_WRITE_BODY then sent = hb @ take (hs_tx_off s) bd \<and> rcvd = []
      else if hs_state s = SM_READ_HEAD then
        sent = hb @ bd \<and> (\<exists>bs. list_all interim_block bs \<and> length bs = hs_interim s \<and> rcvd = concat bs @ hs_rx s)
      else if hs_state s \<in> {SM_READ_BODY_CL, SM_READ_BODY_EOF, SM_READ_BODY_CHUNKED} then
        sent = hb @ bd \<and>
        (\<exists>bs h. list_all interim_block bs \<and> length bs = hs_interim s \<and> rcvd = concat bs @ hs_rx s \<and>
           h = take (hs_hdr_end s) (hs_rx s) \<and> complete_head h \<and>
           parse_status_line (cstr h) = Ok (hs_status s) \<and> \<not> status_is_interim (hs_status s) \<and>
           body_framing hr (hs_status s) (cstr h) = (hs_state s, hs_content_length s) \<and>
           hs_content_type s = find_header True (cstr h) (lit ''Content-Type''))
      else exchanged hb bd hr s sent rcvd)"

section \<open>Transitions keep the trace\<close>

lemma end_at_take: "j + 3 < n \<Longrightarrow> end_at (take n rx) j = end_at rx j"
  by (simp add: end_at_def)

lemma found_head:
  assumes "no_end_before (hs_rx s) (hs_hdr_scan s)" "hdr_found s + 3 < length (hs_rx s)"
  shows "complete_head (take (hdr_found s + 4) (hs_rx s))"
proof -
  let ?i = "hdr_found s"
  have l: "length (take (?i + 4) (hs_rx s)) = ?i + 4" using assms(2) by simp
  have "end_at (take (?i + 4) (hs_rx s)) ?i" using find_hdr_end_hit [OF assms(2)] by (simp add: end_at_take)
  moreover have "no_end_before (take (?i + 4) (hs_rx s)) ?i"
    using no_end_before_found [OF assms(1)] assms(2) by (auto simp: no_end_before_def end_at_take)
  ultimately show ?thesis using l by (simp add: complete_head_def)
qed

lemma inspect_headers_framing:
  assumes "inspect_headers (\<lambda>k. True) now s = (WOLFCERT_OK, s1)" "\<not> status_is_interim (hs_status s1)"
  shows "\<exists>st. parse_status_line (cstr (take (hs_hdr_end s) (hs_rx s))) = Ok st \<and> hs_status s1 = st \<and>
    body_framing (hs_head_request s) st (cstr (take (hs_hdr_end s) (hs_rx s))) = (hs_state s1, hs_content_length s1) \<and>
    hs_content_type s1 = find_header True (cstr (take (hs_hdr_end s) (hs_rx s))) (lit ''Content-Type'')"
proof -
  define hdrs where "hdrs = cstr (take (hs_hdr_end s) (hs_rx s))"
  obtain st where st: "parse_status_line hdrs = Ok st" using assms(1)
    by (cases "parse_status_line hdrs")
      (auto simp: inspect_headers_def hdrs_def [symmetric] parse_status_line_def Let_def split: if_splits option.splits)
  have "st \<noteq> 101" "\<not> status_is_interim st"
    using assms st by (auto simp: inspect_headers_def hdrs_def [symmetric] Let_def split: if_splits)
  then show ?thesis using assms(1) st
    by (cases "response_has_no_body st (hs_head_request s)")
      (auto simp: inspect_headers_def hdrs_def [symmetric] body_framing_def Let_def body_state_def split: if_splits)
qed

lemma trace_final:
  assumes "trace_inv hb bd hr s sent rcvd" "sess_inv s" "hs_resp s \<noteq> None" "hs_state s = SM_READ_HEAD"
    "i = hdr_found s" "i + 3 < length (hs_rx s)"
    "inspect_headers (\<lambda>k. True) now (s\<lparr>hs_hdr_end := i + 4\<rparr>) = (WOLFCERT_OK, s')" "\<not> status_is_interim (hs_status s')"
  shows "trace_inv hb bd hr s' sent rcvd"
proof -
  have h: "complete_head (take (i + 4) (hs_rx s))"
    using found_head assms(4-6) sess_invD(6) [OF assms(2,3)] by (simp add: in_flight_ok_def)
  obtain bs where bs: "list_all interim_block bs" "length bs = hs_interim s" "rcvd = concat bs @ hs_rx s"
    and tr: "sent = hb @ bd" "hs_head_request s = hr" "hs_body s = bd"
    using assms(1,4) by (auto simp: trace_inv_def)
  obtain st where st: "parse_status_line (cstr (take (i + 4) (hs_rx s))) = Ok st" "hs_status s' = st"
      "body_framing hr st (cstr (take (i + 4) (hs_rx s))) = (hs_state s', hs_content_length s')"
      "hs_content_type s' = find_header True (cstr (take (i + 4) (hs_rx s))) (lit ''Content-Type'')"
    using inspect_headers_framing [OF assms(7,8)] tr(2) by auto
  from assms(7) show ?thesis
  proof (cases rule: inspect_headers_ok)
    case (interim x)
    then show ?thesis using assms(8) by simp
  next
    case (final x cl scan bst ct ra)
    have "hs_head_request s' = hr" "hs_body s' = bd" "hs_rx s' = hs_rx s" "hs_interim s' = hs_interim s"
      "hs_hdr_end s' = i + 4" "hs_state s' \<in> {SM_READ_BODY_CL, SM_READ_BODY_EOF, SM_READ_BODY_CHUNKED}"
      using final tr by simp_all
    then show ?thesis using bs tr(1) h st assms(8) unfolding trace_inv_def by auto
  qed
qed

text \<open>A body that has been framed and published closes the exchange.\<close>

lemma trace_done:
  assumes tr: "trace_inv hb bd hr s sent rcvd" and inv: "sess_inv s" "hs_resp s \<noteq> None"
    and st: "hs_state s \<in> {SM_READ_BODY_CL, SM_READ_BODY_EOF, SM_READ_BODY_CHUNKED}"
    and wire: "drop (hs_hdr_end s) (hs_rx s) = wire @ rest"
    and body: "if hs_state s = SM_READ_BODY_CHUNKED then chunked_body wire body
      else wire = body \<and> (hs_state s = SM_READ_BODY_CL \<longrightarrow> int (length body) = hs_content_length s)"
    and s': "hs_state s' = SM_DONE" "hs_head_request s' = hs_head_request s" "hs_body s' = hs_body s"
      "rs_status_code (hs_out s') = hs_status s" "rs_content_type (hs_out s') = hs_content_type s"
      "rs_body (hs_out s') = body" "\<not> hs_closed s' \<Longrightarrow> rest = [] \<and> hs_state s \<noteq> SM_READ_BODY_EOF"
  shows "trace_inv hb bd hr s' sent rcvd"
proof -
  obtain bs where T: "sent = hb @ bd" "hs_head_request s = hr" "hs_body s = bd"
    "list_all interim_block bs" "length bs = hs_interim s" "rcvd = concat bs @ hs_rx s"
    "complete_head (take (hs_hdr_end s) (hs_rx s))"
    "parse_status_line (cstr (take (hs_hdr_end s) (hs_rx s))) = Ok (hs_status s)" "\<not> status_is_interim (hs_status s)"
    "body_framing hr (hs_status s) (cstr (take (hs_hdr_end s) (hs_rx s))) = (hs_state s, hs_content_length s)"
    "hs_content_type s = find_header True (cstr (take (hs_hdr_end s) (hs_rx s))) (lit ''Content-Type'')"
    using tr st unfolding trace_inv_def by auto
  have rx: "hs_rx s = take (hs_hdr_end s) (hs_rx s) @ wire @ rest" using wire append_take_drop_id [of "hs_hdr_end s" "hs_rx s"] by simp
  have msg: "http_message hr (take (hs_hdr_end s) (hs_rx s)) (hs_status s) wire body"
    unfolding http_message_def using T body by simp
  have "exchanged hb bd hr s' sent rcvd"
    unfolding exchanged_def
  proof (intro conjI exI)
    show "sent = hb @ bd" by (rule T(1))
    show "rcvd = concat bs @ take (hs_hdr_end s) (hs_rx s) @ wire @ rest" using T(6) rx by simp
    show "list_all interim_block bs" by (rule T(4))
    show "length bs \<le> WOLFCERT_HTTP_MAX_INTERIM" using T(5) sess_invD(5) [OF inv(1)] by simp
    show "http_message hr (take (hs_hdr_end s) (hs_rx s)) (rs_status_code (hs_out s')) wire (rs_body (hs_out s'))"
      using msg s' by simp
    show "rs_content_type (hs_out s') = find_header True (cstr (take (hs_hdr_end s) (hs_rx s))) (lit ''Content-Type'')"
      using T(11) s' by simp
    show "\<not> hs_closed s' \<longrightarrow> rest = [] \<and> fst (body_framing hr (rs_status_code (hs_out s'))
        (cstr (take (hs_hdr_end s) (hs_rx s)))) \<noteq> SM_READ_BODY_EOF"
      using s' T(10) by simp
  qed
  then show ?thesis using s' T(2,3) by (simp add: trace_inv_def)
qed

lemma take_resume: "a \<le> b \<Longrightarrow> take a xs @ take (b - a) (drop a xs) = take b xs"
  using take_add [of a "b - a" xs] by simp

lemma take_drop_split: "drop a xs = take n (drop a xs) @ drop (a + n) xs"
  by (metis append_take_drop_id drop_drop add.commute)

lemma trace_fill:
  assumes "trace_inv hb bd hr s sent rcvd" "hs_hdr_end s \<le> length (hs_rx s)"
    "hs_state s \<in> {SM_READ_BODY_CL, SM_READ_BODY_EOF, SM_READ_BODY_CHUNKED}"
    "s' = s\<lparr>hs_scan := scan, hs_rx_cap := c, hs_rx := hs_rx s @ d\<rparr>"
  shows "trace_inv hb bd hr s' sent (rcvd @ d)"
  using assms unfolding trace_inv_def by auto

lemma sm_trans_trace:
  assumes tr: "sm_trans True s sd rd rc s'" and inv: "sess_inv s" "hs_resp s \<noteq> None" "settled rc"
    and T: "trace_inv hb bd hr s sent rcvd"
  shows "trace_inv hb bd hr s' (sent @ sd) (rcvd @ rd)"
proof -
  note fl = sess_invD(6) [OF inv(1,2)]
  from tr show ?thesis
  proof (cases rule: sm_trans.cases)
    case handshake
    then show ?thesis using T by (simp add: trace_inv_def)
  next
    case handshake_wait
    then show ?thesis using T by simp
  next
    case (head_part h off)
    then show ?thesis using T take_resume [of "hs_tx_off s" off h] by (simp add: trace_inv_def)
  next
    case (head_sent h)
    then show ?thesis using T fl by (auto simp: trace_inv_def in_flight_ok_def)
  next
    case (body_part off)
    then show ?thesis using T take_resume [of "hs_tx_off s" off bd] by (simp add: trace_inv_def)
  next
    case body_sent
    then show ?thesis using T fl by (simp add: trace_inv_def in_flight_ok_def)
  next
    case (fill_head c)
    then show ?thesis using T by (auto simp: trace_inv_def)
  next
    case (interim i st)
    obtain bs where bs: "list_all interim_block bs" "length bs = hs_interim s" "rcvd = concat bs @ hs_rx s"
      "sent = hb @ bd" "hs_head_request s = hr" "hs_body s = bd"
      using T interim(5) by (auto simp: trace_inv_def)
    have "complete_head (take (i + 4) (hs_rx s))"
      using found_head [of s] interim fl by (simp add: in_flight_ok_def)
    then have "interim_block (take (i + 4) (hs_rx s))" using interim by (auto simp: interim_block_def)
    then have "list_all interim_block (bs @ [take (i + 4) (hs_rx s)])" using bs(1) by simp
    moreover have "rcvd = concat (bs @ [take (i + 4) (hs_rx s)]) @ drop (i + 4) (hs_rx s)" using bs(3) by simp
    moreover have "length (bs @ [take (i + 4) (hs_rx s)]) = Suc (hs_interim s)" using bs(2) by simp
    ultimately have "\<exists>bs'. list_all interim_block bs' \<and> length bs' = Suc (hs_interim s) \<and> rcvd = concat bs' @ drop (i + 4) (hs_rx s)"
      by blast
    then show ?thesis using interim bs by (simp add: trace_inv_def)
  next
    case (final i mem now)
    then have "inspect_headers (\<lambda>k. True) now (s\<lparr>hs_hdr_end := i + 4\<rparr>) = (WOLFCERT_OK, s')" by simp
    then show ?thesis using trace_final [OF T inv(1,2) final(4-6)] final by simp
  next
    case (fill_cl c)
    then show ?thesis using trace_fill [OF T, where s' = s' and scan = "hs_scan s" and c = c and d = rd] fl by (simp add: in_flight_ok_def)
  next
    case (fill_eof c)
    then show ?thesis using trace_fill [OF T, where s' = s' and scan = "hs_scan s" and c = c and d = rd] fl by (simp add: in_flight_ok_def)
  next
    case (fill_chunked scan c)
    then show ?thesis using trace_fill [OF T, where s' = s' and scan = scan and c = c and d = rd] fl by (simp add: in_flight_ok_def)
  next
    case (done_cl body cl rx c)
    have "trace_inv hb bd hr s' sent rcvd"
      by (rule trace_done [OF T inv(1,2), of body "drop (hs_hdr_end s + length body) (hs_rx s)" body])
        (use done_cl fl in \<open>auto simp: sm_publish_def in_flight_ok_def intro!: take_drop_split\<close>)
    then show ?thesis using done_cl by simp
  next
    case (done_chunked scan body cl rx c)
    have "trace_inv hb bd hr s' sent rcvd"
      by (rule trace_done [OF T inv(1,2), of "take (cs_pos scan) (drop (hs_hdr_end s) (hs_rx s))"
          "drop (hs_hdr_end s + cs_pos scan) (hs_rx s)" body])
        (use done_chunked fl in \<open>auto simp: sm_publish_def in_flight_ok_def intro!: take_drop_split\<close>)
    then show ?thesis using done_chunked by simp
  next
    case (done_eof body rx c)
    have "trace_inv hb bd hr s' sent rcvd"
      by (rule trace_done [OF T inv(1,2), of body "[]" body])
        (use done_eof fl in \<open>auto simp: sm_publish_def in_flight_ok_def\<close>)
    then show ?thesis using done_eof by simp
  next
    case finish
    then show ?thesis using T by (simp add: trace_inv_def exchanged_def)
  next
    case fail
    then show ?thesis using inv(3) by simp
  qed
qed

section \<open>The loop, a call, and a series of calls\<close>

lemma sm_trans_resp:
  assumes "sm_trans al s sd rd rc s'"
  shows "settled rc \<longrightarrow> hs_resp s' = hs_resp s \<or> hs_resp s' = None \<and> rc = WOLFCERT_OK"
    "session_kept s s' \<or> settled rc"
proof -
  show "settled rc \<longrightarrow> hs_resp s' = hs_resp s \<or> hs_resp s' = None \<and> rc = WOLFCERT_OK"
    using assms by (cases rule: sm_trans.cases) (auto simp: sm_publish_def elim!: inspect_headers_ok)
  show "session_kept s s' \<or> settled rc"
    using assms by (cases rule: sm_trans.cases) (auto simp: settled_def fills_def)
qed

text \<open>What a run of the machine, of any number of passes, keeps and gives.\<close>

definition progress ::
  "'w http_env \<Rightarrow> WolfCertHttpSession \<Rightarrow> 'w \<Rightarrow> wc_rc \<Rightarrow> WolfCertHttpSession \<Rightarrow> 'w \<Rightarrow> bool" where
  "progress env s w rc s' w' \<longleftrightarrow>
     session_kept s s' \<and>
     (settled rc \<longrightarrow> sess_inv s' \<and> (rc_want rc \<longrightarrow> hs_resp s' = hs_resp s) \<and>
        (hs_resp s' = None \<longrightarrow> hs_state s' = SM_IDLE \<and> length (rs_body (hs_out s')) \<le> hs_max_body s')) \<and>
     (\<exists>sd rd. moved env w sd rd w' \<and>
        (allocs env \<and> settled rc \<longrightarrow> (\<forall>hb bd hr sent rcvd.
           trace_inv hb bd hr s sent rcvd \<longrightarrow> trace_inv hb bd hr s' (sent @ sd) (rcvd @ rd))))"

lemma session_kept_trans: "session_kept s t \<Longrightarrow> session_kept t u \<Longrightarrow> session_kept s u"
  by (simp add: session_kept_def)

lemma sm_step_progress:
  assumes "ssl_ok env" "sess_inv s" "hs_resp s \<noteq> None" "sm_step env s w = (rc, s', w')"
  shows "progress env s w rc s' w'"
proof -
  obtain sd rd where t: "sm_trans (allocs env) s sd rd rc s'" "moved env w sd rd w'"
    using sm_step_trans [OF assms] by blast
  have want: "rc_want rc \<longrightarrow> hs_resp s' = hs_resp s" using sm_trans_resp(1) [OF t(1)] by (auto simp: settled_def)
  have tr: "allocs env \<and> settled rc \<longrightarrow> (\<forall>hb bd hr sent rcvd.
      trace_inv hb bd hr s sent rcvd \<longrightarrow> trace_inv hb bd hr s' (sent @ sd) (rcvd @ rd))"
    using sm_trans_trace [OF _ assms(2,3)] t(1) by (cases "allocs env") auto
  show ?thesis
  proof (cases "settled rc")
    case True
    then show ?thesis unfolding progress_def using sm_trans_inv [OF t(1) assms(2,3) True] want tr t(2) by blast
  next
    case False
    then show ?thesis unfolding progress_def using sm_trans_resp(2) [OF t(1)] t(2) by blast
  qed
qed

lemma progress_trans:
  assumes a: "progress env s w WOLFCERT_OK s1 w1" and b: "progress env s1 w1 rc s' w'" and r: "hs_resp s1 = hs_resp s"
  shows "progress env s w rc s' w'"
proof -
  have ok: "settled WOLFCERT_OK" by (simp add: settled_def)
  obtain a1 b1 where m1: "moved env w a1 b1 w1" and t1: "allocs env \<Longrightarrow> trace_inv hb bd hr s sent rcvd \<Longrightarrow>
      trace_inv hb bd hr s1 (sent @ a1) (rcvd @ b1)" for hb bd hr sent rcvd
    using a ok unfolding progress_def by blast
  obtain a2 b2 where m2: "moved env w1 a2 b2 w'" and t2: "allocs env \<Longrightarrow> settled rc \<Longrightarrow> trace_inv hb bd hr s1 sent rcvd \<Longrightarrow>
      trace_inv hb bd hr s' (sent @ a2) (rcvd @ b2)" for hb bd hr sent rcvd
    using b unfolding progress_def by blast
  have m: "moved env w (a1 @ a2) (b1 @ b2) w'" by (rule moved_trans [OF m1 m2])
  have t: "allocs env \<and> settled rc \<longrightarrow> (\<forall>hb bd hr sent rcvd. trace_inv hb bd hr s sent rcvd \<longrightarrow>
      trace_inv hb bd hr s' (sent @ a1 @ a2) (rcvd @ b1 @ b2))"
    using t2 [OF _ _ t1] by simp
  have k: "session_kept s s'" using a b session_kept_trans unfolding progress_def by blast
  have rest: "settled rc \<longrightarrow> sess_inv s' \<and> (rc_want rc \<longrightarrow> hs_resp s' = hs_resp s) \<and>
      (hs_resp s' = None \<longrightarrow> hs_state s' = SM_IDLE \<and> length (rs_body (hs_out s')) \<le> hs_max_body s')"
    using b r unfolding progress_def by simp
  show ?thesis unfolding progress_def using k rest m t by blast
qed

lemma sm_loop_progress:
  "ssl_ok env \<Longrightarrow> sess_inv s \<Longrightarrow> hs_resp s \<noteq> None \<Longrightarrow> sm_loop env s w = (rc, s', w') \<Longrightarrow>
     progress env s w rc s' w' \<and> (rc = WOLFCERT_OK \<longrightarrow> hs_resp s' = None)"
proof (induction env s w rule: sm_loop.induct)
  case (1 env s w)
  obtain rc1 s1 w1 where st: "sm_step env s w = (rc1, s1, w1)" by (rule prod_cases3)
  note p = sm_step_progress [OF 1(2-4) st]
  show ?case
  proof (cases "rc1 = WOLFCERT_OK \<and> hs_state s1 \<noteq> SM_IDLE")
    case True
    then have lp: "sm_loop env s1 w1 = (rc, s', w')" using 1(5) st by (simp add: sm_loop.simps [of env s])
    have s1: "sess_inv s1" "hs_resp s1 \<noteq> None" using p True unfolding progress_def settled_def by auto
    have same: "hs_resp s1 = hs_resp s"
      using sm_step_trans [OF 1(2-4) st] sm_trans_resp(1) s1(2) True by (metis settled_def)
    show ?thesis using 1(1) [OF st [symmetric] refl True 1(2) s1 lp] progress_trans [OF _ _ same] p True by auto
  next
    case False
    then have eq: "rc1 = rc" "s1 = s'" "w1 = w'" using 1(5) st by (auto simp: sm_loop.simps [of env s])
    have "hs_resp s' = None" if "rc = WOLFCERT_OK"
    proof -
      have "sess_inv s'" "hs_state s' = SM_IDLE" using p False that eq unfolding progress_def settled_def by auto
      then show ?thesis using sess_invD(6) [of s'] by (cases "hs_resp s'") (auto simp: in_flight_ok_def)
    qed
    then show ?thesis using p eq by simp
  qed
qed

lemma sm_fail_inv:
  assumes "0 < hs_max_body s" "hs_max_body s + WOLFCERT_HTTP_HEADER_BUDGET < 2 ^ 64" "sm_fail s rc = (rc', s')"
  shows "rc' = rc \<and> sess_inv s' \<and> session_kept s s' \<and> hs_closed s' \<and> hs_resp s' = None \<and> hs_head s' = None \<and> hs_rx s' = []"
  using assms by (auto simp: sm_fail_def sm_reset_def sm_drop_head_def sess_inv_def session_kept_def)

definition stopped :: "WolfCertHttpSession \<Rightarrow> bool" where
  "stopped s \<longleftrightarrow> hs_closed s \<and> hs_resp s = None \<and> hs_head s = None \<and> hs_rx s = []"

lemma sm_run_progress:
  assumes "ssl_ok env" "sess_inv s" "hs_resp s \<noteq> None" "sm_run env s w = (rc, s', w')"
  shows "sess_inv s' \<and> session_kept s s' \<and>
    (if settled rc then progress env s w rc s' w' \<and> (rc = WOLFCERT_OK \<longrightarrow> hs_resp s' = None) else stopped s')"
proof -
  obtain rc1 s1 w1 where lp: "sm_loop env s w = (rc1, s1, w1)" by (rule prod_cases3)
  have p: "progress env s w rc1 s1 w1" "rc1 = WOLFCERT_OK \<longrightarrow> hs_resp s1 = None"
    using sm_loop_progress [OF assms(1-3) lp] by simp_all
  show ?thesis
  proof (cases "settled rc1")
    case True
    then have "rc = rc1" "s' = s1" "w' = w1" using assms(4) lp by (auto simp: sm_run_def settled_def rc_want_def)
    then show ?thesis using p True by (simp add: progress_def)
  next
    case False
    then have f: "sm_fail s1 rc1 = (rc, s')" using assms(4) lp
      by (auto simp: sm_run_def settled_def rc_want_def split: prod.splits)
    have k: "session_kept s s1" using p by (simp add: progress_def)
    have "0 < hs_max_body s1" "hs_max_body s1 + WOLFCERT_HTTP_HEADER_BUDGET < 2 ^ 64"
      using k sess_invD(1,2) [OF assms(2)] by (simp_all add: session_kept_def)
    then have F: "rc = rc1 \<and> sess_inv s' \<and> session_kept s1 s' \<and> stopped s'"
      using sm_fail_inv [OF _ _ f] by (simp add: stopped_def)
    then show ?thesis using session_kept_trans [OF k] False by simp
  qed
qed

lemma url_take_codes:
  "url_take_scheme mem x = Inl rc \<Longrightarrow> \<not> settled rc"
  "url_take_host mem x = Inl rc \<Longrightarrow> \<not> settled rc"
  "url_take_port p x = Inl rc \<Longrightarrow> \<not> settled rc"
  "url_take_path mem x = Inl rc \<Longrightarrow> \<not> settled rc"
     apply (auto simp: url_take_scheme_def settled_def rc_want_def split: option.splits if_splits)[1]
    apply (auto simp: url_take_host_def settled_def rc_want_def Let_def split: option.splits if_splits)[1]
   apply (auto simp: url_take_port_def settled_def rc_want_def split: if_splits prod.splits)[1]
  apply (auto simp: url_take_path_def settled_def rc_want_def Let_def split: if_splits)[1]
  done

lemma http_url_parse_code: "wolfcert_http_url_parse mem u = Inl rc \<Longrightarrow> \<not> settled rc"
proof (cases u)
  case None
  then show "wolfcert_http_url_parse mem u = Inl rc \<Longrightarrow> \<not> settled rc"
    by (auto simp: wolfcert_http_url_parse_def settled_def rc_want_def)
next
  case (Some url)
  assume e: "wolfcert_http_url_parse mem u = Inl rc"
  show "\<not> settled rc"
  proof (cases "url_take_scheme mem url")
    case (Inl x)
    then show ?thesis using e Some url_take_codes(1) by (simp add: wolfcert_http_url_parse_def)
  next
    case S: (Inr a)
    obtain scheme tls port s1 where a: "a = (scheme, tls, port, s1)" by (rule prod_cases4)
    show ?thesis
    proof (cases "url_take_host mem s1")
      case (Inl x)
      then show ?thesis using e Some S a url_take_codes(2) by (simp add: wolfcert_http_url_parse_def)
    next
      case H: (Inr b)
      obtain host s2 where b: "b = (host, s2)" by force
      show ?thesis
      proof (cases "url_take_port port s2")
        case (Inl x)
        then show ?thesis using e Some S a H b url_take_codes(3) by (simp add: wolfcert_http_url_parse_def)
      next
        case P: (Inr c)
        obtain port' s3 where c: "c = (port', s3)" by force
        show ?thesis using e Some S a H b P c url_take_codes(4) [of mem s3]
          by (cases "url_take_path mem s3") (simp_all add: wolfcert_http_url_parse_def)
      qed
    qed
  qed
qed

lemma build_head_code: "build_head b64 mem s req u = Inl rc \<Longrightarrow> \<not> settled rc"
  by (auto simp: build_head_def basic_auth_header_def settled_def rc_want_def Let_def split: option.splits sum.splits if_splits prod.splits)

lemma build_head_ok:
  "build_head b64 mem s req u = Inr s1 \<Longrightarrow>
     \<exists>auth. basic_auth_header b64 mem (rq_basic_user req) (rq_basic_pass req) WOLFCERT_HTTP_AUTH_BUF_SZ = Ok auth \<and>
       s1 = s\<lparr>hs_head := Some (head_text (hs_keep_alive s) req u auth), hs_tx_off := 0\<rparr>"
  by (auto simp: build_head_def Let_def split: sum.splits if_splits)

text \<open>The head of a request, as the peer must get it.\<close>

definition request_head :: "b64_fun \<Rightarrow> mem \<Rightarrow> mem \<Rightarrow> bool \<Rightarrow> WolfCertHttpRequest \<Rightarrow> byte list \<Rightarrow> bool" where
  "request_head b64 mem mem2 ka req hb \<longleftrightarrow>
     (\<exists>u auth. wolfcert_http_url_parse mem (rq_url req) = Ok u \<and>
        basic_auth_header b64 mem2 (rq_basic_user req) (rq_basic_pass req) WOLFCERT_HTTP_AUTH_BUF_SZ = Ok auth \<and>
        hb = head_text ka req u auth)"

lemma sm_begin_res:
  assumes b: "sm_begin env s req resp w = (rc, s1, w1)"
  shows "if rc = WOLFCERT_OK
    then moved env w [] [] w1 \<and> (\<exists>hb mem mem2. request_head (e_b64 env) mem mem2 (hs_keep_alive s) req hb \<and>
       (allocs env \<longrightarrow> mem = (\<lambda>k. True) \<and> mem2 = (\<lambda>k. True)) \<and>
       s1 = s\<lparr>hs_out := empty_response, hs_head := Some hb, hs_tx_off := 0, hs_resp := Some resp,
              hs_body := rq_body req, hs_head_request := (rq_method req = Some (lit ''HEAD'')), hs_interim := 0,
              hs_state := (if hs_state s \<noteq> SM_HANDSHAKE then SM_WRITE_HEAD else SM_HANDSHAKE)\<rparr>)
    else \<not> settled rc \<and> moved env w [] [] w1 \<and> s1 = s\<lparr>hs_out := empty_response\<rparr>"
proof -
  let ?s = "s\<lparr>hs_out := empty_response\<rparr>"
  obtain mem wa where a1: "e_alloc env w = (mem, wa)" by (cases "e_alloc env w")
  obtain mem2 wb where a2: "e_alloc env wa = (mem2, wb)" by (cases "e_alloc env wa")
  have m: "moved env w [] [] wa" "moved env w [] [] wb"
    using moved_alloc [OF a1] moved_trans [OF moved_alloc [OF a1] moved_alloc [OF a2]] by simp_all
  have al: "allocs env \<longrightarrow> mem = (\<lambda>k. True) \<and> mem2 = (\<lambda>k. True)" using a1 a2 unfolding allocs_def by blast
  show ?thesis
  proof (cases "wolfcert_http_url_parse mem (rq_url req)")
    case (Inl e)
    then have "rc = e" "s1 = ?s" "w1 = wa" using b a1 by (simp_all add: sm_begin_def Let_def)
    moreover have "\<not> settled e" by (rule http_url_parse_code [OF Inl])
    ultimately show ?thesis using m by (auto simp: settled_def)
  next
    case (Inr u)
    show ?thesis
    proof (cases "url_tls u \<noteq> url_tls (hs_base s) \<or> url_port u \<noteq> url_port (hs_base s) \<or> ci_cmp (url_host u) (url_host (hs_base s)) \<noteq> 0")
      case True
      then have "rc = WOLFCERT_ERR_BAD_ARG" "s1 = ?s" "w1 = wa" using b a1 Inr by (simp_all add: sm_begin_def Let_def)
      then show ?thesis using m by (simp add: settled_def)
    next
      case False
      show ?thesis
      proof (cases "build_head (e_b64 env) mem2 ?s req u")
        case (Inl e)
        then have "rc = e" "s1 = ?s" "w1 = wb" using b a1 a2 Inr False by (simp_all add: sm_begin_def Let_def)
        moreover have "\<not> settled e" by (rule build_head_code [OF Inl])
        ultimately show ?thesis using m by (auto simp: settled_def)
      next
        case bh: (Inr t)
        obtain auth where au: "basic_auth_header (e_b64 env) mem2 (rq_basic_user req) (rq_basic_pass req) WOLFCERT_HTTP_AUTH_BUF_SZ = Ok auth"
          "t = ?s\<lparr>hs_head := Some (head_text (hs_keep_alive s) req u auth), hs_tx_off := 0\<rparr>"
          using build_head_ok [OF bh] by auto
        have rh: "request_head (e_b64 env) mem mem2 (hs_keep_alive s) req (head_text (hs_keep_alive s) req u auth)"
          using Inr au(1) by (auto simp: request_head_def)
        have "rc = WOLFCERT_OK" "w1 = wb" "s1 = s\<lparr>hs_out := empty_response, hs_head := Some (head_text (hs_keep_alive s) req u auth),
              hs_tx_off := 0, hs_resp := Some resp,
              hs_body := rq_body req, hs_head_request := (rq_method req = Some (lit ''HEAD'')), hs_interim := 0,
              hs_state := (if hs_state s \<noteq> SM_HANDSHAKE then SM_WRITE_HEAD else SM_HANDSHAKE)\<rparr>"
          using b a1 a2 Inr False bh au(2) by (simp_all add: sm_begin_def Let_def)
        then show ?thesis using m al rh by auto
      qed
    qed
  qed
qed

lemma timeout_irrelevant [simp]:
  "sess_inv (s\<lparr>hs_io_timeout_ms := t\<rparr>) = sess_inv s"
  "trace_inv hb bd hr (s\<lparr>hs_io_timeout_ms := t\<rparr>) sent rcvd = trace_inv hb bd hr s sent rcvd"
  "progress env (s\<lparr>hs_io_timeout_ms := t\<rparr>) w rc s' w' = progress env s w rc s' w'"
  "session_kept (s\<lparr>hs_io_timeout_ms := t\<rparr>) s' = session_kept s s'"
proof -
  have "in_flight_ok (s\<lparr>hs_io_timeout_ms := t\<rparr>) = in_flight_ok s"
    by (cases "hs_state s") (simp_all add: in_flight_ok_def scan_ok_def)
  then show "sess_inv (s\<lparr>hs_io_timeout_ms := t\<rparr>) = sess_inv s" by (simp add: sess_inv_def)
  show T: "trace_inv hb bd hr (s\<lparr>hs_io_timeout_ms := t\<rparr>) sent rcvd = trace_inv hb bd hr s sent rcvd" for hb bd hr sent rcvd
    by (simp add: trace_inv_def exchanged_def)
  show K: "session_kept (s\<lparr>hs_io_timeout_ms := t\<rparr>) s' = session_kept s s'"
    by (simp add: session_kept_def)
  show "progress env (s\<lparr>hs_io_timeout_ms := t\<rparr>) w rc s' w' = progress env s w rc s' w'"
    by (simp add: progress_def T K)
qed

lemma sm_begin_inv:
  assumes "sess_inv s" "hs_resp s = None" "\<not> hs_closed s" "sm_begin env s req resp w = (WOLFCERT_OK, s1, w1)"
  shows "sess_inv s1 \<and> session_kept s s1 \<and> hs_resp s1 = Some resp \<and> moved env w [] [] w1 \<and>
    (allocs env \<longrightarrow> (\<exists>hb. request_head (e_b64 env) (\<lambda>k. True) (\<lambda>k. True) (hs_keep_alive s) req hb \<and>
       trace_inv hb (rq_body req) (rq_method req = Some (lit ''HEAD'')) s1 [] []))"
proof -
  obtain hb mem mem2 where R: "moved env w [] [] w1" "request_head (e_b64 env) mem mem2 (hs_keep_alive s) req hb"
     "allocs env \<longrightarrow> mem = (\<lambda>k. True) \<and> mem2 = (\<lambda>k. True)"
     "s1 = s\<lparr>hs_out := empty_response, hs_head := Some hb, hs_tx_off := 0, hs_resp := Some resp,
        hs_body := rq_body req, hs_head_request := (rq_method req = Some (lit ''HEAD'')), hs_interim := 0,
        hs_state := (if hs_state s \<noteq> SM_HANDSHAKE then SM_WRITE_HEAD else SM_HANDSHAKE)\<rparr>"
    using sm_begin_res [OF assms(4)] by auto
  have "sess_inv s1" unfolding R(4) using assms(1,2) by (simp add: sess_inv_def in_flight_ok_def)
  moreover have "trace_inv hb (rq_body req) (rq_method req = Some (lit ''HEAD'')) s1 [] []"
    unfolding R(4) by (simp add: trace_inv_def)
  ultimately show ?thesis using R by (auto simp: session_kept_def)
qed

lemma request_idle:
  assumes "sess_inv s" "hs_resp s = None"
  shows "sess_inv (s\<lparr>hs_out := empty_response\<rparr>)" "session_kept s (s\<lparr>hs_out := empty_response\<rparr>)"
  using assms by (simp_all add: sess_inv_def session_kept_def)

text \<open>
  A call, by what it finds: no request in flight, then it starts one; or one in flight, which it
  goes on with.
\<close>

definition call_ran ::
  "'w http_env \<Rightarrow> WolfCertHttpSession \<Rightarrow> WolfCertHttpRequest \<Rightarrow> nat \<Rightarrow> 'w \<Rightarrow> wc_rc \<Rightarrow> WolfCertHttpSession \<Rightarrow> 'w \<Rightarrow> bool" where
  "call_ran env s req resp w rc s' w' \<longleftrightarrow>
     (rc = WOLFCERT_OK \<longrightarrow> hs_resp s' = None) \<and>
     (if hs_resp s = None
      then \<exists>t s1 w1. sm_begin env (s\<lparr>hs_io_timeout_ms := t\<rparr>) req resp w = (WOLFCERT_OK, s1, w1) \<and> progress env s1 w1 rc s' w'
      else progress env s w rc s' w')"

definition call_refused :: "WolfCertHttpSession \<Rightarrow> WolfCertHttpRequest \<Rightarrow> nat \<Rightarrow> bool \<Rightarrow> bool" where
  "call_refused s req resp nb \<longleftrightarrow>
     rq_url req = None \<or> rq_method req = None \<or> hs_closed s \<or>
     hs_resp s \<noteq> None \<and> (\<not> nb \<or> hs_resp s \<noteq> Some resp)"

lemma session_call_cases:
  assumes ok: "ssl_ok env" and inv: "sess_inv s" and c: "http_session_call env s req resp nb w = (rc, s', w')"
  shows "sess_inv s' \<and> session_kept s s' \<and>
    (settled rc \<longrightarrow> \<not> hs_closed s \<and> call_ran env s req resp w rc s' w') \<and>
    (\<not> settled rc \<longrightarrow> stopped s' \<or> s' = s \<and> w' = w \<and> call_refused s req resp nb \<or>
       hs_resp s = None \<and> hs_resp s' = None \<and> hs_closed s' = hs_closed s \<and> moved env w [] [] w')"
proof -
  define t where "t = (if nb then 0 else (-1 :: int))"
  let ?s = "s\<lparr>hs_io_timeout_ms := t\<rparr>"
  have run: "sess_inv s' \<and> session_kept s s' \<and>
      (if settled rc then progress env s2 w2 rc s' w' \<and> (rc = WOLFCERT_OK \<longrightarrow> hs_resp s' = None) else stopped s')"
    if s2: "sess_inv s2" "hs_resp s2 \<noteq> None" "session_kept s s2" and
      r: "(case sm_run env s2 w2 of (rc3, s3, w3) \<Rightarrow>
            if \<not> nb \<and> (rc3 = WOLFCERT_ERR_WANT_READ \<or> rc3 = WOLFCERT_ERR_WANT_WRITE)
            then (case sm_fail s3 WOLFCERT_ERR_IO of (rc4, s4) \<Rightarrow> (rc4, s4, w3))
            else (rc3, s3, w3)) = (rc, s', w')" for s2 w2
  proof -
    obtain rc3 s3 w3 where sr: "sm_run env s2 w2 = (rc3, s3, w3)" by (rule prod_cases3)
    note p = sm_run_progress [OF ok s2(1,2) sr]
    show ?thesis
    proof (cases "\<not> nb \<and> rc_want rc3")
      case True
      then have f: "sm_fail s3 WOLFCERT_ERR_IO = (rc, s')" using r sr by (auto simp: rc_want_def split: prod.splits)
      have k: "session_kept s s3" using p session_kept_trans [OF s2(3)] by blast
      have "0 < hs_max_body s3" "hs_max_body s3 + WOLFCERT_HTTP_HEADER_BUDGET < 2 ^ 64"
        using k sess_invD(1,2) [OF inv] by (simp_all add: session_kept_def)
      then have F: "rc = WOLFCERT_ERR_IO \<and> sess_inv s' \<and> session_kept s3 s' \<and> stopped s'"
        using sm_fail_inv [OF _ _ f] by (simp add: stopped_def)
      then show ?thesis using session_kept_trans [OF k] by (simp add: settled_def)
    next
      case False
      then have "rc = rc3" "s' = s3" "w' = w3" using r sr by (auto simp: rc_want_def split: if_splits)
      then show ?thesis using p session_kept_trans [OF s2(3)] by (auto split: if_splits)
    qed
  qed
  consider (arg) "rq_url req = None \<or> rq_method req = None" | (closed) "\<not> (rq_url req = None \<or> rq_method req = None)" "hs_closed s"
    | (busy) "\<not> (rq_url req = None \<or> rq_method req = None)" "\<not> hs_closed s" "hs_resp s \<noteq> None \<and> (\<not> nb \<or> hs_resp s \<noteq> Some resp)"
    | (go) "\<not> (rq_url req = None \<or> rq_method req = None)" "\<not> hs_closed s" "\<not> (hs_resp s \<noteq> None \<and> (\<not> nb \<or> hs_resp s \<noteq> Some resp))"
    by (cases "rq_url req = None \<or> rq_method req = None"; cases "hs_closed s";
        cases "hs_resp s \<noteq> None \<and> (\<not> nb \<or> hs_resp s \<noteq> Some resp)") metis+
  then show ?thesis
  proof cases
    case arg
    then have "rc = WOLFCERT_ERR_BAD_ARG" "s' = s" "w' = w" using c by (auto simp: http_session_call_def)
    then show ?thesis using inv arg by (auto simp: settled_def call_refused_def)
  next
    case closed
    then have "rc = WOLFCERT_ERR_CONN_CLOSED" "s' = s" "w' = w" using c by (auto simp: http_session_call_def)
    then show ?thesis using inv closed by (auto simp: settled_def call_refused_def)
  next
    case busy
    then have "rc = WOLFCERT_ERR_BAD_ARG" "s' = s" "w' = w" using c by (auto simp: http_session_call_def)
    then show ?thesis using inv busy by (auto simp: settled_def call_refused_def)
  next
    case go
    note def = c [unfolded http_session_call_def if_not_P [OF go(1)] if_not_P [OF go(2)] if_not_P [OF go(3)] Let_def, folded t_def]
    show ?thesis
    proof (cases "hs_resp s = None")
      case False
      then obtain y where y: "hs_resp s = Some y" by auto
      then have "sess_inv s' \<and> session_kept s s' \<and>
          (if settled rc then progress env ?s w rc s' w' \<and> (rc = WOLFCERT_OK \<longrightarrow> hs_resp s' = None) else stopped s')"
        by (intro run) (use def inv in \<open>simp_all add: session_kept_def\<close>)
      then show ?thesis using go(2) False by (auto simp: call_ran_def split: if_splits)
    next
      case True
      obtain rc1 s1 w1 where b: "sm_begin env ?s req resp w = (rc1, s1, w1)" by (rule prod_cases3)
      show ?thesis
      proof (cases "rc1 = WOLFCERT_OK")
        case ok1: True
        have B: "sess_inv s1" "session_kept s s1" "hs_resp s1 \<noteq> None"
          using sm_begin_inv [of ?s env req resp w s1 w1] b ok1 inv True go(2) by auto
        have R: "sess_inv s' \<and> session_kept s s' \<and>
            (if settled rc then progress env s1 w1 rc s' w' \<and> (rc = WOLFCERT_OK \<longrightarrow> hs_resp s' = None) else stopped s')"
          by (rule run [OF B(1) B(3) B(2)]) (use def b True ok1 in simp)
        have bt: "sm_begin env ?s req resp w = (WOLFCERT_OK, s1, w1)" using b ok1 by simp
        show ?thesis
        proof (cases "settled rc")
          case st: True
          then have "call_ran env s req resp w rc s' w'" unfolding call_ran_def using R bt True by auto
          then show ?thesis using R st go(2) by simp
        qed (use R in simp)
      next
        case bad: False
        then have eq: "rc = rc1" "s' = s1" "w' = w1" using def b True by simp_all
        have B: "\<not> settled rc1" "moved env w [] [] w1" "s1 = ?s\<lparr>hs_out := empty_response\<rparr>"
          using sm_begin_res [OF b] bad by simp_all
        have "sess_inv s1" "session_kept ?s s1" unfolding B(3) using request_idle [of ?s] inv True by simp_all
        then show ?thesis using eq B True by simp
      qed
    qed
  qed
qed

text \<open>
  A caller that calls until the request is settled: once for a blocking call, up to \<open>n + 1\<close> times,
  as long as the session wants to wait, for a non-blocking one.
\<close>

fun session_drive ::
  "bool \<Rightarrow> nat \<Rightarrow> 'w http_env \<Rightarrow> WolfCertHttpSession \<Rightarrow> WolfCertHttpRequest \<Rightarrow> nat \<Rightarrow> 'w \<Rightarrow> wc_rc \<times> WolfCertHttpSession \<times> 'w" where
  "session_drive nb 0 env s req resp w = http_session_call env s req resp nb w"
| "session_drive nb (Suc n) env s req resp w =
     (case http_session_call env s req resp nb w of (rc, s', w') \<Rightarrow>
        if rc = WOLFCERT_ERR_WANT_READ \<or> rc = WOLFCERT_ERR_WANT_WRITE
        then session_drive nb n env s' req resp w' else (rc, s', w'))"

lemma session_drive_more:
  assumes "session_drive nb n env s req resp w = (WOLFCERT_OK, s', w')"
  shows "\<exists>rc s1 w1. http_session_call env s req resp nb w = (rc, s1, w1) \<and>
    (rc = WOLFCERT_OK \<and> s1 = s' \<and> w1 = w' \<or>
     rc_want rc \<and> (\<exists>m<n. session_drive nb m env s1 req resp w1 = (WOLFCERT_OK, s', w')))"
proof (cases n)
  case 0
  then show ?thesis using assms by simp
next
  case (Suc m)
  obtain rc s1 w1 where "http_session_call env s req resp nb w = (rc, s1, w1)" by (rule prod_cases3)
  then show ?thesis using assms Suc by (auto simp: rc_want_def split: if_splits)
qed

lemma progress_exchanged:
  assumes "progress env s w WOLFCERT_OK s' w'" "hs_resp s' = None" "allocs env" "trace_inv hb bd hr s sent rcvd"
  shows "\<exists>sd rd. moved env w sd rd w' \<and> exchanged hb bd hr s' (sent @ sd) (rcvd @ rd) \<and>
    length (rs_body (hs_out s')) \<le> hs_max_body s \<and> session_kept s s'"
proof -
  obtain sd rd where m: "moved env w sd rd w'" "trace_inv hb bd hr s' (sent @ sd) (rcvd @ rd)"
    using assms unfolding progress_def settled_def by blast
  have "hs_state s' = SM_IDLE" "length (rs_body (hs_out s')) \<le> hs_max_body s'" "session_kept s s'"
    using assms(1,2) unfolding progress_def settled_def by simp_all
  then show ?thesis using m by (intro exI [of _ sd] exI [of _ rd]) (simp add: trace_inv_def session_kept_def)
qed

lemma drive_resume:
  "ssl_ok env \<Longrightarrow> allocs env \<Longrightarrow> sess_inv s \<Longrightarrow> hs_resp s \<noteq> None \<Longrightarrow> trace_inv hb bd hr s sent rcvd \<Longrightarrow>
   session_drive nb n env s req resp w = (WOLFCERT_OK, s', w') \<Longrightarrow>
   \<exists>sd rd. moved env w sd rd w' \<and> exchanged hb bd hr s' (sent @ sd) (rcvd @ rd) \<and>
     length (rs_body (hs_out s')) \<le> hs_max_body s \<and> session_kept s s'"
proof (induction n arbitrary: s w sent rcvd rule: less_induct)
  case (less n)
  obtain rc s1 w1 where c: "http_session_call env s req resp nb w = (rc, s1, w1)" and
    r: "rc = WOLFCERT_OK \<and> s1 = s' \<and> w1 = w' \<or>
      rc_want rc \<and> (\<exists>m<n. session_drive nb m env s1 req resp w1 = (WOLFCERT_OK, s', w'))"
    using session_drive_more [OF less.prems(6)] by blast
  have st: "settled rc" using r by (auto simp: settled_def)
  have p: "progress env s w rc s1 w1" "rc = WOLFCERT_OK \<longrightarrow> hs_resp s1 = None" "sess_inv s1"
    using session_call_cases [OF less.prems(1,3) c] st less.prems(4) by (auto simp: call_ran_def)
  show ?case
  proof (cases "rc = WOLFCERT_OK")
    case True
    then show ?thesis using progress_exchanged [OF _ _ less.prems(2,5)] p r by auto
  next
    case False
    then obtain m where m: "m < n" "session_drive nb m env s1 req resp w1 = (WOLFCERT_OK, s', w')" "rc_want rc" using r by auto
    obtain sd rd where t: "moved env w sd rd w1" "trace_inv hb bd hr s1 (sent @ sd) (rcvd @ rd)"
      using p(1) less.prems(2,5) st unfolding progress_def by blast
    have k: "session_kept s s1" "hs_resp s1 \<noteq> None" using p(1) st m(3) less.prems(4) unfolding progress_def by auto
    obtain sd' rd' where u: "moved env w1 sd' rd' w'" "exchanged hb bd hr s' ((sent @ sd) @ sd') ((rcvd @ rd) @ rd')"
      "length (rs_body (hs_out s')) \<le> hs_max_body s1" "session_kept s1 s'"
      using less.IH [OF m(1) less.prems(1,2) p(3) k(2) t(2) m(2)] by blast
    have "hs_max_body s1 = hs_max_body s" using k(1) by (simp add: session_kept_def)
    then show ?thesis using u moved_trans [OF t(1) u(1)] session_kept_trans [OF k(1) u(4)] by auto
  qed
qed

lemma drive_exchange:
  assumes ok: "ssl_ok env" "allocs env" and inv: "sess_inv s" "hs_resp s = None"
    and d: "session_drive nb n env s req resp w = (WOLFCERT_OK, s', w')"
  shows "\<exists>hb sd rd. request_head (e_b64 env) (\<lambda>k. True) (\<lambda>k. True) (hs_keep_alive s) req hb \<and> moved env w sd rd w' \<and>
    exchanged hb (rq_body req) (rq_method req = Some (lit ''HEAD'')) s' sd rd \<and>
    length (rs_body (hs_out s')) \<le> hs_max_body s"
proof -
  obtain rc s1 w1 where c: "http_session_call env s req resp nb w = (rc, s1, w1)" and
    r: "rc = WOLFCERT_OK \<and> s1 = s' \<and> w1 = w' \<or>
      rc_want rc \<and> (\<exists>m<n. session_drive nb m env s1 req resp w1 = (WOLFCERT_OK, s', w'))"
    using session_drive_more [OF d] by blast
  have st: "settled rc" using r by (auto simp: settled_def)
  obtain t sb wb where b: "sm_begin env (s\<lparr>hs_io_timeout_ms := t\<rparr>) req resp w = (WOLFCERT_OK, sb, wb)"
    and p: "progress env sb wb rc s1 w1" "rc = WOLFCERT_OK \<longrightarrow> hs_resp s1 = None" "sess_inv s1" "\<not> hs_closed s"
    using session_call_cases [OF ok(1) inv(1) c] st inv(2) by (auto simp: call_ran_def)
  obtain hb where B: "sess_inv sb" "hs_resp sb = Some resp" "session_kept s sb" "moved env w [] [] wb"
    "request_head (e_b64 env) (\<lambda>k. True) (\<lambda>k. True) (hs_keep_alive s) req hb"
    "trace_inv hb (rq_body req) (rq_method req = Some (lit ''HEAD'')) sb [] []"
    using sm_begin_inv [OF _ _ _ b] inv p(4) ok(2) by auto
  have mb: "hs_max_body sb = hs_max_body s" using B(3) by (simp add: session_kept_def)
  show ?thesis
  proof (cases "rc = WOLFCERT_OK")
    case True
    then have pr: "progress env sb wb WOLFCERT_OK s' w'" "hs_resp s' = None" using p r by auto
    obtain sd rd where x: "moved env wb sd rd w'"
      "exchanged hb (rq_body req) (rq_method req = Some (lit ''HEAD'')) s' ([] @ sd) ([] @ rd)"
      "length (rs_body (hs_out s')) \<le> hs_max_body sb"
      using progress_exchanged [OF pr ok(2) B(6)] by blast
    have "moved env w sd rd w'" using moved_trans [OF B(4) x(1)] by simp
    then show ?thesis using B(5) x(2,3) mb by (intro exI [of _ hb] exI [of _ sd] exI [of _ rd]) simp
  next
    case False
    then obtain m where m: "session_drive nb m env s1 req resp w1 = (WOLFCERT_OK, s', w')" "rc_want rc" using r by auto
    obtain sd rd where t: "moved env wb sd rd w1"
      "trace_inv hb (rq_body req) (rq_method req = Some (lit ''HEAD'')) s1 ([] @ sd) ([] @ rd)"
      using p(1) ok(2) B(6) st unfolding progress_def by blast
    have k: "session_kept sb s1" "hs_resp s1 \<noteq> None" using p(1) st m(2) B(2) unfolding progress_def by auto
    obtain sd' rd' where u: "moved env w1 sd' rd' w'"
      "exchanged hb (rq_body req) (rq_method req = Some (lit ''HEAD'')) s' (([] @ sd) @ sd') (([] @ rd) @ rd')"
      "length (rs_body (hs_out s')) \<le> hs_max_body s1"
      using drive_resume [OF ok p(3) k(2) t(2) m(1)] by blast
    have "moved env w (sd @ sd') (rd @ rd') w'" using moved_trans [OF moved_trans [OF B(4) t(1)] u(1)] by simp
    moreover have "hs_max_body s1 = hs_max_body s" using k(1) mb by (simp add: session_kept_def)
    ultimately show ?thesis using B(5) u by (intro exI [of _ hb] exI [of _ "sd @ sd'"] exI [of _ "rd @ rd'"]) simp
  qed
qed

section \<open>Sessions that can occur\<close>

text \<open>The states of a session from its opening on, under any sequence of calls.\<close>

inductive reachable ::
  "'w http_env \<Rightarrow> 'w tls_lib \<Rightarrow> 'w WolfCertTransport option \<Rightarrow> 'w WolfCertHttpSessionCfg \<Rightarrow> WolfCertHttpSession \<Rightarrow> bool"
  for env lib builtin cfg where
  opened: "wolfcert_http_session_open env lib builtin cfg w = (Inr os, w') \<Longrightarrow>
    reachable env lib builtin cfg (os_session os)"
| called: "reachable env lib builtin cfg s \<Longrightarrow> http_session_call env s req resp nb w = (rc, s', w') \<Longrightarrow>
    reachable env lib builtin cfg s'"
| last_use: "reachable env lib builtin cfg s \<Longrightarrow> reachable env lib builtin cfg (wolfcert_http_session_set_close s)"

lemma new_session_inv:
  assumes "0 < m" "m + WOLFCERT_HTTP_HEADER_BUDGET < 2 ^ 64"
  shows "sess_inv ((new_session m u)\<lparr>hs_connected := True\<rparr>)"
    "sess_inv ((new_session m u)\<lparr>hs_connected := True, hs_ssl := True, hs_state := SM_HANDSHAKE\<rparr>)"
  using assms by (simp_all add: new_session_def sess_inv_def)

lemma session_open_inv:
  assumes "wolfcert_http_session_open env lib builtin cfg w = (Inr os, w')"
    "hc_max_response_bytes cfg + WOLFCERT_HTTP_HEADER_BUDGET < 2 ^ 64"
  shows "sess_inv (os_session os) \<and> hs_resp (os_session os) = None \<and> \<not> hs_closed (os_session os) \<and>
    hs_max_body (os_session os) =
      (if hc_max_response_bytes cfg \<noteq> 0 then hc_max_response_bytes cfg else WOLFCERT_HTTP_DEFAULT_MAX_BODY)"
proof -
  let ?m = "if hc_max_response_bytes cfg \<noteq> 0 then hc_max_response_bytes cfg else WOLFCERT_HTTP_DEFAULT_MAX_BODY"
  have "\<exists>u. os_session os = (new_session ?m u)\<lparr>hs_connected := True\<rparr> \<or>
      os_session os = (new_session ?m u)\<lparr>hs_connected := True, hs_ssl := True, hs_state := SM_HANDSHAKE\<rparr>"
    using assms(1) unfolding wolfcert_http_session_open_def Let_def
    by (auto split: if_splits prod.splits sum.splits)
  then obtain u where u: "os_session os = (new_session ?m u)\<lparr>hs_connected := True\<rparr> \<or>
      os_session os = (new_session ?m u)\<lparr>hs_connected := True, hs_ssl := True, hs_state := SM_HANDSHAKE\<rparr>" by blast
  have "0 < ?m" "?m + WOLFCERT_HTTP_HEADER_BUDGET < 2 ^ 64" using assms(2) by simp_all
  note inv = new_session_inv [OF this, of u]
  from u show ?thesis using inv by (elim disjE) (simp_all add: new_session_def)
qed

section \<open>A scripted peer\<close>

text \<open>
  A transport whose world is the list of pieces the peer sends (an empty piece makes the session
  wait), the bytes sent to it and the bytes taken from it. It accepts at most 16 bytes at a time.
\<close>

type_synonym script = "byte list list \<times> byte list \<times> byte list"

definition script_read :: "nat \<Rightarrow> int \<Rightarrow> script \<Rightarrow> io_read \<times> script" where
  "script_read n t w =
     (case w of (ins, snt, rcv) \<Rightarrow>
        (case ins of
           [] \<Rightarrow> (Read_Ret (rc_code WOLFCERT_ERR_CONN_CLOSED), w)
         | d # ds \<Rightarrow> if d = [] then (Read_Ret (rc_code WOLFCERT_ERR_WANT_READ), (ds, snt, rcv))
             else (Received (take n d), (if length d \<le> n then ds else drop n d # ds, snt, rcv @ take n d))))"

definition script_write :: "byte list \<Rightarrow> int \<Rightarrow> script \<Rightarrow> int \<times> script" where
  "script_write b t w = (case w of (ins, snt, rcv) \<Rightarrow> (int (length (take 16 b)), (ins, snt @ take 16 b, rcv)))"

definition script_env :: "script http_env" where
  "script_env = \<lparr>e_alloc = (\<lambda>w. (\<lambda>k. True, w)), e_read = script_read, e_write = script_write,
     e_ssl_connect = (\<lambda>t w. (True, w)), e_ssl_read = script_read, e_ssl_write = script_write,
     e_ssl_get_error = (\<lambda>w. SSL_WANT_READ), e_time = (\<lambda>w. 0), e_b64 = (\<lambda>b cap. (0, b))\<rparr>"

definition script_transport :: "script WolfCertTransport" where
  "script_transport = \<lparr>t_connect = Some (\<lambda>host port timeout w. (0, w)), t_read = Some script_read,
     t_write = Some script_write, t_disconnect = Some (\<lambda>w. w), t_ctx = None\<rparr>"

definition script_tls :: "script tls_lib" where
  "script_tls = \<lparr>tl_ctx_new = True, tl_no_tls12 = False, tl_has_pha = False, tl_has_sni = True,
     tl_load_verify = (\<lambda>b f. True), tl_use_cert = (\<lambda>b f. True), tl_use_key = (\<lambda>b f. True),
     tl_ssl_new = True, tl_shutdown = (\<lambda>w. w)\<rparr>"

definition script_cfg :: "script WolfCertHttpSessionCfg" where
  "script_cfg = \<lparr>hc_base_url = Some (lit ''http://a''),
     hc_dials = \<lparr>td_trust_anchors = None, td_verify_server = True, td_client_cert = None, td_client_key = None,
       td_allow_post_handshake_auth = False\<rparr>,
     hc_timeout_ms = 0, hc_max_response_bytes = 16, hc_transport = script_transport\<rparr>"

definition script_session :: WolfCertHttpSession where
  "script_session = (new_session 16 \<lparr>url_scheme = lit ''http'', url_host = lit ''a'', url_port = 80,
     url_path = lit ''/'', url_tls = False\<rparr>)\<lparr>hs_connected := True\<rparr>"

definition script_request :: WolfCertHttpRequest where
  "script_request = \<lparr>rq_method = Some (lit ''GET''), rq_url = Some (lit ''http://A/x''), rq_content_type = None,
     rq_content_transfer_encoding = None, rq_accept = None, rq_basic_user = None, rq_basic_pass = None,
     rq_body = []\<rparr>"

definition script_peer :: script where
  "script_peer =
     ([[], lit ''HTTP/1.1 200'' @ CRLF @ lit ''Content-L'', [], lit ''ength: 2'' @ CRLF @ CRLF @ lit ''h'', lit ''i''], [], [])"

lemma script_ssl_ok: "ssl_ok script_env"
  by (auto simp: ssl_ok_def script_env_def script_read_def script_write_def split: list.splits if_splits)

lemma script_allocs: "allocs script_env"
  by (simp add: allocs_def script_env_def)

lemma script_transcript: "transcript script_env (\<lambda>w. fst (snd w)) (\<lambda>w. snd (snd w))"
  by (auto simp: transcript_def script_env_def script_read_def script_write_def min_def split: list.splits if_splits)

lemma script_session_inv: "sess_inv script_session" "hs_resp script_session = None" "\<not> hs_closed script_session"
  by (simp_all add: script_session_def new_session_def sess_inv_def)

lemma script_run:
  "\<exists>s w. session_drive True 5 script_env script_session script_request 1 script_peer = (WOLFCERT_OK, s, w) \<and>
     rs_body (hs_out s) = lit ''hi'' \<and> \<not> hs_closed s"
proof -
  have "case session_drive True 5 script_env script_session script_request 1 script_peer of (rc, s, w) \<Rightarrow>
     rc = WOLFCERT_OK \<and> rs_body (hs_out s) = lit ''hi'' \<and> \<not> hs_closed s"
    by code_simp
  then show ?thesis by (auto split: prod.splits)
qed

section \<open>Properties\<close>



text \<open>
  C5. The peer is given the request, whole and once: whenever a driven request returns success, the
  bytes handed to the transport are the request head for the parsed URL and the credentials, followed
  by the caller's body, however the transport split the writes and however often it made the caller
  wait.
\<close>

theorem http_request_on_wire:
  assumes "ssl_ok env" "allocs env" "transcript env snt rcv" "sess_inv s" "hs_resp s = None"
    and "session_drive nb n env s req resp w = (WOLFCERT_OK, s', w')"
  shows "\<exists>u auth. wolfcert_http_url_parse (\<lambda>k. True) (rq_url req) = Ok u \<and>
    basic_auth_header (e_b64 env) (\<lambda>k. True) (rq_basic_user req) (rq_basic_pass req) WOLFCERT_HTTP_AUTH_BUF_SZ = Ok auth \<and>
    snt w' = snt w @ head_text (hs_keep_alive s) req u auth @ rq_body req"
proof -
  obtain hb sd rd where h: "request_head (e_b64 env) (\<lambda>k. True) (\<lambda>k. True) (hs_keep_alive s) req hb" and m: "moved env w sd rd w'"
    and x: "exchanged hb (rq_body req) (rq_method req = Some (lit ''HEAD'')) s' sd rd"
    using drive_exchange [OF assms(1,2,4,5,6)] by blast
  have "snt w' = snt w @ sd" using m assms(3) unfolding moved_def by blast
  then show ?thesis using h x unfolding request_head_def exchanged_def by blast
qed

theorem http_request_on_wire_witness:
  "\<exists>s w u auth. session_drive True 5 script_env script_session script_request 1 script_peer = (WOLFCERT_OK, s, w) \<and>
    fst (snd w) = head_text True script_request u auth"
proof -
  obtain s w where run: "session_drive True 5 script_env script_session script_request 1 script_peer = (WOLFCERT_OK, s, w)"
    using script_run by blast
  have "hs_keep_alive script_session" "rq_body script_request = []" "fst (snd script_peer) = []"
    by (simp_all add: script_session_def new_session_def script_request_def script_peer_def)
  then show ?thesis
    using http_request_on_wire [OF script_ssl_ok script_allocs script_transcript script_session_inv(1,2) run] run by auto
qed

text \<open>
  C7. Memory safety and bounds of every session that can occur: the filled part of the receive
  buffer fits its allocation, the allocation never exceeds the body limit plus the header budget, no
  more than eight interim responses are counted, the header block lies in the filled part while a
  body is read, and a session that is idle holds no received bytes.
\<close>

theorem session_bounds:
  assumes "ssl_ok env" "hc_max_response_bytes cfg + WOLFCERT_HTTP_HEADER_BUDGET < 2 ^ 64"
    and "reachable env lib builtin cfg s"
  shows "length (hs_rx s) \<le> hs_rx_cap s \<and> hs_rx_cap s \<le> hs_max_body s + WOLFCERT_HTTP_HEADER_BUDGET \<and>
    hs_interim s \<le> WOLFCERT_HTTP_MAX_INTERIM \<and>
    (hs_resp s \<noteq> None \<and> hs_state s \<in> {SM_READ_BODY_CL, SM_READ_BODY_EOF, SM_READ_BODY_CHUNKED} \<longrightarrow>
       hs_hdr_end s \<le> length (hs_rx s)) \<and>
    (hs_resp s = None \<longrightarrow> hs_rx s = [] \<and> (hs_closed s \<or> hs_state s \<in> {SM_IDLE, SM_HANDSHAKE}))"
proof -
  have "sess_inv s"
    using assms(3)
  proof (induction rule: reachable.induct)
    case (opened w os w')
    then show ?case using session_open_inv [OF _ assms(2)] by blast
  next
    case (called s req resp nb w rc s' w')
    then show ?case using session_call_cases [OF assms(1)] by blast
  next
    case (last_use s)
    have "in_flight_ok (wolfcert_http_session_set_close s) = in_flight_ok s"
      by (cases "hs_state s") (simp_all add: in_flight_ok_def scan_ok_def wolfcert_http_session_set_close_def)
    then show ?case using last_use by (auto simp: sess_inv_def wolfcert_http_session_set_close_def split: if_splits)
  qed
  then show ?thesis unfolding sess_inv_def
    by (cases "hs_resp s"; cases "hs_state s") (simp_all add: in_flight_ok_def)
qed

theorem session_bounds_witness:
  "\<exists>os w. wolfcert_http_session_open script_env script_tls None script_cfg script_peer = (Inr os, w) \<and>
    hs_rx (os_session os) = []"
proof -
  have "case fst (wolfcert_http_session_open script_env script_tls None script_cfg script_peer) of
      Inl rc \<Rightarrow> False | Inr os \<Rightarrow> hs_resp (os_session os) = None" by code_simp
  then obtain os w where o: "wolfcert_http_session_open script_env script_tls None script_cfg script_peer = (Inr os, w)"
    "hs_resp (os_session os) = None"
    by (cases "wolfcert_http_session_open script_env script_tls None script_cfg script_peer") (auto split: sum.splits)
  have "hc_max_response_bytes script_cfg + WOLFCERT_HTTP_HEADER_BUDGET < 2 ^ 64" by (simp add: script_cfg_def)
  then show ?thesis using session_bounds [OF script_ssl_ok _ reachable.opened [OF o(1)]] o by blast
qed


definition script_bad_peer :: script where
  "script_bad_peer = ([[], lit ''ICY 200'' @ CRLF @ CRLF], [], [])"


text \<open>
  When the copy of the Transfer-Encoding value cannot be allocated, the field counts as absent, and a
  chunked response without Content-Length is read up to the close as if its chunk framing were data.
\<close>

definition chunked_head :: "byte list" where
  "chunked_head = lit ''HTTP/1.1 200'' @ CRLF @ lit ''Transfer-Encoding: chunked'' @ CRLF @ CRLF"

lemma chunked_head_eval:
  "parse_status_line (cstr chunked_head) = Ok 200" "hdr_chunked True (cstr chunked_head)"
  "\<not> hdr_chunked False (cstr chunked_head)" "hdr_content_length True (cstr chunked_head) = -1"
  by code_simp+

lemma chunked_lost_on_allocation_failure:
  assumes "hs_rx s = chunked_head" "hs_hdr_end s = length chunked_head" "\<not> hs_head_request s"
  shows "hs_state (snd (inspect_headers (\<lambda>k. True) now s)) = SM_READ_BODY_CHUNKED"
    "fst (inspect_headers (\<lambda>k. k \<noteq> 1) now s) = WOLFCERT_OK"
    "hs_state (snd (inspect_headers (\<lambda>k. k \<noteq> 1) now s)) = SM_READ_BODY_EOF"
  using assms chunked_head_eval
  by (simp_all add: inspect_headers_def Let_def status_is_interim_def response_has_no_body_def body_state_def)

end
