(* ===== verification/Client_Script.thy ===== *)
theory Client_Script
  imports Client_Cfg Http_Exchange
begin

text \<open>
  The scripted environment in which the clients are run on concrete inputs.
\<close>

text \<open>
  The scripted peer of the HTTP session behind TLS, which takes whole records, with a base64 codec that
  copies and the small CMS library.
\<close>

definition script_tls_env :: "script http_env" where
  "script_tls_env = script_env\<lparr>e_ssl_write := (\<lambda>b t w. case w of (ins, snt, rcv) \<Rightarrow> (int (length b), (ins, snt @ b, rcv)))\<rparr>"

definition script_client :: "script client_env" where
  "script_client = \<lparr>ce_http = script_tls_env, ce_tls = script_tls, ce_builtin = None, ce_cms = plain_cms,
     ce_b64_mime = (\<lambda>b cap. (0, b)), ce_b64_dec = (\<lambda>b cap. (0, b))\<rparr>"

definition script_srv :: "script WolfCertServerCfg" where
  "script_srv = \<lparr>sv_protocol = WOLFCERT_PROTO_EST, sv_server_url = Some (lit ''https://a/e''), sv_trust_anchors = None,
     sv_verify_server = True, sv_timeout_ms = 0, sv_client_cert = None, sv_client_key = None, sv_max_response_bytes = 64,
     sv_est = \<lparr>eo_username = None, eo_password = None, eo_allow_post_handshake_auth = False, eo_auto_csrattrs = False\<rparr>,
     sv_scep = \<lparr>so_ca_id = None, so_txid_mode = WOLFCERT_SCEP_TXID_RANDOM, so_content_cipher = WOLFCERT_SCEP_CIPHER_AUTO,
       so_renewal_msg_type = WOLFCERT_SCEP_RENEWAL_MSG_RENEWAL_REQ, so_signing_hash = WOLFCERT_SCEP_HASH_AUTO\<rparr>,
     sv_transport = script_transport\<rparr>"

lemma script_client_ok: "ssl_ok (ce_http script_client)" "allocs (ce_http script_client)"
  "sv_max_response_bytes script_srv + WOLFCERT_HTTP_HEADER_BUDGET < 2 ^ 64"
  using script_ssl_ok script_allocs
  by (auto simp: script_client_def script_srv_def script_tls_env_def ssl_ok_def allocs_def split: prod.splits)

end
