(* ===== verification/Http_Flight.thy ===== *)
theory Http_Flight
  imports Http_Exchange
begin

text \<open>
  What the protocol clients rely on of an HTTP session: a call that does not ask to be continued ends
  the request, and a session with a request in flight has not been marked closed.
\<close>

text \<open>While a request is in flight, only a response that is complete marks the session closed.\<close>

definition open_flight :: "WolfCertHttpSession \<Rightarrow> bool" where
  "open_flight s \<longleftrightarrow> (hs_closed s \<longrightarrow> hs_state s = SM_DONE)"

lemma inspect_closed: "inspect_headers mem now s = (rc, s') \<Longrightarrow> hs_closed s' = hs_closed s"
  by (auto simp: inspect_headers_def Let_def split: prod.splits if_splits sum.splits option.splits)

lemma trans_open:
  assumes "sm_trans al s sd rd rc s'" "settled rc" "open_flight s"
  shows "(rc_want rc \<longrightarrow> \<not> hs_closed s') \<and> (hs_resp s' \<noteq> None \<longrightarrow> open_flight s')"
  using assms
proof (cases rule: sm_trans.cases)
  case (final i mem now)
  then show ?thesis using assms(3) inspect_closed by (fastforce simp: open_flight_def)
qed (use assms(2,3) in \<open>auto simp: open_flight_def sm_publish_def fills_def settled_def\<close>)

lemma loop_open:
  "ssl_ok env \<Longrightarrow> sess_inv s \<Longrightarrow> hs_resp s \<noteq> None \<Longrightarrow> open_flight s \<Longrightarrow> sm_loop env s w = (rc, s', w') \<Longrightarrow> rc_want rc \<Longrightarrow> \<not> hs_closed s'"
proof (induction env s w rule: sm_loop.induct)
  case (1 env s w)
  obtain rc1 s1 w1 where st: "sm_step env s w = (rc1, s1, w1)" by (rule prod_cases3)
  obtain sd rd where t: "sm_trans (allocs env) s sd rd rc1 s1" using sm_step_trans [OF 1(2-4) st] by blast
  note p = sm_step_progress [OF 1(2-4) st]
  show ?case
  proof (cases "rc1 = WOLFCERT_OK \<and> hs_state s1 \<noteq> SM_IDLE")
    case True
    then have lp: "sm_loop env s1 w1 = (rc, s', w')" using 1(6) st by (simp add: sm_loop.simps [of env s])
    have s1: "sess_inv s1" "hs_resp s1 \<noteq> None" using p True unfolding progress_def settled_def by auto
    have "open_flight s1" using trans_open [OF t _ 1(5)] s1(2) True by (simp add: settled_def)
    then show ?thesis using 1(1) [OF st [symmetric] refl True 1(2) s1 _ lp 1(7)] by simp
  next
    case False
    then have eq: "rc1 = rc" "s1 = s'" using 1(6) st by (auto simp: sm_loop.simps [of env s])
    then show ?thesis using trans_open [OF t _ 1(5)] 1(7) by (simp add: settled_def)
  qed
qed

lemma run_open:
  assumes "ssl_ok env" "sess_inv s" "hs_resp s \<noteq> None" "\<not> hs_closed s" "sm_run env s w = (rc, s', w')" "rc_want rc"
  shows "\<not> hs_closed s'"
proof -
  obtain rc1 s1 w1 where lp: "sm_loop env s w = (rc1, s1, w1)" by (rule prod_cases3)
  have "rc_want rc1"
  proof (rule ccontr)
    assume n: "\<not> rc_want rc1"
    then have "rc = rc1" using assms(5) lp by (auto simp: sm_run_def sm_fail_def rc_want_def split: if_splits)
    then show False using n assms(6) by simp
  qed
  then have "s' = s1" using assms(5) lp by (auto simp: sm_run_def rc_want_def)
  then show ?thesis using loop_open [OF assms(1-3) _ lp \<open>rc_want rc1\<close>] assms(4) by (simp add: open_flight_def)
qed

text \<open>The call a client makes: on an idle session, or to go on with its own request.\<close>

lemma session_call_flight:
  assumes ok: "ssl_ok env" and inv: "sess_inv s" and c: "http_session_call env s req resp nb w = (rc, s', w')"
    and r: "hs_resp s = None \<or> hs_resp s = Some resp \<and> nb \<and> \<not> hs_closed s"
    and q: "rq_url req \<noteq> None" "rq_method req \<noteq> None"
  shows "sess_inv s' \<and> session_kept s s' \<and> hs_resp s' = (if rc_want rc then Some resp else None) \<and> (rc_want rc \<longrightarrow> nb \<and> \<not> hs_closed s')"
proof -
  note k = session_call_cases [OF ok inv c]
  define s1 where "s1 = s\<lparr>hs_io_timeout_ms := (if nb then 0 else -1)\<rparr>"
  show ?thesis
  proof (cases "rc_want rc")
    case False
    have "hs_resp s' = None"
    proof (cases "rc = WOLFCERT_OK")
      case True
      then show ?thesis using k by (simp add: settled_def call_ran_def)
    next
      case bad: False
      then have "\<not> settled rc" using False by (simp add: settled_def)
      then show ?thesis using k r q by (auto simp: stopped_def call_refused_def)
    qed
    then show ?thesis using k False by simp
  next
    case True
    then have st: "settled rc" "\<not> hs_closed s" "call_ran env s req resp w rc s' w'" using k by (auto simp: settled_def)
    have "\<not> (hs_resp s \<noteq> None \<and> (\<not> nb \<or> hs_resp s \<noteq> Some resp))" using r by auto
    note def = c [unfolded http_session_call_def Let_def if_not_P [OF this] s1_def [symmetric]]
    obtain rc2 s2 w2 where b: "(if hs_resp s1 = None then sm_begin env s1 req resp w else (WOLFCERT_OK, s1, w)) = (rc2, s2, w2)"
      by (rule prod_cases3)
    have s1: "sess_inv s1" "hs_resp s1 = hs_resp s" "\<not> hs_closed s1" using inv st(2) by (simp_all add: s1_def)
    have rc2: "rc2 = WOLFCERT_OK"
    proof (rule ccontr)
      assume n: "rc2 \<noteq> WOLFCERT_OK"
      then have e: "rc = rc2" "hs_resp s1 = None" using def q st(2) b by (auto split: if_splits)
      then have "\<not> settled rc2" using sm_begin_res [of env s1 req resp w rc2 s2 w2] b n by (simp split: if_splits)
      then show False using e st(1) by simp
    qed
    have f: "sess_inv s2" "hs_resp s2 = Some resp" "\<not> hs_closed s2"
    proof -
      have "sess_inv s2 \<and> hs_resp s2 = Some resp \<and> \<not> hs_closed s2"
      proof (cases "hs_resp s = None")
        case True
        then have bg: "sm_begin env s1 req resp w = (WOLFCERT_OK, s2, w2)" using b rc2 s1 by simp
        show ?thesis using sm_begin_inv [OF s1(1) _ s1(3) bg] sm_begin_res [OF bg] s1 True by auto
      next
        case False
        then show ?thesis using b s1 r by auto
      qed
      then show "sess_inv s2" "hs_resp s2 = Some resp" "\<not> hs_closed s2" by simp_all
    qed
    obtain rc3 s3 w3 where m: "sm_run env s2 w2 = (rc3, s3, w3)" by (rule prod_cases3)
    have e: "nb" "rc = rc3" "s' = s3" using def q st(2) b rc2 m True by (auto simp: sm_fail_def rc_want_def split: if_splits)
    have p: "progress env s2 w2 rc s' w3" using sm_run_progress [OF ok f(1) _ m] f(2) e st(1) by simp
    then have "hs_resp s' = Some resp" using st(1) True f(2) by (simp add: progress_def)
    moreover have "\<not> hs_closed s'" using run_open [OF ok f(1) _ f(3) m] f(2) e True by simp
    ultimately show ?thesis using k True e by simp
  qed
qed

end
