(* ===== verification/Http_Conn.thy ===== *)
theory Http_Conn
  imports Http_Session
begin

text \<open>
  Connections are given back. The transport contract in \<open>wolfcert/types.h\<close> promises a transport that
  its \<open>disconnect\<close> runs exactly once for each \<open>connect\<close> that succeeded, error paths included; here
  this is shown for the one-shot request, and for what happens when opening a session fails.
\<close>

section \<open>What a session call does not touch\<close>

text \<open>\<open>f\<close> observes something in the world that reading, writing, allocating and TLS leave alone.\<close>

definition quiet :: "'w http_env \<Rightarrow> ('w \<Rightarrow> 'a) \<Rightarrow> bool" where
  "quiet env f \<longleftrightarrow>
     (\<forall>w. f (snd (e_alloc env w)) = f w) \<and> (\<forall>n t w. f (snd (e_read env n t w)) = f w) \<and>
     (\<forall>b t w. f (snd (e_write env b t w)) = f w) \<and> (\<forall>t w. f (snd (e_ssl_connect env t w)) = f w) \<and>
     (\<forall>n t w. f (snd (e_ssl_read env n t w)) = f w) \<and> (\<forall>b t w. f (snd (e_ssl_write env b t w)) = f w)"

lemma quietD:
  assumes "quiet env f"
  shows "f (snd (e_alloc env w)) = f w" "f (snd (e_read env n t w)) = f w" "f (snd (e_write env b t w)) = f w"
    "f (snd (e_ssl_connect env t w)) = f w" "f (snd (e_ssl_read env n t w)) = f w" "f (snd (e_ssl_write env b t w)) = f w"
  using assms by (simp_all add: quiet_def)

lemma quiet_eqs:
  assumes "quiet env f"
  shows "e_alloc env w = (m, w') \<Longrightarrow> f w' = f w" "e_read env n t w = (r, w') \<Longrightarrow> f w' = f w"
    "e_write env b t w = (i, w') \<Longrightarrow> f w' = f w" "e_ssl_connect env t w = (ok, w') \<Longrightarrow> f w' = f w"
    "e_ssl_read env n t w = (r, w') \<Longrightarrow> f w' = f w" "e_ssl_write env b t w = (i, w') \<Longrightarrow> f w' = f w"
  using quietD [OF assms] by (metis snd_conv)+

lemma quiet_write_step:
  assumes "quiet env f"
  shows "f (snd (nb_write_step env ssl t buf off w)) = f w"
  using quietD [OF assms] unfolding nb_write_step_def by (auto simp: case_prod_unfold split: option.split)

lemma quiet_nb_write: "quiet env f \<Longrightarrow> nb_write env ssl t buf off w = (rc, off', w') \<Longrightarrow> f w' = f w"
proof (induction env ssl t buf off w rule: nb_write.induct)
  case (1 env ssl t buf off w)
  obtain res w1 where st: "nb_write_step env ssl t buf off w = (res, w1)" by fastforce
  have w1: "f w1 = f w" using quiet_write_step [OF 1(2), of ssl t buf off w] st by simp
  show ?case
  proof (cases "off < length buf")
    case False
    then show ?thesis using 1(3) by (simp add: nb_write.simps [of env ssl t buf off])
  next
    case True
    show ?thesis
    proof (cases res)
      case (Inl e)
      then show ?thesis using 1(3) st w1 True by (simp add: nb_write.simps [of env ssl t buf off])
    next
      case (Inr n)
      then have "nb_write env ssl t buf (off + n) w1 = (rc, off', w')"
        using 1(3) st True by (simp add: nb_write.simps [of env ssl t buf off])
      then show ?thesis using 1(1) [OF True st [symmetric] Inr 1(2)] w1 by simp
    qed
  qed
qed

lemma quiet_reserve: "quiet env f \<Longrightarrow> nb_rx_reserve env n s w = (rc, s', w') \<Longrightarrow> f w' = f w"
  unfolding nb_rx_reserve_def Let_def using quietD(1) [of env f w]
  by (auto simp: case_prod_unfold split: if_splits)

lemma quiet_read_into: "quiet env f \<Longrightarrow> nb_read_into env p n s w = (rc, e, s', w') \<Longrightarrow> f w' = f w"
  unfolding nb_read_into_def using quietD(2,5) [of env f] by (auto simp: case_prod_unfold split: if_splits)

lemma quiet_read_some: "quiet env f \<Longrightarrow> nb_read_some env limit s w = (rc, e, s', w') \<Longrightarrow> f w' = f w"
proof -
  assume q: "quiet env f" and r: "nb_read_some env limit s w = (rc, e, s', w')"
  show "f w' = f w"
  proof (cases "length (hs_rx s) < limit")
    case True
    define n where "n = (if limit - length (hs_rx s) > WOLFCERT_HTTP_READ_CHUNK then WOLFCERT_HTTP_READ_CHUNK
      else limit - length (hs_rx s))"
    obtain rc1 s1 w1 where v: "nb_rx_reserve env n s w = (rc1, s1, w1)" by (rule prod_cases3)
    have "w' = w1 \<or> nb_read_into env False n s1 w1 = (rc, e, s', w')"
      using r True v by (simp add: nb_read_some_def Let_def n_def [symmetric] split: if_splits)
    then show ?thesis using quiet_reserve [OF q v] quiet_read_into [OF q] by metis
  next
    case False
    then have "w' = w \<or> nb_read_into env True 1 s w = (rc, e, s', w')"
      using r by (auto simp: nb_read_some_def split: if_splits)
    then show ?thesis using quiet_read_into [OF q] by metis
  qed
qed

lemma quiet_cl_grow: "quiet env f \<Longrightarrow> cl_grow env n s w = (g, s', w') \<Longrightarrow> f w' = f w"
  unfolding cl_grow_def using quietD(1) [of env f w] by (auto simp: case_prod_unfold split: if_splits)

lemma quiet_read_pass:
  assumes "quiet env f" "(case nb_read_some env limit s w of (rc, ended, s', w') \<Rightarrow>
      (if rc = WOLFCERT_OK \<and> ended then WOLFCERT_ERR_IO else rc, s', w')) = (rc1, s1, w1)"
  shows "f w1 = f w"
proof -
  obtain rc e s' w' where r: "nb_read_some env limit s w = (rc, e, s', w')" by (rule prod_cases4)
  then show ?thesis using assms(2) quiet_read_some [OF assms(1) r] by simp
qed

lemma quiet_step:
  assumes q: "quiet env f" and step: "sm_step env s w = (rc, s', w')"
  shows "f w' = f w"
proof (cases "hs_state s")
  case SM_IDLE
  then show ?thesis using step by (simp add: sm_step_def)
next
  case SM_DONE
  then show ?thesis using step by (simp add: sm_step_def sm_done_def)
next
  case SM_HANDSHAKE
  then show ?thesis using step quiet_eqs(4) [OF q]
    by (auto simp: sm_step_def sm_handshake_def split: prod.splits if_splits ssl_error.splits)
next
  case SM_WRITE_HEAD
  obtain rc1 off w1 where nw: "nb_write env (hs_ssl s) (hs_io_timeout_ms s) (case hs_head s of None \<Rightarrow> [] | Some h \<Rightarrow> h) (hs_tx_off s) w = (rc1, off, w1)"
    by (rule prod_cases3)
  then have "w' = w1" using step SM_WRITE_HEAD by (auto simp: sm_step_def sm_write_head_def Let_def split: if_splits)
  then show ?thesis using quiet_nb_write [OF q nw] by simp
next
  case SM_WRITE_BODY
  obtain rc1 off w1 where nw: "nb_write env (hs_ssl s) (hs_io_timeout_ms s) (hs_body s) (hs_tx_off s) w = (rc1, off, w1)"
    by (rule prod_cases3)
  then have "w' = w1" using step SM_WRITE_BODY by (auto simp: sm_step_def sm_write_body_def Let_def split: if_splits)
  then show ?thesis using quiet_nb_write [OF q nw] by simp
next
  case SM_READ_HEAD
  define i where "i = find_hdr_end (hs_rx s) (hs_hdr_scan s)"
  note def = step [unfolded sm_step_def SM_READ_HEAD SmState.case sm_read_head_def Let_def, folded i_def]
  show ?thesis
  proof (cases "i + 3 \<ge> length (hs_rx s)")
    case True
    show ?thesis
    proof (cases "length (hs_rx s) \<ge> WOLFCERT_HTTP_HEADER_BUDGET")
      case False
      then show ?thesis using def True by (intro quiet_read_pass [OF q]) simp
    qed (use def True in simp)
  next
    case False
    then show ?thesis using def quiet_eqs(1) [OF q] by (auto split: prod.splits if_splits)
  qed
next
  case SM_READ_BODY_CL
  define fin where "fin = size_add (hs_hdr_end s) (nat (hs_content_length s))"
  note def = step [unfolded sm_step_def SM_READ_BODY_CL SmState.case sm_read_body_cl_def Let_def, folded fin_def]
  show ?thesis
  proof (cases "length (hs_rx s) < fin")
    case True
    obtain g s1 w1 where g: "cl_grow env fin s w = (g, s1, w1)" by (rule prod_cases3)
    have "f w' = f w1"
    proof (cases g)
      case gr: True
      then show ?thesis using def True g by (intro quiet_read_pass [OF q]) simp
    qed (use def True g in simp)
    then show ?thesis using quiet_cl_grow [OF q g] by simp
  qed (use def in \<open>simp add: case_prod_unfold\<close>)
next
  case SM_READ_BODY_EOF
  obtain rc1 e s1 w1 where r: "nb_read_some env (size_add (hs_hdr_end s) (hs_max_body s)) s w = (rc1, e, s1, w1)"
    by (rule prod_cases4)
  note def = step [unfolded sm_step_def SM_READ_BODY_EOF SmState.case sm_read_body_eof_def r prod.case Let_def]
  have "w' = w1" using def by (auto simp: case_prod_unfold split: if_splits)
  then show ?thesis using quiet_read_some [OF q r] by simp
next
  case SM_READ_BODY_CHUNKED
  obtain framed scan where
    fr: "wolfcert_http_chunked_complete (drop (hs_hdr_end s) (hs_rx s)) (hs_scan s) = (framed, scan)" by force
  note def = step [unfolded sm_step_def SM_READ_BODY_CHUNKED SmState.case sm_read_body_chunked_def fr prod.case Let_def]
  show ?thesis
  proof (cases "framed = 0")
    case True
    then show ?thesis using def by (intro quiet_read_pass [OF q]) simp
  qed (use def in \<open>auto simp: case_prod_unfold split: if_splits\<close>)
qed

lemma quiet_loop: "quiet env f \<Longrightarrow> sm_loop env s w = (rc, s', w') \<Longrightarrow> f w' = f w"
proof (induction env s w rule: sm_loop.induct)
  case (1 env s w)
  obtain rc1 s1 w1 where st: "sm_step env s w = (rc1, s1, w1)" by (rule prod_cases3)
  show ?case
  proof (cases "rc1 = WOLFCERT_OK \<and> hs_state s1 \<noteq> SM_IDLE")
    case True
    then have "sm_loop env s1 w1 = (rc, s', w')" using 1(3) st by (simp add: sm_loop.simps [of env s])
    then show ?thesis using 1(1) [OF st [symmetric] refl True 1(2)] quiet_step [OF 1(2) st] by simp
  next
    case False
    then have "w' = w1" using 1(3) st by (auto simp: sm_loop.simps [of env s])
    then show ?thesis using quiet_step [OF 1(2) st] by simp
  qed
qed

lemma quiet_run: "quiet env f \<Longrightarrow> sm_run env s w = (rc, s', w') \<Longrightarrow> f w' = f w"
proof -
  assume q: "quiet env f" and r: "sm_run env s w = (rc, s', w')"
  obtain rc1 s1 w1 where l: "sm_loop env s w = (rc1, s1, w1)" by (rule prod_cases3)
  then have "w' = w1" using r by (auto simp: sm_run_def sm_fail_def split: if_splits)
  then show ?thesis using quiet_loop [OF q l] by simp
qed

lemma quiet_begin: "quiet env f \<Longrightarrow> sm_begin env s req resp w = (rc, s', w') \<Longrightarrow> f w' = f w"
  unfolding sm_begin_def Let_def
  by (auto simp: quietD(1) case_prod_unfold split: sum.splits if_splits)

section \<open>The connection of a session\<close>

abbreviation conn :: "WolfCertHttpSession \<Rightarrow> bool \<times> bool" where
  "conn s \<equiv> (hs_connected s, hs_ssl s)"

lemma conn_read_some: "nb_read_some env limit s w = (rc, e, s', w') \<Longrightarrow> conn s' = conn s"
  by (erule nb_read_some_res) simp

lemma conn_read_pass:
  assumes "(case nb_read_some env limit s w of (rc, ended, s', w') \<Rightarrow>
      (if rc = WOLFCERT_OK \<and> ended then WOLFCERT_ERR_IO else rc, s', w')) = (rc1, s1, w1)"
  shows "conn s1 = conn s"
proof -
  obtain rc e s' w' where r: "nb_read_some env limit s w = (rc, e, s', w')" by (rule prod_cases4)
  then show ?thesis using assms conn_read_some [OF r] by simp
qed

lemma conn_inspect: "inspect_headers mem now s = (rc, s') \<Longrightarrow> conn s' = conn s"
  by (auto simp: inspect_headers_def Let_def split: if_splits sum.splits)

lemma conn_take_body: "conn (snd (sm_take_body s n)) = conn s"
  by (simp add: sm_take_body_def)

lemma conn_publish: "conn (sm_publish s b) = conn s"
  by (simp add: sm_publish_def)

lemma conn_step:
  assumes step: "sm_step env s w = (rc, s', w')"
  shows "conn s' = conn s"
proof (cases "hs_state s")
  case SM_READ_HEAD
  define i where "i = find_hdr_end (hs_rx s) (hs_hdr_scan s)"
  note def = step [unfolded sm_step_def SM_READ_HEAD SmState.case sm_read_head_def Let_def, folded i_def]
  show ?thesis
  proof (cases "i + 3 \<ge> length (hs_rx s)")
    case True
    show ?thesis
    proof (cases "length (hs_rx s) \<ge> WOLFCERT_HTTP_HEADER_BUDGET")
      case False
      then show ?thesis using conn_read_pass [of env _ "s\<lparr>hs_hdr_scan := i\<rparr>" w rc s' w'] def True by simp
    qed (use def True in simp)
  next
    case False
    obtain mem w1 where al: "e_alloc env w = (mem, w1)" by (cases "e_alloc env w")
    obtain rc1 s1 where ins: "inspect_headers mem (e_time env w1) (s\<lparr>hs_hdr_end := i + 4\<rparr>) = (rc1, s1)"
      by (cases "inspect_headers mem (e_time env w1) (s\<lparr>hs_hdr_end := i + 4\<rparr>)")
    show ?thesis using def False al ins conn_inspect [OF ins] by (auto split: if_splits)
  qed
next
  case SM_READ_BODY_CL
  define fin where "fin = size_add (hs_hdr_end s) (nat (hs_content_length s))"
  note def = step [unfolded sm_step_def SM_READ_BODY_CL SmState.case sm_read_body_cl_def Let_def, folded fin_def]
  show ?thesis
  proof (cases "length (hs_rx s) < fin")
    case True
    obtain g s1 w1 where g: "cl_grow env fin s w = (g, s1, w1)" by (rule prod_cases3)
    have s1: "conn s1 = conn s" by (rule cl_grow_res [OF g]) simp
    have "conn s' = conn s1"
    proof (cases g)
      case gr: True
      show ?thesis by (rule conn_read_pass [of env fin s1 w1 rc s' w']) (use def True g gr in simp)
    qed (use def True g in simp)
    then show ?thesis using s1 by simp
  next
    case False
    obtain b t where tk: "sm_take_body (if fin < length (hs_rx s) then s\<lparr>hs_closed := True\<rparr> else s) (nat (hs_content_length s)) = (b, t)"
      by fastforce
    have "conn t = conn s" using conn_take_body [of s "nat (hs_content_length s)"]
        conn_take_body [of "s\<lparr>hs_closed := True\<rparr>" "nat (hs_content_length s)"] tk by (simp split: if_splits)
    then show ?thesis using def False tk conn_publish [of t b] by simp
  qed
next
  case SM_READ_BODY_EOF
  obtain rc1 e s1 w1 where r: "nb_read_some env (size_add (hs_hdr_end s) (hs_max_body s)) s w = (rc1, e, s1, w1)"
    by (rule prod_cases4)
  note def = step [unfolded sm_step_def SM_READ_BODY_EOF SmState.case sm_read_body_eof_def r prod.case Let_def]
  show ?thesis using def conn_read_some [OF r] conn_take_body [of s1] conn_publish
    by (auto simp: case_prod_unfold split: if_splits)
next
  case SM_READ_BODY_CHUNKED
  obtain framed scan where
    fr: "wolfcert_http_chunked_complete (drop (hs_hdr_end s) (hs_rx s)) (hs_scan s) = (framed, scan)" by force
  note def = step [unfolded sm_step_def SM_READ_BODY_CHUNKED SmState.case sm_read_body_chunked_def fr prod.case Let_def]
  show ?thesis
  proof (cases "framed = 0")
    case True
    then show ?thesis using conn_read_pass [of env _ "s\<lparr>hs_scan := scan\<rparr>" w rc s' w'] def by simp
  next
    case False
    then show ?thesis using def conn_take_body conn_publish
      by (auto simp: case_prod_unfold split: if_splits)
  qed
qed (use step in \<open>auto simp: sm_step_def sm_done_def sm_drop_head_def sm_handshake_def sm_write_head_def sm_write_body_def Let_def
       split: prod.splits if_splits ssl_error.splits\<close>)

lemma conn_loop: "sm_loop env s w = (rc, s', w') \<Longrightarrow> conn s' = conn s"
proof (induction env s w rule: sm_loop.induct)
  case (1 env s w)
  obtain rc1 s1 w1 where st: "sm_step env s w = (rc1, s1, w1)" by (rule prod_cases3)
  show ?case
  proof (cases "rc1 = WOLFCERT_OK \<and> hs_state s1 \<noteq> SM_IDLE")
    case True
    then have "sm_loop env s1 w1 = (rc, s', w')" using 1(2) st by (simp add: sm_loop.simps [of env s])
    then show ?thesis using 1(1) [OF st [symmetric] refl True] conn_step [OF st] by simp
  next
    case False
    then have "s' = s1" using 1(2) st by (auto simp: sm_loop.simps [of env s])
    then show ?thesis using conn_step [OF st] by simp
  qed
qed

lemma conn_fail: "conn (snd (sm_fail s rc)) = conn s"
  by (simp add: sm_fail_def sm_reset_def sm_drop_head_def)

lemma conn_run: "sm_run env s w = (rc, s', w') \<Longrightarrow> conn s' = conn s"
proof -
  assume r: "sm_run env s w = (rc, s', w')"
  obtain rc1 s1 w1 where l: "sm_loop env s w = (rc1, s1, w1)" by (rule prod_cases3)
  have "s' = s1 \<or> s' = snd (sm_fail s1 rc1)" using r l by (auto simp: sm_run_def split: if_splits prod.splits)
  then show ?thesis using conn_loop [OF l] conn_fail [of s1 rc1] by auto
qed

lemma conn_begin: "sm_begin env s req resp w = (rc, s', w') \<Longrightarrow> conn s' = conn s"
  unfolding sm_begin_def Let_def build_head_def
  by (auto simp: case_prod_unfold split: sum.splits if_splits)

lemma quiet_call:
  assumes q: "quiet env f" and c: "http_session_call env s req resp nb w = (rc, s', w')"
  shows "f w' = f w \<and> conn s' = conn s"
proof -
  have run: "f w' = f w2 \<and> conn s' = conn s2"
    if r: "(case sm_run env s2 w2 of (rc3, s3, w3) \<Rightarrow>
            if \<not> nb \<and> (rc3 = WOLFCERT_ERR_WANT_READ \<or> rc3 = WOLFCERT_ERR_WANT_WRITE)
            then (case sm_fail s3 WOLFCERT_ERR_IO of (rc4, s4) \<Rightarrow> (rc4, s4, w3))
            else (rc3, s3, w3)) = (rc, s', w')" for s2 w2
  proof -
    obtain rc3 s3 w3 where sr: "sm_run env s2 w2 = (rc3, s3, w3)" by (rule prod_cases3)
    have "w' = w3" "s' = s3 \<or> s' = snd (sm_fail s3 WOLFCERT_ERR_IO)" using r sr by (auto split: if_splits prod.splits)
    then show ?thesis using quiet_run [OF q sr] conn_run [OF sr] conn_fail [of s3 WOLFCERT_ERR_IO] by auto
  qed
  define t where "t = (if nb then 0 else (-1 :: int))"
  show ?thesis
  proof (cases "rq_url req = None \<or> rq_method req = None \<or> hs_closed s \<or> hs_resp s \<noteq> None \<and> (\<not> nb \<or> hs_resp s \<noteq> Some resp)")
    case True
    then show ?thesis using c by (auto simp: http_session_call_def split: if_splits)
  next
    case False
    note def = c [unfolded http_session_call_def Let_def, folded t_def]
    obtain rc1 s1 w1 where b: "(if hs_resp s = None then sm_begin env (s\<lparr>hs_io_timeout_ms := t\<rparr>) req resp w
        else (WOLFCERT_OK, s\<lparr>hs_io_timeout_ms := t\<rparr>, w)) = (rc1, s1, w1)" by (rule prod_cases3)
    have B: "f w1 = f w \<and> conn s1 = conn s"
    proof (cases "hs_resp s = None")
      case True
      then have "sm_begin env (s\<lparr>hs_io_timeout_ms := t\<rparr>) req resp w = (rc1, s1, w1)" using b by simp
      then show ?thesis using quiet_begin [OF q] conn_begin by fastforce
    next
      case False
      then obtain y where "hs_resp s = Some y" by auto
      then show ?thesis using b by auto
    qed
    have "(s', w') = (s1, w1) \<or> (f w' = f w1 \<and> conn s' = conn s1)"
    proof (cases "rc1 = WOLFCERT_OK")
      case True
      then show ?thesis using run [of s1 w1] def b False by (auto split: if_splits)
    next
      case F: False
      then show ?thesis using def b False by (auto split: if_splits)
    qed
    then show ?thesis using B by auto
  qed
qed

section \<open>Connects and disconnects\<close>

text \<open>
  \<open>opens\<close> and \<open>closes\<close> count, in the state of the world, the successful calls of \<open>connect\<close> and the
  calls of \<open>disconnect\<close>. The transport is complete and changes the counts in these calls only.
\<close>

definition counting :: "('w \<Rightarrow> nat) \<Rightarrow> ('w \<Rightarrow> nat) \<Rightarrow> 'w WolfCertTransport \<Rightarrow> bool" where
  "counting opens closes t \<longleftrightarrow>
     (\<forall>c host port timeout w rc w'. t_connect t = Some c \<and> c host port timeout w = (rc, w') \<longrightarrow>
        opens w' = opens w + (if rc = 0 then 1 else 0) \<and> closes w' = closes w) \<and>
     (\<forall>d w. t_disconnect t = Some d \<longrightarrow> opens (d w) = opens w \<and> closes (d w) = closes w + 1) \<and>
     (\<forall>r n to w. t_read t = Some r \<longrightarrow> opens (snd (r n to w)) = opens w \<and> closes (snd (r n to w)) = closes w) \<and>
     (\<forall>x b to w. t_write t = Some x \<longrightarrow> opens (snd (x b to w)) = opens w \<and> closes (snd (x b to w)) = closes w)"

abbreviation counts :: "('w \<Rightarrow> nat) \<Rightarrow> ('w \<Rightarrow> nat) \<Rightarrow> 'w \<Rightarrow> nat \<times> nat" where
  "counts opens closes \<equiv> \<lambda>w. (opens w, closes w)"

lemma counting_transport:
  assumes "quiet env (counts opens closes)" "counting opens closes t"
  shows "quiet (with_transport t env) (counts opens closes)"
  using assms unfolding quiet_def counting_def with_transport_def by (auto split: option.split)

lemma dial_counts:
  assumes d: "dial builtin transport host port timeout w = (res, w')"
    and c: "counting opens closes transport" "\<And>b. builtin = Some b \<Longrightarrow> counting opens closes b \<and> transport_cbs b = 4"
  shows "case res of
      Inl rc \<Rightarrow> counts opens closes w' = counts opens closes w
    | Inr t \<Rightarrow> counts opens closes w' = (opens w + 1, closes w) \<and> counting opens closes t \<and> t_disconnect t \<noteq> None"
proof -
  have full: "t_disconnect t \<noteq> None" if "transport_cbs t = 4" for t :: "'a WolfCertTransport"
    using that by (cases "t_disconnect t"; cases "t_connect t"; cases "t_read t"; cases "t_write t") (simp_all add: transport_cbs_def)
  define choice where "choice = (if transport_cbs transport = 4 then Some transport
      else if transport_cbs transport \<noteq> 0 \<or> t_ctx transport \<noteq> None then None else builtin)"
  note def = d [unfolded dial_def Let_def, folded choice_def]
  show ?thesis
  proof (cases choice)
    case None
    then show ?thesis using def by auto
  next
    case (Some t)
    have t: "counting opens closes t" "transport_cbs t = 4"
      using Some c by (auto simp: choice_def split: if_splits)
    show ?thesis
    proof (cases "t_connect t")
      case None
      then show ?thesis using def Some by auto
    next
      case con: (Some connect)
      obtain rc w1 where r: "connect host port timeout w = (rc, w1)" by fastforce
      have k: "opens w1 = opens w + (if rc = 0 then 1 else 0)" "closes w1 = closes w"
        using t(1) con r unfolding counting_def by blast+
      show ?thesis using def Some con r k t full [OF t(2)] by (auto split: if_splits)
    qed
  qed
qed

lemma close_counts:
  assumes "counting opens closes (os_transport os)" "t_disconnect (os_transport os) \<noteq> None"
    "hs_connected (os_session os)" "\<And>w. counts opens closes (tl_shutdown lib w) = counts opens closes w"
  shows "counts opens closes (wolfcert_http_session_close lib os w) = (opens w, closes w + 1)"
proof -
  obtain d where d: "t_disconnect (os_transport os) = Some d" using assms(2) by auto
  have "opens (d x) = opens x" "closes (d x) = closes x + 1" for x using assms(1) d unfolding counting_def by blast+
  then show ?thesis using assms(3,4) d by (simp add: wolfcert_http_session_close_def conn_close_def Let_def)
qed

lemma open_counts:
  assumes o: "wolfcert_http_session_open env lib builtin cfg w = (res, w')"
    and q: "quiet env (counts opens closes)" and c: "counting opens closes (hc_transport cfg)"
      "\<And>b. builtin = Some b \<Longrightarrow> counting opens closes b \<and> transport_cbs b = 4"
    and sh: "\<And>w. counts opens closes (tl_shutdown lib w) = counts opens closes w"
  shows "case res of
      Inl rc \<Rightarrow> \<exists>k\<le>1. counts opens closes w' = (opens w + k, closes w + k)
    | Inr os \<Rightarrow> counts opens closes w' = (opens w + 1, closes w) \<and> counting opens closes (os_transport os) \<and>
        t_disconnect (os_transport os) \<noteq> None \<and> hs_connected (os_session os)"
proof -
  obtain mem w1 where a1: "e_alloc env w = (mem, w1)" by (cases "e_alloc env w")
  obtain mem2 w2 where a2: "e_alloc env w1 = (mem2, w2)" by (cases "e_alloc env w1")
  have k: "counts opens closes w1 = counts opens closes w" "counts opens closes w2 = counts opens closes w"
    using quiet_eqs(1) [OF q a1] quiet_eqs(1) [OF q a2] by simp_all
  note def = o [unfolded wolfcert_http_session_open_def Let_def a1 a2 prod.case]
  have none: "\<exists>j\<le>1. counts opens closes x = (opens w + j, closes w + j)" if "counts opens closes x = counts opens closes w" for x
    using that by (intro exI [of _ 0]) simp
  show ?thesis
  proof (cases "hc_base_url cfg = None \<or> \<not> mem 0")
    case True
    then show ?thesis using def none [of w] none [OF k(1)] by (cases "hc_base_url cfg") auto
  next
    case False
    then obtain url where url: "hc_base_url cfg = Some url" by auto
    show ?thesis
    proof (cases "wolfcert_http_url_parse mem2 (hc_base_url cfg)")
      case (Inl e)
      then show ?thesis using def False none [OF k(2)] url by auto
    next
      case (Inr u)
      obtain r3 w3 where dl: "dial builtin (hc_transport cfg) (url_host u) (url_port u) (hc_timeout_ms cfg) w2 = (r3, w3)" by fastforce
      note D = dial_counts [OF dl c]
      show ?thesis
      proof (cases r3)
        case (Inl e)
        then have "res = Inl e" "w' = w3" using def False Inr dl url by simp_all
        then show ?thesis using D Inl k none [of w3] by simp
      next
        case t: (Inr t)
        define s where "s = (new_session (if hc_max_response_bytes cfg \<noteq> 0 then hc_max_response_bytes cfg
          else WOLFCERT_HTTP_DEFAULT_MAX_BODY) u)\<lparr>hs_connected := True\<rparr>"
        have con: "hs_connected s" by (simp add: s_def)
        let ?p = "\<lparr>os_session = s, os_transport = t, os_tls = None\<rparr>"
        have T: "counts opens closes w3 = (opens w + 1, closes w)" "counting opens closes t" "t_disconnect t \<noteq> None"
          using D t k by simp_all
        have cl: "counts opens closes (wolfcert_http_session_close lib ?p w3) = (opens w + 1, closes w + 1)"
          using close_counts [of opens closes ?p lib w3] T con sh by simp
        have res: "res = (if \<not> url_tls u then Inr ?p else case setup_tls_ex lib (hc_dials cfg) (Some (url_host u)) of
              Inl rc \<Rightarrow> Inl (rc_code rc)
            | Inr tls \<Rightarrow> Inr (?p\<lparr>os_session := s\<lparr>hs_ssl := True, hs_state := SM_HANDSHAKE\<rparr>, os_tls := Some tls\<rparr>))"
          "w' = (if \<not> url_tls u then w3 else case setup_tls_ex lib (hc_dials cfg) (Some (url_host u)) of
              Inl rc \<Rightarrow> wolfcert_http_session_close lib ?p w3 | Inr tls \<Rightarrow> w3)"
          using def False Inr dl t url by (auto simp: s_def split: sum.splits)
        show ?thesis
        proof (cases "setup_tls_ex lib (hc_dials cfg) (Some (url_host u))")
          case (Inl e)
          then show ?thesis using res cl T con by (auto intro: exI [of _ 1])
        next
          case S: (Inr tls)
          then show ?thesis using res T con by auto
        qed
      qed
    qed
  qed
qed

text \<open>
  C16. The connection of a one-shot request is given back exactly once: over a call of
  \<open>wolfcert_http_request\<close>, whatever its outcome, \<open>disconnect\<close> runs as often as \<open>connect\<close> succeeded,
  which is at most once.
\<close>

theorem http_request_disconnects:
  assumes "wolfcert_http_request env lib builtin req oc resp w = (res, w')"
    and "quiet env (counts opens closes)" "counting opens closes (oc_transport oc)"
    and "\<And>b. builtin = Some b \<Longrightarrow> counting opens closes b \<and> transport_cbs b = 4"
    and "\<And>w. counts opens closes (tl_shutdown lib w) = counts opens closes w"
  shows "\<exists>k\<le>1. opens w' = opens w + k \<and> closes w' = closes w + k"
proof (cases "rq_url req = None \<or> rq_method req = None")
  case True
  then show ?thesis using assms(1) by (auto simp: wolfcert_http_request_def)
next
  case False
  define cfg where "cfg = \<lparr>hc_base_url = rq_url req,
      hc_dials = (oc_dials oc)\<lparr>td_allow_post_handshake_auth := False\<rparr>,
      hc_timeout_ms = oc_timeout_ms oc, hc_max_response_bytes = oc_max_response_bytes oc,
      hc_transport = oc_transport oc\<rparr>"
  obtain r1 w1 where o: "wolfcert_http_session_open env lib builtin cfg w = (r1, w1)" by fastforce
  have "counting opens closes (hc_transport cfg)" using assms(3) by (simp add: cfg_def)
  note O = open_counts [OF o assms(2) this assms(4,5)]
  show ?thesis
  proof (cases r1)
    case (Inl rc)
    then have "w' = w1" using assms(1) False o by (auto simp: wolfcert_http_request_def cfg_def [symmetric])
    then show ?thesis using O Inl by auto
  next
    case (Inr os)
    obtain rc s2 w2 where c: "http_session_call (with_transport (os_transport os) env)
        (wolfcert_http_session_set_close (os_session os)) req resp False w1 = (rc, s2, w2)" by (rule prod_cases3)
    have w': "w' = wolfcert_http_session_close lib (os\<lparr>os_session := s2\<rparr>) w2"
      using assms(1) False o Inr c by (auto simp: wolfcert_http_request_def cfg_def [symmetric])
    have T: "counts opens closes w1 = (opens w + 1, closes w)" "counting opens closes (os_transport os)"
      "t_disconnect (os_transport os) \<noteq> None" "hs_connected (os_session os)"
      using O Inr by simp_all
    have Q: "counts opens closes w2 = counts opens closes w1 \<and> conn s2 = conn (wolfcert_http_session_set_close (os_session os))"
      by (rule quiet_call [OF counting_transport [OF assms(2) T(2)] c])
    have "counts opens closes w' = (opens w2, closes w2 + 1)"
      unfolding w' using close_counts [of opens closes "os\<lparr>os_session := s2\<rparr>" lib w2] T Q assms(5)
      by (simp add: wolfcert_http_session_set_close_def)
    then show ?thesis using Q T(1) by (intro exI [of _ 1]) simp
  qed
qed

text \<open>A world that is just the two counters, with a transport whose peer resets every write.\<close>

definition counter_env :: "(nat \<times> nat) http_env" where
  "counter_env = \<lparr>e_alloc = (\<lambda>w. (\<lambda>k. True, w)), e_read = (\<lambda>n t w. (Read_Ret (-4), w)), e_write = (\<lambda>b t w. (-4, w)),
     e_ssl_connect = (\<lambda>t w. (False, w)), e_ssl_read = (\<lambda>n t w. (Read_Ret (-4), w)), e_ssl_write = (\<lambda>b t w. (-4, w)),
     e_ssl_get_error = (\<lambda>w. SSL_OTHER), e_time = (\<lambda>w. 0), e_b64 = (\<lambda>b cap. (0, b))\<rparr>"

definition counter_transport :: "(nat \<times> nat) WolfCertTransport" where
  "counter_transport = \<lparr>t_connect = Some (\<lambda>host port timeout w. (0, (fst w + 1, snd w))),
     t_read = Some (\<lambda>n t w. (Read_Ret (-4), w)), t_write = Some (\<lambda>b t w. (-4, w)),
     t_disconnect = Some (\<lambda>w. (fst w, snd w + 1)), t_ctx = None\<rparr>"

definition counter_tls :: "(nat \<times> nat) tls_lib" where
  "counter_tls = \<lparr>tl_ctx_new = True, tl_no_tls12 = False, tl_has_pha = False, tl_has_sni = True,
     tl_load_verify = (\<lambda>b f. True), tl_use_cert = (\<lambda>b f. True), tl_use_key = (\<lambda>b f. True),
     tl_ssl_new = True, tl_shutdown = (\<lambda>w. w)\<rparr>"

definition counter_cfg :: "(nat \<times> nat) one_shot_cfg" where
  "counter_cfg = \<lparr>oc_dials = \<lparr>td_trust_anchors = None, td_verify_server = True, td_client_cert = None, td_client_key = None,
       td_allow_post_handshake_auth = False\<rparr>,
     oc_timeout_ms = 0, oc_max_response_bytes = 0, oc_transport = counter_transport\<rparr>"

definition counter_request :: WolfCertHttpRequest where
  "counter_request = \<lparr>rq_method = Some (lit ''GET''), rq_url = Some (lit ''http://a/''), rq_content_type = None,
     rq_content_transfer_encoding = None, rq_accept = None, rq_basic_user = None, rq_basic_pass = None, rq_body = []\<rparr>"

theorem http_request_disconnects_witness:
  "fst (fst (wolfcert_http_request counter_env counter_tls None counter_request counter_cfg 1 (0, 0))) = rc_code WOLFCERT_ERR_IO \<and>
   (\<exists>k\<le>1. snd (wolfcert_http_request counter_env counter_tls None counter_request counter_cfg 1 (0, 0)) = (k, k))"
proof -
  obtain res w where r: "wolfcert_http_request counter_env counter_tls None counter_request counter_cfg 1 (0, 0) = (res, w)"
    by (rule prod.exhaust)
  have q: "quiet counter_env (counts fst snd)" by (simp add: quiet_def counter_env_def)
  have c: "counting fst snd (oc_transport counter_cfg)" by (simp add: counting_def counter_cfg_def counter_transport_def)
  have "\<exists>k\<le>1. fst w = fst ((0, 0) :: nat \<times> nat) + k \<and> snd w = snd ((0, 0) :: nat \<times> nat) + k"
    by (rule http_request_disconnects [OF r q c]) (simp_all add: counter_tls_def)
  moreover have "fst (fst (wolfcert_http_request counter_env counter_tls None counter_request counter_cfg 1 (0, 0))) = rc_code WOLFCERT_ERR_IO"
    by code_simp
  ultimately show ?thesis using r by (cases w) auto
qed

end
