(* ===== verification/Est_Client.thy ===== *)
theory Est_Client
  imports Client_Script Http_Flight Http_Conn
begin

text \<open>
  The EST client, \<open>src/est/est_client.c\<close>: one session over one HTTP session, at most one request in
  flight, and the one-shot calls.

  The caller's output is an object \<open>o\<close>, a \<open>WolfCertEstResult\<close>; its address \<open>out\<close> identifies the caller across
  non-blocking calls. The calls that are not enrolments write only its buffer. The response object of
  the session has the address \<open>EST_RESP\<close>; the session reads it there after the HTTP call.
\<close>

section \<open>Operations and results\<close>

datatype est_session_op = EST_OP_GET_CACERTS | EST_OP_GET_CSRATTRS | EST_OP_SIMPLE_ENROLL | EST_OP_SIMPLE_REENROLL

fun est_ops :: "est_session_op \<Rightarrow> cstring \<times> cstring" where
  "est_ops EST_OP_GET_CACERTS = (lit ''cacerts'', lit ''application/pkcs7-mime'')"
| "est_ops EST_OP_GET_CSRATTRS = (lit ''csrattrs'', lit ''application/csrattrs'')"
| "est_ops EST_OP_SIMPLE_ENROLL = (lit ''simpleenroll'', lit ''application/pkcs7-mime'')"
| "est_ops EST_OP_SIMPLE_REENROLL = (lit ''simplereenroll'', lit ''application/pkcs7-mime'')"

definition est_is_enroll :: "est_session_op \<Rightarrow> bool" where
  "est_is_enroll op \<longleftrightarrow> op = EST_OP_SIMPLE_ENROLL \<or> op = EST_OP_SIMPLE_REENROLL"

definition join_path :: "mem \<Rightarrow> cstring \<Rightarrow> cstring \<Rightarrow> cstring option" where
  "join_path mem base suffix =
     (let trim = (if base \<noteq> [] \<and> last base = b_slash then 1 else 0) in
      if \<not> mem 0 then None
      else Some (take (length base - trim) base @ b_slash # suffix))"

datatype WolfCertEstStatus =
  WOLFCERT_EST_STATUS_UNSET | WOLFCERT_EST_STATUS_SUCCESS | WOLFCERT_EST_STATUS_FAILURE | WOLFCERT_EST_STATUS_PENDING

record WolfCertEstResult =
  er_status :: WolfCertEstStatus
  er_cert_pem :: "byte list"
  er_retry_after_sec :: int

definition zero_result :: WolfCertEstResult where
  "zero_result = \<lparr>er_status = WOLFCERT_EST_STATUS_UNSET, er_cert_pem = [], er_retry_after_sec = 0\<rparr>"

definition wolfcert_est_result_free :: "WolfCertEstResult \<Rightarrow> WolfCertEstResult" where
  "wolfcert_est_result_free r = r\<lparr>er_cert_pem := [], er_status := WOLFCERT_EST_STATUS_UNSET, er_retry_after_sec := 0\<rparr>"

text \<open>\<open>has_res\<close> is \<open>res != NULL\<close>.\<close>

definition est_finish ::
  "'w client_env \<Rightarrow> WolfCertHttpResponse \<Rightarrow> est_session_op \<Rightarrow> WolfCertEncoding \<Rightarrow> bool \<Rightarrow> WolfCertEstResult \<Rightarrow>
   'w \<Rightarrow> wc_rc \<times> WolfCertEstResult \<times> 'w" where
  "est_finish env resp op enc has_res res w =
     (let status = rs_status_code resp in
      if has_res \<and> status = 202
      then (WOLFCERT_OK, res\<lparr>er_status := WOLFCERT_EST_STATUS_PENDING, er_retry_after_sec := rs_retry_after_sec resp\<rparr>, w)
      else if op = EST_OP_GET_CSRATTRS \<and>
              (status = 204 \<or> status = 404 \<or> status = 405 \<or> status = 501 \<or> status = 200 \<and> length (rs_body resp) = 0)
      then (WOLFCERT_OK, res\<lparr>er_cert_pem := []\<rparr>, w)
      else if status \<noteq> 200
      then (if status = 401 \<or> status = 403 then WOLFCERT_ERR_AUTH else WOLFCERT_ERR_HTTP,
            if has_res then res\<lparr>er_status := WOLFCERT_EST_STATUS_FAILURE\<rparr> else res, w)
      else if length (rs_body resp) = 0 then (WOLFCERT_ERR_HTTP, res, w)
      else case ce_alloc env w of (mem, w) \<Rightarrow>
           (case wolfcert_base64_decode (ce_codes env) (ce_b64_dec env) mem (Some (rs_body resp)) of
              Inl rc \<Rightarrow> (rc, res, w)
            | Inr der \<Rightarrow>
                (case (if op = EST_OP_GET_CSRATTRS then (Ok der, w)
                       else if enc = WOLFCERT_ENCODING_DER then wolfcert_pkcs7_certs_to_der (ce_cms env) der w
                       else wolfcert_pkcs7_certs_to_pem (ce_cms env) der w) of
                   (Inl rc, w) \<Rightarrow> (rc, res, w)
                 | (Inr out, w) \<Rightarrow>
                     (WOLFCERT_OK,
                      res\<lparr>er_cert_pem := out, er_status := (if has_res then WOLFCERT_EST_STATUS_SUCCESS else er_status res)\<rparr>, w))))"

section \<open>The session\<close>

record 'w WolfCertEstSession =
  es_http :: "'w open_session option"
  es_base_url :: cstring
  es_basic_user :: "cstring option"
  es_basic_pass :: "cstring option"
  es_has_client_identity :: bool
  es_in_active :: bool
  es_in_url :: "cstring option"
  es_in_body :: "byte list"
  es_in_req :: WolfCertHttpRequest
  es_in_resp :: WolfCertHttpResponse
  es_in_out :: "nat option"
  es_in_op :: est_session_op
  es_in_enc :: WolfCertEncoding

definition est_session_free_request :: "'w WolfCertEstSession \<Rightarrow> 'w WolfCertEstSession" where
  "est_session_free_request s = s\<lparr>es_in_url := None, es_in_body := [], es_in_req := zero_request\<rparr>"

definition est_session_reset :: "'w WolfCertEstSession \<Rightarrow> 'w WolfCertEstSession" where
  "est_session_reset s =
     (est_session_free_request s)\<lparr>es_in_resp := empty_response, es_in_out := None, es_in_active := False\<rparr>"

definition est_session_resume_check ::
  "'w WolfCertEstSession \<Rightarrow> est_session_op \<Rightarrow> WolfCertEncoding \<Rightarrow> nat option \<Rightarrow> wc_rc" where
  "est_session_resume_check s op enc out =
     (if es_in_op s \<noteq> op then WOLFCERT_ERR_BAD_ARG
      else if out \<noteq> es_in_out s then WOLFCERT_ERR_BAD_ARG
      else if enc \<noteq> es_in_enc s then WOLFCERT_ERR_BAD_ARG
      else WOLFCERT_OK)"

definition wolfcert_est_session_close :: "'w client_env \<Rightarrow> 'w WolfCertEstSession option \<Rightarrow> 'w \<Rightarrow> 'w" where
  "wolfcert_est_session_close env s w =
     (case s of
        None \<Rightarrow> w
      | Some s \<Rightarrow> (case es_http s of None \<Rightarrow> w | Some os \<Rightarrow> wolfcert_http_session_close (ce_tls env) os w))"

definition est_new_session :: "'w WolfCertServerCfg \<Rightarrow> cstring \<Rightarrow> 'w WolfCertEstSession" where
  "est_new_session srv base_url =
     \<lparr>es_http = None, es_base_url = base_url,
      es_basic_user = eo_username (sv_est srv), es_basic_pass = eo_password (sv_est srv),
      es_has_client_identity = (sv_client_cert srv \<noteq> None \<and> sv_client_key srv \<noteq> None),
      es_in_active = False, es_in_url = None, es_in_body = [], es_in_req = zero_request,
      es_in_resp = empty_response, es_in_out = None, es_in_op = EST_OP_GET_CACERTS,
      es_in_enc = WOLFCERT_ENCODING_PEM\<rparr>"

definition est_http_cfg :: "'w WolfCertServerCfg \<Rightarrow> cstring \<Rightarrow> 'w WolfCertHttpSessionCfg" where
  "est_http_cfg srv base_url =
     \<lparr>hc_base_url = Some base_url,
      hc_dials = \<lparr>td_trust_anchors = sv_trust_anchors srv, td_verify_server = sv_verify_server srv,
        td_client_cert = sv_client_cert srv, td_client_key = sv_client_key srv,
        td_allow_post_handshake_auth = eo_allow_post_handshake_auth (sv_est srv)\<rparr>,
      hc_timeout_ms = sv_timeout_ms srv, hc_max_response_bytes = sv_max_response_bytes srv,
      hc_transport = sv_transport srv\<rparr>"

text \<open>The copies of the URL and the credentials are allocations 1 to 3 of the draw whose first is the session.\<close>

definition wolfcert_est_session_open ::
  "'w client_env \<Rightarrow> 'w WolfCertServerCfg option \<Rightarrow> 'w \<Rightarrow> (int + 'w WolfCertEstSession) \<times> 'w" where
  "wolfcert_est_session_open env srv w =
     (case srv of
        None \<Rightarrow> (Inl (rc_code WOLFCERT_ERR_BAD_ARG), w)
      | Some srv \<Rightarrow>
          (case sv_server_url srv of
             None \<Rightarrow> (Inl (rc_code WOLFCERT_ERR_BAD_ARG), w)
           | Some server_url \<Rightarrow>
          let rc = wolfcert_cfg_require_proto (sv_protocol srv) WOLFCERT_PROTO_EST in
          if rc \<noteq> WOLFCERT_OK then (Inl (rc_code rc), w)
          else case ce_alloc env w of (mem, w) \<Rightarrow>
          (case wolfcert_http_url_parse mem (Some server_url) of
             Inl rc \<Rightarrow> (Inl (rc_code rc), w)
           | Inr u \<Rightarrow>
          if \<not> url_tls u then (Inl (rc_code WOLFCERT_ERR_TLS), w)
          else if \<not> sv_verify_server srv then (Inl (rc_code WOLFCERT_ERR_TLS), w)
          else case ce_alloc env w of (mem, w) \<Rightarrow>
          if \<not> mem 0 then (Inl (rc_code WOLFCERT_ERR_MEMORY), w)
          else let user = eo_username (sv_est srv); pass = eo_password (sv_est srv);
                   s = est_new_session srv server_url in
          if \<not> mem 1 then (Inl (rc_code WOLFCERT_ERR_MEMORY), wolfcert_est_session_close env (Some s) w)
          else if user \<noteq> None \<and> \<not> mem 2 \<or> pass \<noteq> None \<and> \<not> mem 3
          then (Inl (rc_code WOLFCERT_ERR_MEMORY), wolfcert_est_session_close env (Some s) w)
          else
          (case wolfcert_http_session_open (ce_http env) (ce_tls env) (ce_builtin env) (est_http_cfg srv server_url) w of
             (Inl rc, w) \<Rightarrow> (Inl rc, wolfcert_est_session_close env (Some s) w)
           | (Inr os, w) \<Rightarrow> (Inr (s\<lparr>es_http := Some os\<rparr>), w)))))"

section \<open>Calls\<close>

definition est_call_clear ::
  "'w WolfCertEstSession option \<Rightarrow> nat option \<Rightarrow> bool \<Rightarrow> WolfCertEstResult \<Rightarrow> WolfCertEstResult" where
  "est_call_clear s out has_res res =
     (if (case s of None \<Rightarrow> False | Some s \<Rightarrow> es_in_active s \<and> out = es_in_out s) then res
      else if has_res then zero_result
      else if out \<noteq> None then res\<lparr>er_cert_pem := []\<rparr>
      else res)"

definition est_call_check :: "est_session_op \<Rightarrow> byte list option \<Rightarrow> WolfCertEncoding \<Rightarrow> nat option \<Rightarrow> wc_rc" where
  "est_call_check op csr enc out =
     (if out = None \<or> (enc \<noteq> WOLFCERT_ENCODING_PEM \<and> enc \<noteq> WOLFCERT_ENCODING_DER) \<or>
         est_is_enroll op \<and> (csr = None \<or> csr = Some [])
      then WOLFCERT_ERR_BAD_ARG else WOLFCERT_OK)"

definition est_request :: "'w WolfCertEstSession \<Rightarrow> est_session_op \<Rightarrow> cstring \<Rightarrow> byte list \<Rightarrow> WolfCertHttpRequest" where
  "est_request s op url body =
     (let req = \<lparr>rq_method = Some (lit ''GET''), rq_url = Some url, rq_content_type = None,
                 rq_content_transfer_encoding = None, rq_accept = Some (snd (est_ops op)),
                 rq_basic_user = es_basic_user s, rq_basic_pass = es_basic_pass s, rq_body = []\<rparr> in
      if est_is_enroll op
      then req\<lparr>rq_method := Some (lit ''POST''), rq_content_type := Some (lit ''application/pkcs10''),
               rq_content_transfer_encoding := Some (lit ''base64''), rq_body := body\<rparr>
      else req)"

definition est_session_begin ::
  "'w client_env \<Rightarrow> 'w WolfCertEstSession \<Rightarrow> est_session_op \<Rightarrow> byte list option \<Rightarrow> WolfCertEncoding \<Rightarrow> nat option \<Rightarrow>
   'w \<Rightarrow> wc_rc \<times> 'w WolfCertEstSession \<times> 'w" where
  "est_session_begin env s op csr enc out w =
     (case ce_alloc env w of (mem, w) \<Rightarrow>
      (case join_path mem (es_base_url s) (fst (est_ops op)) of
         None \<Rightarrow> (WOLFCERT_ERR_MEMORY, est_session_reset s, w)
       | Some url \<Rightarrow>
           (case (if est_is_enroll op
                  then (case ce_alloc env w of (mem, w) \<Rightarrow>
                          (wolfcert_base64_encode_mime (ce_codes env) (ce_b64_mime env) mem csr, w))
                  else (Ok (es_in_body s), w)) of
              (Inl rc, w) \<Rightarrow> (rc, est_session_reset s, w)
            | (Inr body, w) \<Rightarrow>
                (WOLFCERT_OK,
                 s\<lparr>es_in_url := Some url, es_in_body := body, es_in_req := est_request s op url body,
                   es_in_op := op, es_in_enc := enc, es_in_out := out, es_in_active := True\<rparr>, w))))"

definition EST_RESP :: nat where
  "EST_RESP = 0"

text \<open>The HTTP call on the session's request and response.\<close>

definition est_http_call ::
  "'w client_env \<Rightarrow> 'w WolfCertEstSession \<Rightarrow> bool \<Rightarrow> 'w \<Rightarrow> wc_rc \<times> 'w WolfCertEstSession \<times> 'w" where
  "est_http_call env s nb w =
     (case es_http s of
        None \<Rightarrow> (WOLFCERT_ERR_BAD_ARG, s, w)
      | Some os \<Rightarrow>
          (case (if nb then wolfcert_http_session_request_nb (ce_session env os) (os_session os) (es_in_req s) EST_RESP w
                 else wolfcert_http_session_request (ce_session env os) (os_session os) (es_in_req s) EST_RESP w) of
             (rc, hs, w) \<Rightarrow> (rc, s\<lparr>es_http := Some (os\<lparr>os_session := hs\<rparr>), es_in_resp := hs_out hs\<rparr>, w)))"

definition est_session_call ::
  "'w client_env \<Rightarrow> 'w WolfCertEstSession option \<Rightarrow> est_session_op \<Rightarrow> byte list option \<Rightarrow> WolfCertEncoding \<Rightarrow>
   nat option \<Rightarrow> bool \<Rightarrow> WolfCertEstResult \<Rightarrow> bool \<Rightarrow> 'w \<Rightarrow> wc_rc \<times> WolfCertEstResult \<times> 'w WolfCertEstSession option \<times> 'w" where
  "est_session_call env s0 op csr enc out has_res res nb w =
     (let res = est_call_clear s0 out has_res res in
      case s0 of
        None \<Rightarrow> (WOLFCERT_ERR_BAD_ARG, res, None, w)
      | Some s \<Rightarrow>
          if es_in_active s \<and> \<not> nb then (WOLFCERT_ERR_BAD_ARG, res, Some s, w)
          else case (if es_in_active s then (est_session_resume_check s op enc out, s, w)
                     else let rc = est_call_check op csr enc out;
                              rc = (if rc = WOLFCERT_OK \<and> op = EST_OP_SIMPLE_REENROLL \<and> \<not> es_has_client_identity s
                                    then WOLFCERT_ERR_BAD_ARG else rc) in
                          if rc = WOLFCERT_OK then est_session_begin env s op csr enc out w else (rc, s, w)) of
                 (rc, s, w) \<Rightarrow>
          if rc \<noteq> WOLFCERT_OK then (rc, res, Some s, w)
          else case est_http_call env s nb w of (rc, s, w) \<Rightarrow>
          if nb \<and> (rc = WOLFCERT_ERR_WANT_READ \<or> rc = WOLFCERT_ERR_WANT_WRITE) then (rc, res, Some s, w)
          else if rc = WOLFCERT_OK
          then (case est_finish env (es_in_resp s) op enc has_res res w of
                  (rc, res, w) \<Rightarrow> (rc, res, Some (est_session_reset (est_session_free_request s)), w))
          else (rc, res, Some (est_session_reset s), w))"

text \<open>The calls of the interface, blocking and not.\<close>

definition wolfcert_est_session_get_cacerts ::
  "'w client_env \<Rightarrow> 'w WolfCertEstSession option \<Rightarrow> WolfCertEncoding \<Rightarrow> nat option \<Rightarrow> WolfCertEstResult \<Rightarrow> 'w \<Rightarrow>
   wc_rc \<times> WolfCertEstResult \<times> 'w WolfCertEstSession option \<times> 'w" where
  "wolfcert_est_session_get_cacerts env s enc out_ca res w =
     est_session_call env s EST_OP_GET_CACERTS None enc out_ca False res False w"

definition wolfcert_est_session_get_cacerts_nb ::
  "'w client_env \<Rightarrow> 'w WolfCertEstSession option \<Rightarrow> WolfCertEncoding \<Rightarrow> nat option \<Rightarrow> WolfCertEstResult \<Rightarrow> 'w \<Rightarrow>
   wc_rc \<times> WolfCertEstResult \<times> 'w WolfCertEstSession option \<times> 'w" where
  "wolfcert_est_session_get_cacerts_nb env s enc out_ca res w =
     est_session_call env s EST_OP_GET_CACERTS None enc out_ca False res True w"

definition wolfcert_est_session_get_csr_attrs ::
  "'w client_env \<Rightarrow> 'w WolfCertEstSession option \<Rightarrow> nat option \<Rightarrow> WolfCertEstResult \<Rightarrow> 'w \<Rightarrow>
   wc_rc \<times> WolfCertEstResult \<times> 'w WolfCertEstSession option \<times> 'w" where
  "wolfcert_est_session_get_csr_attrs env s out_attrs_der res w =
     est_session_call env s EST_OP_GET_CSRATTRS None WOLFCERT_ENCODING_DER out_attrs_der False res False w"

definition wolfcert_est_session_get_csr_attrs_nb ::
  "'w client_env \<Rightarrow> 'w WolfCertEstSession option \<Rightarrow> nat option \<Rightarrow> WolfCertEstResult \<Rightarrow> 'w \<Rightarrow>
   wc_rc \<times> WolfCertEstResult \<times> 'w WolfCertEstSession option \<times> 'w" where
  "wolfcert_est_session_get_csr_attrs_nb env s out_attrs_der res w =
     est_session_call env s EST_OP_GET_CSRATTRS None WOLFCERT_ENCODING_DER out_attrs_der False res True w"

definition wolfcert_est_session_simple_enroll ::
  "'w client_env \<Rightarrow> 'w WolfCertEstSession option \<Rightarrow> byte list option \<Rightarrow> nat option \<Rightarrow> WolfCertEstResult \<Rightarrow> 'w \<Rightarrow>
   wc_rc \<times> WolfCertEstResult \<times> 'w WolfCertEstSession option \<times> 'w" where
  "wolfcert_est_session_simple_enroll env s csr_der out res w =
     (if out = None then (WOLFCERT_ERR_BAD_ARG, res, s, w)
      else est_session_call env s EST_OP_SIMPLE_ENROLL csr_der WOLFCERT_ENCODING_PEM out True res False w)"

definition wolfcert_est_session_simple_enroll_nb ::
  "'w client_env \<Rightarrow> 'w WolfCertEstSession option \<Rightarrow> byte list option \<Rightarrow> nat option \<Rightarrow> WolfCertEstResult \<Rightarrow> 'w \<Rightarrow>
   wc_rc \<times> WolfCertEstResult \<times> 'w WolfCertEstSession option \<times> 'w" where
  "wolfcert_est_session_simple_enroll_nb env s csr_der out res w =
     (if out = None then (WOLFCERT_ERR_BAD_ARG, res, s, w)
      else est_session_call env s EST_OP_SIMPLE_ENROLL csr_der WOLFCERT_ENCODING_PEM out True res True w)"

definition wolfcert_est_session_simple_reenroll ::
  "'w client_env \<Rightarrow> 'w WolfCertEstSession option \<Rightarrow> byte list option \<Rightarrow> nat option \<Rightarrow> WolfCertEstResult \<Rightarrow> 'w \<Rightarrow>
   wc_rc \<times> WolfCertEstResult \<times> 'w WolfCertEstSession option \<times> 'w" where
  "wolfcert_est_session_simple_reenroll env s csr_der out res w =
     (if out = None then (WOLFCERT_ERR_BAD_ARG, res, s, w)
      else est_session_call env s EST_OP_SIMPLE_REENROLL csr_der WOLFCERT_ENCODING_PEM out True res False w)"

definition wolfcert_est_session_simple_reenroll_nb ::
  "'w client_env \<Rightarrow> 'w WolfCertEstSession option \<Rightarrow> byte list option \<Rightarrow> nat option \<Rightarrow> WolfCertEstResult \<Rightarrow> 'w \<Rightarrow>
   wc_rc \<times> WolfCertEstResult \<times> 'w WolfCertEstSession option \<times> 'w" where
  "wolfcert_est_session_simple_reenroll_nb env s csr_der out res w =
     (if out = None then (WOLFCERT_ERR_BAD_ARG, res, s, w)
      else est_session_call env s EST_OP_SIMPLE_REENROLL csr_der WOLFCERT_ENCODING_PEM out True res True w)"

section \<open>One-shot calls\<close>

definition est_set_close :: "'w WolfCertEstSession \<Rightarrow> 'w WolfCertEstSession" where
  "est_set_close s =
     s\<lparr>es_http := map_option (\<lambda>os. os\<lparr>os_session := wolfcert_http_session_set_close (os_session os)\<rparr>) (es_http s)\<rparr>"

definition est_one_shot ::
  "'w client_env \<Rightarrow> 'w WolfCertServerCfg option \<Rightarrow> est_session_op \<Rightarrow> byte list option \<Rightarrow> WolfCertEncoding \<Rightarrow>
   nat option \<Rightarrow> bool \<Rightarrow> WolfCertEstResult \<Rightarrow> 'w \<Rightarrow> int \<times> WolfCertEstResult \<times> 'w" where
  "est_one_shot env srv op csr enc out has_res res w =
     (let res = est_call_clear (None :: 'w WolfCertEstSession option) out has_res res; rc = est_call_check op csr enc out in
      if rc \<noteq> WOLFCERT_OK then (rc_code rc, res, wolfcert_est_session_close env None w)
      else case wolfcert_est_session_open env srv w of
             (Inl rc, w) \<Rightarrow> (rc, res, wolfcert_est_session_close env None w)
           | (Inr s, w) \<Rightarrow>
               (case est_session_call env (Some (est_set_close s)) op csr enc out has_res res False w of
                  (rc, res, s, w) \<Rightarrow> (rc_code rc, res, wolfcert_est_session_close env s w)))"

definition wolfcert_est_get_cacerts ::
  "'w client_env \<Rightarrow> 'w WolfCertServerCfg option \<Rightarrow> WolfCertEncoding \<Rightarrow> nat option \<Rightarrow> WolfCertEstResult \<Rightarrow> 'w \<Rightarrow>
   int \<times> WolfCertEstResult \<times> 'w" where
  "wolfcert_est_get_cacerts env srv enc out_ca res w = est_one_shot env srv EST_OP_GET_CACERTS None enc out_ca False res w"

definition wolfcert_est_get_csr_attrs ::
  "'w client_env \<Rightarrow> 'w WolfCertServerCfg option \<Rightarrow> nat option \<Rightarrow> WolfCertEstResult \<Rightarrow> 'w \<Rightarrow> int \<times> WolfCertEstResult \<times> 'w" where
  "wolfcert_est_get_csr_attrs env srv out_attrs_der res w =
     est_one_shot env srv EST_OP_GET_CSRATTRS None WOLFCERT_ENCODING_DER out_attrs_der False res w"

definition wolfcert_est_simple_enroll ::
  "'w client_env \<Rightarrow> 'w WolfCertServerCfg option \<Rightarrow> byte list option \<Rightarrow> nat option \<Rightarrow> WolfCertEstResult \<Rightarrow> 'w \<Rightarrow>
   int \<times> WolfCertEstResult \<times> 'w" where
  "wolfcert_est_simple_enroll env srv csr_der out res w =
     (if out = None then (rc_code WOLFCERT_ERR_BAD_ARG, res, w)
      else est_one_shot env srv EST_OP_SIMPLE_ENROLL csr_der WOLFCERT_ENCODING_PEM out True res w)"

text \<open>The key functions of wolfSSL come in with the key to be renewed.\<close>

definition wolfcert_est_simple_reenroll ::
  "'w client_env \<Rightarrow> key_build \<Rightarrow> ('k, 'w) wolf_keys \<Rightarrow> 'w WolfCertServerCfg option \<Rightarrow> byte list option \<Rightarrow>
   'k WolfCertKey option \<Rightarrow> byte list option \<Rightarrow> nat option \<Rightarrow> WolfCertEstResult \<Rightarrow> 'w \<Rightarrow> int \<times> WolfCertEstResult \<times> 'w" where
  "wolfcert_est_simple_reenroll env build keys srv current_cert current_key csr_der out res w =
     (if out = None then (rc_code WOLFCERT_ERR_BAD_ARG, res, w)
      else let res = est_call_clear (None :: 'w WolfCertEstSession option) out True res in
      case (srv, current_cert, current_key) of
        (Some cfg, Some cert, Some key) \<Rightarrow>
          if cert = [] then (rc_code WOLFCERT_ERR_BAD_ARG, res, w)
          else (case wolfcert_key_to_pem build keys key w of
                  (Inl rc, w) \<Rightarrow> (rc_code rc, res, w)
                | (Inr key_pem, w) \<Rightarrow>
                    est_one_shot env (Some (cfg\<lparr>sv_client_cert := Some cert, sv_client_key := Some key_pem\<rparr>))
                      EST_OP_SIMPLE_REENROLL csr_der WOLFCERT_ENCODING_PEM out True res w)
      | _ \<Rightarrow> (rc_code WOLFCERT_ERR_BAD_ARG, res, w))"

section \<open>One request at a time\<close>

text \<open>
  The two layers agree: the EST session has a request in flight exactly when its HTTP session has, and
  that request is its own; without one it holds no URL, body or request.
\<close>

definition est_inv :: "'w WolfCertEstSession \<Rightarrow> bool" where
  "est_inv s \<longleftrightarrow>
     (\<exists>os. es_http s = Some os \<and> sess_inv (os_session os) \<and>
        (if es_in_active s then hs_resp (os_session os) = Some EST_RESP \<and> \<not> hs_closed (os_session os)
         else hs_resp (os_session os) = None)) \<and>
     (if es_in_active s
      then \<exists>url. es_in_url s = Some url \<and> es_in_req s = est_request s (es_in_op s) url (es_in_body s)
      else es_in_url s = None \<and> es_in_body s = [] \<and> es_in_req s = zero_request)"

lemma est_reset_simps [simp]:
  "es_http (est_session_reset s) = es_http s" "\<not> es_in_active (est_session_reset s)"
  "es_in_url (est_session_reset s) = None" "es_in_body (est_session_reset s) = []"
  "es_in_req (est_session_reset s) = zero_request" "es_http (est_session_free_request s) = es_http s"
  by (simp_all add: est_session_reset_def est_session_free_request_def)

lemma est_request_simps [simp]:
  "rq_url (est_request s op url body) = Some url" "rq_method (est_request s op url body) = Some (if est_is_enroll op then lit ''POST'' else lit ''GET'')"
  "est_request (s\<lparr>es_http := h\<rparr>) = est_request s" "est_request (s\<lparr>es_in_resp := r\<rparr>) = est_request s"
  "est_request (s\<lparr>es_in_url := a\<rparr>) = est_request s" "est_request (s\<lparr>es_in_body := b\<rparr>) = est_request s"
  "est_request (s\<lparr>es_in_req := q\<rparr>) = est_request s" "est_request (s\<lparr>es_in_out := o'\<rparr>) = est_request s"
  "est_request (s\<lparr>es_in_op := p\<rparr>) = est_request s" "est_request (s\<lparr>es_in_enc := e\<rparr>) = est_request s"
  "est_request (s\<lparr>es_in_active := act\<rparr>) = est_request s"
  by (simp_all add: est_request_def Let_def fun_eq_iff)

text \<open>What the HTTP call leaves, for a request that is in flight or has just begun.\<close>

lemma est_http_call_inv:
  assumes c: "est_http_call env s nb w = (rc, s', w')" and ok: "ssl_ok (ce_http env)"
    and os: "es_http s = Some os" "sess_inv (os_session os)"
      "hs_resp (os_session os) = None \<or> hs_resp (os_session os) = Some EST_RESP \<and> nb \<and> \<not> hs_closed (os_session os)"
      "rq_url (es_in_req s) \<noteq> None" "rq_method (es_in_req s) \<noteq> None"
  shows "\<exists>hs. s' = s\<lparr>es_http := Some (os\<lparr>os_session := hs\<rparr>), es_in_resp := hs_out hs\<rparr> \<and> sess_inv hs \<and>
    http_session_call (ce_session env os) (os_session os) (es_in_req s) EST_RESP nb w = (rc, hs, w') \<and>
    hs_resp hs = (if rc_want rc then Some EST_RESP else None) \<and> (rc_want rc \<longrightarrow> nb \<and> \<not> hs_closed hs)"
proof -
  obtain hs where h: "http_session_call (ce_session env os) (os_session os) (es_in_req s) EST_RESP nb w = (rc, hs, w')"
    "s' = s\<lparr>es_http := Some (os\<lparr>os_session := hs\<rparr>), es_in_resp := hs_out hs\<rparr>"
    using c os(1)
    by (cases nb) (auto simp: est_http_call_def wolfcert_http_session_request_def wolfcert_http_session_request_nb_def split: prod.splits)
  show ?thesis using session_call_flight [OF _ os(2) h(1) os(3-5)] ok h by auto
qed

lemma est_session_begin_inv:
  assumes "est_session_begin env s op csr enc out w = (rc, s', w')" "es_in_body s = []"
  shows "if rc = WOLFCERT_OK
    then \<exists>url body. s' = s\<lparr>es_in_url := Some url, es_in_body := body, es_in_req := est_request s op url body,
           es_in_op := op, es_in_enc := enc, es_in_out := out, es_in_active := True\<rparr> \<and>
         (\<exists>mem. join_path mem (es_base_url s) (fst (est_ops op)) = Some url) \<and>
         (if est_is_enroll op then \<exists>mem. wolfcert_base64_encode_mime (ce_codes env) (ce_b64_mime env) mem csr = Ok body else body = [])
    else s' = est_session_reset s"
proof -
  have "wolfcert_base64_encode_mime (ce_codes env) (ce_b64_mime env) mem csr \<noteq> Err WOLFCERT_OK" for mem
    using wolfcert_map_wc_err_OK by (auto simp: wolfcert_base64_encode_mime_def Let_def split: option.splits prod.splits if_splits)
  then show ?thesis using assms
    by (auto simp: est_session_begin_def split: prod.splits option.splits sum.splits if_splits; blast)
qed

lemma est_session_begin_want: "est_session_begin env s op csr enc out w = (rc, s', w') \<Longrightarrow> \<not> rc_want rc"
  by (auto simp: est_session_begin_def wolfcert_base64_encode_mime_def Let_def
      split: prod.splits option.splits sum.splits if_splits)

text \<open>
  The contract of \<open>WolfCertEstResult\<close> in \<open>wolfcert/est.h\<close>: the status goes with the return code, and
  there is a certificate exactly on success.
\<close>

definition est_outcome :: "wc_rc \<Rightarrow> WolfCertEstResult \<Rightarrow> bool" where
  "est_outcome rc res \<longleftrightarrow>
     (case er_status res of
        WOLFCERT_EST_STATUS_UNSET \<Rightarrow> rc \<noteq> WOLFCERT_OK \<and> er_cert_pem res = [] \<and> er_retry_after_sec res = 0
      | WOLFCERT_EST_STATUS_SUCCESS \<Rightarrow> rc = WOLFCERT_OK \<and> er_cert_pem res \<noteq> [] \<and> er_retry_after_sec res = 0
      | WOLFCERT_EST_STATUS_FAILURE \<Rightarrow> rc \<in> {WOLFCERT_ERR_AUTH, WOLFCERT_ERR_HTTP} \<and> er_cert_pem res = [] \<and> er_retry_after_sec res = 0
      | WOLFCERT_EST_STATUS_PENDING \<Rightarrow> rc = WOLFCERT_OK \<and> er_cert_pem res = [])"

lemma est_finish_cases:
  assumes f: "est_finish env resp op enc has_res res w = (rc, res', w')"
  obtains (pending) "has_res" "rs_status_code resp = 202" "rc = WOLFCERT_OK" "w' = w"
      "res' = res\<lparr>er_status := WOLFCERT_EST_STATUS_PENDING, er_retry_after_sec := rs_retry_after_sec resp\<rparr>"
  | (no_attrs) "op = EST_OP_GET_CSRATTRS" "rc = WOLFCERT_OK" "res' = res\<lparr>er_cert_pem := []\<rparr>" "w' = w"
  | (rejected) "rs_status_code resp \<noteq> 200" "rc \<in> {WOLFCERT_ERR_AUTH, WOLFCERT_ERR_HTTP}" "w' = w"
      "res' = (if has_res then res\<lparr>er_status := WOLFCERT_EST_STATUS_FAILURE\<rparr> else res)"
  | (failed) "rs_status_code resp = 200" "\<not> rc_want rc" "rc \<noteq> WOLFCERT_OK" "res' = res"
  | (success) mem der out v where "rs_status_code resp = 200" "rc = WOLFCERT_OK"
      "res' = res\<lparr>er_cert_pem := out, er_status := (if has_res then WOLFCERT_EST_STATUS_SUCCESS else er_status res)\<rparr>"
      "ce_alloc env w = (mem, v)" "wolfcert_base64_decode (ce_codes env) (ce_b64_dec env) mem (Some (rs_body resp)) = Ok der"
      "op \<noteq> EST_OP_GET_CSRATTRS \<Longrightarrow> out \<noteq> [] \<and> pkcs7_certs_extract (ce_cms env) (enc \<noteq> WOLFCERT_ENCODING_DER) der v = (Ok out, w')"
proof -
  define p where "p = (op = EST_OP_GET_CSRATTRS \<and> (rs_status_code resp = 204 \<or> rs_status_code resp = 404 \<or> rs_status_code resp = 405 \<or>
      rs_status_code resp = 501 \<or> rs_status_code resp = 200 \<and> length (rs_body resp) = 0))"
  note def = f [unfolded est_finish_def Let_def, folded p_def]
  consider "has_res \<and> rs_status_code resp = 202" | "\<not> (has_res \<and> rs_status_code resp = 202)" p
    | "\<not> (has_res \<and> rs_status_code resp = 202)" "\<not> p" "rs_status_code resp \<noteq> 200"
    | "\<not> p" "rs_status_code resp = 200" "length (rs_body resp) = 0" | "\<not> p" "rs_status_code resp = 200" "length (rs_body resp) \<noteq> 0"
    by blast
  then show thesis
  proof cases
    case 1
    then show thesis using pending def by simp
  next
    case 2
    then have "op = EST_OP_GET_CSRATTRS" by (simp add: p_def)
    then show thesis using no_attrs def 2 by simp
  next
    case 3
    then show thesis using rejected def by (simp split: if_splits)
  next
    case 4
    then show thesis using failed def by (simp add: rc_want_def)
  next
    case 5
    obtain mem v where m: "ce_alloc env w = (mem, v)" by (rule prod.exhaust)
    show thesis
    proof (cases "wolfcert_base64_decode (ce_codes env) (ce_b64_dec env) mem (Some (rs_body resp))")
      case (Inl e)
      then have "\<not> rc_want e \<and> e \<noteq> WOLFCERT_OK" by (auto simp: wolfcert_base64_decode_def Let_def split: prod.splits if_splits)
      then show thesis using failed def 5 m Inl by simp
    next
      case (Inr der)
      obtain r u where x: "(if op = EST_OP_GET_CSRATTRS then (Ok der, v) else pkcs7_certs_extract (ce_cms env) (enc \<noteq> WOLFCERT_ENCODING_DER) der v) = (r, u)"
        by (rule prod.exhaust)
      have y: "(if op = EST_OP_GET_CSRATTRS then (Ok der, v)
          else if enc = WOLFCERT_ENCODING_DER then wolfcert_pkcs7_certs_to_der (ce_cms env) der v
          else wolfcert_pkcs7_certs_to_pem (ce_cms env) der v) = (r, u)"
        using x by (auto simp: wolfcert_pkcs7_certs_to_der_def wolfcert_pkcs7_certs_to_pem_def split: if_splits)
      show thesis
      proof (cases r)
        case (Inl e)
        then have "\<not> rc_want e \<and> e \<noteq> WOLFCERT_OK" using x by (auto dest: certs_extract_want split: if_splits)
        then show thesis using failed def 5 m \<open>_ = Inr der\<close> y Inl by simp
      next
        case (Inr out)
        then show thesis using success [of out mem v der] def 5 m \<open>_ = Inr der\<close> y x by (auto dest: certs_extract_some split: if_splits)
      qed
    qed
  qed
qed

lemma est_finish_outcome:
  assumes f: "est_finish env resp op enc has_res res w = (rc, res', w')"
  shows "\<not> rc_want rc" and "has_res \<Longrightarrow> est_is_enroll op \<Longrightarrow> res = zero_result \<Longrightarrow> est_outcome rc res'"
proof -
  show "\<not> rc_want rc" using f by (cases rule: est_finish_cases) (auto simp: rc_want_def)
  assume "has_res" "est_is_enroll op" "res = zero_result"
  with f show "est_outcome rc res'"
    by (cases rule: est_finish_cases) (auto simp: est_outcome_def zero_result_def est_is_enroll_def)
qed

text \<open>
  A call on a session in order: refused without an effect, ended without a request, or made. A request
  made ends with the reply of the HTTP session, unless it is to be continued.
\<close>

lemma est_session_call_cases:
  assumes c: "est_session_call env (Some s) op csr enc out has_res res nb w = (rc, res', r, w')"
    and ok: "ssl_ok (ce_http env)" and inv: "est_inv s"
  obtains (refused) "\<not> rc_want rc" "rc \<noteq> WOLFCERT_OK" "r = Some s" "w' = w" "res' = est_call_clear (Some s) out has_res res"
  | (no_request) "\<not> es_in_active s" "\<not> rc_want rc" "rc \<noteq> WOLFCERT_OK" "r = Some (est_session_reset s)" "res' = est_call_clear (Some s) out has_res res"
  | (made) s1 w1 os hs w2 rc1 where
      "s1 = s \<and> w1 = w \<and> es_in_active s \<and> nb \<and> est_session_resume_check s op enc out = WOLFCERT_OK \<or>
       est_session_begin env s op csr enc out w = (WOLFCERT_OK, s1, w1) \<and> \<not> es_in_active s \<and> est_call_check op csr enc out = WOLFCERT_OK \<and>
         (op = EST_OP_SIMPLE_REENROLL \<longrightarrow> es_has_client_identity s)"
      "es_http s = Some os" "http_session_call (ce_session env os) (os_session os) (es_in_req s1) EST_RESP nb w1 = (rc1, hs, w2)"
      "sess_inv hs" "hs_resp hs = (if rc_want rc1 then Some EST_RESP else None)" "rc_want rc1 \<Longrightarrow> nb \<and> \<not> hs_closed hs"
      "if rc_want rc1 then rc = rc1 \<and> res' = est_call_clear (Some s) out has_res res \<and> w' = w2 \<and>
         r = Some (s1\<lparr>es_http := Some (os\<lparr>os_session := hs\<rparr>), es_in_resp := hs_out hs\<rparr>)
       else r = Some (est_session_reset (s1\<lparr>es_http := Some (os\<lparr>os_session := hs\<rparr>)\<rparr>)) \<and>
         (if rc1 = WOLFCERT_OK then est_finish env (hs_out hs) op enc has_res (est_call_clear (Some s) out has_res res) w2 = (rc, res', w')
          else rc = rc1 \<and> res' = est_call_clear (Some s) out has_res res \<and> w' = w2)"
proof -
  let ?res = "est_call_clear (Some s) out has_res res"
  obtain os where os: "es_http s = Some os" "sess_inv (os_session os)"
    "if es_in_active s then hs_resp (os_session os) = Some EST_RESP \<and> \<not> hs_closed (os_session os) else hs_resp (os_session os) = None"
    using inv by (auto simp: est_inv_def)
  define rc0 where "rc0 = (if est_call_check op csr enc out = WOLFCERT_OK \<and> op = EST_OP_SIMPLE_REENROLL \<and> \<not> es_has_client_identity s
    then WOLFCERT_ERR_BAD_ARG else est_call_check op csr enc out)"
  obtain rcb s1 w1 where b: "(if es_in_active s then (est_session_resume_check s op enc out, s, w)
     else if rc0 = WOLFCERT_OK then est_session_begin env s op csr enc out w else (rc0, s, w)) = (rcb, s1, w1)"
    by (rule prod_cases3)
  note def = c [unfolded est_session_call_def Let_def option.case, folded rc0_def, unfolded b prod.case]
  have codes: "\<not> rc_want rc0" "\<not> rc_want (est_session_resume_check s op enc out)"
    by (auto simp: rc0_def est_call_check_def est_session_resume_check_def)
  show thesis
  proof (cases "es_in_active s \<and> \<not> nb \<or> rcb \<noteq> WOLFCERT_OK")
    case True
    then show thesis
    proof (cases "\<not> es_in_active s \<and> rc0 = WOLFCERT_OK")
      case bg: True
      then have g: "est_session_begin env s op csr enc out w = (rcb, s1, w1)" using b by simp
      have rcb: "rcb \<noteq> WOLFCERT_OK" using True bg by blast
      have "es_in_body s = []" using inv bg by (simp add: est_inv_def)
      then have "s1 = est_session_reset s" using est_session_begin_inv [OF g] rcb by simp
      then show thesis using no_request def bg rcb est_session_begin_want [OF g] by auto
    next
      case False
      then have "s1 = s" "w1 = w" "\<not> rc_want rcb" using b codes by (auto split: if_splits)
      then show thesis using refused def True by (auto split: if_splits)
    qed
  next
    case False
    then have go: "rcb = WOLFCERT_OK" "\<not> (es_in_active s \<and> \<not> nb)" by auto
    have how: "s1 = s \<and> w1 = w \<and> es_in_active s \<and> nb \<and> est_session_resume_check s op enc out = WOLFCERT_OK \<or>
       est_session_begin env s op csr enc out w = (WOLFCERT_OK, s1, w1) \<and> \<not> es_in_active s \<and> est_call_check op csr enc out = WOLFCERT_OK \<and>
         (op = EST_OP_SIMPLE_REENROLL \<longrightarrow> es_has_client_identity s)"
      using b go by (auto simp: rc0_def split: if_splits)
    have s1: "es_http s1 = Some os" "rq_url (es_in_req s1) \<noteq> None" "rq_method (es_in_req s1) \<noteq> None"
    proof -
      have "es_http s1 = Some os \<and> rq_url (es_in_req s1) \<noteq> None \<and> rq_method (es_in_req s1) \<noteq> None"
        using how
      proof (elim disjE conjE)
        assume a: "est_session_begin env s op csr enc out w = (WOLFCERT_OK, s1, w1)" "\<not> es_in_active s"
        have "es_in_body s = []" using inv a by (simp add: est_inv_def)
        then show ?thesis using est_session_begin_inv [OF a(1)] os(1) by auto
      qed (use inv os(1) in \<open>auto simp: est_inv_def\<close>)
      then show "es_http s1 = Some os" "rq_url (es_in_req s1) \<noteq> None" "rq_method (es_in_req s1) \<noteq> None" by simp_all
    qed
    obtain rc1 s2 w2 where h: "est_http_call env s1 nb w1 = (rc1, s2, w2)" by (rule prod_cases3)
    have "hs_resp (os_session os) = None \<or> hs_resp (os_session os) = Some EST_RESP \<and> nb \<and> \<not> hs_closed (os_session os)"
      using os(3) go(2) by (auto split: if_splits)
    then obtain hs where hs: "s2 = s1\<lparr>es_http := Some (os\<lparr>os_session := hs\<rparr>), es_in_resp := hs_out hs\<rparr>" "sess_inv hs"
      "http_session_call (ce_session env os) (os_session os) (es_in_req s1) EST_RESP nb w1 = (rc1, hs, w2)"
      "hs_resp hs = (if rc_want rc1 then Some EST_RESP else None)" "rc_want rc1 \<longrightarrow> nb \<and> \<not> hs_closed hs"
      using est_http_call_inv [OF h ok s1(1) os(2) _ s1(2,3)] by blast
    have reset: "est_session_reset s2 = est_session_reset (s1\<lparr>es_http := Some (os\<lparr>os_session := hs\<rparr>)\<rparr>)"
      "est_session_reset (est_session_free_request s2) = est_session_reset (s1\<lparr>es_http := Some (os\<lparr>os_session := hs\<rparr>)\<rparr>)"
      by (simp_all add: hs(1) est_session_reset_def est_session_free_request_def)
    have resp: "es_in_resp s2 = hs_out hs" by (simp add: hs(1))
    note def2 = def [unfolded if_not_P [OF go(2)], unfolded go(1) h prod.case resp reset]
    have "if rc_want rc1 then rc = rc1 \<and> res' = ?res \<and> w' = w2 \<and> r = Some s2
       else r = Some (est_session_reset (s1\<lparr>es_http := Some (os\<lparr>os_session := hs\<rparr>)\<rparr>)) \<and>
         (if rc1 = WOLFCERT_OK then est_finish env (hs_out hs) op enc has_res ?res w2 = (rc, res', w')
          else rc = rc1 \<and> res' = ?res \<and> w' = w2)"
    proof (cases "rc_want rc1")
      case True
      then have "nb \<and> (rc1 = WOLFCERT_ERR_WANT_READ \<or> rc1 = WOLFCERT_ERR_WANT_WRITE)" using hs(5) by (simp add: rc_want_def)
      then show ?thesis using def2 True by simp
    next
      case False
      then have "\<not> (nb \<and> (rc1 = WOLFCERT_ERR_WANT_READ \<or> rc1 = WOLFCERT_ERR_WANT_WRITE))" by (simp add: rc_want_def)
      then show ?thesis using def2 False by (simp split: if_splits prod.splits)
    qed
    then show thesis using made [OF how os(1) hs(3,2,4)] hs(1,5) by blast
  qed
qed

text \<open>Every call keeps the invariant.\<close>

lemma est_session_call_inv:
  assumes c: "est_session_call env (Some s) op csr enc out has_res res nb w = (rc, res', r, w')"
    and ok: "ssl_ok (ce_http env)" and inv: "est_inv s"
  shows "\<exists>s'. r = Some s' \<and> est_inv s' \<and> (rc_want rc \<and> nb \<longrightarrow> es_in_active s')"
proof -
  have reset: "est_inv (est_session_reset t)" if "es_http t = Some os" "sess_inv (os_session os)" "hs_resp (os_session os) = None" for t os
    using that by (auto simp: est_inv_def)
  from c ok inv show ?thesis
  proof (cases rule: est_session_call_cases)
    case refused
    then show ?thesis using inv by simp
  next
    case no_request
    then show ?thesis using inv reset [of s] by (auto simp: est_inv_def)
  next
    case (made s1 w1 os hs w2 rc1)
    have s1: "es_in_active s1 \<and> (\<exists>url. es_in_url s1 = Some url \<and> es_in_req s1 = est_request s1 (es_in_op s1) url (es_in_body s1))"
      using made(1)
    proof (elim disjE conjE)
      assume a: "est_session_begin env s op csr enc out w = (WOLFCERT_OK, s1, w1)" "\<not> es_in_active s"
      have "es_in_body s = []" using inv a by (simp add: est_inv_def)
      then show ?thesis using est_session_begin_inv [OF a(1)] by auto
    qed (use inv in \<open>auto simp: est_inv_def\<close>)
    show ?thesis
    proof (cases "rc_want rc1")
      case True
      then show ?thesis using made s1 by (auto simp: est_inv_def)
    next
      case False
      then have "r = Some (est_session_reset (s1\<lparr>es_http := Some (os\<lparr>os_session := hs\<rparr>)\<rparr>))" "\<not> rc_want rc"
        using made(7) est_finish_outcome(1) [of env "hs_out hs" op enc has_res "est_call_clear (Some s) out has_res res" w2 rc res' w']
        by (simp_all split: if_splits)
      then show ?thesis using made(4,5) False reset [of "s1\<lparr>es_http := Some (os\<lparr>os_session := hs\<rparr>)\<rparr>"] by simp
    qed
  qed
qed

text \<open>The states of an EST session from its opening on, under any sequence of calls.\<close>

inductive est_reachable :: "'w client_env \<Rightarrow> 'w WolfCertServerCfg \<Rightarrow> 'w WolfCertEstSession \<Rightarrow> bool" for env srv where
  opened: "wolfcert_est_session_open env (Some srv) w = (Inr s, w') \<Longrightarrow> est_reachable env srv s"
| called: "est_reachable env srv s \<Longrightarrow> est_session_call env (Some s) op csr enc out has_res res nb w = (rc, res', Some s', w') \<Longrightarrow>
    est_reachable env srv s'"
| last_use: "est_reachable env srv s \<Longrightarrow> est_reachable env srv (est_set_close s)"

text \<open>What an open session is like.\<close>

lemma est_session_open_ok:
  assumes "wolfcert_est_session_open env srv w = (Inr s, w')"
  obtains cfg url u mem mem2 w1 w2 os where "srv = Some cfg" "sv_server_url cfg = Some url" "sv_protocol cfg = WOLFCERT_PROTO_EST"
    "ce_alloc env w = (mem, w1)" "wolfcert_http_url_parse mem (Some url) = Ok u" "url_tls u" "sv_verify_server cfg"
    "ce_alloc env w1 = (mem2, w2)"
    "wolfcert_http_session_open (ce_http env) (ce_tls env) (ce_builtin env) (est_http_cfg cfg url) w2 = (Inr os, w')"
    "s = (est_new_session cfg url)\<lparr>es_http := Some os\<rparr>"
  using assms unfolding wolfcert_est_session_open_def Let_def
  by (auto simp: wolfcert_cfg_require_proto_def simp del: not_None_eq split: option.splits if_splits prod.splits sum.splits)

lemma est_session_open_inv:
  assumes "wolfcert_est_session_open env (Some srv) w = (Inr s, w')" "sv_max_response_bytes srv + WOLFCERT_HTTP_HEADER_BUDGET < 2 ^ 64"
  shows "est_inv s"
  using assms(1)
proof (cases rule: est_session_open_ok)
  case (1 cfg url u mem mem2 w1 w2 os)
  then show ?thesis using session_open_inv [OF 1(9)] assms(2)
    by (simp add: est_inv_def est_new_session_def est_http_cfg_def)
qed

lemma est_set_close_inv: "est_inv s \<Longrightarrow> est_inv (est_set_close s)"
proof -
  have "sess_inv (wolfcert_http_session_set_close hs) = sess_inv hs" for hs
  proof -
    have "in_flight_ok (wolfcert_http_session_set_close hs) = in_flight_ok hs"
      by (cases "hs_state hs") (simp_all add: in_flight_ok_def scan_ok_def wolfcert_http_session_set_close_def)
    then show ?thesis by (simp add: sess_inv_def wolfcert_http_session_set_close_def)
  qed
  moreover assume "est_inv s"
  ultimately show "est_inv (est_set_close s)"
    by (auto simp: est_inv_def est_set_close_def) (auto simp: wolfcert_http_session_set_close_def split: if_splits)
qed

lemma est_reachable_inv:
  assumes "ssl_ok (ce_http env)" "sv_max_response_bytes srv + WOLFCERT_HTTP_HEADER_BUDGET < 2 ^ 64" "est_reachable env srv s"
  shows "est_inv s"
  using assms(3)
proof (induction rule: est_reachable.induct)
  case (opened w s w')
  show ?case by (rule est_session_open_inv [OF opened assms(2)])
next
  case (called s op csr enc out has_res res nb w rc res' s' w')
  then show ?case using est_session_call_inv [OF _ assms(1)] by blast
next
  case (last_use s)
  then show ?case by (simp add: est_set_close_inv)
qed

section \<open>A scripted server\<close>

text \<open>A server that makes the client wait once and then answers with the certs-only message of one certificate.\<close>

definition script_est_peer :: script where
  "script_est_peer =
     ([[], lit ''HTTP/1.1 200'' @ CRLF @ lit ''Content-Length: 6'' @ CRLF @ CRLF, 2 # packs [[0x30, 5]]], [], [])"

lemma script_est_open: "\<exists>s. wolfcert_est_session_open script_client (Some script_srv) script_est_peer = (Inr s, script_est_peer) \<and> \<not> es_in_active s"
proof -
  have "case wolfcert_est_session_open script_client (Some script_srv) script_est_peer of
      (Inl rc, w) \<Rightarrow> False | (Inr s, w) \<Rightarrow> w = script_est_peer \<and> \<not> es_in_active s" by code_simp
  then show ?thesis by (auto split: prod.splits sum.splits)
qed

text \<open>The same server, ready at once.\<close>

definition script_ready_peer :: script where
  "script_ready_peer = ([lit ''HTTP/1.1 200'' @ CRLF @ lit ''Content-Length: 6'' @ CRLF @ CRLF @ (2 # packs [[0x30, 5]])], [], [])"

lemma script_ready_open:
  "\<exists>s. wolfcert_est_session_open script_client (Some script_srv) script_ready_peer = (Inr s, script_ready_peer) \<and> \<not> es_in_active s"
proof -
  have "case wolfcert_est_session_open script_client (Some script_srv) script_ready_peer of
      (Inl rc, w) \<Rightarrow> False | (Inr s, w) \<Rightarrow> w = script_ready_peer \<and> \<not> es_in_active s" by code_simp
  then show ?thesis by (auto split: prod.splits sum.splits)
qed

section \<open>Properties\<close>

text \<open>
  C12. An EST session has one request at a time, and both its layers agree on it: in every state that
  can occur, after any sequence of blocking and non-blocking calls with any arguments, a request is in
  flight in the EST session exactly when it is in its HTTP session, under the session's own response
  object and with the request of the operation in flight; without one, no URL, body or credentials of
  an earlier request are held. A call that asks to be continued leaves one in flight.
\<close>

theorem est_one_request:
  assumes "ssl_ok (ce_http env)" "sv_max_response_bytes srv + WOLFCERT_HTTP_HEADER_BUDGET < 2 ^ 64" "est_reachable env srv s"
  shows "(\<exists>os. es_http s = Some os \<and> hs_resp (os_session os) = (if es_in_active s then Some EST_RESP else None) \<and>
       (es_in_active s \<longrightarrow> \<not> hs_closed (os_session os))) \<and>
    (if es_in_active s then \<exists>url. es_in_req s = est_request s (es_in_op s) url (es_in_body s)
     else es_in_url s = None \<and> es_in_body s = [] \<and> es_in_req s = zero_request) \<and>
    (\<forall>op csr enc out has_res res w. case est_session_call env (Some s) op csr enc out has_res res True w of (rc, res', r, w') \<Rightarrow>
       rc = WOLFCERT_ERR_WANT_READ \<or> rc = WOLFCERT_ERR_WANT_WRITE \<longrightarrow> (\<exists>s'. r = Some s' \<and> es_in_active s'))"
proof -
  have inv: "est_inv s" by (rule est_reachable_inv [OF assms])
  have "case est_session_call env (Some s) op csr enc out has_res res True w of (rc, res', r, w') \<Rightarrow>
      rc = WOLFCERT_ERR_WANT_READ \<or> rc = WOLFCERT_ERR_WANT_WRITE \<longrightarrow> (\<exists>s'. r = Some s' \<and> es_in_active s')" for op csr enc out has_res res w
    using est_session_call_inv [OF _ assms(1) inv, of op csr enc out has_res res True w] by (fastforce simp: rc_want_def split: prod.splits)
  then show ?thesis using inv by (auto simp: est_inv_def split: if_splits)
qed

theorem est_one_request_witness:
  "\<exists>s os. wolfcert_est_session_open script_client (Some script_srv) script_est_peer = (Inr s, script_est_peer) \<and>
     es_http s = Some os \<and> hs_resp (os_session os) = None"
proof -
  obtain s where s: "wolfcert_est_session_open script_client (Some script_srv) script_est_peer = (Inr s, script_est_peer)" "\<not> es_in_active s"
    using script_est_open by blast
  then show ?thesis using est_one_request [OF script_client_ok(1,3) est_reachable.opened [OF s(1)]] by auto
qed

section \<open>Opening a session\<close>

text \<open>The allocator decides whether a URL is parsed, not what it is parsed to.\<close>

lemma url_parse_mem:
  assumes "wolfcert_http_url_parse mem url = Ok u"
  shows "wolfcert_http_url_parse (\<lambda>_. True) url = Ok u"
proof -
  have s: "url_take_scheme mem x = Ok y \<Longrightarrow> url_take_scheme (\<lambda>_. True) x = Ok y" for x y
    by (auto simp: url_take_scheme_def split: option.splits if_splits)
  have h: "url_take_host mem x = Ok y \<Longrightarrow> url_take_host (\<lambda>_. True) x = Ok y" for x y
    by (auto simp: url_take_host_def Let_def split: option.splits if_splits)
  have t: "url_take_path mem x = Ok y \<Longrightarrow> url_take_path (\<lambda>_. True) x = Ok y" for x y
    by (auto simp: url_take_path_def Let_def split: if_splits)
  obtain x where x: "url = Some x" using assms by (cases url) (auto simp: wolfcert_http_url_parse_def)
  obtain scheme tls port s1 where 1: "url_take_scheme mem x = Ok (scheme, tls, port, s1)"
    using assms x by (auto simp: wolfcert_http_url_parse_def split: sum.splits)
  obtain host s2 where 2: "url_take_host mem s1 = Ok (host, s2)"
    using assms x 1 by (auto simp: wolfcert_http_url_parse_def split: sum.splits)
  obtain port' s3 where 3: "url_take_port port s2 = Ok (port', s3)"
    using assms x 1 2 by (auto simp: wolfcert_http_url_parse_def split: sum.splits)
  obtain path where 4: "url_take_path mem s3 = Ok path"
    using assms x 1 2 3 by (auto simp: wolfcert_http_url_parse_def split: sum.splits)
  show ?thesis using assms x 1 2 3 4 s [OF 1] h [OF 2] t [OF 4] by (simp add: wolfcert_http_url_parse_def)
qed

lemma http_session_open_tls:
  assumes "wolfcert_http_session_open env lib builtin cfg w = (Inr os, w')"
  shows "\<exists>u. wolfcert_http_url_parse (\<lambda>_. True) (hc_base_url cfg) = Ok u \<and>
    (url_tls u \<longrightarrow> hs_ssl (os_session os) \<and> (\<exists>t. os_tls os = Some t \<and> setup_tls_ex lib (hc_dials cfg) (Some (url_host u)) = Ok t)) \<and>
    (builtin = None \<longrightarrow> os_transport os = hc_transport cfg)"
proof -
  obtain mem w1 where a1: "e_alloc env w = (mem, w1)" by (rule prod.exhaust)
  obtain mem2 w2 where a2: "e_alloc env w1 = (mem2, w2)" by (rule prod.exhaust)
  have base: "hc_base_url cfg \<noteq> None" "mem 0" using assms a1 by (auto simp: wolfcert_http_session_open_def split: if_splits)
  obtain u where u: "wolfcert_http_url_parse mem2 (hc_base_url cfg) = Ok u"
    using assms a1 a2 base
    by (cases "wolfcert_http_url_parse mem2 (hc_base_url cfg)") (simp_all add: wolfcert_http_session_open_def)
  obtain d w3 where d: "dial builtin (hc_transport cfg) (url_host u) (url_port u) (hc_timeout_ms cfg) w2 = (d, w3)" by (rule prod.exhaust)
  obtain t where t: "d = Inr t"
    using assms a1 a2 base u d by (cases d) (simp_all add: wolfcert_http_session_open_def Let_def)
  have "builtin = None \<longrightarrow> t = hc_transport cfg"
    using d t by (auto simp: dial_def Let_def split: if_splits option.splits prod.splits)
  then show ?thesis
    using assms a1 a2 base u d t url_parse_mem [OF u]
    by (cases "setup_tls_ex lib (hc_dials cfg) (Some (url_host u))")
      (auto simp: wolfcert_http_session_open_def Let_def split: if_splits)
qed

lemma setup_tls_authenticates:
  assumes "setup_tls_ex lib dials (Some h) = Ok t" "td_verify_server dials"
  shows "ts_verify_peer t \<and> ts_name_check t \<in> {Check_Ip h, Check_Domain h} \<and>
    (\<forall>c k. td_client_cert dials = Some c \<and> td_client_key dials = Some k \<longrightarrow> ts_identity t = Some (c, k))"
  using assms
  by (auto simp: setup_tls_ex_def load_identity_def peer_name_check_def split: if_splits sum.splits)



section \<open>The outcome of an enrolment\<close>

text \<open>
  C11. The outcome of an enrolment is what \<open>wolfcert/est.h\<close> promises: for a session in any state that can
  occur and a call that does not ask to be continued, the status, the return code and the certificate go
  together. Success returns OK and a certificate; pending returns OK, no certificate and the delay; failure
  returns an authentication or HTTP error; unset returns an error, and none of the last three leaves a
  certificate. A call that goes on with a request must pass its result as the first call left it.
\<close>

theorem est_enroll_outcome:
  assumes "ssl_ok (ce_http env)" "sv_max_response_bytes srv + WOLFCERT_HTTP_HEADER_BUDGET < 2 ^ 64" "est_reachable env srv s"
    and "est_is_enroll op" "est_session_call env (Some s) op csr enc (Some out) True res nb w = (rc, res', r, w')"
    and "es_in_active s \<and> es_in_out s = Some out \<longrightarrow> res = zero_result" "rc \<noteq> WOLFCERT_ERR_WANT_READ" "rc \<noteq> WOLFCERT_ERR_WANT_WRITE"
  shows "case er_status res' of
      WOLFCERT_EST_STATUS_UNSET \<Rightarrow> rc \<noteq> WOLFCERT_OK \<and> er_cert_pem res' = [] \<and> er_retry_after_sec res' = 0
    | WOLFCERT_EST_STATUS_SUCCESS \<Rightarrow> rc = WOLFCERT_OK \<and> er_cert_pem res' \<noteq> [] \<and> er_retry_after_sec res' = 0
    | WOLFCERT_EST_STATUS_FAILURE \<Rightarrow> rc \<in> {WOLFCERT_ERR_AUTH, WOLFCERT_ERR_HTTP} \<and> er_cert_pem res' = [] \<and> er_retry_after_sec res' = 0
    | WOLFCERT_EST_STATUS_PENDING \<Rightarrow> rc = WOLFCERT_OK \<and> er_cert_pem res' = []"
proof -
  have z: "est_call_clear (Some s) (Some out) True res = zero_result" using assms(6) by (auto simp: est_call_clear_def)
  have u: "e \<noteq> WOLFCERT_OK \<Longrightarrow> est_outcome e zero_result" for e by (simp add: est_outcome_def zero_result_def)
  from assms(5,1) est_reachable_inv [OF assms(1-3)] have "est_outcome rc res'"
  proof (cases rule: est_session_call_cases)
    case refused
    then show ?thesis using u z by simp
  next
    case no_request
    then show ?thesis using u z by simp
  next
    case (made s1 w1 os hs w2 rc1)
    have "\<not> rc_want rc1" using made(7) assms(7,8) by (auto simp: rc_want_def split: if_splits)
    then show ?thesis using made(7) z u est_finish_outcome(2) [OF _ _ assms(4)] by (cases "rc1 = WOLFCERT_OK") auto
  qed
  then show ?thesis unfolding est_outcome_def .
qed

text \<open>The scripted server, asked once.\<close>

lemma script_ready_run:
  "\<exists>s res r w'. wolfcert_est_session_open script_client (Some script_srv) script_ready_peer = (Inr s, script_ready_peer) \<and> \<not> es_in_active s \<and>
     wolfcert_est_session_simple_enroll script_client (Some s) (Some [7]) (Some 3) zero_result script_ready_peer = (WOLFCERT_OK, res, r, w') \<and>
     er_status res = WOLFCERT_EST_STATUS_SUCCESS"
proof -
  obtain s where s: "wolfcert_est_session_open script_client (Some script_srv) script_ready_peer = (Inr s, script_ready_peer)"
    "\<not> es_in_active s" using script_ready_open by blast
  obtain rc res r w' where c: "wolfcert_est_session_simple_enroll script_client (Some s) (Some [7]) (Some 3) zero_result script_ready_peer = (rc, res, r, w')"
    by (metis surj_pair)
  have "case fst (wolfcert_est_session_open script_client (Some script_srv) script_ready_peer) of Inl rc \<Rightarrow> False | Inr s \<Rightarrow>
     (case wolfcert_est_session_simple_enroll script_client (Some s) (Some [7]) (Some 3) zero_result script_ready_peer of (rc, res, r, w') \<Rightarrow>
        rc = WOLFCERT_OK \<and> er_status res = WOLFCERT_EST_STATUS_SUCCESS)" by code_simp
  then have "rc = WOLFCERT_OK" "er_status res = WOLFCERT_EST_STATUS_SUCCESS" by (simp_all add: s c)
  then show ?thesis using s c by blast
qed

theorem est_enroll_outcome_witness:
  "\<exists>s res r w'. wolfcert_est_session_simple_enroll script_client (Some s) (Some [7]) (Some 3) zero_result script_ready_peer = (WOLFCERT_OK, res, r, w') \<and>
     er_cert_pem res \<noteq> []"
proof -
  obtain s res r w' where run: "wolfcert_est_session_open script_client (Some script_srv) script_ready_peer = (Inr s, script_ready_peer)"
    "wolfcert_est_session_simple_enroll script_client (Some s) (Some [7]) (Some 3) zero_result script_ready_peer = (WOLFCERT_OK, res, r, w')"
    "er_status res = WOLFCERT_EST_STATUS_SUCCESS" using script_ready_run by blast
  note c = run(2) [unfolded wolfcert_est_session_simple_enroll_def, simplified]
  have "er_cert_pem res \<noteq> []"
    using est_enroll_outcome [OF script_client_ok(1,3) est_reachable.opened [OF run(1)] _ c] run(3) by (simp add: est_is_enroll_def)
  then show ?thesis using run(2) by blast
qed

section \<open>An enrolment on the wire\<close>

text \<open>The CMS functions use memory and objects of the library, not the connection.\<close>

definition cms_quiet :: "'w wolf_cms \<Rightarrow> ('w \<Rightarrow> 'a) \<Rightarrow> bool" where
  "cms_quiet cms f \<longleftrightarrow>
     (\<forall>w. f (snd (cm_malloc cms w)) = f w) \<and> (\<forall>w. f (snd (cm_New cms w)) = f w) \<and> (\<forall>w. f (cm_Free cms w) = f w) \<and>
     (\<forall>b d w. f (snd (cm_VerifySignedData cms b d w)) = f w)"

lemma certs_extract_quiet:
  assumes "cms_quiet cms f" "pkcs7_certs_extract cms p der w = (r, w')"
  shows "f w' = f w"
proof -
  have q: "cm_malloc cms v = (g, v') \<Longrightarrow> f v' = f v" "cm_New cms v = (g, v') \<Longrightarrow> f v' = f v" "f (cm_Free cms v) = f v"
    "cm_VerifySignedData cms b d v = (x, v') \<Longrightarrow> f v' = f v" for v g v' b d x
    using assms(1) unfolding cms_quiet_def by (metis snd_conv)+
  have a: "append_cert cms p acc d v = (x, v') \<Longrightarrow> f v' = f v" for acc d v x v'
    by (auto simp: append_cert_def acc_append_def dest!: q(1) split: prod.splits if_splits)
  have c: "append_certs cms p ds acc v = (x, v') \<Longrightarrow> f v' = f v" for ds acc v x v'
    by (induction ds arbitrary: acc v) (auto dest!: a split: prod.splits if_splits sum.splits)
  show ?thesis using assms(2)
    by (auto simp: pkcs7_certs_extract_def q(3) dest!: q(1,2,4) c split: prod.splits if_splits sum.splits)
qed

text \<open>
  C10. A successful enrolment is the one on the wire: when a blocking \<open>wolfcert_est_session_simple_enroll\<close> on an
  idle session reports success, the peer was sent exactly one POST to the session's URL with
  \<open>simpleenroll\<close> appended, with the base64 of the caller's request as its body; it answered, after at most
  interim blocks, with status 200, and the certificates handed to the caller are those of the certs-only
  message whose base64 is the body of that answer.
\<close>

theorem est_enroll_on_wire:
  assumes "ssl_ok (ce_http env)" "allocs (ce_http env)" "est_inv s" "\<not> es_in_active s" "es_http s = Some os"
    and "transcript (ce_session env os) snt rcv" "cms_quiet (ce_cms env) snt" "cms_quiet (ce_cms env) rcv"
    and "wolfcert_est_session_simple_enroll env (Some s) (Some csr) (Some out) res w = (rc, res', r, w')"
    and "er_status res' = WOLFCERT_EST_STATUS_SUCCESS"
  shows "\<exists>url u auth body bs h wire rest reply p7 v v'.
    join_path (\<lambda>k. True) (es_base_url s) (lit ''simpleenroll'') = Some url \<and> wolfcert_http_url_parse (\<lambda>k. True) (Some url) = Ok u \<and>
    basic_auth_header (e_b64 (ce_http env)) (\<lambda>k. True) (es_basic_user s) (es_basic_pass s) WOLFCERT_HTTP_AUTH_BUF_SZ = Ok auth \<and>
    wolfcert_base64_encode_mime (ce_codes env) (ce_b64_mime env) (\<lambda>k. True) (Some csr) = Ok body \<and>
    snt w' = snt w @ head_text (hs_keep_alive (os_session os)) (est_request s EST_OP_SIMPLE_ENROLL url body) u auth @ body \<and>
    rcv w' = rcv w @ concat bs @ h @ wire @ rest \<and> list_all interim_block bs \<and> http_message False h 200 wire reply \<and>
    wolfcert_base64_decode (ce_codes env) (ce_b64_dec env) (\<lambda>k. True) (Some reply) = Ok p7 \<and>
    wolfcert_pkcs7_certs_to_pem (ce_cms env) p7 v = (Ok (er_cert_pem res'), v')"
proof -
  note al = assms(2) [unfolded allocs_def, rule_format]
  have tr: "ce_alloc env v = (m, v') \<Longrightarrow> snt v' = snt v \<and> rcv v' = rcv v" for v m v'
    using assms(6) by (simp add: transcript_def with_transport_def)
  have z: "est_call_clear (Some s) (Some out) True res = zero_result" using assms(4) by (simp add: est_call_clear_def)
  have c: "est_session_call env (Some s) EST_OP_SIMPLE_ENROLL (Some csr) WOLFCERT_ENCODING_PEM (Some out) True res False w = (rc, res', r, w')"
    using assms(9) by (simp add: wolfcert_est_session_simple_enroll_def)
  from c assms(1,3) show ?thesis
  proof (cases rule: est_session_call_cases)
    case (made s1 w1 os' hs w2 rc1)
    have bg: "est_session_begin env s EST_OP_SIMPLE_ENROLL (Some csr) WOLFCERT_ENCODING_PEM (Some out) w = (WOLFCERT_OK, s1, w1)"
      and os': "os' = os" using made(1,2) assms(4,5) by auto
    have ok: "rc1 = WOLFCERT_OK" and f: "est_finish env (hs_out hs) EST_OP_SIMPLE_ENROLL WOLFCERT_ENCODING_PEM True zero_result w2 = (rc, res', w')"
      using made(6,7) assms(10) z by (auto simp: zero_result_def split: if_splits)
    obtain url body where s1: "es_in_req s1 = est_request s EST_OP_SIMPLE_ENROLL url body"
      "join_path (\<lambda>k. True) (es_base_url s) (lit ''simpleenroll'') = Some url"
      "wolfcert_base64_encode_mime (ce_codes env) (ce_b64_mime env) (\<lambda>k. True) (Some csr) = Ok body" "snt w1 = snt w" "rcv w1 = rcv w"
    proof -
      obtain m1 v1 where a1: "ce_alloc env w = (m1, v1)" by (rule prod.exhaust)
      obtain m2 v2 where a2: "ce_alloc env v1 = (m2, v2)" by (rule prod.exhaust)
      have m: "m1 = (\<lambda>k. True)" "m2 = (\<lambda>k. True)" using al a1 a2 by blast+
      obtain url where u: "join_path (\<lambda>k. True) (es_base_url s) (lit ''simpleenroll'') = Some url" by (simp add: join_path_def)
      have "wolfcert_base64_encode_mime (ce_codes env) (ce_b64_mime env) m2 (Some csr) \<noteq> Err WOLFCERT_OK"
        by (auto simp: wolfcert_base64_encode_mime_def Let_def split: prod.splits if_splits)
      then obtain body where b: "wolfcert_base64_encode_mime (ce_codes env) (ce_b64_mime env) m2 (Some csr) = Ok body"
        using bg a1 a2 m u
        by (cases "wolfcert_base64_encode_mime (ce_codes env) (ce_b64_mime env) m2 (Some csr)")
          (auto simp: est_session_begin_def est_is_enroll_def)
      have "w1 = v2" "es_in_req s1 = est_request s EST_OP_SIMPLE_ENROLL url body"
        using bg a1 a2 m u b by (auto simp: est_session_begin_def est_is_enroll_def)
      then show thesis using that u b m tr [OF a1] tr [OF a2] by simp
    qed
    have d: "session_drive False 0 (ce_session env os) (os_session os) (es_in_req s1) EST_RESP w1 = (WOLFCERT_OK, hs, w2)"
      using made(3) ok os' by simp
    have inv: "sess_inv (os_session os)" "hs_resp (os_session os) = None" using assms(3-5) by (auto simp: est_inv_def)
    have ac: "allocs (ce_session env os)" using assms(2) by (simp add: allocs_def with_transport_def)
    obtain hb sd rd where x: "request_head (e_b64 (ce_session env os)) (\<lambda>k. True) (\<lambda>k. True) (hs_keep_alive (os_session os)) (es_in_req s1) hb"
      "moved (ce_session env os) w1 sd rd w2"
      "exchanged hb (rq_body (es_in_req s1)) (rq_method (es_in_req s1) = Some (lit ''HEAD'')) hs sd rd"
      using drive_exchange [OF _ ac inv d] assms(1) by auto
    have b64: "e_b64 (ce_session env os) = e_b64 (ce_http env)" by (simp add: with_transport_def)
    have sr: "snt w2 = snt w @ sd" "rcv w2 = rcv w @ rd" using x(2) [unfolded moved_def, rule_format, OF assms(6)] s1(4,5) by simp_all
    have rq: "rq_basic_user (es_in_req s1) = es_basic_user s" "rq_basic_pass (es_in_req s1) = es_basic_pass s" "rq_body (es_in_req s1) = body"
      "rq_url (es_in_req s1) = Some url" "rq_method (es_in_req s1) \<noteq> Some (lit ''HEAD'')"
      unfolding s1(1) by (simp_all add: est_request_def est_is_enroll_def Let_def)
    from f show ?thesis
    proof (cases rule: est_finish_cases)
      case (success mem der p v)
      have q: "snt w' = snt w2" "rcv w' = rcv w2"
        using success(4,6) tr certs_extract_quiet [OF assms(7)] certs_extract_quiet [OF assms(8)] by (metis est_session_op.distinct(7))+
      have e: "mem = (\<lambda>k. True)" using success(4) al by blast
      have p: "wolfcert_pkcs7_certs_to_pem (ce_cms env) der v = (Ok (er_cert_pem res'), w')"
        using success(3,6) by (simp add: wolfcert_pkcs7_certs_to_pem_def)
      obtain u auth where h: "wolfcert_http_url_parse (\<lambda>k. True) (Some url) = Ok u"
        "basic_auth_header (e_b64 (ce_http env)) (\<lambda>k. True) (es_basic_user s) (es_basic_pass s) WOLFCERT_HTTP_AUTH_BUF_SZ = Ok auth"
        "hb = head_text (hs_keep_alive (os_session os)) (est_request s EST_OP_SIMPLE_ENROLL url body) u auth"
        using x(1) unfolding request_head_def b64 rq s1(1) [symmetric] by blast
      obtain bs hh wire rest where m: "sd = hb @ body" "rd = concat bs @ hh @ wire @ rest" "list_all interim_block bs"
        "http_message False hh 200 wire (rs_body (hs_out hs))"
        using x(3) rq success(1) unfolding exchanged_def by auto
      have "snt w' = snt w @ head_text (hs_keep_alive (os_session os)) (est_request s EST_OP_SIMPLE_ENROLL url body) u auth @ body"
        "rcv w' = rcv w @ concat bs @ hh @ wire @ rest" using m h sr q by simp_all
      then show ?thesis using s1(2,3) h(1,2) m(3,4) success(5) [unfolded e] p by blast
    qed (use assms(10) in \<open>auto simp: zero_result_def\<close>)
  qed (use assms(10) z in \<open>auto simp: zero_result_def\<close>)
qed

lemma script_client_transcript:
  assumes "os_transport os = script_transport"
  shows "transcript (ce_session script_client os) (\<lambda>w. fst (snd w)) (\<lambda>w. snd (snd w))"
  using script_transcript assms
  by (auto simp: transcript_def script_client_def script_tls_env_def with_transport_def script_transport_def script_env_def)

theorem est_enroll_on_wire_witness:
  "\<exists>s res r w' head. wolfcert_est_session_simple_enroll script_client (Some s) (Some [7]) (Some 3) zero_result script_ready_peer = (WOLFCERT_OK, res, r, w') \<and>
     fst (snd w') = head @ [7]"
proof -
  obtain s res r w' where run: "wolfcert_est_session_open script_client (Some script_srv) script_ready_peer = (Inr s, script_ready_peer)"
    "\<not> es_in_active s"
    "wolfcert_est_session_simple_enroll script_client (Some s) (Some [7]) (Some 3) zero_result script_ready_peer = (WOLFCERT_OK, res, r, w')"
    "er_status res = WOLFCERT_EST_STATUS_SUCCESS" using script_ready_run by blast
  have inv: "est_inv s" by (rule est_reachable_inv [OF script_client_ok(1,3) est_reachable.opened [OF run(1)]])
  from run(1) obtain os where os: "es_http s = Some os" "os_transport os = script_transport"
  proof (cases rule: est_session_open_ok)
    case (1 cfg url u mem mem2 w1 w2 os)
    then show thesis using that [of os] http_session_open_tls [OF 1(9)] by (auto simp: script_client_def script_srv_def est_http_cfg_def)
  qed
  have q: "cms_quiet (ce_cms script_client) f" for f :: "script \<Rightarrow> byte list" by (simp add: cms_quiet_def script_client_def plain_cms_def)
  have b: "wolfcert_base64_encode_mime (ce_codes script_client) (ce_b64_mime script_client) (\<lambda>k. True) (Some [7]) = Ok [7]"
    by (simp add: wolfcert_base64_encode_mime_def script_client_def)
  have "\<exists>head. fst (snd w') = fst (snd script_ready_peer) @ head @ [7]"
    using est_enroll_on_wire [OF script_client_ok(1,2) inv run(2) os(1) script_client_transcript [OF os(2)] q q run(3,4)] b by auto
  moreover have "fst (snd script_ready_peer) = []" by (simp add: script_ready_peer_def)
  ultimately show ?thesis using run(3) by (metis append_Nil)
qed

end
