(* ===== verification/Scep_Msg.thy ===== *)
theory Scep_Msg
  imports Cms
begin

text \<open>
  The SCEP messages of \<open>src/scep/scep_msg.c\<close>: signed attributes, enveloping, the PKI message and its
  parser, the issuer structures of the CertPoll and GetCert requests, the check of a reply's signer
  and the choice of the certificate that receives a request. The DER writers and readers of the file
  are in the theory \<open>Der\<close>, the wolfSSL functions are the parameter \<open>wolf_cms\<close>.
\<close>

section \<open>Signed attributes\<close>

definition OID_MSG_TYPE :: "byte list" where
  "OID_MSG_TYPE = [0x06, 0x0A, 0x60, 0x86, 0x48, 0x01, 0x86, 0xF8, 0x45, 0x01, 0x09, 0x02]"

definition OID_PKI_STATUS :: "byte list" where
  "OID_PKI_STATUS = [0x06, 0x0A, 0x60, 0x86, 0x48, 0x01, 0x86, 0xF8, 0x45, 0x01, 0x09, 0x03]"

definition OID_FAIL_INFO :: "byte list" where
  "OID_FAIL_INFO = [0x06, 0x0A, 0x60, 0x86, 0x48, 0x01, 0x86, 0xF8, 0x45, 0x01, 0x09, 0x04]"

definition OID_SENDER_NONCE :: "byte list" where
  "OID_SENDER_NONCE = [0x06, 0x0A, 0x60, 0x86, 0x48, 0x01, 0x86, 0xF8, 0x45, 0x01, 0x09, 0x05]"

definition OID_RECIP_NONCE :: "byte list" where
  "OID_RECIP_NONCE = [0x06, 0x0A, 0x60, 0x86, 0x48, 0x01, 0x86, 0xF8, 0x45, 0x01, 0x09, 0x06]"

definition OID_TRANS_ID :: "byte list" where
  "OID_TRANS_ID = [0x06, 0x0A, 0x60, 0x86, 0x48, 0x01, 0x86, 0xF8, 0x45, 0x01, 0x09, 0x07]"

definition SCEP_NONCE_SZ :: nat where
  "SCEP_NONCE_SZ = 16"

record WolfCertScepAttrs =
  sa_transaction_id :: "byte list option"
  sa_sender_nonce :: "byte list option"
  sa_message_type :: "cstring option"
  sa_pki_status :: "cstring option"
  sa_recipient_nonce :: "byte list option"
  sa_fail_info :: "cstring option"

text \<open>
  Each attribute that is set is encoded behind the ones before it into a scratch buffer of \<open>cap\<close>
  bytes; the second component of the state is the offset.
\<close>

fun put_attribs ::
  "nat \<Rightarrow> (byte list \<times> (nat \<Rightarrow> byte list wc_result) option) list \<Rightarrow> PKCS7Attrib list \<times> nat \<Rightarrow> PKCS7Attrib list wc_result" where
  "put_attribs cap [] (attrs, off) = Ok attrs"
| "put_attribs cap ((oid, None) # rest) (attrs, off) = put_attribs cap rest (attrs, off)"
| "put_attribs cap ((oid, Some enc) # rest) (attrs, off) =
     (case enc (cap - off) of
        Inl rc \<Rightarrow> Err rc
      | Inr v \<Rightarrow> put_attribs cap rest (attrs @ [\<lparr>at_oid = oid, at_value = v\<rparr>], off + length v))"

definition enc_nonce :: "byte list \<Rightarrow> nat \<Rightarrow> byte list wc_result" where
  "enc_nonce v cap = (case enc_octet v cap of None \<Rightarrow> Err WOLFCERT_ERR_MEMORY | Some out \<Rightarrow> Ok out)"

definition build_signed_attribs :: "WolfCertScepAttrs \<Rightarrow> nat \<Rightarrow> PKCS7Attrib list wc_result" where
  "build_signed_attribs a scratch_cap =
     put_attribs scratch_cap
       [(OID_MSG_TYPE, map_option enc_printable (sa_message_type a)),
        (OID_TRANS_ID, map_option enc_printable_n (sa_transaction_id a)),
        (OID_SENDER_NONCE, map_option enc_nonce (sa_sender_nonce a)),
        (OID_RECIP_NONCE, map_option enc_nonce (sa_recipient_nonce a)),
        (OID_PKI_STATUS, map_option enc_printable (sa_pki_status a)),
        (OID_FAIL_INFO, map_option enc_printable (sa_fail_info a))] ([], 0)"

section \<open>Envelopes\<close>

definition WOLFCERT_SCEP_MAX_MSG_SZ :: nat where
  "WOLFCERT_SCEP_MAX_MSG_SZ = 64 * 1024"

definition wolfcert_scep_envelop :: "'w wolf_cms \<Rightarrow> byte list \<Rightarrow> byte list \<Rightarrow> enc_oid \<Rightarrow> 'w \<Rightarrow> byte list wc_result \<times> 'w" where
  "wolfcert_scep_envelop env ra_cert payload enc w =
     (case cm_New env w of (got, w) \<Rightarrow>
      if \<not> got then (Err WOLFCERT_ERR_MEMORY, w)
      else case cm_InitWithCert env ra_cert w of ((rc, pub_oid), w) \<Rightarrow>
      if rc \<noteq> 0 then (Err (cms_err env rc), cm_Free env w)
      else if pub_oid \<noteq> Some RSAk then (Err WOLFCERT_ERR_UNSUPPORTED, cm_Free env w)
      else case cm_InitRng env w of (rc, w) \<Rightarrow>
      if rc \<noteq> 0 then (Err WOLFCERT_ERR_CRYPTO, cm_Free env w)
      else case cm_malloc env w of (got, w) \<Rightarrow>
      if \<not> got then (Err WOLFCERT_ERR_MEMORY, cm_Free env (cm_FreeRng env w))
      else case cm_EncodeEnvelopedData env ra_cert payload enc (length payload + length ra_cert + 4096) w of (r, w) \<Rightarrow>
      (encoded env r, cm_Free env (cm_FreeRng env w)))"

definition wolfcert_scep_deenvelop ::
  "'w wolf_cms \<Rightarrow> byte list \<Rightarrow> byte list \<Rightarrow> byte list \<Rightarrow> 'w \<Rightarrow> byte list wc_result \<times> 'w" where
  "wolfcert_scep_deenvelop env recipient_cert recipient_key envelope w =
     (if length envelope = 0 \<or> length envelope > WOLFCERT_SCEP_MAX_MSG_SZ then (Err WOLFCERT_ERR_BAD_ARG, w)
      else case cm_New env w of (got, w) \<Rightarrow>
      if \<not> got then (Err WOLFCERT_ERR_MEMORY, w)
      else case cm_InitWithCert env recipient_cert w of ((rc, pub_oid), w) \<Rightarrow>
      if rc \<noteq> 0 then (Err (cms_err env rc), cm_Free env w)
      else case cm_malloc env w of (got, w) \<Rightarrow>
      if \<not> got then (Err WOLFCERT_ERR_MEMORY, cm_Free env w)
      else case cm_DecodeEnvelopedData env recipient_cert recipient_key envelope (length envelope + 4096) w of (r, w) \<Rightarrow>
      (encoded env r, cm_Free env w))"

section \<open>The self-signed certificate of a requester\<close>

text \<open>
  What the certificate functions of wolfSSL do beyond parsing; \<open>ss_MakeSelfCert\<close> signs with the RSA key
  the caller holds. The name is either raw, for subject and issuer, or a common name.
\<close>

datatype self_name = Raw_Name "byte list" | Common_Name "byte list"

record 'w self_lib =
  ss_CertNew :: "'w \<Rightarrow> bool \<times> 'w"
  ss_CertFree :: "'w \<Rightarrow> 'w"
  ss_sbjRaw_size :: nat
  ss_CTC_NAME_SIZE :: nat
  ss_SetKeyUsage :: "string \<Rightarrow> 'w \<Rightarrow> int \<times> 'w"
  ss_MakeSelfCert :: "self_name \<Rightarrow> nat \<Rightarrow> nat \<Rightarrow> 'w \<Rightarrow> (int \<times> byte list) \<times> 'w"

definition self_subject :: "'w self_lib \<Rightarrow> DecodedCert \<Rightarrow> self_name" where
  "self_subject ss dc =
     (case dc_subjectRaw dc of
        Some raw \<Rightarrow>
          if length raw > 0 \<and> length raw < ss_sbjRaw_size ss \<and> 0 \<notin> set raw then Raw_Name raw
          else (case dc_subjectCN dc of
                  Some cn \<Rightarrow> if length cn > 0 then Common_Name (take (ss_CTC_NAME_SIZE ss - 1) cn)
                             else Common_Name (take (ss_CTC_NAME_SIZE ss - 1) (lit ''SCEP Enrollee''))
                | None \<Rightarrow> Common_Name (take (ss_CTC_NAME_SIZE ss - 1) (lit ''SCEP Enrollee'')))
      | None \<Rightarrow>
          (case dc_subjectCN dc of
             Some cn \<Rightarrow> if length cn > 0 then Common_Name (take (ss_CTC_NAME_SIZE ss - 1) cn)
                        else Common_Name (take (ss_CTC_NAME_SIZE ss - 1) (lit ''SCEP Enrollee''))
           | None \<Rightarrow> Common_Name (take (ss_CTC_NAME_SIZE ss - 1) (lit ''SCEP Enrollee''))))"

text \<open>The second argument of \<open>ss_MakeSelfCert\<close> is \<open>daysValid\<close>, the third the capacity.\<close>

definition wolfcert_scep_self_signed_rsa ::
  "'w wolf_cms \<Rightarrow> 'w self_lib \<Rightarrow> byte list \<Rightarrow> 'w \<Rightarrow> byte list wc_result \<times> 'w" where
  "wolfcert_scep_self_signed_rsa env ss csr w =
     (if length csr = 0 \<or> length csr > WOLFCERT_SCEP_MAX_MSG_SZ then (Err WOLFCERT_ERR_BAD_ARG, w)
      else case ss_CertNew ss w of (got, w) \<Rightarrow>
      if \<not> got then (Err WOLFCERT_ERR_MEMORY, w)
      else case cm_malloc env w of (got, w) \<Rightarrow>
      if \<not> got then (Err WOLFCERT_ERR_MEMORY, ss_CertFree ss w)
      else case cm_ParseCertReq env csr w of ((rc, dc), w) \<Rightarrow>
      if rc \<noteq> 0 then (Err WOLFCERT_ERR_PARSE, ss_CertFree ss w)
      else case ss_SetKeyUsage ss ''digitalSignature,keyEncipherment'' w of (rc, w) \<Rightarrow>
      if rc \<noteq> 0 then (Err (cms_err env rc), ss_CertFree ss w)
      else case cm_InitRng env w of (rc, w) \<Rightarrow>
      if rc \<noteq> 0 then (Err WOLFCERT_ERR_CRYPTO, ss_CertFree ss w)
      else case cm_malloc env w of (got, w) \<Rightarrow>
      if \<not> got then (Err WOLFCERT_ERR_MEMORY, ss_CertFree ss (cm_FreeRng env w))
      else case ss_MakeSelfCert ss (self_subject ss dc) 2 (length csr + 4096) w of (r, w) \<Rightarrow>
      (encoded env r, ss_CertFree ss (cm_FreeRng env w)))"

section \<open>The PKI message\<close>

definition WOLFCERT_SCEP_PKI_SLACK :: nat where
  "WOLFCERT_SCEP_PKI_SLACK = 8 * 1024"

definition wolfcert_scep_build_pki_message ::
  "'w wolf_cms \<Rightarrow> byte list \<Rightarrow> byte list \<Rightarrow> byte list \<Rightarrow> hash_oid option \<Rightarrow> WolfCertScepAttrs \<Rightarrow> 'w \<Rightarrow> byte list wc_result \<times> 'w" where
  "wolfcert_scep_build_pki_message env envelope signer_cert signer_key hash attrs w =
     (case cm_New env w of (got, w) \<Rightarrow>
      if \<not> got then (Err WOLFCERT_ERR_MEMORY, w)
      else case cm_InitWithCert env signer_cert w of ((rc, pub_oid), w) \<Rightarrow>
      if rc \<noteq> 0 then (Err (cms_err env rc), cm_Free env w)
      else case cm_InitRng env w of (rc, w) \<Rightarrow>
      if rc \<noteq> 0 then (Err WOLFCERT_ERR_CRYPTO, cm_Free env w)
      else let detached = (envelope = []); hash_oid = (case hash of Some h \<Rightarrow> h | None \<Rightarrow> SHA256h) in
      case (if detached then cm_SetDetached env w else (0, w)) of (rc, w) \<Rightarrow>
      if rc \<noteq> 0 then (Err (cms_err env rc), cm_Free env (cm_FreeRng env w))
      else case build_signed_attribs attrs 1024 of
             Inl rc \<Rightarrow> (Err rc, cm_Free env (cm_FreeRng env w))
           | Inr attribs \<Rightarrow>
               (case cm_malloc env w of (got, w) \<Rightarrow>
                if \<not> got then (Err WOLFCERT_ERR_MEMORY, cm_Free env (cm_FreeRng env w))
                else case cm_EncodeSignedData env signer_cert signer_key hash_oid (if detached then None else Some envelope)
                       attribs (length envelope + length signer_cert + WOLFCERT_SCEP_PKI_SLACK) w of (r, w) \<Rightarrow>
                (encoded env r, cm_Free env (cm_FreeRng env w))))"

definition no_attrs :: WolfCertScepAttrs where
  "no_attrs = \<lparr>sa_transaction_id = None, sa_sender_nonce = None, sa_message_type = None, sa_pki_status = None,
     sa_recipient_nonce = None, sa_fail_info = None\<rparr>"

definition wolfcert_scep_build_next_ca_response ::
  "'w wolf_cms \<Rightarrow> byte list \<Rightarrow> byte list \<Rightarrow> byte list \<Rightarrow> 'w \<Rightarrow> byte list wc_result \<times> 'w" where
  "wolfcert_scep_build_next_ca_response env next_ca_cert ca_cert ca_key w =
     (case wolfcert_pkcs7_build_certs_only env [next_ca_cert] w of
        (Inl rc, w) \<Rightarrow> (Err rc, w)
      | (Inr inner, w) \<Rightarrow> wolfcert_scep_build_pki_message env inner ca_cert ca_key (Some SHA256h) no_attrs w)"

subsection \<open>Parsing\<close>

text \<open>The bits of the attributes the parser has seen.\<close>

datatype scep_attr = SCEP_ATTR_MSG_TYPE | SCEP_ATTR_PKI_STATUS | SCEP_ATTR_FAIL_INFO | SCEP_ATTR_TRANS_ID
  | SCEP_ATTR_SENDER_NONCE | SCEP_ATTR_RECIP_NONCE

definition scep_attr_bit :: "PKCS7Attrib \<Rightarrow> scep_attr option" where
  "scep_attr_bit a =
     (if at_oid a = OID_MSG_TYPE then Some SCEP_ATTR_MSG_TYPE
      else if at_oid a = OID_PKI_STATUS then Some SCEP_ATTR_PKI_STATUS
      else if at_oid a = OID_FAIL_INFO then Some SCEP_ATTR_FAIL_INFO
      else if at_oid a = OID_TRANS_ID then Some SCEP_ATTR_TRANS_ID
      else if at_oid a = OID_SENDER_NONCE then Some SCEP_ATTR_SENDER_NONCE
      else if at_oid a = OID_RECIP_NONCE then Some SCEP_ATTR_RECIP_NONCE
      else None)"

text \<open>
  The header of the value, behind that of a SET if there is one: tag, offset and length of the
  content. An absent value has length 0.
\<close>

definition attr_header :: "byte list \<Rightarrow> (byte \<times> nat \<times> nat) option" where
  "attr_header v =
     (if v = [] then Some (0, 0, 0)
      else case der_read_tlv v of
             None \<Rightarrow> None
           | Some (hdr, tag, vlen) \<Rightarrow>
               if hdr > 0 \<and> tag = 0x31 \<and> vlen > 0
               then (case der_read_tlv (take vlen (drop hdr v)) of
                       None \<Rightarrow> None
                     | Some (hdr2, tag2, vlen2) \<Rightarrow> Some (tag2, hdr + hdr2, vlen2))
               else Some (tag, hdr, vlen))"

definition text_attr :: "scep_attr \<Rightarrow> bool" where
  "text_attr ab \<longleftrightarrow> ab = SCEP_ATTR_MSG_TYPE \<or> ab = SCEP_ATTR_PKI_STATUS \<or> ab = SCEP_ATTR_FAIL_INFO"

definition attr_content :: "scep_attr \<Rightarrow> byte list \<Rightarrow> byte list wc_result" where
  "attr_content ab v =
     (case attr_header v of
        None \<Rightarrow> Err WOLFCERT_ERR_PROTOCOL
      | Some (tag, voff, vlen) \<Rightarrow>
          if vlen = 0 then Err WOLFCERT_ERR_PROTOCOL
          else if voff + vlen < length v then Err WOLFCERT_ERR_PROTOCOL
          else if text_attr ab \<and> (tag \<noteq> 0x13 \<or> 0 \<in> set (take vlen (drop voff v))) then Err WOLFCERT_ERR_PROTOCOL
          else Ok (take vlen (drop voff v)))"

text \<open>
  The outputs: a caller passes a pointer for the attributes it wants, \<open>want\<close>, and may want the
  signer's certificate. \<open>pm_attr\<close> holds the values stored.
\<close>

record pki_message =
  pm_envelope :: "byte list"
  pm_attr :: "scep_attr \<Rightarrow> byte list option"
  pm_signer_cert :: "byte list option"

fun parse_attribs ::
  "'w wolf_cms \<Rightarrow> (scep_attr \<Rightarrow> bool) \<Rightarrow> PKCS7Attrib list \<Rightarrow> scep_attr list \<Rightarrow> (scep_attr \<Rightarrow> byte list option) \<Rightarrow>
   'w \<Rightarrow> (scep_attr \<Rightarrow> byte list option) wc_result \<times> 'w" where
  "parse_attribs env want [] seen out w = (Ok out, w)"
| "parse_attribs env want (a # as) seen out w =
     (case scep_attr_bit a of
        None \<Rightarrow> parse_attribs env want as seen out w
      | Some ab \<Rightarrow>
          if ab \<in> set seen then (Err WOLFCERT_ERR_PROTOCOL, w)
          else case attr_content ab (at_value a) of
                 Inl rc \<Rightarrow> (Err rc, w)
               | Inr v \<Rightarrow>
                   if \<not> want ab then parse_attribs env want as (ab # seen) out w
                   else case cm_malloc env w of (got, w) \<Rightarrow>
                          if \<not> got then (Err WOLFCERT_ERR_MEMORY, w)
                          else parse_attribs env want as (ab # seen) (out(ab := Some v)) w)"

definition parse_signer :: "'w wolf_cms \<Rightarrow> bool \<Rightarrow> byte list \<Rightarrow> 'w \<Rightarrow> byte list option wc_result \<times> 'w" where
  "parse_signer env want_signer verify_cert w =
     (if \<not> want_signer \<or> verify_cert = [] then (Ok None, w)
      else case cm_malloc env w of (got, w) \<Rightarrow>
             if got then (Ok (Some verify_cert), w) else (Err WOLFCERT_ERR_MEMORY, w))"

definition wolfcert_scep_parse_pki_message ::
  "'w wolf_cms \<Rightarrow> (scep_attr \<Rightarrow> bool) \<Rightarrow> bool \<Rightarrow> byte list \<Rightarrow> 'w \<Rightarrow> pki_message wc_result \<times> 'w" where
  "wolfcert_scep_parse_pki_message env want want_signer pki_der w =
     (case cm_New env w of (got, w) \<Rightarrow>
      if \<not> got then (Err WOLFCERT_ERR_MEMORY, w)
      else case cm_VerifySignedData env False pki_der w of ((rc, sd), w) \<Rightarrow>
      if rc \<noteq> 0 then (Err (cms_err env rc), cm_Free env w)
      else case (if sd_content sd \<noteq> [] then cm_malloc env w else (True, w)) of (got, w) \<Rightarrow>
      if \<not> got then (Err WOLFCERT_ERR_MEMORY, cm_Free env w)
      else case parse_signer env want_signer (sd_verifyCert sd) w of
             (Inl rc, w) \<Rightarrow> (Err rc, cm_Free env w)
           | (Inr signer, w) \<Rightarrow>
               (case parse_attribs env want (sd_decodedAttrib sd) [] (\<lambda>_. None) w of
                  (Inl rc, w) \<Rightarrow> (Err rc, cm_Free env w)
                | (Inr out, w) \<Rightarrow>
                    (Ok \<lparr>pm_envelope = sd_content sd, pm_attr = out, pm_signer_cert = signer\<rparr>, cm_Free env w)))"

section \<open>Issuer structures\<close>

definition issuing_ca_name :: "DecodedCert \<Rightarrow> byte list option" where
  "issuing_ca_name dc = (if dc_isCA dc then dc_subjectRaw dc else dc_issuerRaw dc)"

text \<open>
  The SEQUENCE of the issuer's name and a second element with \<open>next_len\<close> bytes of content, in a buffer
  of its size and eight bytes more; both structures are written in this way.
\<close>

definition put_issuer_and :: "byte list \<Rightarrow> nat \<Rightarrow> (nat \<Rightarrow> byte list option) \<Rightarrow> byte list option" where
  "put_issuer_and issuer next_len enc_next =
     (let inner = enc_tlv_len (length issuer) + enc_tlv_len next_len; cap = inner + 8 in
      case der_put_len (cap - 1) inner of
        None \<Rightarrow> None
      | Some ll \<Rightarrow>
          (case enc_seq issuer (cap - (1 + length ll)) of
             None \<Rightarrow> None
           | Some s1 \<Rightarrow>
               (case enc_next (cap - (1 + length ll + length s1)) of
                  None \<Rightarrow> None
                | Some s2 \<Rightarrow> Some (0x30 # ll @ s1 @ s2))))"

definition issuer_and_subject_der :: "'w wolf_cms \<Rightarrow> byte list \<Rightarrow> byte list \<Rightarrow> 'w \<Rightarrow> byte list wc_result \<times> 'w" where
  "issuer_and_subject_der env ra_cert csr w =
     (case cm_ParseCert env ra_cert w of ((rc, ic), w) \<Rightarrow>
      if rc \<noteq> 0 then (Err WOLFCERT_ERR_PARSE, w)
      else case cm_ParseCertReq env csr w of ((rc, sc), w) \<Rightarrow>
      if rc \<noteq> 0 then (Err WOLFCERT_ERR_PARSE, w)
      else case (issuing_ca_name ic, dc_subjectRaw sc) of
             (Some issuer, Some subject) \<Rightarrow>
               if issuer = [] then (Err WOLFCERT_ERR_PARSE, w)
               else (case cm_malloc env w of (got, w) \<Rightarrow>
                     if \<not> got then (Err WOLFCERT_ERR_MEMORY, w)
                     else case put_issuer_and issuer (length subject) (enc_seq subject) of
                            None \<Rightarrow> (Err WOLFCERT_ERR_MEMORY, w)
                          | Some der \<Rightarrow> (Ok der, w))
           | _ \<Rightarrow> (Err WOLFCERT_ERR_PARSE, w))"

definition wolfcert_scep_issuer_and_subject :: "'w wolf_cms \<Rightarrow> byte list \<Rightarrow> byte list \<Rightarrow> 'w \<Rightarrow> byte list wc_result \<times> 'w" where
  "wolfcert_scep_issuer_and_subject env ra_cert csr w =
     (case cm_malloc env w of (got, w) \<Rightarrow>
        if \<not> got then (Err WOLFCERT_ERR_MEMORY, w) else issuer_and_subject_der env ra_cert csr w)"

definition issuer_and_serial_der :: "'w wolf_cms \<Rightarrow> byte list \<Rightarrow> byte list \<Rightarrow> 'w \<Rightarrow> byte list wc_result \<times> 'w" where
  "issuer_and_serial_der env ra_cert serial w =
     (case cm_ParseCert env ra_cert w of ((rc, ic), w) \<Rightarrow>
      if rc \<noteq> 0 then (Err WOLFCERT_ERR_PARSE, w)
      else case issuing_ca_name ic of
             None \<Rightarrow> (Err WOLFCERT_ERR_PARSE, w)
           | Some issuer \<Rightarrow>
               if issuer = [] then (Err WOLFCERT_ERR_PARSE, w)
               else (case cm_malloc env w of (got, w) \<Rightarrow>
                     if \<not> got then (Err WOLFCERT_ERR_MEMORY, w)
                     else case put_issuer_and issuer (enc_integer_content_len serial) (enc_integer serial) of
                            None \<Rightarrow> (Err WOLFCERT_ERR_MEMORY, w)
                          | Some der \<Rightarrow> (Ok der, w)))"

definition wolfcert_scep_issuer_and_serial :: "'w wolf_cms \<Rightarrow> byte list \<Rightarrow> byte list \<Rightarrow> 'w \<Rightarrow> byte list wc_result \<times> 'w" where
  "wolfcert_scep_issuer_and_serial env ra_cert serial w =
     (if serial = [] then (Err WOLFCERT_ERR_BAD_ARG, w)
      else case cm_malloc env w of (got, w) \<Rightarrow>
             if \<not> got then (Err WOLFCERT_ERR_MEMORY, w) else issuer_and_serial_der env ra_cert serial w)"

text \<open>Issuer and element, both parts of the input.\<close>

definition parse_issuer_and :: "byte list \<Rightarrow> byte \<Rightarrow> (byte list \<times> byte list) wc_result" where
  "parse_issuer_and der want =
     (case der_read_tlv der of
        None \<Rightarrow> Err WOLFCERT_ERR_PARSE
      | Some (hdr, tag, clen) \<Rightarrow>
          if tag \<noteq> 0x30 \<or> hdr + clen \<noteq> length der then Err WOLFCERT_ERR_PARSE
          else let p = take clen (drop hdr der) in
            (case der_read_tlv p of
               None \<Rightarrow> Err WOLFCERT_ERR_PARSE
             | Some (hdr, tag, clen) \<Rightarrow>
                 if tag \<noteq> 0x30 then Err WOLFCERT_ERR_PARSE
                 else let issuer = take clen (drop hdr p); p = drop (hdr + clen) p in
                   (case der_read_tlv p of
                      None \<Rightarrow> Err WOLFCERT_ERR_PARSE
                    | Some (hdr, tag, clen) \<Rightarrow>
                        if tag \<noteq> want \<or> length p \<noteq> hdr + clen then Err WOLFCERT_ERR_PARSE
                        else Ok (issuer, take clen (drop hdr p)))))"

definition wolfcert_scep_parse_issuer_and_serial :: "byte list \<Rightarrow> (byte list \<times> byte list) wc_result" where
  "wolfcert_scep_parse_issuer_and_serial der =
     (case parse_issuer_and der 0x02 of
        Inl rc \<Rightarrow> Err rc
      | Inr (issuer, serial) \<Rightarrow>
          if serial = [] then Err WOLFCERT_ERR_PARSE else Ok (issuer, wolfcert_scep_int_magnitude serial))"

definition wolfcert_scep_parse_issuer_and_subject :: "byte list \<Rightarrow> (byte list \<times> byte list) wc_result" where
  "wolfcert_scep_parse_issuer_and_subject der = parse_issuer_and der 0x30"

definition wolfcert_scep_issuer_name_matches :: "'w wolf_cms \<Rightarrow> byte list \<Rightarrow> byte list \<Rightarrow> 'w \<Rightarrow> bool wc_result \<times> 'w" where
  "wolfcert_scep_issuer_name_matches env cert name w =
     (if name = [] then (Ok False, w)
      else case cm_ParseCert env cert w of ((wrc, dc), w) \<Rightarrow>
             if wrc \<noteq> 0 then (if wrc = MEMORY_E (cm_codes env) then Err WOLFCERT_ERR_MEMORY else Ok False, w)
             else (Ok (case issuing_ca_name dc of None \<Rightarrow> False | Some mine \<Rightarrow> mine \<noteq> [] \<and> mine = name), w))"

section \<open>Keys and signers\<close>

definition wolfcert_extract_spki :: "'w wolf_cms \<Rightarrow> byte list \<Rightarrow> bool \<Rightarrow> 'w \<Rightarrow> byte list wc_result \<times> 'w" where
  "wolfcert_extract_spki env der is_csr w =
     (case cm_malloc env w of (got, w) \<Rightarrow>
      if \<not> got then (Err WOLFCERT_ERR_MEMORY, w)
      else case (if is_csr then cm_ParseCertReq env der w else cm_ParseCert env der w) of ((wrc, dc), w) \<Rightarrow>
      if wrc = MEMORY_E (cm_codes env) then (Err WOLFCERT_ERR_MEMORY, w)
      else if wrc \<noteq> 0 \<or> dc_publicKey dc = [] then (Err WOLFCERT_ERR_PARSE, w)
      else case cm_malloc env w of (got, w) \<Rightarrow>
      if \<not> got then (Err WOLFCERT_ERR_MEMORY, w) else (Ok (dc_publicKey dc), w))"

definition der_seq_len :: "byte list \<Rightarrow> nat" where
  "der_seq_len p =
     (case der_read_tlv p of
        None \<Rightarrow> 0
      | Some (hdr, tag, clen) \<Rightarrow> if tag \<noteq> 0x30 then 0 else hdr + clen)"

definition wolfcert_scep_is_signed_data :: "byte list \<Rightarrow> bool" where
  "wolfcert_scep_is_signed_data b =
     (let oid = [0x06, 0x09, 0x2A, 0x86, 0x48, 0x86, 0xF7, 0x0D, 0x01, 0x07, 0x02] in
      case (if length b < 2 \<or> b ! 1 \<noteq> 0x80 then map_option fst (der_read_tlv b) else Some 2) of
        None \<Rightarrow> False
      | Some hdr \<Rightarrow> b ! 0 = 0x30 \<and> length b \<ge> hdr + length oid \<and> take (length oid) (drop hdr b) = oid)"

lemma der_seq_len_bounds [wc_len]: "der_seq_len p \<le> length p"
  using der_read_tlv_bounds by (fastforce simp: der_seq_len_def split: option.splits)

text \<open>The loop over the certificates of the bundle, of which \<open>rest\<close> is the part from \<open>off\<close>.\<close>

function rep_signer_loop :: "'w wolf_cms \<Rightarrow> byte list \<Rightarrow> byte list \<Rightarrow> 'w \<Rightarrow> wc_rc \<times> 'w" where
  "rep_signer_loop env signer_spki rest w =
     (if rest = [] then (WOLFCERT_ERR_AUTH, w)
      else let clen = der_seq_len rest in
           if clen = 0 then (WOLFCERT_ERR_AUTH, w)
           else case wolfcert_extract_spki env (take clen rest) False w of (r, w) \<Rightarrow>
                  if r = Err WOLFCERT_ERR_MEMORY then (WOLFCERT_ERR_MEMORY, w)
                  else if r = Ok signer_spki then (WOLFCERT_OK, w)
                  else rep_signer_loop env signer_spki (drop clen rest) w)"
  by pat_completeness auto
termination
  by (relation "measure (\<lambda>(env, spki, rest, w). length rest)") (use der_seq_len_bounds in auto)

declare rep_signer_loop.simps [simp del]

definition wolfcert_scep_verify_rep_signer ::
  "'w wolf_cms \<Rightarrow> byte list option \<Rightarrow> byte list option \<Rightarrow> 'w \<Rightarrow> wc_rc \<times> 'w" where
  "wolfcert_scep_verify_rep_signer env signer_cert ca_bundle w =
     (case (signer_cert, ca_bundle) of
        (Some signer, Some bundle) \<Rightarrow>
          (case wolfcert_extract_spki env signer False w of
             (Inl rc, w) \<Rightarrow> (if rc = WOLFCERT_ERR_MEMORY then rc else WOLFCERT_ERR_AUTH, w)
           | (Inr signer_spki, w) \<Rightarrow> rep_signer_loop env signer_spki bundle w)
      | _ \<Rightarrow> (WOLFCERT_ERR_AUTH, w))"

text \<open>\<open>as_der\<close> is \<open>enc == WOLFCERT_ENCODING_DER\<close>; the message has no attribute the caller wants.\<close>

definition wolfcert_scep_verify_next_ca_response ::
  "'w wolf_cms \<Rightarrow> byte list \<Rightarrow> byte list \<Rightarrow> bool \<Rightarrow> 'w \<Rightarrow> byte list wc_result \<times> 'w" where
  "wolfcert_scep_verify_next_ca_response env resp current_ca as_der w =
     (case wolfcert_scep_parse_pki_message env (\<lambda>_. False) True resp w of
        (Inl rc, w) \<Rightarrow> (Err rc, w)
      | (Inr m, w) \<Rightarrow>
          (case wolfcert_scep_verify_rep_signer env (pm_signer_cert m) (Some current_ca) w of (rc, w) \<Rightarrow>
             if rc \<noteq> WOLFCERT_OK then (Err rc, w)
             else if as_der then wolfcert_pkcs7_certs_to_der env (pm_envelope m) w
             else wolfcert_pkcs7_certs_to_pem env (pm_envelope m) w))"

section \<open>The certificate that receives a request\<close>

record RaCandidate =
  ra_der :: "byte list"
  ra_subject :: "byte list"
  ra_issuer :: "byte list"
  ra_key :: "byte list"
  ra_rank :: int
  ra_parsed :: bool
  ra_is_ca :: bool
  ra_self_issued :: bool
  ra_key_encipher :: bool

definition ku_has :: "nat \<Rightarrow> nat \<Rightarrow> bool" where
  "ku_has m ku \<longleftrightarrow> odd (ku div m)"

abbreviation (input) KEYUSE_DIGITAL_SIG :: nat where "KEYUSE_DIGITAL_SIG \<equiv> 0x80"
abbreviation (input) KEYUSE_KEY_ENCIPHER :: nat where "KEYUSE_KEY_ENCIPHER \<equiv> 0x20"
abbreviation (input) KEYUSE_DATA_ENCIPHER :: nat where "KEYUSE_DATA_ENCIPHER \<equiv> 0x10"

definition ra_rank_of :: "DecodedCert \<Rightarrow> int" where
  "ra_rank_of dc =
     (if dc_keyOID dc \<noteq> Some RSAk then -1
      else if dc_isCA dc then 0
      else case dc_keyUsage dc of
             None \<Rightarrow> 2
           | Some ku \<Rightarrow>
               if ku_has KEYUSE_KEY_ENCIPHER ku then (if ku_has KEYUSE_DIGITAL_SIG ku then 3 else 4)
               else if ku_has KEYUSE_DATA_ENCIPHER ku then 1
               else -1)"

definition ra_blank :: "byte list \<Rightarrow> RaCandidate" where
  "ra_blank der = \<lparr>ra_der = der, ra_subject = [], ra_issuer = [], ra_key = [], ra_rank = -1, ra_parsed = False,
     ra_is_ca = False, ra_self_issued = False, ra_key_encipher = False\<rparr>"

definition ra_candidate_parse :: "'w wolf_cms \<Rightarrow> byte list \<Rightarrow> 'w \<Rightarrow> (wc_rc \<times> RaCandidate) \<times> 'w" where
  "ra_candidate_parse env der w =
     (case cm_malloc env w of (got, w) \<Rightarrow>
      if \<not> got then ((WOLFCERT_ERR_MEMORY, ra_blank der), w)
      else case cm_ParseCert env der w of ((wrc, dc), w) \<Rightarrow>
      case (if wrc = 0 then cm_Sha256Hash env (dc_publicKey dc) else (wrc, [])) of (wrc, key) \<Rightarrow>
      ((if wrc = MEMORY_E (cm_codes env) then WOLFCERT_ERR_MEMORY else WOLFCERT_OK,
        if wrc \<noteq> 0 then ra_blank der
        else (ra_blank der)\<lparr>ra_key := key, ra_subject := dc_subjectHash dc, ra_issuer := dc_issuerHash dc, ra_parsed := True,
               ra_is_ca := dc_isCA dc, ra_self_issued := (dc_subjectHash dc = dc_issuerHash dc),
               ra_key_encipher := (case dc_keyUsage dc of None \<Rightarrow> False | Some ku \<Rightarrow> ku_has KEYUSE_KEY_ENCIPHER ku),
               ra_rank := ra_rank_of dc\<rparr>), w))"

definition ra_candidate_issued_ca :: "nat \<Rightarrow> RaCandidate list \<Rightarrow> bool" where
  "ra_candidate_issued_ca c all =
     list_ex (\<lambda>i. i \<noteq> c \<and> ra_parsed (all ! i) \<and> ra_is_ca (all ! i) \<and> \<not> ra_self_issued (all ! i) \<and>
       ra_issuer (all ! i) = ra_subject (all ! c)) [0..<length all]"

text \<open>The certificates of the bundle, counted first: \<open>n\<close> is the number found so far.\<close>

function ra_split :: "nat \<Rightarrow> byte list \<Rightarrow> nat \<Rightarrow> byte list list wc_result" where
  "ra_split max_certs bundle n =
     (if bundle = [] then Ok []
      else let clen = der_seq_len bundle in
           if clen = 0 \<and> n > 0 then Ok []
           else if clen = 0 then Err WOLFCERT_ERR_PARSE
           else if n + 1 > max_certs then Err WOLFCERT_ERR_BAD_ARG
           else case ra_split max_certs (drop clen bundle) (n + 1) of
                  Inl rc \<Rightarrow> Err rc
                | Inr cs \<Rightarrow> Ok (take clen bundle # cs))"
  by pat_completeness auto
termination
  by (relation "measure (\<lambda>(m, bundle, n). length bundle)") (use der_seq_len_bounds in auto)

declare ra_split.simps [simp del]

fun ra_parse_all :: "'w wolf_cms \<Rightarrow> byte list list \<Rightarrow> 'w \<Rightarrow> (wc_rc \<times> RaCandidate list) \<times> 'w" where
  "ra_parse_all env [] w = ((WOLFCERT_OK, []), w)"
| "ra_parse_all env (der # ders) w =
     (case ra_candidate_parse env der w of ((rc, c), w) \<Rightarrow>
        if rc \<noteq> WOLFCERT_OK then ((rc, [c]), w)
        else case ra_parse_all env ders w of ((rc, cs), w) \<Rightarrow> ((rc, c # cs), w))"

definition ra_best :: "RaCandidate list \<Rightarrow> int" where
  "ra_best cs = foldl (\<lambda>best c. if ra_rank c > best then ra_rank c else best) (-1) cs"

text \<open>The marks \<open>keep\<close> after the first and the second pass over the candidates.\<close>

definition ra_keep1 :: "RaCandidate list \<Rightarrow> bool list" where
  "ra_keep1 cs = map (\<lambda>i. ra_best cs \<ge> 0 \<and> ra_rank (cs ! i) = ra_best cs \<and>
     (ra_best cs > 0 \<or> \<not> ra_candidate_issued_ca i cs)) [0..<length cs]"

definition ra_any_sub :: "RaCandidate list \<Rightarrow> bool" where
  "ra_any_sub cs = list_ex (\<lambda>i. ra_keep1 cs ! i \<and> ra_best cs = 0 \<and> \<not> ra_self_issued (cs ! i)) [0..<length cs]"

definition ra_keep2 :: "RaCandidate list \<Rightarrow> bool list" where
  "ra_keep2 cs = map (\<lambda>i. ra_keep1 cs ! i \<and> \<not> (ra_any_sub cs \<and> ra_self_issued (cs ! i))) [0..<length cs]"

definition ra_any_ke :: "RaCandidate list \<Rightarrow> bool" where
  "ra_any_ke cs = list_ex (\<lambda>i. ra_keep2 cs ! i \<and> ra_key_encipher (cs ! i)) [0..<length cs]"

definition ra_choices :: "RaCandidate list \<Rightarrow> RaCandidate list" where
  "ra_choices cs = map (\<lambda>i. cs ! i) (filter (\<lambda>i. ra_keep2 cs ! i \<and>
     \<not> (ra_best cs = 0 \<and> ra_any_ke cs \<and> \<not> ra_key_encipher (cs ! i))) [0..<length cs])"

definition ra_pick :: "RaCandidate list \<Rightarrow> RaCandidate wc_result" where
  "ra_pick cs =
     (case ra_choices cs of
        [] \<Rightarrow> Err WOLFCERT_ERR_UNSUPPORTED
      | pick # others \<Rightarrow> if list_all (\<lambda>c. ra_key c = ra_key pick) others then Ok pick else Err WOLFCERT_ERR_PROTOCOL)"

definition wolfcert_scep_select_ra_cert :: "'w wolf_cms \<Rightarrow> byte list \<Rightarrow> 'w \<Rightarrow> byte list wc_result \<times> 'w" where
  "wolfcert_scep_select_ra_cert env bundle w =
     (if bundle = [] then (Err WOLFCERT_ERR_BAD_ARG, w)
      else case ra_split (cm_MAX_PKCS7_CERTS env) bundle 0 of
             Inl rc \<Rightarrow> (Err rc, w)
           | Inr ders \<Rightarrow>
               (case cm_malloc env w of (got, w) \<Rightarrow>
                if \<not> got then (Err WOLFCERT_ERR_MEMORY, w)
                else case ra_parse_all env ders w of ((rc, cs), w) \<Rightarrow>
                if rc \<noteq> WOLFCERT_OK then (Err rc, w)
                else (map_sum id ra_der (ra_pick cs), w)))"

definition wolfcert_scep_check_cert_rep ::
  "cstring option \<Rightarrow> byte list option \<Rightarrow> byte list option \<Rightarrow> wc_rc" where
  "wolfcert_scep_check_cert_rep msg_type rx_tid sent_tid =
     (if msg_type \<noteq> Some (lit ''3'') then WOLFCERT_ERR_PROTOCOL
      else case (rx_tid, sent_tid) of
             (Some rx, Some sent) \<Rightarrow>
               if length rx \<noteq> length sent \<or> rx \<noteq> sent then WOLFCERT_ERR_PROTOCOL else WOLFCERT_OK
           | _ \<Rightarrow> WOLFCERT_ERR_PROTOCOL)"

section \<open>Issuer structures, written and read\<close>

lemma magnitude_idem: "wolfcert_scep_int_magnitude (wolfcert_scep_int_magnitude v) = wolfcert_scep_int_magnitude v"
  by (induction v rule: wolfcert_scep_int_magnitude.induct) auto

lemma magnitude_nonempty: "v \<noteq> [] \<Longrightarrow> wolfcert_scep_int_magnitude v \<noteq> []"
  by (induction v rule: wolfcert_scep_int_magnitude.induct) auto

lemma magnitude_length: "length (wolfcert_scep_int_magnitude v) \<le> length v"
  by (induction v rule: wolfcert_scep_int_magnitude.induct) auto

text \<open>The content of the INTEGER written for a serial number.\<close>

definition int_content :: "byte list \<Rightarrow> byte list" where
  "int_content v = (let m = wolfcert_scep_int_magnitude v in replicate (int_pad m) 0 @ m)"

lemma int_content_length: "v \<noteq> [] \<Longrightarrow> length (int_content v) = enc_integer_content_len v"
  by (simp add: int_content_def enc_integer_content_len_def Let_def)

lemma int_content_bound: "length (int_content v) \<le> Suc (length v)"
  using magnitude_length [of v] by (simp add: int_content_def int_pad_def Let_def)

lemma int_content_nonempty: "v \<noteq> [] \<Longrightarrow> int_content v \<noteq> []"
  using magnitude_nonempty by (auto simp: int_content_def Let_def)

lemma magnitude_content: "v \<noteq> [] \<Longrightarrow> wolfcert_scep_int_magnitude (int_content v) = wolfcert_scep_int_magnitude v"
proof -
  assume "v \<noteq> []"
  then obtain a m where m: "wolfcert_scep_int_magnitude v = a # m" by (meson list.exhaust magnitude_nonempty)
  have "wolfcert_scep_int_magnitude (a # m) = a # m" using magnitude_idem [of v] m by simp
  then show ?thesis by (auto simp: int_content_def int_pad_def m Let_def hi_bit_def)
qed

lemma enc_integer_eq:
  "v \<noteq> [] \<Longrightarrow> enc_integer v cap = (if length (int_content v) < 2 ^ 32 \<and> length (tlv 0x02 (int_content v)) \<le> cap
     then Some (tlv 0x02 (int_content v)) else None)"
  by (auto simp: enc_integer_def int_content_def Let_def der_put_len_eq tlv_def add.commute)

lemma tlv_size: "length v < 2 ^ 32 \<Longrightarrow> enc_tlv_len (length v) = length (tlv tag v)"
  by (simp add: enc_tlv_len_eq tlv_def)

lemma tlv_bound: "length v < 2 ^ 32 \<Longrightarrow> length (tlv tag v) \<le> length v + 6"
  using der_len_length [of "length v"] by (simp add: tlv_def)

lemma read_tlv_parts:
  assumes "length v < 2 ^ 32"
  shows "der_read_tlv (tlv tag v @ rest) = Some (1 + length (der_len (length v)), tag, length v)"
    and "take (length v) (drop (1 + length (der_len (length v))) (tlv tag v @ rest)) = v"
    and "drop (1 + length (der_len (length v)) + length v) (tlv tag v @ rest) = rest"
  using der_read_tlv_tlv [OF assms] by (simp_all add: tlv_def)

lemma tlv_length_parts: "1 + length (der_len (length v)) + length v = length (tlv tag v)"
  by (simp add: tlv_def)

lemma parse_issuer_and_tlv:
  assumes "length issuer < 2 ^ 32" "length v < 2 ^ 32" "length (tlv 0x30 issuer @ tlv want v) < 2 ^ 32"
  shows "parse_issuer_and (tlv 0x30 (tlv 0x30 issuer @ tlv want v)) want = Ok (issuer, v)"
proof -
  note o = read_tlv_parts [OF assms(3), of "0x30" "[]", unfolded append_Nil2]
  note i = read_tlv_parts [OF assms(1), of "0x30" "tlv want v"]
  note n = read_tlv_parts [OF assms(2), of want "[]", unfolded append_Nil2]
  show ?thesis
    unfolding parse_issuer_and_def o(1) option.case prod.case Let_def o(2) i(1) i(2) i(3) n(1) n(2)
    using tlv_length_parts [of "tlv 0x30 issuer @ tlv want v" "0x30"] tlv_length_parts [of v want]
    by (simp del: length_append)
qed

lemma put_issuer_and_tlv:
  assumes "length issuer + length v < 2 ^ 31"
    and "\<And>cap. length (tlv want v) \<le> cap \<Longrightarrow> enc_next cap = Some (tlv want v)"
  shows "put_issuer_and issuer (length v) enc_next = Some (tlv 0x30 (tlv 0x30 issuer @ tlv want v))"
    and "parse_issuer_and (tlv 0x30 (tlv 0x30 issuer @ tlv want v)) want = Ok (issuer, v)"
proof -
  have l: "length issuer < 2 ^ 32" "length v < 2 ^ 32" using assms(1) by simp_all
  define inner where "inner = enc_tlv_len (length issuer) + enc_tlv_len (length v)"
  have inner: "inner = length (tlv 0x30 issuer) + length (tlv want v)"
    unfolding inner_def tlv_size [OF l(1), of "0x30"] tlv_size [OF l(2), of want] ..
  have b: "inner < 2 ^ 32" using tlv_bound [OF l(1), of "0x30"] tlv_bound [OF l(2), of want] assms(1) unfolding inner by simp
  note d = der_len_length [OF b]
  have c: "length (tlv 0x30 issuer) \<le> inner + 8 - (1 + length (der_len inner))"
    "length (tlv want v) \<le> inner + 8 - (1 + length (der_len inner) + length (tlv 0x30 issuer))"
    using d inner by linarith+
  have "der_put_len (inner + 8 - 1) inner = Some (der_len inner)" using b d by (simp add: der_put_len_eq)
  moreover have "enc_seq issuer (inner + 8 - (1 + length (der_len inner))) = Some (tlv 0x30 issuer)"
    using l(1) c(1) unfolding enc_seq_def put_tlv_eq by simp
  moreover note assms(2) [OF c(2)]
  moreover have "0x30 # der_len inner @ tlv 0x30 issuer @ tlv want v = tlv 0x30 (tlv 0x30 issuer @ tlv want v)"
    unfolding tlv_def [of "0x30" "tlv 0x30 issuer @ tlv want v"] inner by simp
  ultimately show "put_issuer_and issuer (length v) enc_next = Some (tlv 0x30 (tlv 0x30 issuer @ tlv want v))"
    unfolding put_issuer_and_def Let_def inner_def [symmetric] by simp
  show "parse_issuer_and (tlv 0x30 (tlv 0x30 issuer @ tlv want v)) want = Ok (issuer, v)"
    using parse_issuer_and_tlv [OF l] b inner by simp
qed

text \<open>
  C39. The GetCert request structure is right: for a certificate that parses, \<open>wolfcert_scep_issuer_and_serial\<close>
  writes the DER of its issuing CA's name and the serial number, which \<open>wolfcert_scep_parse_issuer_and_serial\<close>
  reads back as the name and the serial number without leading zeros, whether or not its top bit is set.
\<close>

theorem issuer_and_serial_roundtrip:
  assumes "\<forall>w. fst (cm_malloc env w)" "cm_ParseCert env ra_cert (snd (cm_malloc env w)) = ((0, dc), w1)"
    and "issuing_ca_name dc = Some issuer" "issuer \<noteq> []" "serial \<noteq> []" "length issuer + length serial < 2 ^ 30"
  shows "\<exists>der. fst (wolfcert_scep_issuer_and_serial env ra_cert serial w) = Ok der \<and>
    wolfcert_scep_parse_issuer_and_serial der = Ok (issuer, wolfcert_scep_int_magnitude serial)"
proof -
  let ?v = "int_content serial"
  have l: "length issuer + length ?v < 2 ^ 31" "length ?v < 2 ^ 32" using assms(6) int_content_bound [of serial] by simp_all
  have "enc_integer serial cap = Some (tlv 0x02 ?v)" if "length (tlv 0x02 ?v) \<le> cap" for cap
    using enc_integer_eq [OF assms(5), of cap] that l(2) by simp
  note put = put_issuer_and_tlv [OF l(1) this]
  obtain g w0 where m0: "cm_malloc env w = (g, w0)" by (rule prod.exhaust)
  obtain g' w0' where m1: "cm_malloc env w1 = (g', w0')" by (rule prod.exhaust)
  have g: "g" "g'" using assms(1) m0 m1 by (metis fst_conv)+
  have "fst (wolfcert_scep_issuer_and_serial env ra_cert serial w) = Ok (tlv 0x30 (tlv 0x30 issuer @ tlv 0x02 ?v))"
    using assms(2-5) m0 m1 g put(1) int_content_length [OF assms(5)]
    by (simp add: wolfcert_scep_issuer_and_serial_def issuer_and_serial_der_def)
  moreover have "wolfcert_scep_parse_issuer_and_serial (tlv 0x30 (tlv 0x30 issuer @ tlv 0x02 ?v)) =
      Ok (issuer, wolfcert_scep_int_magnitude serial)"
    using magnitude_content [OF assms(5)] int_content_nonempty [OF assms(5)] put(2)
    by (simp add: wolfcert_scep_parse_issuer_and_serial_def)
  ultimately show ?thesis by blast
qed

theorem issuer_and_serial_roundtrip_witness:
  "\<exists>der. fst (wolfcert_scep_issuer_and_serial small_cms [0x30, 5, 1, 7, 8, 9, 0] [0, 0x80] 0) = Ok der \<and>
     wolfcert_scep_parse_issuer_and_serial der = Ok ([7], [0x80])"
  using issuer_and_serial_roundtrip [OF small_cms_allocates(1), of "[0x30, 5, 1, 7, 8, 9, 0]" 0 "small_decoded [0x30, 5, 1, 7, 8, 9, 0]" 0
      "[7]" "[0, 0x80]"]
  by (simp add: small_cms_def plain_cms_def small_decoded_def issuing_ca_name_def)

section \<open>Attributes, written and read\<close>

text \<open>The order in which the attributes are written, their identifiers, tags and values.\<close>

definition attr_order :: "scep_attr list" where
  "attr_order = [SCEP_ATTR_MSG_TYPE, SCEP_ATTR_TRANS_ID, SCEP_ATTR_SENDER_NONCE, SCEP_ATTR_RECIP_NONCE,
     SCEP_ATTR_PKI_STATUS, SCEP_ATTR_FAIL_INFO]"

fun attr_oid :: "scep_attr \<Rightarrow> byte list" where
  "attr_oid SCEP_ATTR_MSG_TYPE = OID_MSG_TYPE" | "attr_oid SCEP_ATTR_PKI_STATUS = OID_PKI_STATUS"
| "attr_oid SCEP_ATTR_FAIL_INFO = OID_FAIL_INFO" | "attr_oid SCEP_ATTR_TRANS_ID = OID_TRANS_ID"
| "attr_oid SCEP_ATTR_SENDER_NONCE = OID_SENDER_NONCE" | "attr_oid SCEP_ATTR_RECIP_NONCE = OID_RECIP_NONCE"

definition attr_tag :: "scep_attr \<Rightarrow> byte" where
  "attr_tag ab = (if ab = SCEP_ATTR_SENDER_NONCE \<or> ab = SCEP_ATTR_RECIP_NONCE then 0x04 else 0x13)"

fun attr_of :: "WolfCertScepAttrs \<Rightarrow> scep_attr \<Rightarrow> byte list option" where
  "attr_of a SCEP_ATTR_MSG_TYPE = sa_message_type a" | "attr_of a SCEP_ATTR_PKI_STATUS = sa_pki_status a"
| "attr_of a SCEP_ATTR_FAIL_INFO = sa_fail_info a" | "attr_of a SCEP_ATTR_TRANS_ID = sa_transaction_id a"
| "attr_of a SCEP_ATTR_SENDER_NONCE = sa_sender_nonce a" | "attr_of a SCEP_ATTR_RECIP_NONCE = sa_recipient_nonce a"

definition attr_enc :: "scep_attr \<Rightarrow> byte list \<Rightarrow> nat \<Rightarrow> byte list wc_result" where
  "attr_enc ab = (if ab = SCEP_ATTR_SENDER_NONCE \<or> ab = SCEP_ATTR_RECIP_NONCE then enc_nonce else enc_printable_n)"

definition mk_attrib :: "WolfCertScepAttrs \<Rightarrow> scep_attr \<Rightarrow> PKCS7Attrib" where
  "mk_attrib a ab = \<lparr>at_oid = attr_oid ab, at_value = tlv (attr_tag ab) (the (attr_of a ab))\<rparr>"

definition attr_fits :: "scep_attr \<Rightarrow> byte list \<Rightarrow> bool" where
  "attr_fits ab v \<longleftrightarrow> length v < 2 ^ 32 \<and> (text_attr ab \<longrightarrow> 0 \<notin> set v)"

lemmas attr_oids = OID_MSG_TYPE_def OID_PKI_STATUS_def OID_FAIL_INFO_def OID_TRANS_ID_def OID_SENDER_NONCE_def OID_RECIP_NONCE_def

lemma attr_bit_oid: "scep_attr_bit a = Some ab \<longleftrightarrow> at_oid a = attr_oid ab"
  by (cases ab) (auto simp: scep_attr_bit_def attr_oids)

lemma printable_no_nul: "wolfcert_is_printable_string v \<Longrightarrow> 0 \<notin> set v"
  by (auto simp: wolfcert_is_printable_string_def list_all_iff)

lemma attr_enc_ok: "attr_enc ab v cap = Ok x \<Longrightarrow> x = tlv (attr_tag ab) v \<and> attr_fits ab v"
  using printable_no_nul
  by (auto simp: attr_enc_def enc_nonce_def enc_octet_def enc_printable_n_def put_tlv_eq attr_tag_def attr_fits_def text_attr_def
      split: if_splits option.splits)

lemma put_attribs_ok:
  "put_attribs cap (map (\<lambda>ab. (attr_oid ab, map_option (attr_enc ab) (attr_of a ab))) bs) (acc, off) = Ok out \<Longrightarrow>
   out = acc @ map (mk_attrib a) (filter (\<lambda>ab. attr_of a ab \<noteq> None) bs) \<and>
   list_all (\<lambda>ab. \<forall>v. attr_of a ab = Some v \<longrightarrow> attr_fits ab v) bs"
proof (induction bs arbitrary: acc off)
  case Nil
  then show ?case by simp
next
  case (Cons ab bs)
  show ?case
  proof (cases "attr_of a ab")
    case None
    then show ?thesis using Cons by simp
  next
    case (Some v)
    then obtain x where x: "attr_enc ab v (cap - off) = Ok x"
      using Cons.prems by (auto split: sum.splits)
    then show ?thesis using Cons.IH [of "acc @ [\<lparr>at_oid = attr_oid ab, at_value = x\<rparr>]" "off + length x"] Cons.prems Some
        attr_enc_ok [OF x] by (auto simp: mk_attrib_def)
  qed
qed

lemma build_signed_attribs_ok:
  assumes "build_signed_attribs a cap = Ok attribs"
  shows "attribs = map (mk_attrib a) (filter (\<lambda>ab. attr_of a ab \<noteq> None) attr_order)"
    and "attr_of a ab = Some v \<Longrightarrow> attr_fits ab v"
proof -
  have "enc_printable = enc_printable_n" by (simp add: fun_eq_iff enc_printable_def)
  then have "build_signed_attribs a cap =
      put_attribs cap (map (\<lambda>ab. (attr_oid ab, map_option (attr_enc ab) (attr_of a ab))) attr_order) ([], 0)"
    by (simp add: build_signed_attribs_def attr_order_def attr_enc_def)
  then have "put_attribs cap (map (\<lambda>ab. (attr_oid ab, map_option (attr_enc ab) (attr_of a ab))) attr_order) ([], 0) = Ok attribs"
    using assms by simp
  note r = put_attribs_ok [OF this]
  show "attribs = map (mk_attrib a) (filter (\<lambda>ab. attr_of a ab \<noteq> None) attr_order)" using r by simp
  have "ab \<in> set attr_order" by (cases ab) (simp_all add: attr_order_def)
  then show "attr_of a ab = Some v \<Longrightarrow> attr_fits ab v" using r by (simp add: list_all_iff)
qed

lemma attr_content_tlv:
  assumes "attr_fits ab v" "v \<noteq> []" "length (tlv (attr_tag ab) v) < 2 ^ 32"
  shows "attr_content ab (tlv (attr_tag ab) v) = Ok v" "attr_content ab (tlv 0x31 (tlv (attr_tag ab) v)) = Ok v"
proof -
  have l: "length v < 2 ^ 32" "attr_tag ab \<noteq> 0x31" using assms(1) by (auto simp: attr_fits_def attr_tag_def)
  note p = read_tlv_parts [OF l(1), of "attr_tag ab" "[]", unfolded append_Nil2]
  note o = read_tlv_parts [OF assms(3), of "0x31" "[]", unfolded append_Nil2]
  have ne: "tlv t x \<noteq> []" for t x by (simp add: tlv_def)
  have t: "text_attr ab \<longrightarrow> attr_tag ab = 0x13 \<and> 0 \<notin> set v" using assms(1) by (auto simp: attr_fits_def attr_tag_def text_attr_def)
  have h1: "attr_header (tlv (attr_tag ab) v) = Some (attr_tag ab, 1 + length (der_len (length v)), length v)"
    unfolding attr_header_def using p(1) l(2) ne by simp
  show "attr_content ab (tlv (attr_tag ab) v) = Ok v"
    unfolding attr_content_def h1 option.case prod.case p(2) using assms(2) t tlv_length_parts [of v "attr_tag ab"] by simp
  define off where "off = 1 + length (der_len (length (tlv (attr_tag ab) v))) + (1 + length (der_len (length v)))"
  have h2: "attr_header (tlv 0x31 (tlv (attr_tag ab) v)) = Some (attr_tag ab, off, length v)"
    unfolding attr_header_def off_def using o(1,2) p(1) ne by simp
  have "drop off (tlv 0x31 (tlv (attr_tag ab) v)) = v" by (simp add: off_def tlv_def)
  moreover have "off + length v = length (tlv 0x31 (tlv (attr_tag ab) v))" by (simp add: off_def tlv_def)
  ultimately show "attr_content ab (tlv 0x31 (tlv (attr_tag ab) v)) = Ok v"
    unfolding attr_content_def h2 option.case prod.case using assms(2) t by simp
qed

text \<open>
  What a verified message holds of the attributes that were signed: they come back in order, as they
  are or inside a SET, possibly between attributes of other types.
\<close>

fun decoded :: "PKCS7Attrib list \<Rightarrow> PKCS7Attrib list \<Rightarrow> bool" where
  "decoded sent [] \<longleftrightarrow> sent = []"
| "decoded sent (g # gs) \<longleftrightarrow>
     (if scep_attr_bit g = None then decoded sent gs
      else case sent of
             [] \<Rightarrow> False
           | s # ss \<Rightarrow> at_oid g = at_oid s \<and> (at_value g = at_value s \<or> at_value g = tlv 0x31 (at_value s)) \<and> decoded ss gs)"

lemma parse_attribs_decoded:
  assumes "\<forall>w. fst (cm_malloc env w)"
    and "\<And>ab. ab \<in> set bs \<Longrightarrow> \<exists>v. attr_of a ab = Some v \<and> v \<noteq> [] \<and> attr_fits ab v \<and> length (tlv (attr_tag ab) v) < 2 ^ 32"
    and "distinct bs" "set bs \<inter> set seen = {}" "decoded (map (mk_attrib a) bs) gs"
  shows "\<exists>w'. parse_attribs env want gs seen out w = (Ok (\<lambda>ab. if ab \<in> set bs \<and> want ab then attr_of a ab else out ab), w')"
  using assms(2-)
proof (induction gs arbitrary: bs seen out w)
  case Nil
  then show ?case by simp
next
  case (Cons g gs)
  show ?case
  proof (cases "scep_attr_bit g")
    case None
    then show ?thesis using Cons by simp
  next
    case (Some ab)
    then obtain bs' where bs: "bs = ab # bs'" and g: "at_value g = at_value (mk_attrib a ab) \<or> at_value g = tlv 0x31 (at_value (mk_attrib a ab))"
      "decoded (map (mk_attrib a) bs') gs"
    proof -
      obtain b bs' where b: "bs = b # bs'" "at_oid g = attr_oid b" using Cons.prems(4) Some
        by (auto simp: mk_attrib_def split: list.splits)
      then have "b = ab" using Some attr_bit_oid [of g] by (metis option.inject)
      then show ?thesis using that [of bs'] b Cons.prems(4) Some by simp
    qed
    obtain v where v: "attr_of a ab = Some v" "v \<noteq> []" "attr_fits ab v" "length (tlv (attr_tag ab) v) < 2 ^ 32"
      using Cons.prems(1) [of ab] bs by auto
    have c: "attr_content ab (at_value g) = Ok v"
      using g(1) attr_content_tlv [OF v(3,2,4)] v(1) by (auto simp: mk_attrib_def)
    have new: "ab \<notin> set seen" "distinct bs'" "set bs' \<inter> set (ab # seen) = {}" using Cons.prems(2,3) bs by auto
    obtain got w1 where m: "cm_malloc env w = (got, w1)" by (rule prod.exhaust)
    have got: got using assms(1) m by (metis fst_conv)
    note IH = Cons.IH [OF _ new(2,3) g(2)]
    show ?thesis
    proof (cases "want ab")
      case True
      obtain w' where "parse_attribs env want gs (ab # seen) (out(ab := Some v)) w1 =
          (Ok (\<lambda>x. if x \<in> set bs' \<and> want x then attr_of a x else (out(ab := Some v)) x), w')"
        using IH Cons.prems(1) bs by fastforce
      then show ?thesis using Some new(1) c m got True v(1) bs by (auto simp: fun_eq_iff)
    next
      case False
      obtain w' where "parse_attribs env want gs (ab # seen) out w =
          (Ok (\<lambda>x. if x \<in> set bs' \<and> want x then attr_of a x else out x), w')"
        using IH Cons.prems(1) bs by fastforce
      then show ?thesis using Some new(1) c False bs by (auto simp: fun_eq_iff)
    qed
  qed
qed

text \<open>
  What the code relies on: a SignedData with SCEP attributes verifies, and verifying gives back its content,
  the signer's certificate and the attributes; the encoder returns a length or a negative code.
\<close>

definition signed_codec_ok :: "'w wolf_cms \<Rightarrow> bool" where
  "signed_codec_ok env \<longleftrightarrow>
     (\<forall>cert key h content attribs cap w n buf w'.
        cm_EncodeSignedData env cert key h content attribs cap w = ((n, buf), w') \<longrightarrow> n \<noteq> 0 \<and>
        (n > 0 \<longrightarrow> list_all (\<lambda>a. scep_attr_bit a \<noteq> None) attribs \<longrightarrow> (\<forall>v. \<exists>sd v'. cm_VerifySignedData env False (take (nat n) buf) v = ((0, sd), v') \<and>
           sd_content sd = (case content of None \<Rightarrow> [] | Some c \<Rightarrow> c) \<and> sd_verifyCert sd = cert \<and>
           decoded attribs (sd_decodedAttrib sd))))"

lemma build_pki_message_ok:
  assumes "wolfcert_scep_build_pki_message env envelope cert key h attrs w = (Ok der, w1)" "signed_codec_ok env"
  shows "\<exists>attribs. build_signed_attribs attrs 1024 = Ok attribs \<and>
    (\<forall>v. \<exists>sd v'. cm_VerifySignedData env False der v = ((0, sd), v') \<and> sd_content sd = envelope \<and>
       sd_verifyCert sd = cert \<and> decoded attribs (sd_decodedAttrib sd))"
proof -
  obtain attribs where a: "build_signed_attribs attrs 1024 = Ok attribs"
    using assms(1) by (cases "build_signed_attribs attrs 1024") (auto simp: wolfcert_scep_build_pki_message_def Let_def split: prod.splits if_splits)
  obtain h' cap u n buf u' where e: "cm_EncodeSignedData env cert key h' (if envelope = [] then None else Some envelope) attribs cap u = ((n, buf), u')"
    "encoded env (n, buf) = Ok der"
    using assms(1) a by (auto simp: wolfcert_scep_build_pki_message_def Let_def split: prod.splits if_splits)
  have "list_all (\<lambda>a. scep_attr_bit a \<noteq> None) attribs"
    using build_signed_attribs_ok(1) [OF a] by (auto simp: list_all_iff mk_attrib_def attr_bit_oid)
  moreover have "n \<noteq> 0" using assms(2) e(1) unfolding signed_codec_ok_def by blast
  ultimately have n: "n > 0" "der = take (nat n) buf" "list_all (\<lambda>a. scep_attr_bit a \<noteq> None) attribs" using e(2) by (auto simp: encoded_def split: if_splits)
  have "\<forall>v. \<exists>sd v'. cm_VerifySignedData env False der v = ((0, sd), v') \<and>
      sd_content sd = (case (if envelope = [] then None else Some envelope) of None \<Rightarrow> [] | Some c \<Rightarrow> c) \<and>
      sd_verifyCert sd = cert \<and> decoded attribs (sd_decodedAttrib sd)"
    using assms(2) e(1) n unfolding signed_codec_ok_def by blast
  then show ?thesis using a by (cases "envelope = []") auto
qed


lemma decoded_self: "list_all (\<lambda>a. scep_attr_bit a \<noteq> None) as \<Longrightarrow> decoded as as"
  by (induction as) auto

lemma small_signed_codec: "signed_codec_ok small_cms"
  unfolding signed_codec_ok_def
  by (auto simp: small_cms_def plain_cms_def Let_def decoded_self simp del: packs.simps)


section \<open>Objects\<close>

context counting_cms
begin

lemma scep_envelop: "wolfcert_scep_envelop env c x e w = (r, w') \<Longrightarrow> live w' = live w"
  by (auto simp: wolfcert_scep_envelop_def free free_rng dest!: live_laws split: prod.splits if_splits)

lemma scep_deenvelop: "wolfcert_scep_deenvelop env c k x w = (r, w') \<Longrightarrow> live w' = live w"
  by (auto simp: wolfcert_scep_deenvelop_def free free_rng dest!: live_laws split: prod.splits if_splits)

lemma scep_build: "wolfcert_scep_build_pki_message env x c k h a w = (r, w') \<Longrightarrow> live w' = live w"
  by (auto simp: wolfcert_scep_build_pki_message_def Let_def free free_rng dest!: live_laws split: prod.splits if_splits sum.splits)

lemma scep_build_next_ca: "wolfcert_scep_build_next_ca_response env n c k w = (r, w') \<Longrightarrow> live w' = live w"
  by (auto simp: wolfcert_scep_build_next_ca_response_def dest!: build_certs_only scep_build split: prod.splits sum.splits)

lemma scep_parse_attribs: "parse_attribs env want gs seen out w = (r, w') \<Longrightarrow> live w' = live w"
  by (induction gs arbitrary: seen out w)
    (auto dest!: live_laws split: prod.splits if_splits sum.splits option.splits)

lemma scep_parse: "wolfcert_scep_parse_pki_message env want s der w = (r, w') \<Longrightarrow> live w' = live w"
  by (auto simp: wolfcert_scep_parse_pki_message_def parse_signer_def free dest!: live_laws scep_parse_attribs
      split: prod.splits if_splits sum.splits)

lemma extract_spki: "wolfcert_extract_spki env der b w = (r, w') \<Longrightarrow> live w' = live w"
  by (auto simp: wolfcert_extract_spki_def dest!: live_laws split: prod.splits if_splits)

lemma rep_signer_loop: "rep_signer_loop env k rest w = (r, w') \<Longrightarrow> live w' = live w"
proof (induction rest arbitrary: w rule: length_induct)
  case (1 rest)
  have IH: "live w' = live v" if "rest \<noteq> []" "der_seq_len rest \<noteq> 0" "rep_signer_loop env k (drop (der_seq_len rest) rest) v = (r, w')" for v
    using that 1(1) [rule_format, of "drop (der_seq_len rest) rest" v] by simp
  show ?case using 1(2)
    by (subst (asm) rep_signer_loop.simps) (auto simp: Let_def dest!: extract_spki dest: IH split: prod.splits if_splits)
qed

lemma scep_verify_signer: "wolfcert_scep_verify_rep_signer env c b w = (r, w') \<Longrightarrow> live w' = live w"
  by (auto simp: wolfcert_scep_verify_rep_signer_def dest!: extract_spki rep_signer_loop split: prod.splits sum.splits option.splits)

lemma scep_verify_next_ca: "wolfcert_scep_verify_next_ca_response env x c b w = (r, w') \<Longrightarrow> live w' = live w"
  by (auto simp: wolfcert_scep_verify_next_ca_response_def dest!: scep_parse scep_verify_signer certs_to_der certs_to_pem
      split: prod.splits sum.splits if_splits)

end



end
