(* ===== verification/Scep_Trust.thy ===== *)
theory Scep_Trust
  imports Scep_Msg
begin

text \<open>
  What the SCEP client accepts: the signer of a reply (\<open>wolfcert_scep_verify_rep_signer\<close>) and the
  certificate of a GetCACert bundle that a request is encrypted for
  (\<open>wolfcert_scep_select_ra_cert\<close>, \<open>src/scep/scep_msg.c\<close>).
\<close>

section \<open>A parser without failures of memory\<close>

text \<open>
  The certificate parser as a function of its input: \<open>p\<close> is the certificate, if the bytes are one. No
  allocation fails. \<open>H\<close> is the digest of keys.
\<close>

definition cert_spki :: "(byte list \<Rightarrow> DecodedCert option) \<Rightarrow> byte list \<Rightarrow> byte list option" where
  "cert_spki p der = (case p der of Some dc \<Rightarrow> if dc_publicKey dc = [] then None else Some (dc_publicKey dc) | None \<Rightarrow> None)"

definition cert_candidate :: "(byte list \<Rightarrow> DecodedCert option) \<Rightarrow> (byte list \<Rightarrow> byte list) \<Rightarrow> byte list \<Rightarrow> RaCandidate" where
  "cert_candidate p H der =
     (case p der of
        None \<Rightarrow> ra_blank der
      | Some dc \<Rightarrow> (ra_blank der)\<lparr>ra_key := H (dc_publicKey dc), ra_subject := dc_subjectHash dc, ra_issuer := dc_issuerHash dc,
          ra_parsed := True, ra_is_ca := dc_isCA dc, ra_self_issued := (dc_subjectHash dc = dc_issuerHash dc),
          ra_key_encipher := (case dc_keyUsage dc of None \<Rightarrow> False | Some ku \<Rightarrow> ku_has KEYUSE_KEY_ENCIPHER ku),
          ra_rank := ra_rank_of dc\<rparr>)"

locale pure_parser =
  fixes env :: "'w wolf_cms" and p :: "byte list \<Rightarrow> DecodedCert option" and H :: "byte list \<Rightarrow> byte list"
  assumes allocates: "fst (cm_malloc env w)"
    and parses: "p der = Some dc \<Longrightarrow> fst (cm_ParseCert env der w) = (0, dc)"
    and refuses: "p der = None \<Longrightarrow> fst (fst (cm_ParseCert env der w)) \<notin> {0, MEMORY_E (cm_codes env)}"
    and digests: "cm_Sha256Hash env b = (0, H b)"
    and error_code: "MEMORY_E (cm_codes env) \<noteq> 0"
begin

lemma extract_spki_eq:
  "\<exists>w'. wolfcert_extract_spki env der False w = (case cert_spki p der of Some k \<Rightarrow> Ok k | None \<Rightarrow> Err WOLFCERT_ERR_PARSE, w')"
proof -
  obtain g w1 where m: "cm_malloc env w = (g, w1)" by (rule prod.exhaust)
  obtain rc dc w2 where c: "cm_ParseCert env der w1 = ((rc, dc), w2)" by (metis surj_pair)
  obtain g' w3 where m': "cm_malloc env w2 = (g', w3)" by (rule prod.exhaust)
  have "g" "g'" using allocates m m' by (metis fst_conv)+
  then show ?thesis using m c m' parses [of der _ w1] refuses [of der w1] error_code
    by (cases "p der") (auto simp: wolfcert_extract_spki_def cert_spki_def cert_spki_def)
qed

lemma candidate_parse_eq: "\<exists>w'. ra_candidate_parse env der w = ((WOLFCERT_OK, cert_candidate p H der), w')"
proof -
  obtain g w1 where m: "cm_malloc env w = (g, w1)" by (rule prod.exhaust)
  obtain rc dc w2 where c: "cm_ParseCert env der w1 = ((rc, dc), w2)" by (metis surj_pair)
  have "g" using allocates m by (metis fst_conv)
  then show ?thesis using m c parses [of der _ w1] refuses [of der w1] error_code digests
    by (cases "p der") (auto simp: ra_candidate_parse_def cert_candidate_def)
qed

lemma parse_all_eq: "\<exists>w'. ra_parse_all env ders w = ((WOLFCERT_OK, map (cert_candidate p H) ders), w')"
proof (induction ders arbitrary: w)
  case (Cons der ders)
  obtain w1 where "ra_candidate_parse env der w = ((WOLFCERT_OK, cert_candidate p H der), w1)" using candidate_parse_eq by blast
  then show ?case using Cons.IH [of w1] by auto
qed simp

end

section \<open>The signer of a reply\<close>

text \<open>The certificates of a bundle: elements from the start up to the first byte that does not begin one.\<close>

function bundle_certs :: "byte list \<Rightarrow> byte list list" where
  "bundle_certs b = (if b = [] \<or> der_seq_len b = 0 then [] else take (der_seq_len b) b # bundle_certs (drop (der_seq_len b) b))"
  by pat_completeness auto
termination
  by (relation "measure length") auto

declare bundle_certs.simps [simp del]

context pure_parser
begin

lemma rep_signer_loop_eq:
  "fst (rep_signer_loop env k b w) = (if Some k \<in> cert_spki p ` set (bundle_certs b) then WOLFCERT_OK else WOLFCERT_ERR_AUTH)"
proof (induction b arbitrary: w rule: bundle_certs.induct)
  case (1 b)
  show ?case
  proof (cases "b = [] \<or> der_seq_len b = 0")
    case True
    then show ?thesis by (subst rep_signer_loop.simps, subst bundle_certs.simps) (auto simp: Let_def)
  next
    case False
    let ?c = "take (der_seq_len b) b" and ?r = "drop (der_seq_len b) b"
    obtain w' where e: "wolfcert_extract_spki env ?c False w = (case cert_spki p ?c of Some k \<Rightarrow> Ok k | None \<Rightarrow> Err WOLFCERT_ERR_PARSE, w')"
      using extract_spki_eq by blast
    have b: "bundle_certs b = ?c # bundle_certs ?r" using False by (subst bundle_certs.simps) simp
    have "fst (rep_signer_loop env k b w) = (if cert_spki p ?c = Some k then WOLFCERT_OK else fst (rep_signer_loop env k ?r w'))"
      using False e by (subst rep_signer_loop.simps) (auto simp: Let_def split: option.splits)
    then show ?thesis using 1(1) [OF False, of w'] unfolding b by auto
  qed
qed

lemma verify_rep_signer_eq:
  "fst (wolfcert_scep_verify_rep_signer env (Some signer) (Some bundle) w) =
     (if cert_spki p signer \<noteq> None \<and> cert_spki p signer \<in> cert_spki p ` set (bundle_certs bundle) then WOLFCERT_OK else WOLFCERT_ERR_AUTH)"
proof -
  obtain w' where "wolfcert_extract_spki env signer False w = (case cert_spki p signer of Some k \<Rightarrow> Ok k | None \<Rightarrow> Err WOLFCERT_ERR_PARSE, w')"
    using extract_spki_eq by blast
  then show ?thesis using rep_signer_loop_eq [of _ "bundle" w']
    by (cases "cert_spki p signer") (auto simp: wolfcert_scep_verify_rep_signer_def)
qed

end

text \<open>The small library's parser.\<close>

definition small_parse :: "byte list \<Rightarrow> DecodedCert option" where
  "small_parse d = (if length d = 7 then Some (small_decoded d) else None)"

interpretation small_parser: pure_parser small_cms small_parse id
  by unfold_locales (auto simp: small_cms_def plain_cms_def small_parse_def split: if_splits)

text \<open>
  C17. A reply is accepted exactly from a holder of a key of the CA bundle: with a parser that works,
  \<open>wolfcert_scep_verify_rep_signer\<close> returns OK if the signer's certificate has the same public key as
  one of the certificates of the bundle, and an authentication error in every other case; a reply
  without a signer or without a bundle is refused.
\<close>

theorem rep_signer_iff:
  assumes "pure_parser env p H"
  shows "fst (wolfcert_scep_verify_rep_signer env signer bundle w) =
    (if \<exists>s b k. signer = Some s \<and> bundle = Some b \<and> cert_spki p s = Some k \<and> (\<exists>c \<in> set (bundle_certs b). cert_spki p c = Some k)
     then WOLFCERT_OK else WOLFCERT_ERR_AUTH)"
proof (cases "\<exists>s b. signer = Some s \<and> bundle = Some b")
  case True
  then show ?thesis using pure_parser.verify_rep_signer_eq [OF assms] by (force simp: image_iff)
next
  case False
  then show ?thesis by (cases signer; cases "bundle") (auto simp: wolfcert_scep_verify_rep_signer_def)
qed

theorem rep_signer_iff_witness:
  "fst (wolfcert_scep_verify_rep_signer small_cms (Some [0x30, 5, 0, 3, 3, 9, 0])
      (Some ([0x30, 5, 1, 7, 7, 8, 0] @ [0x30, 5, 1, 6, 7, 9, 0])) 0) = WOLFCERT_OK"
proof -
  have "cert_spki small_parse [0x30, 5, 0, 3, 3, 9, 0] = Some [9] \<and>
     (\<exists>c \<in> set (bundle_certs ([0x30, 5, 1, 7, 7, 8, 0] @ [0x30, 5, 1, 6, 7, 9, 0])). cert_spki small_parse c = Some [9])" by code_simp
  then show ?thesis using rep_signer_iff [OF small_parser.pure_parser_axioms] by simp
qed

section \<open>The certificate that receives the request\<close>

lemma ra_split_eq:
  "ra_split m b n =
     (if b \<noteq> [] \<and> der_seq_len b = 0 \<and> n = 0 then Err WOLFCERT_ERR_PARSE
      else if bundle_certs b \<noteq> [] \<and> n + length (bundle_certs b) > m then Err WOLFCERT_ERR_BAD_ARG
      else Ok (bundle_certs b))"
proof (induction m b n rule: ra_split.induct)
  case (1 m b n)
  show ?case
  proof (cases "b = [] \<or> der_seq_len b = 0")
    case True
    then show ?thesis by (subst ra_split.simps, subst bundle_certs.simps) (auto simp: Let_def bundle_certs.simps)
  next
    case False
    have b: "bundle_certs b = take (der_seq_len b) b # bundle_certs (drop (der_seq_len b) b)"
      using False by (subst bundle_certs.simps) simp
    show ?thesis using False 1 by (subst ra_split.simps) (auto simp: Let_def b split: if_splits)
  qed
qed

lemma ra_best_Max: "ra_best cs = Max (set (-1 # map ra_rank cs))"
proof -
  have "foldl (\<lambda>best c. if ra_rank c > best then ra_rank c else best) m cs = fold max (map ra_rank cs) m" for m
    by (induction cs arbitrary: m) (simp_all add: max_def max.commute)
  then show ?thesis by (simp only: ra_best_def Max.set_eq_fold)
qed

lemma ra_best_bound: "c \<in> set cs \<Longrightarrow> ra_rank c \<le> ra_best cs"
  by (simp add: ra_best_Max del: Max_insert)

lemma ra_best_ex: "ra_best cs \<noteq> -1 \<Longrightarrow> \<exists>c \<in> set cs. ra_rank c = ra_best cs"
  using Max_in [of "set (-1 # map ra_rank cs)"] by (auto simp: ra_best_Max simp del: Max_insert)

lemma ra_choices_sound:
  assumes "c \<in> set (ra_choices cs)"
  shows "c \<in> set cs" "ra_rank c = ra_best cs" "ra_best cs \<ge> 0"
    and "ra_best cs = 0 \<Longrightarrow> d \<in> set cs \<Longrightarrow> ra_parsed d \<Longrightarrow> ra_is_ca d \<Longrightarrow> \<not> ra_self_issued d \<Longrightarrow> ra_issuer d = ra_subject c \<Longrightarrow> d = c"
proof -
  obtain i where i: "i < length cs" "c = cs ! i" "ra_keep1 cs ! i"
    using assms by (auto simp: ra_choices_def ra_keep2_def)
  then show "c \<in> set cs" "ra_rank c = ra_best cs" "ra_best cs \<ge> 0" by (auto simp: ra_keep1_def)
  assume "ra_best cs = 0" and d: "d \<in> set cs" "ra_parsed d" "ra_is_ca d" "\<not> ra_self_issued d" "ra_issuer d = ra_subject c"
  then have "\<not> ra_candidate_issued_ca i cs" using i by (simp add: ra_keep1_def)
  moreover obtain j where "j < length cs" "d = cs ! j" using d(1) by (auto simp: in_set_conv_nth)
  ultimately show "d = c" using d i by (auto simp: ra_candidate_issued_ca_def list_ex_iff)
qed

lemma ra_choices_best:
  assumes "ra_best cs > 0"
  shows "set (ra_choices cs) = {c \<in> set cs. ra_rank c = ra_best cs}"
proof -
  have k: "ra_keep1 cs ! i \<longleftrightarrow> ra_rank (cs ! i) = ra_best cs" if "i < length cs" for i using that assms by (simp add: ra_keep1_def)
  have "\<not> ra_any_sub cs" using assms by (auto simp: ra_any_sub_def list_ex_iff)
  then have "ra_keep2 cs ! i \<longleftrightarrow> ra_rank (cs ! i) = ra_best cs" if "i < length cs" for i using that k by (simp add: ra_keep2_def)
  then show ?thesis using assms by (auto simp: ra_choices_def in_set_conv_nth)
qed

context pure_parser
begin

lemma candidate_rank [simp]: "ra_der (cert_candidate p H c) = c"
  "ra_rank (cert_candidate p H c) = (case p c of None \<Rightarrow> -1 | Some dc \<Rightarrow> ra_rank_of dc)"
  by (simp_all add: cert_candidate_def ra_blank_def split: option.splits)

lemma select_ra_cert_eq:
  assumes "b \<noteq> []" "der_seq_len b \<noteq> 0" "length (bundle_certs b) \<le> cm_MAX_PKCS7_CERTS env"
  shows "fst (wolfcert_scep_select_ra_cert env b w) = map_sum id ra_der (ra_pick (map (cert_candidate p H) (bundle_certs b)))"
proof -
  obtain g w1 where m: "cm_malloc env w = (g, w1)" by (rule prod.exhaust)
  then have "g" using allocates by (metis fst_conv)
  moreover obtain w2 where "ra_parse_all env (bundle_certs b) w1 = ((WOLFCERT_OK, map (cert_candidate p H) (bundle_certs b)), w2)"
    using parse_all_eq by blast
  ultimately show ?thesis using assms m by (simp add: wolfcert_scep_select_ra_cert_def ra_split_eq)
qed

lemma ra_pick_sound:
  assumes "ra_pick (map (cert_candidate p H) cs) = Ok q"
  shows "\<exists>cert dc. q = cert_candidate p H cert \<and> cert \<in> set cs \<and> p cert = Some dc \<and> 0 \<le> ra_rank_of dc \<and>
    (\<forall>c \<in> set cs. \<forall>d. p c = Some d \<longrightarrow> ra_rank_of d \<le> ra_rank_of dc \<and>
       (0 < ra_rank_of dc \<and> ra_rank_of d = ra_rank_of dc \<longrightarrow> H (dc_publicKey d) = H (dc_publicKey dc)) \<and>
       (ra_rank_of dc = 0 \<and> dc_isCA d \<and> dc_subjectHash d \<noteq> dc_issuerHash d \<longrightarrow> dc_issuerHash d \<noteq> dc_subjectHash dc))"
proof -
  let ?cs = "map (cert_candidate p H) cs"
  have q: "q \<in> set (ra_choices ?cs)" "\<forall>c \<in> set (ra_choices ?cs). ra_key c = ra_key q"
    using assms by (auto simp: ra_pick_def list_all_iff split: list.splits if_splits)
  note s = ra_choices_sound [OF q(1)]
  obtain cert where c: "cert \<in> set cs" "q = cert_candidate p H cert" using s(1) by auto
  obtain dc where dc: "p cert = Some dc" using s(2,3) c by (cases "p cert") auto
  have r: "ra_rank_of dc = ra_best ?cs" using s(2) c dc by simp
  show ?thesis
  proof (intro exI conjI ballI allI impI)
    fix x d
    assume x: "x \<in> set cs" "p x = Some d"
    then have xm: "cert_candidate p H x \<in> set ?cs" by simp
    then show "ra_rank_of d \<le> ra_rank_of dc" using ra_best_bound [of "cert_candidate p H x" ?cs] x r by simp
    {
      assume "0 < ra_rank_of dc \<and> ra_rank_of d = ra_rank_of dc"
      then have "cert_candidate p H x \<in> set (ra_choices ?cs)" using ra_choices_best [of ?cs] xm x r by auto
      then show "H (dc_publicKey d) = H (dc_publicKey dc)" using q(2) c dc x by (fastforce simp: cert_candidate_def)
    next
      assume z: "ra_rank_of dc = 0 \<and> dc_isCA d \<and> dc_subjectHash d \<noteq> dc_issuerHash d"
      show "dc_issuerHash d \<noteq> dc_subjectHash dc"
      proof
        assume i: "dc_issuerHash d = dc_subjectHash dc"
        have "cert_candidate p H x = q" using s(4) [OF _ xm] z i r x c dc by (simp add: cert_candidate_def)
        then have "x = cert" using c(2) candidate_rank(1) by metis
        then show False using z i x dc by simp
      qed
    }
  qed (use c dc s(3) r in simp_all)
qed

lemma ra_pick_complete:
  assumes "c \<in> set cs" "p c = Some d" "0 < ra_rank_of d"
    and "\<And>c1 c2 d1 d2. \<lbrakk>c1 \<in> set cs; c2 \<in> set cs; p c1 = Some d1; p c2 = Some d2;
       ra_rank_of d1 = ra_rank_of d2; \<forall>c \<in> set cs. \<forall>d. p c = Some d \<longrightarrow> ra_rank_of d \<le> ra_rank_of d1\<rbrakk> \<Longrightarrow>
       H (dc_publicKey d1) = H (dc_publicKey d2)"
  shows "\<exists>q. ra_pick (map (cert_candidate p H) cs) = Ok q"
proof -
  let ?cs = "map (cert_candidate p H) cs"
  have best: "0 < ra_best ?cs" using ra_best_bound [of "cert_candidate p H c" ?cs] assms(1-3) by simp
  note ch = ra_choices_best [OF best]
  have "ra_best ?cs \<noteq> -1" using best by simp
  then obtain x where "x \<in> set ?cs" "ra_rank x = ra_best ?cs" using ra_best_ex [of ?cs] by blast
  then obtain y ys where y: "ra_choices ?cs = y # ys" using ch by (cases "ra_choices ?cs") auto
  have parsed: "\<exists>d. p e = Some d \<and> ra_rank_of d = ra_best ?cs" if "cert_candidate p H e \<in> set (ra_choices ?cs)" for e
    using that ch best by (cases "p e") auto
  have same: "ra_key u = ra_key v" if uv: "u \<in> set (ra_choices ?cs)" "v \<in> set (ra_choices ?cs)" for u v
  proof -
    obtain e f where e: "e \<in> set cs" "u = cert_candidate p H e" and f: "f \<in> set cs" "v = cert_candidate p H f" using uv ch by auto
    obtain d1 d2 where d: "p e = Some d1" "ra_rank_of d1 = ra_best ?cs" "p f = Some d2" "ra_rank_of d2 = ra_best ?cs"
      using parsed uv e f by blast
    have m: "\<forall>c \<in> set cs. \<forall>d. p c = Some d \<longrightarrow> ra_rank_of d \<le> ra_rank_of d1"
      using ra_best_bound [of "cert_candidate p H _" ?cs] d(2) by fastforce
    show ?thesis using assms(4) [OF e(1) f(1) d(1,3) _ m] d e f by (simp add: cert_candidate_def)
  qed
  have "list_all (\<lambda>c. ra_key c = ra_key y) ys"
    unfolding list_all_iff by (intro ballI same) (simp_all add: y)
  then show ?thesis using y by (simp add: ra_pick_def)
qed

end



end
