(* ===== verification/Scep_Client.thy ===== *)
theory Scep_Client
  imports Client_Script Scep_Trust
begin

text \<open>
  The SCEP client, \<open>src/scep/scep_client.c\<close>: capabilities and CA certificates, the PKIOperations (PKCSReq,
  RenewalReq, CertPoll, GetCert), the validation of the CertRep, the session that runs them over one
  HTTP session with at most one request in flight, and the one-shot calls.

  The caller's outputs are one object \<open>o\<close> with a part for each kind of output; the addresses in the
  call say which of them the caller gave. A blocking request uses the caller's buffers and a
  non-blocking one copies of them; both are values here, and the copy may fail.
\<close>

section \<open>Results and the library\<close>

record WolfCertScepCaps =
  cp_post_pki_operation :: bool
  cp_renewal :: bool
  cp_sha256 :: bool
  cp_sha384 :: bool
  cp_sha512 :: bool
  cp_aes :: bool
  cp_scep_standard :: bool
  cp_get_next_ca_cert :: bool

datatype WolfCertScepStatus =
  WOLFCERT_SCEP_STATUS_UNSET | WOLFCERT_SCEP_STATUS_SUCCESS | WOLFCERT_SCEP_STATUS_FAILURE | WOLFCERT_SCEP_STATUS_PENDING

record WolfCertScepResult =
  sr_status :: WolfCertScepStatus
  sr_cert_pem :: "byte list"
  sr_transaction_id :: "byte list option"
  sr_fail_info :: int

definition wolfcert_scep_result_free :: "WolfCertScepResult option \<Rightarrow> WolfCertScepResult option" where
  "wolfcert_scep_result_free r =
     (case r of None \<Rightarrow> None | Some r \<Rightarrow> Some (r\<lparr>sr_cert_pem := [], sr_transaction_id := None, sr_fail_info := -1\<rparr>))"

text \<open>
  What the client takes from wolfSSL beyond the CMS functions. \<open>se_self\<close> has the certificate functions
  signing with the given key, \<open>se_RsaKeyToDer\<close> gets no buffer or one of the given size, and a digest the
  build does not have is \<open>None\<close>.
\<close>

record ('k, 'w) scep_env =
  se_client :: "'w client_env"
  se_self :: "'k \<Rightarrow> 'w self_lib"
  se_RNG_GenerateBlock :: "nat \<Rightarrow> 'w \<Rightarrow> (int \<times> byte list) \<times> 'w"
  se_RsaKeyToDer :: "'k \<Rightarrow> nat option \<Rightarrow> int \<times> byte list"
  se_PemToDer :: "byte list \<Rightarrow> int \<times> byte list option"
  se_ShaHash :: "(byte list \<Rightarrow> int \<times> byte list) option"
  se_Sha512Hash :: "(byte list \<Rightarrow> int \<times> byte list) option"
  se_SHA384 :: bool
  se_AES_256_CBC :: bool
  se_DES3 :: bool

abbreviation se_cms :: "('k, 'w) scep_env \<Rightarrow> 'w wolf_cms" where
  "se_cms env \<equiv> ce_cms (se_client env)"

abbreviation se_alloc :: "('k, 'w) scep_env \<Rightarrow> 'w \<Rightarrow> mem \<times> 'w" where
  "se_alloc env \<equiv> ce_alloc (se_client env)"

abbreviation se_err :: "('k, 'w) scep_env \<Rightarrow> int \<Rightarrow> wc_rc" where
  "se_err env rc \<equiv> cms_err (se_cms env) rc"

text \<open>The bytes of a buffer that may be \<open>NULL\<close>, with its length 0 then.\<close>

definition buf_bytes :: "byte list option \<Rightarrow> byte list" where
  "buf_bytes b = (case b of None \<Rightarrow> [] | Some x \<Rightarrow> x)"

section \<open>Requests\<close>

definition append_query :: "mem \<Rightarrow> cstring \<Rightarrow> cstring \<Rightarrow> cstring option" where
  "append_query mem base op =
     (let has_q = (strchr base b_quest \<noteq> None) in
      if \<not> mem 0 then None
      else Some (base @ (if has_q then lit ''&'' else lit ''?'') @ lit ''operation='' @ op))"

definition url_unreserved :: "byte \<Rightarrow> bool" where
  "url_unreserved c \<longleftrightarrow>
     (b_A \<le> c \<and> c \<le> b_Z) \<or> (b_a \<le> c \<and> c \<le> b_z) \<or> (b_0 \<le> c \<and> c \<le> b_9) \<or>
     c = b_minus \<or> c = 95 \<or> c = b_dot \<or> c = 126"

definition url_encode :: "mem \<Rightarrow> byte list \<Rightarrow> cstring option" where
  "url_encode mem inp =
     (if \<not> mem 0 then None
      else Some (concat (map (\<lambda>c. if url_unreserved c then [c] else b_percent # wolfcert_hex_encode [c] True) inp)))"

definition wolfcert_scep_build_getca_url :: "mem \<Rightarrow> cstring \<Rightarrow> cstring \<Rightarrow> cstring option \<Rightarrow> cstring option" where
  "wolfcert_scep_build_getca_url mem base op ca_id =
     (case append_query mem base op of
        None \<Rightarrow> None
      | Some head \<Rightarrow>
          if ca_id = None \<or> ca_id = Some [] then Some head
          else (case url_encode (\<lambda>i. mem (i + 1)) (the ca_id) of
                  None \<Rightarrow> None
                | Some enc \<Rightarrow> if \<not> mem 2 then None else Some (head @ lit ''&message='' @ enc)))"

definition WOLFCERT_SCEP_MAX_GET_URL :: nat where
  "WOLFCERT_SCEP_MAX_GET_URL = 8 * 1024"

text \<open>Allocations 0 to 3: the base64 text, its encoding, the URL without and with the message.\<close>

definition wolfcert_scep_build_pki_get_url ::
  "wc_codes \<Rightarrow> b64_fun \<Rightarrow> mem \<Rightarrow> cstring \<Rightarrow> byte list option \<Rightarrow> cstring wc_result" where
  "wolfcert_scep_build_pki_get_url wc b64 mem base pki_msg =
     (case wolfcert_base64_encode wc b64 mem pki_msg of
        Inl rc \<Rightarrow> Err rc
      | Inr t \<Rightarrow>
          (case url_encode (\<lambda>i. mem (i + 1)) t of
             None \<Rightarrow> Err WOLFCERT_ERR_MEMORY
           | Some enc \<Rightarrow>
               (case append_query (\<lambda>i. mem (i + 2)) base (lit ''PKIOperation'') of
                  None \<Rightarrow> Err WOLFCERT_ERR_MEMORY
                | Some head \<Rightarrow>
                    let need = length head + length (lit ''&message='') + length enc + 1 in
                    if need > WOLFCERT_SCEP_MAX_GET_URL then Err WOLFCERT_ERR_UNSUPPORTED
                    else if \<not> mem 3 then Err WOLFCERT_ERR_MEMORY
                    else Ok (head @ lit ''&message='' @ enc))))"

definition scep_build_transport ::
  "wc_codes \<Rightarrow> b64_fun \<Rightarrow> mem \<Rightarrow> cstring \<Rightarrow> WolfCertScepCaps option \<Rightarrow> byte list option \<Rightarrow> (cstring \<times> bool) wc_result" where
  "scep_build_transport wc b64 mem server_url caps pki_msg =
     (let use_post = (case caps of None \<Rightarrow> True | Some c \<Rightarrow> cp_post_pki_operation c) in
      if use_post
      then (case append_query mem server_url (lit ''PKIOperation'') of
              None \<Rightarrow> Err WOLFCERT_ERR_MEMORY
            | Some url \<Rightarrow> Ok (url, use_post))
      else (case wolfcert_scep_build_pki_get_url wc b64 mem server_url pki_msg of
              Inl rc \<Rightarrow> Err rc
            | Inr url \<Rightarrow> Ok (url, use_post)))"

section \<open>Capabilities and CA certificates\<close>

text \<open>One line of the body at a time; \<open>body\<close> is what is left from the index of the loop.\<close>

function has_cap :: "byte list \<Rightarrow> cstring \<Rightarrow> bool" where
  "has_cap body needle =
     (if body = [] then False
      else let line = takeWhile (\<lambda>b. b \<noteq> b_LF) body;
               t = (if line \<noteq> [] \<and> last line = b_CR then butlast line else line) in
           if length t = length needle \<and> wolfcert_ascii_ncasecmp t needle (length needle) = 0 then True
           else has_cap (drop (length line + 1) body) needle)"
  by pat_completeness auto
termination
  by (relation "measure (\<lambda>(body, _). length body)") auto

declare has_cap.simps [simp del]

definition scep_finish_caps :: "WolfCertHttpResponse \<Rightarrow> WolfCertScepCaps" where
  "scep_finish_caps resp =
     (let b = rs_body resp;
          out = \<lparr>cp_post_pki_operation = has_cap b (lit ''POSTPKIOperation''), cp_renewal = has_cap b (lit ''Renewal''),
            cp_sha256 = has_cap b (lit ''SHA-256''), cp_sha384 = has_cap b (lit ''SHA-384''), cp_sha512 = has_cap b (lit ''SHA-512''),
            cp_aes = has_cap b (lit ''AES''), cp_scep_standard = has_cap b (lit ''SCEPStandard''),
            cp_get_next_ca_cert = has_cap b (lit ''GetNextCACert'')\<rparr> in
      if cp_scep_standard out then out\<lparr>cp_post_pki_operation := True, cp_aes := True, cp_sha256 := True\<rparr> else out)"

definition ca_ra_type :: cstring where
  "ca_ra_type = lit ''application/x-x509-ca-ra-cert''"

definition is_ca_ra_type :: "cstring option \<Rightarrow> bool" where
  "is_ca_ra_type content_type =
     (case content_type of
        None \<Rightarrow> False
      | Some ct \<Rightarrow>
          if wolfcert_ascii_ncasecmp ct ca_ra_type (length ca_ra_type) = 0
          then let p = dropWhile (\<lambda>c. c = b_SP \<or> c = b_HT) (drop (length ca_ra_type) ct) in p = [] \<or> hd p = b_semi
          else False)"

definition scep_finish_ca_cert ::
  "('k, 'w) scep_env \<Rightarrow> WolfCertHttpResponse \<Rightarrow> WolfCertEncoding \<Rightarrow> 'w \<Rightarrow> byte list wc_result \<times> 'w" where
  "scep_finish_ca_cert env resp enc w =
     (let body = rs_body resp in
      if length body = 0 then (Err WOLFCERT_ERR_HTTP, w)
      else let is_p7 = (if is_ca_ra_type (rs_content_type resp) then True else wolfcert_scep_is_signed_data body) in
      if is_p7 \<and> enc = WOLFCERT_ENCODING_DER then wolfcert_pkcs7_certs_to_der (se_cms env) body w
      else if is_p7 then wolfcert_pkcs7_certs_to_pem (se_cms env) body w
      else let cap = (if enc = WOLFCERT_ENCODING_DER then length body else length body * 2 + 256) in
      case se_alloc env w of (mem, w) \<Rightarrow>
      if \<not> mem 0 then (Err WOLFCERT_ERR_MEMORY, w)
      else if enc = WOLFCERT_ENCODING_DER then (Ok body, w)
      else case cm_DerToPem (se_cms env) body cap of (n, buf) \<Rightarrow>
      if n \<le> 0 then (Err WOLFCERT_ERR_CRYPTO, w) else (Ok (take (nat n) buf), w))"

text \<open>A value outside the enumeration is possible in C, and is refused.\<close>

datatype WolfCertScepFpAlg =
  WOLFCERT_SCEP_FP_AUTO | WOLFCERT_SCEP_FP_SHA256 | WOLFCERT_SCEP_FP_SHA1 | WOLFCERT_SCEP_FP_SHA512 | Other_Fp int

definition fp_digest ::
  "('k, 'w) scep_env \<Rightarrow> WolfCertScepFpAlg \<Rightarrow> (nat \<times> (byte list \<Rightarrow> int \<times> byte list)) option" where
  "fp_digest env alg =
     (case alg of
        WOLFCERT_SCEP_FP_SHA256 \<Rightarrow> Some (32, cm_Sha256Hash (se_cms env))
      | WOLFCERT_SCEP_FP_SHA1 \<Rightarrow> map_option (\<lambda>f. (20, f)) (se_ShaHash env)
      | WOLFCERT_SCEP_FP_SHA512 \<Rightarrow> map_option (\<lambda>f. (64, f)) (se_Sha512Hash env)
      | _ \<Rightarrow> None)"

definition wolfcert_scep_verify_ca_fingerprint ::
  "('k, 'w) scep_env \<Rightarrow> byte list \<Rightarrow> byte list \<Rightarrow> WolfCertScepFpAlg \<Rightarrow> wc_rc" where
  "wolfcert_scep_verify_ca_fingerprint env ca_der expected alg =
     (if length ca_der = 0 \<or> length expected = 0 then WOLFCERT_ERR_BAD_ARG
      else case (if alg = WOLFCERT_SCEP_FP_AUTO
                 then (if length expected = 20 then Some WOLFCERT_SCEP_FP_SHA1
                       else if length expected = 32 then Some WOLFCERT_SCEP_FP_SHA256
                       else if length expected = 64 then Some WOLFCERT_SCEP_FP_SHA512 else None)
                 else Some alg) of
        None \<Rightarrow> WOLFCERT_ERR_BAD_ARG
      | Some alg \<Rightarrow>
          (case fp_digest env alg of
             None \<Rightarrow> WOLFCERT_ERR_UNSUPPORTED
           | Some (digest_len, hash) \<Rightarrow>
               (case hash ca_der of (rc, digest) \<Rightarrow>
                  if rc \<noteq> 0 then se_err env rc
                  else if length expected \<noteq> digest_len then WOLFCERT_ERR_BAD_ARG
                  else if expected \<noteq> take digest_len digest then WOLFCERT_ERR_AUTH
                  else WOLFCERT_OK)))"

section \<open>Building a request\<close>

text \<open>The values of the enumerations that the switch does not name are its default.\<close>

definition wolfcert_scep_pick_hash_oid ::
  "('k, 'w) scep_env \<Rightarrow> WolfCertScepCaps option \<Rightarrow> WolfCertScepSigningHash \<Rightarrow> hash_oid wc_result" where
  "wolfcert_scep_pick_hash_oid env caps want =
     (case want of
        WOLFCERT_SCEP_HASH_SHA256 \<Rightarrow> Ok SHA256h
      | WOLFCERT_SCEP_HASH_SHA384 \<Rightarrow> if se_SHA384 env then Ok SHA384h else Err WOLFCERT_ERR_UNSUPPORTED
      | WOLFCERT_SCEP_HASH_SHA512 \<Rightarrow> if se_Sha512Hash env \<noteq> None then Ok SHA512h else Err WOLFCERT_ERR_UNSUPPORTED
      | _ \<Rightarrow>
          (case caps of
             None \<Rightarrow> Ok SHA256h
           | Some c \<Rightarrow>
               if se_Sha512Hash env \<noteq> None \<and> cp_sha512 c then Ok SHA512h
               else if se_SHA384 env \<and> cp_sha384 c then Ok SHA384h
               else Ok SHA256h))"

definition scep_pick_enc_oid ::
  "('k, 'w) scep_env \<Rightarrow> WolfCertScepCaps option \<Rightarrow> WolfCertScepContentCipher \<Rightarrow> enc_oid wc_result" where
  "scep_pick_enc_oid env caps content_cipher =
     (case content_cipher of
        WOLFCERT_SCEP_CIPHER_AES128 \<Rightarrow> Ok AES128CBCb
      | WOLFCERT_SCEP_CIPHER_AES256 \<Rightarrow> if se_AES_256_CBC env then Ok AES256CBCb else Err WOLFCERT_ERR_UNSUPPORTED
      | WOLFCERT_SCEP_CIPHER_DES3 \<Rightarrow> if se_DES3 env then Ok DES3b else Err WOLFCERT_ERR_UNSUPPORTED
      | _ \<Rightarrow>
          if (case caps of None \<Rightarrow> False | Some c \<Rightarrow> cp_aes c) then Ok AES128CBCb
          else if se_DES3 env then Ok DES3b else Err WOLFCERT_ERR_UNSUPPORTED)"

definition scep_renewal_msg_type :: "WolfCertScepRenewalMsgType \<Rightarrow> cstring" where
  "scep_renewal_msg_type m = (if m = WOLFCERT_SCEP_RENEWAL_MSG_PKCS_REQ then lit ''19'' else lit ''17'')"

definition SCEP_TXID_RAND_SZ :: nat where
  "SCEP_TXID_RAND_SZ = 16"

record ScepTxidSel =
  ts_id :: "byte list option"
  ts_mode :: WolfCertScepTxidMode

text \<open>Allocation 0 is the decoded certificate, allocation 1 the identifier.\<close>

definition derive_txid_pubkey :: "('k, 'w) scep_env \<Rightarrow> byte list \<Rightarrow> 'w \<Rightarrow> byte list wc_result \<times> 'w" where
  "derive_txid_pubkey env signer_cert w =
     (case se_alloc env w of (mem, w) \<Rightarrow>
      if \<not> mem 0 then (Err WOLFCERT_ERR_MEMORY, w)
      else case cm_ParseCert (se_cms env) signer_cert w of ((rc, dc), w) \<Rightarrow>
      if rc \<noteq> 0 then (Err (se_err env rc), w)
      else case cm_Sha256Hash (se_cms env) (dc_publicKey dc) of (rc, digest) \<Rightarrow>
      if rc \<noteq> 0 then (Err (se_err env rc), w)
      else if \<not> mem 1 then (Err WOLFCERT_ERR_MEMORY, w)
      else (Ok (wolfcert_hex_encode (take 32 digest) True), w))"

definition scep_build_txid :: "('k, 'w) scep_env \<Rightarrow> ScepTxidSel \<Rightarrow> byte list \<Rightarrow> 'w \<Rightarrow> byte list wc_result \<times> 'w" where
  "scep_build_txid env sel signer_cert w =
     (case ts_id sel of
        Some txid \<Rightarrow>
          (case se_alloc env w of (mem, w) \<Rightarrow> if \<not> mem 0 then (Err WOLFCERT_ERR_MEMORY, w) else (Ok txid, w))
      | None \<Rightarrow>
          if ts_mode sel = WOLFCERT_SCEP_TXID_PUBKEY_HASH then derive_txid_pubkey env signer_cert w
          else case se_RNG_GenerateBlock env SCEP_TXID_RAND_SZ w of ((rng_rc, rand_bytes), w) \<Rightarrow>
               if rng_rc \<noteq> 0 then (Err (se_err env rng_rc), w)
               else case se_alloc env w of (mem, w) \<Rightarrow>
               if \<not> mem 0 then (Err WOLFCERT_ERR_MEMORY, w)
               else (Ok (wolfcert_hex_encode (take SCEP_TXID_RAND_SZ rand_bytes) False), w))"

text \<open>A length of 0 is mapped to no error, and leaves the output \<open>NULL\<close>.\<close>

definition rsa_key_to_der :: "('k, 'w) scep_env \<Rightarrow> 'k WolfCertKey \<Rightarrow> 'w \<Rightarrow> byte list wc_result \<times> 'w" where
  "rsa_key_to_der env key w =
     (case se_RsaKeyToDer env (the (k_impl key)) None of (sz, _) \<Rightarrow>
      if sz \<le> 0 then (if se_err env sz = WOLFCERT_OK then Ok [] else Err (se_err env sz), w)
      else case se_alloc env w of (mem, w) \<Rightarrow>
      if \<not> mem 0 then (Err WOLFCERT_ERR_MEMORY, w)
      else (encoded (se_cms env) (se_RsaKeyToDer env (the (k_impl key)) (Some (nat sz))), w))"

section \<open>A certificate by issuer and serial\<close>

definition BEGIN_CERT :: "byte list" where
  "BEGIN_CERT = lit ''-----BEGIN CERTIFICATE-----''"

definition cert_is :: "DecodedCert \<Rightarrow> byte list \<Rightarrow> byte list \<Rightarrow> bool" where
  "cert_is dc issuer serial \<longleftrightarrow>
     length (dc_serial dc) > 0 \<and> length (dc_serial dc) = length serial \<and> dc_serial dc = serial \<and>
     (case dc_issuerRaw dc of
        None \<Rightarrow> False
      | Some raw \<Rightarrow> length raw > 0 \<and> length raw = length issuer \<and> raw = issuer)"

text \<open>The loop from \<open>p\<close> on; its result is the value of \<open>match\<close>, with the error as an error.\<close>

function pem_has_cert_loop ::
  "('k, 'w) scep_env \<Rightarrow> byte list \<Rightarrow> byte list \<Rightarrow> byte list \<Rightarrow> 'w \<Rightarrow> bool wc_result \<times> 'w" where
  "pem_has_cert_loop env issuer serial p w =
     (if length p < length BEGIN_CERT then (Ok False, w)
      else if take (length BEGIN_CERT) p \<noteq> BEGIN_CERT then pem_has_cert_loop env issuer serial (drop 1 p) w
      else case se_alloc env w of (mem, w) \<Rightarrow>
        (case wolfcert_pem_cert_to_der (cm_codes (se_cms env)) (se_PemToDer env) mem p of
           Inl rc \<Rightarrow>
             if rc = WOLFCERT_ERR_MEMORY then (Err WOLFCERT_ERR_MEMORY, w)
             else pem_has_cert_loop env issuer serial (drop (length BEGIN_CERT) p) w
         | Inr der \<Rightarrow>
             (case cm_ParseCert (se_cms env) der w of ((rc, dc), w) \<Rightarrow>
                if rc = MEMORY_E (cm_codes (se_cms env)) then (Err WOLFCERT_ERR_MEMORY, w)
                else if rc = 0 \<and> cert_is dc issuer serial then (Ok True, w)
                else pem_has_cert_loop env issuer serial (drop (length BEGIN_CERT) p) w)))"
  by pat_completeness auto
termination
  by (relation "measure (\<lambda>(_, _, _, p, _). length p)") (auto simp: BEGIN_CERT_def lit_def)

declare pem_has_cert_loop.simps [simp del]

definition wolfcert_scep_pem_has_cert ::
  "('k, 'w) scep_env \<Rightarrow> byte list \<Rightarrow> byte list \<Rightarrow> byte list \<Rightarrow> 'w \<Rightarrow> bool wc_result \<times> 'w" where
  "wolfcert_scep_pem_has_cert env pem issuer serial w =
     (if length pem < length BEGIN_CERT then (Ok False, w)
      else case se_alloc env w of (mem, w) \<Rightarrow>
             if \<not> mem 0 then (Err WOLFCERT_ERR_MEMORY, w) else pem_has_cert_loop env issuer serial pem w)"

section \<open>Calls\<close>

datatype scep_session_op =
  SCEP_OP_GET_CA_CAPS | SCEP_OP_GET_CA_CERT | SCEP_OP_GET_NEXT_CA_CERT
  | SCEP_OP_PKCS_REQ | SCEP_OP_RENEWAL | SCEP_OP_GET_CERT_INITIAL | SCEP_OP_GET_CERT

text \<open>\<open>op >= SCEP_OP_PKCS_REQ\<close>.\<close>

definition scep_is_pki :: "scep_session_op \<Rightarrow> bool" where
  "scep_is_pki op \<longleftrightarrow> op \<notin> {SCEP_OP_GET_CA_CAPS, SCEP_OP_GET_CA_CERT, SCEP_OP_GET_NEXT_CA_CERT}"

record 'k ScepCall =
  sc_caps :: "WolfCertScepCaps option"
  sc_ra_cert :: "byte list option"
  sc_ca_bundle :: "byte list option"
  sc_cert :: "byte list option"
  sc_key :: "'k WolfCertKey option"
  sc_csr :: "byte list option"
  sc_txid :: "byte list option"
  sc_serial :: "byte list option"
  sc_caps_out :: "nat option"
  sc_buf_out :: "nat option"
  sc_res_out :: "nat option"
  sc_op :: scep_session_op
  sc_enc :: WolfCertEncoding

text \<open>What the caller's addresses hold.\<close>

record scep_out =
  co_caps :: WolfCertScepCaps
  co_buf :: "byte list"
  co_res :: WolfCertScepResult

definition scep_call_out :: "'k ScepCall \<Rightarrow> nat option" where
  "scep_call_out c =
     (if sc_res_out c \<noteq> None then sc_res_out c else if sc_buf_out c \<noteq> None then sc_buf_out c else sc_caps_out c)"

definition given :: "byte list option \<Rightarrow> bool" where
  "given b \<longleftrightarrow> (case b of None \<Rightarrow> False | Some x \<Rightarrow> length x > 0)"

definition scep_args_ok :: "'k ScepCall \<Rightarrow> bool" where
  "scep_args_ok c =
     (case sc_op c of
        SCEP_OP_GET_CA_CAPS \<Rightarrow> sc_caps_out c \<noteq> None
      | SCEP_OP_GET_CA_CERT \<Rightarrow>
          sc_buf_out c \<noteq> None \<and> (sc_enc c = WOLFCERT_ENCODING_PEM \<or> sc_enc c = WOLFCERT_ENCODING_DER)
      | SCEP_OP_GET_NEXT_CA_CERT \<Rightarrow>
          sc_buf_out c \<noteq> None \<and> given (sc_ca_bundle c) \<and>
          (sc_enc c = WOLFCERT_ENCODING_PEM \<or> sc_enc c = WOLFCERT_ENCODING_DER)
      | SCEP_OP_PKCS_REQ \<Rightarrow> given (sc_csr c)
      | SCEP_OP_RENEWAL \<Rightarrow> given (sc_cert c) \<and> given (sc_csr c)
      | SCEP_OP_GET_CERT_INITIAL \<Rightarrow>
          (sc_cert c = None \<or> given (sc_cert c)) \<and> given (sc_csr c) \<and> given (sc_txid c) \<and>
          wolfcert_is_printable_string (buf_bytes (sc_txid c))
      | SCEP_OP_GET_CERT \<Rightarrow> given (sc_cert c) \<and> given (sc_serial c))"

definition scep_call_check :: "'k ScepCall \<Rightarrow> wc_rc" where
  "scep_call_check c =
     (let pki = scep_is_pki (sc_op c);
          ok = scep_args_ok c;
          ok = (if ok \<and> pki
                then sc_res_out c \<noteq> None \<and> given (sc_ra_cert c) \<and> given (sc_ca_bundle c) \<and> sc_key c \<noteq> None else ok) in
      if \<not> ok then WOLFCERT_ERR_BAD_ARG
      else if pki \<and> k_type (the (sc_key c)) \<noteq> WOLFCERT_KEY_RSA then WOLFCERT_ERR_UNSUPPORTED
      else WOLFCERT_OK)"

section \<open>The session\<close>

record 'w WolfCertScepSession =
  sp_http :: "'w open_session option"
  sp_server_url :: cstring
  sp_txid_mode :: WolfCertScepTxidMode
  sp_content_cipher :: WolfCertScepContentCipher
  sp_renewal_msg_type :: WolfCertScepRenewalMsgType
  sp_signing_hash :: WolfCertScepSigningHash
  sp_ca_id :: "cstring option"
  sp_in_active :: bool
  sp_in_op :: scep_session_op
  sp_in_enc :: WolfCertEncoding
  sp_in_url :: "cstring option"
  sp_in_pki :: "byte list"
  sp_in_req :: WolfCertHttpRequest
  sp_in_resp :: WolfCertHttpResponse
  sp_in_ca_bundle :: "byte list option"
  sp_in_signer :: "byte list"
  sp_in_signer_key :: "byte list"
  sp_in_txid :: "byte list option"
  sp_in_nonce :: "byte list"
  sp_in_ias :: "byte list"
  sp_in_out :: "nat option"

definition dup_buf :: "mem \<Rightarrow> byte list option \<Rightarrow> byte list option" where
  "dup_buf mem src =
     (case src of None \<Rightarrow> None | Some b \<Rightarrow> if length b = 0 then None else if \<not> mem 0 then None else Some b)"

definition scep_session_free_request :: "'w WolfCertScepSession \<Rightarrow> 'w WolfCertScepSession" where
  "scep_session_free_request s = s\<lparr>sp_in_url := None, sp_in_pki := [], sp_in_req := zero_request\<rparr>"

definition scep_session_reset :: "'w WolfCertScepSession \<Rightarrow> 'w WolfCertScepSession" where
  "scep_session_reset s =
     (scep_session_free_request s)\<lparr>sp_in_resp := empty_response, sp_in_ca_bundle := None, sp_in_signer := [],
        sp_in_signer_key := [], sp_in_txid := None, sp_in_nonce := replicate SCEP_NONCE_SZ 0, sp_in_ias := [],
        sp_in_out := None, sp_in_active := False\<rparr>"

definition wolfcert_scep_session_close :: "('k, 'w) scep_env \<Rightarrow> 'w WolfCertScepSession option \<Rightarrow> 'w \<Rightarrow> 'w" where
  "wolfcert_scep_session_close env s w =
     (case s of
        None \<Rightarrow> w
      | Some s \<Rightarrow>
          (case sp_http (scep_session_reset s) of
             None \<Rightarrow> w
           | Some os \<Rightarrow> wolfcert_http_session_close (ce_tls (se_client env)) os w))"

definition scep_new_session :: "'w WolfCertServerCfg \<Rightarrow> cstring \<Rightarrow> 'w WolfCertScepSession" where
  "scep_new_session srv server_url =
     (let o' = sv_scep srv in
      \<lparr>sp_http = None, sp_server_url = server_url, sp_txid_mode = so_txid_mode o', sp_content_cipher = so_content_cipher o',
       sp_renewal_msg_type = so_renewal_msg_type o', sp_signing_hash = so_signing_hash o', sp_ca_id = so_ca_id o',
       sp_in_active = False, sp_in_op = SCEP_OP_GET_CA_CAPS, sp_in_enc = WOLFCERT_ENCODING_PEM, sp_in_url = None,
       sp_in_pki = [], sp_in_req = zero_request, sp_in_resp = empty_response, sp_in_ca_bundle = None, sp_in_signer = [],
       sp_in_signer_key = [], sp_in_txid = None, sp_in_nonce = replicate SCEP_NONCE_SZ 0, sp_in_ias = [], sp_in_out = None\<rparr>)"

text \<open>Allocations 0 to 2 of the second draw: the session, the copies of the URL and of the CA identifier.\<close>

definition scep_session_new ::
  "('k, 'w) scep_env \<Rightarrow> 'w WolfCertServerCfg option \<Rightarrow> 'w \<Rightarrow> 'w WolfCertScepSession wc_result \<times> 'w" where
  "scep_session_new env srv w =
     (case srv of
        None \<Rightarrow> (Err WOLFCERT_ERR_BAD_ARG, w)
      | Some srv \<Rightarrow>
          (case sv_server_url srv of
             None \<Rightarrow> (Err WOLFCERT_ERR_BAD_ARG, w)
           | Some server_url \<Rightarrow>
          let rc = wolfcert_cfg_require_proto (sv_protocol srv) WOLFCERT_PROTO_SCEP in
          if rc \<noteq> WOLFCERT_OK then (Err rc, w)
          else case se_alloc env w of (mem, w) \<Rightarrow>
          (case wolfcert_http_url_parse mem (Some server_url) of
             Inl rc \<Rightarrow> (Err rc, w)
           | Inr u \<Rightarrow>
          if url_tls u \<and> \<not> sv_verify_server srv then (Err WOLFCERT_ERR_TLS, w)
          else case se_alloc env w of (mem, w) \<Rightarrow>
          if \<not> mem 0 then (Err WOLFCERT_ERR_MEMORY, w)
          else let s = scep_new_session srv server_url in
          if \<not> mem 1 \<or> so_ca_id (sv_scep srv) \<noteq> None \<and> \<not> mem 2
          then (Err WOLFCERT_ERR_MEMORY, wolfcert_scep_session_close env (Some s) w)
          else (Ok s, w))))"

definition scep_http_cfg :: "'w WolfCertScepSession \<Rightarrow> 'w WolfCertServerCfg \<Rightarrow> 'w WolfCertHttpSessionCfg" where
  "scep_http_cfg s srv =
     \<lparr>hc_base_url = Some (sp_server_url s),
      hc_dials = \<lparr>td_trust_anchors = sv_trust_anchors srv, td_verify_server = sv_verify_server srv,
        td_client_cert = sv_client_cert srv, td_client_key = sv_client_key srv, td_allow_post_handshake_auth = False\<rparr>,
      hc_timeout_ms = sv_timeout_ms srv, hc_max_response_bytes = sv_max_response_bytes srv,
      hc_transport = sv_transport srv\<rparr>"

definition scep_session_connect ::
  "('k, 'w) scep_env \<Rightarrow> 'w WolfCertScepSession \<Rightarrow> 'w WolfCertServerCfg \<Rightarrow> 'w \<Rightarrow> (int + 'w WolfCertScepSession) \<times> 'w" where
  "scep_session_connect env s srv w =
     (case wolfcert_http_session_open (ce_http (se_client env)) (ce_tls (se_client env)) (ce_builtin (se_client env))
             (scep_http_cfg s srv) w of
        (Inl rc, w) \<Rightarrow> (Inl rc, w)
      | (Inr os, w) \<Rightarrow> (Inr (s\<lparr>sp_http := Some os\<rparr>), w))"

definition wolfcert_scep_session_open ::
  "('k, 'w) scep_env \<Rightarrow> 'w WolfCertServerCfg option \<Rightarrow> 'w \<Rightarrow> (int + 'w WolfCertScepSession) \<times> 'w" where
  "wolfcert_scep_session_open env srv w =
     (case scep_session_new env srv w of
        (Inl rc, w) \<Rightarrow> (Inl (rc_code rc), wolfcert_scep_session_close env None w)
      | (Inr s, w) \<Rightarrow>
          (case scep_session_connect env s (the srv) w of
             (Inl rc, w) \<Rightarrow> (Inl rc, wolfcert_scep_session_close env (Some s) w)
           | (Inr s, w) \<Rightarrow> (Inr s, w)))"

section \<open>The request in flight\<close>

definition zero_scep_result :: WolfCertScepResult where
  "zero_scep_result = \<lparr>sr_status = WOLFCERT_SCEP_STATUS_UNSET, sr_cert_pem = [], sr_transaction_id = None, sr_fail_info = -1\<rparr>"

definition zero_caps :: WolfCertScepCaps where
  "zero_caps = \<lparr>cp_post_pki_operation = False, cp_renewal = False, cp_sha256 = False, cp_sha384 = False, cp_sha512 = False,
     cp_aes = False, cp_scep_standard = False, cp_get_next_ca_cert = False\<rparr>"

definition scep_call_clear :: "'w WolfCertScepSession option \<Rightarrow> 'k ScepCall \<Rightarrow> scep_out \<Rightarrow> scep_out" where
  "scep_call_clear s c out =
     (if (case s of None \<Rightarrow> False | Some s \<Rightarrow> sp_in_active s \<and> scep_call_out c = sp_in_out s) then out
      else let out = (if sc_res_out c \<noteq> None then out\<lparr>co_res := zero_scep_result\<rparr> else out);
               out = (if sc_caps_out c \<noteq> None then out\<lparr>co_caps := zero_caps\<rparr> else out) in
           if sc_buf_out c \<noteq> None then out\<lparr>co_buf := []\<rparr> else out)"

definition scep_request :: "cstring \<Rightarrow> bool \<Rightarrow> byte list \<Rightarrow> WolfCertHttpRequest" where
  "scep_request url post pki =
     (let req = zero_request\<lparr>rq_method := Some (if post then lit ''POST'' else lit ''GET''), rq_url := Some url\<rparr> in
      if post then req\<lparr>rq_content_type := Some (lit ''application/x-pki-message''), rq_body := pki\<rparr> else req)"

definition scep_session_start ::
  "'w WolfCertScepSession \<Rightarrow> 'k ScepCall \<Rightarrow> cstring \<Rightarrow> bool \<Rightarrow> 'w WolfCertScepSession" where
  "scep_session_start s c url post =
     s\<lparr>sp_in_url := Some url, sp_in_req := scep_request url post (sp_in_pki s), sp_in_op := sc_op c, sp_in_enc := sc_enc c,
       sp_in_out := scep_call_out c, sp_in_active := True\<rparr>"

definition scep_session_resume_check :: "'w WolfCertScepSession \<Rightarrow> 'k ScepCall \<Rightarrow> wc_rc" where
  "scep_session_resume_check s c =
     (if sp_in_op s \<noteq> sc_op c then WOLFCERT_ERR_BAD_ARG
      else if scep_call_out c \<noteq> sp_in_out s then WOLFCERT_ERR_BAD_ARG
      else if sc_enc c \<noteq> sp_in_enc s then WOLFCERT_ERR_BAD_ARG
      else WOLFCERT_OK)"

text \<open>
  The pkiMessage, with the session that keeps the nonce and the transaction identifier. On an error the
  caller resets the session.
\<close>

definition scep_prepare ::
  "('k, 'w) scep_env \<Rightarrow> 'w WolfCertScepSession \<Rightarrow> 'k ScepCall \<Rightarrow> cstring \<Rightarrow> byte list \<Rightarrow> 'w \<Rightarrow>
   (byte list \<times> 'w WolfCertScepSession) wc_result \<times> 'w" where
  "scep_prepare env s c msg_type content w =
     (let txid_sel = \<lparr>ts_id = sc_txid c, ts_mode = sp_txid_mode s\<rparr> in
      case wolfcert_scep_pick_hash_oid env (sc_caps c) (sp_signing_hash s) of
        Inl rc \<Rightarrow> (Err rc, w)
      | Inr hash_oid \<Rightarrow>
      (case scep_pick_enc_oid env (sc_caps c) (sp_content_cipher s) of
        Inl rc \<Rightarrow> (Err rc, w)
      | Inr enc_oid \<Rightarrow>
      (case wolfcert_scep_envelop (se_cms env) (buf_bytes (sc_ra_cert c)) content enc_oid w of
        (Inl rc, w) \<Rightarrow> (Err rc, w)
      | (Inr envl, w) \<Rightarrow>
      (case cm_InitRng (se_cms env) w of (rng_rc, w) \<Rightarrow>
       if rng_rc \<noteq> 0 then (Err (se_err env rng_rc), w)
       else case se_RNG_GenerateBlock env SCEP_NONCE_SZ w of ((rng_rc, nonce), w) \<Rightarrow>
       if rng_rc \<noteq> 0 then (Err (se_err env rng_rc), cm_FreeRng (se_cms env) w)
       else let s = s\<lparr>sp_in_nonce := take SCEP_NONCE_SZ nonce\<rparr> in
       (case scep_build_txid env txid_sel (sp_in_signer s) w of (r, w) \<Rightarrow>
        let w = cm_FreeRng (se_cms env) w in
        (case r of
           Inl rc \<Rightarrow> (Err rc, w)
         | Inr txid \<Rightarrow>
             let s = s\<lparr>sp_in_txid := Some txid\<rparr>;
                 attrs = no_attrs\<lparr>sa_transaction_id := Some txid, sa_sender_nonce := Some (sp_in_nonce s),
                                  sa_message_type := Some msg_type\<rparr> in
             (case wolfcert_scep_build_pki_message (se_cms env) envl (sp_in_signer s) (sp_in_signer_key s) (Some hash_oid) attrs w of
                (Inl rc, w) \<Rightarrow> (Err rc, w)
              | (Inr pki, w) \<Rightarrow> (Ok (pki, s), w))))))))"

definition scep_signer ::
  "('k, 'w) scep_env \<Rightarrow> 'k ScepCall \<Rightarrow> bool \<Rightarrow> 'w \<Rightarrow> byte list wc_result \<times> 'w" where
  "scep_signer env c nb w =
     (case sc_cert c of
        None \<Rightarrow> wolfcert_scep_self_signed_rsa (se_cms env) (se_self env (the (k_impl (the (sc_key c))))) (buf_bytes (sc_csr c)) w
      | Some cert \<Rightarrow>
          if nb
          then (case se_alloc env w of (mem, w) \<Rightarrow>
                  (case dup_buf mem (Some cert) of None \<Rightarrow> (Err WOLFCERT_ERR_MEMORY, w) | Some b \<Rightarrow> (Ok b, w)))
          else (Ok cert, w))"

definition scep_keep_bundle ::
  "('k, 'w) scep_env \<Rightarrow> 'k ScepCall \<Rightarrow> bool \<Rightarrow> 'w \<Rightarrow> byte list option wc_result \<times> 'w" where
  "scep_keep_bundle env c nb w =
     (if nb
      then (case se_alloc env w of (mem, w) \<Rightarrow>
              (case dup_buf mem (sc_ca_bundle c) of None \<Rightarrow> (Err WOLFCERT_ERR_MEMORY, w) | Some b \<Rightarrow> (Ok (Some b), w)))
      else (Ok (sc_ca_bundle c), w))"

definition scep_msg_type :: "'w WolfCertScepSession \<Rightarrow> scep_session_op \<Rightarrow> cstring" where
  "scep_msg_type s op =
     (case op of
        SCEP_OP_RENEWAL \<Rightarrow> scep_renewal_msg_type (sp_renewal_msg_type s)
      | SCEP_OP_GET_CERT_INITIAL \<Rightarrow> lit ''20''
      | SCEP_OP_GET_CERT \<Rightarrow> lit ''21''
      | _ \<Rightarrow> lit ''19'')"

text \<open>The content of the envelope where it is not the request.\<close>

definition scep_ias :: "('k, 'w) scep_env \<Rightarrow> 'k ScepCall \<Rightarrow> 'w \<Rightarrow> byte list wc_result \<times> 'w" where
  "scep_ias env c w =
     (case sc_op c of
        SCEP_OP_GET_CERT_INITIAL \<Rightarrow>
          wolfcert_scep_issuer_and_subject (se_cms env) (buf_bytes (sc_ra_cert c)) (buf_bytes (sc_csr c)) w
      | SCEP_OP_GET_CERT \<Rightarrow>
          wolfcert_scep_issuer_and_serial (se_cms env) (buf_bytes (sc_ra_cert c)) (buf_bytes (sc_serial c)) w
      | _ \<Rightarrow> (Ok [], w))"

definition scep_session_begin_pki_op ::
  "('k, 'w) scep_env \<Rightarrow> 'w WolfCertScepSession \<Rightarrow> 'k ScepCall \<Rightarrow> bool \<Rightarrow> 'w \<Rightarrow> wc_rc \<times> 'w WolfCertScepSession \<times> 'w" where
  "scep_session_begin_pki_op env s c nb w =
     (case scep_signer env c nb w of
        (Inl rc, w) \<Rightarrow> (rc, scep_session_reset s, w)
      | (Inr signer, w) \<Rightarrow>
      (case scep_keep_bundle env c nb w of
        (Inl rc, w) \<Rightarrow> (rc, scep_session_reset s, w)
      | (Inr bundle, w) \<Rightarrow>
      (case scep_ias env c w of
        (Inl rc, w) \<Rightarrow> (rc, scep_session_reset s, w)
      | (Inr ias, w) \<Rightarrow>
      let content = (if ias \<noteq> [] then ias else buf_bytes (sc_csr c)) in
      (case rsa_key_to_der env (the (sc_key c)) w of
        (Inl rc, w) \<Rightarrow> (rc, scep_session_reset s, w)
      | (Inr key, w) \<Rightarrow>
      let s = s\<lparr>sp_in_signer := signer, sp_in_ca_bundle := bundle, sp_in_ias := ias, sp_in_signer_key := key\<rparr> in
      (case scep_prepare env s c (scep_msg_type s (sc_op c)) content w of
        (Inl rc, w) \<Rightarrow> (rc, scep_session_reset s, w)
      | (Inr (pki, s), w) \<Rightarrow>
      (case se_alloc env w of (mem, w) \<Rightarrow>
      (case scep_build_transport (cm_codes (se_cms env)) (e_b64 (ce_http (se_client env))) mem (sp_server_url s) (sc_caps c)
              (if pki = [] then None else Some pki) of
        Inl rc \<Rightarrow> (rc, scep_session_reset s, w)
      | Inr (url, use_post) \<Rightarrow>
          (WOLFCERT_OK, scep_session_start (s\<lparr>sp_in_pki := pki\<rparr>) c url use_post, w))))))))"

definition scep_session_begin_get ::
  "('k, 'w) scep_env \<Rightarrow> 'w WolfCertScepSession \<Rightarrow> 'k ScepCall \<Rightarrow> bool \<Rightarrow> 'w \<Rightarrow> wc_rc \<times> 'w WolfCertScepSession \<times> 'w" where
  "scep_session_begin_get env s c nb w =
     (let name = (if sc_op c = SCEP_OP_GET_CA_CAPS then lit ''GetCACaps''
                  else if sc_op c = SCEP_OP_GET_CA_CERT then lit ''GetCACert'' else lit ''GetNextCACert'') in
      case se_alloc env w of (mem, w) \<Rightarrow>
      (case wolfcert_scep_build_getca_url mem (sp_server_url s) name (sp_ca_id s) of
         None \<Rightarrow> (WOLFCERT_ERR_MEMORY, s, w)
       | Some url \<Rightarrow>
           if sc_op c = SCEP_OP_GET_NEXT_CA_CERT
           then (case scep_keep_bundle env c nb w of
                   (Inl rc, w) \<Rightarrow> (rc, s, w)
                 | (Inr bundle, w) \<Rightarrow> (WOLFCERT_OK, scep_session_start (s\<lparr>sp_in_ca_bundle := bundle\<rparr>) c url False, w))
           else (WOLFCERT_OK, scep_session_start s c url False, w)))"

definition scep_session_begin ::
  "('k, 'w) scep_env \<Rightarrow> 'w WolfCertScepSession \<Rightarrow> 'k ScepCall \<Rightarrow> bool \<Rightarrow> 'w \<Rightarrow> wc_rc \<times> 'w WolfCertScepSession \<times> 'w" where
  "scep_session_begin env s c nb w =
     (if scep_is_pki (sc_op c) then scep_session_begin_pki_op env s c nb w else scep_session_begin_get env s c nb w)"

section \<open>The reply\<close>

definition fail_info_ok :: "cstring option \<Rightarrow> bool" where
  "fail_info_ok f \<longleftrightarrow>
     (case f of None \<Rightarrow> False | Some f \<Rightarrow> \<not> (cat f 0 < b_0 \<or> cat f 0 > 52 \<or> cat f 1 \<noteq> 0))"

text \<open>The guards in their order; \<open>out\<close> is written only once they have all passed.\<close>

definition scep_finish ::
  "('k, 'w) scep_env \<Rightarrow> 'w WolfCertScepSession \<Rightarrow> WolfCertScepResult \<Rightarrow> 'w \<Rightarrow> wc_rc \<times> WolfCertScepResult \<times> 'w" where
  "scep_finish env s out w =
     (case wolfcert_scep_parse_pki_message (se_cms env) (\<lambda>_. True) True (rs_body (sp_in_resp s)) w of
        (Inl rc, w) \<Rightarrow> (rc, out, w)
      | (Inr m, w) \<Rightarrow>
      let rx_tid = pm_attr m SCEP_ATTR_TRANS_ID; rx_rn = pm_attr m SCEP_ATTR_RECIP_NONCE;
          status = pm_attr m SCEP_ATTR_PKI_STATUS; fail_info = pm_attr m SCEP_ATTR_FAIL_INFO in
      if wolfcert_scep_check_cert_rep (pm_attr m SCEP_ATTR_MSG_TYPE) rx_tid (sp_in_txid s) \<noteq> WOLFCERT_OK
      then (WOLFCERT_ERR_PROTOCOL, out, w)
      else case wolfcert_scep_verify_rep_signer (se_cms env) (pm_signer_cert m) (sp_in_ca_bundle s) w of (rc, w) \<Rightarrow>
      if rc = WOLFCERT_ERR_MEMORY then (WOLFCERT_ERR_MEMORY, out, w)
      else if rc \<noteq> WOLFCERT_OK then (WOLFCERT_ERR_AUTH, out, w)
      else if (case rx_rn of None \<Rightarrow> True | Some rn \<Rightarrow> length rn \<noteq> SCEP_NONCE_SZ \<or> rn \<noteq> sp_in_nonce s)
      then (WOLFCERT_ERR_PROTOCOL, out, w)
      else if status \<noteq> Some (lit ''0'') \<and> status \<noteq> Some (lit ''2'') \<and> status \<noteq> Some (lit ''3'')
      then (WOLFCERT_ERR_PROTOCOL, out, w)
      else if status = Some (lit ''2'') \<and> \<not> fail_info_ok fail_info then (WOLFCERT_ERR_PROTOCOL, out, w)
      else let out = out\<lparr>sr_transaction_id := rx_tid\<rparr> in
      if status = Some (lit ''3'') then (WOLFCERT_OK, out\<lparr>sr_status := WOLFCERT_SCEP_STATUS_PENDING\<rparr>, w)
      else if status = Some (lit ''2'')
      then (WOLFCERT_OK, out\<lparr>sr_status := WOLFCERT_SCEP_STATUS_FAILURE, sr_fail_info := int (unat (cat (the fail_info) 0)) - 48\<rparr>, w)
      else (case wolfcert_scep_deenvelop (se_cms env) (sp_in_signer s) (sp_in_signer_key s) (pm_envelope m) w of
              (Inl rc, w) \<Rightarrow> (rc, out, w)
            | (Inr inner, w) \<Rightarrow>
                (case wolfcert_pkcs7_certs_to_pem (se_cms env) inner w of
                   (Inl rc, w) \<Rightarrow> (rc, out, w)
                 | (Inr pem, w) \<Rightarrow> (WOLFCERT_OK, out\<lparr>sr_cert_pem := pem, sr_status := WOLFCERT_SCEP_STATUS_SUCCESS\<rparr>, w))))"

definition scep_check_get_cert ::
  "('k, 'w) scep_env \<Rightarrow> 'w WolfCertScepSession \<Rightarrow> WolfCertScepResult \<Rightarrow> 'w \<Rightarrow> wc_rc \<times> WolfCertScepResult \<times> 'w" where
  "scep_check_get_cert env s out w =
     (let unset = out\<lparr>sr_cert_pem := [], sr_status := WOLFCERT_SCEP_STATUS_UNSET\<rparr> in
      case wolfcert_scep_parse_issuer_and_serial (sp_in_ias s) of
        Inl rc \<Rightarrow> (rc, unset, w)
      | Inr (issuer, serial) \<Rightarrow>
          (case wolfcert_scep_pem_has_cert env (sr_cert_pem out) issuer serial w of
             (Inl rc, w) \<Rightarrow> (rc, unset, w)
           | (Inr True, w) \<Rightarrow> (WOLFCERT_OK, out, w)
           | (Inr False, w) \<Rightarrow> (WOLFCERT_ERR_PROTOCOL, unset, w)))"

text \<open>A result that is a buffer, stored on success.\<close>

definition put_buf :: "byte list wc_result \<times> 'w \<Rightarrow> scep_out \<Rightarrow> wc_rc \<times> scep_out \<times> 'w" where
  "put_buf r out = (case r of (Inl rc, w) \<Rightarrow> (rc, out, w) | (Inr b, w) \<Rightarrow> (WOLFCERT_OK, out\<lparr>co_buf := b\<rparr>, w))"

definition scep_session_finish ::
  "('k, 'w) scep_env \<Rightarrow> 'w WolfCertScepSession \<Rightarrow> 'k ScepCall \<Rightarrow> scep_out \<Rightarrow> 'w \<Rightarrow>
   wc_rc \<times> scep_out \<times> 'w WolfCertScepSession \<times> 'w" where
  "scep_session_finish env s c out w =
     (let r = sp_in_resp s;
          (rc, out, w) =
            (if sp_in_op s = SCEP_OP_GET_NEXT_CA_CERT \<and> rs_status_code r = 404 then (WOLFCERT_ERR_NOT_FOUND, out, w)
             else if rs_status_code r \<noteq> 200 then (WOLFCERT_ERR_HTTP, out, w)
             else if sp_in_op s = SCEP_OP_GET_CA_CAPS then (WOLFCERT_OK, out\<lparr>co_caps := scep_finish_caps r\<rparr>, w)
             else if sp_in_op s = SCEP_OP_GET_CA_CERT then put_buf (scep_finish_ca_cert env r (sc_enc c) w) out
             else if sp_in_op s = SCEP_OP_GET_NEXT_CA_CERT
             then put_buf (wolfcert_scep_verify_next_ca_response (se_cms env) (rs_body r) (buf_bytes (sp_in_ca_bundle s))
                    (sc_enc c = WOLFCERT_ENCODING_DER) w) out
             else case scep_finish env s (co_res out) w of (rc, res, w) \<Rightarrow>
                    if rc = WOLFCERT_OK \<and> sp_in_op s = SCEP_OP_GET_CERT \<and> sr_status res = WOLFCERT_SCEP_STATUS_SUCCESS
                    then (case scep_check_get_cert env s res w of (rc, res, w) \<Rightarrow> (rc, out\<lparr>co_res := res\<rparr>, w))
                    else (rc, out\<lparr>co_res := res\<rparr>, w)) in
      (rc, out, scep_session_reset s, w))"

definition SCEP_RESP :: nat where
  "SCEP_RESP = 0"

text \<open>The HTTP call on the session's request and response.\<close>

definition scep_http_call ::
  "('k, 'w) scep_env \<Rightarrow> 'w WolfCertScepSession \<Rightarrow> bool \<Rightarrow> 'w \<Rightarrow> wc_rc \<times> 'w WolfCertScepSession \<times> 'w" where
  "scep_http_call env s nb w =
     (case sp_http s of
        None \<Rightarrow> (WOLFCERT_ERR_BAD_ARG, s, w)
      | Some os \<Rightarrow>
          (case (if nb then wolfcert_http_session_request_nb (ce_session (se_client env) os) (os_session os) (sp_in_req s) SCEP_RESP w
                 else wolfcert_http_session_request (ce_session (se_client env) os) (os_session os) (sp_in_req s) SCEP_RESP w) of
             (rc, hs, w) \<Rightarrow> (rc, s\<lparr>sp_http := Some (os\<lparr>os_session := hs\<rparr>), sp_in_resp := hs_out hs\<rparr>, w)))"

definition scep_session_send ::
  "('k, 'w) scep_env \<Rightarrow> 'w WolfCertScepSession \<Rightarrow> 'k ScepCall \<Rightarrow> bool \<Rightarrow> scep_out \<Rightarrow> 'w \<Rightarrow>
   wc_rc \<times> scep_out \<times> 'w WolfCertScepSession \<times> 'w" where
  "scep_session_send env s c nb out w =
     (case scep_http_call env s nb w of (rc, s, w) \<Rightarrow>
      if nb \<and> (rc = WOLFCERT_ERR_WANT_READ \<or> rc = WOLFCERT_ERR_WANT_WRITE) then (rc, out, s, w)
      else if rc = WOLFCERT_OK then scep_session_finish env (scep_session_free_request s) c out w
      else (rc, out, scep_session_reset s, w))"

definition scep_session_call ::
  "('k, 'w) scep_env \<Rightarrow> 'w WolfCertScepSession option \<Rightarrow> 'k ScepCall \<Rightarrow> bool \<Rightarrow> scep_out \<Rightarrow> 'w \<Rightarrow>
   wc_rc \<times> scep_out \<times> 'w WolfCertScepSession option \<times> 'w" where
  "scep_session_call env s0 c nb out w =
     (if scep_call_out c = None then (WOLFCERT_ERR_BAD_ARG, out, s0, w)
      else let out = scep_call_clear s0 c out in
      case s0 of
        None \<Rightarrow> (WOLFCERT_ERR_BAD_ARG, out, None, w)
      | Some s \<Rightarrow>
          if sp_in_active s \<and> \<not> nb then (WOLFCERT_ERR_BAD_ARG, out, Some s, w)
          else case (if sp_in_active s then (scep_session_resume_check s c, s, w)
                     else let rc = scep_call_check c in
                          if rc = WOLFCERT_OK then scep_session_begin env s c nb w else (rc, s, w)) of (rc, s, w) \<Rightarrow>
          if rc \<noteq> WOLFCERT_OK then (rc, out, Some s, w)
          else case scep_session_send env s c nb out w of (rc, out, s, w) \<Rightarrow> (rc, out, Some s, w))"

text \<open>
  The calls of the interface, blocking and not: each fills a \<open>ScepCall\<close> that is otherwise zero. The
  encoding 0 is PEM.
\<close>

definition zero_call :: "'k ScepCall" where
  "zero_call = \<lparr>sc_caps = None, sc_ra_cert = None, sc_ca_bundle = None, sc_cert = None, sc_key = None, sc_csr = None,
     sc_txid = None, sc_serial = None, sc_caps_out = None, sc_buf_out = None, sc_res_out = None,
     sc_op = SCEP_OP_GET_CA_CAPS, sc_enc = WOLFCERT_ENCODING_PEM\<rparr>"

definition pki_call ::
  "scep_session_op \<Rightarrow> WolfCertScepCaps option \<Rightarrow> byte list option \<Rightarrow> byte list option \<Rightarrow> 'k WolfCertKey option \<Rightarrow>
   nat option \<Rightarrow> 'k ScepCall" where
  "pki_call op caps ra_cert ca_bundle key out =
     zero_call\<lparr>sc_op := op, sc_caps := caps, sc_ra_cert := ra_cert, sc_ca_bundle := ca_bundle, sc_key := key, sc_res_out := out\<rparr>"

definition wolfcert_scep_session_get_ca_caps ::
  "('k, 'w) scep_env \<Rightarrow> 'w WolfCertScepSession option \<Rightarrow> nat option \<Rightarrow>
   scep_out \<Rightarrow> 'w \<Rightarrow> wc_rc \<times> scep_out \<times> 'w WolfCertScepSession option \<times> 'w" where
  "wolfcert_scep_session_get_ca_caps env s out_caps out w =
     scep_session_call env s (zero_call\<lparr>sc_op := SCEP_OP_GET_CA_CAPS, sc_caps_out := out_caps\<rparr> :: 'k ScepCall) False out w"

definition wolfcert_scep_session_get_ca_caps_nb ::
  "('k, 'w) scep_env \<Rightarrow> 'w WolfCertScepSession option \<Rightarrow> nat option \<Rightarrow>
   scep_out \<Rightarrow> 'w \<Rightarrow> wc_rc \<times> scep_out \<times> 'w WolfCertScepSession option \<times> 'w" where
  "wolfcert_scep_session_get_ca_caps_nb env s out_caps out w =
     scep_session_call env s (zero_call\<lparr>sc_op := SCEP_OP_GET_CA_CAPS, sc_caps_out := out_caps\<rparr> :: 'k ScepCall) True out w"

definition wolfcert_scep_session_get_ca_cert ::
  "('k, 'w) scep_env \<Rightarrow> 'w WolfCertScepSession option \<Rightarrow> WolfCertEncoding \<Rightarrow>
   nat option \<Rightarrow>
   scep_out \<Rightarrow> 'w \<Rightarrow> wc_rc \<times> scep_out \<times> 'w WolfCertScepSession option \<times> 'w" where
  "wolfcert_scep_session_get_ca_cert env s enc out_ca out w =
     scep_session_call env s (zero_call\<lparr>sc_op := SCEP_OP_GET_CA_CERT, sc_enc := enc, sc_buf_out := out_ca\<rparr> :: 'k ScepCall) False out w"

definition wolfcert_scep_session_get_ca_cert_nb ::
  "('k, 'w) scep_env \<Rightarrow> 'w WolfCertScepSession option \<Rightarrow> WolfCertEncoding \<Rightarrow>
   nat option \<Rightarrow>
   scep_out \<Rightarrow> 'w \<Rightarrow> wc_rc \<times> scep_out \<times> 'w WolfCertScepSession option \<times> 'w" where
  "wolfcert_scep_session_get_ca_cert_nb env s enc out_ca out w =
     scep_session_call env s (zero_call\<lparr>sc_op := SCEP_OP_GET_CA_CERT, sc_enc := enc, sc_buf_out := out_ca\<rparr> :: 'k ScepCall) True out w"

definition wolfcert_scep_session_get_next_ca_cert ::
  "('k, 'w) scep_env \<Rightarrow> 'w WolfCertScepSession option \<Rightarrow> WolfCertEncoding \<Rightarrow>
   byte list option \<Rightarrow> nat option \<Rightarrow>
   scep_out \<Rightarrow> 'w \<Rightarrow> wc_rc \<times> scep_out \<times> 'w WolfCertScepSession option \<times> 'w" where
  "wolfcert_scep_session_get_next_ca_cert env s enc current_ca out_next_ca out w =
     scep_session_call env s (zero_call\<lparr>sc_op := SCEP_OP_GET_NEXT_CA_CERT, sc_enc := enc, sc_ca_bundle := current_ca, sc_buf_out := out_next_ca\<rparr> :: 'k ScepCall) False out w"

definition wolfcert_scep_session_get_next_ca_cert_nb ::
  "('k, 'w) scep_env \<Rightarrow> 'w WolfCertScepSession option \<Rightarrow> WolfCertEncoding \<Rightarrow>
   byte list option \<Rightarrow> nat option \<Rightarrow>
   scep_out \<Rightarrow> 'w \<Rightarrow> wc_rc \<times> scep_out \<times> 'w WolfCertScepSession option \<times> 'w" where
  "wolfcert_scep_session_get_next_ca_cert_nb env s enc current_ca out_next_ca out w =
     scep_session_call env s (zero_call\<lparr>sc_op := SCEP_OP_GET_NEXT_CA_CERT, sc_enc := enc, sc_ca_bundle := current_ca, sc_buf_out := out_next_ca\<rparr> :: 'k ScepCall) True out w"

definition wolfcert_scep_session_pkcs_req ::
  "('k, 'w) scep_env \<Rightarrow> 'w WolfCertScepSession option \<Rightarrow> WolfCertScepCaps option \<Rightarrow>
   byte list option \<Rightarrow> byte list option \<Rightarrow> 'k WolfCertKey option \<Rightarrow>
   byte list option \<Rightarrow> nat option \<Rightarrow>
   scep_out \<Rightarrow> 'w \<Rightarrow> wc_rc \<times> scep_out \<times> 'w WolfCertScepSession option \<times> 'w" where
  "wolfcert_scep_session_pkcs_req env s caps ra_cert ca_bundle new_key csr_der res_out out w =
     scep_session_call env s ((pki_call SCEP_OP_PKCS_REQ caps ra_cert ca_bundle new_key res_out)\<lparr>sc_csr := csr_der\<rparr>) False out w"

definition wolfcert_scep_session_pkcs_req_nb ::
  "('k, 'w) scep_env \<Rightarrow> 'w WolfCertScepSession option \<Rightarrow> WolfCertScepCaps option \<Rightarrow>
   byte list option \<Rightarrow> byte list option \<Rightarrow> 'k WolfCertKey option \<Rightarrow>
   byte list option \<Rightarrow> nat option \<Rightarrow>
   scep_out \<Rightarrow> 'w \<Rightarrow> wc_rc \<times> scep_out \<times> 'w WolfCertScepSession option \<times> 'w" where
  "wolfcert_scep_session_pkcs_req_nb env s caps ra_cert ca_bundle new_key csr_der res_out out w =
     scep_session_call env s ((pki_call SCEP_OP_PKCS_REQ caps ra_cert ca_bundle new_key res_out)\<lparr>sc_csr := csr_der\<rparr>) True out w"

definition wolfcert_scep_session_renewal_req ::
  "('k, 'w) scep_env \<Rightarrow> 'w WolfCertScepSession option \<Rightarrow> WolfCertScepCaps option \<Rightarrow>
   byte list option \<Rightarrow> byte list option \<Rightarrow> byte list option \<Rightarrow>
   'k WolfCertKey option \<Rightarrow> byte list option \<Rightarrow> nat option \<Rightarrow>
   scep_out \<Rightarrow> 'w \<Rightarrow> wc_rc \<times> scep_out \<times> 'w WolfCertScepSession option \<times> 'w" where
  "wolfcert_scep_session_renewal_req env s caps ra_cert ca_bundle current_cert current_key csr_der res_out out w =
     scep_session_call env s ((pki_call SCEP_OP_RENEWAL caps ra_cert ca_bundle current_key res_out)\<lparr>sc_cert := current_cert, sc_csr := csr_der\<rparr>) False out w"

definition wolfcert_scep_session_renewal_req_nb ::
  "('k, 'w) scep_env \<Rightarrow> 'w WolfCertScepSession option \<Rightarrow> WolfCertScepCaps option \<Rightarrow>
   byte list option \<Rightarrow> byte list option \<Rightarrow> byte list option \<Rightarrow>
   'k WolfCertKey option \<Rightarrow> byte list option \<Rightarrow> nat option \<Rightarrow>
   scep_out \<Rightarrow> 'w \<Rightarrow> wc_rc \<times> scep_out \<times> 'w WolfCertScepSession option \<times> 'w" where
  "wolfcert_scep_session_renewal_req_nb env s caps ra_cert ca_bundle current_cert current_key csr_der res_out out w =
     scep_session_call env s ((pki_call SCEP_OP_RENEWAL caps ra_cert ca_bundle current_key res_out)\<lparr>sc_cert := current_cert, sc_csr := csr_der\<rparr>) True out w"

definition wolfcert_scep_session_get_cert_initial ::
  "('k, 'w) scep_env \<Rightarrow> 'w WolfCertScepSession option \<Rightarrow> WolfCertScepCaps option \<Rightarrow>
   byte list option \<Rightarrow> byte list option \<Rightarrow> byte list option \<Rightarrow>
   'k WolfCertKey option \<Rightarrow> byte list option \<Rightarrow> byte list option \<Rightarrow>
   nat option \<Rightarrow>
   scep_out \<Rightarrow> 'w \<Rightarrow> wc_rc \<times> scep_out \<times> 'w WolfCertScepSession option \<times> 'w" where
  "wolfcert_scep_session_get_cert_initial env s caps ra_cert ca_bundle signer_cert signer_key csr_der transaction_id res_out out w =
     scep_session_call env s ((pki_call SCEP_OP_GET_CERT_INITIAL caps ra_cert ca_bundle signer_key res_out)
       \<lparr>sc_cert := signer_cert, sc_csr := csr_der, sc_txid := transaction_id\<rparr>) False out w"

definition wolfcert_scep_session_get_cert_initial_nb ::
  "('k, 'w) scep_env \<Rightarrow> 'w WolfCertScepSession option \<Rightarrow> WolfCertScepCaps option \<Rightarrow>
   byte list option \<Rightarrow> byte list option \<Rightarrow> byte list option \<Rightarrow>
   'k WolfCertKey option \<Rightarrow> byte list option \<Rightarrow> byte list option \<Rightarrow>
   nat option \<Rightarrow>
   scep_out \<Rightarrow> 'w \<Rightarrow> wc_rc \<times> scep_out \<times> 'w WolfCertScepSession option \<times> 'w" where
  "wolfcert_scep_session_get_cert_initial_nb env s caps ra_cert ca_bundle signer_cert signer_key csr_der transaction_id res_out out w =
     scep_session_call env s ((pki_call SCEP_OP_GET_CERT_INITIAL caps ra_cert ca_bundle signer_key res_out)
       \<lparr>sc_cert := signer_cert, sc_csr := csr_der, sc_txid := transaction_id\<rparr>) True out w"

definition wolfcert_scep_session_get_cert ::
  "('k, 'w) scep_env \<Rightarrow> 'w WolfCertScepSession option \<Rightarrow> WolfCertScepCaps option \<Rightarrow>
   byte list option \<Rightarrow> byte list option \<Rightarrow> byte list option \<Rightarrow>
   'k WolfCertKey option \<Rightarrow> byte list option \<Rightarrow> nat option \<Rightarrow>
   scep_out \<Rightarrow> 'w \<Rightarrow> wc_rc \<times> scep_out \<times> 'w WolfCertScepSession option \<times> 'w" where
  "wolfcert_scep_session_get_cert env s caps ra_cert ca_bundle signer_cert signer_key serial res_out out w =
     scep_session_call env s ((pki_call SCEP_OP_GET_CERT caps ra_cert ca_bundle signer_key res_out)\<lparr>sc_cert := signer_cert, sc_serial := serial\<rparr>) False out w"

definition wolfcert_scep_session_get_cert_nb ::
  "('k, 'w) scep_env \<Rightarrow> 'w WolfCertScepSession option \<Rightarrow> WolfCertScepCaps option \<Rightarrow>
   byte list option \<Rightarrow> byte list option \<Rightarrow> byte list option \<Rightarrow>
   'k WolfCertKey option \<Rightarrow> byte list option \<Rightarrow> nat option \<Rightarrow>
   scep_out \<Rightarrow> 'w \<Rightarrow> wc_rc \<times> scep_out \<times> 'w WolfCertScepSession option \<times> 'w" where
  "wolfcert_scep_session_get_cert_nb env s caps ra_cert ca_bundle signer_cert signer_key serial res_out out w =
     scep_session_call env s ((pki_call SCEP_OP_GET_CERT caps ra_cert ca_bundle signer_key res_out)\<lparr>sc_cert := signer_cert, sc_serial := serial\<rparr>) True out w"

section \<open>One-shot calls\<close>

definition scep_set_close :: "'w WolfCertScepSession \<Rightarrow> 'w WolfCertScepSession" where
  "scep_set_close s =
     s\<lparr>sp_http := map_option (\<lambda>os. os\<lparr>os_session := wolfcert_http_session_set_close (os_session os)\<rparr>) (sp_http s)\<rparr>"

definition scep_one_shot ::
  "('k, 'w) scep_env \<Rightarrow> 'w WolfCertServerCfg option \<Rightarrow> 'k ScepCall \<Rightarrow> scep_out \<Rightarrow> 'w \<Rightarrow> int \<times> scep_out \<times> 'w" where
  "scep_one_shot env srv c out w =
     (if scep_call_out c = None then (rc_code WOLFCERT_ERR_BAD_ARG, out, w)
      else let out = scep_call_clear (None :: 'w WolfCertScepSession option) c out; rc = scep_call_check c in
      if rc \<noteq> WOLFCERT_OK then (rc_code rc, out, wolfcert_scep_session_close env None w)
      else case scep_session_new env srv w of
        (Inl rc, w) \<Rightarrow> (rc_code rc, out, wolfcert_scep_session_close env None w)
      | (Inr s, w) \<Rightarrow>
          (case scep_session_begin env s c False w of (rc, s, w) \<Rightarrow>
           if rc \<noteq> WOLFCERT_OK then (rc_code rc, out, wolfcert_scep_session_close env (Some s) w)
           else case scep_session_connect env s (the srv) w of
             (Inl rc, w) \<Rightarrow> (rc, out, wolfcert_scep_session_close env (Some s) w)
           | (Inr s, w) \<Rightarrow>
               (case scep_session_send env (scep_set_close s) c False out w of (rc, out, s, w) \<Rightarrow>
                (rc_code rc, out, wolfcert_scep_session_close env (Some s) w))))"

definition wolfcert_scep_get_ca_caps ::
  "('k, 'w) scep_env \<Rightarrow> 'w WolfCertServerCfg option \<Rightarrow> nat option \<Rightarrow>
   scep_out \<Rightarrow> 'w \<Rightarrow> int \<times> scep_out \<times> 'w" where
  "wolfcert_scep_get_ca_caps env srv out_caps out w =
     scep_one_shot env srv (zero_call\<lparr>sc_op := SCEP_OP_GET_CA_CAPS, sc_caps_out := out_caps\<rparr> :: 'k ScepCall) out w"

definition wolfcert_scep_get_ca_cert ::
  "('k, 'w) scep_env \<Rightarrow> 'w WolfCertServerCfg option \<Rightarrow> WolfCertEncoding \<Rightarrow>
   nat option \<Rightarrow> scep_out \<Rightarrow> 'w \<Rightarrow> int \<times> scep_out \<times> 'w" where
  "wolfcert_scep_get_ca_cert env srv enc out_ca out w =
     scep_one_shot env srv (zero_call\<lparr>sc_op := SCEP_OP_GET_CA_CERT, sc_enc := enc, sc_buf_out := out_ca\<rparr> :: 'k ScepCall) out w"

definition wolfcert_scep_get_next_ca_cert ::
  "('k, 'w) scep_env \<Rightarrow> 'w WolfCertServerCfg option \<Rightarrow> WolfCertEncoding \<Rightarrow>
   byte list option \<Rightarrow> nat option \<Rightarrow>
   scep_out \<Rightarrow> 'w \<Rightarrow> int \<times> scep_out \<times> 'w" where
  "wolfcert_scep_get_next_ca_cert env srv enc current_ca out_next_ca out w =
     scep_one_shot env srv (zero_call\<lparr>sc_op := SCEP_OP_GET_NEXT_CA_CERT, sc_enc := enc, sc_ca_bundle := current_ca, sc_buf_out := out_next_ca\<rparr> :: 'k ScepCall) out w"

definition wolfcert_scep_pkcs_req ::
  "('k, 'w) scep_env \<Rightarrow> 'w WolfCertServerCfg option \<Rightarrow> WolfCertScepCaps option \<Rightarrow>
   byte list option \<Rightarrow> byte list option \<Rightarrow> 'k WolfCertKey option \<Rightarrow>
   byte list option \<Rightarrow> nat option \<Rightarrow>
   scep_out \<Rightarrow> 'w \<Rightarrow> int \<times> scep_out \<times> 'w" where
  "wolfcert_scep_pkcs_req env srv caps ra_cert ca_bundle new_key csr_der res_out out w =
     scep_one_shot env srv ((pki_call SCEP_OP_PKCS_REQ caps ra_cert ca_bundle new_key res_out)\<lparr>sc_csr := csr_der\<rparr>) out w"

definition wolfcert_scep_renewal_req ::
  "('k, 'w) scep_env \<Rightarrow> 'w WolfCertServerCfg option \<Rightarrow> WolfCertScepCaps option \<Rightarrow>
   byte list option \<Rightarrow> byte list option \<Rightarrow> byte list option \<Rightarrow>
   'k WolfCertKey option \<Rightarrow> byte list option \<Rightarrow> nat option \<Rightarrow>
   scep_out \<Rightarrow> 'w \<Rightarrow> int \<times> scep_out \<times> 'w" where
  "wolfcert_scep_renewal_req env srv caps ra_cert ca_bundle current_cert current_key csr_der res_out out w =
     scep_one_shot env srv ((pki_call SCEP_OP_RENEWAL caps ra_cert ca_bundle current_key res_out)\<lparr>sc_cert := current_cert, sc_csr := csr_der\<rparr>) out w"

definition wolfcert_scep_get_cert_initial ::
  "('k, 'w) scep_env \<Rightarrow> 'w WolfCertServerCfg option \<Rightarrow> WolfCertScepCaps option \<Rightarrow>
   byte list option \<Rightarrow> byte list option \<Rightarrow> byte list option \<Rightarrow>
   'k WolfCertKey option \<Rightarrow> byte list option \<Rightarrow> byte list option \<Rightarrow>
   nat option \<Rightarrow> scep_out \<Rightarrow> 'w \<Rightarrow> int \<times> scep_out \<times> 'w" where
  "wolfcert_scep_get_cert_initial env srv caps ra_cert ca_bundle signer_cert signer_key csr_der transaction_id res_out out w =
     scep_one_shot env srv ((pki_call SCEP_OP_GET_CERT_INITIAL caps ra_cert ca_bundle signer_key res_out)
       \<lparr>sc_cert := signer_cert, sc_csr := csr_der, sc_txid := transaction_id\<rparr>) out w"

definition wolfcert_scep_get_cert ::
  "('k, 'w) scep_env \<Rightarrow> 'w WolfCertServerCfg option \<Rightarrow> WolfCertScepCaps option \<Rightarrow>
   byte list option \<Rightarrow> byte list option \<Rightarrow> byte list option \<Rightarrow>
   'k WolfCertKey option \<Rightarrow> byte list option \<Rightarrow> nat option \<Rightarrow>
   scep_out \<Rightarrow> 'w \<Rightarrow> int \<times> scep_out \<times> 'w" where
  "wolfcert_scep_get_cert env srv caps ra_cert ca_bundle signer_cert signer_key serial res_out out w =
     scep_one_shot env srv ((pki_call SCEP_OP_GET_CERT caps ra_cert ca_bundle signer_key res_out)\<lparr>sc_cert := signer_cert, sc_serial := serial\<rparr>) out w"

section \<open>What a reply must be\<close>

text \<open>
  A CertRep for the request of a session: it is one, it echoes the transaction identifier and the nonce
  of the request, and a holder of a key of the CA bundle has signed it. \<open>p\<close> is the certificate parser.
\<close>

definition certrep_for :: "(byte list \<Rightarrow> DecodedCert option) \<Rightarrow> 'w WolfCertScepSession \<Rightarrow> pki_message \<Rightarrow> bool" where
  "certrep_for p s m \<longleftrightarrow>
     pm_attr m SCEP_ATTR_MSG_TYPE = Some (lit ''3'') \<and>
     sp_in_txid s \<noteq> None \<and> pm_attr m SCEP_ATTR_TRANS_ID = sp_in_txid s \<and>
     length (sp_in_nonce s) = SCEP_NONCE_SZ \<and> pm_attr m SCEP_ATTR_RECIP_NONCE = Some (sp_in_nonce s) \<and>
     (\<exists>signer b k. pm_signer_cert m = Some signer \<and> sp_in_ca_bundle s = Some b \<and> cert_spki p signer = Some k \<and>
        (\<exists>ca \<in> set (bundle_certs b). cert_spki p ca = Some k))"

text \<open>
  The result of an accepted CertRep is what it says: pending, failed with its reason, or the
  certificates of the envelope, opened with the key the request was signed with.
\<close>

definition certrep_result :: "('k, 'w) scep_env \<Rightarrow> 'w WolfCertScepSession \<Rightarrow> pki_message \<Rightarrow> WolfCertScepResult \<Rightarrow> bool" where
  "certrep_result env s m res \<longleftrightarrow>
     sr_transaction_id res = sp_in_txid s \<and>
     (case sr_status res of
        WOLFCERT_SCEP_STATUS_UNSET \<Rightarrow> False
      | WOLFCERT_SCEP_STATUS_PENDING \<Rightarrow> pm_attr m SCEP_ATTR_PKI_STATUS = Some (lit ''3'')
      | WOLFCERT_SCEP_STATUS_FAILURE \<Rightarrow>
          pm_attr m SCEP_ATTR_PKI_STATUS = Some (lit ''2'') \<and> 0 \<le> sr_fail_info res \<and> sr_fail_info res \<le> 4 \<and>
          map_option cstr (pm_attr m SCEP_ATTR_FAIL_INFO) = Some [dchar (nat (sr_fail_info res))]
      | WOLFCERT_SCEP_STATUS_SUCCESS \<Rightarrow>
          pm_attr m SCEP_ATTR_PKI_STATUS = Some (lit ''0'') \<and> sr_cert_pem res \<noteq> [] \<and>
          (\<exists>inner v v'. fst (wolfcert_scep_deenvelop (se_cms env) (sp_in_signer s) (sp_in_signer_key s) (pm_envelope m) v) = Ok inner \<and>
             fst (wolfcert_pkcs7_certs_to_pem (se_cms env) inner v') = Ok (sr_cert_pem res)) \<and>
          (sp_in_op s = SCEP_OP_GET_CERT \<longrightarrow>
             (\<exists>issuer serial v. wolfcert_scep_parse_issuer_and_serial (sp_in_ias s) = Ok (issuer, serial) \<and>
                fst (wolfcert_scep_pem_has_cert env (sr_cert_pem res) issuer serial v) = Ok True)))"

lemma parse_attribs_attr_err: "parse_attribs cms want as seen out w = (Inl rc, w') \<Longrightarrow> rc \<noteq> WOLFCERT_OK"
proof (induction as arbitrary: seen out w)
  case (Cons a as)
  have "attr_content ab v = Inl e \<Longrightarrow> e \<noteq> WOLFCERT_OK" for ab v e
    by (auto simp: attr_content_def split: option.splits if_splits prod.splits)
  with Cons show ?case by (auto split: option.splits if_splits sum.splits prod.splits)
qed simp

lemma parse_pki_err: "wolfcert_scep_parse_pki_message cms want ws der w = (Inl rc, w') \<Longrightarrow> rc \<noteq> WOLFCERT_OK"
  by (auto simp: wolfcert_scep_parse_pki_message_def parse_signer_def dest: parse_attribs_attr_err
      split: prod.splits if_splits sum.splits)

lemma encoded_err: "encoded cms r = Inl rc \<Longrightarrow> rc \<noteq> WOLFCERT_OK"
  by (auto simp: encoded_def split: prod.splits if_splits)

lemma deenvelop_err: "wolfcert_scep_deenvelop cms c k e w = (Inl rc, w') \<Longrightarrow> rc \<noteq> WOLFCERT_OK"
  by (auto simp: wolfcert_scep_deenvelop_def dest: encoded_err split: prod.splits if_splits)

lemma certs_to_pem_err: "wolfcert_pkcs7_certs_to_pem cms e w = (Inl rc, w') \<Longrightarrow> rc \<noteq> WOLFCERT_OK"
  and certs_to_pem_some: "wolfcert_pkcs7_certs_to_pem cms e w = (Inr out, w') \<Longrightarrow> out \<noteq> []"
  by (auto simp: wolfcert_pkcs7_certs_to_pem_def dest: certs_extract_want certs_extract_some)

lemma fail_info_digit:
  assumes "fail_info_ok (Some f)"
  shows "cstr f = [dchar (nat (int (unat (cat f 0)) - 48))] \<and> 0 \<le> int (unat (cat f 0)) - 48 \<and> int (unat (cat f 0)) - 48 \<le> 4"
proof -
  have c: "48 \<le> cat f 0" "cat f 0 \<le> 52" "cat f 1 = 0" using assms by (auto simp: fail_info_ok_def)
  have u: "48 \<le> unat (cat f 0)" "unat (cat f 0) \<le> 52" using c(1,2) by (simp_all add: word_le_nat_alt)
  obtain a r where f: "f = a # r" using u(1) by (cases f) (auto simp: cat_def)
  have "cstr f = [a]" using c(3) u(1) f by (cases r) (auto simp: cstr_def cat_def)
  moreover have "dchar (unat a - 48) = a" using u f by (simp add: dchar_def cat_def)
  moreover have "nat (int n - 48) = n - 48 \<and> 0 \<le> int n - 48 \<and> int n - 48 \<le> 4" if "48 \<le> n" "n \<le> 52" for n :: nat
    using that by simp
  ultimately show ?thesis using u f by (metis cat_def length_Cons nth_Cons_0 zero_less_Suc)
qed

lemma scep_finish_ok:
  assumes f: "scep_finish env s out w = (WOLFCERT_OK, out', w')" and p: "pure_parser (se_cms env) p H"
  shows "\<exists>m. fst (wolfcert_scep_parse_pki_message (se_cms env) (\<lambda>_. True) True (rs_body (sp_in_resp s)) w) = Ok m \<and>
    certrep_for p s m \<and> certrep_result env (s\<lparr>sp_in_op := SCEP_OP_PKCS_REQ\<rparr>) m out'"
proof -
  obtain r w1 where r: "wolfcert_scep_parse_pki_message (se_cms env) (\<lambda>_. True) True (rs_body (sp_in_resp s)) w = (r, w1)" by (rule prod.exhaust)
  note def = f [unfolded scep_finish_def Let_def r prod.case]
  obtain m where m: "r = Ok m" using def r by (cases r) (auto dest: parse_pki_err)
  note def = def [unfolded m sum.case]
  have t: "wolfcert_scep_check_cert_rep (pm_attr m SCEP_ATTR_MSG_TYPE) (pm_attr m SCEP_ATTR_TRANS_ID) (sp_in_txid s) = WOLFCERT_OK"
    using def by (auto split: if_splits)
  obtain rv w2 where v: "wolfcert_scep_verify_rep_signer (se_cms env) (pm_signer_cert m) (sp_in_ca_bundle s) w1 = (rv, w2)" by (rule prod.exhaust)
  note def = def [unfolded t v prod.case, simplified]
  have rv: "rv = WOLFCERT_OK" using def by (auto split: if_splits)
  note def = def [unfolded rv, simplified]
  have n: "pm_attr m SCEP_ATTR_RECIP_NONCE = Some (sp_in_nonce s)" "length (sp_in_nonce s) = SCEP_NONCE_SZ"
    using def by (auto split: if_splits option.splits)
  note def = def [unfolded n, simplified n option.case, simplified]
  have "certrep_for p s m"
  proof -
    obtain sg b where sb: "pm_signer_cert m = Some sg" "sp_in_ca_bundle s = Some b"
      using v rv by (cases "pm_signer_cert m"; cases "sp_in_ca_bundle s") (auto simp: wolfcert_scep_verify_rep_signer_def)
    then have "cert_spki p sg \<noteq> None \<and> cert_spki p sg \<in> cert_spki p ` set (bundle_certs b)"
      using pure_parser.verify_rep_signer_eq [OF p, of sg b w1] v rv by (auto split: if_splits)
    then obtain k ca where "cert_spki p sg = Some k" "ca \<in> set (bundle_certs b)" "cert_spki p ca = Some k" by fastforce
    then show ?thesis using t n sb
      by (auto simp: certrep_for_def wolfcert_scep_check_cert_rep_def split: if_splits option.splits)
  qed
  moreover have "certrep_result env (s\<lparr>sp_in_op := SCEP_OP_PKCS_REQ\<rparr>) m out'"
  proof -
    let ?st = "pm_attr m SCEP_ATTR_PKI_STATUS" and ?fi = "pm_attr m SCEP_ATTR_FAIL_INFO"
    have tid: "pm_attr m SCEP_ATTR_TRANS_ID = sp_in_txid s"
      using t by (auto simp: wolfcert_scep_check_cert_rep_def split: if_splits option.splits)
    have ne: "lit ''0'' \<noteq> lit ''2''" "lit ''0'' \<noteq> lit ''3''" "lit ''2'' \<noteq> lit ''3''" by (simp_all add: lit_def)
    consider "?st = Some (lit ''3'')" | "?st = Some (lit ''2'')" "fail_info_ok ?fi" | "?st = Some (lit ''0'')"
      using def by (auto split: if_splits)
    then show ?thesis
    proof cases
      case 1
      then show ?thesis using def ne tid by (auto simp: certrep_result_def)
    next
      case 2
      then obtain fi where "?fi = Some fi" by (auto simp: fail_info_ok_def split: option.splits)
      then show ?thesis using def ne tid 2 fail_info_digit [of fi] by (auto simp: certrep_result_def)
    next
      case 3
      obtain inner v pem where e: "wolfcert_scep_deenvelop (se_cms env) (sp_in_signer s) (sp_in_signer_key s) (pm_envelope m) w2 = (Inr inner, v)"
        "wolfcert_pkcs7_certs_to_pem (se_cms env) inner v = (Inr pem, w')"
        "out' = out\<lparr>sr_transaction_id := sp_in_txid s, sr_cert_pem := pem, sr_status := WOLFCERT_SCEP_STATUS_SUCCESS\<rparr>"
        using def ne tid 3 by (auto dest: deenvelop_err certs_to_pem_err split: prod.splits sum.splits)
      have "pem \<noteq> []" by (rule certs_to_pem_some [OF e(2)])
      moreover have "fst (wolfcert_scep_deenvelop (se_cms env) (sp_in_signer s) (sp_in_signer_key s) (pm_envelope m) w2) = Ok inner"
        "fst (wolfcert_pkcs7_certs_to_pem (se_cms env) inner v) = Ok pem" using e(1,2) by simp_all
      ultimately show ?thesis using e(3) 3 by (auto simp: certrep_result_def)
    qed
  qed
  ultimately show ?thesis using r m by auto
qed

lemma pem_has_cert_err: "wolfcert_scep_pem_has_cert env pem issuer serial w = (Inl rc, w') \<Longrightarrow> rc \<noteq> WOLFCERT_OK"
proof -
  have "pem_has_cert_loop env issuer serial q v = (Inl rc, v') \<Longrightarrow> rc = WOLFCERT_ERR_MEMORY" for q v v'
  proof (induction env issuer serial q v rule: pem_has_cert_loop.induct)
    case (1 env issuer serial q v)
    show ?case using 1(4) 1(1-3)
      by (subst (asm) pem_has_cert_loop.simps) (auto split: if_splits prod.splits sum.splits)
  qed
  then show "wolfcert_scep_pem_has_cert env pem issuer serial w = (Inl rc, w') \<Longrightarrow> rc \<noteq> WOLFCERT_OK"
    by (auto simp: wolfcert_scep_pem_has_cert_def split: if_splits prod.splits)
qed

lemma scep_check_get_cert_ok:
  assumes "scep_check_get_cert env s out w = (WOLFCERT_OK, out', w')"
  shows "out' = out \<and> (\<exists>issuer serial v. wolfcert_scep_parse_issuer_and_serial (sp_in_ias s) = Ok (issuer, serial) \<and>
    fst (wolfcert_scep_pem_has_cert env (sr_cert_pem out) issuer serial v) = Ok True)"
proof -
  have "wolfcert_scep_parse_issuer_and_serial d \<noteq> Inl WOLFCERT_OK" for d
    by (auto simp: wolfcert_scep_parse_issuer_and_serial_def parse_issuer_and_def Let_def split: option.splits if_splits sum.splits prod.splits)
  then show ?thesis using assms
    by (auto simp: scep_check_get_cert_def Let_def dest: pem_has_cert_err split: sum.splits prod.splits bool.splits) (metis fst_conv)
qed

text \<open>
  C1. A SCEP reply is accepted only if it answers this request and the CA signed it, and the result is
  what it says. When \<open>scep_session_finish\<close> ends a PKIOperation with OK, the response was a 200 whose body
  is a verified pkiMessage of type CertRep with the transaction identifier of the request, its
  \<open>senderNonce\<close> as \<open>recipientNonce\<close>, and a signer whose public key is the key of a certificate in the CA
  bundle; the status is the one of the message, a failure has its reason, and a success has the
  certificates of the envelope opened with the requester's key, for a GetCert one of them with the
  issuer and serial number asked for. In every other case the result has no status and no certificate.
  The request is over in both cases.
\<close>

theorem scep_reply_authentic:
  assumes "pure_parser (se_cms env) p H" "scep_is_pki (sp_in_op s)" "co_res out = zero_scep_result"
    and "scep_session_finish env s c out w = (rc, out', s', w')"
  shows "s' = scep_session_reset s \<and>
    (if rc = WOLFCERT_OK
     then rs_status_code (sp_in_resp s) = 200 \<and>
       (\<exists>m. fst (wolfcert_scep_parse_pki_message (se_cms env) (\<lambda>_. True) True (rs_body (sp_in_resp s)) w) = Ok m \<and>
          certrep_for p s m \<and> certrep_result env s m (co_res out'))
     else sr_status (co_res out') = WOLFCERT_SCEP_STATUS_UNSET \<and> sr_cert_pem (co_res out') = [])"
proof (cases "rs_status_code (sp_in_resp s) = 200")
  case False
  then show ?thesis using assms(2-4) by (auto simp: scep_session_finish_def Let_def scep_is_pki_def zero_scep_result_def)
next
  case True
  obtain rc1 res1 w1 where f: "scep_finish env s (co_res out) w = (rc1, res1, w1)" by (rule prod_cases3)
  obtain rc2 res2 w2 where g: "scep_check_get_cert env s res1 w1 = (rc2, res2, w2)" by (rule prod_cases3)
  let ?gc = "rc1 = WOLFCERT_OK \<and> sp_in_op s = SCEP_OP_GET_CERT \<and> sr_status res1 = WOLFCERT_SCEP_STATUS_SUCCESS"
  have r: "s' = scep_session_reset s" "rc = (if ?gc then rc2 else rc1)" "co_res out' = (if ?gc then res2 else res1)"
    using assms(2,4) True f g by (auto simp: scep_session_finish_def Let_def scep_is_pki_def split: if_splits)
  have z: "sr_status (co_res out) = WOLFCERT_SCEP_STATUS_UNSET" "sr_cert_pem (co_res out) = []"
    unfolding assms(3) by (simp_all add: zero_scep_result_def)
  have failed: "sr_status res1 = WOLFCERT_SCEP_STATUS_UNSET \<and> sr_cert_pem res1 = []" if "rc1 \<noteq> WOLFCERT_OK"
    using f that z by (auto simp: scep_finish_def Let_def split: if_splits prod.splits sum.splits)
  have failed2: "sr_status res2 = WOLFCERT_SCEP_STATUS_UNSET \<and> sr_cert_pem res2 = []" if "rc2 \<noteq> WOLFCERT_OK"
    using g that by (auto simp: scep_check_get_cert_def Let_def split: if_splits prod.splits sum.splits bool.splits)
  show ?thesis
  proof (cases "rc = WOLFCERT_OK")
    case ok: True
    then have "rc1 = WOLFCERT_OK" using r(2) by (auto split: if_splits)
    then obtain m where m: "fst (wolfcert_scep_parse_pki_message (se_cms env) (\<lambda>_. True) True (rs_body (sp_in_resp s)) w) = Ok m"
      "certrep_for p s m" "certrep_result env (s\<lparr>sp_in_op := SCEP_OP_PKCS_REQ\<rparr>) m res1"
      using scep_finish_ok [of env s "co_res out" w res1 w1] f assms(1) by blast
    have "certrep_result env s m (co_res out')"
    proof (cases ?gc)
      case True
      then have "rc2 = WOLFCERT_OK" using ok r(2) by simp
      then have "res2 = res1" "\<exists>issuer serial v. wolfcert_scep_parse_issuer_and_serial (sp_in_ias s) = Ok (issuer, serial) \<and>
          fst (wolfcert_scep_pem_has_cert env (sr_cert_pem res1) issuer serial v) = Ok True"
        using scep_check_get_cert_ok [of env s res1 w1 res2 w2] g by auto
      then show ?thesis using m(3) True r(3) by (auto simp: certrep_result_def)
    next
      case False
      then show ?thesis using m(3) r(3) \<open>rc1 = _\<close> by (auto simp: certrep_result_def split: WolfCertScepStatus.splits)
    qed
    then show ?thesis using ok r(1) True m(1,2) by auto
  next
    case False
    then show ?thesis using r failed failed2 by (auto split: if_splits)
  qed
qed

section \<open>The request in flight, and nothing else\<close>

text \<open>
  The pkiMessage of the session: an envelope for the RA, signed by the requester, with the transaction
  identifier and the nonce that the session keeps and the message type of the operation.
\<close>

definition scep_sent :: "('k, 'w) scep_env \<Rightarrow> 'w WolfCertScepSession \<Rightarrow> bool" where
  "scep_sent env s \<longleftrightarrow>
     (\<exists>txid ra content enc v envl hash v'. sp_in_txid s = Some txid \<and>
        fst (wolfcert_scep_envelop (se_cms env) ra content enc v) = Ok envl \<and> (sp_in_ias s \<noteq> [] \<longrightarrow> content = sp_in_ias s) \<and>
        fst (wolfcert_scep_build_pki_message (se_cms env) envl (sp_in_signer s) (sp_in_signer_key s) hash
          (no_attrs\<lparr>sa_transaction_id := Some txid, sa_sender_nonce := Some (sp_in_nonce s),
                    sa_message_type := Some (scep_msg_type s (sp_in_op s))\<rparr>) v') = Ok (sp_in_pki s))"

definition scep_inv :: "('k, 'w) scep_env \<Rightarrow> 'w WolfCertScepSession \<Rightarrow> bool" where
  "scep_inv env s \<longleftrightarrow>
     (if sp_in_active s
      then (\<exists>url post. sp_in_url s = Some url \<and> sp_in_req s = scep_request url post (sp_in_pki s)) \<and>
        (scep_is_pki (sp_in_op s) \<longrightarrow> scep_sent env s)
      else scep_session_reset s = s)"

lemma scep_reset_idem [simp]: "scep_session_reset (scep_session_reset s) = scep_session_reset s"
  "\<not> sp_in_active (scep_session_reset s)" "scep_session_reset (scep_session_free_request s) = scep_session_reset s"
  by (simp_all add: scep_session_reset_def scep_session_free_request_def)

lemma scep_signer_err: "scep_signer env c nb w = (Inl rc, w') \<Longrightarrow> rc \<noteq> WOLFCERT_OK"
  by (auto simp: scep_signer_def wolfcert_scep_self_signed_rsa_def dest: encoded_err split: option.splits if_splits prod.splits)

lemma scep_keep_bundle_err: "scep_keep_bundle env c nb w = (Inl rc, w') \<Longrightarrow> rc \<noteq> WOLFCERT_OK"
  by (auto simp: scep_keep_bundle_def split: option.splits if_splits prod.splits)

lemma scep_ias_err: "scep_ias env c w = (Inl rc, w') \<Longrightarrow> rc \<noteq> WOLFCERT_OK"
  by (auto simp: scep_ias_def wolfcert_scep_issuer_and_subject_def wolfcert_scep_issuer_and_serial_def issuer_and_subject_der_def
      issuer_and_serial_der_def split: scep_session_op.splits option.splits if_splits prod.splits)

lemma rsa_key_to_der_err: "rsa_key_to_der env k w = (Inl rc, w') \<Longrightarrow> rc \<noteq> WOLFCERT_OK"
  by (auto simp: rsa_key_to_der_def dest: encoded_err split: if_splits prod.splits)

lemma scep_build_txid_err: "scep_build_txid env sel cert w = (Inl rc, w') \<Longrightarrow> rc \<noteq> WOLFCERT_OK"
  by (auto simp: scep_build_txid_def derive_txid_pubkey_def split: option.splits if_splits prod.splits)

lemma build_attribs_err: "build_signed_attribs a cap = Inl rc \<Longrightarrow> rc \<noteq> WOLFCERT_OK"
proof -
  have put: "put_attribs cap xs st = Inl rc \<Longrightarrow> \<forall>(oid, enc) \<in> set xs. \<forall>f cap e. enc = Some f \<longrightarrow> f cap = Inl e \<longrightarrow> e \<noteq> WOLFCERT_OK \<Longrightarrow> rc \<noteq> WOLFCERT_OK" for xs st
    by (induction cap xs st rule: put_attribs.induct) (auto split: sum.splits)
  have enc: "enc_printable s n = Inl e \<Longrightarrow> e \<noteq> WOLFCERT_OK" "enc_printable_n s n = Inl e \<Longrightarrow> e \<noteq> WOLFCERT_OK" "enc_nonce s n = Inl e \<Longrightarrow> e \<noteq> WOLFCERT_OK" for s n e
    by (auto simp: enc_printable_def enc_printable_n_def enc_nonce_def split: option.splits if_splits)
  show "build_signed_attribs a cap = Inl rc \<Longrightarrow> rc \<noteq> WOLFCERT_OK"
    unfolding build_signed_attribs_def by (erule put) (auto dest: enc)
qed

lemma build_pki_err: "wolfcert_scep_build_pki_message cms e c k h a w = (Inl rc, w') \<Longrightarrow> rc \<noteq> WOLFCERT_OK"
  by (auto simp: wolfcert_scep_build_pki_message_def Let_def dest: encoded_err build_attribs_err split: if_splits prod.splits sum.splits)

lemma envelop_err: "wolfcert_scep_envelop cms c x e w = (Inl rc, w') \<Longrightarrow> rc \<noteq> WOLFCERT_OK"
  by (auto simp: wolfcert_scep_envelop_def dest: encoded_err split: if_splits prod.splits)

lemma scep_build_transport_err: "scep_build_transport wc b mem url caps pki = Inl rc \<Longrightarrow> rc \<noteq> WOLFCERT_OK"
  by (auto simp: scep_build_transport_def wolfcert_scep_build_pki_get_url_def wolfcert_base64_encode_def Let_def
      split: if_splits option.splits sum.splits prod.splits)

text \<open>The steps of \<open>scep_prepare\<close> when it succeeds.\<close>

lemma pick_err:
  "wolfcert_scep_pick_hash_oid env caps h = Inl rc \<Longrightarrow> rc \<noteq> WOLFCERT_OK" "scep_pick_enc_oid env caps e = Inl rc \<Longrightarrow> rc \<noteq> WOLFCERT_OK"
  by (auto simp: wolfcert_scep_pick_hash_oid_def scep_pick_enc_oid_def
      split: if_splits WolfCertScepSigningHash.splits WolfCertScepContentCipher.splits option.splits)

lemma scep_prepare_cases:
  assumes "scep_prepare env s c mt x w = (r, w')"
  obtains (failed) rc where "r = Inl rc" "rc \<noteq> WOLFCERT_OK"
  | (prepared) pki nonce txid enc v envl hash v' where
      "r = Inr (pki, s\<lparr>sp_in_nonce := nonce, sp_in_txid := Some txid\<rparr>)"
      "fst (wolfcert_scep_envelop (se_cms env) (buf_bytes (sc_ra_cert c)) x enc v) = Ok envl"
      "fst (wolfcert_scep_build_pki_message (se_cms env) envl (sp_in_signer s) (sp_in_signer_key s) hash
          (no_attrs\<lparr>sa_transaction_id := Some txid, sa_sender_nonce := Some nonce, sa_message_type := Some mt\<rparr>) v') = Ok pki"
proof -
  note def = assms [unfolded scep_prepare_def Let_def]
  obtain hr where h: "wolfcert_scep_pick_hash_oid env (sc_caps c) (sp_signing_hash s) = hr" by blast
  obtain er where e: "scep_pick_enc_oid env (sc_caps c) (sp_content_cipher s) = er" by blast
  consider (a) rc where "hr = Inl rc" | (b) hash rc where "hr = Inr hash" "er = Inl rc" | (c) hash enc where "hr = Inr hash" "er = Inr enc"
    by (cases hr; cases er) auto
  then show thesis
  proof cases
    case a
    then show thesis using failed def h by (auto dest: pick_err)
  next
    case b
    then show thesis using failed def h e by (auto dest: pick_err)
  next
    case c
    note def = def [unfolded h e c sum.case]
    obtain vr w1 where v: "wolfcert_scep_envelop (se_cms env) (buf_bytes (sc_ra_cert c)) x enc w = (vr, w1)" by (rule prod.exhaust)
    obtain g w2 where g: "cm_InitRng (se_cms env) w1 = (g, w2)" by (rule prod.exhaust)
    obtain n nonce w3 where n: "se_RNG_GenerateBlock env SCEP_NONCE_SZ w2 = ((n, nonce), w3)" by (metis surj_pair)
    obtain tr w4 where t: "scep_build_txid env \<lparr>ts_id = sc_txid c, ts_mode = sp_txid_mode s\<rparr> (sp_in_signer s) w3 = (tr, w4)" by (rule prod.exhaust)
    show thesis
    proof (cases "\<exists>envl txid. vr = Inr envl \<and> g = 0 \<and> n = 0 \<and> tr = Inr txid")
      case False
      then consider (e) rc where "vr = Inl rc" | (g) envl where "vr = Inr envl" "g \<noteq> 0" | (n) envl where "vr = Inr envl" "g = 0" "n \<noteq> 0"
        | (t) envl rc where "vr = Inr envl" "g = 0" "n = 0" "tr = Inl rc" by (cases vr; cases tr; metis)
      then show thesis
      proof cases
        case e
        then show thesis using failed [of rc] def [unfolded v e prod.case sum.case] envelop_err [OF v [unfolded e]] by blast
      next
        case g
        then show thesis using failed [of "se_err env g"] def [unfolded v g(1) prod.case sum.case \<open>cm_InitRng _ _ = _\<close> if_P [OF g(2)]] by auto
      next
        case n
        then show thesis using failed [of "se_err env n"]
            def [unfolded v n(1) prod.case sum.case \<open>cm_InitRng _ _ = _\<close> \<open>se_RNG_GenerateBlock _ _ _ = _\<close> if_P [OF n(3)]]
          by simp
      next
        case t
        have "rc \<noteq> WOLFCERT_OK" using \<open>scep_build_txid _ _ _ _ = _\<close> t(4) by (auto dest: scep_build_txid_err)
        then show thesis using failed [of rc] def [unfolded v t(1) prod.case sum.case \<open>cm_InitRng _ _ = _\<close> \<open>se_RNG_GenerateBlock _ _ _ = _\<close>]
            \<open>scep_build_txid _ _ _ _ = _\<close> t by simp
      qed
    next
      case True
      then obtain envl txid where k: "vr = Inr envl" "g = 0" "n = 0" "tr = Inr txid" by blast
      let ?a = "no_attrs\<lparr>sa_transaction_id := Some txid, sa_sender_nonce := Some (take SCEP_NONCE_SZ nonce), sa_message_type := Some mt\<rparr>"
      obtain br w5 where b: "wolfcert_scep_build_pki_message (se_cms env) envl (sp_in_signer s) (sp_in_signer_key s) (Some hash) ?a
          (cm_FreeRng (se_cms env) w4) = (br, w5)" by (rule prod.exhaust)
      show thesis
      proof (cases br)
        case (Inl rc)
        then show thesis using failed def v g n t k b by (auto dest: build_pki_err)
      next
        case (Inr pki)
        then show thesis using prepared [of pki txid "take SCEP_NONCE_SZ nonce" enc w envl "Some hash" "cm_FreeRng (se_cms env) w4"] def v g n t k b
          by auto
      qed
    qed
  qed
qed

lemma scep_request_simps [simp]: "scep_request url False pki = scep_request url False pki'"
  by (simp add: scep_request_def)

lemma scep_begin_get_inv:
  assumes "scep_session_begin_get env s c nb w = (rc, s', w')" "\<not> scep_is_pki (sc_op c)" "scep_session_reset s = s"
  shows "if rc = WOLFCERT_OK then sp_in_active s' \<and> scep_inv env s' else s' = s"
  using assms(1,2)
  by (auto simp: scep_session_begin_get_def scep_session_start_def scep_inv_def Let_def dest: scep_keep_bundle_err
      split: prod.splits option.splits sum.splits if_splits)

lemma scep_begin_pki_inv:
  assumes "scep_session_begin_pki_op env s c nb w = (rc, s', w')" "scep_is_pki (sc_op c)" "scep_session_reset s = s"
  shows "if rc = WOLFCERT_OK then sp_in_active s' \<and> scep_inv env s' else scep_session_reset s' = s'"
proof -
  note def = assms(1) [unfolded scep_session_begin_pki_op_def Let_def]
  obtain r1 w1 where 1: "scep_signer env c nb w = (r1, w1)" by (rule prod.exhaust)
  obtain r2 w2 where 2: "scep_keep_bundle env c nb w1 = (r2, w2)" by (rule prod.exhaust)
  obtain r3 w3 where 3: "scep_ias env c w2 = (r3, w3)" by (rule prod.exhaust)
  obtain r4 w4 where 4: "rsa_key_to_der env (the (sc_key c)) w3 = (r4, w4)" by (rule prod.exhaust)
  show ?thesis
  proof (cases "\<exists>signer b ias key. r1 = Inr signer \<and> r2 = Inr b \<and> r3 = Inr ias \<and> r4 = Inr key")
    case False
    then show ?thesis using def 1 2 3 4
      by (auto dest: scep_signer_err scep_keep_bundle_err scep_ias_err rsa_key_to_der_err split: sum.splits)
  next
    case True
    then obtain signer b ias key where r: "r1 = Inr signer" "r2 = Inr b" "r3 = Inr ias" "r4 = Inr key" by blast
    define s1 where "s1 = s\<lparr>sp_in_signer := signer, sp_in_ca_bundle := b, sp_in_ias := ias, sp_in_signer_key := key\<rparr>"
    define x where "x = (if ias \<noteq> [] then ias else buf_bytes (sc_csr c))"
    obtain r5 w5 where 5: "scep_prepare env s1 c (scep_msg_type s1 (sc_op c)) x w4 = (r5, w5)" by (rule prod.exhaust)
    note def = def [unfolded 1 2 3 4 r prod.case sum.case, folded s1_def x_def, unfolded 5 prod.case]
    from 5 show ?thesis
    proof (cases rule: scep_prepare_cases)
      case (failed rc')
      then show ?thesis using def by auto
    next
      case (prepared pki nonce txid enc v envl hash v')
      define s2 where "s2 = s1\<lparr>sp_in_nonce := nonce, sp_in_txid := Some txid\<rparr>"
      obtain mem w6 where 6: "se_alloc env w5 = (mem, w6)" by (rule prod.exhaust)
      note def = def [unfolded prepared(1) sum.case prod.case 6, folded s2_def]
      show ?thesis
      proof (cases "scep_build_transport (cm_codes (se_cms env)) (e_b64 (ce_http (se_client env))) mem (sp_server_url s2) (sc_caps c)
          (if pki = [] then None else Some pki)")
        case (Inl e)
        then show ?thesis using def by (auto dest: scep_build_transport_err)
      next
        case (Inr up)
        obtain url post where up: "up = (url, post)" by (rule prod.exhaust)
        have s': "rc = WOLFCERT_OK" "s' = scep_session_start (s2\<lparr>sp_in_pki := pki\<rparr>) c url post" using def Inr up by auto
        have mt: "scep_msg_type s' (sc_op c) = scep_msg_type s1 (sc_op c)"
          by (auto simp: s' s2_def scep_msg_type_def scep_session_start_def split: scep_session_op.splits)
        have f: "sp_in_txid s' = Some txid" "sp_in_nonce s' = nonce" "sp_in_signer s' = sp_in_signer s1" "sp_in_signer_key s' = sp_in_signer_key s1"
          "sp_in_pki s' = pki" "sp_in_ias s' = ias" "sp_in_op s' = sc_op c"
          by (simp_all add: s' s2_def s1_def scep_session_start_def)
        have "scep_sent env s'" unfolding scep_sent_def f mt
          using prepared(2,3) by (intro exI [of _ txid] exI [of _ "buf_bytes (sc_ra_cert c)"] exI [of _ x] exI [of _ enc] exI [of _ v] exI [of _ envl]
            exI [of _ hash] exI [of _ v']) (auto simp: x_def)
        then show ?thesis using s' by (auto simp: scep_inv_def scep_session_start_def)
      qed
    qed
  qed
qed

lemma scep_begin_inv:
  assumes "scep_session_begin env s c nb w = (rc, s', w')" "scep_session_reset s = s"
  shows "if rc = WOLFCERT_OK then sp_in_active s' \<and> scep_inv env s' else scep_session_reset s' = s'"
  using assms scep_begin_pki_inv [of env s c nb w rc s' w'] scep_begin_get_inv [of env s c nb w rc s' w']
  by (auto simp: scep_session_begin_def split: if_splits)

lemma scep_http_call_inv:
  assumes "scep_http_call env s nb w = (rc, s', w')" "sp_in_active s" "scep_inv env s"
  shows "sp_in_active s' \<and> scep_inv env s'"
proof -
  have "scep_msg_type (s\<lparr>sp_http := h, sp_in_resp := r\<rparr>) = scep_msg_type s" for h r
    by (auto simp: scep_msg_type_def fun_eq_iff split: scep_session_op.splits)
  then have "scep_sent env (s\<lparr>sp_http := h, sp_in_resp := r\<rparr>) = scep_sent env s" for h r by (simp add: scep_sent_def)
  then show ?thesis using assms by (auto simp: scep_http_call_def scep_inv_def split: option.splits prod.splits if_splits)
qed

lemma scep_send_inv:
  assumes "scep_session_send env s c nb out w = (rc, out', s', w')" "sp_in_active s" "scep_inv env s"
  shows "scep_inv env s' \<and> (sp_in_active s' \<longrightarrow> nb \<and> rc_want rc)"
proof -
  obtain rc1 s1 w1 where h: "scep_http_call env s nb w = (rc1, s1, w1)" by (rule prod_cases3)
  have idle: "scep_inv env (scep_session_reset t) \<and> \<not> sp_in_active (scep_session_reset t)" for t by (simp add: scep_inv_def)
  consider "nb" "rc1 = WOLFCERT_ERR_WANT_READ \<or> rc1 = WOLFCERT_ERR_WANT_WRITE" "s' = s1" "rc = rc1" | t where "s' = scep_session_reset t"
    using assms(1) h by (auto simp: scep_session_send_def scep_session_finish_def Let_def split: if_splits prod.splits)
  then show ?thesis
  proof cases
    case 1
    then show ?thesis using scep_http_call_inv [OF h assms(2,3)] by (auto simp: rc_want_def)
  next
    case 2
    then show ?thesis using idle by simp
  qed
qed

lemma scep_session_call_inv:
  assumes c: "scep_session_call env (Some s) c nb out w = (rc, out', r, w')" and inv: "scep_inv env s"
  shows "\<exists>s'. r = Some s' \<and> scep_inv env s' \<and> (sp_in_active s' \<longrightarrow> nb \<and> rc_want rc \<or> s' = s \<and> rc = WOLFCERT_ERR_BAD_ARG)"
proof (cases "scep_call_out c = None \<or> sp_in_active s \<and> \<not> nb")
  case True
  then show ?thesis using assms by (cases "scep_call_out c = None") (auto simp: scep_session_call_def Let_def)
next
  case False
  then have go: "scep_call_out c \<noteq> None" "\<not> (sp_in_active s \<and> \<not> nb)" by auto
  obtain rcb s1 w1 where b: "(if sp_in_active s then (scep_session_resume_check s c, s, w)
     else if scep_call_check c = WOLFCERT_OK then scep_session_begin env s c nb w else (scep_call_check c, s, w)) = (rcb, s1, w1)"
    by (rule prod_cases3)
  note def = c [unfolded scep_session_call_def Let_def option.case if_not_P [OF go(1)] if_not_P [OF go(2)] b prod.case]
  show ?thesis
  proof (cases "rcb = WOLFCERT_OK")
    case False
    have "scep_inv env s1 \<and> (sp_in_active s1 \<longrightarrow> s1 = s \<and> rcb = WOLFCERT_ERR_BAD_ARG)"
    proof (cases "\<not> sp_in_active s \<and> scep_call_check c = WOLFCERT_OK")
      case True
      then have "scep_session_reset s1 = s1"
        using b False inv scep_begin_inv [of env s c nb w rcb s1 w1] by (auto simp: scep_inv_def split: if_splits)
      then show ?thesis by (metis scep_inv_def scep_reset_idem(2))
    next
      case other: False
      then show ?thesis using b False inv by (auto simp: scep_session_resume_check_def split: if_splits)
    qed
    then show ?thesis using def False by auto
  next
    case True
    have "\<not> sp_in_active s \<longrightarrow> scep_session_reset s = s" using inv by (simp add: scep_inv_def)
    then have s1: "sp_in_active s1" "scep_inv env s1"
      using b True inv scep_begin_inv [of env s c nb w rcb s1 w1] by (auto split: if_splits)
    obtain rc2 out2 s2 w2 where n: "scep_session_send env s1 c nb (scep_call_clear (Some s) c out) w1 = (rc2, out2, s2, w2)" by (rule prod_cases4)
    then show ?thesis using scep_send_inv [OF n s1] def True by auto
  qed
qed

text \<open>The states of a SCEP session from its opening on, under any sequence of calls.\<close>

inductive scep_reachable :: "('k, 'w) scep_env \<Rightarrow> 'w WolfCertServerCfg \<Rightarrow> 'w WolfCertScepSession \<Rightarrow> bool" for env srv where
  scep_opened: "wolfcert_scep_session_open env (Some srv) w = (Inr s, w') \<Longrightarrow> scep_reachable env srv s"
| scep_called: "scep_reachable env srv s \<Longrightarrow> scep_session_call env (Some s) c nb out w = (rc, out', Some s', w') \<Longrightarrow> scep_reachable env srv s'"

lemma scep_session_new_ok: "scep_session_new env (Some srv) w = (Inr s, w') \<Longrightarrow> \<exists>url. s = scep_new_session srv url"
  by (auto simp: scep_session_new_def Let_def split: option.splits prod.splits sum.splits if_splits)

lemma scep_session_open_idle:
  assumes "wolfcert_scep_session_open env (Some srv) w = (Inr s, w')"
  shows "\<not> sp_in_active s \<and> scep_session_reset s = s"
proof -
  obtain url os where "s = (scep_new_session srv url)\<lparr>sp_http := Some os\<rparr>"
    using assms by (auto simp: wolfcert_scep_session_open_def scep_session_connect_def dest!: scep_session_new_ok split: prod.splits sum.splits)
  then show ?thesis by (simp add: scep_new_session_def Let_def scep_session_reset_def scep_session_free_request_def)
qed

lemma scep_reachable_inv: "scep_reachable env srv s \<Longrightarrow> scep_inv env s"
proof (induction rule: scep_reachable.induct)
  case (scep_opened w s w')
  then show ?case using scep_session_open_idle [of env srv w s w'] by (simp add: scep_inv_def)
next
  case (scep_called s c nb out w rc out' s' w')
  then show ?case using scep_session_call_inv [of env s c nb out w rc out' "Some s'" w'] by simp
qed


section \<open>A scripted run\<close>

text \<open>Keys are one number, the generator counts, and a certificate is its own PEM text.\<close>

definition script_scep :: "(byte, script) scep_env" where
  "script_scep = \<lparr>se_client = script_client,
     se_self = (\<lambda>k. \<lparr>ss_CertNew = (\<lambda>w. (True, w)), ss_CertFree = (\<lambda>w. w), ss_sbjRaw_size = 8, ss_CTC_NAME_SIZE = 8,
       ss_SetKeyUsage = (\<lambda>u w. (0, w)), ss_MakeSelfCert = (\<lambda>nm days cap w. ((7, [0x30, 5, 0, 3, 3, k, 0]), w))\<rparr>),
     se_RNG_GenerateBlock = (\<lambda>n w. ((0, map of_nat [1 ..< n + 1]), w)),
     se_RsaKeyToDer = (\<lambda>k cap. (1, [k])), se_PemToDer = (\<lambda>b. (0, Some b)), se_ShaHash = None, se_Sha512Hash = None,
     se_SHA384 = False, se_AES_256_CBC = False, se_DES3 = True\<rparr>"

lemma script_scep_parser: "pure_parser (se_cms script_scep) small_parse id"
  by unfold_locales (auto simp: script_scep_def script_client_def plain_cms_def small_parse_def split: if_splits)

text \<open>A session waiting for its CertRep, and the reply of the CA, a success with one certificate.\<close>

definition script_ca_cert :: "byte list" where
  "script_ca_cert = [0x30, 5, 1, 7, 7, 9, 0]"

definition script_certrep :: "byte list" where
  "script_certrep = projr (fst (wolfcert_scep_build_pki_message (se_cms script_scep) (2 # packs [[0x30, 5]]) script_ca_cert [9] None
     (no_attrs\<lparr>sa_message_type := Some (lit ''3''), sa_transaction_id := Some (lit ''AB''), sa_pki_status := Some (lit ''0''),
        sa_recipient_nonce := Some (replicate 16 1)\<rparr>) ([], [], [])))"

definition script_waiting :: "script WolfCertScepSession" where
  "script_waiting = (scep_new_session script_srv (lit ''http://a/e''))\<lparr>sp_in_active := True, sp_in_op := SCEP_OP_PKCS_REQ,
     sp_in_signer := [0x30, 5, 0, 3, 3, 4, 0], sp_in_signer_key := [4], sp_in_txid := Some (lit ''AB''),
     sp_in_nonce := replicate 16 1, sp_in_ca_bundle := Some script_ca_cert,
     sp_in_resp := \<lparr>rs_status_code = 200, rs_content_type = None, rs_body = script_certrep, rs_retry_after_sec = 0\<rparr>\<rparr>"

definition zero_out :: scep_out where
  "zero_out = \<lparr>co_caps = zero_caps, co_buf = [], co_res = zero_scep_result\<rparr>"

lemma script_finish_runs:
  "case scep_session_finish script_scep script_waiting (zero_call :: byte ScepCall) zero_out ([], [], []) of
     (rc, out, s, w) \<Rightarrow> rc = WOLFCERT_OK \<and> sr_status (co_res out) = WOLFCERT_SCEP_STATUS_SUCCESS \<and> sr_cert_pem (co_res out) = [0x30, 5]"
  by code_simp

theorem scep_reply_authentic_witness:
  "\<exists>out s w m. scep_session_finish script_scep script_waiting (zero_call :: byte ScepCall) zero_out ([], [], []) = (WOLFCERT_OK, out, s, w) \<and>
     sr_cert_pem (co_res out) = [0x30, 5] \<and> certrep_for small_parse script_waiting m \<and> certrep_result script_scep script_waiting m (co_res out)"
proof -
  obtain rc out s w where f: "scep_session_finish script_scep script_waiting (zero_call :: byte ScepCall) zero_out ([], [], []) = (rc, out, s, w)"
    by (rule prod_cases4)
  then have ok: "rc = WOLFCERT_OK" "sr_cert_pem (co_res out) = [0x30, 5]" using script_finish_runs by simp_all
  have "scep_is_pki (sp_in_op script_waiting)" "co_res zero_out = zero_scep_result"
    by (simp_all add: script_waiting_def zero_out_def scep_is_pki_def)
  then obtain m where "certrep_for small_parse script_waiting m" "certrep_result script_scep script_waiting m (co_res out)"
    using scep_reply_authentic [OF script_scep_parser _ _ f] ok(1) by auto
  then show ?thesis using f ok by blast
qed

definition script_scep_srv :: "script WolfCertServerCfg" where
  "script_scep_srv = script_srv\<lparr>sv_protocol := WOLFCERT_PROTO_SCEP\<rparr>"

definition script_pkcs_req :: "byte ScepCall" where
  "script_pkcs_req = (pki_call SCEP_OP_PKCS_REQ None (Some script_ca_cert) (Some script_ca_cert)
     (Some \<lparr>k_type = WOLFCERT_KEY_RSA, k_dev_id = 0, k_curve_id = 0, k_rsa_bits = 2048, k_label = None, k_impl = Some 4\<rparr>) (Some 1))
     \<lparr>sc_csr := Some [0x30, 5, 0, 3, 3, 4, 0]\<rparr>"

lemma script_request_runs:
  "case wolfcert_scep_session_open script_scep (Some script_scep_srv) ([[]], [], []) of
     (Inl rc, w) \<Rightarrow> False
   | (Inr s, w) \<Rightarrow>
       (case scep_session_call script_scep (Some s) script_pkcs_req True zero_out w of
          (rc, out, r, w') \<Rightarrow> rc = WOLFCERT_ERR_WANT_READ \<and> (case r of None \<Rightarrow> False | Some s' \<Rightarrow> sp_in_active s'))"
  by code_simp


end
