(* ===== verification/Ca_Issue.thy ===== *)
theory Ca_Issue
  imports Store Scep_Msg
begin

text \<open>
  The CA of the test servers, \<open>src/ca_issue.c\<close>: generation, persistence in a store and issuance from a
  PKCS#10 request, with \<open>wolfcert_find_san\<close> of \<open>src/internal.c\<close>.

  The certificate generator and the ASN.1 primitives of wolfSSL are the parameter \<open>cert_lib\<close>, its key
  functions \<open>wolf_keys\<close> and its parser \<open>wolf_cms\<close>.
\<close>

section \<open>The library\<close>

text \<open>The subject attributes that wolfSSL decodes and generates, by the names of \<open>DecodedCert\<close>.\<close>

datatype subject_rdn =
  subjectCN | subjectO | subjectOU | subjectC | subjectST | subjectL | subjectStreet | subjectSN | subjectGN | subjectEmail
  | subjectSND | subjectUID | subjectPC | subjectBC

text \<open>
  A decoded request or certificate, with the fields that only the CA reads: a pointer of a subject
  attribute with its length is a byte list, with its encoding.
\<close>

record DecodedReq =
  dq_cert :: DecodedCert
  dq_isCSR :: bool
  dq_extensions :: "byte list option"
  dq_extSubjAltNameCrit :: bool
  dq_cPwd :: "byte list option"
  dq_subject :: "subject_rdn \<Rightarrow> (byte list \<times> int) option"

text \<open>The structure that wolfSSL generates certificates from.\<close>

record Cert =
  nc_subject :: "subject_rdn \<Rightarrow> cstring"
  nc_subjectEnc :: "subject_rdn \<Rightarrow> int"
  nc_issuer :: "byte list option"
  nc_isCA :: bool
  nc_basicConstCrit :: bool
  nc_selfSigned :: bool
  nc_daysValid :: int
  nc_sigType :: "ctc_sig option"
  nc_keyUsage :: cstring
  nc_altNames :: "byte list"
  nc_altNamesCrit :: bool
  nc_sbjRaw :: cstring
  nc_challengePw :: cstring

text \<open>
  \<open>ct_GetASNTag buf idx max\<close> gives the return code, the tag and the index behind it, \<open>ct_GetLength\<close> the
  return code, the length and the index behind it.
\<close>

record ('k, 'w) cert_lib =
  ct_CertNew :: "'w \<Rightarrow> bool \<times> 'w"
  ct_CertFree :: "'w \<Rightarrow> 'w"
  ct_InitCert :: Cert
  ct_SetKeyUsage :: "cstring \<Rightarrow> Cert \<Rightarrow> 'w \<Rightarrow> (int \<times> Cert) \<times> 'w"
  ct_SetIssuerBuffer :: "byte list \<Rightarrow> Cert \<Rightarrow> 'w \<Rightarrow> (int \<times> Cert) \<times> 'w"
  ct_MakeCert_ex :: "Cert \<Rightarrow> nat \<Rightarrow> wc_keytype \<Rightarrow> 'k \<Rightarrow> 'w \<Rightarrow> (int \<times> byte list) \<times> 'w"
  ct_SignCert_ex :: "int \<Rightarrow> ctc_sig \<Rightarrow> byte list \<Rightarrow> nat \<Rightarrow> wc_keytype \<Rightarrow> 'k \<Rightarrow> 'w \<Rightarrow> (int \<times> byte list) \<times> 'w"
  ct_ParseCertReq :: "bool \<Rightarrow> byte list \<Rightarrow> 'w \<Rightarrow> (int \<times> DecodedReq) \<times> 'w"
  ct_ParseCert :: "byte list \<Rightarrow> 'w \<Rightarrow> (int \<times> DecodedReq) \<times> 'w"
  ct_import_public :: "wc_key_struct \<Rightarrow> byte list \<Rightarrow> 'k \<Rightarrow> 'w \<Rightarrow> (int \<times> 'k) \<times> 'w"
  ct_GetASNTag :: "byte list \<Rightarrow> nat \<Rightarrow> nat \<Rightarrow> int \<times> byte \<times> nat"
  ct_GetLength :: "byte list \<Rightarrow> nat \<Rightarrow> nat \<Rightarrow> int \<times> nat \<times> nat"
  ct_subject_size :: "subject_rdn \<Rightarrow> nat"
  ct_altNames_size :: nat
  ct_CERT_EXT :: bool

section \<open>Key and certificate of the CA\<close>

record 'k WolfCertCa =
  ca_type :: int
  ca_impl :: "'k option"
  ca_cert_der :: "byte list"
  ca_key_der :: "byte list"

definition zero_ca :: "'k WolfCertCa" where
  "zero_ca = \<lparr>ca_type = 0, ca_impl = None, ca_cert_der = [], ca_key_der = []\<rparr>"

text \<open>The first algorithm the build has.\<close>

definition WOLFCERT_DEFAULT_KEY_TYPE :: "key_build \<Rightarrow> int" where
  "WOLFCERT_DEFAULT_KEY_TYPE b =
     (if kb_rsa b then WOLFCERT_KEY_RSA else if kb_ecc b then WOLFCERT_KEY_ECC else if kb_ed25519 b then WOLFCERT_KEY_ED25519
      else if kb_ed448 b then WOLFCERT_KEY_ED448 else WOLFCERT_KEY_MLDSA44)"

definition ca_as_key :: "'k WolfCertCa \<Rightarrow> 'k WolfCertKey" where
  "ca_as_key ca = \<lparr>k_type = ca_type ca, k_dev_id = WOLFCERT_DEVID_SOFTWARE, k_curve_id = 0, k_rsa_bits = 0, k_label = None,
     k_impl = ca_impl ca\<rparr>"

definition ca_sync_from_shim :: "'k WolfCertCa \<Rightarrow> 'k WolfCertKey \<Rightarrow> 'k WolfCertCa" where
  "ca_sync_from_shim ca shim = ca\<lparr>ca_impl := k_impl shim\<rparr>"

definition ca_cert_template :: "('k, 'w) cert_lib \<Rightarrow> ctc_sig \<Rightarrow> Cert" where
  "ca_cert_template lib sig =
     (let c = ct_InitCert lib; put = (\<lambda>f s. take (ct_subject_size lib f - 1) s) in
      c\<lparr>nc_subject := (nc_subject c)(subjectCN := put subjectCN (lit ''wolfCert Test CA''),
            subjectO := put subjectO (lit ''wolfCert''), subjectC := put subjectC (lit ''US'')),
        nc_isCA := True, nc_basicConstCrit := True, nc_selfSigned := True, nc_daysValid := 3650, nc_sigType := Some sig\<rparr>)"

text \<open>A length of 0 is mapped to no error; the CA then has no certificate.\<close>

definition gen_self_signed_cert ::
  "key_build \<Rightarrow> ('k, 'w) wolf_keys \<Rightarrow> ('k, 'w) cert_lib \<Rightarrow> 'k WolfCertCa \<Rightarrow> 'w \<Rightarrow> (wc_rc \<times> 'k WolfCertCa) \<times> 'w" where
  "gen_self_signed_cert b keys lib ca w =
     (case wolfcert_key_alg b keys (ca_type ca) of
        None \<Rightarrow> ((WOLFCERT_ERR_UNSUPPORTED, ca), w)
      | Some alg \<Rightarrow>
      (case ct_CertNew lib w of (got, w) \<Rightarrow>
      if \<not> got then ((WOLFCERT_ERR_MEMORY, ca), w)
      else let cert = ca_cert_template lib (ka_ctc_sig_default alg);
               usage = (if ca_type ca = WOLFCERT_KEY_RSA then lit ''keyCertSign,cRLSign,digitalSignature,keyEncipherment''
                        else lit ''keyCertSign,cRLSign,digitalSignature'') in
      case ct_SetKeyUsage lib usage cert w of ((ku, cert), w) \<Rightarrow>
      if ku \<noteq> 0 then ((map_err keys ku, ca), ct_CertFree lib w)
      else case wk_InitRng keys WOLFCERT_DEVID_SOFTWARE w of (rc, w) \<Rightarrow>
      if rc \<noteq> 0 then ((WOLFCERT_ERR_CRYPTO, ca), ct_CertFree lib w)
      else let cap = ka_der_cap_hint alg + 4096 in
      case wk_malloc keys w of (got, w) \<Rightarrow>
      if \<not> got then ((WOLFCERT_ERR_MEMORY, ca), ct_CertFree lib (wk_FreeRng keys w))
      else case ct_MakeCert_ex lib cert cap (ka_wc_keytype_enum alg) (the (ca_impl ca)) w of ((body, der), w) \<Rightarrow>
      if body \<le> 0 then ((map_err keys body, ca), ct_CertFree lib (wk_FreeRng keys w))
      else case ct_SignCert_ex lib body (the (nc_sigType cert)) der cap (ka_wc_keytype_enum alg) (the (ca_impl ca)) w of ((sz, der), w) \<Rightarrow>
      let w = ct_CertFree lib (wk_FreeRng keys w) in
      if sz \<le> 0 then ((map_err keys sz, ca), w)
      else ((WOLFCERT_OK, ca\<lparr>ca_cert_der := take (nat sz) der\<rparr>), w)))"

definition wolfcert_ca_free :: "key_build \<Rightarrow> ('k, 'w) wolf_keys \<Rightarrow> 'k WolfCertCa \<Rightarrow> 'w \<Rightarrow> 'k WolfCertCa \<times> 'w" where
  "wolfcert_ca_free b keys ca w =
     (case wolfcert_key_alg b keys (ca_type ca) of
        None \<Rightarrow> (zero_ca, w)
      | Some alg \<Rightarrow>
          (zero_ca,
           if ca_impl ca \<noteq> None
           then snd (ka_free alg \<lparr>k_type = ca_type ca, k_dev_id = 0, k_curve_id = 0, k_rsa_bits = 0, k_label = None, k_impl = ca_impl ca\<rparr> w)
           else w))"

definition ca_key_param :: "int \<Rightarrow> int \<Rightarrow> int" where
  "ca_key_param t param =
     (if param = 0 then (if t = WOLFCERT_KEY_RSA then 2048 else if t = WOLFCERT_KEY_ECC then 256 else param) else param)"

definition wolfcert_ca_generate ::
  "key_build \<Rightarrow> ('k, 'w) wolf_keys \<Rightarrow> ('k, 'w) cert_lib \<Rightarrow> int \<Rightarrow> int \<Rightarrow> 'w \<Rightarrow> (wc_rc \<times> 'k WolfCertCa) \<times> 'w" where
  "wolfcert_ca_generate b keys lib type param w =
     (let ca = zero_ca\<lparr>ca_type := (if type \<noteq> 0 then type else WOLFCERT_DEFAULT_KEY_TYPE b)\<rparr>;
          p = ca_key_param (ca_type ca) param in
      case wolfcert_key_alg b keys (ca_type ca) of
        None \<Rightarrow> ((WOLFCERT_ERR_UNSUPPORTED, ca), w)
      | Some alg \<Rightarrow>
      (case ka_alloc_init alg (ca_as_key ca) w of ((rc, shim), w) \<Rightarrow>
      if rc \<noteq> WOLFCERT_OK then ((rc, ca), w)
      else case wk_InitRng keys WOLFCERT_DEVID_SOFTWARE w of (r, w) \<Rightarrow>
      if r \<noteq> 0 then ((WOLFCERT_ERR_CRYPTO, ca), snd (ka_free alg shim w))
      else let cfg = \<lparr>kc_type = ca_type ca, kc_param = p, kc_dev_id = WOLFCERT_DEVID_SOFTWARE, kc_key_label = None\<rparr> in
      case ka_make alg shim cfg w of ((rc, shim), w) \<Rightarrow>
      let w = wk_FreeRng keys w in
      if rc \<noteq> WOLFCERT_OK then ((rc, ca), snd (ka_free alg shim w))
      else case wk_malloc keys w of (got, w) \<Rightarrow>
      if \<not> got then ((WOLFCERT_ERR_MEMORY, ca), snd (ka_free alg shim w))
      else case ka_priv_to_der alg shim (ka_der_cap_hint alg + 2048) of (ks, der) \<Rightarrow>
      if ks \<le> 0 then ((map_err keys ks, ca), snd (ka_free alg shim w))
      else let ca = (ca_sync_from_shim ca shim)\<lparr>ca_key_der := take (nat ks) der\<rparr> in
      case gen_self_signed_cert b keys lib ca w of ((rc, ca), w) \<Rightarrow>
      if rc \<noteq> WOLFCERT_OK then (case wolfcert_ca_free b keys ca w of (ca, w) \<Rightarrow> ((rc, ca), w))
      else ((WOLFCERT_OK, ca), w)))"

section \<open>The CA in a store\<close>

abbreviation (input) KEYUSE_KEY_CERT_SIGN :: nat where "KEYUSE_KEY_CERT_SIGN \<equiv> 0x04"

definition ca_check_stored_pair ::
  "('k, 'w) wolf_keys \<Rightarrow> 'w wolf_cms \<Rightarrow> ('k, 'w) WolfCertKeyAlg \<Rightarrow> 'k WolfCertKey \<Rightarrow> byte list \<Rightarrow> 'w \<Rightarrow>
   (wc_rc \<times> 'k WolfCertKey) \<times> 'w" where
  "ca_check_stored_pair keys cms alg key cert_der w =
     (case wk_malloc keys w of (got, w) \<Rightarrow>
      if \<not> got then ((WOLFCERT_ERR_MEMORY, key), w)
      else case cm_ParseCert cms cert_der w of ((rc, dc), w) \<Rightarrow>
      if rc \<noteq> 0 then ((WOLFCERT_ERR_PARSE, key), w)
      else if \<not> dc_isCA dc \<or> (case dc_keyUsage dc of None \<Rightarrow> False | Some ku \<Rightarrow> \<not> ku_has KEYUSE_KEY_CERT_SIGN ku)
      then ((WOLFCERT_ERR_PARSE, key), w)
      else if dc_keyOID dc \<noteq> Some (ka_key_oid alg) \<or> dc_publicKey dc = [] then ((WOLFCERT_ERR_PARSE, key), w)
      else ka_pub_check alg key (dc_publicKey dc) w)"

definition CA_CERT_NAME :: cstring where
  "CA_CERT_NAME = lit ''ca.cert.der''"

definition CA_KEY_NAME :: cstring where
  "CA_KEY_NAME = lit ''ca.key.der''"

text \<open>The algorithms in order, until one decodes the key; its verdict on the pair is final.\<close>

fun ca_load_key ::
  "('k, 'w) wolf_keys \<Rightarrow> 'w wolf_cms \<Rightarrow> ('k, 'w) WolfCertKeyAlg list \<Rightarrow> byte list \<Rightarrow> byte list \<Rightarrow> 'w \<Rightarrow> 'k WolfCertCa wc_result \<times> 'w" where
  "ca_load_key keys cms [] cert key w = (Err WOLFCERT_ERR_PARSE, w)"
| "ca_load_key keys cms (a # as) cert key w =
     (let shim = \<lparr>k_type = ka_type a, k_dev_id = WOLFCERT_DEVID_SOFTWARE, k_curve_id = 0, k_rsa_bits = 0, k_label = None, k_impl = None\<rparr> in
      case ka_alloc_init a shim w of ((rc, shim), w) \<Rightarrow>
      if rc \<noteq> WOLFCERT_OK then ca_load_key keys cms as cert key w
      else case ka_priv_decode a shim key w of ((rc, shim), w) \<Rightarrow>
      if rc = WOLFCERT_OK
      then (case ca_check_stored_pair keys cms a shim cert w of ((rc, shim), w) \<Rightarrow>
            if rc \<noteq> WOLFCERT_OK then (Err rc, snd (ka_free a shim w))
            else (Ok \<lparr>ca_type = ka_type a, ca_impl = k_impl shim, ca_cert_der = cert, ca_key_der = key\<rparr>, w))
      else ca_load_key keys cms as cert key (snd (ka_free a shim w)))"

definition wolfcert_ca_load ::
  "key_build \<Rightarrow> ('k, 'w) wolf_keys \<Rightarrow> 'w wolf_cms \<Rightarrow> 's WolfCertStoreOps \<Rightarrow> 'w \<Rightarrow> 's \<Rightarrow> 'k WolfCertCa wc_result \<times> 'w \<times> 's" where
  "wolfcert_ca_load b keys cms store w st =
     (case so_read store CA_CERT_NAME st of (cert_r, st) \<Rightarrow>
      case so_read store CA_KEY_NAME st of (key_r, st) \<Rightarrow>
      case (cert_r, key_r) of
        (Inr cert, Inr key) \<Rightarrow>
          (case ca_load_key keys cms (wolfcert_key_algs_all b keys) cert key w of (r, w) \<Rightarrow> (r, w, st))
      | _ \<Rightarrow>
          (Err (if cert_r = Err WOLFCERT_ERR_NOT_FOUND \<and> key_r = Err WOLFCERT_ERR_NOT_FOUND then WOLFCERT_ERR_NOT_FOUND
                else if isl cert_r \<and> cert_r \<noteq> Err WOLFCERT_ERR_NOT_FOUND then projl cert_r
                else if isl key_r \<and> key_r \<noteq> Err WOLFCERT_ERR_NOT_FOUND then projl key_r
                else WOLFCERT_ERR_PARSE), w, st))"

text \<open>Every store of the library has a \<open>remove\<close>; its result only decides the text of the error.\<close>

definition wolfcert_ca_save :: "'k WolfCertCa \<Rightarrow> 's WolfCertStoreOps \<Rightarrow> 's \<Rightarrow> (wc_rc \<times> 's) option" where
  "wolfcert_ca_save ca store st =
     (case so_write store CA_CERT_NAME (ca_cert_der ca) False st of
        None \<Rightarrow> None
      | Some (rc, st) \<Rightarrow>
          if rc \<noteq> WOLFCERT_OK then Some (rc, st)
          else case so_write store CA_KEY_NAME (ca_key_der ca) True st of
                 None \<Rightarrow> None
               | Some (rc, st) \<Rightarrow>
                   if rc = WOLFCERT_OK then Some (rc, st)
                   else (case so_remove store CA_CERT_NAME st of (_, st) \<Rightarrow> Some (rc, st)))"

section \<open>The subject's key\<close>

definition subject_type_from_oid :: "key_build \<Rightarrow> key_oid option \<Rightarrow> int" where
  "subject_type_from_oid b oid =
     (case oid of
        None \<Rightarrow> 0
      | Some RSAk \<Rightarrow> WOLFCERT_KEY_RSA
      | Some ECDSAk \<Rightarrow> WOLFCERT_KEY_ECC
      | Some ED25519k \<Rightarrow> if kb_ed25519 b then WOLFCERT_KEY_ED25519 else 0
      | Some ED448k \<Rightarrow> if kb_ed448 b then WOLFCERT_KEY_ED448 else 0
      | Some ML_DSA_44k \<Rightarrow> if kb_mldsa b then WOLFCERT_KEY_MLDSA44 else 0
      | Some ML_DSA_65k \<Rightarrow> if kb_mldsa b then WOLFCERT_KEY_MLDSA65 else 0
      | Some ML_DSA_87k \<Rightarrow> if kb_mldsa b then WOLFCERT_KEY_MLDSA87 else 0)"

text \<open>The structure for a key of the given kind and, for ML-DSA, its level; \<open>None\<close> where the build has no branch.\<close>

definition subject_struct :: "key_build \<Rightarrow> key_oid \<Rightarrow> (wc_key_struct \<times> mldsa_level option) option" where
  "subject_struct b oid =
     (case oid of
        RSAk \<Rightarrow> if kb_rsa b then Some (RsaKey, None) else None
      | ECDSAk \<Rightarrow> if kb_ecc b then Some (EccKey, None) else None
      | ED25519k \<Rightarrow> if kb_ed25519 b then Some (Ed25519Key, None) else None
      | ED448k \<Rightarrow> if kb_ed448 b then Some (Ed448Key, None) else None
      | ML_DSA_44k \<Rightarrow> if kb_mldsa b \<and> kb_mldsa44 b then Some (MlDsaKey, Some WC_ML_DSA_44) else None
      | ML_DSA_65k \<Rightarrow> if kb_mldsa b \<and> kb_mldsa65 b then Some (MlDsaKey, Some WC_ML_DSA_65) else None
      | ML_DSA_87k \<Rightarrow> if kb_mldsa b \<and> kb_mldsa87 b then Some (MlDsaKey, Some WC_ML_DSA_87) else None)"

text \<open>The decoder of each kind, on an initialised key object.\<close>

definition subject_decode ::
  "('k, 'w) wolf_keys \<Rightarrow> ('k, 'w) cert_lib \<Rightarrow> wc_key_struct \<Rightarrow> mldsa_level option \<Rightarrow> byte list \<Rightarrow> 'k \<Rightarrow> 'w \<Rightarrow> (int \<times> 'k) \<times> 'w" where
  "subject_decode keys lib st lvl spki obj w =
     (case lvl of
        Some l \<Rightarrow>
          (case wk_SetParams keys l obj of (rc, obj) \<Rightarrow>
             if rc \<noteq> 0 then ((rc, obj), w) else wk_PublicKeyDecode keys st spki obj w)
      | None \<Rightarrow>
          if st = Ed25519Key \<or> st = Ed448Key then ct_import_public lib st spki obj w
          else wk_PublicKeyDecode keys st spki obj w)"

definition free_subject_pubkey :: "key_build \<Rightarrow> ('k, 'w) wolf_keys \<Rightarrow> key_oid option \<Rightarrow> 'k option \<Rightarrow> 'w \<Rightarrow> 'w" where
  "free_subject_pubkey b keys oid impl w =
     (case (oid, impl) of
        (Some o', Some obj) \<Rightarrow>
          (case o' of
             RSAk \<Rightarrow> if kb_rsa b then wk_Free keys RsaKey obj w else w
           | ECDSAk \<Rightarrow> if kb_ecc b then wk_Free keys EccKey obj w else w
           | ED25519k \<Rightarrow> if kb_ed25519 b then wk_Free keys Ed25519Key obj w else w
           | ED448k \<Rightarrow> if kb_ed448 b then wk_Free keys Ed448Key obj w else w
           | _ \<Rightarrow> if kb_mldsa b then wk_Free keys MlDsaKey obj w else w)
      | _ \<Rightarrow> w)"

definition decode_subject_pubkey ::
  "key_build \<Rightarrow> ('k, 'w) wolf_keys \<Rightarrow> ('k, 'w) cert_lib \<Rightarrow> key_oid option \<Rightarrow> byte list \<Rightarrow> 'w \<Rightarrow>
   ('k \<times> ('k, 'w) WolfCertKeyAlg) wc_result \<times> 'w" where
  "decode_subject_pubkey b keys lib oid spki w =
     (let st = subject_type_from_oid b oid in
      if st = 0 then (Err WOLFCERT_ERR_UNSUPPORTED, w)
      else case wolfcert_key_alg b keys st of
        None \<Rightarrow> (Err WOLFCERT_ERR_UNSUPPORTED, w)
      | Some alg \<Rightarrow>
          (case subject_struct b (the oid) of
             None \<Rightarrow> (Err WOLFCERT_ERR_UNSUPPORTED, w)
           | Some (ks, lvl) \<Rightarrow>
               (case wk_malloc keys w of (got, w) \<Rightarrow>
                if \<not> got then (Err WOLFCERT_ERR_MEMORY, w)
                else case wk_Init keys ks WOLFCERT_DEVID_SOFTWARE w of ((rc, obj), w) \<Rightarrow>
                if rc \<noteq> 0 then (Err WOLFCERT_ERR_CRYPTO, w)
                else case subject_decode keys lib ks lvl spki obj w of ((rc, obj), w) \<Rightarrow>
                if rc \<noteq> 0 then (Err WOLFCERT_ERR_PARSE, wk_Free keys ks obj w)
                else (Ok (obj, alg), w))))"

section \<open>The subjectAltName extension\<close>

text \<open>
  A tag and a length at an index, up to \<open>max\<close>: the tag, the length and the index of the content.
\<close>

definition asn_header :: "('k, 'w) cert_lib \<Rightarrow> byte list \<Rightarrow> nat \<Rightarrow> nat \<Rightarrow> (byte \<times> nat \<times> nat) option" where
  "asn_header lib buf idx mx =
     (case ct_GetASNTag lib buf idx mx of (rc, tag, idx) \<Rightarrow>
      if rc < 0 then None
      else case ct_GetLength lib buf idx mx of (rc, len, idx) \<Rightarrow>
      if rc < 0 then None else Some (tag, len, idx))"

abbreviation (input) ASN_SEQ :: byte where "ASN_SEQ \<equiv> 0x30"

text \<open>
  The test of the tag between the two calls of the source comes after both here: each of the three
  failures leads to the same result, and no later step reads the index.

  The loops read one header in each round, which moves the index; \<open>fuel\<close> is the number of bytes left.
\<close>

fun find_san_loop :: "('k, 'w) cert_lib \<Rightarrow> byte list \<Rightarrow> nat \<Rightarrow> nat \<Rightarrow> nat \<Rightarrow> byte list option wc_result" where
  "find_san_loop lib ext end' idx fuel =
     (if \<not> idx < end' then Ok None
      else case fuel of
        0 \<Rightarrow> Err WOLFCERT_ERR_PARSE
      | Suc fuel \<Rightarrow>
          (case asn_header lib ext idx end' of
             None \<Rightarrow> Err WOLFCERT_ERR_PARSE
           | Some (tag, len, idx) \<Rightarrow>
               if tag \<noteq> ASN_SEQ then Err WOLFCERT_ERR_PARSE
               else let ext_end = idx + len; san_oid = [0x06, 0x03, 0x55, 0x1D, 0x11] in
               if ext_end - idx < length san_oid \<or> take (length san_oid) (drop idx ext) \<noteq> san_oid
               then find_san_loop lib ext end' ext_end fuel
               else let idx = idx + length san_oid in
               case (if idx < ext_end \<and> ext ! idx = 0x01
                     then map_option (\<lambda>(_, len, idx). idx + len) (asn_header lib ext idx ext_end) else Some idx) of
                 None \<Rightarrow> Err WOLFCERT_ERR_PARSE
               | Some idx \<Rightarrow>
                   (case asn_header lib ext idx ext_end of
                      None \<Rightarrow> Err WOLFCERT_ERR_PARSE
                    | Some (tag, len, idx) \<Rightarrow>
                        if tag \<noteq> 0x04 then Err WOLFCERT_ERR_PARSE else Ok (Some (take len (drop idx ext))))))"

declare find_san_loop.simps [simp del]

definition wolfcert_find_san :: "('k, 'w) cert_lib \<Rightarrow> DecodedReq \<Rightarrow> byte list option wc_result" where
  "wolfcert_find_san lib dc =
     (case dq_extensions dc of
        None \<Rightarrow> Ok None
      | Some ext \<Rightarrow>
          if length ext = 0 then Ok None
          else case (if dq_isCSR dc then Some 0
                     else case asn_header lib ext 0 (length ext) of
                            Some (tag, _, idx) \<Rightarrow> if tag \<noteq> 0xA3 then None else Some idx
                          | None \<Rightarrow> None) of
                 None \<Rightarrow> Err WOLFCERT_ERR_PARSE
               | Some idx \<Rightarrow>
                   (case asn_header lib ext idx (length ext) of
                      None \<Rightarrow> Err WOLFCERT_ERR_PARSE
                    | Some (tag, len, idx) \<Rightarrow>
                        if tag \<noteq> ASN_SEQ then Err WOLFCERT_ERR_PARSE
                        else find_san_loop lib ext (idx + len) idx len))"

definition san_tag_issuable :: "byte \<Rightarrow> bool" where
  "san_tag_issuable tag \<longleftrightarrow> tag = 0x81 \<or> tag = 0x82 \<or> tag = 0x86 \<or> tag = 0x87 \<or> tag = 0x88"

fun san_types_loop :: "('k, 'w) cert_lib \<Rightarrow> byte list \<Rightarrow> nat \<Rightarrow> nat \<Rightarrow> nat \<Rightarrow> bool" where
  "san_types_loop lib san end' idx fuel =
     (if \<not> idx < end' then True
      else case fuel of
        0 \<Rightarrow> False
      | Suc fuel \<Rightarrow>
          (case asn_header lib san idx end' of
             None \<Rightarrow> False
           | Some (tag, len, idx) \<Rightarrow> if \<not> san_tag_issuable tag then False else san_types_loop lib san end' (idx + len) fuel))"

declare san_types_loop.simps [simp del]

definition san_types_issuable :: "('k, 'w) cert_lib \<Rightarrow> byte list \<Rightarrow> bool" where
  "san_types_issuable lib san =
     (case asn_header lib san 0 (length san) of
        None \<Rightarrow> False
      | Some (tag, len, idx) \<Rightarrow> if tag \<noteq> ASN_SEQ then False else san_types_loop lib san (idx + len) idx len)"

definition copy_csr_san :: "('k, 'w) cert_lib \<Rightarrow> DecodedReq \<Rightarrow> Cert \<Rightarrow> Cert wc_result" where
  "copy_csr_san lib dc nc =
     (case wolfcert_find_san lib dc of
        Inl _ \<Rightarrow> Err WOLFCERT_ERR_PARSE
      | Inr san \<Rightarrow>
          if (case san of None \<Rightarrow> 0 | Some s \<Rightarrow> length s) > ct_altNames_size lib then Err WOLFCERT_ERR_UNSUPPORTED
          else if (case san of None \<Rightarrow> False | Some s \<Rightarrow> \<not> san_types_issuable lib s) then Err WOLFCERT_ERR_UNSUPPORTED
          else Ok (nc\<lparr>nc_altNames := (case san of None \<Rightarrow> [] | Some s \<Rightarrow> s), nc_altNamesCrit := dq_extSubjAltNameCrit dc\<rparr>))"

section \<open>Issuing\<close>

definition copied_rdns :: "bool \<Rightarrow> subject_rdn list" where
  "copied_rdns cert_ext =
     [subjectCN, subjectO, subjectOU, subjectC, subjectST, subjectL, subjectStreet, subjectSN, subjectGN, subjectEmail, subjectSND,
      subjectUID, subjectPC] @ (if cert_ext then [subjectBC] else [])"

text \<open>One use of the macros; the email attribute has no encoding.\<close>

definition copy_subj :: "('k, 'w) cert_lib \<Rightarrow> DecodedReq \<Rightarrow> subject_rdn \<Rightarrow> Cert \<Rightarrow> Cert wc_result" where
  "copy_subj lib dc f nc =
     (case dq_subject dc f of
        None \<Rightarrow> Ok nc
      | Some (v, enc) \<Rightarrow>
          if length v = 0 then Ok nc
          else if length v \<ge> ct_subject_size lib f then Err WOLFCERT_ERR_BAD_ARG
          else Ok (nc\<lparr>nc_subject := (nc_subject nc)(f := cstr v),
                      nc_subjectEnc := (if f = subjectEmail then nc_subjectEnc nc else (nc_subjectEnc nc)(f := enc))\<rparr>))"

fun copy_subjs :: "('k, 'w) cert_lib \<Rightarrow> DecodedReq \<Rightarrow> subject_rdn list \<Rightarrow> Cert \<Rightarrow> Cert wc_result" where
  "copy_subjs lib dc [] nc = Ok nc"
| "copy_subjs lib dc (f # fs) nc =
     (case copy_subj lib dc f nc of Inl rc \<Rightarrow> Err rc | Inr nc \<Rightarrow> copy_subjs lib dc fs nc)"

definition wolfcert_copy_csr_subject :: "('k, 'w) cert_lib \<Rightarrow> DecodedReq \<Rightarrow> Cert \<Rightarrow> Cert wc_result" where
  "wolfcert_copy_csr_subject lib dc nc = copy_subjs lib dc (copied_rdns (ct_CERT_EXT lib)) nc"

definition wolfcert_csr_verify :: "('k, 'w) wolf_keys \<Rightarrow> ('k, 'w) cert_lib \<Rightarrow> byte list \<Rightarrow> 'w \<Rightarrow> wc_rc \<times> 'w" where
  "wolfcert_csr_verify keys lib csr w =
     (case ct_ParseCertReq lib True csr w of ((rc, dc), w) \<Rightarrow>
      (if rc = MEMORY_E (wk_codes keys) then map_err keys rc else if rc \<noteq> 0 then WOLFCERT_ERR_PARSE else WOLFCERT_OK, w))"

text \<open>
  The certificate that is generated for a request: its subject and SAN, the issuer of the CA, one year,
  no CA.
\<close>

definition issue_template ::
  "('k, 'w) cert_lib \<Rightarrow> ctc_sig \<Rightarrow> 'k WolfCertCa \<Rightarrow> DecodedReq \<Rightarrow> 'w \<Rightarrow> Cert wc_result \<times> 'w" where
  "issue_template lib sig ca dc w =
     (case wolfcert_copy_csr_subject lib dc (ct_InitCert lib) of
        Inl rc \<Rightarrow> (Err rc, w)
      | Inr nc \<Rightarrow>
          (case ct_SetIssuerBuffer lib (ca_cert_der ca) nc w of ((rc, nc), w) \<Rightarrow>
           if rc \<noteq> 0 then (Err WOLFCERT_ERR_CRYPTO, w)
           else (copy_csr_san lib dc (nc\<lparr>nc_sigType := Some sig, nc_daysValid := 365, nc_isCA := False\<rparr>), w)))"

text \<open>
  Making and signing, with the generator initialised. A length of 0 is mapped to no error, with which
  the code goes on: it would sign an empty body, and return nothing for an empty certificate.
\<close>

definition make_and_sign ::
  "('k, 'w) wolf_keys \<Rightarrow> ('k, 'w) cert_lib \<Rightarrow> Cert \<Rightarrow> nat \<Rightarrow> wc_keytype \<Rightarrow> 'k \<Rightarrow> wc_keytype \<Rightarrow> 'k \<Rightarrow> 'w \<Rightarrow> byte list wc_result \<times> 'w" where
  "make_and_sign keys lib nc der_cap sub_type sub ca_kt ca_key w =
     (case ct_MakeCert_ex lib nc der_cap sub_type sub w of ((body_sz, der), w) \<Rightarrow>
      if body_sz \<le> 0 \<and> map_err keys body_sz \<noteq> WOLFCERT_OK then (Err (map_err keys body_sz), w)
      else case ct_SignCert_ex lib body_sz (the (nc_sigType nc)) der der_cap ca_kt ca_key w of ((sig_sz, der), w) \<Rightarrow>
      if sig_sz \<le> 0 \<and> map_err keys sig_sz \<noteq> WOLFCERT_OK then (Err (map_err keys sig_sz), w)
      else (Ok (take (nat sig_sz) der), w))"

definition wolfcert_ca_issue ::
  "key_build \<Rightarrow> ('k, 'w) wolf_keys \<Rightarrow> ('k, 'w) cert_lib \<Rightarrow> 'k WolfCertCa \<Rightarrow> byte list \<Rightarrow> 'w \<Rightarrow> byte list wc_result \<times> 'w" where
  "wolfcert_ca_issue b keys lib ca csr w =
     (case wolfcert_key_alg b keys (ca_type ca) of
        None \<Rightarrow> (Err WOLFCERT_ERR_UNSUPPORTED, w)
      | Some ca_alg \<Rightarrow>
      (case ct_ParseCertReq lib True csr w of ((rc, dc), w) \<Rightarrow>
      if rc \<noteq> 0 then (Err (map_err keys rc), w)
      else case ct_CertNew lib w of (got, w) \<Rightarrow>
      if \<not> got then (Err WOLFCERT_ERR_MEMORY, w)
      else case issue_template lib (ka_ctc_sig_default ca_alg) ca dc w of
        (Inl rc, w) \<Rightarrow> (Err rc, ct_CertFree lib w)
      | (Inr nc, w) \<Rightarrow>
      let oid = dc_keyOID (dq_cert dc) in
      (case decode_subject_pubkey b keys lib oid (dc_publicKey (dq_cert dc)) w of
        (Inl rc, w) \<Rightarrow> (Err rc, ct_CertFree lib w)
      | (Inr (sub_impl, sub_alg), w) \<Rightarrow>
      let der_cap = length csr + length (ca_cert_der ca) + ka_der_cap_hint ca_alg + 1024;
          release = (\<lambda>w. ct_CertFree lib (free_subject_pubkey b keys oid (Some sub_impl) w)) in
      (case wk_malloc keys w of (got, w) \<Rightarrow>
      if \<not> got then (Err WOLFCERT_ERR_MEMORY, release w)
      else case wk_InitRng keys WOLFCERT_DEVID_SOFTWARE w of (rc, w) \<Rightarrow>
      if rc \<noteq> 0 then (Err WOLFCERT_ERR_CRYPTO, release w)
      else case make_and_sign keys lib nc der_cap (ka_wc_keytype_enum sub_alg) sub_impl (ka_wc_keytype_enum ca_alg) (the (ca_impl ca)) w of
        (r, w) \<Rightarrow> (r, release (wk_FreeRng keys w))))))"

end
