(* ===== verification/Csr.thy ===== *)
theory Csr
  imports Ca_Issue Ip
begin

text \<open>
  Building a PKCS#10 request from a key and metadata, \<open>src/csr.c\<close>: the subject name as text, the
  alternative names, the signature algorithm and the identity of a certificate that is renewed.
\<close>

section \<open>Metadata and library\<close>

text \<open>A list with its length is a list; the callback works on the structure of wolfSSL.\<close>

record 'w WolfCertCertMeta =
  mt_subject_dn :: "cstring option"
  mt_san_dns :: "cstring list"
  mt_san_ip :: "cstring list"
  mt_san_uri :: "cstring list"
  mt_san_email :: "cstring list"
  mt_key_usage :: "cstring option"
  mt_extended_key_usage :: "cstring option"
  mt_challenge_password :: "cstring option"
  mt_preferred_hash :: int
  mt_customize :: "(Cert \<Rightarrow> 'w \<Rightarrow> (wc_rc \<times> Cert) \<times> 'w) option"

datatype asn_name_type = ASN_RFC822_TYPE | ASN_DNS_TYPE | ASN_URI_TYPE | ASN_IP_TYPE

type_synonym DNS_entry = "asn_name_type \<times> byte list"

text \<open>
  What the requests need of wolfSSL beside \<open>cert_lib\<close>. \<open>cl_SetDNSEntry\<close> gives the list of names with the
  new one; the sizes are those of the arrays.
\<close>

record ('k, 'w) csr_lib =
  cl_cert :: "('k, 'w) cert_lib"
  cl_SetDNSEntry :: "byte list \<Rightarrow> asn_name_type \<Rightarrow> DNS_entry list \<Rightarrow> 'w \<Rightarrow> (int \<times> DNS_entry list) \<times> 'w"
  cl_FreeAltNames :: "DNS_entry list \<Rightarrow> 'w \<Rightarrow> 'w"
  cl_SetAltNamesFromList :: "Cert \<Rightarrow> DNS_entry list \<Rightarrow> 'w \<Rightarrow> (int \<times> Cert) \<times> 'w"
  cl_SetExtKeyUsage :: "cstring \<Rightarrow> Cert \<Rightarrow> 'w \<Rightarrow> (int \<times> Cert) \<times> 'w"
  cl_MakeCertReq_ex :: "Cert \<Rightarrow> nat \<Rightarrow> wc_keytype \<Rightarrow> 'k \<Rightarrow> 'w \<Rightarrow> (int \<times> byte list) \<times> 'w"
  cl_PemToDer :: "byte list \<Rightarrow> int \<times> byte list option"
  cl_PemToDer_req :: "byte list \<Rightarrow> int \<times> byte list option"
  cl_DerToPem_req :: "byte list \<Rightarrow> nat \<Rightarrow> int \<times> byte list"
  cl_ASN_CRIT_EXT_E :: int
  cl_CTC_NAME_SIZE :: nat
  cl_challengePw_size :: nat
  cl_sbjRaw_size :: nat
  cl_SHA384 :: bool
  cl_SHA512 :: bool

section \<open>The subject\<close>

type_synonym CertName = "subject_rdn \<Rightarrow> cstring"

text \<open>The table of the keys; the last row is there with \<open>WOLFSSL_CERT_EXT\<close>.\<close>

definition rdn_fields :: "bool \<Rightarrow> (cstring \<times> subject_rdn) list" where
  "rdn_fields cert_ext =
     [(lit ''CN'', subjectCN), (lit ''commonName'', subjectCN), (lit ''O'', subjectO), (lit ''OU'', subjectOU),
      (lit ''C'', subjectC), (lit ''ST'', subjectST), (lit ''L'', subjectL), (lit ''SN'', subjectSN), (lit ''GN'', subjectGN),
      (lit ''emailAddress'', subjectEmail), (lit ''serialNumber'', subjectSND), (lit ''UID'', subjectUID),
      (lit ''userId'', subjectUID), (lit ''postalCode'', subjectPC), (lit ''street'', subjectStreet)] @
     (if cert_ext then [(lit ''businessCategory'', subjectBC)] else [])"

definition assign_rdn :: "('k, 'w) csr_lib \<Rightarrow> CertName \<Rightarrow> cstring \<Rightarrow> cstring \<Rightarrow> CertName wc_result" where
  "assign_rdn lib subject key val =
     (case map_of (rdn_fields (ct_CERT_EXT (cl_cert lib))) key of
        None \<Rightarrow> Err WOLFCERT_ERR_UNSUPPORTED
      | Some f \<Rightarrow>
          if length val \<ge> cl_CTC_NAME_SIZE lib then Err WOLFCERT_ERR_BAD_ARG
          else if (f = subjectC \<or> f = subjectSND) \<and> \<not> wolfcert_is_printable_string val then Err WOLFCERT_ERR_BAD_ARG
          else if f = subjectEmail \<and> list_ex (\<lambda>c. c \<ge> 0x80) val then Err WOLFCERT_ERR_BAD_ARG
          else Ok (subject(f := val)))"

definition trim_ws :: "cstring \<Rightarrow> cstring" where
  "trim_ws s = rev (dropWhile is_space (rev (dropWhile is_space s)))"

function parse_subject_dn_loop :: "('k, 'w) csr_lib \<Rightarrow> cstring \<Rightarrow> CertName \<Rightarrow> CertName wc_result" where
  "parse_subject_dn_loop lib p subject =
     (if p = [] then Ok subject
      else let pair = takeWhile (\<lambda>c. c \<noteq> b_comma) p in
      case strchr pair b_eq of
        None \<Rightarrow> Err WOLFCERT_ERR_PARSE
      | Some e \<Rightarrow>
          let k = trim_ws (take e pair); v = trim_ws (drop (e + 1) pair) in
          if k = [] \<or> v = [] then Err WOLFCERT_ERR_PARSE
          else case assign_rdn lib subject k v of
                 Inl rc \<Rightarrow> Err rc
               | Inr subject \<Rightarrow>
                   if length pair = length p then Ok subject
                   else parse_subject_dn_loop lib (drop (length pair + 1) p) subject)"
  by pat_completeness auto
termination
  by (relation "measure (\<lambda>(_, p, _). length p)") auto

declare parse_subject_dn_loop.simps [simp del]

definition parse_subject_dn :: "('k, 'w) csr_lib \<Rightarrow> cstring option \<Rightarrow> CertName \<Rightarrow> CertName wc_result" where
  "parse_subject_dn lib dn subject = (case dn of None \<Rightarrow> Ok subject | Some s \<Rightarrow> parse_subject_dn_loop lib s subject)"

section \<open>Alternative names\<close>

fun set_names ::
  "('k, 'w) csr_lib \<Rightarrow> asn_name_type \<Rightarrow> cstring list \<Rightarrow> (int \<times> DNS_entry list) \<times> 'w \<Rightarrow> (int \<times> DNS_entry list) \<times> 'w" where
  "set_names lib t [] st = st"
| "set_names lib t (n # ns) st =
     (case st of ((rc, l), w) \<Rightarrow> if rc \<noteq> 0 then st else set_names lib t ns (cl_SetDNSEntry lib n t l w))"

text \<open>The addresses are parsed first, which may fail with the parser's own code.\<close>

fun set_ips ::
  "('k, 'w) csr_lib \<Rightarrow> cstring list \<Rightarrow> (int \<times> DNS_entry list) \<times> 'w \<Rightarrow> (wc_rc \<times> DNS_entry list \<times> 'w, (int \<times> DNS_entry list) \<times> 'w) sum" where
  "set_ips lib [] st = Inr st"
| "set_ips lib (n # ns) st =
     (case st of ((rc, l), w) \<Rightarrow>
        if rc \<noteq> 0 then Inr st
        else case wolfcert_parse_ip n of
               Inl erc \<Rightarrow> Inl (erc, l, w)
             | Inr ip \<Rightarrow> set_ips lib ns (cl_SetDNSEntry lib ip ASN_IP_TYPE l w))"

definition build_san_seq :: "('k, 'w) wolf_keys \<Rightarrow> ('k, 'w) csr_lib \<Rightarrow> 'w WolfCertCertMeta \<Rightarrow> Cert \<Rightarrow> 'w \<Rightarrow> Cert wc_result \<times> 'w" where
  "build_san_seq keys lib meta cert w =
     (let st = set_names lib ASN_DNS_TYPE (mt_san_dns meta) ((0, []), w);
          st = set_names lib ASN_URI_TYPE (mt_san_uri meta) st;
          st = set_names lib ASN_RFC822_TYPE (mt_san_email meta) st in
      case set_ips lib (mt_san_ip meta) st of
        Inl (erc, l, w) \<Rightarrow> (Err erc, cl_FreeAltNames lib l w)
      | Inr ((rc, l), w) \<Rightarrow>
          if rc \<noteq> 0 then (Err (map_err keys rc), cl_FreeAltNames lib l w)
          else case cl_SetAltNamesFromList lib cert l w of ((rc, cert), w) \<Rightarrow>
               (if rc \<noteq> 0 then Err (map_err keys rc) else Ok cert, cl_FreeAltNames lib l w))"

section \<open>The signature algorithm\<close>

definition sha2_in_build :: "('k, 'w) csr_lib \<Rightarrow> int \<Rightarrow> bool" where
  "sha2_in_build lib bits \<longleftrightarrow> bits = 256 \<or> bits = 384 \<and> cl_SHA384 lib \<or> bits = 512 \<and> cl_SHA512 lib"

definition ecdsa_sig_for_curve :: "('k, 'w) wolf_keys \<Rightarrow> ('k, 'w) csr_lib \<Rightarrow> int \<Rightarrow> ctc_sig" where
  "ecdsa_sig_for_curve keys lib curve_id =
     (if curve_id = wk_curve_id keys ECC_SECP521R1 \<and> sha2_in_build lib 512 then CTC_SHA512wECDSA
      else if (curve_id = wk_curve_id keys ECC_SECP521R1 \<or> curve_id = wk_curve_id keys ECC_SECP384R1) \<and> sha2_in_build lib 384
      then CTC_SHA384wECDSA
      else CTC_SHA256wECDSA)"

definition sig_type_for_hash :: "key_build \<Rightarrow> int \<Rightarrow> int \<Rightarrow> ctc_sig option" where
  "sig_type_for_hash b t preferred_hash =
     (if kb_rsa b \<and> t = WOLFCERT_KEY_RSA
      then (if preferred_hash = 256 then Some CTC_SHA256wRSA else if preferred_hash = 384 then Some CTC_SHA384wRSA
            else if preferred_hash = 512 then Some CTC_SHA512wRSA else None)
      else if kb_ecc b \<and> t = WOLFCERT_KEY_ECC
      then (if preferred_hash = 256 then Some CTC_SHA256wECDSA else if preferred_hash = 384 then Some CTC_SHA384wECDSA
            else if preferred_hash = 512 then Some CTC_SHA512wECDSA else None)
      else None)"

definition choose_sig_type ::
  "key_build \<Rightarrow> ('k, 'w) wolf_keys \<Rightarrow> ('k, 'w) csr_lib \<Rightarrow> 'k WolfCertKey \<Rightarrow> ('k, 'w) WolfCertKeyAlg \<Rightarrow> int \<Rightarrow> ctc_sig wc_result" where
  "choose_sig_type b keys lib key alg hash =
     (let sig = (if hash \<noteq> 0 then sig_type_for_hash b (k_type key) hash else None) in
      case sig of
        Some s \<Rightarrow> if \<not> sha2_in_build lib hash then Err WOLFCERT_ERR_UNSUPPORTED else Ok s
      | None \<Rightarrow>
          if kb_ecc b \<and> k_type key = WOLFCERT_KEY_ECC then Ok (ecdsa_sig_for_curve keys lib (k_curve_id key))
          else Ok (ka_ctc_sig_default alg))"

section \<open>The identity of a renewed certificate\<close>

definition renew_der :: "('k, 'w) wolf_keys \<Rightarrow> ('k, 'w) csr_lib \<Rightarrow> byte list \<Rightarrow> 'w \<Rightarrow> byte list wc_result \<times> 'w" where
  "renew_der keys lib renew_cert w =
     (if wolfcert_buffer_is_der (Some renew_cert) then (Ok renew_cert, w)
      else case wk_malloc keys w of (got, w) \<Rightarrow>
           (wolfcert_pem_cert_to_der (wk_codes keys) (cl_PemToDer lib) (\<lambda>_. got) renew_cert, w))"

text \<open>An empty name leaves the subject blank.\<close>

definition copy_subject_raw :: "('k, 'w) csr_lib \<Rightarrow> byte list option \<Rightarrow> Cert \<Rightarrow> Cert wc_result" where
  "copy_subject_raw lib raw cert =
     (case raw of
        None \<Rightarrow> Err WOLFCERT_ERR_UNSUPPORTED
      | Some s \<Rightarrow>
          if length s = 0 then Ok (cert\<lparr>nc_subject := (\<lambda>_. []), nc_subjectEnc := (\<lambda>_. 0), nc_sbjRaw := []\<rparr>)
          else if length s \<ge> cl_sbjRaw_size lib \<or> 0 \<in> set s then Err WOLFCERT_ERR_UNSUPPORTED
          else Ok (cert\<lparr>nc_sbjRaw := s\<rparr>))"

definition copy_cert_san :: "('k, 'w) csr_lib \<Rightarrow> DecodedReq \<Rightarrow> Cert \<Rightarrow> Cert wc_result" where
  "copy_cert_san lib dc cert =
     (case wolfcert_find_san (cl_cert lib) dc of
        Inl _ \<Rightarrow> Err WOLFCERT_ERR_PARSE
      | Inr san \<Rightarrow>
          let s = (case san of None \<Rightarrow> [] | Some s \<Rightarrow> s) in
          if length s > ct_altNames_size (cl_cert lib) then Err WOLFCERT_ERR_UNSUPPORTED
          else Ok (cert\<lparr>nc_altNames := s, nc_altNamesCrit := dq_extSubjAltNameCrit dc\<rparr>))"

definition copy_cert_identity ::
  "('k, 'w) wolf_keys \<Rightarrow> ('k, 'w) csr_lib \<Rightarrow> Cert \<Rightarrow> byte list \<Rightarrow> 'w \<Rightarrow> Cert wc_result \<times> 'w" where
  "copy_cert_identity keys lib cert renew_cert w =
     (case renew_der keys lib renew_cert w of
        (Inl rc, w) \<Rightarrow> (Err rc, w)
      | (Inr der, w) \<Rightarrow>
          (case wk_malloc keys w of (got, w) \<Rightarrow>
           if \<not> got then (Err WOLFCERT_ERR_MEMORY, w)
           else case ct_ParseCert (cl_cert lib) der w of ((wrc, dc), w) \<Rightarrow>
           if wrc \<noteq> 0 \<and> wrc \<noteq> cl_ASN_CRIT_EXT_E lib then (Err WOLFCERT_ERR_PARSE, w)
           else (case copy_subject_raw lib (dc_subjectRaw (dq_cert dc)) cert of
                   Inl rc \<Rightarrow> Err rc
                 | Inr cert \<Rightarrow> copy_cert_san lib dc cert, w)))"

definition wolfcert_csr_meta_sets_identity :: "'w WolfCertCertMeta \<Rightarrow> bool" where
  "wolfcert_csr_meta_sets_identity meta \<longleftrightarrow>
     mt_subject_dn meta \<noteq> None \<or> length (mt_san_dns meta) \<noteq> 0 \<or> length (mt_san_ip meta) \<noteq> 0 \<or>
     length (mt_san_uri meta) \<noteq> 0 \<or> length (mt_san_email meta) \<noteq> 0"

section \<open>Building a request\<close>

text \<open>The structure with everything but the signature algorithm, in the order of the source.\<close>

definition csr_names ::
  "('k, 'w) wolf_keys \<Rightarrow> ('k, 'w) csr_lib \<Rightarrow> 'w WolfCertCertMeta \<Rightarrow> Cert \<Rightarrow> 'w \<Rightarrow> Cert wc_result \<times> 'w" where
  "csr_names keys lib meta cert w =
     (case parse_subject_dn lib (mt_subject_dn meta) (nc_subject cert) of
        Inl rc \<Rightarrow> (Err rc, w)
      | Inr subject \<Rightarrow>
          (case build_san_seq keys lib meta (cert\<lparr>nc_subject := subject\<rparr>) w of
             (Inl rc, w) \<Rightarrow> (Err rc, w)
           | (Inr cert, w) \<Rightarrow>
               (case mt_challenge_password meta of
                  None \<Rightarrow> (Ok cert, w)
                | Some pw \<Rightarrow>
                    if length pw \<ge> cl_challengePw_size lib then (Err WOLFCERT_ERR_BAD_ARG, w)
                    else (Ok (cert\<lparr>nc_challengePw := pw\<rparr>), w))))"

definition csr_usages ::
  "('k, 'w) wolf_keys \<Rightarrow> ('k, 'w) csr_lib \<Rightarrow> 'w WolfCertCertMeta \<Rightarrow> Cert \<Rightarrow> 'w \<Rightarrow> Cert wc_result \<times> 'w" where
  "csr_usages keys lib meta cert w =
     (case (case mt_key_usage meta of None \<Rightarrow> ((0, cert), w) | Some ku \<Rightarrow> ct_SetKeyUsage (cl_cert lib) ku cert w) of ((r, cert), w) \<Rightarrow>
      if r \<noteq> 0 then (Err (map_err keys r), w)
      else case (case mt_extended_key_usage meta of None \<Rightarrow> ((0, cert), w) | Some eku \<Rightarrow> cl_SetExtKeyUsage lib eku cert w) of ((r, cert), w) \<Rightarrow>
      if r \<noteq> 0 then (Err (map_err keys r), w)
      else case (case mt_customize meta of None \<Rightarrow> ((WOLFCERT_OK, cert), w) | Some f \<Rightarrow> f cert w) of ((rc, cert), w) \<Rightarrow>
      (if rc \<noteq> WOLFCERT_OK then Err rc else Ok cert, w))"

definition csr_fill ::
  "('k, 'w) wolf_keys \<Rightarrow> ('k, 'w) csr_lib \<Rightarrow> 'w WolfCertCertMeta \<Rightarrow> byte list option \<Rightarrow> Cert \<Rightarrow> 'w \<Rightarrow> Cert wc_result \<times> 'w" where
  "csr_fill keys lib meta renew_cert cert w =
     (case csr_names keys lib meta cert w of
        (Inl rc, w) \<Rightarrow> (Err rc, w)
      | (Inr cert, w) \<Rightarrow>
          (case csr_usages keys lib meta cert w of
             (Inl rc, w) \<Rightarrow> (Err rc, w)
           | (Inr cert, w) \<Rightarrow>
               (case renew_cert of None \<Rightarrow> (Ok cert, w) | Some rcert \<Rightarrow> copy_cert_identity keys lib cert rcert w)))"

definition csr_der_cap :: "'k WolfCertKey \<Rightarrow> ('k, 'w) WolfCertKeyAlg \<Rightarrow> Cert \<Rightarrow> nat" where
  "csr_der_cap key alg cert =
     (if k_type key = WOLFCERT_KEY_RSA then (if k_rsa_bits key \<noteq> 0 then nat (k_rsa_bits key) else 4096) + 2048
      else ka_der_cap_hint alg + 1024) + length (nc_altNames cert) + length (nc_sbjRaw cert)"

text \<open>Making and signing; the structure is released before the length of the signature is tested.\<close>

definition csr_sign ::
  "('k, 'w) wolf_keys \<Rightarrow> ('k, 'w) csr_lib \<Rightarrow> 'k WolfCertKey \<Rightarrow> ('k, 'w) WolfCertKeyAlg \<Rightarrow> ctc_sig \<Rightarrow> Cert \<Rightarrow> 'w \<Rightarrow> byte list wc_result \<times> 'w" where
  "csr_sign keys lib key alg sig cert w =
     (let free = ct_CertFree (cl_cert lib); der_cap = csr_der_cap key alg cert in
      case wk_malloc keys w of (got, w) \<Rightarrow>
      if \<not> got then (Err WOLFCERT_ERR_MEMORY, free w)
      else case cl_MakeCertReq_ex lib (cert\<lparr>nc_sigType := Some sig\<rparr>) der_cap (ka_wc_keytype_enum alg) (the (k_impl key)) w of
        ((body_sz, der), w) \<Rightarrow>
      if body_sz < 0 then (Err (map_err keys body_sz), free w)
      else case wk_InitRng keys (k_dev_id key) w of (rrc, w) \<Rightarrow>
      if rrc \<noteq> 0 then (Err (map_err keys rrc), free w)
      else case ct_SignCert_ex (cl_cert lib) body_sz sig der der_cap (ka_wc_keytype_enum alg) (the (k_impl key)) w of ((sig_sz, der), w) \<Rightarrow>
      let w = free (wk_FreeRng keys w) in
      if sig_sz < 0 then (Err (map_err keys sig_sz), w) else (Ok (take (nat sig_sz) der), w))"

definition wolfcert_csr_build_ex ::
  "key_build \<Rightarrow> ('k, 'w) wolf_keys \<Rightarrow> ('k, 'w) csr_lib \<Rightarrow> 'k WolfCertKey \<Rightarrow> 'w WolfCertCertMeta \<Rightarrow> byte list option \<Rightarrow> 'w \<Rightarrow> byte list wc_result \<times> 'w" where
  "wolfcert_csr_build_ex b keys lib key meta renew_cert w =
     (if renew_cert \<noteq> None \<and> wolfcert_csr_meta_sets_identity meta then (Err WOLFCERT_ERR_BAD_ARG, w)
      else case ct_CertNew (cl_cert lib) w of (got, w) \<Rightarrow>
      if \<not> got then (Err WOLFCERT_ERR_MEMORY, w)
      else case csr_fill keys lib meta renew_cert (ct_InitCert (cl_cert lib)) w of
        (Inl rc, w) \<Rightarrow> (Err rc, ct_CertFree (cl_cert lib) w)
      | (Inr cert, w) \<Rightarrow>
          (case wolfcert_key_alg b keys (k_type key) of
             None \<Rightarrow> (Err WOLFCERT_ERR_UNSUPPORTED, ct_CertFree (cl_cert lib) w)
           | Some alg \<Rightarrow>
               (case choose_sig_type b keys lib key alg (mt_preferred_hash meta) of
                  Inl rc \<Rightarrow> (Err rc, ct_CertFree (cl_cert lib) w)
                | Inr sig \<Rightarrow> csr_sign keys lib key alg sig cert w)))"

definition wolfcert_csr_build ::
  "key_build \<Rightarrow> ('k, 'w) wolf_keys \<Rightarrow> ('k, 'w) csr_lib \<Rightarrow> 'k WolfCertKey \<Rightarrow> 'w WolfCertCertMeta \<Rightarrow> 'w \<Rightarrow> byte list wc_result \<times> 'w" where
  "wolfcert_csr_build b keys lib key meta w = wolfcert_csr_build_ex b keys lib key meta None w"

text \<open>A length of 0 is mapped to no error, with no text.\<close>

definition wolfcert_csr_der_to_pem :: "('k, 'w) wolf_keys \<Rightarrow> ('k, 'w) csr_lib \<Rightarrow> mem \<Rightarrow> byte list \<Rightarrow> wc_rc \<times> byte list option" where
  "wolfcert_csr_der_to_pem keys lib mem der =
     (if length der = 0 then (WOLFCERT_ERR_BAD_ARG, None)
      else let cap = length der * 2 + 256 in
      if \<not> mem 0 then (WOLFCERT_ERR_MEMORY, None)
      else case cl_DerToPem_req lib der cap of (n, buf) \<Rightarrow>
      if n \<le> 0 then (map_err keys n, None) else (WOLFCERT_OK, Some (take (nat n) buf)))"

definition wolfcert_csr_pem_to_der :: "('k, 'w) csr_lib \<Rightarrow> mem \<Rightarrow> byte list \<Rightarrow> byte list wc_result" where
  "wolfcert_csr_pem_to_der lib mem pem =
     (if length pem = 0 then Err WOLFCERT_ERR_BAD_ARG
      else case cl_PemToDer_req lib pem of (rc, der) \<Rightarrow>
      if rc \<noteq> 0 \<or> der = None then Err WOLFCERT_ERR_PARSE
      else if \<not> mem 0 then Err WOLFCERT_ERR_MEMORY
      else Ok (the der))"

section \<open>A small library\<close>

text \<open>
  Functions of wolfSSL for runs on concrete inputs: keys are one byte, and a request is the byte of the key
  that signed it.
\<close>

definition plain_decoded :: "byte list \<Rightarrow> DecodedReq" where
  "plain_decoded d = \<lparr>dq_cert = small_decoded d, dq_isCSR = True, dq_extensions = None, dq_extSubjAltNameCrit = False,
     dq_cPwd = None, dq_subject = (\<lambda>_. None)\<rparr>"

definition plain_keys :: "(byte, 'w) wolf_keys" where
  "plain_keys = \<lparr>wk_codes = wk_codes small_keys, wk_MAX_ECC_BYTES = 66, wk_malloc = (\<lambda>w. (True, w)),
     wk_InitRng = (\<lambda>d w. (0, w)), wk_FreeRng = (\<lambda>w. w),
     wk_Init = (\<lambda>st d w. ((0, 0), w)), wk_Free = (\<lambda>st k w. w),
     wk_MakeRsaKey = (\<lambda>n k w. ((0, 7), w)), wk_ecc_make_key_ex = (\<lambda>n c k w. ((0, 8), w)), wk_make_key = (\<lambda>st k w. ((0, 9), w)),
     wk_PrivateKeyDecode = (\<lambda>st der k w. ((-1, k), w)), wk_PublicKeyDecode = (\<lambda>st der k w. ((-1, k), w)),
     wk_PrivateKeyToDer = (\<lambda>st k cap. (3, [0x30, small_tag st, k])),
     wk_RsaPublicKeyDerSize = (\<lambda>k. 1), wk_RsaKeyToPublicDer = (\<lambda>k cap. (1, [k])),
     wk_curve_id = (\<lambda>c. 7), wk_ecc_get_curve_id = (\<lambda>k. 7), wk_ecc_privatekey_only = (\<lambda>k. False),
     wk_ecc_make_pub = (\<lambda>k w. ((0, k), w)), wk_ecc_import_x963 = (\<lambda>der k w. ((-1, k), w)), wk_ecc_export_x963 = (\<lambda>k cap. (0, [k])),
     wk_make_public = (\<lambda>st k cap. (0, [k])), wk_SetParams = (\<lambda>l k. (0, k)), wk_ImportPubRaw = (\<lambda>d k. (0, k)), wk_CheckKey = (\<lambda>k. 0),
     wk_PemToDer = (\<lambda>d t. (-1, None)), wk_DerToPem = (\<lambda>der cap t. (int (length der) + 1, 0x2D # der))\<rparr>"

definition plain_certs :: "(byte, 'w) cert_lib" where
  "plain_certs = \<lparr>ct_CertNew = (\<lambda>w. (True, w)), ct_CertFree = (\<lambda>w. w),
     ct_InitCert = \<lparr>nc_subject = (\<lambda>_. []), nc_subjectEnc = (\<lambda>_. 0), nc_issuer = None, nc_isCA = False, nc_basicConstCrit = False,
       nc_selfSigned = False, nc_daysValid = 0, nc_sigType = None, nc_keyUsage = [], nc_altNames = [], nc_altNamesCrit = False,
       nc_sbjRaw = [], nc_challengePw = []\<rparr>,
     ct_SetKeyUsage = (\<lambda>u c w. ((0, c), w)), ct_SetIssuerBuffer = (\<lambda>b c w. ((0, c), w)),
     ct_MakeCert_ex = (\<lambda>c n t k w. ((1, [k]), w)), ct_SignCert_ex = (\<lambda>n s der cap t k w. ((1, [k]), w)),
     ct_ParseCertReq = (\<lambda>v der w. ((if length der = 7 then 0 else -140, plain_decoded der), w)),
     ct_ParseCert = (\<lambda>der w. ((if length der = 7 then 0 else -140, plain_decoded der), w)),
     ct_import_public = (\<lambda>st d k w. ((0, k), w)), ct_GetASNTag = (\<lambda>b i m. (-1, 0, i)), ct_GetLength = (\<lambda>b i m. (-1, 0, i)),
     ct_subject_size = (\<lambda>_. 64), ct_altNames_size = 64, ct_CERT_EXT = False\<rparr>"

definition plain_csr :: "(byte, 'w) csr_lib" where
  "plain_csr = \<lparr>cl_cert = plain_certs, cl_SetDNSEntry = (\<lambda>n t l w. ((0, (t, n) # l), w)), cl_FreeAltNames = (\<lambda>l w. w),
     cl_SetAltNamesFromList = (\<lambda>c l w. ((0, c), w)), cl_SetExtKeyUsage = (\<lambda>u c w. ((0, c), w)),
     cl_MakeCertReq_ex = (\<lambda>c n t k w. ((1, [k]), w)), cl_PemToDer = (\<lambda>d. (-1, None)), cl_PemToDer_req = (\<lambda>d. (-1, None)),
     cl_DerToPem_req = (\<lambda>d cap. (-1, [])), cl_ASN_CRIT_EXT_E = -1, cl_CTC_NAME_SIZE = 64, cl_challengePw_size = 64,
     cl_sbjRaw_size = 64, cl_SHA384 = True, cl_SHA512 = True\<rparr>"

end
