(* ===== verification/Client.thy ===== *)
theory Client
  imports Est_Client Scep_Client Csr Csr_Attrs
begin

text \<open>
  The enrolment facade, \<open>src/client.c\<close>: one call that makes a key, builds the request and has it signed,
  for either protocol. A pointer that may be \<open>NULL\<close> is an option; the content of an output is given and
  returned, so that a call that leaves it alone returns what it was given. Both protocols are in the build.
\<close>

section \<open>The calls\<close>

record ('k, 'w) facade_env =
  fa_scep :: "('k, 'w) scep_env"
  fa_build :: key_build
  fa_keys :: "('k, 'w) wolf_keys"
  fa_csr :: "('k, 'w) csr_lib"

abbreviation fa_client :: "('k, 'w) facade_env \<Rightarrow> 'w client_env" where
  "fa_client env \<equiv> se_client (fa_scep env)"

text \<open>The client object holds only its heap, and no call reads it.\<close>

definition wolfcert_client_new :: "mem \<Rightarrow> unit option \<Rightarrow> wc_rc \<times> unit option" where
  "wolfcert_client_new mem out =
     (case out of
        None \<Rightarrow> (WOLFCERT_ERR_BAD_ARG, out)
      | Some _ \<Rightarrow> if \<not> mem 0 then (WOLFCERT_ERR_MEMORY, out) else (WOLFCERT_OK, Some ()))"

definition wolfcert_client_get_ca ::
  "('k, 'w) facade_env \<Rightarrow> 'w WolfCertServerCfg option \<Rightarrow> WolfCertEncoding \<Rightarrow> nat option \<Rightarrow> byte list \<Rightarrow> 'w \<Rightarrow>
   int \<times> byte list \<times> 'w" where
  "wolfcert_client_get_ca env srv encoding out_ca ca w =
     (case srv of
        None \<Rightarrow> (rc_code WOLFCERT_ERR_BAD_ARG, ca, w)
      | Some cfg \<Rightarrow>
          if out_ca = None then (rc_code WOLFCERT_ERR_BAD_ARG, ca, w)
          else (case sv_protocol cfg of
                  WOLFCERT_PROTO_EST \<Rightarrow>
                    (case wolfcert_est_get_cacerts (fa_client env) srv encoding out_ca (zero_result\<lparr>er_cert_pem := ca\<rparr>) w of
                       (rc, res, w) \<Rightarrow> (rc, er_cert_pem res, w))
                | WOLFCERT_PROTO_SCEP \<Rightarrow>
                    (case wolfcert_scep_get_ca_cert (fa_scep env) srv encoding out_ca
                            \<lparr>co_caps = zero_caps, co_buf = ca, co_res = zero_scep_result\<rparr> w of
                       (rc, out, w) \<Rightarrow> (rc, co_buf out, w))))"

text \<open>\<open>RAW\<close> and \<open>RESULT\<close> stand for the addresses of the local buffers.\<close>

abbreviation (input) RAW :: nat where "RAW \<equiv> 0"

abbreviation (input) RESULT :: nat where "RESULT \<equiv> 1"

definition wolfcert_client_auto_csrattrs ::
  "('k, 'w) facade_env \<Rightarrow> 'w WolfCertServerCfg \<Rightarrow> WolfCertKeyCfg option \<Rightarrow> 'w WolfCertCertMeta option \<Rightarrow> 'w \<Rightarrow>
   int \<times> WolfCertKeyCfg option \<times> 'w WolfCertCertMeta option \<times> 'w" where
  "wolfcert_client_auto_csrattrs env srv key_cfg meta w =
     (case wolfcert_est_get_csr_attrs (fa_client env) (Some srv) (Some RAW) zero_result w of (rc, res, w) \<Rightarrow>
      if rc \<noteq> 0 then (rc, key_cfg, meta, w)
      else let raw = er_cert_pem res in
      if length raw = 0 then (0, key_cfg, meta, w)
      else case ce_alloc (fa_client env) w of (mem, w) \<Rightarrow>
      (case wolfcert_est_parse_csr_attrs mem raw of
         Inl rc \<Rightarrow> (rc_code rc, key_cfg, meta, w)
       | Inr attrs \<Rightarrow>
           (case wolfcert_csr_attrs_apply (fa_build env) attrs key_cfg (map_option mt_preferred_hash meta) of (rc, k, h) \<Rightarrow>
              (rc_code rc, k,
               (case (meta, h) of (Some m, Some h) \<Rightarrow> Some (m\<lparr>mt_preferred_hash := h\<rparr>) | _ \<Rightarrow> meta), w))))"

definition wolfcert_client_take_cert :: "int \<Rightarrow> WolfCertEstResult \<Rightarrow> byte list \<Rightarrow> int \<times> byte list" where
  "wolfcert_client_take_cert rc r out_cert_pem =
     (if rc = 0 \<and> er_status r = WOLFCERT_EST_STATUS_PENDING then (rc_code WOLFCERT_ERR_PENDING, out_cert_pem)
      else if rc = 0 then (rc, er_cert_pem r)
      else (rc, out_cert_pem))"

definition wolfcert_client_fetch_meta ::
  "('k, 'w) facade_env \<Rightarrow> 'w WolfCertServerCfg option \<Rightarrow> 'w WolfCertCertMeta option \<Rightarrow> 'w \<Rightarrow>
   int \<times> 'w WolfCertCertMeta option \<times> 'w" where
  "wolfcert_client_fetch_meta env srv meta w =
     (case srv of
        None \<Rightarrow> (rc_code WOLFCERT_ERR_BAD_ARG, meta, w)
      | Some cfg \<Rightarrow>
          if sv_protocol cfg = WOLFCERT_PROTO_EST
          then (case wolfcert_client_auto_csrattrs env cfg None meta w of (rc, _, meta, w) \<Rightarrow> (rc, meta, w))
          else (rc_code WOLFCERT_ERR_UNSUPPORTED, meta, w))"

text \<open>The settings an enrolment works with: copies, which the hints of the server may fill.\<close>

definition enroll_settings ::
  "('k, 'w) facade_env \<Rightarrow> 'w WolfCertServerCfg \<Rightarrow> WolfCertKeyCfg \<Rightarrow> 'w WolfCertCertMeta \<Rightarrow> 'w \<Rightarrow>
   int \<times> WolfCertKeyCfg \<times> 'w WolfCertCertMeta \<times> 'w" where
  "enroll_settings env srv key_cfg meta w =
     (if sv_protocol srv = WOLFCERT_PROTO_EST \<and> eo_auto_csrattrs (sv_est srv)
      then (case wolfcert_client_auto_csrattrs env srv (Some key_cfg) (Some meta) w of (rc, k, m, w) \<Rightarrow> (rc, the k, the m, w))
      else (0, key_cfg, meta, w))"

definition wolfcert_client_enroll ::
  "('k, 'w) facade_env \<Rightarrow> 'w WolfCertServerCfg option \<Rightarrow> WolfCertKeyCfg option \<Rightarrow> 'w WolfCertCertMeta option \<Rightarrow>
   'k WolfCertKey option option \<Rightarrow> byte list option \<Rightarrow> 'w \<Rightarrow> int \<times> 'k WolfCertKey option option \<times> byte list option \<times> 'w" where
  "wolfcert_client_enroll env srv key_cfg meta out_key out_cert_pem w =
     (case (srv, key_cfg, meta, out_key, out_cert_pem) of
        (Some srv, Some key_cfg, Some meta, Some _, Some cert) \<Rightarrow>
          (case enroll_settings env srv key_cfg meta w of (rc, eff_key, eff_meta, w) \<Rightarrow>
           if rc \<noteq> 0 then (rc, out_key, out_cert_pem, w)
           else case wolfcert_key_generate (fa_build env) (fa_keys env) eff_key w of
             (Inl rc, w) \<Rightarrow> (rc_code rc, out_key, out_cert_pem, w)
           | (Inr key, w) \<Rightarrow>
               (case wolfcert_csr_build (fa_build env) (fa_keys env) (fa_csr env) key eff_meta w of
                  (Inl rc, w) \<Rightarrow> (rc_code rc, out_key, out_cert_pem, wolfcert_key_free (fa_build env) (fa_keys env) (Some key) w)
                | (Inr csr, w) \<Rightarrow>
                    (case (if sv_protocol srv = WOLFCERT_PROTO_EST
                           then (case wolfcert_est_simple_enroll (fa_client env) (Some srv) (Some csr) (Some RESULT) zero_result w of
                                   (rc, r, w) \<Rightarrow> (wolfcert_client_take_cert rc r cert, w))
                           else ((rc_code WOLFCERT_ERR_UNSUPPORTED, cert), w)) of
                       ((rc, cert), w) \<Rightarrow>
                         if rc \<noteq> 0
                         then (rc, out_key, Some cert, wolfcert_key_free (fa_build env) (fa_keys env) (Some key) w)
                         else (0, Some (Some key), Some cert, w))))
      | _ \<Rightarrow> (rc_code WOLFCERT_ERR_BAD_ARG, out_key, out_cert_pem, w))"

text \<open>Without a configuration for a new key the current one signs, and no key is returned.\<close>

definition renewal_key ::
  "('k, 'w) facade_env \<Rightarrow> WolfCertKeyCfg option \<Rightarrow> 'w \<Rightarrow> 'k WolfCertKey option wc_result \<times> 'w" where
  "renewal_key env new_key_cfg w =
     (case new_key_cfg of
        None \<Rightarrow> (Ok None, w)
      | Some cfg \<Rightarrow> (case wolfcert_key_generate (fa_build env) (fa_keys env) cfg w of
                     (Inl rc, w) \<Rightarrow> (Err rc, w)
                   | (Inr k, w) \<Rightarrow> (Ok (Some k), w)))"

definition wolfcert_client_reenroll ::
  "('k, 'w) facade_env \<Rightarrow> 'w WolfCertServerCfg option \<Rightarrow> byte list option \<Rightarrow> 'k WolfCertKey option \<Rightarrow> WolfCertKeyCfg option \<Rightarrow>
   'w WolfCertCertMeta option \<Rightarrow> 'k WolfCertKey option option \<Rightarrow> byte list option \<Rightarrow> 'w \<Rightarrow>
   int \<times> 'k WolfCertKey option option \<times> byte list option \<times> 'w" where
  "wolfcert_client_reenroll env srv current_cert current_key new_key_cfg meta out_key out_cert_pem w =
     (case (srv, current_cert, current_key, meta, out_key, out_cert_pem) of
        (Some srv, Some crt, Some cur, Some meta, Some _, Some cert) \<Rightarrow>
          if wolfcert_csr_meta_sets_identity meta then (rc_code WOLFCERT_ERR_BAD_ARG, out_key, out_cert_pem, w)
          else (case renewal_key env new_key_cfg w of
             (Inl rc, w) \<Rightarrow> (rc_code rc, out_key, out_cert_pem, w)
           | (Inr nk, w) \<Rightarrow>
               let signing_key = (case nk of Some k \<Rightarrow> k | None \<Rightarrow> cur);
                   release = (\<lambda>w. if nk \<noteq> None then wolfcert_key_free (fa_build env) (fa_keys env) nk w else w) in
               (case wolfcert_csr_build_ex (fa_build env) (fa_keys env) (fa_csr env) signing_key meta (Some crt) w of
                  (Inl rc, w) \<Rightarrow> (rc_code rc, out_key, out_cert_pem, release w)
                | (Inr csr, w) \<Rightarrow>
                    (case (if sv_protocol srv = WOLFCERT_PROTO_EST
                           then (case wolfcert_est_simple_reenroll (fa_client env) (fa_build env) (fa_keys env) (Some srv) (Some crt)
                                        (Some cur) (Some csr) (Some RESULT) zero_result w of
                                   (rc, r, w) \<Rightarrow> (wolfcert_client_take_cert rc r cert, w))
                           else ((rc_code WOLFCERT_ERR_UNSUPPORTED, cert), w)) of
                       ((rc, cert), w) \<Rightarrow>
                         if rc \<noteq> 0 then (rc, out_key, Some cert, release w)
                         else (0, Some nk, Some cert, w))))
      | _ \<Rightarrow> (rc_code WOLFCERT_ERR_BAD_ARG, out_key, out_cert_pem, w))"

section \<open>What an enrolment returns\<close>

text \<open>Errors are never 0.\<close>

lemma rc_code_0 [simp]: "rc_code rc = 0 \<longleftrightarrow> rc = WOLFCERT_OK"
  by (cases rc) simp_all

lemma url_take_err:
  "url_take_scheme mem u = Inl rc \<Longrightarrow> rc \<noteq> WOLFCERT_OK"
  "url_take_host mem u = Inl rc \<Longrightarrow> rc \<noteq> WOLFCERT_OK"
  "url_take_port p u = Inl rc \<Longrightarrow> rc \<noteq> WOLFCERT_OK"
  "url_take_path mem u = Inl rc \<Longrightarrow> rc \<noteq> WOLFCERT_OK"
  by (auto simp: url_take_scheme_def url_take_host_def url_take_port_def url_take_path_def Let_def
      split: option.splits if_splits prod.splits sum.splits)

lemma url_parse_err: "wolfcert_http_url_parse mem u = Inl rc \<Longrightarrow> rc \<noteq> WOLFCERT_OK"
  by (auto simp: wolfcert_http_url_parse_def Let_def dest: url_take_err split: option.splits if_splits prod.splits sum.splits)

lemma setup_tls_err: "setup_tls_ex lib d h = Inl rc \<Longrightarrow> rc \<noteq> WOLFCERT_OK"
  by (auto simp: setup_tls_ex_def load_anchors_def load_identity_def Let_def split: option.splits if_splits prod.splits sum.splits)

lemma dial_err: "dial b t h p m w = (Inl rc, w') \<Longrightarrow> rc \<noteq> 0"
  by (auto simp: dial_def Let_def split: option.splits if_splits prod.splits)

lemma session_open_err: "wolfcert_http_session_open env lib b cfg w = (Inl rc, w') \<Longrightarrow> rc \<noteq> 0"
  by (auto simp: wolfcert_http_session_open_def Let_def dest: url_parse_err setup_tls_err dial_err
      split: option.splits if_splits prod.splits sum.splits)

lemma est_open_err: "wolfcert_est_session_open env srv w = (Inl rc, w') \<Longrightarrow> rc \<noteq> 0"
  by (auto simp: wolfcert_est_session_open_def Let_def wolfcert_cfg_require_proto_def dest: url_parse_err session_open_err
      split: option.splits if_splits prod.splits sum.splits)

text \<open>
  A one-shot enrolment that returns 0 ran over verified TLS and has a certificate, or was put off.
\<close>

lemma est_one_shot_ok:
  assumes ok: "ssl_ok (ce_http env)" and b: "sv_max_response_bytes srv + WOLFCERT_HTTP_HEADER_BUDGET < 2 ^ 64"
    and e: "est_is_enroll op" and r: "est_one_shot env (Some srv) op csr enc (Some out) True res w = (0, r, w')"
  shows "sv_verify_server srv \<and> (er_status r = WOLFCERT_EST_STATUS_SUCCESS \<and> er_cert_pem r \<noteq> [] \<or> er_status r = WOLFCERT_EST_STATUS_PENDING)"
proof -
  let ?z = "est_call_clear (None :: 'a WolfCertEstSession option) (Some out) True res"
  have z: "?z = zero_result" by (simp add: est_call_clear_def)
  have c: "est_call_check op csr enc (Some out) = WOLFCERT_OK" using r by (auto simp: est_one_shot_def Let_def split: if_splits)
  obtain o1 w1 where o: "wolfcert_est_session_open env (Some srv) w = (o1, w1)" by (rule prod.exhaust)
  then obtain s where s: "o1 = Inr s" using r c by (cases o1) (auto simp: est_one_shot_def Let_def dest: est_open_err)
  obtain rc r1 s1 w2 where k: "est_session_call env (Some (est_set_close s)) op csr enc (Some out) True zero_result False w1 = (rc, r1, s1, w2)"
    by (rule prod_cases4)
  then have "rc = WOLFCERT_OK" "r1 = r" using r c o s z by (auto simp: est_one_shot_def Let_def)
  have i: "est_inv (est_set_close s)" using est_session_open_inv [OF _ b] o s est_set_close_inv by blast
  have v: "sv_verify_server srv" using o unfolding s by (cases rule: est_session_open_ok) simp
  have y: "est_call_clear (Some (est_set_close s)) (Some out) True zero_result = zero_result" by (simp add: est_call_clear_def)
  from k ok i have "est_outcome rc r1"
  proof (cases rule: est_session_call_cases)
    case (made s2 w1 os hs w2 rc1)
    then show ?thesis using y \<open>rc = WOLFCERT_OK\<close> est_finish_outcome(2) [OF _ _ e]
      by (cases "rc1 = WOLFCERT_OK") (auto simp: rc_want_def split: if_splits)
  qed (simp_all add: \<open>rc = WOLFCERT_OK\<close>)
  then show ?thesis using v by (cases "er_status r") (auto simp: est_outcome_def \<open>rc = WOLFCERT_OK\<close> \<open>r1 = r\<close>)
qed

text \<open>A request that was not built has an error, since every length of wolfSSL is tested for its sign.\<close>

lemma map_wc_err_ok [simp]: "wolfcert_map_wc_err wc r = WOLFCERT_OK \<longleftrightarrow> r = 0"
  by (simp add: wolfcert_map_wc_err_def)

lemma subject_err: "parse_subject_dn_loop lib p sub = Inl rc \<Longrightarrow> rc \<noteq> WOLFCERT_OK"
proof (induction lib p sub rule: parse_subject_dn_loop.induct)
  case (1 lib p sub)
  have a: "assign_rdn lib sub k v = Inl e \<Longrightarrow> e \<noteq> WOLFCERT_OK" for k v e
    by (auto simp: assign_rdn_def split: option.splits if_splits)
  show ?case using 1(2) [unfolded parse_subject_dn_loop.simps [of lib p]]
    by (auto simp: Let_def dest: a 1(1) [OF _ refl _ refl refl] split: option.splits if_splits sum.splits)
qed

lemma ips_err: "set_ips lib ns st = Inl (rc, l, w) \<Longrightarrow> rc \<noteq> WOLFCERT_OK"
  by (induction ns arbitrary: st) (auto simp: wolfcert_parse_ip_def split: prod.splits if_splits sum.splits)

lemma san_err: "build_san_seq keys lib meta cert w = (Inl rc, w') \<Longrightarrow> rc \<noteq> WOLFCERT_OK"
  by (auto simp: build_san_seq_def Let_def dest: ips_err split: prod.splits if_splits sum.splits)

lemma csr_names_err: "csr_names keys lib meta cert w = (Inl rc, w') \<Longrightarrow> rc \<noteq> WOLFCERT_OK"
  by (auto simp: csr_names_def parse_subject_dn_def dest: subject_err san_err split: option.splits prod.splits if_splits sum.splits)

lemma csr_usages_err: "csr_usages keys lib meta cert w = (Inl rc, w') \<Longrightarrow> rc \<noteq> WOLFCERT_OK"
  by (auto simp: csr_usages_def split: prod.splits if_splits)

lemma identity_err: "copy_cert_identity keys lib cert rcert w = (Inl rc, w') \<Longrightarrow> rc \<noteq> WOLFCERT_OK"
proof -
  have "renew_der keys lib rcert w = (Inl e, v) \<Longrightarrow> e \<noteq> WOLFCERT_OK" for e v
    by (auto simp: renew_der_def wolfcert_pem_cert_to_der_def split: prod.splits if_splits)
  moreover have "copy_subject_raw lib raw cert = Inl e \<Longrightarrow> e \<noteq> WOLFCERT_OK" for raw e
    by (auto simp: copy_subject_raw_def split: option.splits if_splits)
  moreover have "copy_cert_san lib dc c = Inl e \<Longrightarrow> e \<noteq> WOLFCERT_OK" for dc c e
    by (auto simp: copy_cert_san_def Let_def split: option.splits sum.splits if_splits)
  ultimately show "copy_cert_identity keys lib cert rcert w = (Inl rc, w') \<Longrightarrow> rc \<noteq> WOLFCERT_OK"
    by (fastforce simp: copy_cert_identity_def split: prod.splits if_splits sum.splits)
qed

lemma csr_fill_err: "csr_fill keys lib meta r cert w = (Inl rc, w') \<Longrightarrow> rc \<noteq> WOLFCERT_OK"
  by (auto simp: csr_fill_def dest: csr_names_err csr_usages_err identity_err split: prod.splits option.splits sum.splits)

lemma csr_sign_err: "csr_sign keys lib key alg sig cert w = (Inl rc, w') \<Longrightarrow> rc \<noteq> WOLFCERT_OK"
  by (auto simp: csr_sign_def Let_def split: prod.splits if_splits)

lemma csr_build_err: "wolfcert_csr_build_ex b keys lib key meta r w = (Inl rc, w') \<Longrightarrow> rc \<noteq> WOLFCERT_OK"
  by (auto simp: wolfcert_csr_build_ex_def choose_sig_type_def Let_def dest: csr_fill_err csr_sign_err
      split: prod.splits if_splits option.splits sum.splits)

lemma key_generate_err: "wolfcert_key_generate b keys cfg w = (Inl rc, w') \<Longrightarrow> rc \<noteq> WOLFCERT_OK"
  by (auto simp: wolfcert_key_generate_def Let_def split: option.splits prod.splits if_splits)

text \<open>The hints of the server change nothing the caller has chosen.\<close>

definition keeps_choices ::
  "WolfCertKeyCfg \<Rightarrow> 'w WolfCertCertMeta \<Rightarrow> WolfCertKeyCfg \<Rightarrow> 'w WolfCertCertMeta \<Rightarrow> bool" where
  "keeps_choices kc meta eff_key eff_meta \<longleftrightarrow>
     (kc_type kc \<noteq> 0 \<longrightarrow> eff_key = kc) \<and> kc_dev_id eff_key = kc_dev_id kc \<and> kc_key_label eff_key = kc_key_label kc \<and>
     eff_meta = meta\<lparr>mt_preferred_hash := mt_preferred_hash eff_meta\<rparr> \<and> (mt_preferred_hash meta \<noteq> 0 \<longrightarrow> eff_meta = meta)"

lemma keeps_all [simp]: "keeps_choices kc meta kc meta"
  by (simp add: keeps_choices_def)

lemma key_hint_keeps: "kc_type k \<noteq> 0 \<longrightarrow> apply_key_hint a k = k" "kc_dev_id (apply_key_hint a k) = kc_dev_id k"
  "kc_key_label (apply_key_hint a k) = kc_key_label k"
  by (simp_all add: apply_key_hint_def Let_def)

lemma settings_keep:
  assumes "enroll_settings env srv kc meta w = (rc, k, m, w')"
  shows "keeps_choices kc meta k m"
proof (cases "sv_protocol srv = WOLFCERT_PROTO_EST \<and> eo_auto_csrattrs (sv_est srv)")
  case True
  then have "wolfcert_client_auto_csrattrs env srv (Some kc) (Some meta) w = (rc, Some k, Some m, w')"
    using assms by (auto simp: enroll_settings_def wolfcert_client_auto_csrattrs_def wolfcert_csr_attrs_apply_def Let_def
        split: prod.splits if_splits sum.splits)
  then show ?thesis
    by (auto simp: wolfcert_client_auto_csrattrs_def wolfcert_csr_attrs_apply_def Let_def keeps_choices_def key_hint_keeps
        split: prod.splits if_splits sum.splits)
next
  case False
  then have "k = kc" "m = meta" using assms unfolding enroll_settings_def by auto
  then show ?thesis by simp
qed

text \<open>A result taken from a call: the certificate, or an error and the output as it was.\<close>

lemma take_cert_ok:
  assumes "wolfcert_client_take_cert rc r c = (rc', c')"
  shows "rc' = 0 \<longleftrightarrow> rc = 0 \<and> er_status r \<noteq> WOLFCERT_EST_STATUS_PENDING" "rc' \<noteq> 0 \<Longrightarrow> c' = c" "rc' = 0 \<Longrightarrow> c' = er_cert_pem r"
  using assms by (auto simp: wolfcert_client_take_cert_def split: if_splits)


text \<open>A run against the scripted EST server, with keys of one byte.\<close>

definition script_facade :: "(byte, script) facade_env" where
  "script_facade = \<lparr>fa_scep = script_scep, fa_build = small_build, fa_keys = plain_keys, fa_csr = plain_csr\<rparr>"

definition script_key_cfg :: WolfCertKeyCfg where
  "script_key_cfg = \<lparr>kc_type = 1, kc_param = 2048, kc_dev_id = -1, kc_key_label = None\<rparr>"

definition script_meta :: "script WolfCertCertMeta" where
  "script_meta = \<lparr>mt_subject_dn = Some (lit ''CN=a''), mt_san_dns = [], mt_san_ip = [], mt_san_uri = [], mt_san_email = [],
     mt_key_usage = None, mt_extended_key_usage = None, mt_challenge_password = None, mt_preferred_hash = 0, mt_customize = None\<rparr>"

lemma script_facade_run:
  "fst (wolfcert_client_enroll script_facade (Some script_srv) (Some script_key_cfg) (Some script_meta) (Some None) (Some []) script_ready_peer) = 0"
  by code_simp


end
