(* ===== verification/Server.thy ===== *)
theory Server
  imports Ca_Issue Http_Chunked Http_Header Http_Session "HOL-Library.Monad_Syntax"
begin

text \<open>
  What the test servers share, \<open>src/server.c\<close>: the server's state, the reads and writes on an accepted
  connection with their retries, the framing of a request and the reading of a chunked body. Starting
  and running a server is in the theory \<open>Server_Run\<close>.

  A retry loop may not end, so its result, and that of everything that reads or writes, is an option:
  \<open>None\<close> is a call that does not return.
\<close>

section \<open>Configuration and state\<close>

record 's WolfCertServerCfgSrv =
  cf_protocol :: WolfCertProtocol
  cf_bind_host :: "cstring option"
  cf_bind_port :: int
  cf_ca_store :: "'s WolfCertStoreOps option"
  cf_challenge_password :: "cstring option"
  cf_http_basic_user :: "cstring option"
  cf_http_basic_pass :: "cstring option"
  cf_ca_key_type :: int
  cf_ca_key_param :: int
  cf_tls_cert_pem :: "byte list option"
  cf_tls_key_pem :: "byte list option"
  cf_tls_client_ca_pem :: "byte list option"
  cf_scep_require_approval :: bool
  cf_scep_enable_next_ca :: bool
  cf_scep_enable_get_cert :: bool
  cf_est_require_approval :: bool
  cf_est_retry_after_sec :: int
  cf_tls_post_handshake_auth :: bool
  cf_csr_attributes_der :: "byte list option"
  cf_est_require_csr_attributes :: bool
  cf_est_allow_anonymous_enroll :: bool
  cf_scep_split_ra :: bool

text \<open>
  \<open>ws_tls_current\<close> says whether the connection is TLS; the objects of TLS are part of the world. \<open>'p\<close> is
  the state of the protocol.
\<close>

record ('k, 's, 'p) WolfCertServer =
  ws_cfg :: "'s WolfCertServerCfgSrv"
  ws_cfg_challenge :: "cstring option"
  ws_cfg_basic_user :: "cstring option"
  ws_cfg_basic_pass :: "cstring option"
  ws_cfg_csr_attrs :: "byte list option"
  ws_ca :: "'k WolfCertCa"
  ws_listen_fd :: int
  ws_priv :: "'p option"
  ws_tls_ctx :: bool
  ws_tls_current :: bool
  ws_keep_alive :: bool
  ws_poll_timeouts_armed :: bool
  ws_deadline_ms :: int

text \<open>
  The environment: allocation, clock and stop flag, the socket calls with \<open>errno\<close>, and wolfSSL. A read
  gives its return value and the bytes it stored.
\<close>

record ('k, 'w) srv_env =
  vs_alloc :: "'w \<Rightarrow> mem \<times> 'w"
  vs_mono_ms :: "'w \<Rightarrow> int"
  vs_stopping :: "'w \<Rightarrow> bool"
  vs_recv :: "int \<Rightarrow> nat \<Rightarrow> 'w \<Rightarrow> (int \<times> byte list \<times> int) \<times> 'w"
  vs_send :: "int \<Rightarrow> byte list \<Rightarrow> 'w \<Rightarrow> (int \<times> int) \<times> 'w"
  vs_ssl_read :: "nat \<Rightarrow> 'w \<Rightarrow> (int \<times> byte list) \<times> 'w"
  vs_ssl_write :: "byte list \<Rightarrow> 'w \<Rightarrow> int \<times> 'w"
  vs_ssl_get_error :: "int \<Rightarrow> 'w \<Rightarrow> ssl_error"
  vs_build :: key_build
  vs_keys :: "('k, 'w) wolf_keys"
  vs_cert :: "('k, 'w) cert_lib"
  vs_cms :: "'w wolf_cms"
  vs_b64 :: b64_fun
  vs_b64_mime :: b64_fun
  vs_b64_dec :: b64_fun

abbreviation vs_codes :: "('k, 'w) srv_env \<Rightarrow> wc_codes" where
  "vs_codes env \<equiv> cm_codes (vs_cms env)"

section \<open>Reading and writing a connection\<close>

definition tls_want_io :: "('k, 'w) srv_env \<Rightarrow> int \<Rightarrow> 'w \<Rightarrow> bool" where
  "tls_want_io env ret w =
     (let err = vs_ssl_get_error env ret w in err = SSL_WANT_READ \<or> err = SSL_WANT_WRITE)"

definition WOLFCERT_SERVER_REQUEST_TIMEOUT_MS :: int where
  "WOLFCERT_SERVER_REQUEST_TIMEOUT_MS = 10000"

definition arm_deadline :: "('k, 'w) srv_env \<Rightarrow> ('k, 's, 'p) WolfCertServer \<Rightarrow> 'w \<Rightarrow> ('k, 's, 'p) WolfCertServer" where
  "arm_deadline env srv w =
     (let ms = WOLFCERT_SERVER_REQUEST_TIMEOUT_MS in
      if ms > 0 then srv\<lparr>ws_deadline_ms := vs_mono_ms env w + ms\<rparr> else srv)"

definition io_should_stop :: "('k, 'w) srv_env \<Rightarrow> ('k, 's, 'p) WolfCertServer \<Rightarrow> 'w \<Rightarrow> bool" where
  "io_should_stop env srv w \<longleftrightarrow>
     vs_stopping env w \<or> ws_deadline_ms srv \<noteq> 0 \<and> vs_mono_ms env w \<ge> ws_deadline_ms srv"

partial_function (option) tls_read_loop ::
  "('k, 'w) srv_env \<Rightarrow> ('k, 's, 'p) WolfCertServer \<Rightarrow> nat \<Rightarrow> 'w \<Rightarrow> ((int \<times> byte list) \<times> 'w) option" where
  "tls_read_loop env srv len w =
     (case vs_ssl_read env len w of ((tr, d), w) \<Rightarrow>
        if tr \<le> 0 \<and> tls_want_io env tr w \<and> \<not> io_should_stop env srv w then tls_read_loop env srv len w
        else Some ((tr, d), w))"

abbreviation (input) EAGAIN :: int where "EAGAIN \<equiv> 11"

definition retry_errno :: "('k, 's, 'p) WolfCertServer \<Rightarrow> int \<Rightarrow> bool" where
  "retry_errno srv errno \<longleftrightarrow> errno = EINTR \<or> ws_poll_timeouts_armed srv \<and> errno = EAGAIN"

partial_function (option) recv_loop ::
  "('k, 'w) srv_env \<Rightarrow> ('k, 's, 'p) WolfCertServer option \<Rightarrow> int \<Rightarrow> nat \<Rightarrow> 'w \<Rightarrow> ((int \<times> byte list) \<times> 'w) option" where
  "recv_loop env srv fd len w =
     (case vs_recv env fd len w of ((r, d, errno), w) \<Rightarrow>
        if r < 0 \<and> (case srv of None \<Rightarrow> False | Some s \<Rightarrow> retry_errno s errno \<and> \<not> io_should_stop env s w)
        then recv_loop env srv fd len w
        else Some ((r, d), w))"

definition wolfcert_io_recv ::
  "('k, 'w) srv_env \<Rightarrow> ('k, 's, 'p) WolfCertServer option \<Rightarrow> int \<Rightarrow> nat \<Rightarrow> 'w \<Rightarrow> ((int \<times> byte list) \<times> 'w) option" where
  "wolfcert_io_recv env srv fd len w =
     (if (case srv of None \<Rightarrow> False | Some s \<Rightarrow> io_should_stop env s w) then Some ((-1, []), w)
      else if (case srv of None \<Rightarrow> False | Some s \<Rightarrow> ws_tls_current s)
      then do {
        ((tr, d), w) \<leftarrow> tls_read_loop env (the srv) len w;
        Some (if tr \<le> 0 then (-1, []) else (tr, d), w)
      }
      else recv_loop env srv fd len w)"

partial_function (option) tls_write_loop ::
  "('k, 'w) srv_env \<Rightarrow> ('k, 's, 'p) WolfCertServer \<Rightarrow> byte list \<Rightarrow> 'w \<Rightarrow> (int \<times> 'w) option" where
  "tls_write_loop env srv buf w =
     (case vs_ssl_write env buf w of (tr, w) \<Rightarrow>
        if tr \<le> 0 \<and> tls_want_io env tr w \<and> \<not> io_should_stop env srv w then tls_write_loop env srv buf w
        else Some (tr, w))"

partial_function (option) send_loop ::
  "('k, 'w) srv_env \<Rightarrow> ('k, 's, 'p) WolfCertServer option \<Rightarrow> int \<Rightarrow> byte list \<Rightarrow> 'w \<Rightarrow> (int \<times> 'w) option" where
  "send_loop env srv fd buf w =
     (case vs_send env fd buf w of ((r, errno), w) \<Rightarrow>
        if r < 0 \<and> (case srv of None \<Rightarrow> False | Some s \<Rightarrow> retry_errno s errno \<and> \<not> io_should_stop env s w)
        then send_loop env srv fd buf w
        else Some (r, w))"

definition wolfcert_io_send ::
  "('k, 'w) srv_env \<Rightarrow> ('k, 's, 'p) WolfCertServer option \<Rightarrow> int \<Rightarrow> byte list \<Rightarrow> 'w \<Rightarrow> (int \<times> 'w) option" where
  "wolfcert_io_send env srv fd buf w =
     (if (case srv of None \<Rightarrow> False | Some s \<Rightarrow> io_should_stop env s w) then Some (-1, w)
      else if (case srv of None \<Rightarrow> False | Some s \<Rightarrow> ws_tls_current s)
      then do {
        (tr, w) \<leftarrow> tls_write_loop env (the srv) buf w;
        Some (if tr \<le> 0 then -1 else tr, w)
      }
      else send_loop env srv fd buf w)"

declare tls_read_loop.simps [code] recv_loop.simps [code] tls_write_loop.simps [code] send_loop.simps [code]

section \<open>The framing of a request\<close>

text \<open>Values are the bytes of their slice of the line.\<close>

definition ows_trim :: "byte list \<Rightarrow> byte list" where
  "ows_trim v = rev (dropWhile is_ows (rev (dropWhile is_ows v)))"

definition te_chunked :: "byte list \<Rightarrow> bool" where
  "te_chunked v = (let v = ows_trim v in length v = 7 \<and> wolfcert_ascii_ncasecmp v (lit ''chunked'') 7 = 0)"

record WolfCertReqFraming =
  rf_content_length :: nat
  rf_http10 :: bool
  rf_chunked :: bool
  rf_cl_seen :: bool
  rf_keep_alive :: bool
  rf_close :: bool

function conn_options :: "WolfCertReqFraming \<Rightarrow> byte list \<Rightarrow> WolfCertReqFraming" where
  "conn_options f v =
     (if v = [] then f
      else let t0 = takeWhile (\<lambda>c. c \<noteq> b_comma) v; t = ows_trim t0;
               f = (if length t = 5 \<and> wolfcert_ascii_ncasecmp t (lit ''close'') 5 = 0 then f\<lparr>rf_close := True\<rparr>
                    else if length t = 10 \<and> wolfcert_ascii_ncasecmp t (lit ''keep-alive'') 10 = 0 then f\<lparr>rf_keep_alive := True\<rparr>
                    else f) in
           conn_options f (drop (length t0 + 1) v))"
  by pat_completeness auto
termination
  by (relation "measure (\<lambda>(_, v). length v)") auto

declare conn_options.simps [simp del]

definition wolfcert_server_framing_init :: "byte list \<Rightarrow> WolfCertReqFraming" where
  "wolfcert_server_framing_init ver =
     \<lparr>rf_content_length = 0, rf_http10 = (length ver = 8 \<and> ver = lit ''HTTP/1.0''), rf_chunked = False, rf_cl_seen = False,
      rf_keep_alive = False, rf_close = False\<rparr>"

text \<open>
  \<open>strtoul(v, NULL, 10)\<close> on 64 bits: a minus sign negates in the unsigned type, too large a number is the
  largest. The number ends with the value, which a line end or a blank follows in the buffer.
\<close>

definition strtoul :: "byte list \<Rightarrow> nat" where
  "strtoul s =
     (let t = dropWhile is_space s;
          neg = (cat t 0 = b_minus);
          u = (if cat t 0 = b_minus \<or> cat t 0 = b_plus then drop 1 t else t);
          v = digits_val (takeWhile is_dig u)
      in if v \<ge> 2 ^ 64 then 2 ^ 64 - 1 else if neg then (2 ^ 64 - v) mod 2 ^ 64 else v)"

definition wolfcert_server_framing_hdr ::
  "WolfCertReqFraming \<Rightarrow> byte list \<Rightarrow> byte list \<Rightarrow> (bool \<times> WolfCertReqFraming) wc_result" where
  "wolfcert_server_framing_hdr f line v =
     (if wolfcert_http_hdr_is line (lit ''Content-Length'')
      then Ok (True, f\<lparr>rf_content_length := strtoul v, rf_cl_seen := True\<rparr>)
      else if wolfcert_http_hdr_is line (lit ''Transfer-Encoding'')
      then (if rf_chunked f \<or> \<not> te_chunked v then Err WOLFCERT_ERR_PROTOCOL else Ok (True, f\<lparr>rf_chunked := True\<rparr>))
      else if wolfcert_http_hdr_is line (lit ''Connection'') then Ok (True, conn_options f v)
      else Ok (False, f))"

definition wolfcert_server_framing_close :: "WolfCertReqFraming \<Rightarrow> bool" where
  "wolfcert_server_framing_close f \<longleftrightarrow>
     rf_close f \<or> (rf_http10 f \<and> \<not> rf_keep_alive f) \<or> (rf_chunked f \<and> (rf_cl_seen f \<or> rf_http10 f))"

section \<open>A chunked body\<close>

text \<open>
  \<open>raw\<close> is the filled part of the buffer of size \<open>raw_cap\<close>. The result is the raw body and the value of
  \<open>framed\<close>, which is not 0.
\<close>

partial_function (option) read_chunked_loop ::
  "('k, 'w) srv_env \<Rightarrow> ('k, 's, 'p) WolfCertServer option \<Rightarrow> int \<Rightarrow> nat \<Rightarrow> byte list \<Rightarrow> nat \<Rightarrow> WolfCertChunkScan \<Rightarrow> 'w \<Rightarrow>
   ((byte list \<times> int) wc_result \<times> 'w) option" where
  "read_chunked_loop env srv fd raw_max raw raw_cap scan w =
     (case wolfcert_http_chunked_complete raw scan of (framed, scan) \<Rightarrow>
      if framed \<noteq> 0 then Some (Ok (raw, framed), w)
      else case (if length raw = raw_cap
                 then let grow = (if raw_cap < 2048 then 2048 else raw_cap);
                          grow = (if grow > raw_max - raw_cap then raw_max - raw_cap else grow) in
                      if grow = 0 then (Err WOLFCERT_ERR_PROTOCOL, w)
                      else (case vs_alloc env w of (mem, w) \<Rightarrow>
                              if \<not> mem 0 then (Err WOLFCERT_ERR_MEMORY, w) else (Ok (raw_cap + grow), w))
                 else (Ok raw_cap, w)) of
             (Inl rc, w) \<Rightarrow> Some (Err rc, w)
           | (Inr raw_cap, w) \<Rightarrow>
               do {
                 ((r, d), w) \<leftarrow> wolfcert_io_recv env srv fd (raw_cap - length raw) w;
                 if r \<le> 0 then Some (Err WOLFCERT_ERR_IO, w)
                 else read_chunked_loop env srv fd raw_max (raw @ take (nat r) d) raw_cap scan w
               })"

declare read_chunked_loop.simps [code]

definition wolfcert_server_read_chunked ::
  "('k, 'w) srv_env \<Rightarrow> ('k, 's, 'p) WolfCertServer option \<Rightarrow> int \<Rightarrow> byte list \<Rightarrow> nat \<Rightarrow> 'w \<Rightarrow> (byte list wc_result \<times> 'w) option" where
  "wolfcert_server_read_chunked env srv fd have' max_bytes w =
     (let raw_max = max_bytes + 64 * 1024 in
      if length have' > raw_max then Some (Err WOLFCERT_ERR_PROTOCOL, w)
      else case (if length have' > 0 then (case vs_alloc env w of (mem, w) \<Rightarrow> (mem 0, w)) else (True, w)) of (got, w) \<Rightarrow>
      if \<not> got then Some (Err WOLFCERT_ERR_MEMORY, w)
      else do {
        (r, w) \<leftarrow> read_chunked_loop env srv fd raw_max have' (length have') (chunk_scan_init max_bytes) w;
        (case r of
           Inl rc \<Rightarrow> Some (Err rc, w)
         | Inr (raw, framed) \<Rightarrow>
             if framed < 0 then Some (Err WOLFCERT_ERR_PROTOCOL, w)
             else (case vs_alloc env w of (mem, w) \<Rightarrow> Some (wolfcert_http_chunked_decode mem raw max_bytes, w)))
      })"

end
