(* ===== verification/Server_Http.thy ===== *)
theory Server_Http
  imports Server
begin

text \<open>
  What the request readers and the senders of the two test servers have in common, of which
  \<open>src/est/est_server.c\<close> and \<open>src/scep/scep_server.c\<close> each have a copy: lines, the header block, the request
  line, a body with a length, and sending.
\<close>

section \<open>Reading\<close>

text \<open>\<open>p\<close> is what is left of the buffer; the line has no line end, and the rest begins behind it.\<close>

definition read_line :: "byte list \<Rightarrow> (byte list \<times> byte list) option" where
  "read_line p =
     (case strchr p b_LF of
        None \<Rightarrow> None
      | Some len \<Rightarrow>
          Some (take (if len > 0 \<and> p ! (len - 1) = b_CR then len - 1 else len) p, drop (len + 1) p))"

lemma read_line_shorter: "read_line p = Some (line, rest) \<Longrightarrow> length rest < length p"
  by (auto simp: read_line_def dest!: strchr_SomeD split: option.splits)

definition WOLFCERT_HTTP_REQ_BUF_SZ :: nat where
  "WOLFCERT_HTTP_REQ_BUF_SZ = 2048"

text \<open>
  The loop that fills the buffer of \<open>buf_sz\<close> bytes until it holds an empty line: \<open>strstr\<close> reads up to the
  first zero byte. A buffer that fills up first is returned as it is.
\<close>

partial_function (option) read_head ::
  "('k, 'w) srv_env \<Rightarrow> ('k, 's, 'p) WolfCertServer \<Rightarrow> int \<Rightarrow> nat \<Rightarrow> byte list \<Rightarrow> 'w \<Rightarrow> (byte list wc_result \<times> 'w) option" where
  "read_head env s fd buf_sz buf w =
     (if length buf < buf_sz - 1
      then do {
        ((r, d), w) \<leftarrow> wolfcert_io_recv env (Some s) fd (buf_sz - 1 - length buf) w;
        if r \<le> 0 then Some (Err WOLFCERT_ERR_IO, w)
        else let buf = buf @ take (nat r) d in
             if strstr (cstr buf) (CRLF @ CRLF) \<noteq> None then Some (Ok buf, w) else read_head env s fd buf_sz buf w
      }
      else Some (Ok buf, w))"

declare read_head.simps [code]

text \<open>Method, target and version; the method has at most seven bytes.\<close>

definition request_line :: "byte list \<Rightarrow> (byte list \<times> byte list \<times> byte list) wc_result" where
  "request_line line =
     (case strchr line b_SP of
        None \<Rightarrow> Err WOLFCERT_ERR_PROTOCOL
      | Some mlen \<Rightarrow>
          if mlen \<ge> 8 then Err WOLFCERT_ERR_PROTOCOL
          else case strchr (drop (mlen + 1) line) b_SP of
                 None \<Rightarrow> Err WOLFCERT_ERR_PROTOCOL
               | Some plen \<Rightarrow> Ok (take mlen line, take plen (drop (mlen + 1) line), drop (mlen + 1 + plen + 1) line))"

text \<open>The part of a body that has not arrived; \<open>body\<close> is what has.\<close>

partial_function (option) read_body ::
  "('k, 'w) srv_env \<Rightarrow> ('k, 's, 'p) WolfCertServer \<Rightarrow> int \<Rightarrow> nat \<Rightarrow> byte list \<Rightarrow> 'w \<Rightarrow> (byte list wc_result \<times> 'w) option" where
  "read_body env s fd left body w =
     (if left > 0
      then do {
        ((r, d), w) \<leftarrow> wolfcert_io_recv env (Some s) fd left w;
        if r \<le> 0 then Some (Err WOLFCERT_ERR_IO, w)
        else read_body env s fd (left - nat r) (body @ take (nat r) d) w
      }
      else Some (Ok body, w))"

declare read_body.simps [code]

text \<open>The body of a request whose header block ended with \<open>p\<close> left in the buffer.\<close>

definition WOLFCERT_SERVER_MAX_BODY :: nat where
  "WOLFCERT_SERVER_MAX_BODY = 1 * 1024 * 1024"

definition request_body ::
  "('k, 'w) srv_env \<Rightarrow> ('k, 's, 'p) WolfCertServer \<Rightarrow> int \<Rightarrow> WolfCertReqFraming \<Rightarrow> byte list \<Rightarrow> 'w \<Rightarrow> (byte list option wc_result \<times> 'w) option" where
  "request_body env s fd fr p w =
     (if rf_chunked fr
      then do {
        (r, w) \<leftarrow> wolfcert_server_read_chunked env (Some s) fd p WOLFCERT_SERVER_MAX_BODY w;
        Some (map_sum id Some r, w)
      }
      else if rf_content_length fr > 0
      then (if rf_content_length fr > WOLFCERT_SERVER_MAX_BODY then Some (Err WOLFCERT_ERR_PROTOCOL, w)
            else case vs_alloc env w of (mem, w) \<Rightarrow>
            if \<not> mem 0 then Some (Err WOLFCERT_ERR_MEMORY, w)
            else let have' = take (rf_content_length fr) p in
            do {
              (r, w) \<leftarrow> read_body env s fd (rf_content_length fr - length have') have' w;
              Some (map_sum id Some r, w)
            })
      else Some (Ok None, w))"

section \<open>Sending\<close>

partial_function (option) send_all :: "('k, 'w) srv_env \<Rightarrow> ('k, 's, 'p) WolfCertServer \<Rightarrow> int \<Rightarrow> byte list \<Rightarrow> 'w \<Rightarrow> 'w option" where
  "send_all env s fd buf w =
     (if buf = [] then Some w
      else do {
        (r, w) \<leftarrow> wolfcert_io_send env (Some s) fd buf w;
        if r \<le> 0 then Some w else send_all env s fd (drop (nat r) buf) w
      })"

declare send_all.simps [code]

definition conn_hdr :: "('k, 's, 'p) WolfCertServer \<Rightarrow> cstring" where
  "conn_hdr s = (if ws_keep_alive s then lit ''keep-alive'' else lit ''close'')"

end
