(* ===== verification/Est_Server.thy ===== *)
theory Est_Server
  imports Server_Http Csr_Attrs
begin

text \<open>
  The EST test server, \<open>src/est/est_server.c\<close>: the request reader, the responses, HTTP Basic and
  post-handshake authentication, the CSR attribute policy, the check of a renewal, manual approval and
  the handlers of the four operations.
\<close>

section \<open>State and environment\<close>

definition EST_PENDING_CAP :: nat where
  "EST_PENDING_CAP = 8"

definition EST_PHA_TIMEOUT_MS :: int where
  "EST_PHA_TIMEOUT_MS = 5000"

record EstPending =
  ep_csr_hash :: "byte list"
  ep_polls :: int

text \<open>The first \<open>count\<close> items.\<close>

type_synonym EstPriv = "EstPending list"

type_synonym ('k, 's) est_server = "('k, 's, EstPriv) WolfCertServer"

text \<open>
  What EST takes from TLS: the certificate object of the peer with its DER, the peer's Finished message,
  the request for a certificate and \<open>wolfSSL_peek\<close> for one byte; whether the build has post-handshake
  authentication, and whether it keeps the peer's certificate.
\<close>

record ('k, 'w) est_srv_env =
  ve_srv :: "('k, 'w) srv_env"
  ve_PHA :: bool
  ve_KEEP_PEER_CERT :: bool
  ve_peer_certificate :: "'w \<Rightarrow> byte list option option"
  ve_peer_finished :: "'w \<Rightarrow> byte list"
  ve_request_certificate :: "'w \<Rightarrow> int \<times> 'w"
  ve_peek :: "'w \<Rightarrow> int \<times> 'w"
  ve_Sha256 :: "byte list \<Rightarrow> byte list"

definition sha256_bytes :: "('k, 'w) est_srv_env \<Rightarrow> byte list \<Rightarrow> byte list" where
  "sha256_bytes env inp = ve_Sha256 env inp"

fun pending_find_from :: "nat \<Rightarrow> EstPriv \<Rightarrow> byte list \<Rightarrow> int" where
  "pending_find_from i [] hash = -1"
| "pending_find_from i (e # es) hash = (if ep_csr_hash e = hash then int i else pending_find_from (i + 1) es hash)"

definition pending_find :: "EstPriv \<Rightarrow> byte list \<Rightarrow> int" where
  "pending_find p hash = pending_find_from 0 p hash"

definition pending_add :: "EstPriv \<Rightarrow> byte list \<Rightarrow> bool \<times> EstPriv" where
  "pending_add p hash =
     (if length p \<ge> EST_PENDING_CAP then (False, p) else (True, p @ [\<lparr>ep_csr_hash = hash, ep_polls = 0\<rparr>]))"

definition pending_remove :: "EstPriv \<Rightarrow> int \<Rightarrow> EstPriv" where
  "pending_remove p idx =
     (if idx < 0 \<or> nat idx \<ge> length p then p
      else butlast (if nat idx < length p - 1 then p[nat idx := last p] else p))"

section \<open>Reading a request\<close>

record EstRequest =
  eq_method :: cstring
  eq_path :: cstring
  eq_auth_header :: "cstring option"
  eq_content_length :: nat
  eq_body :: "byte list option"
  eq_connection_close :: bool

definition zero_est_request :: EstRequest where
  "zero_est_request = \<lparr>eq_method = [], eq_path = [], eq_auth_header = None, eq_content_length = 0, eq_body = None,
     eq_connection_close = False\<rparr>"

definition WOLFCERT_HTTP_PATH_SZ :: nat where
  "WOLFCERT_HTTP_PATH_SZ = 512"

text \<open>The loop over the header lines; it gives the framing, the credentials and what follows the block.\<close>

function est_headers ::
  "('k, 'w) srv_env \<Rightarrow> WolfCertReqFraming \<Rightarrow> cstring option \<Rightarrow> byte list \<Rightarrow> 'w \<Rightarrow>
   (WolfCertReqFraming \<times> cstring option \<times> byte list) wc_result \<times> 'w" where
  "est_headers env fr auth p w =
     (case read_line p of
        None \<Rightarrow> (Ok (fr, auth, p), w)
      | Some (line, rest) \<Rightarrow>
          if line = [] then (Ok (fr, auth, rest), w)
          else case wolfcert_http_hdr_split line of (rc, v0) \<Rightarrow>
          if rc \<noteq> 0 then (Err WOLFCERT_ERR_PROTOCOL, w)
          else let v = (case v0 of None \<Rightarrow> [] | Some v \<Rightarrow> v) in
          case wolfcert_server_framing_hdr fr line v of
            Inl rc \<Rightarrow> (Err rc, w)
          | Inr (known, fr) \<Rightarrow>
              if \<not> known \<and> wolfcert_http_hdr_is line (lit ''Authorization'')
              then (if auth \<noteq> None then (Err WOLFCERT_ERR_PROTOCOL, w)
                    else case vs_alloc env w of (mem, w) \<Rightarrow>
                         est_headers env fr (if mem 0 then Some (cstr v) else None) rest w)
              else est_headers env fr auth rest w)"
  by pat_completeness auto
termination
  by (relation "measure (\<lambda>(_, _, _, p, _). length p)") (auto dest: read_line_shorter)

declare est_headers.simps [simp del]

definition parse_request ::
  "('k, 'w) srv_env \<Rightarrow> ('k, 's) est_server \<Rightarrow> int \<Rightarrow> 'w \<Rightarrow> (EstRequest wc_result \<times> 'w) option" where
  "parse_request env s fd w =
     do {
       (r, w) \<leftarrow> read_head env s fd WOLFCERT_HTTP_REQ_BUF_SZ [] w;
       (case r of
          Inl rc \<Rightarrow> Some (Err rc, w)
        | Inr buf \<Rightarrow>
       (case read_line buf of
          None \<Rightarrow> Some (Err WOLFCERT_ERR_PROTOCOL, w)
        | Some (line, p) \<Rightarrow>
       (case request_line line of
          Inl rc \<Rightarrow> Some (Err rc, w)
        | Inr (method, target, ver) \<Rightarrow>
       let fr = wolfcert_server_framing_init ver in
       if length target \<ge> WOLFCERT_HTTP_PATH_SZ then Some (Err WOLFCERT_ERR_PROTOCOL, w)
       else case est_headers env fr None p w of
          (Inl rc, w) \<Rightarrow> Some (Err rc, w)
        | (Inr (fr, auth, p), w) \<Rightarrow>
            do {
              (r, w) \<leftarrow> request_body env s fd fr p w;
              Some (case r of
                      Inl rc \<Rightarrow> Err rc
                    | Inr body \<Rightarrow> Ok \<lparr>eq_method = cstr method, eq_path = cstr target, eq_auth_header = auth,
                        eq_content_length = rf_content_length fr, eq_body = body,
                        eq_connection_close = wolfcert_server_framing_close fr\<rparr>, w)
            })))
     }"

section \<open>Responses\<close>

definition EST_TEXT_PLAIN :: cstring where
  "EST_TEXT_PLAIN = lit ''Content-Type: text/plain'' @ CRLF"

definition EST_PKCS7_CERTS :: cstring where
  "EST_PKCS7_CERTS =
     lit ''Content-Type: application/pkcs7-mime; smime-type=certs-only'' @ CRLF @ lit ''Content-Transfer-Encoding: base64'' @ CRLF"

text \<open>A body of \<open>None\<close> sends only the headers, which announce \<open>body_len\<close> bytes.\<close>

definition est_response_head :: "('k, 's) est_server \<Rightarrow> nat \<Rightarrow> cstring \<Rightarrow> cstring \<Rightarrow> nat \<Rightarrow> cstring" where
  "est_response_head s status phrase headers body_len =
     (if status = 204
      then lit ''HTTP/1.1 204 '' @ phrase @ CRLF @ headers @ lit ''Connection: '' @ conn_hdr s @ CRLF @ CRLF
      else lit ''HTTP/1.1 '' @ nat_text status @ lit '' '' @ phrase @ CRLF @ headers @ lit ''Content-Length: '' @ nat_text body_len @ CRLF @
           lit ''Connection: '' @ conn_hdr s @ CRLF @ CRLF)"

definition send_response ::
  "('k, 'w) srv_env \<Rightarrow> ('k, 's) est_server \<Rightarrow> int \<Rightarrow> nat \<Rightarrow> cstring \<Rightarrow> cstring \<Rightarrow> byte list option \<Rightarrow> nat \<Rightarrow> 'w \<Rightarrow> 'w option" where
  "send_response env s fd status phrase headers body body_len w =
     (let hdr = est_response_head s status phrase headers body_len in
      if length hdr \<ge> 320 then Some w
      else do {
        w \<leftarrow> send_all env s fd hdr w;
        (case body of
           None \<Rightarrow> Some w
         | Some b \<Rightarrow> if body_len > 0 then send_all env s fd (take body_len b) w else Some w)
      })"

definition send_error ::
  "('k, 'w) srv_env \<Rightarrow> ('k, 's) est_server \<Rightarrow> int \<Rightarrow> nat \<Rightarrow> cstring \<Rightarrow> cstring \<Rightarrow> 'w \<Rightarrow> 'w option" where
  "send_error env s fd status phrase why w = send_response env s fd status phrase EST_TEXT_PLAIN (Some why) (length why) w"

definition send_accepted_retry_after :: "('k, 'w) srv_env \<Rightarrow> ('k, 's) est_server \<Rightarrow> int \<Rightarrow> int \<Rightarrow> 'w \<Rightarrow> 'w option" where
  "send_accepted_retry_after env s fd retry_after_sec w =
     (let n = (if retry_after_sec > 0 then retry_after_sec else 1) in
      send_response env s fd 202 (lit ''Accepted'') (lit ''Retry-After: '' @ nat_text (nat n) @ CRLF) None 0 w)"

section \<open>Authentication\<close>

definition EST_BASIC_AUTH_SCHEME :: cstring where
  "EST_BASIC_AUTH_SCHEME = lit ''Basic ''"

definition check_basic_auth ::
  "('k, 'w) srv_env \<Rightarrow> ('k, 's) est_server \<Rightarrow> cstring option \<Rightarrow> 'w \<Rightarrow> bool \<times> 'w" where
  "check_basic_auth env s auth_header w =
     (case ws_cfg_basic_user s of
        None \<Rightarrow> (True, w)
      | Some user \<Rightarrow>
      (case auth_header of
        None \<Rightarrow> (False, w)
      | Some h \<Rightarrow>
          if wolfcert_ascii_ncasecmp h EST_BASIC_AUTH_SCHEME (length EST_BASIC_AUTH_SCHEME) \<noteq> 0 then (False, w)
          else let pass = (case ws_cfg_basic_pass s of None \<Rightarrow> [] | Some p \<Rightarrow> p); raw = user @ b_colon # pass in
          if length raw \<ge> 256 then (False, w)
          else case vs_alloc env w of (mem, w) \<Rightarrow>
          (case wolfcert_base64_encode (vs_codes env) (vs_b64 env) mem (Some raw) of
             Inl _ \<Rightarrow> (False, w)
           | Inr enc \<Rightarrow>
               let tok = drop (length EST_BASIC_AUTH_SCHEME) h in (length tok = length enc \<and> tok = enc, w))))"

text \<open>
  The wait for the client's Finished; \<open>fin\<close> is the one before the request. \<open>Some True\<close> is the end of the
  wait by a new Finished.
\<close>

partial_function (option) pha_wait ::
  "('k, 'w) est_srv_env \<Rightarrow> int \<Rightarrow> byte list \<Rightarrow> 'w \<Rightarrow> (bool \<times> 'w) option" where
  "pha_wait env deadline fin w =
     (case ve_peek env w of (r, w) \<Rightarrow>
      if r \<le> 0 \<and> vs_ssl_get_error (ve_srv env) r w \<noteq> SSL_WANT_READ \<and> vs_ssl_get_error (ve_srv env) r w \<noteq> SSL_WANT_WRITE
      then Some (False, w)
      else if ve_peer_finished env w \<noteq> fin then Some (True, w)
      else if r > 0 \<or> vs_mono_ms (ve_srv env) w \<ge> deadline \<or> vs_stopping (ve_srv env) w then Some (False, w)
      else pha_wait env deadline fin w)"

declare pha_wait.simps [code]

definition ensure_post_handshake_auth ::
  "('k, 'w) est_srv_env \<Rightarrow> ('k, 's) est_server \<Rightarrow> 'w \<Rightarrow> (wc_rc \<times> 'w) option" where
  "ensure_post_handshake_auth env s w =
     (if ve_PHA env \<and> ve_KEEP_PEER_CERT env
      then (if \<not> cf_tls_post_handshake_auth (ws_cfg s) \<or> \<not> ws_tls_current s then Some (WOLFCERT_OK, w)
            else if ve_peer_certificate env w \<noteq> None then Some (WOLFCERT_OK, w)
            else let fin = ve_peer_finished env w in
            case ve_request_certificate env w of (rc, w) \<Rightarrow>
            if rc \<noteq> 1 then Some (WOLFCERT_ERR_AUTH, w)
            else let deadline = vs_mono_ms (ve_srv env) w + EST_PHA_TIMEOUT_MS;
                     deadline = (if ws_deadline_ms s \<noteq> 0 \<and> ws_deadline_ms s < deadline then ws_deadline_ms s else deadline) in
            do {
              (done', w) \<leftarrow> pha_wait env deadline fin w;
              Some (if done' \<and> ve_peer_certificate env w \<noteq> None then WOLFCERT_OK else WOLFCERT_ERR_AUTH, w)
            })
      else Some (if cf_tls_post_handshake_auth (ws_cfg s) then WOLFCERT_ERR_UNSUPPORTED else WOLFCERT_OK, w))"

section \<open>Handlers without authentication\<close>

text \<open>\<open>head\<close> asks for the headers only.\<close>

definition est_server_error :: "('k, 'w) srv_env \<Rightarrow> ('k, 's) est_server \<Rightarrow> int \<Rightarrow> bool \<Rightarrow> cstring \<Rightarrow> 'w \<Rightarrow> 'w option" where
  "est_server_error env s fd head why w =
     send_response env s fd 500 (lit ''Server Error'') EST_TEXT_PLAIN (if head then None else Some why) (length why) w"

definition handler_csr_attrs :: "('k, 'w) srv_env \<Rightarrow> ('k, 's) est_server \<Rightarrow> int \<Rightarrow> bool \<Rightarrow> 'w \<Rightarrow> (wc_rc \<times> 'w) option" where
  "handler_csr_attrs env s fd head w =
     (case ws_cfg_csr_attrs s of
        None \<Rightarrow> do { w \<leftarrow> send_response env s fd 204 (lit ''No Content'') [] None 0 w; Some (WOLFCERT_OK, w) }
      | Some attrs \<Rightarrow>
          if length attrs = 0
          then do { w \<leftarrow> send_response env s fd 204 (lit ''No Content'') [] None 0 w; Some (WOLFCERT_OK, w) }
          else case vs_alloc env w of (mem, w) \<Rightarrow>
          (case wolfcert_base64_encode_mime (vs_codes env) (vs_b64_mime env) mem (Some attrs) of
             Inl rc \<Rightarrow> do {
               w \<leftarrow> est_server_error env s fd head (lit ''cannot encode the CSR attributes'' @ [b_LF]) w;
               Some (rc, w) }
           | Inr b64 \<Rightarrow> do {
               w \<leftarrow> send_response env s fd 200 (lit ''OK'')
                     (lit ''Content-Type: application/csrattrs'' @ CRLF @ lit ''Content-Transfer-Encoding: base64'' @ CRLF)
                     (if head then None else Some b64) (length b64) w;
               Some (WOLFCERT_OK, w) }))"

text \<open>A degenerate PKCS#7 message of one certificate, in lines of base64.\<close>

definition certs_only_b64 :: "('k, 'w) srv_env \<Rightarrow> byte list \<Rightarrow> 'w \<Rightarrow> byte list wc_result \<times> 'w" where
  "certs_only_b64 env cert w =
     (case wolfcert_pkcs7_build_certs_only (vs_cms env) [cert] w of
        (Inl rc, w) \<Rightarrow> (Err rc, w)
      | (Inr p7, w) \<Rightarrow>
          (case vs_alloc env w of (mem, w) \<Rightarrow>
             (wolfcert_base64_encode_mime (vs_codes env) (vs_b64_mime env) mem (Some p7), w)))"

definition handler_cacerts :: "('k, 'w) srv_env \<Rightarrow> ('k, 's) est_server \<Rightarrow> int \<Rightarrow> bool \<Rightarrow> 'w \<Rightarrow> (wc_rc \<times> 'w) option" where
  "handler_cacerts env s fd head w =
     (case certs_only_b64 env (ca_cert_der (ws_ca s)) w of
        (Inl rc, w) \<Rightarrow> do {
          w \<leftarrow> est_server_error env s fd head (lit ''cannot build the CA certificates response'' @ [b_LF]) w;
          Some (rc, w) }
      | (Inr b64, w) \<Rightarrow> do {
          w \<leftarrow> send_response env s fd 200 (lit ''OK'') EST_PKCS7_CERTS (if head then None else Some b64) (length b64) w;
          Some (WOLFCERT_OK, w) })"

section \<open>The policy for CSR attributes\<close>

definition csr__take_tl :: "byte list \<Rightarrow> (byte \<times> nat \<times> nat) option" where
  "csr__take_tl p =
     (if length p < 2 then None
      else case (if \<not> hi_bit (p ! 1) then Some (unat (p ! 1), 2)
                 else let n = low7 (p ! 1) in
                      if n = 0 \<or> n > 4 \<or> 2 + n > length p then None else Some (be_val (take n (drop 2 p)), 2 + n)) of
             None \<Rightarrow> None
           | Some (l, h) \<Rightarrow> if l > length p - h then None else Some (p ! 0, l, h))"

lemma csr__take_tl_bounds:
  assumes "csr__take_tl p = Some (tag, l, h)"
  shows "2 \<le> h \<and> h + l \<le> length p"
  using assms by (auto simp: csr__take_tl_def Let_def split: if_splits option.splits)

text \<open>An element with an expected tag: its content and what follows it.\<close>

definition csr_take :: "byte \<Rightarrow> byte list \<Rightarrow> (byte list \<times> byte list) option" where
  "csr_take tag p =
     (case csr__take_tl p of
        None \<Rightarrow> None
      | Some (t, len, hdr) \<Rightarrow> if t \<noteq> tag then None else Some (take len (drop hdr p), drop (hdr + len) p))"

lemma csr_take_shorter: "csr_take tag p = Some (v, rest) \<Longrightarrow> length rest < length p"
  by (auto simp: csr_take_def dest!: csr__take_tl_bounds split: option.splits if_splits)

function csr_attrs_have :: "byte list \<Rightarrow> byte list \<Rightarrow> int" where
  "csr_attrs_have attrs oid =
     (if attrs = [] then 0
      else case csr_take 0x30 attrs of
             None \<Rightarrow> -1
           | Some (one, rest) \<Rightarrow>
               (case csr_take 0x06 one of
                  None \<Rightarrow> -1
                | Some (o', _) \<Rightarrow> if o' = oid then 1 else csr_attrs_have rest oid))"
  by pat_completeness auto
termination
  by (relation "measure (\<lambda>(a, _). length a)") (auto dest: csr_take_shorter)

declare csr_attrs_have.simps [simp del]

definition csr__has_attr_oid :: "byte list \<Rightarrow> byte list \<Rightarrow> int" where
  "csr__has_attr_oid csr oid =
     (case do {
        (p, _) \<leftarrow> csr_take 0x30 csr;
        (info, _) \<leftarrow> csr_take 0x30 p;
        (_, info) \<leftarrow> csr_take 0x02 info;
        (_, info) \<leftarrow> csr_take 0x30 info;
        (_, info) \<leftarrow> csr_take 0x30 info;
        Some info
      } of
        None \<Rightarrow> -1
      | Some info \<Rightarrow>
          if length info = 0 then 0
          else case csr_take 0xA0 info of None \<Rightarrow> 0 | Some (attrs, _) \<Rightarrow> csr_attrs_have attrs oid)"

text \<open>The first item of the policy that the request does not have.\<close>

fun missing_attr :: "byte list \<Rightarrow> WolfCertCsrAttrItem list \<Rightarrow> byte list option" where
  "missing_attr csr [] = None"
| "missing_attr csr (it # its) =
     (if it_kind it \<noteq> WOLFCERT_CSRATTR_BARE_OID then missing_attr csr its
      else if csr__has_attr_oid csr (it_oid it) \<noteq> 1 then Some (it_oid it)
      else missing_attr csr its)"

text \<open>The second result is the captured OID, empty when there is none; \<open>cap\<close> is the room for it.\<close>

definition csr_attrs_enforce ::
  "('k, 'w) srv_env \<Rightarrow> ('k, 's) est_server \<Rightarrow> byte list \<Rightarrow> nat \<Rightarrow> 'w \<Rightarrow> (wc_rc \<times> byte list) \<times> 'w" where
  "csr_attrs_enforce env s csr cap w =
     (let attrs = (case ws_cfg_csr_attrs s of None \<Rightarrow> [] | Some a \<Rightarrow> a) in
      if \<not> cf_est_require_csr_attributes (ws_cfg s) \<or> attrs = [] then ((WOLFCERT_OK, []), w)
      else case vs_alloc env w of (mem, w) \<Rightarrow>
      (case wolfcert_est_parse_csr_attrs mem attrs of
         Inl rc \<Rightarrow> ((rc, []), w)
       | Inr policy \<Rightarrow>
           (case missing_attr csr (ca_items policy) of
              None \<Rightarrow> ((WOLFCERT_OK, []), w)
            | Some oid \<Rightarrow> ((WOLFCERT_ERR_PROTOCOL, if length oid > 0 \<and> length oid \<le> cap then oid else []), w))))"

definition send_missing_oid :: "('k, 'w) srv_env \<Rightarrow> ('k, 's) est_server \<Rightarrow> int \<Rightarrow> byte list \<Rightarrow> 'w \<Rightarrow> 'w option" where
  "send_missing_oid env s fd oid w =
     (let txt = snd (wolfcert_oid_to_dotted oid 128);
          body = take 191 (lit ''CSR missing required attribute OID '' @ txt @ [b_LF]) in
      send_error env s fd 400 (lit ''Bad Request'') body w)"

section \<open>Renewal\<close>

definition has_client_ca :: "('k, 's, 'p) WolfCertServer \<Rightarrow> bool" where
  "has_client_ca s \<longleftrightarrow> (case cf_tls_client_ca_pem (ws_cfg s) of None \<Rightarrow> False | Some pem \<Rightarrow> length pem > 0)"

definition raw_subject :: "DecodedReq \<Rightarrow> byte list" where
  "raw_subject dq = (case dc_subjectRaw (dq_cert dq) of None \<Rightarrow> [] | Some s \<Rightarrow> s)"

text \<open>The comparison of the identities; the two \<open>subjectAltName\<close>s are what \<open>wolfcert_find_san\<close> found.\<close>

definition same_identity :: "DecodedReq \<Rightarrow> byte list option \<Rightarrow> DecodedReq \<Rightarrow> byte list option \<Rightarrow> bool" where
  "same_identity pc psan cc csan \<longleftrightarrow>
     raw_subject pc = raw_subject cc \<and> dq_extSubjAltNameCrit pc = dq_extSubjAltNameCrit cc \<and> psan = csan"

text \<open>The DER of the peer's certificate, when the connection has one that can be read.\<close>

definition peer_der :: "('k, 'w) est_srv_env \<Rightarrow> ('k, 's) est_server \<Rightarrow> 'w \<Rightarrow> byte list option" where
  "peer_der env s w =
     (if \<not> ws_tls_current s then None
      else case ve_peer_certificate env w of
             Some (Some der) \<Rightarrow> if length der = 0 then None else Some der
           | _ \<Rightarrow> None)"

definition reenroll_identity_check ::
  "('k, 'w) est_srv_env \<Rightarrow> ('k, 's) est_server \<Rightarrow> byte list \<Rightarrow> 'w \<Rightarrow> wc_rc \<times> 'w" where
  "reenroll_identity_check env s csr w =
     (let v = ve_srv env; lib = vs_cert v; mem_e = MEMORY_E (vs_codes v) in
      if ve_KEEP_PEER_CERT env
      then (case peer_der env s w of
              None \<Rightarrow> (if ws_tls_current s \<and> has_client_ca s then WOLFCERT_ERR_TLS else WOLFCERT_ERR_AUTH, w)
            | Some der \<Rightarrow>
                (case ct_ParseCert lib der w of ((wrc, pc), w) \<Rightarrow>
                 if wrc \<noteq> 0 then (if wrc = mem_e then WOLFCERT_ERR_MEMORY else WOLFCERT_ERR_CRYPTO, w)
                 else case ct_ParseCertReq lib True csr w of ((wrc, cc), w) \<Rightarrow>
                 if wrc \<noteq> 0 then (if wrc = mem_e then wolfcert_map_wc_err (vs_codes v) wrc else WOLFCERT_ERR_PARSE, w)
                 else (case (wolfcert_find_san lib pc, wolfcert_find_san lib cc) of
                         (Inr psan, Inr csan) \<Rightarrow> if same_identity pc psan cc csan then WOLFCERT_OK else WOLFCERT_ERR_PROTOCOL
                       | _ \<Rightarrow> WOLFCERT_ERR_PARSE, w)))
      else (if \<not> ws_tls_current s \<or> \<not> has_client_ca s then WOLFCERT_ERR_AUTH else WOLFCERT_ERR_UNSUPPORTED, w))"

section \<open>Enrolment\<close>

text \<open>A refusal: the response of an error, and the code that the handler returns.\<close>

definition est_refuse ::
  "('k, 'w) srv_env \<Rightarrow> ('k, 's) est_server \<Rightarrow> int \<Rightarrow> nat \<Rightarrow> string \<Rightarrow> string \<Rightarrow> wc_rc \<Rightarrow> 'w \<Rightarrow> ((wc_rc \<times> ('k, 's) est_server) \<times> 'w) option" where
  "est_refuse env s fd status phrase why rc w =
     do { w \<leftarrow> send_error env s fd status (lit phrase) (lit why @ [b_LF]) w; Some ((rc, s), w) }"

text \<open>The end of \<open>handler_enroll\<close>, from the call of the CA on.\<close>

definition est_issue ::
  "('k, 'w) srv_env \<Rightarrow> ('k, 's) est_server \<Rightarrow> int \<Rightarrow> byte list \<Rightarrow> 'w \<Rightarrow> ((wc_rc \<times> ('k, 's) est_server) \<times> 'w) option" where
  "est_issue env s fd csr w =
     (case wolfcert_ca_issue (vs_build env) (vs_keys env) (vs_cert env) (ws_ca s) csr w of
        (Inl rc, w) \<Rightarrow> est_refuse env s fd 400 ''Bad CSR'' ''CSR rejected by the CA'' rc w
      | (Inr issued, w) \<Rightarrow>
          (case certs_only_b64 env issued w of
             (Inl rc, w) \<Rightarrow> est_refuse env s fd 500 ''Server Error'' ''cannot build the certificate response'' rc w
           | (Inr b64, w) \<Rightarrow> do {
               w \<leftarrow> send_response env s fd 200 (lit ''OK'') EST_PKCS7_CERTS (Some b64) (length b64) w;
               Some ((WOLFCERT_OK, s), w) }))"

text \<open>Manual approval parks a new request and issues on its second arrival.\<close>

definition est_approve ::
  "('k, 'w) est_srv_env \<Rightarrow> ('k, 's) est_server \<Rightarrow> int \<Rightarrow> bool \<Rightarrow> byte list \<Rightarrow> 'w \<Rightarrow> ((wc_rc \<times> ('k, 's) est_server) \<times> 'w) option" where
  "est_approve env s fd reenroll csr w =
     (let v = ve_srv env in
      case (if cf_est_require_approval (ws_cfg s) then ws_priv s else None) of
        None \<Rightarrow> est_issue v s fd csr w
      | Some p \<Rightarrow>
          (case (if reenroll then (WOLFCERT_OK, w) else wolfcert_csr_verify (vs_keys v) (vs_cert v) csr w) of (rc, w) \<Rightarrow>
           if rc = WOLFCERT_ERR_MEMORY then est_refuse v s fd 500 ''Server Error'' ''cannot check the CSR'' rc w
           else if rc \<noteq> WOLFCERT_OK then est_refuse v s fd 400 ''Bad CSR'' ''CSR rejected by the CA'' rc w
           else let h = sha256_bytes env csr; idx = pending_find p h in
           if idx < 0
           then (case pending_add p h of (added, p) \<Rightarrow>
                 if \<not> added
                 then est_refuse v s fd 503 ''Service Unavailable'' ''pending enrollment queue is full'' WOLFCERT_ERR_PROTOCOL w
                 else let s = s\<lparr>ws_priv := Some p\<rparr> in
                 do { w \<leftarrow> send_accepted_retry_after v s fd (cf_est_retry_after_sec (ws_cfg s)) w; Some ((WOLFCERT_OK, s), w) })
           else est_issue v (s\<lparr>ws_priv := Some (pending_remove p idx)\<rparr>) fd csr w))"

definition est_policy ::
  "('k, 'w) est_srv_env \<Rightarrow> ('k, 's) est_server \<Rightarrow> int \<Rightarrow> bool \<Rightarrow> byte list \<Rightarrow> 'w \<Rightarrow> ((wc_rc \<times> ('k, 's) est_server) \<times> 'w) option" where
  "est_policy env s fd reenroll csr w =
     (if cf_est_require_csr_attributes (ws_cfg s)
      then (case csr_attrs_enforce (ve_srv env) s csr 64 w of ((erc, oid), w) \<Rightarrow>
            if erc = WOLFCERT_OK then est_approve env s fd reenroll csr w
            else if erc = WOLFCERT_ERR_PROTOCOL \<and> length oid > 0
            then do { w \<leftarrow> send_missing_oid (ve_srv env) s fd oid w; Some ((erc, s), w) }
            else est_refuse (ve_srv env) s fd 400 ''Bad Request'' ''CSR does not satisfy the CSR attributes policy'' erc w)
      else est_approve env s fd reenroll csr w)"

definition est_renewal ::
  "('k, 'w) est_srv_env \<Rightarrow> ('k, 's) est_server \<Rightarrow> int \<Rightarrow> bool \<Rightarrow> byte list \<Rightarrow> 'w \<Rightarrow> ((wc_rc \<times> ('k, 's) est_server) \<times> 'w) option" where
  "est_renewal env s fd reenroll csr w =
     (if \<not> reenroll then est_policy env s fd reenroll csr w
      else case reenroll_identity_check env s csr w of (rc, w) \<Rightarrow>
      if rc = WOLFCERT_OK then est_policy env s fd reenroll csr w
      else if rc = WOLFCERT_ERR_AUTH then est_refuse (ve_srv env) s fd 403 ''Forbidden'' ''no client certificate to renew'' rc w
      else if rc = WOLFCERT_ERR_PARSE
      then est_refuse (ve_srv env) s fd 400 ''Bad Request'' ''CSR is not a valid PKCS#10 request'' rc w
      else if rc = WOLFCERT_ERR_PROTOCOL
      then est_refuse (ve_srv env) s fd 400 ''Bad Request'' ''CSR does not match the certificate being renewed'' rc w
      else est_refuse (ve_srv env) s fd 500 ''Server Error'' ''cannot check the certificate being renewed'' rc w)"

definition handler_enroll ::
  "('k, 'w) est_srv_env \<Rightarrow> ('k, 's) est_server \<Rightarrow> int \<Rightarrow> EstRequest \<Rightarrow> bool \<Rightarrow> 'w \<Rightarrow> ((wc_rc \<times> ('k, 's) est_server) \<times> 'w) option" where
  "handler_enroll env s fd req reenroll w =
     do {
       (pha, w) \<leftarrow> ensure_post_handshake_auth env s w;
       (let v = ve_srv env in
        if pha \<noteq> WOLFCERT_OK then est_refuse v s fd 403 ''Forbidden'' ''client certificate authentication failed'' pha w
        else if ws_cfg_basic_user s = None \<and> \<not> cf_est_allow_anonymous_enroll (ws_cfg s) \<and> \<not> ws_tls_current s
        then est_refuse v s fd 403 ''Forbidden'' ''client authentication required'' WOLFCERT_ERR_AUTH w
        else case (case eq_body req of None \<Rightarrow> [] | Some b \<Rightarrow> b) of
               [] \<Rightarrow> est_refuse v s fd 400 ''Bad Request'' ''request body is empty'' WOLFCERT_ERR_HTTP w
             | b # bs \<Rightarrow>
                 (case vs_alloc v w of (mem, w) \<Rightarrow>
                  (case wolfcert_base64_decode (vs_codes v) (vs_b64_dec v) mem (Some (b # bs)) of
                     Inl rc \<Rightarrow> est_refuse v s fd 400 ''Bad Request'' ''CSR is not valid base64'' rc w
                   | Inr csr \<Rightarrow> est_renewal env s fd reenroll csr w)))
     }"

section \<open>Dispatch\<close>

definition EST_WELL_KNOWN :: cstring where
  "EST_WELL_KNOWN = lit ''/.well-known/est/''"

definition est_suffix :: "cstring \<Rightarrow> cstring" where
  "est_suffix path =
     (case strstr path EST_WELL_KNOWN of
        Some k \<Rightarrow> drop (k + length EST_WELL_KNOWN) path
      | None \<Rightarrow> rev (takeWhile (\<lambda>c. c \<noteq> b_slash) (rev path)))"

text \<open>The body of \<open>handle_request\<close> once the request is read.\<close>

definition est_dispatch ::
  "('k, 'w) est_srv_env \<Rightarrow> ('k, 's) est_server \<Rightarrow> int \<Rightarrow> EstRequest \<Rightarrow> 'w \<Rightarrow> ((wc_rc \<times> ('k, 's) est_server) \<times> 'w) option" where
  "est_dispatch env s fd req w =
     (let v = ve_srv env; suffix = est_suffix (eq_path req);
          head = (eq_method req = lit ''HEAD''); get = (head \<or> eq_method req = lit ''GET'') in
      if get \<and> suffix = lit ''cacerts''
      then do { (rc, w) \<leftarrow> handler_cacerts v s fd head w; Some ((rc, s), w) }
      else if get \<and> suffix = lit ''csrattrs''
      then do { (rc, w) \<leftarrow> handler_csr_attrs v s fd head w; Some ((rc, s), w) }
      else if eq_method req = lit ''POST'' \<and> (suffix = lit ''simpleenroll'' \<or> suffix = lit ''simplereenroll'')
      then (case check_basic_auth v s (eq_auth_header req) w of (ok, w) \<Rightarrow>
            if \<not> ok
            then let why = lit ''HTTP Basic authentication failed'' @ [b_LF] in
                 do { w \<leftarrow> send_response v s fd 401 (lit ''Unauthorized'')
                            (lit ''WWW-Authenticate: Basic realm=\"estrealm\"'' @ CRLF @ EST_TEXT_PLAIN) (Some why) (length why) w;
                      Some ((WOLFCERT_ERR_AUTH, s), w) }
            else handler_enroll env s fd req (suffix = lit ''simplereenroll'') w)
      else let unknown_op = lit ''unknown EST operation'' @ [b_LF] in
           if head
           then do { w \<leftarrow> send_response v s fd 404 (lit ''Not Found'') EST_TEXT_PLAIN None (length unknown_op) w;
                     Some ((WOLFCERT_ERR_NOT_FOUND, s), w) }
           else do { w \<leftarrow> send_error v s fd 404 (lit ''Not Found'') unknown_op w; Some ((WOLFCERT_ERR_NOT_FOUND, s), w) })"

definition handle_request ::
  "('k, 'w) est_srv_env \<Rightarrow> ('k, 's) est_server \<Rightarrow> int \<Rightarrow> 'w \<Rightarrow> ((wc_rc \<times> ('k, 's) est_server) \<times> 'w) option" where
  "handle_request env s fd w =
     do {
       (r, w) \<leftarrow> parse_request (ve_srv env) s fd w;
       (case r of
          Inl rc \<Rightarrow>
            let s = s\<lparr>ws_keep_alive := False\<rparr> in est_refuse (ve_srv env) s fd 400 ''Bad Request'' ''malformed HTTP request'' rc w
        | Inr req \<Rightarrow> est_dispatch env (if eq_connection_close req then s\<lparr>ws_keep_alive := False\<rparr> else s) fd req w)
     }"

definition est_start :: "('k, 'w) srv_env \<Rightarrow> 's WolfCertServerCfgSrv \<Rightarrow> ('k, 's) est_server \<Rightarrow> 'w \<Rightarrow> (wc_rc \<times> ('k, 's) est_server) \<times> 'w" where
  "est_start env cfg base w =
     (if cf_est_require_approval cfg
      then (case vs_alloc env w of (mem, w) \<Rightarrow>
            if \<not> mem 0 then ((WOLFCERT_ERR_MEMORY, base), w) else ((WOLFCERT_OK, base\<lparr>ws_priv := Some []\<rparr>), w))
      else ((WOLFCERT_OK, base), w))"

definition est_serve_fd ::
  "('k, 'w) est_srv_env \<Rightarrow> ('k, 's) est_server \<Rightarrow> int \<Rightarrow> 'w \<Rightarrow> ((wc_rc \<times> ('k, 's) est_server) \<times> 'w) option" where
  "est_serve_fd env srv fd w = handle_request env srv fd w"

definition est_free_priv :: "('k, 's) est_server \<Rightarrow> ('k, 's) est_server" where
  "est_free_priv srv = srv\<lparr>ws_priv := None\<rparr>"

end
