(* ===== verification/Scep_Server.thy ===== *)
theory Scep_Server
  imports Server_Http Csr
begin

text \<open>
  The SCEP test server, \<open>src/scep/scep_server.c\<close>: the request reader, the CA distribution operations, the
  queue of requests that wait for approval, the registry of issued certificates, and the handlers of
  the PKI messages. The fault injection of the test builds is not part of the model.
\<close>

section \<open>State and environment\<close>

record ScepRequest =
  rq_method :: cstring
  rq_path :: cstring
  rq_query :: cstring
  rq_content_length :: nat
  rq_body :: "byte list option"
  rq_connection_close :: bool

record ScepPending =
  pe_transaction_id :: "byte list"
  pe_csr_der :: "byte list"
  pe_signer_cert_der :: "byte list"
  pe_polls :: int

text \<open>
  The two tables are \<open>None\<close> until they are allocated, then the list of their used entries. The registry
  holds the DER of the certificates; an RA or a next CA is there when its field is \<open>Some\<close>.
\<close>

record 'k ScepPriv =
  pv_items :: "ScepPending list option"
  pv_issued :: "byte list list option"
  pv_next_ca :: "'k WolfCertCa option"
  pv_ra :: "'k WolfCertCa option"
  pv_ca_ra_bundle :: "byte list option"

type_synonym ('k, 's) scep_server = "('k, 's, 'k ScepPriv) WolfCertServer"

text \<open>
  The certificate manager of wolfSSL, with the CA that was loaded into it, the generator of the nonce and
  the library for requests; \<open>vc_SIGNED_ATTRIBS9\<close> is false for a build without \<open>malloc\<close> that has room for
  fewer than nine signed attributes.
\<close>

record ('k, 'w) scep_srv_env =
  vc_srv :: "('k, 'w) srv_env"
  vc_csr :: "('k, 'w) csr_lib"
  vc_CertManagerNew :: "'w \<Rightarrow> bool \<times> 'w"
  vc_CertManagerLoadCABuffer :: "byte list \<Rightarrow> 'w \<Rightarrow> int \<times> 'w"
  vc_CertManagerVerifyBuffer :: "byte list \<Rightarrow> byte list \<Rightarrow> 'w \<Rightarrow> int \<times> 'w"
  vc_CertManagerFree :: "'w \<Rightarrow> 'w"
  vc_RNG_GenerateBlock :: "nat \<Rightarrow> 'w \<Rightarrow> (int \<times> byte list) \<times> 'w"
  vc_SIGNED_ATTRIBS9 :: bool

abbreviation vc_cms :: "('k, 'w) scep_srv_env \<Rightarrow> 'w wolf_cms" where
  "vc_cms env \<equiv> vs_cms (vc_srv env)"

text \<open>The state of the protocol, which \<open>scep_start\<close> has set before a request is served.\<close>

abbreviation scep_priv :: "('k, 's) scep_server \<Rightarrow> 'k ScepPriv" where
  "scep_priv s \<equiv> the (ws_priv s)"

section \<open>Reading a request\<close>

definition WOLFCERT_HTTP_QUERY_SZ :: nat where
  "WOLFCERT_HTTP_QUERY_SZ = 8192"

function scep_headers :: "WolfCertReqFraming \<Rightarrow> byte list \<Rightarrow> (WolfCertReqFraming \<times> byte list) wc_result" where
  "scep_headers fr p =
     (case read_line p of
        None \<Rightarrow> Ok (fr, p)
      | Some (line, rest) \<Rightarrow>
          if line = [] then Ok (fr, rest)
          else case wolfcert_http_hdr_split line of (rc, v0) \<Rightarrow>
          if rc \<noteq> 0 then Err WOLFCERT_ERR_PROTOCOL
          else case wolfcert_server_framing_hdr fr line (case v0 of None \<Rightarrow> [] | Some v \<Rightarrow> v) of
                 Inl _ \<Rightarrow> Err WOLFCERT_ERR_PROTOCOL
               | Inr (_, fr) \<Rightarrow> scep_headers fr rest)"
  by pat_completeness auto
termination
  by (relation "measure (\<lambda>(_, p). length p)") (auto dest: read_line_shorter)

declare scep_headers.simps [simp del]

text \<open>The path and the query of the request target, which ends at a zero byte.\<close>

definition split_target :: "byte list \<Rightarrow> cstring \<times> cstring" where
  "split_target target =
     (let t = cstr target in
      case strchr t b_quest of None \<Rightarrow> (t, []) | Some k \<Rightarrow> (take k t, drop (k + 1) t))"

definition read_request ::
  "('k, 'w) srv_env \<Rightarrow> ('k, 's) scep_server \<Rightarrow> int \<Rightarrow> 'w \<Rightarrow> (ScepRequest wc_result \<times> 'w) option" where
  "read_request env s fd w =
     (case vs_alloc env w of (mem, w) \<Rightarrow>
      if \<not> mem 0 then Some (Err WOLFCERT_ERR_MEMORY, w)
      else do {
        (r, w) \<leftarrow> read_head env s fd (WOLFCERT_HTTP_REQ_BUF_SZ + WOLFCERT_HTTP_QUERY_SZ) [] w;
        (case r of
           Inl rc \<Rightarrow> Some (Err rc, w)
         | Inr buf \<Rightarrow>
        (case read_line buf of
           None \<Rightarrow> Some (Err WOLFCERT_ERR_PROTOCOL, w)
         | Some (line, p) \<Rightarrow>
        (case request_line line of
           Inl rc \<Rightarrow> Some (Err rc, w)
         | Inr (method, target, ver) \<Rightarrow>
        (case scep_headers (wolfcert_server_framing_init ver) p of
           Inl rc \<Rightarrow> Some (Err rc, w)
         | Inr (fr, p) \<Rightarrow>
             do {
               (r, w) \<leftarrow> request_body env s fd fr p w;
               Some (case r of
                       Inl rc \<Rightarrow> Err rc
                     | Inr body \<Rightarrow> Ok \<lparr>rq_method = cstr method, rq_path = fst (split_target target),
                         rq_query = snd (split_target target), rq_content_length = rf_content_length fr, rq_body = body,
                         rq_connection_close = wolfcert_server_framing_close fr\<rparr>, w)
             }))))
      })"

section \<open>Responses\<close>

text \<open>The head always fits the buffer of 256 bytes: phrase and content type are literals of the server.\<close>

definition scep_response_head :: "('k, 's) scep_server \<Rightarrow> nat \<Rightarrow> cstring \<Rightarrow> cstring \<Rightarrow> nat \<Rightarrow> cstring" where
  "scep_response_head s status phrase content_type bl =
     lit ''HTTP/1.1 '' @ nat_text status @ lit '' '' @ phrase @ CRLF @ lit ''Content-Type: '' @ content_type @ CRLF @
     lit ''Content-Length: '' @ nat_text bl @ CRLF @ lit ''Connection: '' @ conn_hdr s @ CRLF @ CRLF"

definition send_text ::
  "('k, 'w) srv_env \<Rightarrow> ('k, 's) scep_server \<Rightarrow> int \<Rightarrow> nat \<Rightarrow> string \<Rightarrow> string \<Rightarrow> cstring \<Rightarrow> 'w \<Rightarrow> 'w option" where
  "send_text env s fd status phrase content_type body w =
     do {
       w \<leftarrow> send_all env s fd (scep_response_head s status (lit phrase) (lit content_type) (length body)) w;
       if length body > 0 then send_all env s fd body w else Some w
     }"

definition send_bin ::
  "('k, 'w) srv_env \<Rightarrow> ('k, 's) scep_server \<Rightarrow> int \<Rightarrow> string \<Rightarrow> byte list \<Rightarrow> 'w \<Rightarrow> 'w option" where
  "send_bin env s fd content_type body w =
     do {
       w \<leftarrow> send_all env s fd (scep_response_head s 200 (lit ''OK'') (lit content_type) (length body)) w;
       send_all env s fd body w
     }"

text \<open>The result of a handler: the code, the server and the world.\<close>

type_synonym ('k, 's, 'w) scep_step = "((wc_rc \<times> ('k, 's) scep_server) \<times> 'w) option"

text \<open>A text response without a body, and the code that the handler returns.\<close>

definition scep_plain ::
  "('k, 'w) srv_env \<Rightarrow> ('k, 's) scep_server \<Rightarrow> int \<Rightarrow> nat \<Rightarrow> string \<Rightarrow> wc_rc \<Rightarrow> 'w \<Rightarrow> ('k, 's, 'w) scep_step" where
  "scep_plain env s fd status phrase rc w = do { w \<leftarrow> send_text env s fd status phrase ''text/plain'' [] w; Some ((rc, s), w) }"

abbreviation server_error ::
  "('k, 'w) srv_env \<Rightarrow> ('k, 's) scep_server \<Rightarrow> int \<Rightarrow> wc_rc \<Rightarrow> 'w \<Rightarrow> ('k, 's, 'w) scep_step" where
  "server_error env s fd rc w \<equiv> scep_plain env s fd 500 ''Server Error'' rc w"

section \<open>The operations that distribute the CA\<close>

definition handle_get_ca_caps :: "('k, 'w) srv_env \<Rightarrow> ('k, 's) scep_server \<Rightarrow> int \<Rightarrow> 'w \<Rightarrow> 'w option" where
  "handle_get_ca_caps env s fd w =
     (let caps = lit ''POSTPKIOperation'' @ CRLF @ lit ''SHA-256'' @ CRLF @ lit ''AES'' @ CRLF @ lit ''Renewal'' @ CRLF @
                 lit ''SCEPStandard'' @ CRLF in
      send_text env s fd 200 ''OK'' ''text/plain''
        (if cf_scep_enable_next_ca (ws_cfg s) then caps @ lit ''GetNextCACert'' @ CRLF else caps) w)"

definition handle_get_ca_cert :: "('k, 'w) srv_env \<Rightarrow> ('k, 's) scep_server \<Rightarrow> int \<Rightarrow> 'w \<Rightarrow> 'w option" where
  "handle_get_ca_cert env s fd w =
     (case pv_ca_ra_bundle (scep_priv s) of
        Some bundle \<Rightarrow> send_bin env s fd ''application/x-x509-ca-ra-cert'' bundle w
      | None \<Rightarrow> send_bin env s fd ''application/x-x509-ca-cert'' (ca_cert_der (ws_ca s)) w)"

text \<open>The certificate and key that decrypt requests and sign responses.\<close>

definition rep_identity :: "('k, 's) scep_server \<Rightarrow> byte list \<times> byte list" where
  "rep_identity s =
     (let id = (case pv_ra (scep_priv s) of Some ra \<Rightarrow> ra | None \<Rightarrow> ws_ca s) in (ca_cert_der id, ca_key_der id))"

text \<open>The next CA, generated at its first use.\<close>

definition next_ca_ready ::
  "('k, 'w) srv_env \<Rightarrow> ('k, 's) scep_server \<Rightarrow> 'w \<Rightarrow> ('k WolfCertCa \<times> ('k, 's) scep_server) option \<times> 'w" where
  "next_ca_ready env s w =
     (case pv_next_ca (scep_priv s) of
        Some ca \<Rightarrow> (Some (ca, s), w)
      | None \<Rightarrow>
          let kt = (if cf_ca_key_type (ws_cfg s) \<noteq> 0 then cf_ca_key_type (ws_cfg s) else WOLFCERT_KEY_RSA) in
          (case wolfcert_ca_generate (vs_build env) (vs_keys env) (vs_cert env) kt (cf_ca_key_param (ws_cfg s)) w of ((rc, ca), w) \<Rightarrow>
           (if rc \<noteq> WOLFCERT_OK then None else Some (ca, s\<lparr>ws_priv := Some ((scep_priv s)\<lparr>pv_next_ca := Some ca\<rparr>)\<rparr>), w)))"

definition handle_get_next_ca_cert ::
  "('k, 'w) srv_env \<Rightarrow> ('k, 's) scep_server \<Rightarrow> int \<Rightarrow> 'w \<Rightarrow> (('k, 's) scep_server \<times> 'w) option" where
  "handle_get_next_ca_cert env s fd w =
     (if \<not> cf_scep_enable_next_ca (ws_cfg s)
      then do { w \<leftarrow> send_text env s fd 404 ''Not Found'' ''text/plain'' [] w; Some (s, w) }
      else case next_ca_ready env s w of
        (None, w) \<Rightarrow> do { w \<leftarrow> send_text env s fd 500 ''Server Error'' ''text/plain'' [] w; Some (s, w) }
      | (Some (next, s), w) \<Rightarrow>
          (case wolfcert_scep_build_next_ca_response (vs_cms env) (ca_cert_der next) (ca_cert_der (ws_ca s)) (ca_key_der (ws_ca s)) w of
             (Inl _, w) \<Rightarrow> do { w \<leftarrow> send_text env s fd 500 ''Server Error'' ''text/plain'' [] w; Some (s, w) }
           | (Inr p7, w) \<Rightarrow> do { w \<leftarrow> send_bin env s fd ''application/x-x509-next-ca-cert'' p7 w; Some (s, w) }))"

section \<open>Requests that wait for approval\<close>

definition SCEP_PENDING_MAX :: nat where
  "SCEP_PENDING_MAX = 16"

definition pv_entries :: "'k ScepPriv \<Rightarrow> ScepPending list" where
  "pv_entries p = (case pv_items p of None \<Rightarrow> [] | Some es \<Rightarrow> es)"

definition scep_pending_find :: "'k ScepPriv \<Rightarrow> byte list \<Rightarrow> nat option" where
  "scep_pending_find p tid =
     (let k = length (takeWhile (\<lambda>e. pe_transaction_id e \<noteq> tid) (pv_entries p)) in
      if k < length (pv_entries p) then Some k else None)"

text \<open>The table and the three copies are allocated in this order.\<close>

definition scep_pending_add ::
  "mem \<Rightarrow> 'k ScepPriv \<Rightarrow> byte list \<Rightarrow> byte list \<Rightarrow> byte list \<Rightarrow> wc_rc \<times> 'k ScepPriv" where
  "scep_pending_add mem p tid csr signer =
     (if length (pv_entries p) \<ge> SCEP_PENDING_MAX then (WOLFCERT_ERR_MEMORY, p)
      else if pv_items p = None \<and> \<not> mem 0 then (WOLFCERT_ERR_MEMORY, p)
      else if \<not> mem 1 \<or> \<not> mem 2 \<or> \<not> mem 3 then (WOLFCERT_ERR_MEMORY, p\<lparr>pv_items := Some (pv_entries p)\<rparr>)
      else (WOLFCERT_OK,
            p\<lparr>pv_items := Some (pv_entries p @
                [\<lparr>pe_transaction_id = tid, pe_csr_der = csr, pe_signer_cert_der = signer, pe_polls = 0\<rparr>])\<rparr>))"

definition scep_pending_remove :: "'k ScepPriv \<Rightarrow> nat \<Rightarrow> 'k ScepPriv" where
  "scep_pending_remove p idx =
     (let es = pv_entries p in
      if idx \<ge> length es then p
      else p\<lparr>pv_items := Some (butlast (if idx \<noteq> length es - 1 then es[idx := last es] else es))\<rparr>)"

section \<open>The checks of a request\<close>

definition check_challenge :: "('k, 'w) srv_env \<Rightarrow> byte list \<Rightarrow> cstring option \<Rightarrow> 'w \<Rightarrow> wc_rc \<times> 'w" where
  "check_challenge env csr expected w =
     (case expected of
        None \<Rightarrow> (WOLFCERT_OK, w)
      | Some e \<Rightarrow>
          if e = [] then (WOLFCERT_OK, w)
          else case ct_ParseCertReq (vs_cert env) False csr w of ((rc, dc), w) \<Rightarrow>
               (if rc \<noteq> 0 then WOLFCERT_ERR_AUTH
                else if dq_cPwd dc = Some e then WOLFCERT_OK
                else WOLFCERT_ERR_AUTH, w))"

definition signer_matches_key :: "'w wolf_cms \<Rightarrow> byte list \<Rightarrow> byte list \<Rightarrow> bool \<Rightarrow> 'w \<Rightarrow> wc_rc \<times> 'w" where
  "signer_matches_key cms signer der is_csr w =
     (case wolfcert_extract_spki cms signer False w of
        (Inl rc, w) \<Rightarrow> (rc, w)
      | (Inr sa, w) \<Rightarrow>
          (case wolfcert_extract_spki cms der is_csr w of
             (Inl rc, w) \<Rightarrow> (rc, w)
           | (Inr sb, w) \<Rightarrow> (if sa = sb then WOLFCERT_OK else WOLFCERT_ERR_AUTH, w)))"

definition signer_issued_by_ca ::
  "('k, 'w) scep_srv_env \<Rightarrow> ('k, 's) scep_server \<Rightarrow> byte list option \<Rightarrow> 'w \<Rightarrow> wc_rc \<times> 'w" where
  "signer_issued_by_ca env s signer w =
     (case signer of
        None \<Rightarrow> (WOLFCERT_ERR_AUTH, w)
      | Some der \<Rightarrow>
          (case vc_CertManagerNew env w of (got, w) \<Rightarrow>
           if \<not> got then (WOLFCERT_ERR_MEMORY, w)
           else case vc_CertManagerLoadCABuffer env (ca_cert_der (ws_ca s)) w of (wrc, w) \<Rightarrow>
           if wrc \<noteq> 1 then (WOLFCERT_ERR_CRYPTO, vc_CertManagerFree env w)
           else case vc_CertManagerVerifyBuffer env (ca_cert_der (ws_ca s)) der w of (wrc, w) \<Rightarrow>
           (if wrc = 1 then WOLFCERT_OK else if wrc = MEMORY_E (vs_codes (vc_srv env)) then WOLFCERT_ERR_MEMORY else WOLFCERT_ERR_AUTH,
            vc_CertManagerFree env w)))"

section \<open>The response to a PKI message\<close>

text \<open>Only the status \<open>0\<close> has an envelope, with the certificate, encrypted to \<open>env_target\<close>.\<close>

definition cert_rep_envelope ::
  "'w wolf_cms \<Rightarrow> byte list \<Rightarrow> byte list \<Rightarrow> string \<Rightarrow> 'w \<Rightarrow> byte list wc_result \<times> 'w" where
  "cert_rep_envelope cms issued env_target pki_status w =
     (if pki_status \<noteq> ''0'' then (Ok [], w)
      else case wolfcert_pkcs7_build_certs_only cms [issued] w of
             (Inl rc, w) \<Rightarrow> (Err rc, w)
           | (Inr p7, w) \<Rightarrow> wolfcert_scep_envelop cms env_target p7 AES128CBCb w)"

definition cert_rep_attrs :: "bool \<Rightarrow> byte list \<Rightarrow> byte list \<Rightarrow> byte list \<Rightarrow> string \<Rightarrow> string option \<Rightarrow> WolfCertScepAttrs" where
  "cert_rep_attrs nine tid my_nonce snonce pki_status fail_info =
     \<lparr>sa_transaction_id = Some tid, sa_sender_nonce = Some my_nonce, sa_message_type = Some (lit ''3''),
      sa_pki_status = Some (lit pki_status), sa_recipient_nonce = (if nine then Some snonce else None),
      sa_fail_info = (if nine then map_option lit fail_info else None)\<rparr>"

definition send_cert_rep ::
  "('k, 'w) scep_srv_env \<Rightarrow> ('k, 's) scep_server \<Rightarrow> int \<Rightarrow> byte list \<Rightarrow> byte list \<Rightarrow> byte list \<Rightarrow> byte list \<Rightarrow> string \<Rightarrow> string option \<Rightarrow>
   'w \<Rightarrow> ('k, 's, 'w) scep_step" where
  "send_cert_rep env s fd issued env_target tid snonce pki_status fail_info w =
     (let v = vc_srv env; cms = vc_cms env in
      case cert_rep_envelope cms issued env_target pki_status w of
        (Inl rc, w) \<Rightarrow> server_error v s fd rc w
      | (Inr resp_env, w) \<Rightarrow>
          (case cm_InitRng cms w of (rc, w) \<Rightarrow>
           if rc \<noteq> 0 then server_error v s fd WOLFCERT_ERR_CRYPTO w
           else case vc_RNG_GenerateBlock env 16 w of ((nonce_rc, my_nonce), w) \<Rightarrow>
           let w = cm_FreeRng cms w in
           if nonce_rc \<noteq> 0 then server_error v s fd WOLFCERT_ERR_CRYPTO w
           else case rep_identity s of (sign_cert, sign_key) \<Rightarrow>
           (case wolfcert_scep_build_pki_message cms resp_env sign_cert sign_key (Some SHA256h)
                   (cert_rep_attrs (vc_SIGNED_ATTRIBS9 env) tid (take 16 my_nonce) snonce pki_status fail_info) w of
              (Inl rc, w) \<Rightarrow> server_error v s fd rc w
            | (Inr pki_out, w) \<Rightarrow> do { w \<leftarrow> send_bin v s fd ''application/x-pki-message'' pki_out w; Some ((WOLFCERT_OK, s), w) })))"

definition send_pki_failure ::
  "('k, 'w) scep_srv_env \<Rightarrow> ('k, 's) scep_server \<Rightarrow> int \<Rightarrow> byte list \<Rightarrow> byte list \<Rightarrow> string \<Rightarrow> 'w \<Rightarrow> ('k, 's, 'w) scep_step" where
  "send_pki_failure env s fd tid snonce fail_info w = send_cert_rep env s fd [] [] tid snonce ''2'' (Some fail_info) w"

text \<open>The failure that also ends the connection.\<close>

abbreviation close_failure ::
  "('k, 'w) scep_srv_env \<Rightarrow> ('k, 's) scep_server \<Rightarrow> int \<Rightarrow> byte list \<Rightarrow> byte list \<Rightarrow> string \<Rightarrow> 'w \<Rightarrow> ('k, 's, 'w) scep_step" where
  "close_failure env s fd tid snonce fail_info w \<equiv> send_pki_failure env (s\<lparr>ws_keep_alive := False\<rparr>) fd tid snonce fail_info w"

text \<open>The failure whose own outcome is only logged: the handler returns \<open>rc\<close>.\<close>

definition failure_with ::
  "('k, 'w) scep_srv_env \<Rightarrow> ('k, 's) scep_server \<Rightarrow> int \<Rightarrow> byte list \<Rightarrow> byte list \<Rightarrow> string \<Rightarrow> wc_rc \<Rightarrow> 'w \<Rightarrow> ('k, 's, 'w) scep_step" where
  "failure_with env s fd tid snonce fail_info rc w =
     do { ((_, s), w) \<leftarrow> close_failure env s fd tid snonce fail_info w; Some ((rc, s), w) }"

section \<open>The registry of issued certificates\<close>

definition SCEP_ISSUED_MAX :: nat where
  "SCEP_ISSUED_MAX = 16"

definition pv_certs :: "'k ScepPriv \<Rightarrow> byte list list" where
  "pv_certs p = (case pv_issued p of None \<Rightarrow> [] | Some cs \<Rightarrow> cs)"

definition issued_record :: "mem \<Rightarrow> 'k ScepPriv \<Rightarrow> byte list \<Rightarrow> wc_rc \<times> 'k ScepPriv" where
  "issued_record mem p cert =
     (if pv_issued p = None \<and> \<not> mem 0 then (WOLFCERT_ERR_MEMORY, p)
      else if \<not> mem 1 then (WOLFCERT_ERR_MEMORY, p\<lparr>pv_issued := Some (pv_certs p)\<rparr>)
      else let cs = (if length (pv_certs p) = SCEP_ISSUED_MAX then drop 1 (pv_certs p) else pv_certs p) in
           (WOLFCERT_OK, p\<lparr>pv_issued := Some (cs @ [cert])\<rparr>))"

fun issued_find :: "'w wolf_cms \<Rightarrow> byte list list \<Rightarrow> byte list \<Rightarrow> 'w \<Rightarrow> byte list option \<times> 'w" where
  "issued_find cms [] serial w = (None, w)"
| "issued_find cms (c # cs) serial w =
     (case cm_ParseCert cms c w of ((rc, dc), w) \<Rightarrow>
      if rc \<noteq> 0 then issued_find cms cs serial w
      else if length (dc_serial dc) > 0 \<and> dc_serial dc = serial then (Some c, w)
      else issued_find cms cs serial w)"

section \<open>Issuing\<close>

text \<open>The first result says whether the CA has issued.\<close>

definition issue_and_reply ::
  "('k, 'w) scep_srv_env \<Rightarrow> ('k, 's) scep_server \<Rightarrow> int \<Rightarrow> byte list \<Rightarrow> byte list \<Rightarrow> byte list \<Rightarrow> byte list \<Rightarrow> 'w \<Rightarrow>
   (bool \<times> (wc_rc \<times> ('k, 's) scep_server) \<times> 'w) option" where
  "issue_and_reply env s fd csr env_target tid snonce w =
     (let v = vc_srv env in
      case wolfcert_ca_issue (vs_build v) (vs_keys v) (vs_cert v) (ws_ca s) csr w of
        (Inl rc, w) \<Rightarrow>
          if rc = WOLFCERT_ERR_MEMORY then map_option (Pair False) (server_error v s fd rc w)
          else map_option (Pair False) (failure_with env s fd tid snonce ''2'' rc w)
      | (Inr issued, w) \<Rightarrow>
          (case (if cf_scep_enable_get_cert (ws_cfg s)
                 then (case vs_alloc v w of (mem, w) \<Rightarrow> (s\<lparr>ws_priv := Some (snd (issued_record mem (scep_priv s) issued))\<rparr>, w))
                 else (s, w)) of (s, w) \<Rightarrow>
           map_option (Pair True) (send_cert_rep env s fd issued env_target tid snonce ''0'' None w)))"

section \<open>Enrolment\<close>

text \<open>Parking a request: the answer is \<open>PENDING\<close>, also to the same request sent again by the same key.\<close>

definition park_request ::
  "('k, 'w) scep_srv_env \<Rightarrow> ('k, 's) scep_server \<Rightarrow> int \<Rightarrow> byte list \<Rightarrow> byte list option \<Rightarrow> byte list \<Rightarrow> byte list \<Rightarrow> byte list \<Rightarrow> 'w \<Rightarrow> ('k, 's, 'w) scep_step" where
  "park_request env s fd csr signer_cert env_target tid snonce w =
     (let v = vc_srv env; p = scep_priv s in
      case wolfcert_csr_verify (vs_keys v) (vs_cert v) csr w of (vrc, w) \<Rightarrow>
      if vrc = WOLFCERT_ERR_MEMORY then server_error v s fd vrc w
      else if vrc \<noteq> WOLFCERT_OK then close_failure env s fd tid snonce ''2'' w
      else case scep_pending_find p tid of
        None \<Rightarrow>
          (case vs_alloc v w of (mem, w) \<Rightarrow>
           case scep_pending_add mem p tid csr (case signer_cert of Some c \<Rightarrow> c | None \<Rightarrow> ca_cert_der (ws_ca s)) of (add, p) \<Rightarrow>
           let s = s\<lparr>ws_priv := Some p\<rparr> in
           if add \<noteq> WOLFCERT_OK then send_pki_failure env s fd tid snonce ''2'' w
           else send_cert_rep env s fd [] env_target tid snonce ''3'' None w)
      | Some i \<Rightarrow>
          let e = pv_entries p ! i in
          (case (case signer_cert of
                   None \<Rightarrow> (WOLFCERT_ERR_AUTH, w)
                 | Some c \<Rightarrow> signer_matches_key (vc_cms env) c (pe_signer_cert_der e) False w) of (krc, w) \<Rightarrow>
           let krc = (if krc = WOLFCERT_OK \<and> csr \<noteq> pe_csr_der e then WOLFCERT_ERR_AUTH else krc) in
           if krc = WOLFCERT_ERR_MEMORY then server_error v s fd krc w
           else if krc \<noteq> WOLFCERT_OK then close_failure env s fd tid snonce ''2'' w
           else send_cert_rep env s fd [] env_target tid snonce ''3'' None w))"

text \<open>The check of the signer of an enrolment.\<close>

definition enroll_signer_check ::
  "('k, 'w) scep_srv_env \<Rightarrow> ('k, 's) scep_server \<Rightarrow> cstring \<Rightarrow> byte list \<Rightarrow> byte list option \<Rightarrow> 'w \<Rightarrow> wc_rc \<times> 'w" where
  "enroll_signer_check env s mt csr signer_cert w =
     (if mt = lit ''17'' then signer_issued_by_ca env s signer_cert w
      else case signer_cert of None \<Rightarrow> (WOLFCERT_OK, w) | Some c \<Rightarrow> signer_matches_key (vc_cms env) c csr True w)"

definition handle_enroll ::
  "('k, 'w) scep_srv_env \<Rightarrow> ('k, 's) scep_server \<Rightarrow> int \<Rightarrow> cstring \<Rightarrow> byte list \<Rightarrow> byte list option \<Rightarrow> byte list \<Rightarrow> byte list \<Rightarrow> 'w \<Rightarrow> ('k, 's, 'w) scep_step" where
  "handle_enroll env s fd mt csr signer_cert tid snonce w =
     (let v = vc_srv env; env_target = (case signer_cert of Some c \<Rightarrow> c | None \<Rightarrow> ca_cert_der (ws_ca s)) in
      case enroll_signer_check env s mt csr signer_cert w of (mrc, w) \<Rightarrow>
      if mrc = WOLFCERT_ERR_MEMORY \<or> mrc = WOLFCERT_ERR_CRYPTO then server_error v s fd mrc w
      else if mrc \<noteq> WOLFCERT_OK then close_failure env s fd tid snonce ''2'' w
      else case check_challenge v csr (ws_cfg_challenge s) w of (crc, w) \<Rightarrow>
      if crc \<noteq> WOLFCERT_OK then close_failure env s fd tid snonce ''2'' w
      else if cf_scep_require_approval (ws_cfg s) then park_request env s fd csr signer_cert env_target tid snonce w
      else map_option snd (issue_and_reply env s fd csr env_target tid snonce w))"

section \<open>Polling\<close>

definition csr_subject_is :: "('k, 'w) srv_env \<Rightarrow> byte list \<Rightarrow> byte list \<Rightarrow> 'w \<Rightarrow> bool wc_result \<times> 'w" where
  "csr_subject_is env csr name w =
     (case ct_ParseCertReq (vs_cert env) False csr w of ((wrc, dc), w) \<Rightarrow>
      (if wrc = MEMORY_E (vs_codes env) then Err WOLFCERT_ERR_MEMORY
       else Ok (wrc = 0 \<and> dc_subjectRaw (dq_cert dc) = Some name), w))"

text \<open>Whether the message names the CA and the subject of the parked request.\<close>

definition poll_named ::
  "('k, 'w) scep_srv_env \<Rightarrow> ('k, 's) scep_server \<Rightarrow> ScepPending option \<Rightarrow> byte list \<Rightarrow> 'w \<Rightarrow> bool wc_result \<times> 'w" where
  "poll_named env s e ias w =
     (case (e, wolfcert_scep_parse_issuer_and_subject ias) of
        (Some e, Inr (issuer, subject)) \<Rightarrow>
          (case wolfcert_scep_issuer_name_matches (vc_cms env) (ca_cert_der (ws_ca s)) issuer w of (named, w) \<Rightarrow>
           if named = Ok True then csr_subject_is (vc_srv env) (pe_csr_der e) subject w else (named, w))
      | _ \<Rightarrow> (Ok False, w))"

definition handle_get_cert_initial ::
  "('k, 'w) scep_srv_env \<Rightarrow> ('k, 's) scep_server \<Rightarrow> int \<Rightarrow> byte list \<Rightarrow> byte list option \<Rightarrow> byte list \<Rightarrow> byte list \<Rightarrow> 'w \<Rightarrow> ('k, 's, 'w) scep_step" where
  "handle_get_cert_initial env s fd ias signer_cert tid snonce w =
     (let v = vc_srv env; p = scep_priv s; idx = scep_pending_find p tid in
      case poll_named env s (map_option (\<lambda>i. pv_entries p ! i) idx) ias w of (named, w) \<Rightarrow>
      if named = Err WOLFCERT_ERR_MEMORY then server_error v s fd WOLFCERT_ERR_MEMORY w
      else if named \<noteq> Ok True then send_pki_failure env s fd tid snonce ''4'' w
      else let i = the idx; e = pv_entries p ! i in
      case (case signer_cert of
              None \<Rightarrow> (WOLFCERT_ERR_AUTH, w)
            | Some c \<Rightarrow> signer_matches_key (vc_cms env) c (pe_signer_cert_der e) False w) of (mrc, w) \<Rightarrow>
      if mrc = WOLFCERT_ERR_MEMORY then server_error v s fd mrc w
      else if mrc \<noteq> WOLFCERT_OK then send_pki_failure env s fd tid snonce ''4'' w
      else let s = s\<lparr>ws_priv := Some (p\<lparr>pv_items := Some ((pv_entries p)[i := e\<lparr>pe_polls := pe_polls e + 1\<rparr>])\<rparr>)\<rparr> in
      do {
        (did_issue, (rc, s), w) \<leftarrow> issue_and_reply env s fd (pe_csr_der e) (pe_signer_cert_der e) tid snonce w;
        Some ((rc, if rc \<noteq> WOLFCERT_ERR_MEMORY \<or> did_issue then s\<lparr>ws_priv := Some (scep_pending_remove (scep_priv s) i)\<rparr> else s), w)
      })"

section \<open>Fetching a certificate\<close>

definition handle_get_cert ::
  "('k, 'w) scep_srv_env \<Rightarrow> ('k, 's) scep_server \<Rightarrow> int \<Rightarrow> byte list \<Rightarrow> byte list option \<Rightarrow> byte list \<Rightarrow> byte list \<Rightarrow> 'w \<Rightarrow> ('k, 's, 'w) scep_step" where
  "handle_get_cert env s fd ias env_target tid snonce w =
     (let v = vc_srv env; cms = vc_cms env in
      case env_target of
        None \<Rightarrow> close_failure env s fd tid snonce ''2'' w
      | Some target \<Rightarrow>
          if length target = 0 then close_failure env s fd tid snonce ''2'' w
          else case (case wolfcert_scep_parse_issuer_and_serial ias of
                       Inl _ \<Rightarrow> ((Ok False, []), w)
                     | Inr (issuer, serial) \<Rightarrow>
                         (case wolfcert_scep_issuer_name_matches cms (ca_cert_der (ws_ca s)) issuer w of (named, w) \<Rightarrow> ((named, serial), w))) of
            ((named, serial), w) \<Rightarrow>
          if named = Err WOLFCERT_ERR_MEMORY then server_error v s fd WOLFCERT_ERR_MEMORY w
          else case (if named = Ok True then issued_find cms (pv_certs (scep_priv s)) serial w else (None, w)) of
                 (None, w) \<Rightarrow> send_pki_failure env s fd tid snonce ''4'' w
               | (Some cert, w) \<Rightarrow> send_cert_rep env s fd cert target tid snonce ''0'' None w)"

section \<open>PKI messages\<close>

text \<open>The three attributes every message has; \<open>mt\<close> is not empty.\<close>

definition message_ids :: "pki_message \<Rightarrow> (byte list \<times> byte list \<times> cstring) option" where
  "message_ids m =
     (case (pm_attr m SCEP_ATTR_TRANS_ID, pm_attr m SCEP_ATTR_SENDER_NONCE, pm_attr m SCEP_ATTR_MSG_TYPE) of
        (Some tid, Some snonce, Some mt) \<Rightarrow>
          if length tid = 0 \<or> \<not> wolfcert_is_printable_string tid \<or> length snonce \<noteq> SCEP_NONCE_SZ \<or> mt = [] then None
          else Some (tid, snonce, mt)
      | _ \<Rightarrow> None)"

definition pki_dispatch ::
  "('k, 'w) scep_srv_env \<Rightarrow> ('k, 's) scep_server \<Rightarrow> int \<Rightarrow> cstring \<Rightarrow> byte list \<Rightarrow> byte list option \<Rightarrow> byte list \<Rightarrow> byte list \<Rightarrow> 'w \<Rightarrow> ('k, 's, 'w) scep_step" where
  "pki_dispatch env s fd mt payload signer_cert tid snonce w =
     (if mt = lit ''19'' \<or> mt = lit ''17'' then handle_enroll env s fd mt payload signer_cert tid snonce w
      else if mt = lit ''20'' then handle_get_cert_initial env s fd payload signer_cert tid snonce w
      else if mt = lit ''21'' \<and> cf_scep_enable_get_cert (ws_cfg s) then handle_get_cert env s fd payload signer_cert tid snonce w
      else failure_with env s fd tid snonce ''2'' WOLFCERT_ERR_PROTOCOL w)"

definition pki_wants :: "scep_attr \<Rightarrow> bool" where
  "pki_wants a \<longleftrightarrow> a \<noteq> SCEP_ATTR_FAIL_INFO"

definition handle_pki_op ::
  "('k, 'w) scep_srv_env \<Rightarrow> ('k, 's) scep_server \<Rightarrow> int \<Rightarrow> byte list option \<Rightarrow> 'w \<Rightarrow> ('k, 's, 'w) scep_step" where
  "handle_pki_op env s fd body w =
     (let v = vc_srv env; cms = vc_cms env in
      case wolfcert_scep_parse_pki_message cms pki_wants True (case body of None \<Rightarrow> [] | Some b \<Rightarrow> b) w of
        (Inl rc, w) \<Rightarrow>
          if rc = WOLFCERT_ERR_MEMORY then server_error v s fd rc w else scep_plain v s fd 400 ''Bad Request'' rc w
      | (Inr m, w) \<Rightarrow>
          (case message_ids m of
             None \<Rightarrow> scep_plain v (s\<lparr>ws_keep_alive := False\<rparr>) fd 400 ''Bad Message'' WOLFCERT_ERR_PROTOCOL w
           | Some (tid, snonce, mt) \<Rightarrow>
               (case rep_identity s of (rcpt_cert, rcpt_key) \<Rightarrow>
                case wolfcert_scep_deenvelop cms rcpt_cert rcpt_key (pm_envelope m) w of
                  (Inl rc, w) \<Rightarrow> failure_with env s fd tid snonce (if rc = WOLFCERT_ERR_UNSUPPORTED then ''0'' else ''2'') rc w
                | (Inr payload, w) \<Rightarrow> pki_dispatch env s fd mt payload (pm_signer_cert m) tid snonce w)))"

section \<open>The operations of a query\<close>

definition hexval :: "byte \<Rightarrow> nat option" where
  "hexval c =
     (if b_0 \<le> c \<and> c \<le> b_9 then Some (unat (c - b_0))
      else if b_a \<le> c \<and> c \<le> b_f then Some (unat (c - b_a) + 10)
      else if b_A \<le> c \<and> c \<le> b_F then Some (unat (c - b_A) + 10)
      else None)"

function query_param :: "cstring \<Rightarrow> cstring \<Rightarrow> cstring option" where
  "query_param p key =
     (if p = [] then None
      else if starts_with p key \<and> cat p (length key) = b_eq then Some (drop (length key + 1) p)
      else case strchr p b_amp of None \<Rightarrow> None | Some k \<Rightarrow> query_param (drop (k + 1) p) key)"
  by pat_completeness auto
termination
  by (relation "measure (\<lambda>(p, _). length p)") auto

declare query_param.simps [simp del]

text \<open>The loop that undoes the percent encoding.\<close>

fun percent_decode :: "byte list \<Rightarrow> byte list option" where
  "percent_decode [] = Some []"
| "percent_decode (c # cs) =
     (if c \<noteq> b_percent then map_option ((#) c) (percent_decode cs)
      else if length cs < 2 then None
      else case (hexval (cs ! 0), hexval (cs ! 1)) of
             (Some hi, Some lo) \<Rightarrow> map_option ((#) (word_of_nat (hi * 16 + lo))) (percent_decode (drop 2 cs))
           | _ \<Rightarrow> None)"

definition handle_pki_op_get ::
  "('k, 'w) scep_srv_env \<Rightarrow> ('k, 's) scep_server \<Rightarrow> int \<Rightarrow> cstring \<Rightarrow> 'w \<Rightarrow> ('k, 's, 'w) scep_step" where
  "handle_pki_op_get env s fd query w =
     (let v = vc_srv env in
      case query_param query (lit ''message'') of
        None \<Rightarrow> scep_plain v s fd 400 ''Bad Request'' WOLFCERT_ERR_PROTOCOL w
      | Some m \<Rightarrow>
          (case vs_alloc v w of (mem, w) \<Rightarrow>
           if \<not> mem 0 then server_error v s fd WOLFCERT_ERR_MEMORY w
           else case percent_decode (takeWhile (\<lambda>c. c \<noteq> b_amp) m) of
             None \<Rightarrow> scep_plain v s fd 400 ''Bad Request'' WOLFCERT_ERR_PROTOCOL w
           | Some b64 \<Rightarrow>
               (case vs_alloc v w of (mem, w) \<Rightarrow>
                case wolfcert_base64_decode (vs_codes v) (vs_b64_dec v) mem (Some b64) of
                  Inl rc \<Rightarrow> scep_plain v s fd 400 ''Bad Request'' rc w
                | Inr der \<Rightarrow> handle_pki_op env s fd (Some der) w)))"

text \<open>The body of \<open>handle_request\<close> once the request is read.\<close>

definition scep_dispatch ::
  "('k, 'w) scep_srv_env \<Rightarrow> ('k, 's) scep_server \<Rightarrow> int \<Rightarrow> ScepRequest \<Rightarrow> 'w \<Rightarrow> ('k, 's, 'w) scep_step" where
  "scep_dispatch env s fd req w =
     (let v = vc_srv env; get = (rq_method req = lit ''GET'') in
      case query_param (rq_query req) (lit ''operation'') of
        None \<Rightarrow> scep_plain v s fd 400 ''Bad Request'' WOLFCERT_ERR_PROTOCOL w
      | Some op \<Rightarrow>
          if starts_with op (lit ''GetCACaps'') \<and> get
          then do { w \<leftarrow> handle_get_ca_caps v s fd w; Some ((WOLFCERT_OK, s), w) }
          else if starts_with op (lit ''GetNextCACert'') \<and> get
          then do { (s, w) \<leftarrow> handle_get_next_ca_cert v s fd w; Some ((WOLFCERT_OK, s), w) }
          else if starts_with op (lit ''GetCACert'') \<and> get
          then do { w \<leftarrow> handle_get_ca_cert v s fd w; Some ((WOLFCERT_OK, s), w) }
          else if starts_with op (lit ''PKIOperation'') \<and> rq_method req = lit ''POST'' then handle_pki_op env s fd (rq_body req) w
          else if starts_with op (lit ''PKIOperation'') \<and> get then handle_pki_op_get env s fd (rq_query req) w
          else scep_plain v s fd 404 ''Not Found'' WOLFCERT_OK w)"

definition scep_handle_request :: "('k, 'w) scep_srv_env \<Rightarrow> ('k, 's) scep_server \<Rightarrow> int \<Rightarrow> 'w \<Rightarrow> ('k, 's, 'w) scep_step" where
  "scep_handle_request env s fd w =
     do {
       (r, w) \<leftarrow> read_request (vc_srv env) s fd w;
       (case r of
          Inl rc \<Rightarrow>
            let s = s\<lparr>ws_keep_alive := False\<rparr> in
            if rc = WOLFCERT_ERR_MEMORY then server_error (vc_srv env) s fd rc w
            else scep_plain (vc_srv env) s fd 400 ''Bad Request'' rc w
        | Inr req \<Rightarrow> scep_dispatch env (if rq_connection_close req then s\<lparr>ws_keep_alive := False\<rparr> else s) fd req w)
     }"

section \<open>Starting and stopping\<close>

definition ra_meta :: "'w WolfCertCertMeta" where
  "ra_meta = \<lparr>mt_subject_dn = Some (lit ''CN=wolfCert Test RA,O=wolfCert''), mt_san_dns = [], mt_san_ip = [], mt_san_uri = [],
     mt_san_email = [], mt_key_usage = None, mt_extended_key_usage = None, mt_challenge_password = None, mt_preferred_hash = 0,
     mt_customize = None\<rparr>"

text \<open>The part of \<open>make_split_ra\<close> with a key: the request, the key's DER and the certificate.\<close>

definition ra_material ::
  "('k, 'w) scep_srv_env \<Rightarrow> ('k, 's) scep_server \<Rightarrow> 'k WolfCertKey \<Rightarrow> 'w \<Rightarrow> (byte list \<times> byte list) wc_result \<times> 'w" where
  "ra_material env s key w =
     (let v = vc_srv env in
      case wolfcert_csr_build (vs_build v) (vs_keys v) (vc_csr env) key ra_meta w of
        (Inl rc, w) \<Rightarrow> (Err rc, w)
      | (Inr csr, w) \<Rightarrow>
          (case wolfcert_key_to_der (vs_build v) (vs_keys v) key w of
             (Inl rc, w) \<Rightarrow> (Err rc, w)
           | (Inr kder, w) \<Rightarrow>
               (case wolfcert_ca_issue (vs_build v) (vs_keys v) (vs_cert v) (ws_ca s) csr w of
                  (Inl rc, w) \<Rightarrow> (Err rc, w)
                | (Inr cert, w) \<Rightarrow> (Ok (kder, cert), w))))"

definition make_split_ra ::
  "('k, 'w) scep_srv_env \<Rightarrow> ('k, 's) scep_server \<Rightarrow> 'k ScepPriv \<Rightarrow> 'w \<Rightarrow> (wc_rc \<times> 'k ScepPriv) \<times> 'w" where
  "make_split_ra env s p w =
     (let v = vc_srv env;
          kcfg = \<lparr>kc_type = WOLFCERT_KEY_RSA, kc_param = 2048, kc_dev_id = WOLFCERT_DEVID_SOFTWARE, kc_key_label = None\<rparr> in
      case wolfcert_key_generate (vs_build v) (vs_keys v) kcfg w of
        (Inl rc, w) \<Rightarrow> ((rc, p), w)
      | (Inr key, w) \<Rightarrow>
          (case ra_material env s key w of
             (Inl rc, w) \<Rightarrow> ((rc, p), wolfcert_key_free (vs_build v) (vs_keys v) (Some key) w)
           | (Inr (kder, cert), w) \<Rightarrow>
               let p = p\<lparr>pv_ra := Some \<lparr>ca_type = WOLFCERT_KEY_RSA, ca_impl = k_impl key, ca_cert_der = cert, ca_key_der = kder\<rparr>\<rparr> in
               (case wolfcert_pkcs7_build_certs_only (vs_cms v) [cert, ca_cert_der (ws_ca s)] w of (r, w) \<Rightarrow>
                let w = wolfcert_key_free (vs_build v) (vs_keys v) (Some (key\<lparr>k_impl := None\<rparr>)) w in
                case r of
                  Inl rc \<Rightarrow> ((rc, p), w)
                | Inr bundle \<Rightarrow> ((WOLFCERT_OK, p\<lparr>pv_ca_ra_bundle := Some bundle\<rparr>), w))))"

definition free_split_ra :: "('k, 'w) srv_env \<Rightarrow> 'k ScepPriv \<Rightarrow> 'w \<Rightarrow> 'k ScepPriv \<times> 'w" where
  "free_split_ra env p w =
     (p\<lparr>pv_ra := None, pv_ca_ra_bundle := None\<rparr>,
      case pv_ra p of None \<Rightarrow> w | Some ra \<Rightarrow> snd (wolfcert_ca_free (vs_build env) (vs_keys env) ra w))"

definition scep_start ::
  "('k, 'w) scep_srv_env \<Rightarrow> 's WolfCertServerCfgSrv \<Rightarrow> ('k, 's) scep_server \<Rightarrow> 'w \<Rightarrow> (wc_rc \<times> ('k, 's) scep_server) \<times> 'w" where
  "scep_start env cfg base w =
     (case vs_alloc (vc_srv env) w of (mem, w) \<Rightarrow>
      if \<not> mem 0 then ((WOLFCERT_ERR_MEMORY, base), w)
      else let p = \<lparr>pv_items = None, pv_issued = None, pv_next_ca = None, pv_ra = None, pv_ca_ra_bundle = None\<rparr> in
      if cf_scep_split_ra cfg
      then (case make_split_ra env base p w of ((rc, p), w) \<Rightarrow> ((rc, base\<lparr>ws_priv := Some p\<rparr>), w))
      else ((WOLFCERT_OK, base\<lparr>ws_priv := Some p\<rparr>), w))"

definition scep_serve_fd :: "('k, 'w) scep_srv_env \<Rightarrow> ('k, 's) scep_server \<Rightarrow> int \<Rightarrow> 'w \<Rightarrow> ('k, 's, 'w) scep_step" where
  "scep_serve_fd env srv fd w = scep_handle_request env srv fd w"

definition scep_free_priv :: "('k, 'w) srv_env \<Rightarrow> ('k, 's) scep_server \<Rightarrow> 'w \<Rightarrow> ('k, 's) scep_server \<times> 'w" where
  "scep_free_priv env srv w =
     (case ws_priv srv of
        None \<Rightarrow> (srv, w)
      | Some p \<Rightarrow>
          (case free_split_ra env p w of (p, w) \<Rightarrow>
           (srv\<lparr>ws_priv := None\<rparr>,
            case pv_next_ca p of None \<Rightarrow> w | Some ca \<Rightarrow> snd (wolfcert_ca_free (vs_build env) (vs_keys env) ca w))))"

end
