(* ===== verification/Server_Run.thy ===== *)
theory Server_Run
  imports Est_Server Scep_Server
begin

text \<open>
  Starting, running and freeing a test server, \<open>src/server.c\<close>, with the tables of operations of the two
  protocols.
\<close>

section \<open>System calls and TLS\<close>

text \<open>
  Sockets and the TLS objects of the server. A call gives its return value, with \<open>errno\<close> where the
  source reads it; \<open>y_poll\<close> also says whether the listener can be read, and \<open>y_getsockname\<close> gives the port.
  \<open>y_inet_pton\<close> parses a numeric address, and \<open>y_CTX_set_verify\<close> has a flag for each of the two modes.
  \<open>y_stop\<close> sets the flag that \<open>vs_stopping\<close> reads, from another thread.
\<close>

record 'w srv_sys =
  y_inet_pton :: "cstring \<Rightarrow> nat option"
  y_socket :: "'w \<Rightarrow> int \<times> 'w"
  y_reuseaddr :: "int \<Rightarrow> 'w \<Rightarrow> 'w"
  y_bind :: "int \<Rightarrow> nat \<Rightarrow> int \<Rightarrow> 'w \<Rightarrow> int \<times> 'w"
  y_listen :: "int \<Rightarrow> 'w \<Rightarrow> int \<times> 'w"
  y_getsockname :: "int \<Rightarrow> 'w \<Rightarrow> int option \<times> 'w"
  y_poll :: "int \<Rightarrow> 'w \<Rightarrow> (int \<times> bool \<times> int) \<times> 'w"
  y_accept :: "int \<Rightarrow> 'w \<Rightarrow> (int \<times> int) \<times> 'w"
  y_rcvtimeo :: "int \<Rightarrow> 'w \<Rightarrow> int \<times> 'w"
  y_sndtimeo :: "int \<Rightarrow> 'w \<Rightarrow> int \<times> 'w"
  y_nosigpipe :: "int \<Rightarrow> 'w \<Rightarrow> 'w"
  y_close :: "int \<Rightarrow> 'w \<Rightarrow> 'w"
  y_stop :: "'w \<Rightarrow> 'w"
  y_CTX_new :: "'w \<Rightarrow> bool \<times> 'w"
  y_CTX_SetMinVersion :: "bool \<Rightarrow> 'w \<Rightarrow> 'w"
  y_CTX_use_certificate :: "byte list \<Rightarrow> 'w \<Rightarrow> int \<times> 'w"
  y_CTX_use_PrivateKey :: "byte list \<Rightarrow> 'w \<Rightarrow> int \<times> 'w"
  y_CTX_load_verify :: "byte list \<Rightarrow> 'w \<Rightarrow> int \<times> 'w"
  y_CTX_set_verify :: "bool \<Rightarrow> bool \<Rightarrow> 'w \<Rightarrow> 'w"
  y_CTX_clear_group_messages :: "'w \<Rightarrow> 'w"
  y_CTX_free :: "'w \<Rightarrow> 'w"
  y_ssl_new :: "'w \<Rightarrow> bool \<times> 'w"
  y_ssl_set_fd :: "int \<Rightarrow> 'w \<Rightarrow> 'w"
  y_ssl_accept :: "'w \<Rightarrow> int \<times> 'w"
  y_ssl_shutdown :: "'w \<Rightarrow> 'w"
  y_ssl_free :: "'w \<Rightarrow> 'w"
  y_NO_TLS12 :: bool
  y_POST_HANDSHAKE_AUTH :: bool
  y_TLS_UNIQUE_KEEP_PEER :: bool

section \<open>The operations of a protocol\<close>

record ('k, 's, 'p, 'w) WolfCertServerOps =
  op_start :: "'s WolfCertServerCfgSrv \<Rightarrow> ('k, 's, 'p) WolfCertServer \<Rightarrow> 'w \<Rightarrow> (wc_rc \<times> ('k, 's, 'p) WolfCertServer) \<times> 'w"
  op_serve_fd :: "('k, 's, 'p) WolfCertServer \<Rightarrow> int \<Rightarrow> 'w \<Rightarrow> ((wc_rc \<times> ('k, 's, 'p) WolfCertServer) \<times> 'w) option"
  op_free_priv :: "('k, 's, 'p) WolfCertServer \<Rightarrow> 'w \<Rightarrow> ('k, 's, 'p) WolfCertServer \<times> 'w"

text \<open>The pointer \<open>priv\<close> refers to the state of one of the two protocols.\<close>

datatype 'k srv_priv = EstState EstPriv | ScepState "'k ScepPriv"

definition map_priv :: "('a option \<Rightarrow> 'b option) \<Rightarrow> ('k, 's, 'a) WolfCertServer \<Rightarrow> ('k, 's, 'b) WolfCertServer" where
  "map_priv f s =
     \<lparr>ws_cfg = ws_cfg s, ws_cfg_challenge = ws_cfg_challenge s, ws_cfg_basic_user = ws_cfg_basic_user s,
      ws_cfg_basic_pass = ws_cfg_basic_pass s, ws_cfg_csr_attrs = ws_cfg_csr_attrs s, ws_ca = ws_ca s,
      ws_listen_fd = ws_listen_fd s, ws_priv = f (ws_priv s), ws_tls_ctx = ws_tls_ctx s, ws_tls_current = ws_tls_current s,
      ws_keep_alive = ws_keep_alive s, ws_poll_timeouts_armed = ws_poll_timeouts_armed s, ws_deadline_ms = ws_deadline_ms s\<rparr>"

definition est_view :: "('k, 's, 'k srv_priv) WolfCertServer \<Rightarrow> ('k, 's) est_server" where
  "est_view = map_priv (\<lambda>p. case p of Some (EstState e) \<Rightarrow> Some e | _ \<Rightarrow> None)"

definition scep_view :: "('k, 's, 'k srv_priv) WolfCertServer \<Rightarrow> ('k, 's) scep_server" where
  "scep_view = map_priv (\<lambda>p. case p of Some (ScepState e) \<Rightarrow> Some e | _ \<Rightarrow> None)"

definition wolfcert_est_server_ops :: "('k, 'w) est_srv_env \<Rightarrow> ('k, 's, 'k srv_priv, 'w) WolfCertServerOps" where
  "wolfcert_est_server_ops env =
     (let up = map_priv (map_option EstState) in
      \<lparr>op_start = (\<lambda>cfg s w. map_prod (map_prod id up) id (est_start (ve_srv env) cfg (est_view s) w)),
       op_serve_fd = (\<lambda>s fd w. map_option (map_prod (map_prod id up) id) (est_serve_fd env (est_view s) fd w)),
       op_free_priv = (\<lambda>s w. (up (est_free_priv (est_view s)), w))\<rparr>)"

definition wolfcert_scep_server_ops :: "('k, 'w) scep_srv_env \<Rightarrow> ('k, 's, 'k srv_priv, 'w) WolfCertServerOps" where
  "wolfcert_scep_server_ops env =
     (let up = map_priv (map_option ScepState) in
      \<lparr>op_start = (\<lambda>cfg s w. map_prod (map_prod id up) id (scep_start env cfg (scep_view s) w)),
       op_serve_fd = (\<lambda>s fd w. map_option (map_prod (map_prod id up) id) (scep_serve_fd env (scep_view s) fd w)),
       op_free_priv = (\<lambda>s w. map_prod up id (scep_free_priv (vc_srv env) (scep_view s) w))\<rparr>)"

text \<open>Either protocol may be missing from a build.\<close>

definition lookup_ops ::
  "('k, 'w) est_srv_env option \<Rightarrow> ('k, 'w) scep_srv_env option \<Rightarrow> WolfCertProtocol \<Rightarrow> ('k, 's, 'k srv_priv, 'w) WolfCertServerOps option" where
  "lookup_ops est scep p =
     (case p of
        WOLFCERT_PROTO_EST \<Rightarrow> map_option wolfcert_est_server_ops est
      | WOLFCERT_PROTO_SCEP \<Rightarrow> map_option wolfcert_scep_server_ops scep)"

section \<open>TLS\<close>

definition nonempty :: "byte list option \<Rightarrow> bool" where
  "nonempty b \<longleftrightarrow> (case b of None \<Rightarrow> False | Some x \<Rightarrow> x \<noteq> [])"

text \<open>The part of \<open>tls_setup\<close> that fills the context; a failure frees it.\<close>

definition tls_context :: "'w srv_sys \<Rightarrow> 's WolfCertServerCfgSrv \<Rightarrow> byte list \<Rightarrow> byte list \<Rightarrow> 'w \<Rightarrow> wc_rc \<times> 'w" where
  "tls_context sys cfg cert key w =
     (case y_CTX_use_certificate sys cert w of (rc, w) \<Rightarrow>
      if rc \<noteq> 1 then (WOLFCERT_ERR_CRYPTO, w)
      else case y_CTX_use_PrivateKey sys key w of (rc, w) \<Rightarrow>
      if rc \<noteq> 1 then (WOLFCERT_ERR_CRYPTO, w)
      else let pha = cf_tls_post_handshake_auth cfg in
      case (if nonempty (cf_tls_client_ca_pem cfg)
            then (case y_CTX_load_verify sys (the (cf_tls_client_ca_pem cfg)) w of (rc, w) \<Rightarrow>
                  if rc \<noteq> 1 then (WOLFCERT_ERR_CRYPTO, w) else (WOLFCERT_OK, y_CTX_set_verify sys pha (\<not> pha) w))
            else (WOLFCERT_OK, w)) of (rc, w) \<Rightarrow>
      if rc \<noteq> WOLFCERT_OK then (rc, w)
      else let w = (if pha then y_CTX_clear_group_messages sys w else w) in
      (if pha \<and> (\<not> y_POST_HANDSHAKE_AUTH sys \<or> \<not> y_TLS_UNIQUE_KEEP_PEER sys) then WOLFCERT_ERR_UNSUPPORTED else WOLFCERT_OK, w))"

definition tls_setup ::
  "'w srv_sys \<Rightarrow> ('k, 's, 'p) WolfCertServer \<Rightarrow> 's WolfCertServerCfgSrv \<Rightarrow> 'w \<Rightarrow> (wc_rc \<times> ('k, 's, 'p) WolfCertServer) \<times> 'w" where
  "tls_setup sys s cfg w =
     (if cf_tls_post_handshake_auth cfg \<and> \<not> nonempty (cf_tls_client_ca_pem cfg) then ((WOLFCERT_ERR_BAD_ARG, s), w)
      else case (cf_tls_cert_pem cfg, cf_tls_key_pem cfg) of
        (Some cert, Some key) \<Rightarrow>
          if cert = [] \<or> key = [] then ((WOLFCERT_ERR_BAD_ARG, s), w)
          else (case y_CTX_new sys w of (got, w) \<Rightarrow>
                if \<not> got then ((WOLFCERT_ERR_CRYPTO, s), w)
                else case tls_context sys cfg cert key (y_CTX_SetMinVersion sys (y_NO_TLS12 sys) w) of (rc, w) \<Rightarrow>
                if rc \<noteq> WOLFCERT_OK then ((rc, s), y_CTX_free sys w)
                else ((WOLFCERT_OK, s\<lparr>ws_tls_ctx := True\<rparr>), w))
      | _ \<Rightarrow> ((WOLFCERT_OK, s), w))"

section \<open>Starting\<close>

definition wolfcert_server_free ::
  "('k, 'w) srv_env \<Rightarrow> 'w srv_sys \<Rightarrow> ('k, 's, 'p, 'w) WolfCertServerOps \<Rightarrow> ('k, 's, 'p) WolfCertServer \<Rightarrow> 'w \<Rightarrow> 'w" where
  "wolfcert_server_free env sys ops s w =
     (case op_free_priv ops s w of (s, w) \<Rightarrow>
      let w = (if ws_tls_ctx s then y_CTX_free sys w else w);
          w = (if ws_listen_fd s \<ge> 0 then y_close sys (ws_listen_fd s) w else w) in
      snd (wolfcert_ca_free (vs_build env) (vs_keys env) (ws_ca s) w))"

text \<open>The tests of the configuration, before anything is allocated; the result is the address to bind.\<close>

definition check_cfg :: "'w srv_sys \<Rightarrow> 's WolfCertServerCfgSrv \<Rightarrow> nat wc_result" where
  "check_cfg sys cfg =
     (let est = (cf_protocol cfg = WOLFCERT_PROTO_EST) in
      if est \<and> (cf_tls_cert_pem cfg = None \<or> cf_tls_key_pem cfg = None) then Err WOLFCERT_ERR_TLS
      else if cf_http_basic_user cfg \<noteq> None \<and> (\<not> nonempty (cf_http_basic_user cfg) \<or> \<not> nonempty (cf_http_basic_pass cfg))
      then Err WOLFCERT_ERR_BAD_ARG
      else if est \<and> cf_http_basic_user cfg = None \<and> \<not> nonempty (cf_tls_client_ca_pem cfg) \<and> \<not> cf_est_allow_anonymous_enroll cfg
      then Err WOLFCERT_ERR_BAD_ARG
      else if \<not> est \<and> cf_tls_post_handshake_auth cfg then Err WOLFCERT_ERR_BAD_ARG
      else case cf_bind_host cfg of
             None \<Rightarrow> Ok 0
           | Some h \<Rightarrow> (case y_inet_pton sys h of None \<Rightarrow> Err WOLFCERT_ERR_BAD_ARG | Some a \<Rightarrow> Ok a))"

text \<open>The server with its copies of the strings; \<open>mem\<close> decides about each, in the order of the source.\<close>

definition copied :: "bool \<Rightarrow> 'a option \<Rightarrow> 'a option" where
  "copied got x = (if got then x else None)"

definition new_server :: "mem \<Rightarrow> 's WolfCertServerCfgSrv \<Rightarrow> ('k, 's, 'p) WolfCertServer" where
  "new_server mem cfg =
     \<lparr>ws_cfg = cfg, ws_cfg_challenge = copied (mem 0) (cf_challenge_password cfg),
      ws_cfg_basic_user = copied (mem 1) (cf_http_basic_user cfg), ws_cfg_basic_pass = copied (mem 2) (cf_http_basic_pass cfg),
      ws_cfg_csr_attrs = None, ws_ca = zero_ca, ws_listen_fd = -1, ws_priv = None, ws_tls_ctx = False, ws_tls_current = False,
      ws_keep_alive = False, ws_poll_timeouts_armed = False, ws_deadline_ms = 0\<rparr>"

definition copies_failed :: "'s WolfCertServerCfgSrv \<Rightarrow> ('k, 's, 'p) WolfCertServer \<Rightarrow> bool" where
  "copies_failed cfg s \<longleftrightarrow>
     cf_challenge_password cfg \<noteq> None \<and> ws_cfg_challenge s = None \<or> cf_http_basic_user cfg \<noteq> None \<and> ws_cfg_basic_user s = None \<or>
     cf_http_basic_pass cfg \<noteq> None \<and> ws_cfg_basic_pass s = None"

text \<open>The CA of the store, or a new one that is saved there; \<open>'s\<close> is the state of the store.\<close>

definition obtain_ca ::
  "('k, 'w) srv_env \<Rightarrow> 's WolfCertServerCfgSrv \<Rightarrow> 'w \<Rightarrow> 's \<Rightarrow> ((wc_rc \<times> 'k WolfCertCa) \<times> 'w \<times> 's) option" where
  "obtain_ca env cfg w st =
     (let kt = (if cf_ca_key_type cfg \<noteq> 0 then cf_ca_key_type cfg else WOLFCERT_DEFAULT_KEY_TYPE (vs_build env));
          generate = (\<lambda>w. wolfcert_ca_generate (vs_build env) (vs_keys env) (vs_cert env) kt (cf_ca_key_param cfg) w) in
      case cf_ca_store cfg of
        None \<Rightarrow> (case generate w of ((rc, ca), w) \<Rightarrow> Some ((rc, ca), w, st))
      | Some store \<Rightarrow>
          (case wolfcert_ca_load (vs_build env) (vs_keys env) (vs_cms env) store w st of
             (Inr ca, w, st) \<Rightarrow> Some ((WOLFCERT_OK, ca), w, st)
           | (Inl rc, w, st) \<Rightarrow>
               if rc \<noteq> WOLFCERT_ERR_NOT_FOUND then Some ((rc, zero_ca), w, st)
               else case generate w of ((rc, ca), w) \<Rightarrow>
                    if rc \<noteq> WOLFCERT_OK then Some ((rc, ca), w, st)
                    else map_option (\<lambda>(rc, st). ((rc, ca), w, st)) (wolfcert_ca_save ca store st)))"

text \<open>The listening socket; the port is the one the system chose.\<close>

definition open_listener ::
  "'w srv_sys \<Rightarrow> nat \<Rightarrow> ('k, 's, 'p) WolfCertServer \<Rightarrow> 'w \<Rightarrow> (wc_rc \<times> ('k, 's, 'p) WolfCertServer) \<times> 'w" where
  "open_listener sys addr s w =
     (case y_socket sys w of (fd, w) \<Rightarrow>
      let s = s\<lparr>ws_listen_fd := fd\<rparr> in
      if fd < 0 then ((WOLFCERT_ERR_IO, s), w)
      else case y_bind sys fd addr (cf_bind_port (ws_cfg s)) (y_reuseaddr sys fd w) of (r, w) \<Rightarrow>
      if r < 0 then ((WOLFCERT_ERR_IO, s), w)
      else case y_listen sys fd w of (r, w) \<Rightarrow>
      if r < 0 then ((WOLFCERT_ERR_IO, s), w)
      else case y_getsockname sys fd w of (port, w) \<Rightarrow>
      ((WOLFCERT_OK, case port of None \<Rightarrow> s | Some p \<Rightarrow> s\<lparr>ws_cfg := (ws_cfg s)\<lparr>cf_bind_port := p\<rparr>\<rparr>), w))"

text \<open>Protocol, TLS and socket, until the first failure.\<close>

definition start_services ::
  "'w srv_sys \<Rightarrow> ('k, 's, 'p, 'w) WolfCertServerOps \<Rightarrow> 's WolfCertServerCfgSrv \<Rightarrow> nat \<Rightarrow> ('k, 's, 'p) WolfCertServer \<Rightarrow> 'w \<Rightarrow>
   (wc_rc \<times> ('k, 's, 'p) WolfCertServer) \<times> 'w" where
  "start_services sys ops cfg addr s w =
     (case op_start ops cfg s w of ((rc, s), w) \<Rightarrow>
      if rc \<noteq> WOLFCERT_OK then ((rc, s), w)
      else case tls_setup sys s cfg w of ((rc, s), w) \<Rightarrow>
      if rc \<noteq> WOLFCERT_OK then ((rc, s), w)
      else open_listener sys addr s w)"

definition wolfcert_server_start ::
  "('k, 'w) srv_env \<Rightarrow> 'w srv_sys \<Rightarrow> (WolfCertProtocol \<Rightarrow> ('k, 's, 'p, 'w) WolfCertServerOps option) \<Rightarrow> 's WolfCertServerCfgSrv \<Rightarrow>
   'w \<Rightarrow> 's \<Rightarrow> (('k, 's, 'p) WolfCertServer wc_result \<times> 'w \<times> 's) option" where
  "wolfcert_server_start env sys find_ops cfg w st =
     (case find_ops (cf_protocol cfg) of
        None \<Rightarrow> Some (Err WOLFCERT_ERR_UNSUPPORTED, w, st)
      | Some ops \<Rightarrow>
      (case check_cfg sys cfg of
        Inl rc \<Rightarrow> Some (Err rc, w, st)
      | Inr addr \<Rightarrow>
      (case vs_alloc env w of (mem, w) \<Rightarrow>
      if \<not> mem 0 then Some (Err WOLFCERT_ERR_MEMORY, w, st)
      else let s = new_server (\<lambda>i. mem (i + 1)) cfg in
      if copies_failed cfg s then Some (Err WOLFCERT_ERR_MEMORY, wolfcert_server_free env sys ops s w, st)
      else if nonempty (cf_csr_attributes_der cfg) \<and> \<not> mem 4
      then Some (Err WOLFCERT_ERR_MEMORY, wolfcert_server_free env sys ops s w, st)
      else let s = (if nonempty (cf_csr_attributes_der cfg) then s\<lparr>ws_cfg_csr_attrs := cf_csr_attributes_der cfg\<rparr> else s) in
      do {
        ((rc, ca), w, st) \<leftarrow> obtain_ca env cfg w st;
        (let s = s\<lparr>ws_ca := ca\<rparr> in
         if rc \<noteq> WOLFCERT_OK then Some (Err rc, wolfcert_server_free env sys ops s w, st)
         else case start_services sys ops cfg addr s w of ((rc, s), w) \<Rightarrow>
         if rc \<noteq> WOLFCERT_OK then Some (Err rc, wolfcert_server_free env sys ops s w, st)
         else Some (Ok s, w, st))
      })))"

section \<open>Running\<close>

partial_function (option) serve_loop ::
  "('k, 'w) srv_env \<Rightarrow> ('k, 's, 'p, 'w) WolfCertServerOps \<Rightarrow> ('k, 's, 'p) WolfCertServer \<Rightarrow> int \<Rightarrow> 'w \<Rightarrow> (('k, 's, 'p) WolfCertServer \<times> 'w) option" where
  "serve_loop env ops s cs w =
     do {
       ((rc, s), w) \<leftarrow> op_serve_fd ops (arm_deadline env (s\<lparr>ws_keep_alive := True\<rparr>) w) cs w;
       if rc \<noteq> WOLFCERT_OK then Some (s, w)
       else if ws_keep_alive s \<and> \<not> io_should_stop env s w then serve_loop env ops s cs w
       else Some (s, w)
     }"

declare serve_loop.simps [code]

partial_function (option) tls_accept_loop ::
  "('k, 'w) srv_env \<Rightarrow> 'w srv_sys \<Rightarrow> ('k, 's, 'p) WolfCertServer \<Rightarrow> 'w \<Rightarrow> (int \<times> 'w) option" where
  "tls_accept_loop env sys s w =
     (case y_ssl_accept sys w of (ret, w) \<Rightarrow>
      if ret \<noteq> 1 \<and> tls_want_io env ret w \<and> \<not> io_should_stop env s w then tls_accept_loop env sys s w else Some (ret, w))"

declare tls_accept_loop.simps [code]

definition serve_tls ::
  "('k, 'w) srv_env \<Rightarrow> 'w srv_sys \<Rightarrow> ('k, 's, 'p, 'w) WolfCertServerOps \<Rightarrow> ('k, 's, 'p) WolfCertServer \<Rightarrow> int \<Rightarrow> 'w \<Rightarrow> (('k, 's, 'p) WolfCertServer \<times> 'w) option" where
  "serve_tls env sys ops s cs w =
     (case y_ssl_new sys w of (got, w) \<Rightarrow>
      if \<not> got then Some (s, w)
      else do {
        (ret, w) \<leftarrow> tls_accept_loop env sys s (y_ssl_set_fd sys cs w);
        if ret = 1
        then do {
          (s, w) \<leftarrow> serve_loop env ops (s\<lparr>ws_tls_current := True\<rparr>) cs w;
          Some (s\<lparr>ws_tls_current := False\<rparr>, y_ssl_free sys (y_ssl_shutdown sys w))
        }
        else Some (s, y_ssl_free sys w)
      })"

text \<open>One accepted connection.\<close>

definition serve_connection ::
  "('k, 'w) srv_env \<Rightarrow> 'w srv_sys \<Rightarrow> ('k, 's, 'p, 'w) WolfCertServerOps \<Rightarrow> ('k, 's, 'p) WolfCertServer \<Rightarrow> int \<Rightarrow> 'w \<Rightarrow> (('k, 's, 'p) WolfCertServer \<times> 'w) option" where
  "serve_connection env sys ops s cs w =
     (case y_rcvtimeo sys cs w of (r, w) \<Rightarrow>
      case (if r \<noteq> 0 then (r, w) else y_sndtimeo sys cs w) of (r, w) \<Rightarrow>
      if r \<noteq> 0 then Some (s, y_close sys cs w)
      else let w = y_nosigpipe sys cs w; s = arm_deadline env (s\<lparr>ws_poll_timeouts_armed := True\<rparr>) w in
      do {
        (s, w) \<leftarrow> (if ws_tls_ctx s then serve_tls env sys ops s cs w else serve_loop env ops s cs w);
        Some (s\<lparr>ws_poll_timeouts_armed := False, ws_deadline_ms := 0\<rparr>, y_close sys cs w)
      })"

abbreviation (input) ECONNABORTED :: int where "ECONNABORTED \<equiv> 103"
abbreviation (input) ECONNRESET :: int where "ECONNRESET \<equiv> 104"

partial_function (option) wolfcert_server_run ::
  "('k, 'w) srv_env \<Rightarrow> 'w srv_sys \<Rightarrow> ('k, 's, 'p, 'w) WolfCertServerOps \<Rightarrow> ('k, 's, 'p) WolfCertServer \<Rightarrow> 'w \<Rightarrow> ((wc_rc \<times> ('k, 's, 'p) WolfCertServer) \<times> 'w) option" where
  "wolfcert_server_run env sys ops s w =
     (if vs_stopping env w then Some ((WOLFCERT_OK, s), w)
      else case y_poll sys (ws_listen_fd s) w of ((pr, pollin, errno), w) \<Rightarrow>
      if pr < 0 then (if errno = EINTR then wolfcert_server_run env sys ops s w else Some ((WOLFCERT_ERR_IO, s), w))
      else if pr = 0 then wolfcert_server_run env sys ops s w
      else if \<not> pollin then Some ((WOLFCERT_ERR_IO, s), w)
      else if vs_stopping env w then Some ((WOLFCERT_OK, s), w)
      else case y_accept sys (ws_listen_fd s) w of ((cs, errno), w) \<Rightarrow>
      if cs < 0
      then (if errno = EINTR \<or> errno = ECONNABORTED \<or> errno = ECONNRESET then wolfcert_server_run env sys ops s w
            else Some ((WOLFCERT_ERR_IO, s), w))
      else do {
        (s, w) \<leftarrow> serve_connection env sys ops s cs w;
        wolfcert_server_run env sys ops s w
      })"

declare wolfcert_server_run.simps [code]

definition wolfcert_server_serve_fd ::
  "'w srv_sys \<Rightarrow> ('k, 's, 'p, 'w) WolfCertServerOps \<Rightarrow> ('k, 's, 'p) WolfCertServer \<Rightarrow> int \<Rightarrow> 'w \<Rightarrow> ((wc_rc \<times> ('k, 's, 'p) WolfCertServer) \<times> 'w) option" where
  "wolfcert_server_serve_fd sys ops s fd w =
     (if fd < 0 then Some ((WOLFCERT_ERR_BAD_ARG, s), w) else op_serve_fd ops s fd (y_nosigpipe sys fd w))"

definition wolfcert_server_stop :: "'w srv_sys \<Rightarrow> ('k, 's, 'p) WolfCertServer option \<Rightarrow> 'w \<Rightarrow> wc_rc \<times> 'w" where
  "wolfcert_server_stop sys s w = (case s of None \<Rightarrow> (WOLFCERT_ERR_BAD_ARG, w) | Some _ \<Rightarrow> (WOLFCERT_OK, y_stop sys w))"

definition wolfcert_server_port :: "('k, 's, 'p) WolfCertServer option \<Rightarrow> int" where
  "wolfcert_server_port s = (case s of None \<Rightarrow> 0 | Some srv \<Rightarrow> cf_bind_port (ws_cfg srv))"

end
