(* ===== verification/Server_Sign.thy ===== *)
theory Server_Sign
  imports Server_Http
begin

text \<open>
  What a server does without the signing function of the CA. \<open>resign f env\<close> is the environment in which
  \<open>wc_SignCert_ex\<close> is replaced by \<open>f\<close>; a computation that is the same for every \<open>f\<close> has signed nothing.
  The lemmas show this for the functions that the two servers share.
\<close>

type_synonym ('k, 'w) sign_fun =
  "int \<Rightarrow> ctc_sig \<Rightarrow> byte list \<Rightarrow> nat \<Rightarrow> wc_keytype \<Rightarrow> 'k \<Rightarrow> 'w \<Rightarrow> (int \<times> byte list) \<times> 'w"

definition resign :: "('k, 'w) sign_fun \<Rightarrow> ('k, 'w) srv_env \<Rightarrow> ('k, 'w) srv_env" where
  "resign f env = env\<lparr>vs_cert := (vs_cert env)\<lparr>ct_SignCert_ex := f\<rparr>\<rparr>"

named_theorems unsigned

lemma resign_fields [unsigned]:
  "vs_alloc (resign f env) = vs_alloc env" "vs_mono_ms (resign f env) = vs_mono_ms env" "vs_stopping (resign f env) = vs_stopping env"
  "vs_recv (resign f env) = vs_recv env" "vs_send (resign f env) = vs_send env" "vs_ssl_read (resign f env) = vs_ssl_read env"
  "vs_ssl_write (resign f env) = vs_ssl_write env" "vs_ssl_get_error (resign f env) = vs_ssl_get_error env"
  "vs_build (resign f env) = vs_build env" "vs_keys (resign f env) = vs_keys env" "vs_cms (resign f env) = vs_cms env"
  "vs_b64 (resign f env) = vs_b64 env" "vs_b64_mime (resign f env) = vs_b64_mime env" "vs_b64_dec (resign f env) = vs_b64_dec env"
  "ct_ParseCertReq (vs_cert (resign f env)) = ct_ParseCertReq (vs_cert env)"
  "ct_ParseCert (vs_cert (resign f env)) = ct_ParseCert (vs_cert env)"
  "ct_GetASNTag (vs_cert (resign f env)) = ct_GetASNTag (vs_cert env)"
  "ct_GetLength (vs_cert (resign f env)) = ct_GetLength (vs_cert env)"
  by (simp_all add: resign_def)

lemma resign_resign: "resign g (resign f env) = resign g env"
  by (simp add: resign_def)

lemma resign_self: "resign (ct_SignCert_ex (vs_cert env)) env = env"
  by (simp add: resign_def)

text \<open>A loop that gives its results also with any other signing function gives the same ones.\<close>

lemma unsigned_if_some:
  assumes "\<And>f env r. F env = Some r \<Longrightarrow> F (resign f env) = Some r"
  shows "F (resign f env) = F env"
proof (cases "F env")
  case None
  have "F (resign f env) \<noteq> Some r" for r
    using assms [of "resign f env" r "ct_SignCert_ex (vs_cert env)"] None by (auto simp: resign_resign resign_self)
  then show ?thesis using None by (cases "F (resign f env)") auto
next
  case (Some r)
  then show ?thesis using assms by auto
qed

lemma tls_want_io_unsigned [unsigned]: "tls_want_io (resign f env) = tls_want_io env"
  by (simp add: fun_eq_iff tls_want_io_def unsigned)

lemma io_should_stop_unsigned [unsigned]: "io_should_stop (resign f env) = io_should_stop env"
  by (simp add: fun_eq_iff io_should_stop_def unsigned)

lemma tls_read_loop_some:
  "tls_read_loop env srv len w = Some r \<Longrightarrow> tls_read_loop (resign f env) srv len w = Some r"
  by (erule tls_read_loop.raw_induct [rotated])
       (subst tls_read_loop.simps, auto simp: unsigned split: prod.splits if_splits cong: option.case_cong)

lemma tls_read_loop_unsigned [unsigned]:
  "tls_read_loop (resign f env) srv len w = tls_read_loop env srv len w"
  by (rule unsigned_if_some) (rule tls_read_loop_some)

lemma recv_loop_some:
  "recv_loop env srv fd len w = Some r \<Longrightarrow> recv_loop (resign f env) srv fd len w = Some r"
  by (erule recv_loop.raw_induct [rotated])
       (subst recv_loop.simps, auto simp: unsigned split: prod.splits if_splits cong: option.case_cong)

lemma recv_loop_unsigned [unsigned]:
  "recv_loop (resign f env) srv fd len w = recv_loop env srv fd len w"
  by (rule unsigned_if_some) (rule recv_loop_some)

lemma tls_write_loop_some:
  "tls_write_loop env srv buf w = Some r \<Longrightarrow> tls_write_loop (resign f env) srv buf w = Some r"
  by (erule tls_write_loop.raw_induct [rotated])
       (subst tls_write_loop.simps, auto simp: unsigned split: prod.splits if_splits cong: option.case_cong)

lemma tls_write_loop_unsigned [unsigned]:
  "tls_write_loop (resign f env) srv buf w = tls_write_loop env srv buf w"
  by (rule unsigned_if_some) (rule tls_write_loop_some)

lemma send_loop_some:
  "send_loop env srv fd buf w = Some r \<Longrightarrow> send_loop (resign f env) srv fd buf w = Some r"
  by (erule send_loop.raw_induct [rotated])
       (subst send_loop.simps, auto simp: unsigned split: prod.splits if_splits cong: option.case_cong)

lemma send_loop_unsigned [unsigned]:
  "send_loop (resign f env) srv fd buf w = send_loop env srv fd buf w"
  by (rule unsigned_if_some) (rule send_loop_some)

lemma io_recv_unsigned [unsigned]: "wolfcert_io_recv (resign f env) srv fd len w = wolfcert_io_recv env srv fd len w"
  by (simp add: wolfcert_io_recv_def unsigned cong: option.case_cong sum.case_cong prod.case_cong if_cong)

lemma io_send_unsigned [unsigned]: "wolfcert_io_send (resign f env) srv fd buf w = wolfcert_io_send env srv fd buf w"
  by (simp add: wolfcert_io_send_def unsigned cong: option.case_cong sum.case_cong prod.case_cong if_cong)

lemma read_head_some:
  "read_head env s fd n buf w = Some r \<Longrightarrow> read_head (resign f env) s fd n buf w = Some r"
  by (erule read_head.raw_induct [rotated])
       (subst read_head.simps, auto simp: unsigned Let_def split: prod.splits if_splits Option.bind_splits cong: option.case_cong)

lemma read_head_unsigned [unsigned]:
  "read_head (resign f env) s fd n buf w = read_head env s fd n buf w"
  by (rule unsigned_if_some) (rule read_head_some)

lemma read_body_some:
  "read_body env s fd left body w = Some r \<Longrightarrow> read_body (resign f env) s fd left body w = Some r"
  by (erule read_body.raw_induct [rotated])
       (subst read_body.simps, auto simp: unsigned split: prod.splits if_splits Option.bind_splits cong: option.case_cong)

lemma read_body_unsigned [unsigned]:
  "read_body (resign f env) s fd left body w = read_body env s fd left body w"
  by (rule unsigned_if_some) (rule read_body_some)

lemma send_all_some:
  "send_all env s fd buf w = Some r \<Longrightarrow> send_all (resign f env) s fd buf w = Some r"
  by (erule send_all.raw_induct [rotated])
       (subst send_all.simps, auto simp: unsigned split: prod.splits if_splits Option.bind_splits cong: option.case_cong)

lemma send_all_unsigned [unsigned]:
  "send_all (resign f env) s fd buf w = send_all env s fd buf w"
  by (rule unsigned_if_some) (rule send_all_some)

lemma read_chunked_loop_some:
  "read_chunked_loop env srv fd mx raw cap scan w = Some r \<Longrightarrow> read_chunked_loop (resign f env) srv fd mx raw cap scan w = Some r"
  by (erule read_chunked_loop.raw_induct [rotated])
     (subst read_chunked_loop.simps,
      auto simp: unsigned Let_def split: prod.split_asm if_split_asm Option.bind_split_asm sum.split_asm)

lemma read_chunked_loop_unsigned [unsigned]:
  "read_chunked_loop (resign f env) srv fd mx raw cap scan w = read_chunked_loop env srv fd mx raw cap scan w"
  by (rule unsigned_if_some) (rule read_chunked_loop_some)

lemma read_chunked_unsigned [unsigned]:
  "wolfcert_server_read_chunked (resign f env) srv fd h mx w = wolfcert_server_read_chunked env srv fd h mx w"
  by (simp add: wolfcert_server_read_chunked_def unsigned cong: option.case_cong sum.case_cong prod.case_cong if_cong)

lemma request_body_unsigned [unsigned]: "request_body (resign f env) s fd fr p w = request_body env s fd fr p w"
  by (simp add: request_body_def unsigned cong: option.case_cong sum.case_cong prod.case_cong if_cong)

lemma csr_verify_unsigned [unsigned]:
  "wolfcert_csr_verify keys (vs_cert (resign f env)) csr w = wolfcert_csr_verify keys (vs_cert env) csr w"
  by (simp add: wolfcert_csr_verify_def unsigned cong: option.case_cong sum.case_cong prod.case_cong if_cong)

lemma asn_header_unsigned [unsigned]: "asn_header (vs_cert (resign f env)) = asn_header (vs_cert env)"
  by (simp add: fun_eq_iff asn_header_def unsigned cong: option.case_cong sum.case_cong prod.case_cong if_cong)

lemma find_san_loop_unsigned [unsigned]:
  "find_san_loop (vs_cert (resign f env)) ext e idx fuel = find_san_loop (vs_cert env) ext e idx fuel"
proof (induct fuel arbitrary: idx)
  case 0
  show ?case by (subst (1 2) find_san_loop.simps) (simp add: unsigned)
next
  case (Suc fuel)
  show ?case by (subst (1 2) find_san_loop.simps) (simp add: unsigned Suc Let_def split: option.splits cong: if_cong)
qed

lemma find_san_unsigned [unsigned]: "wolfcert_find_san (vs_cert (resign f env)) = wolfcert_find_san (vs_cert env)"
  by (simp add: fun_eq_iff wolfcert_find_san_def unsigned cong: option.case_cong sum.case_cong prod.case_cong if_cong)

end
