(* ===== verification/Est_Auth.thy ===== *)
theory Est_Auth
  imports Est_Server Server_Sign
begin

text \<open>
  Which requests make the EST server sign a certificate. The lemmas of the first part show that no other
  part of the server depends on the signing function; the second part reads the conditions off the checks.
\<close>

section \<open>What is done without signing\<close>

definition resign_est :: "('k, 'w) sign_fun \<Rightarrow> ('k, 'w) est_srv_env \<Rightarrow> ('k, 'w) est_srv_env" where
  "resign_est f env = env\<lparr>ve_srv := resign f (ve_srv env)\<rparr>"

lemmas branch_congs = option.case_cong sum.case_cong prod.case_cong list.case_cong if_cong

lemma resign_est_fields [unsigned]:
  "ve_srv (resign_est f env) = resign f (ve_srv env)" "ve_PHA (resign_est f env) = ve_PHA env"
  "ve_KEEP_PEER_CERT (resign_est f env) = ve_KEEP_PEER_CERT env" "ve_peer_certificate (resign_est f env) = ve_peer_certificate env"
  "ve_peer_finished (resign_est f env) = ve_peer_finished env" "ve_request_certificate (resign_est f env) = ve_request_certificate env"
  "ve_peek (resign_est f env) = ve_peek env" "ve_Sha256 (resign_est f env) = ve_Sha256 env"
  by (simp_all add: resign_est_def)

lemma resign_est_resign: "resign_est g (resign_est f env) = resign_est g env"
  by (simp add: resign_est_def resign_resign)

lemma resign_est_self: "resign_est (ct_SignCert_ex (vs_cert (ve_srv env))) env = env"
  by (simp add: resign_est_def resign_self)

lemma est_headers_unsigned [unsigned]: "est_headers (resign f env) fr auth p w = est_headers env fr auth p w"
proof (induct "length p" arbitrary: fr auth p w rule: less_induct)
  case less
  show ?case
  proof (cases "read_line p")
    case None
    then show ?thesis by (simp add: est_headers.simps [of _ _ _ p])
  next
    case (Some lr)
    obtain line rest where lr: "lr = (line, rest)" by (rule prod.exhaust)
    have "length rest < length p" using Some read_line_shorter by (simp add: lr)
    then have "est_headers (resign f env) fr auth rest w = est_headers env fr auth rest w" for fr auth w by (rule less)
    then show ?thesis by (simp add: est_headers.simps [of _ _ _ p] Some lr unsigned Let_def cong: branch_congs)
  qed
qed

lemma parse_request_unsigned [unsigned]: "parse_request (resign f env) s fd w = parse_request env s fd w"
  by (simp add: parse_request_def unsigned Let_def cong: branch_congs)

lemma est_send_unsigned [unsigned]:
  "send_response (resign f env) = send_response env" "send_error (resign f env) = send_error env"
  "send_accepted_retry_after (resign f env) = send_accepted_retry_after env" "est_server_error (resign f env) = est_server_error env"
  "send_missing_oid (resign f env) = send_missing_oid env" "est_refuse (resign f env) = est_refuse env"
  by (simp_all add: fun_eq_iff send_response_def send_error_def send_accepted_retry_after_def est_server_error_def
      send_missing_oid_def est_refuse_def unsigned Let_def cong: branch_congs)

lemma est_checks_unsigned [unsigned]:
  "check_basic_auth (resign f env) = check_basic_auth env" "certs_only_b64 (resign f env) = certs_only_b64 env"
  "csr_attrs_enforce (resign f env) = csr_attrs_enforce env"
  by (simp_all add: fun_eq_iff check_basic_auth_def certs_only_b64_def csr_attrs_enforce_def unsigned Let_def cong: branch_congs)

lemma est_get_unsigned [unsigned]:
  "handler_csr_attrs (resign f env) = handler_csr_attrs env" "handler_cacerts (resign f env) = handler_cacerts env"
  by (simp_all add: fun_eq_iff handler_csr_attrs_def handler_cacerts_def unsigned Let_def cong: branch_congs)

lemma pha_wait_some: "pha_wait env deadline fin w = Some r \<Longrightarrow> pha_wait (resign_est f env) deadline fin w = Some r"
  by (erule pha_wait.raw_induct [rotated])
     (subst pha_wait.simps, auto simp: unsigned split: prod.split_asm if_split_asm)

lemma pha_wait_unsigned [unsigned]: "pha_wait (resign_est f env) deadline fin w = pha_wait env deadline fin w"
  using pha_wait_some [of env deadline fin w _ f] pha_wait_some [of "resign_est f env" deadline fin w _ "ct_SignCert_ex (vs_cert (ve_srv env))"]
  by (cases "pha_wait env deadline fin w"; cases "pha_wait (resign_est f env) deadline fin w")
     (auto simp: resign_est_resign resign_est_self)

lemma est_auth_unsigned [unsigned]:
  "ensure_post_handshake_auth (resign_est f env) = ensure_post_handshake_auth env"
  "peer_der (resign_est f env) = peer_der env" "sha256_bytes (resign_est f env) = sha256_bytes env"
  by (simp_all add: fun_eq_iff ensure_post_handshake_auth_def peer_der_def sha256_bytes_def unsigned Let_def cong: branch_congs)

lemma reenroll_unsigned [unsigned]: "reenroll_identity_check (resign_est f env) = reenroll_identity_check env"
  by (simp add: fun_eq_iff reenroll_identity_check_def unsigned Let_def cong: branch_congs)

section \<open>The conditions\<close>

lemma check_basic_auth_True:
  assumes "check_basic_auth env s auth w = (True, w')" "ws_cfg_basic_user s = Some user"
  obtains h mem enc where "auth = Some h" "wolfcert_ascii_ncasecmp h EST_BASIC_AUTH_SCHEME (length EST_BASIC_AUTH_SCHEME) = 0"
    "wolfcert_base64_encode (vs_codes env) (vs_b64 env) mem
       (Some (user @ b_colon # (case ws_cfg_basic_pass s of None \<Rightarrow> [] | Some p \<Rightarrow> p))) = Ok enc"
    "drop (length EST_BASIC_AUTH_SCHEME) h = enc"
  using assms by (auto simp: check_basic_auth_def Let_def split: option.splits if_splits prod.splits sum.splits)

lemma ensure_pha_ok:
  assumes "ensure_post_handshake_auth env s w = Some (WOLFCERT_OK, w')" "cf_tls_post_handshake_auth (ws_cfg s)" "ws_tls_current s"
  shows "ve_peer_certificate env w' \<noteq> None"
  using assms
  by (auto simp: ensure_post_handshake_auth_def Let_def split: if_splits option.splits prod.splits Option.bind_splits)

lemma reenroll_ok:
  assumes "reenroll_identity_check env s csr w = (WOLFCERT_OK, w')"
  obtains der pc cc san w1 where "peer_der env s w = Some der" "ct_ParseCert (vs_cert (ve_srv env)) der w = ((0, pc), w1)"
    "ct_ParseCertReq (vs_cert (ve_srv env)) True csr w1 = ((0, cc), w')" "same_identity pc san cc san"
    "wolfcert_find_san (vs_cert (ve_srv env)) pc = Ok san" "wolfcert_find_san (vs_cert (ve_srv env)) cc = Ok san"
proof -
  note def = assms [unfolded reenroll_identity_check_def Let_def]
  have keep: "ve_KEEP_PEER_CERT env" using def by (auto split: if_splits)
  obtain der where der: "peer_der env s w = Some der" using def keep by (cases "peer_der env s w") (auto split: if_splits)
  obtain a pc w1 where p: "ct_ParseCert (vs_cert (ve_srv env)) der w = ((a, pc), w1)" by (metis surj_pair)
  obtain b cc w2 where c: "ct_ParseCertReq (vs_cert (ve_srv env)) True csr w1 = ((b, cc), w2)" by (metis surj_pair)
  have a: "a = 0" using def keep der p by (auto split: if_splits)
  have b: "b = 0" using def keep der p c a by (auto simp: wolfcert_map_wc_err_def split: if_splits)
  obtain psan where ps: "wolfcert_find_san (vs_cert (ve_srv env)) pc = Ok psan"
    using def keep der p c a b by (cases "wolfcert_find_san (vs_cert (ve_srv env)) pc") auto
  obtain csan where cs: "wolfcert_find_san (vs_cert (ve_srv env)) cc = Ok csan"
    using def keep der p c a b ps by (cases "wolfcert_find_san (vs_cert (ve_srv env)) cc") auto
  have "same_identity pc psan cc csan" "w2 = w'"
    using def keep der p c a b ps cs by (auto split: if_splits)
  then show thesis using that [of der pc w1 cc psan] der p c a b ps cs by (auto simp: same_identity_def)
qed

lemma pending_find_from_hit: "pending_find_from i p h \<noteq> -1 \<Longrightarrow> \<exists>e\<in>set p. ep_csr_hash e = h"
  by (induct p arbitrary: i) (auto split: if_splits)

lemma pending_find_hit: "\<not> pending_find p h < 0 \<Longrightarrow> \<exists>e\<in>set p. ep_csr_hash e = h"
  using pending_find_from_hit [of 0 p h] by (auto simp: pending_find_def)

lemma missing_attr_None:
  "missing_attr csr its = None \<Longrightarrow> it \<in> set its \<Longrightarrow> it_kind it = WOLFCERT_CSRATTR_BARE_OID \<Longrightarrow> csr__has_attr_oid csr (it_oid it) = 1"
  by (induct its) (auto split: if_splits)

lemma der_take_tl_err: "der_take_tl p = Inl rc \<Longrightarrow> rc = WOLFCERT_ERR_PARSE"
  by (auto simp: der_take_tl_def Let_def split: if_splits option.splits)

lemma attr_item_err: "attr_item t v = Inl rc \<Longrightarrow> rc \<noteq> WOLFCERT_OK"
  by (auto simp: attr_item_def Let_def dest: der_take_tl_err split: if_splits sum.splits)

lemma csr_attrs_loop_err: "csr_attrs_loop p out = Inl rc \<Longrightarrow> rc \<noteq> WOLFCERT_OK"
proof (induct "length p" arbitrary: p out rule: less_induct)
  case less
  show ?case
  proof (cases "der_take_tl p")
    case (Inl e)
    then show ?thesis using less(2) der_take_tl_err [OF Inl] by (auto simp: csr_attrs_loop.simps [of p] split: if_splits)
  next
    case (Inr q)
    obtain t l h where q: "q = (t, l, h)" by (rule prod_cases3)
    have "length (drop (h + l) p) < length p" if "p \<noteq> []" using der_take_tl_bounds Inr q that by fastforce
    then have "rc \<noteq> WOLFCERT_OK" if "p \<noteq> []" "csr_attrs_loop (drop (h + l) p) o' = Inl rc" for o'
      using less(1) [of "drop (h + l) p" o'] that by blast
    then show ?thesis
      using less(2) Inr q attr_item_err [of t "take l (drop h p)" rc]
      by (auto simp: csr_attrs_loop.simps [of p] split: if_splits sum.splits)
  qed
qed

lemma csr_attrs_count_err: "csr_attrs_count p n = Inl rc \<Longrightarrow> rc \<noteq> WOLFCERT_OK"
proof (induct p n rule: csr_attrs_count.induct)
  case (1 p n)
  show ?case
  proof (cases "der_take_tl p")
    case (Inl e)
    then show ?thesis using 1(2) der_take_tl_err [OF Inl] by (auto simp: csr_attrs_count.simps [of p] split: if_splits)
  next
    case (Inr q)
    obtain t l h where q: "q = (t, l, h)" by (rule prod_cases3)
    show ?thesis using 1 Inr q by (auto simp: csr_attrs_count.simps [of p] split: if_splits)
  qed
qed

lemma est_parse_not_ok: "wolfcert_est_parse_csr_attrs mem d \<noteq> Inl WOLFCERT_OK"
  by (auto simp: wolfcert_est_parse_csr_attrs_def dest: der_take_tl_err csr_attrs_loop_err csr_attrs_count_err split: if_splits sum.splits prod.splits)

lemma csr_attrs_enforce_ok:
  assumes "csr_attrs_enforce env s csr cap w = ((WOLFCERT_OK, oid), w')" "cf_est_require_csr_attributes (ws_cfg s)"
    "ws_cfg_csr_attrs s = Some attrs" "attrs \<noteq> []"
  obtains mem policy where "wolfcert_est_parse_csr_attrs mem attrs = Ok policy"
    "\<And>it. it \<in> set (ca_items policy) \<Longrightarrow> it_kind it = WOLFCERT_CSRATTR_BARE_OID \<Longrightarrow> csr__has_attr_oid csr (it_oid it) = 1"
proof -
  obtain mem w1 where m: "vs_alloc env w = (mem, w1)" by (rule prod.exhaust)
  note def = assms(1) [unfolded csr_attrs_enforce_def Let_def assms(3) option.case m prod.case]
  obtain policy where p: "wolfcert_est_parse_csr_attrs mem attrs = Ok policy"
    using def assms est_parse_not_ok by (cases "wolfcert_est_parse_csr_attrs mem attrs") auto
  have "missing_attr csr (ca_items policy) = None" using def assms p by (auto split: option.splits)
  then show thesis using that [OF p] missing_attr_None by blast
qed

section \<open>Which requests are signed\<close>

text \<open>A computation is silent if it is the same for every signing function.\<close>

definition est_silent :: "(('k, 'w) est_srv_env \<Rightarrow> 'r) \<Rightarrow> ('k, 'w) est_srv_env \<Rightarrow> bool" where
  "est_silent F env \<longleftrightarrow> (\<forall>f. F (resign_est f env) = F env)"

text \<open>The request has the credentials that the server is configured with.\<close>

definition basic_credentials :: "('k, 'w) srv_env \<Rightarrow> ('k, 's) est_server \<Rightarrow> EstRequest \<Rightarrow> bool" where
  "basic_credentials env s req \<longleftrightarrow>
     (\<forall>user. ws_cfg_basic_user s = Some user \<longrightarrow>
        (\<exists>h mem enc. eq_auth_header req = Some h \<and>
           wolfcert_ascii_ncasecmp h EST_BASIC_AUTH_SCHEME (length EST_BASIC_AUTH_SCHEME) = 0 \<and>
           wolfcert_base64_encode (vs_codes env) (vs_b64 env) mem
             (Some (user @ b_colon # (case ws_cfg_basic_pass s of None \<Rightarrow> [] | Some p \<Rightarrow> p))) = Ok enc \<and>
           drop (length EST_BASIC_AUTH_SCHEME) h = enc))"

text \<open>The request has the subject and the alternative names of the certificate of the TLS client in the world \<open>w\<close>.\<close>

definition renews_client :: "('k, 'w) est_srv_env \<Rightarrow> ('k, 's) est_server \<Rightarrow> byte list \<Rightarrow> 'w \<Rightarrow> bool" where
  "renews_client env s csr w \<longleftrightarrow>
     (\<exists>der pc cc san w1 w2. peer_der env s w = Some der \<and> ct_ParseCert (vs_cert (ve_srv env)) der w = ((0, pc), w1) \<and>
        ct_ParseCertReq (vs_cert (ve_srv env)) True csr w1 = ((0, cc), w2) \<and> raw_subject pc = raw_subject cc \<and>
        wolfcert_find_san (vs_cert (ve_srv env)) pc = Ok san \<and> wolfcert_find_san (vs_cert (ve_srv env)) cc = Ok san)"

text \<open>The request has every attribute that the policy of the server demands.\<close>

definition has_attributes :: "('k, 's) est_server \<Rightarrow> byte list \<Rightarrow> bool" where
  "has_attributes s csr \<longleftrightarrow>
     (\<forall>attrs. cf_est_require_csr_attributes (ws_cfg s) \<longrightarrow> ws_cfg_csr_attrs s = Some attrs \<longrightarrow> attrs \<noteq> [] \<longrightarrow>
        (\<exists>mem policy. wolfcert_est_parse_csr_attrs mem attrs = Ok policy \<and>
           (\<forall>it\<in>set (ca_items policy). it_kind it = WOLFCERT_CSRATTR_BARE_OID \<longrightarrow> csr__has_attr_oid csr (it_oid it) = 1)))"

text \<open>The request waits for approval, if approval is required.\<close>

definition was_parked :: "('k, 'w) est_srv_env \<Rightarrow> ('k, 's) est_server \<Rightarrow> byte list \<Rightarrow> bool" where
  "was_parked env s csr \<longleftrightarrow>
     (\<forall>p. cf_est_require_approval (ws_cfg s) \<longrightarrow> ws_priv s = Some p \<longrightarrow> (\<exists>e\<in>set p. ep_csr_hash e = sha256_bytes env csr))"

text \<open>The result is what the CA and the response make of the request.\<close>

definition est_signs ::
  "('k, 'w) est_srv_env \<Rightarrow> ('k, 's) est_server \<Rightarrow> int \<Rightarrow> byte list \<Rightarrow> ((wc_rc \<times> ('k, 's) est_server) \<times> 'w) option \<Rightarrow> bool" where
  "est_signs env s fd csr r \<longleftrightarrow> (\<exists>s' w'. r = est_issue (ve_srv env) s' fd csr w' \<and> ws_ca s' = ws_ca s)"

lemma est_approve_signs:
  "est_silent (\<lambda>env. est_approve env s fd re csr w) env \<or>
   was_parked env s csr \<and> est_signs env s fd csr (est_approve env s fd re csr w)"
proof (cases "if cf_est_require_approval (ws_cfg s) then ws_priv s else None")
  case None
  then show ?thesis by (auto simp: est_approve_def est_signs_def was_parked_def split: if_splits)
next
  case (Some p)
  obtain rc w1 where v: "(if re then (WOLFCERT_OK, w) else wolfcert_csr_verify (vs_keys (ve_srv env)) (vs_cert (ve_srv env)) csr w) = (rc, w1)"
    by (rule prod.exhaust)
  show ?thesis
  proof (cases "rc = WOLFCERT_OK \<and> \<not> pending_find p (sha256_bytes env csr) < 0")
    case True
    then have "est_approve env s fd re csr w =
        est_issue (ve_srv env) (s\<lparr>ws_priv := Some (pending_remove p (pending_find p (sha256_bytes env csr)))\<rparr>) fd csr w1"
      by (simp add: est_approve_def Some v Let_def)
    moreover have "was_parked env s csr" using True Some pending_find_hit [of p] by (auto simp: was_parked_def split: if_splits)
    ultimately show ?thesis by (auto simp: est_signs_def)
  next
    case False
    then have "est_silent (\<lambda>env. est_approve env s fd re csr w) env"
      unfolding est_silent_def est_approve_def Let_def unsigned Some option.case v prod.case
      by (cases "rc = WOLFCERT_OK") simp_all
    then show ?thesis ..
  qed
qed

lemma est_policy_signs:
  "est_silent (\<lambda>env. est_policy env s fd re csr w) env \<or>
   has_attributes s csr \<and> was_parked env s csr \<and> est_signs env s fd csr (est_policy env s fd re csr w)"
proof (cases "cf_est_require_csr_attributes (ws_cfg s)")
  case False
  then show ?thesis using est_approve_signs [of s fd re csr w env] by (simp add: est_policy_def has_attributes_def est_silent_def)
next
  case True
  obtain erc oid w1 where e: "csr_attrs_enforce (ve_srv env) s csr 64 w = ((erc, oid), w1)" by (metis surj_pair)
  show ?thesis
  proof (cases "erc = WOLFCERT_OK")
    case ok: True
    have "has_attributes s csr"
      unfolding has_attributes_def using csr_attrs_enforce_ok [OF e [unfolded ok] True] by metis
    then show ?thesis
      using est_approve_signs [of s fd re csr w1 env] True by (auto simp: est_policy_def est_silent_def e ok unsigned)
  next
    case False
    then show ?thesis using True by (auto simp: est_policy_def est_silent_def e unsigned)
  qed
qed

lemma est_renewal_signs:
  "est_silent (\<lambda>env. est_renewal env s fd re csr w) env \<or>
   (re \<longrightarrow> renews_client env s csr w) \<and> has_attributes s csr \<and> was_parked env s csr \<and>
   est_signs env s fd csr (est_renewal env s fd re csr w)"
proof (cases re)
  case False
  then show ?thesis using est_policy_signs [of s fd re csr w env] by (simp add: est_renewal_def est_silent_def)
next
  case True
  obtain rc w1 where r: "reenroll_identity_check env s csr w = (rc, w1)" by (rule prod.exhaust)
  show ?thesis
  proof (cases "rc = WOLFCERT_OK")
    case ok: True
    have "renews_client env s csr w"
      using reenroll_ok [OF r [unfolded ok]] unfolding renews_client_def same_identity_def by metis
    then show ?thesis
      using est_policy_signs [of s fd re csr w1 env] True by (auto simp: est_renewal_def est_silent_def r ok unsigned)
  next
    case False
    then show ?thesis using True by (auto simp: est_renewal_def est_silent_def r unsigned)
  qed
qed

text \<open>
  What a request to enrol has gone through when the CA sees \<open>csr\<close>, which its body encodes; \<open>w\<close> is the world
  in which the request was complete. The client's certificate is looked at after the post-handshake
  authentication has ended.
\<close>

definition est_admitted ::
  "('k, 'w) est_srv_env \<Rightarrow> ('k, 's) est_server \<Rightarrow> EstRequest \<Rightarrow> bool \<Rightarrow> byte list \<Rightarrow> 'w \<Rightarrow> bool" where
  "est_admitted env s req re csr w \<longleftrightarrow>
     (ws_cfg_basic_user s \<noteq> None \<or> cf_est_allow_anonymous_enroll (ws_cfg s) \<or> ws_tls_current s) \<and>
     (\<exists>w1 mem w2 body. ensure_post_handshake_auth env s w = Some (WOLFCERT_OK, w1) \<and>
        (cf_tls_post_handshake_auth (ws_cfg s) \<and> ws_tls_current s \<longrightarrow> ve_peer_certificate env w1 \<noteq> None) \<and>
        vs_alloc (ve_srv env) w1 = (mem, w2) \<and> eq_body req = Some body \<and>
        wolfcert_base64_decode (vs_codes (ve_srv env)) (vs_b64_dec (ve_srv env)) mem (Some body) = Ok csr \<and>
        (re \<longrightarrow> renews_client env s csr w2))"

lemma handler_enroll_signs:
  "est_silent (\<lambda>env. handler_enroll env s fd req re w) env \<or>
   (\<exists>csr. est_admitted env s req re csr w \<and> has_attributes s csr \<and> was_parked env s csr \<and>
      est_signs env s fd csr (handler_enroll env s fd req re w))"
proof (cases "ensure_post_handshake_auth env s w")
  case None
  then show ?thesis by (simp add: est_silent_def handler_enroll_def unsigned)
next
  case (Some r)
  obtain pha w1 where r: "r = (pha, w1)" by (rule prod.exhaust)
  obtain mem w2 where m: "vs_alloc (ve_srv env) w1 = (mem, w2)" by (rule prod.exhaust)
  define body where "body = (case eq_body req of None \<Rightarrow> [] | Some b \<Rightarrow> b)"
  note body = body_def [symmetric]
  let ?dec = "wolfcert_base64_decode (vs_codes (ve_srv env)) (vs_b64_dec (ve_srv env)) mem (Some body)"
  show ?thesis
  proof (cases "pha = WOLFCERT_OK \<and> (ws_cfg_basic_user s \<noteq> None \<or> cf_est_allow_anonymous_enroll (ws_cfg s) \<or> ws_tls_current s) \<and>
      body \<noteq> [] \<and> (\<exists>csr. ?dec = Ok csr)")
    case True
    then obtain csr where csr: "?dec = Ok csr" by blast
    obtain b bs where bs: "body = b # bs" using True by (cases body) auto
    have run: "handler_enroll (resign_est f env) s fd req re w = est_renewal (resign_est f env) s fd re csr w2" for f
      using True csr unfolding handler_enroll_def Let_def unsigned Some r body bs by (auto simp: m)
    have run': "handler_enroll env s fd req re w = est_renewal env s fd re csr w2"
      using run [of "ct_SignCert_ex (vs_cert (ve_srv env))"] by (simp add: resign_est_self)
    have b: "eq_body req = Some body" using True by (auto simp: body_def split: option.splits)
    have p: "cf_tls_post_handshake_auth (ws_cfg s) \<and> ws_tls_current s \<longrightarrow> ve_peer_certificate env w1 \<noteq> None"
      using ensure_pha_ok [of env s w w1] Some r True by simp
    have "est_admitted env s req re csr w" if "re \<longrightarrow> renews_client env s csr w2"
      unfolding est_admitted_def using True Some r m b csr p that by blast
    then show ?thesis
      using est_renewal_signs [of s fd re csr w2 env] unfolding est_silent_def run run' by blast
  next
    case False
    then have "est_silent (\<lambda>env. handler_enroll env s fd req re w) env"
      unfolding est_silent_def handler_enroll_def Let_def unsigned Some r body m
      by (cases ?dec; cases body) (auto simp: m)
    then show ?thesis ..
  qed
qed

lemma est_dispatch_signs:
  "est_silent (\<lambda>env. est_dispatch env s fd req w) env \<or>
   (\<exists>csr w1. eq_method req = lit ''POST'' \<and> est_suffix (eq_path req) \<in> {lit ''simpleenroll'', lit ''simplereenroll''} \<and>
      basic_credentials (ve_srv env) s req \<and>
      est_admitted env s req (est_suffix (eq_path req) = lit ''simplereenroll'') csr w1 \<and>
      check_basic_auth (ve_srv env) s (eq_auth_header req) w = (True, w1) \<and> has_attributes s csr \<and> was_parked env s csr \<and>
      est_signs env s fd csr (est_dispatch env s fd req w))"
proof (cases "eq_method req = lit ''POST'' \<and> est_suffix (eq_path req) \<in> {lit ''simpleenroll'', lit ''simplereenroll''}")
  case False
  then have "est_silent (\<lambda>env. est_dispatch env s fd req w) env"
    unfolding est_silent_def est_dispatch_def Let_def unsigned by auto
  then show ?thesis ..
next
  case True
  obtain ok w1 where c: "check_basic_auth (ve_srv env) s (eq_auth_header req) w = (ok, w1)" by (rule prod.exhaust)
  have m: "eq_method req \<noteq> lit ''HEAD''" "eq_method req \<noteq> lit ''GET''" using True by (simp_all add: lit_def)
  show ?thesis
  proof (cases ok)
    case False
    then have "est_silent (\<lambda>env. est_dispatch env s fd req w) env"
      unfolding est_silent_def est_dispatch_def Let_def unsigned c prod.case using True m by auto
    then show ?thesis ..
  next
    case ok: True
    have run: "est_dispatch (resign_est f env) s fd req w =
        handler_enroll (resign_est f env) s fd req (est_suffix (eq_path req) = lit ''simplereenroll'') w1" for f
      unfolding est_dispatch_def Let_def unsigned c prod.case using True m ok by auto
    have run': "est_dispatch env s fd req w = handler_enroll env s fd req (est_suffix (eq_path req) = lit ''simplereenroll'') w1"
      using run [of "ct_SignCert_ex (vs_cert (ve_srv env))"] by (simp add: resign_est_self)
    have c': "check_basic_auth (ve_srv env) s (eq_auth_header req) w = (True, w1)" using c ok by simp
    then have "basic_credentials (ve_srv env) s req"
      unfolding basic_credentials_def using check_basic_auth_True by metis
    then show ?thesis
      using handler_enroll_signs [of s fd req "est_suffix (eq_path req) = lit ''simplereenroll''" w1 env] True c'
      unfolding est_silent_def run run' by blast
  qed
qed

text \<open>The server as it is once the request is read: it may have to close the connection.\<close>

definition served_as :: "('k, 's) est_server \<Rightarrow> EstRequest \<Rightarrow> ('k, 's) est_server" where
  "served_as s req = (if eq_connection_close req then s\<lparr>ws_keep_alive := False\<rparr> else s)"

text \<open>
  C2. The EST server signs only what was authorised. Whatever a connection delivers, either the outcome
  of serving it is the same for every signing function of the library, so that nothing was signed, or a
  complete request was read, a POST to \<open>simpleenroll\<close> or \<open>simplereenroll\<close>, which carried the configured
  Basic credentials; there were such credentials, or TLS, or anonymous enrolment was allowed; where
  post-handshake authentication is on, the client has presented a certificate; for a renewal the request
  has the subject and the alternative names of the client's certificate; it has every attribute the policy
  demands; if approval is required it had been parked; and the outcome is that of issuing, with the CA of
  the server, the very request in the body.
\<close>

theorem est_issue_authorised:
  "est_silent (\<lambda>env. handle_request env s fd w) env \<or>
   (\<exists>req csr w1 w2. parse_request (ve_srv env) s fd w = Some (Ok req, w1) \<and> eq_method req = lit ''POST'' \<and>
      est_suffix (eq_path req) \<in> {lit ''simpleenroll'', lit ''simplereenroll''} \<and>
      basic_credentials (ve_srv env) (served_as s req) req \<and>
      check_basic_auth (ve_srv env) (served_as s req) (eq_auth_header req) w1 = (True, w2) \<and>
      est_admitted env (served_as s req) req (est_suffix (eq_path req) = lit ''simplereenroll'') csr w2 \<and>
      has_attributes (served_as s req) csr \<and> was_parked env (served_as s req) csr \<and>
      est_signs env s fd csr (handle_request env s fd w))"
proof (cases "parse_request (ve_srv env) s fd w")
  case None
  then show ?thesis by (simp add: est_silent_def handle_request_def unsigned)
next
  case (Some r)
  obtain q w1 where r: "r = (q, w1)" by (rule prod.exhaust)
  show ?thesis
  proof (cases q)
    case (Inl rc)
    then show ?thesis by (simp add: est_silent_def handle_request_def unsigned Some r)
  next
    case (Inr req)
    have run: "handle_request (resign_est f env) s fd w = est_dispatch (resign_est f env) (served_as s req) fd req w1" for f
      by (simp add: handle_request_def unsigned Some r Inr served_as_def)
    have run': "handle_request env s fd w = est_dispatch env (served_as s req) fd req w1"
      using run [of "ct_SignCert_ex (vs_cert (ve_srv env))"] by (simp add: resign_est_self)
    have "est_signs env (served_as s req) fd csr x \<Longrightarrow> est_signs env s fd csr x" for csr x
      by (auto simp: est_signs_def served_as_def)
    then show ?thesis
      using est_dispatch_signs [of "served_as s req" fd req w1 env] Some r Inr unfolding est_silent_def run run' by blast
  qed
qed

end
