(* ===== verification/Scep_Auth.thy ===== *)
theory Scep_Auth
  imports Scep_Server Server_Sign
begin

text \<open>
  Which messages make the SCEP server sign a certificate, in the manner of the theory \<open>Est_Auth\<close>.
\<close>

section \<open>What is done without signing\<close>

definition resign_scep :: "('k, 'w) sign_fun \<Rightarrow> ('k, 'w) scep_srv_env \<Rightarrow> ('k, 'w) scep_srv_env" where
  "resign_scep f env = env\<lparr>vc_srv := resign f (vc_srv env)\<rparr>"

lemmas scep_congs = option.case_cong sum.case_cong prod.case_cong list.case_cong if_cong

lemma resign_scep_fields [unsigned]:
  "vc_srv (resign_scep f env) = resign f (vc_srv env)" "vc_CertManagerNew (resign_scep f env) = vc_CertManagerNew env"
  "vc_CertManagerLoadCABuffer (resign_scep f env) = vc_CertManagerLoadCABuffer env"
  "vc_CertManagerVerifyBuffer (resign_scep f env) = vc_CertManagerVerifyBuffer env"
  "vc_CertManagerFree (resign_scep f env) = vc_CertManagerFree env" "vc_RNG_GenerateBlock (resign_scep f env) = vc_RNG_GenerateBlock env"
  "vc_SIGNED_ATTRIBS9 (resign_scep f env) = vc_SIGNED_ATTRIBS9 env"
  by (simp_all add: resign_scep_def)

lemma resign_scep_self: "resign_scep (ct_SignCert_ex (vs_cert (vc_srv env))) env = env"
  by (simp add: resign_scep_def resign_self)

lemma read_request_unsigned [unsigned]: "read_request (resign f env) s fd w = read_request env s fd w"
  by (simp add: read_request_def unsigned Let_def cong: scep_congs)

lemma scep_send_unsigned [unsigned]:
  "send_text (resign f env) = send_text env" "send_bin (resign f env) = send_bin env" "scep_plain (resign f env) = scep_plain env"
  "handle_get_ca_caps (resign f env) = handle_get_ca_caps env" "handle_get_ca_cert (resign f env) = handle_get_ca_cert env"
  by (simp_all add: fun_eq_iff send_text_def send_bin_def scep_plain_def handle_get_ca_caps_def handle_get_ca_cert_def unsigned
      Let_def cong: scep_congs)

lemma scep_checks_unsigned [unsigned]:
  "check_challenge (resign f env) = check_challenge env" "csr_subject_is (resign f env) = csr_subject_is env"
  "signer_issued_by_ca (resign_scep f env') = signer_issued_by_ca env'" "poll_named (resign_scep f env') = poll_named env'"
  "enroll_signer_check (resign_scep f env') = enroll_signer_check env'"
  by (simp_all add: fun_eq_iff check_challenge_def csr_subject_is_def signer_issued_by_ca_def poll_named_def
      enroll_signer_check_def unsigned Let_def cong: scep_congs)

lemma scep_reply_unsigned [unsigned]:
  "send_cert_rep (resign_scep f env) = send_cert_rep env" "send_pki_failure (resign_scep f env) = send_pki_failure env"
  "failure_with (resign_scep f env) = failure_with env"
  by (simp_all add: fun_eq_iff send_cert_rep_def send_pki_failure_def failure_with_def unsigned Let_def cong: scep_congs)

lemma scep_handlers_unsigned [unsigned]:
  "park_request (resign_scep f env) = park_request env" "handle_get_cert (resign_scep f env) = handle_get_cert env"
  by (simp_all add: fun_eq_iff park_request_def handle_get_cert_def unsigned Let_def cong: scep_congs)

section \<open>The conditions\<close>

text \<open>The two encodings carry the same public key.\<close>

definition same_key :: "'w wolf_cms \<Rightarrow> byte list \<Rightarrow> byte list \<Rightarrow> bool \<Rightarrow> 'w \<Rightarrow> bool" where
  "same_key cms signer der is_csr w \<longleftrightarrow>
     (\<exists>spki w1 w2. wolfcert_extract_spki cms signer False w = (Ok spki, w1) \<and> wolfcert_extract_spki cms der is_csr w1 = (Ok spki, w2))"

lemma signer_matches_key_ok:
  assumes "signer_matches_key cms signer der is_csr w = (WOLFCERT_OK, w')"
  shows "same_key cms signer der is_csr w"
proof -
  have err: "wolfcert_extract_spki cms d c v \<noteq> (Err WOLFCERT_OK, v')" for d c v v'
    by (auto simp: wolfcert_extract_spki_def split: prod.splits if_splits)
  then show ?thesis
    using assms by (auto simp: signer_matches_key_def same_key_def split: prod.splits sum.splits if_splits)
qed

text \<open>
  The signer of a renewal holds a certificate that verifies under the CA; that of a first request, where
  the message has its certificate, holds the key of the request.
\<close>

definition signer_accepted ::
  "('k, 'w) scep_srv_env \<Rightarrow> ('k, 's) scep_server \<Rightarrow> cstring \<Rightarrow> byte list \<Rightarrow> byte list option \<Rightarrow> 'w \<Rightarrow> bool" where
  "signer_accepted env s mt csr signer w \<longleftrightarrow>
     (if mt = lit ''17''
      then (\<exists>der w1 w2 w3. signer = Some der \<and> vc_CertManagerNew env w = (True, w1) \<and>
              vc_CertManagerLoadCABuffer env (ca_cert_der (ws_ca s)) w1 = (1, w2) \<and>
              vc_CertManagerVerifyBuffer env (ca_cert_der (ws_ca s)) der w2 = (1, w3))
      else (\<forall>c. signer = Some c \<longrightarrow> same_key (vc_cms env) c csr True w))"

lemma signer_issued_by_ca_ok:
  assumes "signer_issued_by_ca env s signer w = (WOLFCERT_OK, w')"
  obtains der w1 w2 w3 where "signer = Some der" "vc_CertManagerNew env w = (True, w1)"
    "vc_CertManagerLoadCABuffer env (ca_cert_der (ws_ca s)) w1 = (1, w2)"
    "vc_CertManagerVerifyBuffer env (ca_cert_der (ws_ca s)) der w2 = (1, w3)"
  using assms by (auto simp: signer_issued_by_ca_def split: option.splits prod.splits if_splits)

lemma enroll_signer_check_ok:
  assumes "enroll_signer_check env s mt csr signer w = (WOLFCERT_OK, w')"
  shows "signer_accepted env s mt csr signer w"
proof (cases "mt = lit ''17''")
  case True
  then have "signer_issued_by_ca env s signer w = (WOLFCERT_OK, w')" using assms by (simp add: enroll_signer_check_def)
  then show ?thesis using True signer_issued_by_ca_ok unfolding signer_accepted_def by metis
next
  case False
  then show ?thesis
    using assms signer_matches_key_ok by (auto simp: enroll_signer_check_def signer_accepted_def split: option.splits)
qed

text \<open>The request has the password that the server is configured with.\<close>

definition challenge_met :: "('k, 'w) srv_env \<Rightarrow> ('k, 's) scep_server \<Rightarrow> byte list \<Rightarrow> 'w \<Rightarrow> bool" where
  "challenge_met env s csr w \<longleftrightarrow>
     (\<forall>e. ws_cfg_challenge s = Some e \<longrightarrow> e \<noteq> [] \<longrightarrow>
        (\<exists>dc w'. ct_ParseCertReq (vs_cert env) False csr w = ((0, dc), w') \<and> dq_cPwd dc = Some e))"

lemma check_challenge_ok:
  "check_challenge env csr (ws_cfg_challenge s) w = (WOLFCERT_OK, w') \<Longrightarrow> challenge_met env s csr w"
  by (auto simp: check_challenge_def challenge_met_def split: option.splits if_splits prod.splits)

lemma scep_pending_find_hit:
  assumes "scep_pending_find p tid = Some i"
  shows "i < length (pv_entries p)" "pe_transaction_id (pv_entries p ! i) = tid"
  using assms nth_length_takeWhile [of "\<lambda>e. pe_transaction_id e \<noteq> tid" "pv_entries p"]
  by (auto simp: scep_pending_find_def Let_def split: if_splits)

section \<open>Which messages are signed\<close>

definition scep_silent :: "(('k, 'w) scep_srv_env \<Rightarrow> 'r) \<Rightarrow> ('k, 'w) scep_srv_env \<Rightarrow> bool" where
  "scep_silent F env \<longleftrightarrow> (\<forall>f. F (resign_scep f env) = F env)"

text \<open>Code and world are those of issuing \<open>csr\<close> with the CA of the server and answering to \<open>target\<close>.\<close>

definition scep_signs ::
  "('k, 'w) scep_srv_env \<Rightarrow> ('k, 's) scep_server \<Rightarrow> int \<Rightarrow> byte list \<Rightarrow> byte list \<Rightarrow> byte list \<Rightarrow> byte list \<Rightarrow> ('k, 's, 'w) scep_step \<Rightarrow> bool" where
  "scep_signs env s fd csr target tid snonce r \<longleftrightarrow>
     (\<exists>(s' :: ('k, 's) scep_server) w'. ws_ca s' = ws_ca s \<and>
        map_option (\<lambda>((rc, _), w). (rc, w)) r =
        map_option (\<lambda>(_, (rc, _), w). (rc, w)) (issue_and_reply env s' fd csr target tid snonce w'))"

text \<open>
  A first request or a renewal: its payload is the request that is signed, on a server without manual
  approval.
\<close>

definition enrol_granted ::
  "('k, 'w) scep_srv_env \<Rightarrow> ('k, 's) scep_server \<Rightarrow> cstring \<Rightarrow> byte list \<Rightarrow> byte list option \<Rightarrow> 'w \<Rightarrow> bool" where
  "enrol_granted env s mt csr signer w \<longleftrightarrow>
     \<not> cf_scep_require_approval (ws_cfg s) \<and> signer_accepted env s mt csr signer w \<and>
     (\<exists>w1. enroll_signer_check env s mt csr signer w = (WOLFCERT_OK, w1) \<and> challenge_met (vc_srv env) s csr w1)"

text \<open>
  A poll: the request that is signed waits under the transaction of the message, the payload names the CA
  and the subject of that request, and the signer has the key of whoever parked it.
\<close>

definition poll_granted ::
  "('k, 'w) scep_srv_env \<Rightarrow> ('k, 's) scep_server \<Rightarrow> byte list \<Rightarrow> byte list option \<Rightarrow> byte list \<Rightarrow> ScepPending \<Rightarrow> 'w \<Rightarrow> bool" where
  "poll_granted env s payload signer tid e w \<longleftrightarrow>
     e \<in> set (pv_entries (scep_priv s)) \<and> pe_transaction_id e = tid \<and>
     (\<exists>c w1. poll_named env s (Some e) payload w = (Ok True, w1) \<and> signer = Some c \<and>
        same_key (vc_cms env) c (pe_signer_cert_der e) False w1)"

lemma scep_signs_reply:
  "scep_signs env s fd csr target tid snonce (map_option snd (issue_and_reply env s fd csr target tid snonce w))"
  unfolding scep_signs_def
  by (rule exI [of _ s], rule exI [of _ w]) (cases "issue_and_reply env s fd csr target tid snonce w"; auto)

lemma handle_enroll_signs:
  "scep_silent (\<lambda>env. handle_enroll env s fd mt csr signer tid snonce w) env \<or>
   enrol_granted env s mt csr signer w \<and>
   scep_signs env s fd csr (case signer of Some c \<Rightarrow> c | None \<Rightarrow> ca_cert_der (ws_ca s)) tid snonce
     (handle_enroll env s fd mt csr signer tid snonce w)"
proof -
  obtain mrc w1 where m: "enroll_signer_check env s mt csr signer w = (mrc, w1)" by (rule prod.exhaust)
  obtain crc w2 where c: "check_challenge (vc_srv env) csr (ws_cfg_challenge s) w1 = (crc, w2)" by (rule prod.exhaust)
  show ?thesis
  proof (cases "mrc = WOLFCERT_OK \<and> crc = WOLFCERT_OK \<and> \<not> cf_scep_require_approval (ws_cfg s)")
    case True
    then have "handle_enroll env s fd mt csr signer tid snonce w =
        map_option snd (issue_and_reply env s fd csr (case signer of Some c \<Rightarrow> c | None \<Rightarrow> ca_cert_der (ws_ca s)) tid snonce w2)"
      unfolding handle_enroll_def Let_def m prod.case c by simp
    moreover have "enrol_granted env s mt csr signer w"
      unfolding enrol_granted_def using True m c enroll_signer_check_ok [of env s mt csr signer w w1]
        check_challenge_ok [of "vc_srv env" csr s w1 w2] by simp
    ultimately show ?thesis by (simp add: scep_signs_reply)
  next
    case False
    then have "scep_silent (\<lambda>env. handle_enroll env s fd mt csr signer tid snonce w) env"
      unfolding scep_silent_def handle_enroll_def Let_def unsigned m prod.case c
      by (cases "mrc = WOLFCERT_OK"; cases "crc = WOLFCERT_OK") simp_all
    then show ?thesis ..
  qed
qed

lemma poll_named_some:
  assumes "poll_named env s e ias w = (Ok True, w')"
  obtains e' where "e = Some e'"
  using assms by (cases e) (auto simp: poll_named_def)

lemma handle_get_cert_initial_signs:
  "scep_silent (\<lambda>env. handle_get_cert_initial env s fd ias signer tid snonce w) env \<or>
   (\<exists>e. poll_granted env s ias signer tid e w \<and>
      scep_signs env s fd (pe_csr_der e) (pe_signer_cert_der e) tid snonce (handle_get_cert_initial env s fd ias signer tid snonce w))"
proof -
  define p idx where "p = scep_priv s" and "idx = scep_pending_find p tid"
  obtain named w1 where n: "poll_named env s (map_option (\<lambda>i. pv_entries p ! i) idx) ias w = (named, w1)" by (rule prod.exhaust)
  define e where "e = pv_entries p ! the idx"
  obtain mrc w2 where m: "(case signer of None \<Rightarrow> (WOLFCERT_ERR_AUTH, w1)
      | Some c \<Rightarrow> signer_matches_key (vc_cms env) c (pe_signer_cert_der e) False w1) = (mrc, w2)" by (rule prod.exhaust)
  note folds = p_def [symmetric] idx_def [symmetric] e_def [symmetric]
  show ?thesis
  proof (cases "named = Ok True \<and> mrc = WOLFCERT_OK")
    case True
    have "poll_named env s (map_option (\<lambda>i. pv_entries p ! i) idx) ias w = (Ok True, w1)" using n True by simp
    then obtain e' where "map_option (\<lambda>i. pv_entries p ! i) idx = Some e'" by (rule poll_named_some)
    then obtain i where i: "idx = Some i" by auto
    have e: "e \<in> set (pv_entries p)" "pe_transaction_id e = tid" "poll_named env s (Some e) ias w = (Ok True, w1)"
      using scep_pending_find_hit [of p tid i] i n True by (auto simp: e_def idx_def [symmetric])
    obtain c where c: "signer = Some c" "same_key (vc_cms env) c (pe_signer_cert_der e) False w1"
      using m True by (cases signer) (auto dest: signer_matches_key_ok)
    have "poll_granted env s ias signer tid e w"
      unfolding poll_granted_def using e c p_def by blast
    moreover have "scep_signs env s fd (pe_csr_der e) (pe_signer_cert_der e) tid snonce
        (handle_get_cert_initial env s fd ias signer tid snonce w)"
      unfolding scep_signs_def handle_get_cert_initial_def Let_def folds n prod.case m
      by (rule exI [of _ "s\<lparr>ws_priv := Some (p\<lparr>pv_items := Some ((pv_entries p)[the idx := e\<lparr>pe_polls := pe_polls e + 1\<rparr>])\<rparr>)\<rparr>"],
          rule exI [of _ w2])
         (use True in \<open>auto simp: option.map_comp comp_def split_beta bind_eq_Some_conv split: Option.bind_splits\<close>)
    ultimately show ?thesis by blast
  next
    case False
    then have "scep_silent (\<lambda>env. handle_get_cert_initial env s fd ias signer tid snonce w) env"
      unfolding scep_silent_def handle_get_cert_initial_def Let_def unsigned folds n prod.case m
      by (cases "named = Ok True") simp_all
    then show ?thesis by blast
  qed
qed

text \<open>The message is signed and has its attributes, its envelope opens, and its type and payload grant \<open>csr\<close>.\<close>

definition scep_granted ::
  "('k, 'w) scep_srv_env \<Rightarrow> ('k, 's) scep_server \<Rightarrow> byte list \<Rightarrow> byte list \<Rightarrow> byte list \<Rightarrow> byte list \<Rightarrow> byte list \<Rightarrow> 'w \<Rightarrow> bool" where
  "scep_granted env s body csr target tid snonce w \<longleftrightarrow>
     (\<exists>m mt payload w1 w2. wolfcert_scep_parse_pki_message (vc_cms env) pki_wants True body w = (Ok m, w1) \<and>
        message_ids m = Some (tid, snonce, mt) \<and>
        wolfcert_scep_deenvelop (vc_cms env) (fst (rep_identity s)) (snd (rep_identity s)) (pm_envelope m) w1 = (Ok payload, w2) \<and>
        ((mt = lit ''19'' \<or> mt = lit ''17'') \<and> enrol_granted env s mt payload (pm_signer_cert m) w2 \<and> csr = payload \<and>
           target = (case pm_signer_cert m of Some c \<Rightarrow> c | None \<Rightarrow> ca_cert_der (ws_ca s)) \<or>
         mt = lit ''20'' \<and> (\<exists>e. poll_granted env s payload (pm_signer_cert m) tid e w2 \<and> csr = pe_csr_der e \<and>
           target = pe_signer_cert_der e)))"

lemma pki_dispatch_signs:
  "scep_silent (\<lambda>env. pki_dispatch env s fd mt payload signer tid snonce w) env \<or>
   (\<exists>csr target. ((mt = lit ''19'' \<or> mt = lit ''17'') \<and> enrol_granted env s mt payload signer w \<and> csr = payload \<and>
        target = (case signer of Some c \<Rightarrow> c | None \<Rightarrow> ca_cert_der (ws_ca s)) \<or>
      mt = lit ''20'' \<and> (\<exists>e. poll_granted env s payload signer tid e w \<and> csr = pe_csr_der e \<and> target = pe_signer_cert_der e)) \<and>
      scep_signs env s fd csr target tid snonce (pki_dispatch env s fd mt payload signer tid snonce w))"
proof (cases "mt = lit ''19'' \<or> mt = lit ''17''")
  case True
  then have "pki_dispatch env' s fd mt payload signer tid snonce w = handle_enroll env' s fd mt payload signer tid snonce w" for env'
    by (simp add: pki_dispatch_def)
  then show ?thesis
    using handle_enroll_signs [of s fd mt payload signer tid snonce w env] True unfolding scep_silent_def by auto
next
  case False
  show ?thesis
  proof (cases "mt = lit ''20''")
    case True
    then have "pki_dispatch env' s fd mt payload signer tid snonce w = handle_get_cert_initial env' s fd payload signer tid snonce w" for env'
      using False by (simp add: pki_dispatch_def)
    then show ?thesis
      using handle_get_cert_initial_signs [of s fd payload signer tid snonce w env] True unfolding scep_silent_def by metis
  next
    case no: False
    then show ?thesis using False by (auto simp: scep_silent_def pki_dispatch_def unsigned)
  qed
qed

lemma handle_pki_op_signs:
  "scep_silent (\<lambda>env. handle_pki_op env s fd body w) env \<or>
   (\<exists>csr target tid snonce. scep_granted env s (case body of None \<Rightarrow> [] | Some b \<Rightarrow> b) csr target tid snonce w \<and>
      scep_signs env s fd csr target tid snonce (handle_pki_op env s fd body w))"
proof -
  let ?b = "case body of None \<Rightarrow> [] | Some b \<Rightarrow> b"
  obtain r w1 where r: "wolfcert_scep_parse_pki_message (vc_cms env) pki_wants True ?b w = (r, w1)" by (rule prod.exhaust)
  obtain c k where i: "rep_identity s = (c, k)" by (rule prod.exhaust)
  show ?thesis
  proof (cases r)
    case (Inl rc)
    then show ?thesis by (simp add: scep_silent_def handle_pki_op_def unsigned r Let_def)
  next
    case (Inr m)
    obtain q w2 where d: "wolfcert_scep_deenvelop (vc_cms env) c k (pm_envelope m) w1 = (q, w2)" by (rule prod.exhaust)
    show ?thesis
    proof (cases "message_ids m \<noteq> None \<and> \<not> isl q")
      case True
      then obtain tid snonce mt payload where v: "message_ids m = Some (tid, snonce, mt)" "q = Ok payload"
        by (cases q) auto
      have run: "handle_pki_op (resign_scep f env) s fd body w =
          pki_dispatch (resign_scep f env) s fd mt payload (pm_signer_cert m) tid snonce w2" for f
        by (simp add: handle_pki_op_def unsigned r Inr v i d)
      have run': "handle_pki_op env s fd body w = pki_dispatch env s fd mt payload (pm_signer_cert m) tid snonce w2"
        using run [of "ct_SignCert_ex (vs_cert (vc_srv env))"] by (simp add: resign_scep_self)
      have "scep_granted env s ?b csr target tid snonce w"
        if "(mt = lit ''19'' \<or> mt = lit ''17'') \<and> enrol_granted env s mt payload (pm_signer_cert m) w2 \<and> csr = payload \<and>
             target = (case pm_signer_cert m of Some c \<Rightarrow> c | None \<Rightarrow> ca_cert_der (ws_ca s)) \<or>
           mt = lit ''20'' \<and> (\<exists>e. poll_granted env s payload (pm_signer_cert m) tid e w2 \<and> csr = pe_csr_der e \<and>
             target = pe_signer_cert_der e)" for csr target
        unfolding scep_granted_def using r [unfolded Inr] v d [unfolded v(2)] i that
        by (intro exI [of _ m] exI [of _ mt] exI [of _ payload] exI [of _ w1] exI [of _ w2] conjI) simp_all
      then show ?thesis
        using pki_dispatch_signs [of s fd mt payload "pm_signer_cert m" tid snonce w2 env]
        unfolding scep_silent_def run run' by blast
    next
      case False
      then have "scep_silent (\<lambda>env. handle_pki_op env s fd body w) env"
        unfolding scep_silent_def handle_pki_op_def Let_def unsigned r prod.case Inr sum.case i d
        by (cases q) (auto split: option.splits)
      then show ?thesis ..
    qed
  qed
qed

text \<open>The PKI message of a request: the body of a POST, or the decoded parameter of a GET.\<close>

definition pki_body :: "('k, 'w) srv_env \<Rightarrow> ScepRequest \<Rightarrow> 'w \<Rightarrow> byte list \<Rightarrow> 'w \<Rightarrow> bool" where
  "pki_body env req w body w' \<longleftrightarrow>
     (\<exists>op. query_param (rq_query req) (lit ''operation'') = Some op \<and> starts_with op (lit ''PKIOperation'')) \<and>
     (rq_method req = lit ''POST'' \<and> body = (case rq_body req of None \<Rightarrow> [] | Some b \<Rightarrow> b) \<and> w' = w \<or>
      rq_method req = lit ''GET'' \<and>
      (\<exists>m b64 mem mem' w1. query_param (rq_query req) (lit ''message'') = Some m \<and>
         percent_decode (takeWhile (\<lambda>c. c \<noteq> b_amp) m) = Some b64 \<and> vs_alloc env w = (mem', w1) \<and> vs_alloc env w1 = (mem, w') \<and>
         wolfcert_base64_decode (vs_codes env) (vs_b64_dec env) mem (Some b64) = Ok body))"

lemma handle_pki_op_get_signs:
  "scep_silent (\<lambda>env. handle_pki_op_get env s fd query w) env \<or>
   (\<exists>m b64 mem mem' w1 w2 body. query_param query (lit ''message'') = Some m \<and>
      percent_decode (takeWhile (\<lambda>c. c \<noteq> b_amp) m) = Some b64 \<and> vs_alloc (vc_srv env) w = (mem', w1) \<and>
      vs_alloc (vc_srv env) w1 = (mem, w2) \<and>
      wolfcert_base64_decode (vs_codes (vc_srv env)) (vs_b64_dec (vc_srv env)) mem (Some b64) = Ok body \<and>
      (\<exists>csr target tid snonce. scep_granted env s body csr target tid snonce w2 \<and>
         scep_signs env s fd csr target tid snonce (handle_pki_op_get env s fd query w)))"
proof -
  obtain mem' w1 where a: "vs_alloc (vc_srv env) w = (mem', w1)" by (rule prod.exhaust)
  obtain mem w2 where b: "vs_alloc (vc_srv env) w1 = (mem, w2)" by (rule prod.exhaust)
  show ?thesis
  proof (cases "\<exists>m b64 body. query_param query (lit ''message'') = Some m \<and> mem' 0 \<and> percent_decode (takeWhile (\<lambda>c. c \<noteq> b_amp) m) = Some b64 \<and>
      wolfcert_base64_decode (vs_codes (vc_srv env)) (vs_b64_dec (vc_srv env)) mem (Some b64) = Ok body")
    case True
    then obtain m b64 body where v: "query_param query (lit ''message'') = Some m" "mem' 0"
      "percent_decode (takeWhile (\<lambda>c. c \<noteq> b_amp) m) = Some b64"
      "wolfcert_base64_decode (vs_codes (vc_srv env)) (vs_b64_dec (vc_srv env)) mem (Some b64) = Ok body" by blast
    have run: "handle_pki_op_get (resign_scep f env) s fd query w = handle_pki_op (resign_scep f env) s fd (Some body) w2" for f
      unfolding handle_pki_op_get_def Let_def unsigned using v a b by simp
    have run': "handle_pki_op_get env s fd query w = handle_pki_op env s fd (Some body) w2"
      using run [of "ct_SignCert_ex (vs_cert (vc_srv env))"] by (simp add: resign_scep_self)
    show ?thesis
      using handle_pki_op_signs [of s fd "Some body" w2 env] v a b unfolding scep_silent_def run run' option.case by blast
  next
    case False
    then have "scep_silent (\<lambda>env. handle_pki_op_get env s fd query w) env"
      unfolding scep_silent_def handle_pki_op_get_def Let_def unsigned a prod.case b
      by (auto split: option.splits sum.splits)
    then show ?thesis ..
  qed
qed

text \<open>The one operation that makes a new CA, of which the server keeps the key.\<close>

definition makes_next_ca :: "('k, 's) scep_server \<Rightarrow> ScepRequest \<Rightarrow> bool" where
  "makes_next_ca s req \<longleftrightarrow>
     cf_scep_enable_next_ca (ws_cfg s) \<and> pv_next_ca (scep_priv s) = None \<and> rq_method req = lit ''GET'' \<and>
     (\<exists>op. query_param (rq_query req) (lit ''operation'') = Some op \<and> starts_with op (lit ''GetNextCACert''))"

lemma next_ca_unsigned:
  assumes "\<not> (cf_scep_enable_next_ca (ws_cfg s) \<and> pv_next_ca (scep_priv s) = None)"
  shows "handle_get_next_ca_cert (resign f env) s fd w = handle_get_next_ca_cert env s fd w"
proof (cases "cf_scep_enable_next_ca (ws_cfg s)")
  case True
  then obtain ca where "pv_next_ca (scep_priv s) = Some ca" using assms by auto
  then have "next_ca_ready (resign f env) s w = next_ca_ready env s w" by (simp add: next_ca_ready_def)
  then show ?thesis using True by (simp add: handle_get_next_ca_cert_def unsigned cong: scep_congs)
qed (simp add: handle_get_next_ca_cert_def unsigned)

lemma scep_dispatch_signs:
  "scep_silent (\<lambda>env. scep_dispatch env s fd req w) env \<or> makes_next_ca s req \<or>
   (\<exists>body w' csr target tid snonce. pki_body (vc_srv env) req w body w' \<and> scep_granted env s body csr target tid snonce w' \<and>
      scep_signs env s fd csr target tid snonce (scep_dispatch env s fd req w))"
proof (cases "query_param (rq_query req) (lit ''operation'')")
  case None
  then show ?thesis by (simp add: scep_silent_def scep_dispatch_def unsigned Let_def)
next
  case (Some op)
  have apart: "\<not> starts_with op (lit ''GetCACaps'')" "\<not> starts_with op (lit ''GetNextCACert'')" "\<not> starts_with op (lit ''GetCACert'')"
    if "starts_with op (lit ''PKIOperation'')"
    using that by (cases op; auto simp: starts_with_def lit_def)+
  consider (post) "starts_with op (lit ''PKIOperation'')" "rq_method req = lit ''POST''"
    | (get) "starts_with op (lit ''PKIOperation'')" "rq_method req = lit ''GET''"
    | (other) "\<not> (starts_with op (lit ''PKIOperation'') \<and> (rq_method req = lit ''POST'' \<or> rq_method req = lit ''GET''))"
    by blast
  then show ?thesis
  proof cases
    case post
    have run: "scep_dispatch env' s fd req w = handle_pki_op env' s fd (rq_body req) w" for env'
      unfolding scep_dispatch_def Let_def Some option.case using post apart by simp
    show ?thesis
      using handle_pki_op_signs [of s fd "rq_body req" w env] post Some unfolding scep_silent_def run pki_body_def by blast
  next
    case get
    have run: "scep_dispatch env' s fd req w = handle_pki_op_get env' s fd (rq_query req) w" for env'
      unfolding scep_dispatch_def Let_def Some option.case using get apart by (simp add: lit_def)
    show ?thesis
      using handle_pki_op_get_signs [of s fd "rq_query req" w env] get Some unfolding scep_silent_def run pki_body_def by blast
  next
    case other
    show ?thesis
    proof (cases "makes_next_ca s req")
      case False
      then have "\<not> (cf_scep_enable_next_ca (ws_cfg s) \<and> pv_next_ca (scep_priv s) = None)"
        if "starts_with op (lit ''GetNextCACert'')" "rq_method req = lit ''GET''"
        using that Some by (auto simp: makes_next_ca_def)
      then have "scep_silent (\<lambda>env. scep_dispatch env s fd req w) env"
        unfolding scep_silent_def scep_dispatch_def Let_def unsigned Some option.case
        using other by (auto simp: next_ca_unsigned)
      then show ?thesis ..
    qed blast
  qed
qed

definition scep_served_as :: "('k, 's) scep_server \<Rightarrow> ScepRequest \<Rightarrow> ('k, 's) scep_server" where
  "scep_served_as s req = (if rq_connection_close req then s\<lparr>ws_keep_alive := False\<rparr> else s)"


end
