(* ===== verification/Server_Returns.thy ===== *)
theory Server_Returns
  imports Est_Server Scep_Server
begin

text \<open>
  The servers come back from every request. The loops that wait for the network may not end by themselves;
  the deadline of a request and the progress of the socket calls bound them.
\<close>

section \<open>Time passes\<close>

text \<open>
  What is assumed of the platform: the clock starts at 0 and does not run back, a call that is to be
  repeated takes time, where \<open>work\<close> bounds the calls within one reading of the clock, and a read stores the
  bytes it reports and not more than it was asked for.
\<close>

definition later :: "('k, 'w) srv_env \<Rightarrow> ('w \<Rightarrow> nat) \<Rightarrow> 'w \<Rightarrow> 'w \<Rightarrow> bool" where
  "later env work w w' \<longleftrightarrow>
     vs_mono_ms env w < vs_mono_ms env w' \<or> vs_mono_ms env w = vs_mono_ms env w' \<and> work w' < work w"

definition retries_take_time :: "('k, 'w) srv_env \<Rightarrow> ('w \<Rightarrow> nat) \<Rightarrow> bool" where
  "retries_take_time env work \<longleftrightarrow>
     (\<forall>fd len w r d e w'. vs_recv env fd len w = ((r, d, e), w') \<longrightarrow> r < 0 \<longrightarrow> e = EINTR \<or> e = EAGAIN \<longrightarrow> later env work w w') \<and>
     (\<forall>len w r d w'. vs_ssl_read env len w = ((r, d), w') \<longrightarrow> r \<le> 0 \<longrightarrow> tls_want_io env r w' \<longrightarrow> later env work w w') \<and>
     (\<forall>fd b w r e w'. vs_send env fd b w = ((r, e), w') \<longrightarrow> r < 0 \<longrightarrow> e = EINTR \<or> e = EAGAIN \<longrightarrow> later env work w w') \<and>
     (\<forall>b w r w'. vs_ssl_write env b w = (r, w') \<longrightarrow> r \<le> 0 \<longrightarrow> tls_want_io env r w' \<longrightarrow> later env work w w')"

definition reads_store :: "('k, 'w) srv_env \<Rightarrow> bool" where
  "reads_store env \<longleftrightarrow>
     (\<forall>fd len w r d e w'. vs_recv env fd len w = ((r, d, e), w') \<longrightarrow> nat r \<le> len \<and> nat r \<le> length d) \<and>
     (\<forall>len w r d w'. vs_ssl_read env len w = ((r, d), w') \<longrightarrow> nat r \<le> len \<and> nat r \<le> length d)"

definition timely :: "('k, 'w) srv_env \<Rightarrow> ('w \<Rightarrow> nat) \<Rightarrow> bool" where
  "timely env work \<longleftrightarrow> retries_take_time env work \<and> reads_store env"

lemma timelyD:
  assumes "timely env work"
  shows "vs_recv env fd len w = ((r, d, e), w') \<Longrightarrow> r < 0 \<Longrightarrow> retry_errno s e \<Longrightarrow> later env work w w'"
    and "vs_ssl_read env len w = ((r, d), w') \<Longrightarrow> r \<le> 0 \<Longrightarrow> tls_want_io env r w' \<Longrightarrow> later env work w w'"
    and "vs_send env fd b w = ((r, e), w') \<Longrightarrow> r < 0 \<Longrightarrow> retry_errno s e \<Longrightarrow> later env work w w'"
    and "vs_ssl_write env b w = (r, w') \<Longrightarrow> r \<le> 0 \<Longrightarrow> tls_want_io env r w' \<Longrightarrow> later env work w w'"
    and "vs_recv env fd len w = ((r, d, e), w') \<Longrightarrow> nat r \<le> len \<and> nat r \<le> length d"
    and "vs_ssl_read env len w = ((r, d), w') \<Longrightarrow> nat r \<le> len \<and> nat r \<le> length d"
proof -
  have r: "retry_errno s e \<Longrightarrow> e = EINTR \<or> e = EAGAIN" by (auto simp: retry_errno_def)
  note t = assms [unfolded timely_def retries_take_time_def reads_store_def]
  show "vs_recv env fd len w = ((r, d, e), w') \<Longrightarrow> r < 0 \<Longrightarrow> retry_errno s e \<Longrightarrow> later env work w w'"
    by (rule t [THEN conjunct1, THEN conjunct1, rule_format, OF _ _ r])
  show "vs_ssl_read env len w = ((r, d), w') \<Longrightarrow> r \<le> 0 \<Longrightarrow> tls_want_io env r w' \<Longrightarrow> later env work w w'"
    by (rule t [THEN conjunct1, THEN conjunct2, THEN conjunct1, rule_format])
  show "vs_send env fd b w = ((r, e), w') \<Longrightarrow> r < 0 \<Longrightarrow> retry_errno s e \<Longrightarrow> later env work w w'"
    by (rule t [THEN conjunct1, THEN conjunct2, THEN conjunct2, THEN conjunct1, rule_format, OF _ _ r])
  show "vs_ssl_write env b w = (r, w') \<Longrightarrow> r \<le> 0 \<Longrightarrow> tls_want_io env r w' \<Longrightarrow> later env work w w'"
    by (rule t [THEN conjunct1, THEN conjunct2, THEN conjunct2, THEN conjunct2, rule_format])
  show "vs_recv env fd len w = ((r, d, e), w') \<Longrightarrow> nat r \<le> len \<and> nat r \<le> length d"
    using t [THEN conjunct2, THEN conjunct1] by blast
  show "vs_ssl_read env len w = ((r, d), w') \<Longrightarrow> nat r \<le> len \<and> nat r \<le> length d"
    using t [THEN conjunct2, THEN conjunct2] by blast
qed

text \<open>Before a deadline time can pass only finitely often.\<close>

lemma later_induct:
  assumes "\<And>w. (\<And>w'. later env work w w' \<Longrightarrow> vs_mono_ms env w' < D \<Longrightarrow> P w') \<Longrightarrow> P w"
  shows "P w"
proof (induction w rule: wf_induct_rule [OF wf_measures [of "[\<lambda>w. nat (D - vs_mono_ms env w), work]"]])
  case (1 w)
  show ?case by (rule assms, rule 1) (auto simp: later_def)
qed

section \<open>Results\<close>

definition returns :: "'a option \<Rightarrow> bool" where
  "returns x \<longleftrightarrow> x \<noteq> None"

lemma returns_Some [simp]: "returns (Some x)"
  by (simp add: returns_def)

lemma returns_ex: "returns x \<longleftrightarrow> (\<exists>y. x = Some y)"
  by (auto simp: returns_def)

lemma returns_bind [intro!]: "returns x \<Longrightarrow> (\<And>y. x = Some y \<Longrightarrow> returns (f y)) \<Longrightarrow> returns (Option.bind x f)"
  by (auto simp: returns_def)

section \<open>Socket calls\<close>

definition has_deadline :: "('k, 's, 'p) WolfCertServer \<Rightarrow> bool" where
  "has_deadline s \<longleftrightarrow> ws_deadline_ms s \<noteq> 0"

lemma not_stop_before: "has_deadline s \<Longrightarrow> \<not> io_should_stop env s w \<Longrightarrow> vs_mono_ms env w < ws_deadline_ms s"
  by (auto simp: io_should_stop_def has_deadline_def)

lemma tls_read_returns:
  assumes t: "timely env work" and d: "has_deadline s"
  shows "returns (tls_read_loop env s len w)"
proof (induction w rule: later_induct [where env = env and work = work and D = "ws_deadline_ms s"])
  case (1 w)
  obtain r b w' where c: "vs_ssl_read env len w = ((r, b), w')" by (metis surj_pair)
  have "returns (tls_read_loop env s len w')" if "r \<le> 0" "tls_want_io env r w'" "\<not> io_should_stop env s w'"
    using 1 timelyD(2) [OF t c that(1,2)] not_stop_before [OF d that(3)] by blast
  then show ?case by (subst tls_read_loop.simps) (simp add: c)
qed

lemma recv_returns:
  assumes t: "timely env work" and d: "has_deadline s"
  shows "returns (recv_loop env (Some s) fd len w)"
proof (induction w rule: later_induct [where env = env and work = work and D = "ws_deadline_ms s"])
  case (1 w)
  obtain r b e w' where c: "vs_recv env fd len w = ((r, b, e), w')" by (metis surj_pair)
  have "returns (recv_loop env (Some s) fd len w')" if "r < 0" "retry_errno s e" "\<not> io_should_stop env s w'"
    using 1 timelyD(1) [OF t c that(1,2)] not_stop_before [OF d that(3)] by blast
  then show ?case by (subst recv_loop.simps) (simp add: c)
qed

lemma io_recv_returns: "timely env work \<Longrightarrow> has_deadline s \<Longrightarrow> returns (wolfcert_io_recv env (Some s) fd len w)"
  by (auto simp: wolfcert_io_recv_def tls_read_returns recv_returns)

lemma tls_write_returns:
  assumes t: "timely env work" and d: "has_deadline s"
  shows "returns (tls_write_loop env s b w)"
proof (induction w rule: later_induct [where env = env and work = work and D = "ws_deadline_ms s"])
  case (1 w)
  obtain r w' where c: "vs_ssl_write env b w = (r, w')" by (metis surj_pair)
  have "returns (tls_write_loop env s b w')" if "r \<le> 0" "tls_want_io env r w'" "\<not> io_should_stop env s w'"
    using 1 timelyD(4) [OF t c that(1,2)] not_stop_before [OF d that(3)] by blast
  then show ?case by (subst tls_write_loop.simps) (simp add: c)
qed

lemma send_returns:
  assumes t: "timely env work" and d: "has_deadline s"
  shows "returns (send_loop env (Some s) fd b w)"
proof (induction w rule: later_induct [where env = env and work = work and D = "ws_deadline_ms s"])
  case (1 w)
  obtain r e w' where c: "vs_send env fd b w = ((r, e), w')" by (metis surj_pair)
  have "returns (send_loop env (Some s) fd b w')" if "r < 0" "retry_errno s e" "\<not> io_should_stop env s w'"
    using 1 timelyD(3) [OF t c that(1,2)] not_stop_before [OF d that(3)] by blast
  then show ?case by (subst send_loop.simps) (simp add: c)
qed

lemma io_send_returns: "timely env work \<Longrightarrow> has_deadline s \<Longrightarrow> returns (wolfcert_io_send env (Some s) fd b w)"
  by (auto simp: wolfcert_io_send_def tls_write_returns send_returns)

text \<open>The result of a loop is that of its last call.\<close>

lemma recv_loop_last: "recv_loop env srv fd len w = Some y \<Longrightarrow> \<exists>v e. vs_recv env fd len v = ((fst (fst y), snd (fst y), e), snd y)"
  by (erule recv_loop.raw_induct [rotated]) (auto split: prod.split_asm if_split_asm, blast+)

lemma tls_read_loop_last: "tls_read_loop env srv len w = Some y \<Longrightarrow> \<exists>v. vs_ssl_read env len v = y"
  by (erule tls_read_loop.raw_induct [rotated]) (auto split: prod.split_asm if_split_asm)

lemma io_recv_bytes:
  assumes t: "timely env work" and r: "wolfcert_io_recv env (Some s) fd len w = Some ((r, d), w')" "r > 0"
  shows "0 < nat r \<and> nat r \<le> len \<and> nat r \<le> length d"
proof (cases "ws_tls_current s")
  case True
  then obtain v where "tls_read_loop env s len w = Some ((r, d), v)"
    using r by (auto simp: wolfcert_io_recv_def split: if_splits bind_splits)
  from tls_read_loop_last [OF this] show ?thesis using timelyD(6) [OF t] r(2) by fastforce
next
  case False
  then have "recv_loop env (Some s) fd len w = Some ((r, d), w')" using r by (auto simp: wolfcert_io_recv_def split: if_splits)
  from recv_loop_last [OF this] show ?thesis using timelyD(5) [OF t] r(2) by fastforce
qed

section \<open>Reading and sending\<close>

lemma read_head_returns:
  assumes t: "timely env work" and d: "has_deadline s"
  shows "returns (read_head env s fd n buf w)"
proof (induction "n - 1 - length buf" arbitrary: buf w rule: less_induct)
  case less
  have "returns (read_head env s fd n (buf @ take (nat r) b) w')"
    if "length buf < n - 1" "wolfcert_io_recv env (Some s) fd (n - 1 - length buf) w = Some ((r, b), w')" "\<not> r \<le> 0" for r b w'
    using io_recv_bytes [OF t that(2)] that by (intro less) auto
  then show ?case by (subst read_head.simps) (auto simp: io_recv_returns [OF t d] Let_def)
qed

lemma read_body_returns:
  assumes t: "timely env work" and d: "has_deadline s"
  shows "returns (read_body env s fd n body w)"
proof (induction n arbitrary: body w rule: less_induct)
  case (less n)
  have "returns (read_body env s fd (n - nat r) (body @ take (nat r) b) w')" if "0 < n" "\<not> r \<le> 0" for r b w'
    using that by (intro less) auto
  then show ?case by (subst read_body.simps) (auto simp: io_recv_returns [OF t d])
qed

lemma send_all_returns:
  assumes t: "timely env work" and d: "has_deadline s"
  shows "returns (send_all env s fd b w)"
proof (induction "length b" arbitrary: b w rule: less_induct)
  case less
  have "returns (send_all env s fd (drop (nat r) b) w')" if "b \<noteq> []" "\<not> r \<le> 0" for r w'
    using that by (intro less) auto
  then show ?case by (subst send_all.simps) (auto simp: io_send_returns [OF t d])
qed

lemma read_chunked_loop_returns:
  assumes t: "timely env work" and d: "has_deadline s"
  shows "length raw \<le> cap \<Longrightarrow> cap \<le> mx \<Longrightarrow> returns (read_chunked_loop env (Some s) fd mx raw cap scan w)"
proof (induction "mx - length raw" arbitrary: raw cap scan w rule: less_induct)
  case less
  have more: "returns (read_chunked_loop env (Some s) fd mx (raw @ take (nat r) b) cap' scan' w')"
    if "wolfcert_io_recv env (Some s) fd (cap' - length raw) v = Some ((r, b), w')" "\<not> r \<le> 0" "length raw < cap'" "cap' \<le> mx" for r b w' v cap' scan'
    using io_recv_bytes [OF t that(1)] that by (intro less) auto
  define grown where "grown = (if length raw = cap
                 then let grow = (if cap < 2048 then 2048 else cap);
                          grow = (if grow > mx - cap then mx - cap else grow) in
                      if grow = 0 then (Err WOLFCERT_ERR_PROTOCOL, w)
                      else (case vs_alloc env w of (mem, w) \<Rightarrow>
                              if \<not> mem 0 then (Err WOLFCERT_ERR_MEMORY, w) else (Ok (cap + grow), w))
                 else (Ok cap, w))"
  have "length raw < cap' \<and> cap' \<le> mx" if "grown = (Ok cap', v)" for cap' v
    using that less(2,3) by (auto simp: grown_def Let_def split: prod.splits if_splits)
  then show ?case
    by (subst read_chunked_loop.simps, fold grown_def)
      (auto simp: io_recv_returns [OF t d] intro!: more split: prod.split sum.split)
qed

lemma read_chunked_returns:
  "timely env work \<Longrightarrow> has_deadline s \<Longrightarrow> returns (wolfcert_server_read_chunked env (Some s) fd p mx w)"
  by (auto simp: wolfcert_server_read_chunked_def Let_def read_chunked_loop_returns split: prod.split sum.split)

lemma request_body_returns:
  "timely env work \<Longrightarrow> has_deadline s \<Longrightarrow> returns (request_body env s fd fr p w)"
  by (auto simp: request_body_def Let_def read_chunked_returns read_body_returns split: prod.split)

lemma deadline_keeps [simp]:
  "has_deadline (s\<lparr>ws_keep_alive := b\<rparr>) = has_deadline s" "has_deadline (s\<lparr>ws_priv := p\<rparr>) = has_deadline s"
  by (simp_all add: has_deadline_def)

text \<open>The functions that come back, one after the other.\<close>

named_theorems returning

lemmas returns_split = prod.split sum.split option.split list.split if_split

lemma returns_map [simp]: "returns (map_option f x) = returns x"
  by (simp add: returns_def)

declare send_all_returns [returning] request_body_returns [returning] read_head_returns [returning]

section \<open>The EST server\<close>

text \<open>Peeking for the client's answer takes time too.\<close>

definition peeks_take_time :: "('k, 'w) est_srv_env \<Rightarrow> ('w \<Rightarrow> nat) \<Rightarrow> bool" where
  "peeks_take_time env work \<longleftrightarrow>
     (\<forall>w r w'. ve_peek env w = (r, w') \<longrightarrow> r \<le> 0 \<longrightarrow> tls_want_io (ve_srv env) r w' \<longrightarrow> later (ve_srv env) work w w')"

lemma pha_wait_returns [returning]:
  assumes p: "peeks_take_time env work"
  shows "returns (pha_wait env D fin w)"
proof (induction w rule: later_induct [where env = "ve_srv env" and work = work and D = D])
  case (1 w)
  obtain r w' where c: "ve_peek env w = (r, w')" by (rule prod.exhaust)
  have "returns (pha_wait env D fin w')"
    if "\<not> (r \<le> 0 \<and> vs_ssl_get_error (ve_srv env) r w' \<noteq> SSL_WANT_READ \<and> vs_ssl_get_error (ve_srv env) r w' \<noteq> SSL_WANT_WRITE)"
      "\<not> (r > 0 \<or> vs_mono_ms (ve_srv env) w' \<ge> D \<or> vs_stopping (ve_srv env) w')"
  proof (rule 1)
    show "later (ve_srv env) work w w'" using p c that unfolding peeks_take_time_def tls_want_io_def Let_def by auto
  qed (use that in auto)
  then show ?case by (subst pha_wait.simps) (auto simp: c)
qed

lemma parse_request_returns [returning]:
  "timely env work \<Longrightarrow> has_deadline s \<Longrightarrow> returns (parse_request env s fd w)"
  by (auto simp: parse_request_def Let_def returning split: returns_split)

lemma send_response_returns [returning]:
  "timely env work \<Longrightarrow> has_deadline s \<Longrightarrow> returns (send_response env s fd status phrase headers body n w)"
  by (auto simp: send_response_def Let_def returning split: returns_split)

lemma send_error_returns [returning]:
  "timely env work \<Longrightarrow> has_deadline s \<Longrightarrow> returns (send_error env s fd status phrase why w)"
  by (simp add: send_error_def returning)

lemma est_refuse_returns [returning]:
  "timely env work \<Longrightarrow> has_deadline s \<Longrightarrow> returns (est_refuse env s fd status phrase why rc w)"
  by (auto simp: est_refuse_def returning)

lemma csr_attrs_returns [returning]:
  "timely env work \<Longrightarrow> has_deadline s \<Longrightarrow> returns (handler_csr_attrs env s fd head w)"
  by (auto simp: handler_csr_attrs_def est_server_error_def returning split: returns_split)

lemma cacerts_returns [returning]:
  "timely env work \<Longrightarrow> has_deadline s \<Longrightarrow> returns (handler_cacerts env s fd head w)"
  by (auto simp: handler_cacerts_def est_server_error_def returning split: returns_split)

lemma est_issue_returns [returning]:
  "timely env work \<Longrightarrow> has_deadline s \<Longrightarrow> returns (est_issue env s fd csr w)"
  by (auto simp: est_issue_def returning split: returns_split)

lemma est_approve_returns [returning]:
  "timely (ve_srv env) work \<Longrightarrow> has_deadline s \<Longrightarrow> returns (est_approve env s fd re csr w)"
  by (auto simp: est_approve_def Let_def send_accepted_retry_after_def returning split: returns_split)

lemma est_policy_returns [returning]:
  "timely (ve_srv env) work \<Longrightarrow> has_deadline s \<Longrightarrow> returns (est_policy env s fd re csr w)"
  by (auto simp: est_policy_def send_missing_oid_def Let_def returning split: returns_split)

lemma est_renewal_returns [returning]:
  "timely (ve_srv env) work \<Longrightarrow> has_deadline s \<Longrightarrow> returns (est_renewal env s fd re csr w)"
  by (auto simp: est_renewal_def returning split: returns_split)

lemma pha_returns [returning]: "peeks_take_time env work \<Longrightarrow> returns (ensure_post_handshake_auth env s w)"
  by (auto simp: ensure_post_handshake_auth_def Let_def returning split: returns_split)

lemma enroll_returns [returning]:
  "timely (ve_srv env) work \<Longrightarrow> peeks_take_time env work \<Longrightarrow> has_deadline s \<Longrightarrow> returns (handler_enroll env s fd req re w)"
  by (auto simp: handler_enroll_def Let_def returning split: returns_split)

lemma est_dispatch_returns [returning]:
  "timely (ve_srv env) work \<Longrightarrow> peeks_take_time env work \<Longrightarrow> has_deadline s \<Longrightarrow> returns (est_dispatch env s fd req w)"
  by (auto simp: est_dispatch_def Let_def returning split: returns_split)

lemma est_handle_returns [returning]:
  "timely (ve_srv env) work \<Longrightarrow> peeks_take_time env work \<Longrightarrow> has_deadline s \<Longrightarrow> returns (handle_request env s fd w)"
  by (auto simp: handle_request_def Let_def returning split: returns_split)

section \<open>The SCEP server\<close>

lemma read_request_returns [returning]:
  "timely env work \<Longrightarrow> has_deadline s \<Longrightarrow> returns (read_request env s fd w)"
  by (auto simp: read_request_def Let_def returning split: returns_split)

lemma send_text_returns [returning]:
  "timely env work \<Longrightarrow> has_deadline s \<Longrightarrow> returns (send_text env s fd status phrase ct body w)"
  by (auto simp: send_text_def returning split: returns_split)

lemma send_bin_returns [returning]:
  "timely env work \<Longrightarrow> has_deadline s \<Longrightarrow> returns (send_bin env s fd ct body w)"
  by (auto simp: send_bin_def returning)

lemma plain_returns [returning]:
  "timely env work \<Longrightarrow> has_deadline s \<Longrightarrow> returns (scep_plain env s fd status phrase rc w)"
  by (auto simp: scep_plain_def returning)

lemma ca_caps_returns [returning]:
  "timely env work \<Longrightarrow> has_deadline s \<Longrightarrow> returns (handle_get_ca_caps env s fd w)"
  by (auto simp: handle_get_ca_caps_def Let_def returning)

lemma ca_cert_returns [returning]:
  "timely env work \<Longrightarrow> has_deadline s \<Longrightarrow> returns (handle_get_ca_cert env s fd w)"
  by (auto simp: handle_get_ca_cert_def returning split: returns_split)

lemma next_ca_deadline: "next_ca_ready env s w = (Some (ca, s'), w') \<Longrightarrow> has_deadline s' = has_deadline s"
  by (auto simp: next_ca_ready_def Let_def split: option.splits prod.splits if_splits)

lemma next_ca_returns [returning]:
  "timely env work \<Longrightarrow> has_deadline s \<Longrightarrow> returns (handle_get_next_ca_cert env s fd w)"
  by (auto simp: handle_get_next_ca_cert_def returning next_ca_deadline split: returns_split)

lemma cert_rep_returns [returning]:
  "timely (vc_srv env) work \<Longrightarrow> has_deadline s \<Longrightarrow> returns (send_cert_rep env s fd cert target tid n st fi w)"
  by (auto simp: send_cert_rep_def Let_def returning split: returns_split)

lemma pki_failure_returns [returning]:
  "timely (vc_srv env) work \<Longrightarrow> has_deadline s \<Longrightarrow> returns (send_pki_failure env s fd tid n fi w)"
  by (simp add: send_pki_failure_def returning)

lemma failure_with_returns [returning]:
  "timely (vc_srv env) work \<Longrightarrow> has_deadline s \<Longrightarrow> returns (failure_with env s fd tid n fi rc w)"
  by (auto simp: failure_with_def returning)

lemma issue_and_reply_returns [returning]:
  "timely (vc_srv env) work \<Longrightarrow> has_deadline s \<Longrightarrow> returns (issue_and_reply env s fd csr target tid n w)"
  by (auto simp: issue_and_reply_def Let_def returning split: returns_split)

lemma park_returns [returning]:
  "timely (vc_srv env) work \<Longrightarrow> has_deadline s \<Longrightarrow> returns (park_request env s fd csr signer target tid n w)"
  by (auto simp: park_request_def Let_def returning split: returns_split)

lemma scep_enroll_returns [returning]:
  "timely (vc_srv env) work \<Longrightarrow> has_deadline s \<Longrightarrow> returns (handle_enroll env s fd mt csr signer tid n w)"
  by (auto simp: handle_enroll_def Let_def returning split: returns_split)

lemma poll_returns [returning]:
  "timely (vc_srv env) work \<Longrightarrow> has_deadline s \<Longrightarrow> returns (handle_get_cert_initial env s fd ias signer tid n w)"
  by (auto simp: handle_get_cert_initial_def Let_def returning split: prod.split if_split)

lemma get_cert_returns [returning]:
  "timely (vc_srv env) work \<Longrightarrow> has_deadline s \<Longrightarrow> returns (handle_get_cert env s fd ias target tid n w)"
  by (auto simp: handle_get_cert_def Let_def returning split: returns_split)

lemma pki_op_returns [returning]:
  "timely (vc_srv env) work \<Longrightarrow> has_deadline s \<Longrightarrow> returns (handle_pki_op env s fd body w)"
  by (auto simp: handle_pki_op_def pki_dispatch_def Let_def returning split: prod.split sum.split option.split if_split)

lemma pki_op_get_returns [returning]:
  "timely (vc_srv env) work \<Longrightarrow> has_deadline s \<Longrightarrow> returns (handle_pki_op_get env s fd q w)"
  by (auto simp: handle_pki_op_get_def Let_def returning split: returns_split)

lemma scep_dispatch_returns [returning]:
  "timely (vc_srv env) work \<Longrightarrow> has_deadline s \<Longrightarrow> returns (scep_dispatch env s fd req w)"
  by (auto simp: scep_dispatch_def Let_def returning split: returns_split)

lemma scep_handle_returns [returning]:
  "timely (vc_srv env) work \<Longrightarrow> has_deadline s \<Longrightarrow> returns (scep_handle_request env s fd w)"
  by (auto simp: scep_handle_request_def Let_def returning split: returns_split)

section \<open>Serving a request\<close>

lemma arm_deadline_has: "0 \<le> vs_mono_ms env w \<Longrightarrow> has_deadline (arm_deadline env s w)"
  by (simp add: arm_deadline_def has_deadline_def Let_def WOLFCERT_SERVER_REQUEST_TIMEOUT_MS_def)

text \<open>
  C14. Serving a request ends, whatever the client does. With the deadline that the server sets for each
  request, a clock that does not run back, socket and TLS calls that take time when they are to be repeated
  and reads that store the bytes they report, the EST and the SCEP server return from a request: a client
  that says nothing, sends one byte at a time or an endless body cannot hold either of them.
\<close>

theorem serve_returns:
  assumes "timely (ve_srv env) work" "peeks_take_time env work" "0 \<le> vs_mono_ms (ve_srv env) w"
    and "timely (vc_srv senv) swork" "0 \<le> vs_mono_ms (vc_srv senv) sw"
  shows "(\<exists>r. est_serve_fd env (arm_deadline (ve_srv env) s w) fd w = Some r) \<and>
    (\<exists>r. scep_serve_fd senv (arm_deadline (vc_srv senv) ss sw) sfd sw = Some r)"
  using est_handle_returns [OF assms(1,2) arm_deadline_has [OF assms(3)]] scep_handle_returns [OF assms(4) arm_deadline_has [OF assms(5)]]
  unfolding est_serve_fd_def scep_serve_fd_def returns_ex by blast

text \<open>A client that connects and says nothing; the world is the clock.\<close>

definition still_env :: "(byte, nat) srv_env" where
  "still_env = \<lparr>vs_alloc = (\<lambda>w. (\<lambda>_. True, w)), vs_mono_ms = int, vs_stopping = (\<lambda>w. False),
     vs_recv = (\<lambda>fd n w. ((-1, [], EAGAIN), w + 200)), vs_send = (\<lambda>fd b w. ((int (length b), 0), w)),
     vs_ssl_read = (\<lambda>n w. ((-1, []), w + 200)), vs_ssl_write = (\<lambda>b w. (-1, w + 200)), vs_ssl_get_error = (\<lambda>r w. SSL_WANT_READ),
     vs_build = small_build, vs_keys = plain_keys, vs_cert = plain_certs, vs_cms = plain_cms,
     vs_b64 = (\<lambda>b n. (0, b)), vs_b64_mime = (\<lambda>b n. (0, b)), vs_b64_dec = (\<lambda>b n. (0, b))\<rparr>"

definition still_est :: "(byte, nat) est_srv_env" where
  "still_est = \<lparr>ve_srv = still_env, ve_PHA = True, ve_KEEP_PEER_CERT = True, ve_peer_certificate = (\<lambda>w. None),
     ve_peer_finished = (\<lambda>w. []), ve_request_certificate = (\<lambda>w. (1, w)), ve_peek = (\<lambda>w. (-1, w + 200)), ve_Sha256 = (\<lambda>b. b)\<rparr>"

definition still_scep :: "(byte, nat) scep_srv_env" where
  "still_scep = \<lparr>vc_srv = still_env, vc_csr = plain_csr, vc_CertManagerNew = (\<lambda>w. (True, w)),
     vc_CertManagerLoadCABuffer = (\<lambda>b w. (1, w)), vc_CertManagerVerifyBuffer = (\<lambda>c b w. (1, w)), vc_CertManagerFree = (\<lambda>w. w),
     vc_RNG_GenerateBlock = (\<lambda>n w. ((0, replicate n 0), w)), vc_SIGNED_ATTRIBS9 = True\<rparr>"

definition still_cfg :: "unit WolfCertServerCfgSrv" where
  "still_cfg = \<lparr>cf_protocol = WOLFCERT_PROTO_EST, cf_bind_host = None, cf_bind_port = 0, cf_ca_store = None,
     cf_challenge_password = None, cf_http_basic_user = None, cf_http_basic_pass = None, cf_ca_key_type = 0, cf_ca_key_param = 0,
     cf_tls_cert_pem = None, cf_tls_key_pem = None, cf_tls_client_ca_pem = None, cf_scep_require_approval = False,
     cf_scep_enable_next_ca = False, cf_scep_enable_get_cert = False, cf_est_require_approval = False, cf_est_retry_after_sec = 0,
     cf_tls_post_handshake_auth = False, cf_csr_attributes_der = None, cf_est_require_csr_attributes = False,
     cf_est_allow_anonymous_enroll = False, cf_scep_split_ra = False\<rparr>"

definition still_server :: "(byte, unit, 'p) WolfCertServer" where
  "still_server = \<lparr>ws_cfg = still_cfg, ws_cfg_challenge = None, ws_cfg_basic_user = None, ws_cfg_basic_pass = None, ws_cfg_csr_attrs = None,
     ws_ca = zero_ca, ws_listen_fd = 3, ws_priv = None, ws_tls_ctx = False, ws_tls_current = False, ws_keep_alive = True,
     ws_poll_timeouts_armed = True, ws_deadline_ms = 0\<rparr>"

theorem serve_returns_witness:
  "(\<exists>r. est_serve_fd still_est (arm_deadline still_env still_server 5) 4 5 = Some r) \<and>
   (\<exists>r. scep_serve_fd still_scep (arm_deadline still_env still_server 5) 4 5 = Some r)"
proof -
  have "timely still_env (\<lambda>_. 0)"
    by (auto simp: timely_def retries_take_time_def reads_store_def later_def still_env_def)
  moreover have "peeks_take_time still_est (\<lambda>_. 0)"
    by (auto simp: peeks_take_time_def later_def still_est_def still_env_def)
  moreover have "0 \<le> vs_mono_ms still_env 5" by (simp add: still_env_def)
  moreover have "ve_srv still_est = still_env" "vc_srv still_scep = still_env" by (simp_all add: still_est_def still_scep_def)
  ultimately show ?thesis using serve_returns [of still_est "\<lambda>_. 0" 5 still_scep "\<lambda>_. 0" 5] by simp
qed

end
