(* ===== verification/Server_Tables.thy ===== *)
theory Server_Tables
  imports Server_Returns
begin

text \<open>
  The tables of the servers: they keep their bounds and their keys apart, whatever the clients send, and
  serving a request changes nothing else of the server but whether it keeps the connection.
\<close>

section \<open>Tables\<close>

definition est_tables :: "EstPriv \<Rightarrow> bool" where
  "est_tables p \<longleftrightarrow> length p \<le> EST_PENDING_CAP \<and> distinct (map ep_csr_hash p)"

definition scep_tables :: "'k ScepPriv \<Rightarrow> bool" where
  "scep_tables p \<longleftrightarrow>
     length (pv_entries p) \<le> SCEP_PENDING_MAX \<and> distinct (map pe_transaction_id (pv_entries p)) \<and> length (pv_certs p) \<le> SCEP_ISSUED_MAX"

text \<open>The last entry takes the place of the one that goes.\<close>

lemma map_drop_entry:
  assumes "i < length xs" "distinct (map f xs)"
  shows "distinct (map f (butlast (if i \<noteq> length xs - 1 then xs[i := last xs] else xs)))"
proof -
  obtain ys z where xs: "xs = ys @ [z]" using assms(1) by (cases xs rule: rev_cases) auto
  show ?thesis
  proof (cases "i = length ys")
    case True
    then show ?thesis using assms(2) by (simp add: xs)
  next
    case False
    then have "i < length ys" using assms(1) by (simp add: xs)
    then show ?thesis using assms(2) by (simp add: xs list_update_append map_update distinct_list_update)
  qed
qed

lemma length_drop_entry: "length (butlast (if b then xs[i := y] else xs)) \<le> length xs"
  by simp

lemma pending_find_absent: "pending_find_from i p h < 0 \<Longrightarrow> h \<notin> ep_csr_hash ` set p"
  by (induction p arbitrary: i) (auto split: if_splits)

lemma est_add_tables:
  assumes "est_tables p" "pending_find p h < 0" "pending_add p h = (added, p')"
  shows "est_tables p'"
  using assms pending_find_absent [of 0 p h] by (auto simp: est_tables_def pending_find_def pending_add_def split: if_splits)

lemma est_remove_tables:
  assumes "est_tables p"
  shows "est_tables (pending_remove p idx)"
proof (cases "idx < 0 \<or> nat idx \<ge> length p")
  case False
  then have i: "nat idx < length p" "(nat idx < length p - 1) = (nat idx \<noteq> length p - 1)" by auto
  have "pending_remove p idx = butlast (if nat idx \<noteq> length p - 1 then p[nat idx := last p] else p)"
    using False unfolding pending_remove_def i(2) by simp
  then show ?thesis using map_drop_entry [OF i(1), of ep_csr_hash] length_drop_entry [of "nat idx \<noteq> length p - 1" p] assms
    unfolding est_tables_def by (metis le_trans)
qed (use assms in \<open>simp add: pending_remove_def\<close>)

lemma scep_find_absent: "scep_pending_find p tid = None \<Longrightarrow> tid \<notin> pe_transaction_id ` set (pv_entries p)"
proof -
  assume a: "scep_pending_find p tid = None"
  let ?t = "takeWhile (\<lambda>e. pe_transaction_id e \<noteq> tid) (pv_entries p)"
  have "\<not> length ?t < length (pv_entries p)" using a by (simp add: scep_pending_find_def Let_def split: if_splits)
  then have "?t = pv_entries p" by (metis append_Nil2 length_drop append_eq_conv_conj diff_is_0_eq' length_0_conv linorder_not_less takeWhile_eq_take take_all)
  then show ?thesis using takeWhile_eq_all_conv by fastforce
qed

lemma scep_find_index: "scep_pending_find p tid = Some i \<Longrightarrow> i < length (pv_entries p)"
  by (auto simp: scep_pending_find_def Let_def split: if_splits)

lemma entries_update [simp]: "pv_entries (p\<lparr>pv_items := Some es\<rparr>) = es" "pv_certs (p\<lparr>pv_items := x\<rparr>) = pv_certs p"
  "pv_entries (p\<lparr>pv_issued := y\<rparr>) = pv_entries p" "pv_certs (p\<lparr>pv_issued := Some cs\<rparr>) = cs"
  "pv_entries (p\<lparr>pv_next_ca := n\<rparr>) = pv_entries p" "pv_certs (p\<lparr>pv_next_ca := n\<rparr>) = pv_certs p"
  by (simp_all add: pv_entries_def pv_certs_def)

lemma scep_add_tables:
  assumes "scep_tables p" "scep_pending_find p tid = None" "scep_pending_add mem p tid csr c = (rc, p')"
  shows "scep_tables p'"
  using assms scep_find_absent [OF assms(2)] by (auto simp: scep_tables_def scep_pending_add_def split: if_splits)

lemma scep_remove_tables:
  assumes "scep_tables p"
  shows "scep_tables (scep_pending_remove p i)"
proof (cases "i < length (pv_entries p)")
  case True
  let ?es = "butlast (if i \<noteq> length (pv_entries p) - 1 then (pv_entries p)[i := last (pv_entries p)] else pv_entries p)"
  have "scep_pending_remove p i = p\<lparr>pv_items := Some ?es\<rparr>" using True by (simp add: scep_pending_remove_def Let_def)
  moreover have "distinct (map pe_transaction_id ?es)" using map_drop_entry [OF True] assms unfolding scep_tables_def by blast
  moreover have "length ?es \<le> SCEP_PENDING_MAX"
    using length_drop_entry [of "i \<noteq> length (pv_entries p) - 1" "pv_entries p"] assms unfolding scep_tables_def by (metis le_trans)
  ultimately show ?thesis using assms by (simp add: scep_tables_def del: length_butlast)
qed (use assms in \<open>simp add: scep_pending_remove_def Let_def\<close>)

lemma scep_poll_tables:
  assumes "scep_tables p" "i < length (pv_entries p)"
  shows "scep_tables (p\<lparr>pv_items := Some ((pv_entries p)[i := (pv_entries p ! i)\<lparr>pe_polls := n\<rparr>])\<rparr>)"
proof -
  have "map pe_transaction_id ((pv_entries p)[i := (pv_entries p ! i)\<lparr>pe_polls := n\<rparr>]) = map pe_transaction_id (pv_entries p)"
    using assms(2) by (simp add: map_update list_update_same_conv)
  then show ?thesis using assms(1) by (simp add: scep_tables_def)
qed

lemma scep_record_tables: "scep_tables p \<Longrightarrow> scep_tables (snd (issued_record mem p c))"
  by (auto simp: scep_tables_def issued_record_def Let_def SCEP_ISSUED_MAX_def)

section \<open>What a request leaves\<close>

text \<open>\<open>kept T s0 s\<close>: the configuration and the CA are those of \<open>s0\<close>, and the tables are in order.\<close>

definition kept :: "('p \<Rightarrow> bool) \<Rightarrow> ('k, 's, 'p) WolfCertServer \<Rightarrow> ('k, 's, 'p) WolfCertServer \<Rightarrow> bool" where
  "kept T s0 s \<longleftrightarrow> s = s0\<lparr>ws_priv := ws_priv s, ws_keep_alive := ws_keep_alive s\<rparr> \<and> (\<forall>p. ws_priv s = Some p \<longrightarrow> T p)"

definition leaves :: "('s \<Rightarrow> bool) \<Rightarrow> ((wc_rc \<times> 's) \<times> 'w) option \<Rightarrow> bool" where
  "leaves I x \<longleftrightarrow> (\<forall>rc s w. x = Some ((rc, s), w) \<longrightarrow> I s)"

lemma kept_update [simp]:
  "kept T s0 s \<Longrightarrow> kept T s0 (s\<lparr>ws_keep_alive := b\<rparr>)"
  "kept T s0 s \<Longrightarrow> kept T s0 (s\<lparr>ws_priv := Some p\<rparr>) = T p"
  unfolding kept_def by (cases s, cases s0, simp)+

lemma kept_priv: "kept T s0 s \<Longrightarrow> ws_priv s = Some p \<Longrightarrow> T p"
  by (simp add: kept_def)

lemma leaves_Some [simp]: "leaves I (Some ((rc, s), w)) = I s"
  by (auto simp: leaves_def)

lemma leaves_bind [intro!]: "(\<And>y. x = Some y \<Longrightarrow> leaves I (f y)) \<Longrightarrow> leaves I (Option.bind x f)"
  by (cases x) (auto simp: leaves_def)

lemmas leaves_split = prod.split sum.split option.split list.split if_split

named_theorems leaving

section \<open>The EST server\<close>

lemma refuse_leaves [leaving]: "kept T s0 s \<Longrightarrow> leaves (kept T s0) (est_refuse env s fd status phrase why rc w)"
  by (auto simp: est_refuse_def)

lemma est_issue_leaves [leaving]: "kept T s0 s \<Longrightarrow> leaves (kept T s0) (est_issue env s fd csr w)"
  by (auto simp: est_issue_def leaving split: leaves_split)

lemma est_approve_leaves [leaving]:
  assumes k: "kept est_tables s0 s"
  shows "leaves (kept est_tables s0) (est_approve env s fd re csr w)"
proof (cases "if cf_est_require_approval (ws_cfg s) then ws_priv s else None")
  case None
  then show ?thesis using k by (simp add: est_approve_def leaving)
next
  case (Some p)
  then have p: "est_tables p" using kept_priv [OF k] by (simp split: if_splits)
  obtain added p' where a: "pending_add p (sha256_bytes env csr) = (added, p')" by (rule prod.exhaust)
  obtain rc v where c: "(if re then (WOLFCERT_OK, w) else wolfcert_csr_verify (vs_keys (ve_srv env)) (vs_cert (ve_srv env)) csr w) = (rc, v)"
    by (rule prod.exhaust)
  have n: "pending_find p (sha256_bytes env csr) < 0 \<Longrightarrow> kept est_tables s0 (s\<lparr>ws_priv := Some p'\<rparr>)"
    using est_add_tables [OF p _ a] k by simp
  have r: "kept est_tables s0 (s\<lparr>ws_priv := Some (pending_remove p i)\<rparr>)" for i using est_remove_tables [OF p] k by simp
  show ?thesis using k n r by (simp add: est_approve_def Let_def Some c a leaving) (auto simp: leaving)
qed

lemma est_policy_leaves [leaving]:
  "kept est_tables s0 s \<Longrightarrow> leaves (kept est_tables s0) (est_policy env s fd re csr w)"
  by (auto simp: est_policy_def leaving split: leaves_split)

lemma est_renewal_leaves [leaving]:
  "kept est_tables s0 s \<Longrightarrow> leaves (kept est_tables s0) (est_renewal env s fd re csr w)"
  by (auto simp: est_renewal_def leaving split: leaves_split)

lemma est_enroll_leaves [leaving]:
  "kept est_tables s0 s \<Longrightarrow> leaves (kept est_tables s0) (handler_enroll env s fd req re w)"
  by (auto simp: handler_enroll_def Let_def leaving split: leaves_split)

lemma est_dispatch_leaves [leaving]:
  "kept est_tables s0 s \<Longrightarrow> leaves (kept est_tables s0) (est_dispatch env s fd req w)"
  by (auto simp: est_dispatch_def Let_def leaving split: leaves_split)

lemma est_handle_leaves:
  "kept est_tables s0 s \<Longrightarrow> leaves (kept est_tables s0) (handle_request env s fd w)"
  by (auto simp: handle_request_def Let_def leaving split: leaves_split)

section \<open>The SCEP server\<close>

text \<open>The SCEP server has its tables from its start on.\<close>

definition scep_kept :: "('k, 's) scep_server \<Rightarrow> ('k, 's) scep_server \<Rightarrow> bool" where
  "scep_kept s0 s \<longleftrightarrow> kept scep_tables s0 s \<and> ws_priv s \<noteq> None"

lemma scep_kept_update [simp]:
  "scep_kept s0 s \<Longrightarrow> scep_kept s0 (s\<lparr>ws_keep_alive := b\<rparr>)"
  "scep_kept s0 s \<Longrightarrow> scep_kept s0 (s\<lparr>ws_priv := Some p\<rparr>) = scep_tables p"
  by (simp_all add: scep_kept_def)

lemma scep_kept_priv: "scep_kept s0 s \<Longrightarrow> scep_tables (scep_priv s)"
  by (auto simp: scep_kept_def dest: kept_priv)

lemma leavesD: "leaves I x \<Longrightarrow> x = Some ((rc, s), w) \<Longrightarrow> I s"
  by (auto simp: leaves_def)

lemma plain_leaves [leaving]: "I s \<Longrightarrow> leaves I (scep_plain env s fd status phrase rc w)"
  by (auto simp: scep_plain_def)

lemma get_next_ca_leaves:
  assumes k: "scep_kept s0 s" and r: "handle_get_next_ca_cert env s fd w = Some (s', w')"
  shows "scep_kept s0 s'"
proof -
  have n: "scep_kept s0 s2" if "next_ca_ready env s w = (Some (ca, s2), v)" for ca s2 v
    using that k scep_kept_priv [OF k]
    by (auto simp: next_ca_ready_def Let_def scep_tables_def split: option.splits prod.splits if_splits)
  show ?thesis using r k
    by (auto simp: handle_get_next_ca_cert_def dest: n split: prod.splits option.splits if_splits sum.splits bind_splits)
qed

lemma cert_rep_leaves [leaving]: "I s \<Longrightarrow> leaves I (send_cert_rep env s fd cert target tid n st fi w)"
  by (auto simp: send_cert_rep_def Let_def leaving split: leaves_split)

lemma pki_failure_leaves [leaving]: "I s \<Longrightarrow> leaves I (send_pki_failure env s fd tid n fi w)"
  by (simp add: send_pki_failure_def leaving)

lemma failure_with_leaves [leaving]: "I (s\<lparr>ws_keep_alive := False\<rparr>) \<Longrightarrow> leaves I (failure_with env s fd tid n fi rc w)"
  by (auto simp: failure_with_def dest: leavesD [OF pki_failure_leaves, where I = I, rotated])

lemma issue_leaves:
  assumes k: "scep_kept s0 s" and r: "issue_and_reply env s fd csr target tid n w = Some (b, (rc, s'), w')"
  shows "scep_kept s0 s'"
proof -
  have p: "scep_kept s0 (s\<lparr>ws_priv := Some (snd (issued_record mem (scep_priv s) c))\<rparr>)" for mem c
    using k scep_record_tables [OF scep_kept_priv [OF k]] by simp
  have q: "scep_kept s0 s'" if "send_cert_rep env t fd c target tid n st fi v = Some ((rc, s'), w')" "scep_kept s0 t" for t c st fi v
    by (rule leavesD [OF cert_rep_leaves [where I = "scep_kept s0", OF that(2)] that(1)])
  show ?thesis using r k
    by (auto simp: issue_and_reply_def Let_def split: prod.splits sum.splits if_splits
        dest: q leavesD [OF plain_leaves, where I = "scep_kept s0", rotated] leavesD [OF failure_with_leaves, where I = "scep_kept s0", rotated]
        intro: p)
qed

lemma issue_map_leaves [leaving]: "scep_kept s0 s \<Longrightarrow> leaves (scep_kept s0) (map_option snd (issue_and_reply env s fd csr target tid n w))"
  by (auto simp: leaves_def intro: issue_leaves)

lemma park_leaves [leaving]:
  assumes k: "scep_kept s0 s"
  shows "leaves (scep_kept s0) (park_request env s fd csr signer target tid n w)"
proof -
  have a: "scep_kept s0 (s\<lparr>ws_priv := Some p\<rparr>)"
    if "scep_pending_find (scep_priv s) tid = None" "scep_pending_add mem (scep_priv s) tid csr c = (rc, p)" for mem c rc p
    using k scep_add_tables [OF scep_kept_priv [OF k] that] by simp
  show ?thesis
  proof (cases "scep_pending_find (scep_priv s) tid")
    case None
    show ?thesis using k unfolding park_request_def Let_def None option.case
      by (auto split: prod.split if_split intro: leaving a [OF None])
  next
    case (Some i)
    show ?thesis using k unfolding park_request_def Let_def Some option.case by (auto split: prod.split if_split intro: leaving)
  qed
qed

lemma scep_enroll_leaves [leaving]:
  "scep_kept s0 s \<Longrightarrow> leaves (scep_kept s0) (handle_enroll env s fd mt csr signer tid n w)"
  by (auto simp: handle_enroll_def Let_def leaving split: prod.split if_split)

lemma poll_leaves [leaving]:
  assumes k: "scep_kept s0 s"
  shows "leaves (scep_kept s0) (handle_get_cert_initial env s fd ias signer tid n w)"
proof (cases "scep_pending_find (scep_priv s) tid")
  case None
  then show ?thesis using k by (auto simp: handle_get_cert_initial_def poll_named_def Let_def leaving split: prod.split if_split)
next
  case (Some i)
  note u = scep_poll_tables [OF scep_kept_priv [OF k] scep_find_index [OF Some]]
  have r: "scep_tables (scep_pending_remove (scep_priv s2) i)" if "scep_kept s0 s2" for s2
    by (rule scep_remove_tables [OF scep_kept_priv [OF that]])
  show ?thesis using k u unfolding handle_get_cert_initial_def Let_def Some option.map option.sel
    by (auto split: prod.split if_split simp: leaving dest!: issue_leaves [rotated, where ?s0.0 = s0] intro: r)
qed

lemma get_cert_leaves [leaving]:
  "scep_kept s0 s \<Longrightarrow> leaves (scep_kept s0) (handle_get_cert env s fd ias target tid n w)"
  by (auto simp: handle_get_cert_def Let_def leaving split: leaves_split)

lemma pki_op_leaves [leaving]:
  "scep_kept s0 s \<Longrightarrow> leaves (scep_kept s0) (handle_pki_op env s fd body w)"
  by (auto simp: handle_pki_op_def pki_dispatch_def Let_def leaving split: prod.split sum.split option.split if_split)

lemma pki_op_get_leaves [leaving]:
  "scep_kept s0 s \<Longrightarrow> leaves (scep_kept s0) (handle_pki_op_get env s fd q w)"
  by (auto simp: handle_pki_op_get_def Let_def leaving split: leaves_split)

lemma scep_dispatch_leaves [leaving]:
  "scep_kept s0 s \<Longrightarrow> leaves (scep_kept s0) (scep_dispatch env s fd req w)"
  by (auto simp: scep_dispatch_def Let_def leaving get_next_ca_leaves split: leaves_split)

lemma scep_handle_leaves:
  "scep_kept s0 s \<Longrightarrow> leaves (scep_kept s0) (scep_handle_request env s fd w)"
  by (auto simp: scep_handle_request_def Let_def leaving split: leaves_split)

section \<open>Every state of a server\<close>

text \<open>The states of a server between requests: it starts, and serves requests on connections with or without TLS.\<close>

definition on_connection :: "('k, 's, 'p) WolfCertServer \<Rightarrow> bool \<Rightarrow> bool \<Rightarrow> int \<Rightarrow> ('k, 's, 'p) WolfCertServer" where
  "on_connection s tls armed d = s\<lparr>ws_tls_current := tls, ws_keep_alive := True, ws_poll_timeouts_armed := armed, ws_deadline_ms := d\<rparr>"

lemma on_connection_same [simp]: "ws_priv (on_connection s t a d) = ws_priv s" "ws_cfg (on_connection s t a d) = ws_cfg s"
  "ws_ca (on_connection s t a d) = ws_ca s"
  by (simp_all add: on_connection_def)

inductive est_state :: "('k, 'w) est_srv_env \<Rightarrow> ('k, 's) est_server \<Rightarrow> ('k, 's) est_server \<Rightarrow> bool" for env base where
  est_started: "est_start (ve_srv env) cfg base w = ((WOLFCERT_OK, s), w') \<Longrightarrow> est_state env base s"
| est_served: "est_state env base s \<Longrightarrow>
    est_serve_fd env (on_connection s t a d) fd w = Some ((rc, s'), w') \<Longrightarrow> est_state env base s'"

inductive scep_state :: "('k, 'w) scep_srv_env \<Rightarrow> ('k, 's) scep_server \<Rightarrow> ('k, 's) scep_server \<Rightarrow> bool" for env base where
  scep_started: "scep_start env cfg base w = ((WOLFCERT_OK, s), w') \<Longrightarrow> scep_state env base s"
| scep_served: "scep_state env base s \<Longrightarrow>
    scep_serve_fd env (on_connection s t a d) fd w = Some ((rc, s'), w') \<Longrightarrow> scep_state env base s'"

lemma kept_refl: "(\<And>p. ws_priv s = Some p \<Longrightarrow> T p) \<Longrightarrow> kept T s s"
  by (simp add: kept_def)

lemma kept_same: "kept T s0 s \<Longrightarrow> ws_cfg s = ws_cfg s0 \<and> ws_ca s = ws_ca s0 \<and> (\<forall>p. ws_priv s = Some p \<longrightarrow> T p)"
  unfolding kept_def by (cases s, cases s0, simp)

lemma scep_start_tables:
  assumes "scep_start env cfg base w = ((WOLFCERT_OK, s), w')"
  shows "ws_cfg s = ws_cfg base \<and> ws_ca s = ws_ca base \<and> (\<exists>p. ws_priv s = Some p \<and> scep_tables p)"
proof -
  let ?p0 = "\<lparr>pv_items = None, pv_issued = None, pv_next_ca = None, pv_ra = None, pv_ca_ra_bundle = None\<rparr>"
  have e: "pv_items p = None \<Longrightarrow> pv_issued p = None \<Longrightarrow> scep_tables p" for p :: "'a ScepPriv"
    by (simp add: scep_tables_def pv_entries_def pv_certs_def)
  obtain mem w1 where m: "vs_alloc (vc_srv env) w = (mem, w1)" by (rule prod.exhaust)
  obtain rc p w2 where r: "make_split_ra env base ?p0 w1 = ((rc, p), w2)" by (metis surj_pair)
  have "pv_items p = None \<and> pv_issued p = None"
    using r by (auto simp: make_split_ra_def Let_def split: prod.splits sum.splits)
  then show ?thesis using assms e [of p] e [of ?p0] by (auto simp: scep_start_def Let_def m r split: if_splits)
qed

text \<open>
  C15. The tables of the servers are well-formed in every state that requests can bring a server to: the
  EST queue has at most 8 entries with distinct hashes, the SCEP queue at most 16 entries with distinct
  transaction identifiers, the registry of issued certificates at most 16, the SCEP server has its tables,
  and no request has changed the configuration or the CA.
\<close>

theorem server_tables:
  assumes "est_state env base s" "ws_priv base = None" and "scep_state senv sbase ss"
  shows "(\<forall>p. ws_priv s = Some p \<longrightarrow> length p \<le> 8 \<and> distinct (map ep_csr_hash p)) \<and> ws_cfg s = ws_cfg base \<and> ws_ca s = ws_ca base \<and>
    (\<exists>p. ws_priv ss = Some p \<and> length (pv_entries p) \<le> 16 \<and> distinct (map pe_transaction_id (pv_entries p)) \<and> length (pv_certs p) \<le> 16) \<and>
    ws_cfg ss = ws_cfg sbase \<and> ws_ca ss = ws_ca sbase"
proof -
  have "ws_cfg s = ws_cfg base \<and> ws_ca s = ws_ca base \<and> (\<forall>p. ws_priv s = Some p \<longrightarrow> est_tables p)"
    using assms(1)
  proof (induction rule: est_state.induct)
    case (est_started cfg w s w')
    then show ?case using assms(2) by (auto simp: est_start_def est_tables_def split: if_splits prod.splits)
  next
    case (est_served s t a d fd w rc s' w')
    let ?s = "on_connection s t a d"
    have "kept est_tables ?s ?s" using est_served(3) by (intro kept_refl) simp
    from kept_same [OF leavesD [OF est_handle_leaves [OF this] est_served(2) [unfolded est_serve_fd_def]]] show ?case
      using est_served(3) by simp
  qed
  moreover have "ws_cfg ss = ws_cfg sbase \<and> ws_ca ss = ws_ca sbase \<and> (\<exists>p. ws_priv ss = Some p \<and> scep_tables p)"
    using assms(3)
  proof (induction rule: scep_state.induct)
    case (scep_started cfg w s w')
    then show ?case by (rule scep_start_tables)
  next
    case (scep_served s t a d fd w rc s' w')
    let ?s = "on_connection s t a d"
    have "scep_kept ?s ?s" using scep_served(3) unfolding scep_kept_def by (auto intro!: kept_refl)
    from leavesD [OF scep_handle_leaves [OF this] scep_served(2) [unfolded scep_serve_fd_def]]
    have "kept scep_tables ?s s'" "ws_priv s' \<noteq> None" by (simp_all add: scep_kept_def)
    from kept_same [OF this(1)] this(2) show ?case using scep_served(3) by auto
  qed
  ultimately show ?thesis
    by (auto simp: est_tables_def scep_tables_def EST_PENDING_CAP_def SCEP_PENDING_MAX_def SCEP_ISSUED_MAX_def)
qed

text \<open>A client posts a request to an EST server that asks for approval.\<close>

definition post_text :: "byte list" where
  "post_text = lit ''POST /simpleenroll HTTP/1.1'' @ CRLF @ lit ''Content-Length: 7'' @ CRLF @ CRLF @ [0x30, 5, 0, 3, 3, 9, 0]"

definition post_est :: "(byte, nat) est_srv_env" where
  "post_est = still_est\<lparr>ve_srv := still_env\<lparr>vs_recv := (\<lambda>fd n w. ((int (length post_text), post_text, 0), w + 1))\<rparr>\<rparr>"

definition post_server :: "(byte, unit) est_server" where
  "post_server = still_server\<lparr>ws_cfg := still_cfg\<lparr>cf_est_require_approval := True, cf_est_allow_anonymous_enroll := True\<rparr>\<rparr>"

lemma post_run:
  "case est_start (ve_srv post_est) (ws_cfg post_server) post_server 0 of ((rc, s), w) \<Rightarrow> rc = WOLFCERT_OK \<and>
     (case est_serve_fd post_est (on_connection s False True 10000) 4 w of None \<Rightarrow> False | Some ((rc, s), w) \<Rightarrow> map_option length (ws_priv s) = Some 1)"
  by code_simp

lemma still_run:
  "case scep_start still_scep still_cfg still_server 0 of ((rc, s), w) \<Rightarrow> rc = WOLFCERT_OK"
  by code_simp

theorem server_tables_witness:
  "\<exists>s p ss. est_state post_est post_server s \<and> ws_priv s = Some p \<and> length p = 1 \<and> distinct (map ep_csr_hash p) \<and>
     scep_state still_scep still_server ss \<and> ws_priv ss \<noteq> None"
proof -
  obtain s0 w0 where a: "est_start (ve_srv post_est) (ws_cfg post_server) post_server 0 = ((WOLFCERT_OK, s0), w0)"
    "case est_serve_fd post_est (on_connection s0 False True 10000) 4 w0 of None \<Rightarrow> False | Some ((rc, s), w) \<Rightarrow> map_option length (ws_priv s) = Some 1"
    using post_run by (auto split: prod.splits)
  then obtain rc s w p where b: "est_serve_fd post_est (on_connection s0 False True 10000) 4 w0 = Some ((rc, s), w)" "ws_priv s = Some p" "length p = 1"
    by (auto split: option.splits prod.splits)
  obtain ss w1 where c: "scep_start still_scep still_cfg still_server 0 = ((WOLFCERT_OK, ss), w1)"
    using still_run by (auto split: prod.splits)
  have e: "est_state post_est post_server s" by (rule est_state.est_served [OF est_state.est_started [OF a(1)] b(1)])
  have f: "scep_state still_scep still_server ss" by (rule scep_state.scep_started [OF c])
  have "ws_priv post_server = None" by (simp add: post_server_def still_server_def)
  from server_tables [OF e this f] show ?thesis using e f b by auto
qed

end
