(* ===== verification/Spec2Isabelle.thy ===== *)
theory Spec2Isabelle
  imports Ip Csr_Attrs Store Client Server_Run Est_Auth Scep_Auth Server_Tables
begin

text \<open>
  This library verifies wolfCert, the certificate-enrolment library in \<open>src/\<close>: clients for EST (RFC 7030)
  and SCEP (RFC 8894) over an HTTP client of its own, test servers for both protocols with a small CA, and
  what they share: keys, certificate requests, CMS messages and stores. Each theory translates the files
  named below function by function, under the names of the source, and proves what the rest of the program
  relies on.

  \<^bold>\<open>Conventions.\<close> A byte is an \<open>8 word\<close>, a C string a byte list without its terminating zero, a buffer with
  its length a byte list, \<open>size_t\<close> a natural number with the wrap-around written out where a sum may
  overflow (\<open>size_add\<close>). A struct is a record and an enum a datatype. A return code with an output is
  \<open>wc_rc + 'a\<close>, with \<open>Err\<close> and \<open>Ok\<close>; a pointer that may be null is an option. A function with effects takes
  the world \<open>'w\<close> and returns it. What is not in \<open>src/\<close>, that is wolfSSL, sockets, files, clock and allocator,
  is a record of functions given to the definitions (\<open>http_env\<close>, \<open>tls_lib\<close>, \<open>wolf_keys\<close>, \<open>wolf_cms\<close>,
  \<open>cert_lib\<close>, \<open>csr_lib\<close>, \<open>fs_env\<close>, \<open>srv_env\<close>, \<open>srv_sys\<close>), and what a theorem needs of it is a hypothesis with
  a name. Every allocation may fail: \<open>mem\<close> says which do. Releasing memory does not show in values, but
  releasing objects of wolfSSL does, since these calls act on the world.

  \<^bold>\<open>Shared helpers.\<close> \<open>Prelude\<close> has the vocabulary and the generic lemmas, \<open>Cstring\<close> the C string functions,
  \<open>Internal\<close> the helpers of \<open>src/internal.c\<close> and \<open>src/errors.c\<close>, \<open>Ip\<close> the address parser, which accepts exactly
  the texts of the standard grammar, and \<open>Der\<close> the element readers and writers.

  \<^bold>\<open>HTTP client\<close>, \<open>src/http.c\<close>. \<open>Http_Header\<close>, \<open>Http_Url\<close>, \<open>Http_Date\<close> and \<open>Http_Chunked\<close> hold the parsers, each
  with a specification of the texts it accepts; chunked bodies are decoded in place, and the scanner gives
  the same result however the data arrive. \<open>Http_Session\<close> has the session: the request state machine
  \<open>sm_step\<close>, its loop \<open>sm_run\<close>, opening, closing and the one-shot call. \<open>Http_Transcript\<close> gives the machine as a
  transition relation labelled with the bytes that move, \<open>Http_Exchange\<close> shows that a successful request put
  its text on the wire and reports the response on the wire, that the buffers keep their bounds and that a
  failed session is never used again, \<open>Http_Conn\<close> that connections are given back, and \<open>Http_Flight\<close> is the
  interface that the protocol clients build on.

  \<^bold>\<open>Keys, requests, messages, stores.\<close> \<open>Key_Algs\<close> has the dispatch table of \<open>src/key_algs.c\<close> and \<open>src/keygen.c\<close>,
  with the balance of the objects of wolfSSL and the PEM round trip; \<open>Csr\<close> has \<open>src/csr.c\<close>, \<open>Csr_Attrs\<close>
  \<open>src/est/csr_attrs.c\<close> with the round trip of the encoding, \<open>Cms\<close> the certs-only messages of \<open>src/pkcs7_util.c\<close>,
  and \<open>Store\<close> both backends of \<open>src/store.c\<close>: a write to a file replaces exactly that file or changes nothing.

  \<^bold>\<open>EST client\<close>, \<open>src/est/est_client.c\<close>, in \<open>Est_Client\<close>: sessions, blocking and non-blocking calls and one-shot
  calls; an enrolment runs over verified TLS, has one request at a time, sends the request and returns the
  certificates of the answer, with a status that agrees with the return code.

  \<^bold>\<open>SCEP client\<close>, \<open>src/scep/scep_msg.c\<close> and \<open>src/scep/scep_client.c\<close>. \<open>Scep_Msg\<close> builds and parses messages, with
  their round trips; \<open>Scep_Trust\<close> has the choice of the recipient and the check of the signer; \<open>Scep_Client\<close> has the
  session, which accepts a reply only for its own transaction and nonce and from a key of the CA bundle.

  \<^bold>\<open>Facade\<close>, \<open>src/client.c\<close>, in \<open>Client\<close>: the enrolment call returns a fresh key and the certificate for it, or
  leaves its outputs alone and releases what it made. \<open>Client_Cfg\<close> has the configuration, \<open>Client_Script\<close> a
  scripted peer for runs on concrete inputs.

  \<^bold>\<open>Servers.\<close> \<open>Ca_Issue\<close> has the CA of \<open>src/ca_issue.c\<close>, \<open>Server\<close> and \<open>Server_Http\<close> the reading, writing and framing of
  \<open>src/server.c\<close> and of the two request readers, \<open>Est_Server\<close> and \<open>Scep_Server\<close> the protocols, \<open>Server_Run\<close> starting,
  running and freeing a server. \<open>Server_Sign\<close>, \<open>Est_Auth\<close> and \<open>Scep_Auth\<close> show that a request makes the CA sign only
  when it is authorised: everything else a server does is the same for every signing function.
  \<open>Server_Tables\<close> shows that the queues and the registry keep their bounds and their keys apart, and
  \<open>Server_Returns\<close> that serving a request always ends.

  \<^bold>\<open>Loops.\<close> Loops over data are total functions, and so is the loop of the HTTP state machine, by a measure that
  every step decreases. The two loops of \<open>Ca_Issue\<close> over extensions that wolfSSL parses have fuel, the number
  of bytes left, which is enough since a round that goes on has read a header. The loops of the stores and
  the servers that wait for the system are partial functions into \<open>option\<close>, where \<open>None\<close> is a call that does not return; that they return is
  \<open>posix_write_returns\<close> and \<open>serve_returns\<close>. The loop over connections of \<open>wolfcert_server_run\<close> and that over the
  requests of one connection are not bounded by the program.

  \<^bold>\<open>Not modelled.\<close> \<open>src/net_posix.c\<close> implements the transport callbacks with system calls, and the model has
  the callbacks as parameters. \<open>src/wolfcert.c\<close> and \<open>src/version.c\<close> initialise wolfSSL, release buffers and
  give the version. The command line tools in \<open>src/cli/\<close>, the examples and the Zephyr sample only call the
  library. Fault injection of the SCEP test server and log texts are left out, and threads too: a session
  or server is used by one thread at a time, and the stop flag is part of the world.
\<close>

end
